(* ===== verification/Go_Prelude.thy ===== *)
theory Go_Prelude
  imports Main "HOL-Library.Word"
begin

unbundle bit_operations_syntax

text \<open>
  Prelude of the development: the parts of Go and of its standard library that the modelled
  packages share.  It fixes the types (bytes, strings, instants, durations), the functions of
  the packages \<^verbatim>\<open>strings\<close> and \<^verbatim>\<open>strconv\<close> that the sources call, and the generic lemmas about
  them that the component theories use through the simplifier.

  A Go string is a sequence of bytes, which is what \<^typ>\<open>string\<close> is (each \<^typ>\<open>char\<close> is one of
  256 bytes).  An instant (\<^verbatim>\<open>time.Time\<close>) is the number of nanoseconds since the Unix epoch and a
  \<^verbatim>\<open>time.Duration\<close> is a number of nanoseconds, both as \<^typ>\<open>int\<close>.
\<close>

named_theorems go_str \<open>facts about the string functions, used to evaluate parsers\<close>

section \<open>Types\<close>

type_synonym byte = "8 word"
type_synonym instant = int
type_synonym duration = int

definition second :: duration where "second = 1000000000"
definition minute :: duration where "minute = 60 * second"
definition hour :: duration where "hour = 60 * minute"

text \<open>\<^verbatim>\<open>t.Unix()\<close>: whole seconds since the epoch (rounding down, as Go keeps a non-negative
  nanosecond part).\<close>

definition unix :: "instant \<Rightarrow> int" where
  "unix t = t div second"

text \<open>\<^verbatim>\<open>time.Unix(s, 0)\<close>.\<close>

definition from_unix :: "int \<Rightarrow> instant" where
  "from_unix s = s * second"

lemma second_pos [simp]: "0 < second"
  by (simp add: second_def)

lemma unix_mono: "s \<le> t \<Longrightarrow> unix s \<le> unix t"
  by (simp add: unix_def zdiv_mono1)

lemma unix_from_unix [simp]: "unix (from_unix s) = s"
  by (simp add: unix_def from_unix_def second_def)

lemma unix_add_seconds: "unix (t + n * second) = unix t + n"
  by (simp add: unix_def second_def)

lemma from_unix_unix_le: "from_unix (unix t) \<le> t"
  by (simp add: unix_def from_unix_def second_def)

section \<open>The package strings\<close>

definition has_prefix :: "string \<Rightarrow> string \<Rightarrow> bool" where
  "has_prefix s p \<longleftrightarrow> take (length p) s = p"

definition has_suffix :: "string \<Rightarrow> string \<Rightarrow> bool" where
  "has_suffix s p \<longleftrightarrow> length p \<le> length s \<and> drop (length s - length p) s = p"

definition trim_prefix :: "string \<Rightarrow> string \<Rightarrow> string" where
  "trim_prefix s p = (if has_prefix s p then drop (length p) s else s)"

definition trim_suffix :: "string \<Rightarrow> string \<Rightarrow> string" where
  "trim_suffix s p = (if has_suffix s p then take (length s - length p) s else s)"

text \<open>\<^verbatim>\<open>strings.Contains\<close>.\<close>

fun str_contains :: "string \<Rightarrow> string \<Rightarrow> bool" where
  "str_contains [] p = (p = [])"
| "str_contains (c # s) p = (has_prefix (c # s) p \<or> str_contains s p)"

text \<open>\<^verbatim>\<open>strings.LastIndex\<close>, with \<^const>\<open>None\<close> for the result -1.\<close>

fun last_index_from :: "nat \<Rightarrow> string \<Rightarrow> string \<Rightarrow> nat option" where
  "last_index_from i [] p = (if p = [] then Some i else None)"
| "last_index_from i (c # s) p =
     (case last_index_from (Suc i) s p of
        Some j \<Rightarrow> Some j
      | None \<Rightarrow> if has_prefix (c # s) p then Some i else None)"

definition last_index :: "string \<Rightarrow> string \<Rightarrow> nat option" where
  "last_index s p = last_index_from 0 s p"

text \<open>\<^verbatim>\<open>strings.Cut\<close> at a one-byte separator: the parts around its first occurrence.\<close>

fun str_cut :: "char \<Rightarrow> string \<Rightarrow> (string \<times> string) option" where
  "str_cut c [] = None"
| "str_cut c (x # xs) =
     (if x = c then Some ([], xs)
      else case str_cut c xs of None \<Rightarrow> None | Some (a, b) \<Rightarrow> Some (x # a, b))"

text \<open>\<^verbatim>\<open>strings.SplitN(s, c, n)\<close> for a one-byte separator and \<open>n \<ge> 1\<close> pieces at most.\<close>

fun split_n :: "nat \<Rightarrow> char \<Rightarrow> string \<Rightarrow> string list" where
  "split_n 0 c s = []"
| "split_n (Suc 0) c s = [s]"
| "split_n (Suc (Suc n)) c s =
     (case str_cut c s of None \<Rightarrow> [s] | Some (a, b) \<Rightarrow> a # split_n (Suc n) c b)"

text \<open>\<^verbatim>\<open>strings.Split(s, c)\<close> for a one-byte separator.\<close>

fun split_all :: "char \<Rightarrow> string \<Rightarrow> string list" where
  "split_all c [] = [[]]"
| "split_all c (x # xs) =
     (if x = c then [] # split_all c xs
      else case split_all c xs of [] \<Rightarrow> [[x]] | w # ws \<Rightarrow> (x # w) # ws)"

text \<open>\<^verbatim>\<open>strings.Join(parts, sep)\<close>.\<close>

fun join :: "string \<Rightarrow> string list \<Rightarrow> string" where
  "join sep [] = []"
| "join sep [w] = w"
| "join sep (w # ws) = w @ sep @ join sep ws"

text \<open>White space of \<^verbatim>\<open>strings.Fields\<close> and \<^verbatim>\<open>strings.TrimSpace\<close> on ASCII text.\<close>

definition is_space :: "char \<Rightarrow> bool" where
  "is_space c \<longleftrightarrow> of_char c \<in> {9, 10, 11, 12, 13, 32 :: nat}"

fun fields_acc :: "string \<Rightarrow> string \<Rightarrow> string list" where
  "fields_acc w [] = (if w = [] then [] else [rev w])"
| "fields_acc w (c # s) =
     (if is_space c then (if w = [] then fields_acc [] s else rev w # fields_acc [] s)
      else fields_acc (c # w) s)"

definition fields :: "string \<Rightarrow> string list" where
  "fields s = fields_acc [] s"

definition trim_space :: "string \<Rightarrow> string" where
  "trim_space s = rev (dropWhile is_space (rev (dropWhile is_space s)))"

definition to_lower_char :: "char \<Rightarrow> char" where
  "to_lower_char c =
     (if 65 \<le> (of_char c :: nat) \<and> (of_char c :: nat) \<le> 90
      then char_of (of_char c + 32 :: nat) else c)"

definition to_upper_char :: "char \<Rightarrow> char" where
  "to_upper_char c =
     (if 97 \<le> (of_char c :: nat) \<and> (of_char c :: nat) \<le> 122
      then char_of (of_char c - 32 :: nat) else c)"

text \<open>\<^verbatim>\<open>strings.ToLower\<close> and \<^verbatim>\<open>strings.ToUpper\<close> on ASCII text.\<close>

definition to_lower :: "string \<Rightarrow> string" where
  "to_lower s = map to_lower_char s"

definition to_upper :: "string \<Rightarrow> string" where
  "to_upper s = map to_upper_char s"

section \<open>The package strconv\<close>

definition is_digit :: "char \<Rightarrow> bool" where
  "is_digit c \<longleftrightarrow> 48 \<le> (of_char c :: nat) \<and> (of_char c :: nat) \<le> 57"

definition digit_val :: "char \<Rightarrow> nat" where
  "digit_val c = of_char c - 48"

definition digit_char :: "nat \<Rightarrow> char" where
  "digit_char d = char_of (48 + d)"

text \<open>The decimal digits of a number, as \<^verbatim>\<open>strconv.Itoa\<close> prints them.\<close>

fun show_nat :: "nat \<Rightarrow> string" where
  "show_nat n = (if n < 10 then [digit_char n] else show_nat (n div 10) @ [digit_char (n mod 10)])"

declare show_nat.simps [simp del]

definition itoa :: "int \<Rightarrow> string" where
  "itoa i = (if i < 0 then CHR ''-'' # show_nat (nat (- i)) else show_nat (nat i))"

fun read_nat :: "nat \<Rightarrow> string \<Rightarrow> nat" where
  "read_nat acc [] = acc"
| "read_nat acc (c # s) = read_nat (10 * acc + digit_val c) s"

text \<open>\<^verbatim>\<open>strconv.Atoi\<close>: an optional sign and at least one decimal digit; a value outside the
  64-bit range is an error.\<close>

definition atoi :: "string \<Rightarrow> int option" where
  "atoi s =
     (let neg = (s \<noteq> [] \<and> hd s = CHR ''-'');
          signed = (s \<noteq> [] \<and> (hd s = CHR ''-'' \<or> hd s = CHR ''+''));
          ds = (if signed then tl s else s);
          v = (if neg then - int (read_nat 0 ds) else int (read_nat 0 ds))
      in if ds = [] \<or> \<not> list_all is_digit ds then None
         else if v < - (2 ^ 63) \<or> 2 ^ 63 \<le> v then None
         else Some v)"

section \<open>Lemmas on the string functions\<close>

lemma has_prefix_append [simp, go_str]: "has_prefix (p @ s) p"
  by (simp add: has_prefix_def)

lemma has_prefixE:
  assumes "has_prefix s p"
  obtains t where "s = p @ t"
  using assms by (metis append_take_drop_id has_prefix_def)

lemma has_prefix_iff: "has_prefix s p \<longleftrightarrow> (\<exists>t. s = p @ t)"
  by (auto elim: has_prefixE)

lemma trim_prefix_append [simp, go_str]: "trim_prefix (p @ s) p = s"
  by (simp add: trim_prefix_def)

lemma str_cut_None [simp, go_str]: "str_cut c s = None \<longleftrightarrow> c \<notin> set s"
  by (induction s) (auto split: option.splits)

lemma str_cut_append [simp, go_str]: "c \<notin> set a \<Longrightarrow> str_cut c (a @ c # b) = Some (a, b)"
  by (induction a) auto

lemma str_cut_SomeD: "str_cut c s = Some (a, b) \<Longrightarrow> s = a @ c # b \<and> c \<notin> set a"
  by (induction s arbitrary: a b) (auto split: if_splits option.splits)

lemma split_n_3 [go_str]:
  assumes "c \<notin> set a" and "c \<notin> set b"
  shows "split_n 3 c (a @ c # b @ c # d) = [a, b, d]"
  using assms by (simp add: numeral_3_eq_3)

lemma split_n_2 [go_str]:
  assumes "c \<notin> set a"
  shows "split_n 2 c (a @ c # b) = [a, b]"
  using assms by (simp add: numeral_2_eq_2)

text \<open>A split into at most three pieces that yields three pieces determines its input.\<close>

lemma split_n_3D:
  assumes "split_n 3 c s = [a, b, d]"
  shows "s = a @ c # b @ c # d \<and> c \<notin> set a \<and> c \<notin> set b"
  using assms
  by (auto simp: numeral_3_eq_3 split: option.splits dest!: str_cut_SomeD)

lemma split_n_length: "length (split_n n c s) \<le> n"
  by (induction n c s rule: split_n.induct) (auto split: option.splits)

lemma split_all_noccur [simp]: "c \<notin> set s \<Longrightarrow> split_all c s = [s]"
  by (induction s) auto

lemma split_all_append [simp]: "c \<notin> set a \<Longrightarrow> split_all c (a @ c # b) = a # split_all c b"
  by (induction a) auto

lemma split_all_join:
  assumes "\<forall>w \<in> set ws. c \<notin> set w" and "ws \<noteq> []"
  shows "split_all c (join [c] ws) = ws"
  using assms by (induction "[c]" ws rule: join.induct) auto

lemma last_index_from_None: "x \<notin> set t \<Longrightarrow> last_index_from i t (x # q) = None"
  by (induction t arbitrary: i) (auto simp: has_prefix_def)

lemma last_index_from_hit:
  assumes "x \<notin> set q" and "x \<notin> set t"
  shows "last_index_from i (s @ x # q @ t) (x # q) = Some (i + length s)"
proof (induction s arbitrary: i)
  case Nil
  have "last_index_from (Suc i) (q @ t) (x # q) = None"
    using assms by (intro last_index_from_None) auto
  then show ?case by (simp add: has_prefix_def)
next
  case (Cons a s)
  then show ?case by simp
qed

lemma last_index_hit [go_str]:
  assumes "x \<notin> set q" and "x \<notin> set t"
  shows "last_index (s @ x # q @ t) (x # q) = Some (length s)"
  using last_index_from_hit [OF assms, of 0 s] by (simp add: last_index_def)

lemma last_index_fromD:
  "last_index_from i s p = Some j \<Longrightarrow> i \<le> j \<and> j - i \<le> length s \<and> has_prefix (drop (j - i) s) p"
proof (induction i s p arbitrary: j rule: last_index_from.induct)
  case (1 i p)
  then show ?case by (auto simp: has_prefix_def split: if_splits)
next
  case (2 i c s p)
  show ?case
  proof (cases "last_index_from (Suc i) s p")
    case None
    with 2 show ?thesis by (auto split: if_splits)
  next
    case (Some k)
    with "2.prems" have "j = k" by simp
    with "2.IH" [of k] Some have "Suc i \<le> j \<and> j - Suc i \<le> length s \<and> has_prefix (drop (j - Suc i) s) p"
      by simp
    moreover from this have "drop (j - i) (c # s) = drop (j - Suc i) s"
      by (metis Suc_diff_Suc Suc_le_lessD drop_Suc_Cons)
    ultimately show ?thesis by auto
  qed
qed

lemma last_indexD:
  assumes "last_index s p = Some j"
  obtains t where "s = take j s @ p @ t" and "j \<le> length s"
proof -
  from assms have "j \<le> length s" and "has_prefix (drop j s) p"
    using last_index_fromD [of 0 s p j] by (auto simp: last_index_def)
  then show thesis
    using that by (metis append_take_drop_id has_prefixE)
qed

section \<open>Decimal numbers\<close>

lemma of_char_digit_char: "d < 10 \<Longrightarrow> (of_char (digit_char d) :: nat) = 48 + d"
  by (simp add: digit_char_def of_char_of)

lemma digit_char_props [simp]:
  assumes "d < 10"
  shows "is_digit (digit_char d)" and "digit_val (digit_char d) = d"
  using assms by (simp_all add: is_digit_def digit_val_def of_char_digit_char)

lemma digit_char_numeral [simp]:
  "digit_char 0 = CHR ''0''"
  "digit_char (Suc 0) = CHR ''1''"
  "digit_char 2 = CHR ''2''"
  "digit_char 3 = CHR ''3''"
  "digit_char 4 = CHR ''4''"
  "digit_char 5 = CHR ''5''"
  "digit_char 6 = CHR ''6''"
  "digit_char 7 = CHR ''7''"
  "digit_char 8 = CHR ''8''"
  "digit_char 9 = CHR ''9''"
  by (simp_all add: digit_char_def char_of_eq_iff)

text \<open>Conditional unfolding, for evaluation on numerals.\<close>

lemma show_nat_rec:
  "n < 10 \<Longrightarrow> show_nat n = [digit_char n]"
  "10 \<le> n \<Longrightarrow> show_nat n = show_nat (n div 10) @ [digit_char (n mod 10)]"
  by (subst show_nat.simps, simp)+

lemma show_nat_digits: "list_all is_digit (show_nat n)"
proof (induction n rule: show_nat.induct)
  case (1 n)
  then show ?case by (subst show_nat.simps) (auto simp: list_all_iff)
qed

lemma show_nat_ne [simp]: "show_nat n \<noteq> []"
  by (subst show_nat.simps) simp

lemma read_nat_append: "read_nat acc (s @ t) = read_nat (read_nat acc s) t"
  by (induction s arbitrary: acc) auto

lemma read_show_nat [simp]: "read_nat 0 (show_nat n) = n"
proof (induction n rule: show_nat.induct)
  case (1 n)
  then show ?case
    by (subst show_nat.simps) (auto simp: read_nat_append)
qed

lemma is_digit_neq: "is_digit c \<Longrightarrow> c \<noteq> CHR ''-'' \<and> c \<noteq> CHR ''+''"
  by (auto simp: is_digit_def)

lemma hd_show_nat: "hd (show_nat n) \<noteq> CHR ''-''" "hd (show_nat n) \<noteq> CHR ''+''"
proof -
  have "is_digit (hd (show_nat n))"
    using show_nat_digits [of n] by (cases "show_nat n") auto
  from is_digit_neq [OF this] show "hd (show_nat n) \<noteq> CHR ''-''" "hd (show_nat n) \<noteq> CHR ''+''"
    by auto
qed

lemma minus_notin_show_nat: "CHR ''-'' \<notin> set (show_nat n)"
  using show_nat_digits [of n] is_digit_neq by (auto simp: list_all_iff)

lemma atoi_itoa:
  assumes "- (2 ^ 63) \<le> i" and "i < 2 ^ 63"
  shows "atoi (itoa i) = Some i"
  using assms hd_show_nat [of "nat i"] show_nat_digits
  by (auto simp: atoi_def itoa_def Let_def)

lemma atoi_bounds: "atoi s = Some i \<Longrightarrow> - (2 ^ 63) \<le> i \<and> i < 2 ^ 63"
  by (auto simp: atoi_def Let_def split: if_splits)

lemma itoa_inj: "itoa i = itoa j \<Longrightarrow> i = j"
proof -
  assume eq: "itoa i = itoa j"
  have num: "show_nat m = show_nat n \<Longrightarrow> m = n" for m n
    by (metis read_show_nat)
  show ?thesis
  proof (cases "i < 0"; cases "j < 0")
    assume "i < 0" "j < 0"
    with eq num show ?thesis by (fastforce simp: itoa_def)
  next
    assume "i < 0" "\<not> j < 0"
    with eq hd_show_nat [of "nat j"] show ?thesis by (metis itoa_def list.sel(1))
  next
    assume "\<not> i < 0" "j < 0"
    with eq hd_show_nat [of "nat i"] show ?thesis by (metis itoa_def list.sel(1))
  next
    assume "\<not> i < 0" "\<not> j < 0"
    with eq num show ?thesis by (fastforce simp: itoa_def)
  qed
qed

section \<open>Maps\<close>

text \<open>A Go map is an association list with distinct keys.\<close>

text \<open>\<^verbatim>\<open>m[k] = v\<close> and \<^verbatim>\<open>delete(m, k)\<close>.\<close>

fun map_put :: "'k \<Rightarrow> 'v \<Rightarrow> ('k \<times> 'v) list \<Rightarrow> ('k \<times> 'v) list" where
  "map_put k v [] = [(k, v)]"
| "map_put k v ((k', v') # m) = (if k' = k then (k, v) # m else (k', v') # map_put k v m)"

definition map_del :: "'k \<Rightarrow> ('k \<times> 'v) list \<Rightarrow> ('k \<times> 'v) list" where
  "map_del k m = filter (\<lambda>p. fst p \<noteq> k) m"

lemma map_of_del [simp]: "map_of (map_del k m) = (map_of m)(k := None)"
  by (induction m) (auto simp: map_del_def)

lemma map_of_put [simp]: "map_of (map_put k v m) = (map_of m)(k \<mapsto> v)"
  by (induction k v m rule: map_put.induct) auto

lemma map_put_fresh: "k \<notin> fst ` set m \<Longrightarrow> map_put k v m = m @ [(k, v)]"
  by (induction k v m rule: map_put.induct) auto

lemma map_put_keys: "fst ` set (map_put k v m) = insert k (fst ` set m)"
  by (induction k v m rule: map_put.induct) auto

lemma distinct_map_put: "distinct (map fst m) \<Longrightarrow> distinct (map fst (map_put k v m))"
  by (induction k v m rule: map_put.induct) (auto simp: map_put_keys)

lemma map_put_entries: "x \<in> set (map_put k v m) \<Longrightarrow> x = (k, v) \<or> x \<in> set m"
  by (induction k v m rule: map_put.induct) (auto split: if_splits)

end
