(* ===== verification/Go_Encoding.thy ===== *)
theory Go_Encoding
  imports Go_Prelude
begin

text \<open>
  The byte encodings of the Go standard library that the sources use: conversion between
  strings and byte slices, \<^verbatim>\<open>encoding/hex\<close>, and the unpadded URL alphabet of
  \<^verbatim>\<open>encoding/base64\<close> (\<^verbatim>\<open>base64.RawURLEncoding\<close>).  The round trips proved here carry the token
  round trips of the components.
\<close>

section \<open>Strings and byte slices\<close>

definition bytes_of :: "string \<Rightarrow> byte list" where
  "bytes_of s = map of_char s"

definition string_of :: "byte list \<Rightarrow> string" where
  "string_of bs = map (\<lambda>b. char_of (unat b)) bs"

lemma unat_byte_less [simp]: "unat (b :: byte) < 256"
  using unsigned_less [of b] by simp

lemma of_nat_unat_eq: "n = unat b \<Longrightarrow> of_nat n = (b :: byte)"
  by simp

lemma of_char_less [simp]: "(of_char c :: nat) < 256"
  by (metis of_char_mod_256 mod_less_divisor zero_less_numeral)

lemma unat_of_char [simp]: "unat (of_char c :: byte) = of_char c"
proof -
  have "unat (of_nat (of_char c) :: byte) = of_char c"
    by (simp add: unat_of_nat)
  then show ?thesis by (simp only: of_nat_of_char)
qed

lemma of_char_char_of_byte [simp]: "of_char (char_of (unat (b :: byte))) = b"
proof -
  have "(of_char (char_of (unat b)) :: nat) = unat b" by simp
  then show ?thesis by (metis of_nat_of_char of_nat_unat_eq)
qed

lemma string_of_bytes_of [simp]: "string_of (bytes_of s) = s"
  by (induction s) (auto simp: string_of_def bytes_of_def)

lemma bytes_of_string_of [simp]: "bytes_of (string_of bs) = bs"
  by (induction bs) (auto simp: string_of_def bytes_of_def)

lemma bytes_of_inj [simp]: "bytes_of s = bytes_of t \<longleftrightarrow> s = t"
  by (metis string_of_bytes_of)

lemma length_bytes_of [simp]: "length (bytes_of s) = length s"
  by (simp add: bytes_of_def)

section \<open>Hexadecimal\<close>

definition hex_alphabet :: string where
  "hex_alphabet = ''0123456789abcdef''"

definition nibble_char :: "nat \<Rightarrow> char" where
  "nibble_char n = hex_alphabet ! n"

text \<open>\<^verbatim>\<open>hex.EncodeToString\<close>: two lower-case digits per byte.\<close>

definition hex_of_byte :: "byte \<Rightarrow> string" where
  "hex_of_byte b = [nibble_char (unat b div 16), nibble_char (unat b mod 16)]"

definition hex_encode :: "byte list \<Rightarrow> string" where
  "hex_encode bs = concat (map hex_of_byte bs)"

text \<open>\<^verbatim>\<open>hex.DecodeString\<close>: both cases of letters are read; an odd length or another character is
  an error.\<close>

definition from_hex_char :: "char \<Rightarrow> nat option" where
  "from_hex_char c =
     (let n = of_char c :: nat in
      if 48 \<le> n \<and> n \<le> 57 then Some (n - 48)
      else if 97 \<le> n \<and> n \<le> 102 then Some (n - 87)
      else if 65 \<le> n \<and> n \<le> 70 then Some (n - 55)
      else None)"

fun hex_decode :: "string \<Rightarrow> byte list option" where
  "hex_decode [] = Some []"
| "hex_decode [x] = None"
| "hex_decode (x # y # s) =
     (case (from_hex_char x, from_hex_char y) of
        (Some a, Some b) \<Rightarrow> map_option ((#) (of_nat (16 * a + b))) (hex_decode s)
      | _ \<Rightarrow> None)"

lemma from_hex_alphabet: "map from_hex_char hex_alphabet = map Some [0..<16]"
  by (simp add: hex_alphabet_def from_hex_char_def upt_rec)

lemma from_hex_nibble [simp]:
  assumes "n < 16"
  shows "from_hex_char (nibble_char n) = Some n"
proof -
  have "length hex_alphabet = 16" by (simp add: hex_alphabet_def)
  with assms have "map from_hex_char hex_alphabet ! n = from_hex_char (nibble_char n)"
    by (simp add: nibble_char_def)
  with assms show ?thesis by (simp add: from_hex_alphabet)
qed

lemma nibble_char_set: "n < 16 \<Longrightarrow> nibble_char n \<in> set hex_alphabet"
  unfolding nibble_char_def by (rule nth_mem) (simp add: hex_alphabet_def)

lemma byte_nibbles [simp]: "of_nat (16 * (unat b div 16) + unat b mod 16) = (b :: byte)"
  by simp

lemma hex_encode_Nil [simp]: "hex_encode [] = []"
  by (simp add: hex_encode_def)

lemma hex_encode_Cons [simp]: "hex_encode (b # bs) = hex_of_byte b @ hex_encode bs"
  by (simp add: hex_encode_def)

lemma hex_decode_encode [simp]: "hex_decode (hex_encode bs) = Some bs"
proof (induction bs)
  case Nil
  then show ?case by simp
next
  case (Cons b bs)
  have "unat b div 16 < 16" using unat_byte_less [of b] by linarith
  with Cons show ?case by (simp add: hex_of_byte_def del: of_nat_add of_nat_mult)
qed

lemma hex_encode_inj [simp]: "hex_encode a = hex_encode b \<longleftrightarrow> a = b"
  by (metis hex_decode_encode option.inject)

lemma length_hex_encode [simp]: "length (hex_encode bs) = 2 * length bs"
  by (induction bs) (auto simp: hex_of_byte_def)

lemma hex_encode_eq_Nil [simp]: "hex_encode bs = [] \<longleftrightarrow> bs = []"
  by (metis hex_decode_encode hex_encode_Nil option.inject)

lemma hex_encode_chars: "set (hex_encode bs) \<subseteq> set hex_alphabet"
proof (induction bs)
  case (Cons b bs)
  have "unat b div 16 < 16" using unat_byte_less [of b] by linarith
  with Cons show ?case by (auto simp: hex_of_byte_def intro: nibble_char_set)
qed simp

lemma colon_notin_hex [simp]: "CHR '':'' \<notin> set (hex_encode bs)"
  using hex_encode_chars [of bs] by (auto simp: hex_alphabet_def)

lemma hex_decode_length: "hex_decode s = Some bs \<Longrightarrow> length s = 2 * length bs"
  by (induction s arbitrary: bs rule: hex_decode.induct) (auto split: option.splits)

section \<open>Unpadded base64 with the URL alphabet\<close>

definition b64_alphabet :: string where
  "b64_alphabet = ''ABCDEFGHIJKLMNOPQRSTUVWXYZabcdefghijklmnopqrstuvwxyz0123456789-_''"

definition b64_char :: "nat \<Rightarrow> char" where
  "b64_char n = b64_alphabet ! n"

fun b64_encode :: "byte list \<Rightarrow> string" where
  "b64_encode [] = []"
| "b64_encode [a] =
     [b64_char (unat a div 4), b64_char (unat a mod 4 * 16)]"
| "b64_encode [a, b] =
     [b64_char (unat a div 4), b64_char (unat a mod 4 * 16 + unat b div 16),
      b64_char (unat b mod 16 * 4)]"
| "b64_encode (a # b # c # bs) =
     b64_char (unat a div 4) # b64_char (unat a mod 4 * 16 + unat b div 16) #
     b64_char (unat b mod 16 * 4 + unat c div 64) # b64_char (unat c mod 64) # b64_encode bs"

definition b64_val :: "char \<Rightarrow> nat option" where
  "b64_val c =
     (let n = of_char c :: nat in
      if 65 \<le> n \<and> n \<le> 90 then Some (n - 65)
      else if 97 \<le> n \<and> n \<le> 122 then Some (n - 71)
      else if 48 \<le> n \<and> n \<le> 57 then Some (n + 4)
      else if n = 45 then Some 62
      else if n = 95 then Some 63
      else None)"

fun b64_unpack :: "nat list \<Rightarrow> byte list option" where
  "b64_unpack [] = Some []"
| "b64_unpack [x] = None"
| "b64_unpack [x, y] = Some [of_nat (x * 4 + y div 16)]"
| "b64_unpack [x, y, z] = Some [of_nat (x * 4 + y div 16), of_nat (y mod 16 * 16 + z div 4)]"
| "b64_unpack (x # y # z # w # vs) =
     map_option (\<lambda>bs. of_nat (x * 4 + y div 16) # of_nat (y mod 16 * 16 + z div 4)
                      # of_nat (z mod 4 * 64 + w) # bs) (b64_unpack vs)"

fun opt_list :: "'a option list \<Rightarrow> 'a list option" where
  "opt_list [] = Some []"
| "opt_list (x # xs) =
     (case x of None \<Rightarrow> None | Some a \<Rightarrow> map_option ((#) a) (opt_list xs))"

text \<open>\<^verbatim>\<open>base64.RawURLEncoding.DecodeString\<close>: carriage returns and newlines are skipped, the unused
  low bits of a final partial group are ignored, any other character is an error.\<close>

definition b64_decode :: "string \<Rightarrow> byte list option" where
  "b64_decode s =
     Option.bind (opt_list (map b64_val (filter (\<lambda>c. c \<noteq> CHR 0x0A \<and> c \<noteq> CHR 0x0D) s))) b64_unpack"

lemma b64_val_alphabet: "map b64_val b64_alphabet = map Some [0..<64]"
  by (simp add: b64_alphabet_def b64_val_def upt_rec)

lemma b64_val_char [simp]:
  assumes "n < 64"
  shows "b64_val (b64_char n) = Some n"
proof -
  have "length b64_alphabet = 64" by (simp add: b64_alphabet_def)
  with assms have "map b64_val b64_alphabet ! n = b64_val (b64_char n)"
    by (simp add: b64_char_def)
  with assms show ?thesis by (simp add: b64_val_alphabet)
qed

lemma b64_char_in: "n < 64 \<Longrightarrow> b64_char n \<in> set b64_alphabet"
  unfolding b64_char_def by (rule nth_mem) (simp add: b64_alphabet_def)

lemma b64_bounds [simp]:
  "unat (a :: byte) div 4 < 64"
  "unat (a :: byte) mod 4 * 16 + unat (b :: byte) div 16 < 64"
  "unat (a :: byte) mod 4 * 16 < 64"
  "unat (b :: byte) mod 16 * 4 + unat (c :: byte) div 64 < 64"
  "unat (b :: byte) mod 16 * 4 < 64"
  using unat_byte_less [of a] unat_byte_less [of b] unat_byte_less [of c] by linarith+

lemma b64_encode_chars: "set (b64_encode bs) \<subseteq> set b64_alphabet"
  by (induction bs rule: b64_encode.induct) (auto intro!: b64_char_in)

lemma b64_alphabet_free:
  "CHR ''.'' \<notin> set b64_alphabet" "CHR ''~'' \<notin> set b64_alphabet" "CHR '':'' \<notin> set b64_alphabet"
  "CHR 0x0A \<notin> set b64_alphabet" "CHR 0x0D \<notin> set b64_alphabet"
  by (simp_all add: b64_alphabet_def)

lemma b64_encode_free [simp, go_str]:
  "CHR ''.'' \<notin> set (b64_encode bs)" "CHR ''~'' \<notin> set (b64_encode bs)"
  "CHR '':'' \<notin> set (b64_encode bs)"
  using b64_encode_chars [of bs] b64_alphabet_free by auto

lemma b64_encode_filter [simp]:
  "filter (\<lambda>c. c \<noteq> CHR 0x0A \<and> c \<noteq> CHR 0x0D) (b64_encode bs) = b64_encode bs"
  using b64_encode_chars [of bs] b64_alphabet_free by (auto simp: filter_id_conv)

definition b64_pack :: "byte list \<Rightarrow> nat list" where
  "b64_pack bs = map (\<lambda>c. the (b64_val c)) (b64_encode bs)"

lemma b64_vals: "opt_list (map b64_val (b64_encode bs)) = Some (b64_pack bs)"
  by (induction bs rule: b64_encode.induct) (auto simp: b64_pack_def)

lemma byte_of_parts:
  "of_nat (unat a + unat b div 16 div 16) = (a :: byte)"
  "of_nat (unat b div 16 mod 16 * 16 + unat b mod 16) = (b :: byte)"
  "of_nat (unat b div 16 mod 16 * 16 + (unat b mod 16 + unat c div 64 div 4)) = (b :: byte)"
  "of_nat (unat c div 64 mod 4 * 64 + unat c mod 64) = (c :: byte)"
  for a b c :: byte
proof -
  have b: "unat b div 16 mod 16 = unat b div 16" and c: "unat c div 64 mod 4 = unat c div 64"
    using unat_byte_less [of b] unat_byte_less [of c] by (simp_all add: less_mult_imp_div_less)
  show "of_nat (unat a + unat b div 16 div 16) = a"
    using unat_byte_less [of b] by (intro of_nat_unat_eq) linarith
  show "of_nat (unat b div 16 mod 16 * 16 + unat b mod 16) = b"
    unfolding b by (intro of_nat_unat_eq) simp
  show "of_nat (unat b div 16 mod 16 * 16 + (unat b mod 16 + unat c div 64 div 4)) = b"
    using unat_byte_less [of c] unfolding b
    by (intro of_nat_unat_eq) (simp add: less_mult_imp_div_less flip: add.assoc div_mult2_eq)
  show "of_nat (unat c div 64 mod 4 * 64 + unat c mod 64) = c"
    unfolding c by (intro of_nat_unat_eq) simp
qed

lemma b64_unpack_pack: "b64_unpack (b64_pack bs) = Some bs"
  by (induction bs rule: b64_encode.induct)
     (simp_all add: b64_pack_def byte_of_parts del: of_nat_add of_nat_mult)

theorem b64_decode_encode [simp]: "b64_decode (b64_encode bs) = Some bs"
  by (simp add: b64_decode_def b64_vals b64_unpack_pack)

lemma b64_encode_inj [simp]: "b64_encode a = b64_encode b \<longleftrightarrow> a = b"
  by (metis b64_decode_encode option.inject)

end
