(* ===== verification/Go_Json.thy ===== *)
theory Go_Json
  imports Go_Encoding
begin

text \<open>
  JSON values and \<^verbatim>\<open>encoding/json\<close>'s encoder.  Objects are lists of members in the order the
  encoder writes them (struct fields in declaration order, map keys sorted).  Strings are escaped
  as \<^verbatim>\<open>json.Marshal\<close> does with its default HTML escaping; bytes from 0x80 up are copied, which is
  what the encoder does for valid UTF-8 outside U+2028 and U+2029.  The encoder is proved to be
  injective: a hash or a signature over the encoding covers the value.
\<close>

section \<open>Values and their encoding\<close>

datatype json =
    JNull
  | JBool bool
  | JNum int
  | JStr string
  | JArr "json list"
  | JObj "(string \<times> json) list"

definition json_esc :: "char \<Rightarrow> string" where
  "json_esc c =
     (if c = CHR 0x22 \<or> c = CHR 0x5C then [CHR 0x5C, c]
      else if c = CHR 0x08 then [CHR 0x5C, CHR ''b'']
      else if c = CHR 0x0C then [CHR 0x5C, CHR ''f'']
      else if c = CHR 0x0A then [CHR 0x5C, CHR ''n'']
      else if c = CHR 0x0D then [CHR 0x5C, CHR ''r'']
      else if c = CHR 0x09 then [CHR 0x5C, CHR ''t'']
      else if (of_char c :: nat) < 32 \<or> c = CHR ''<'' \<or> c = CHR ''>'' \<or> c = CHR ''&''
        then CHR 0x5C # ''u00'' @ hex_of_byte (of_char c)
      else [c])"

definition json_quote :: "string \<Rightarrow> string" where
  "json_quote s = CHR 0x22 # concat (map json_esc s) @ [CHR 0x22]"

fun json_marshal :: "json \<Rightarrow> string" where
  "json_marshal JNull = ''null''"
| "json_marshal (JBool b) = (if b then ''true'' else ''false'')"
| "json_marshal (JNum n) = itoa n"
| "json_marshal (JStr s) = json_quote s"
| "json_marshal (JArr xs) = ''['' @ join '','' (map json_marshal xs) @ '']''"
| "json_marshal (JObj kvs) =
     ''{'' @ join '','' (map (\<lambda>(k, v). json_quote k @ '':'' @ json_marshal v) kvs) @ ''}''"

text \<open>\<^verbatim>\<open>json.Marshal\<close> of a \<^verbatim>\<open>map[string]string\<close> given with its keys sorted.\<close>

definition json_str_obj :: "(string \<times> string) list \<Rightarrow> json" where
  "json_str_obj kvs = JObj (map (\<lambda>(k, v). (k, JStr v)) kvs)"

definition json_strs :: "string list \<Rightarrow> json" where
  "json_strs xs = JArr (map JStr xs)"

section \<open>The string escape is uniquely decodable\<close>

text \<open>Reading one escaped character back.\<close>

definition json_unesc :: "string \<Rightarrow> char \<times> string" where
  "json_unesc s =
     (if hd s \<noteq> CHR 0x5C then (hd s, tl s)
      else let y = s ! 1; r = drop 2 s in
        if y = CHR ''u'' then (char_of (unat (hd (the (hex_decode (take 2 (drop 2 r)))))), drop 4 r)
        else if y = CHR ''b'' then (CHR 0x08, r)
        else if y = CHR ''f'' then (CHR 0x0C, r)
        else if y = CHR ''n'' then (CHR 0x0A, r)
        else if y = CHR ''r'' then (CHR 0x0D, r)
        else if y = CHR ''t'' then (CHR 0x09, r)
        else (y, r))"

lemma hex_of_byte_len [simp]: "length (hex_of_byte x) = 2"
  using length_hex_encode [of "[x]"] by (simp add: hex_encode_def)

lemma hex_decode_of_byte [simp]: "hex_decode (hex_of_byte x) = Some [x]"
  using hex_decode_encode [of "[x]"] by (simp add: hex_encode_def)

lemma json_unesc_u: "json_unesc (CHR 0x5C # ''u00'' @ hex_of_byte (of_char c) @ xs) = (c, xs)"
  by (simp add: json_unesc_def)

lemma json_unesc_short:
  "c \<in> {CHR 0x22, CHR 0x5C, CHR 0x08, CHR 0x0C, CHR 0x0A, CHR 0x0D, CHR 0x09}
   \<Longrightarrow> json_unesc (json_esc c @ xs) = (c, xs)"
  by (elim insertE emptyE) (simp_all add: json_esc_def json_unesc_def)

lemma json_esc_long:
  "c \<notin> {CHR 0x22, CHR 0x5C, CHR 0x08, CHR 0x0C, CHR 0x0A, CHR 0x0D, CHR 0x09}
   \<Longrightarrow> json_esc c \<noteq> [c] \<Longrightarrow> json_esc c = CHR 0x5C # ''u00'' @ hex_of_byte (of_char c)"
  by (simp add: json_esc_def split: if_splits)

lemma json_unesc_esc: "json_unesc (json_esc c @ xs) = (c, xs)"
proof (cases "c \<in> {CHR 0x22, CHR 0x5C, CHR 0x08, CHR 0x0C, CHR 0x0A, CHR 0x0D, CHR 0x09}")
  case long: False
  show ?thesis
  proof (cases "json_esc c = [c]")
    case True
    with long show ?thesis by (simp add: json_unesc_def)
  next
    case False
    from json_esc_long [OF long False] json_unesc_u [of c xs] show ?thesis by simp
  qed
qed (rule json_unesc_short)

lemma json_esc_prefix_free: "json_esc c @ xs = json_esc d @ ys \<Longrightarrow> c = d \<and> xs = ys"
  by (metis json_unesc_esc prod.inject)

lemma json_esc_no_quote: "json_esc c \<noteq> CHR 0x22 # ys" "CHR 0x22 # ys \<noteq> json_esc c" "json_esc c \<noteq> []"
proof -
  show a: "json_esc c \<noteq> CHR 0x22 # ys"
    by (cases "c = CHR 0x22") (simp_all add: json_esc_def Let_def)
  then show "CHR 0x22 # ys \<noteq> json_esc c" by metis
  show "json_esc c \<noteq> []" by (simp add: json_esc_def Let_def)
qed

lemma json_quote_prefix_free:
  assumes "json_quote s @ xs = json_quote t @ ys"
  shows "s = t \<and> xs = ys"
proof -
  have "concat (map json_esc s) @ CHR 0x22 # xs = concat (map json_esc t) @ CHR 0x22 # ys
      \<Longrightarrow> s = t \<and> xs = ys" for s t
  proof (induction s arbitrary: t)
    case Nil
    then show ?case
      by (cases t) (auto simp: Cons_eq_append_conv json_esc_no_quote)
  next
    case (Cons c s)
    show ?case
    proof (cases t)
      case Nil
      with Cons.prems show ?thesis
        by (auto simp: append_eq_Cons_conv json_esc_no_quote)
    next
      case (Cons d u)
      with Cons.prems have "json_esc c @ (concat (map json_esc s) @ CHR 0x22 # xs)
          = json_esc d @ (concat (map json_esc u) @ CHR 0x22 # ys)" by simp
      from json_esc_prefix_free [OF this] Cons.IH [of u] Cons show ?thesis by simp
    qed
  qed
  moreover have "concat (map json_esc s) @ CHR 0x22 # xs = concat (map json_esc t) @ CHR 0x22 # ys"
    using assms by (simp add: json_quote_def)
  ultimately show ?thesis by blast
qed

lemma json_quote_inj: "json_quote s = json_quote t \<longleftrightarrow> s = t"
  using json_quote_prefix_free [of s "[]" t "[]"] by auto


section \<open>The encoder is injective\<close>

text \<open>What may follow a value inside an array, an object or at the end of the text.\<close>

definition json_delim :: "string \<Rightarrow> bool" where
  "json_delim r \<longleftrightarrow> r = [] \<or> hd r \<in> {CHR '','', CHR '']'', CHR ''}''}"

definition num_char :: "char \<Rightarrow> bool" where
  "num_char c \<longleftrightarrow> c = CHR ''-'' \<or> is_digit c"

lemma itoa_num_chars: "list_all num_char (itoa n)" "itoa n \<noteq> []"
  using show_nat_digits [of "nat n"] show_nat_digits [of "nat (- n)"]
  by (auto simp: itoa_def num_char_def list_all_iff show_nat_ne)

lemma itoa_prefix_free:
  assumes "itoa n @ xs = itoa m @ ys" "json_delim xs" "json_delim ys"
  shows "n = m \<and> xs = ys"
proof -
  have stop: "takeWhile num_char xs = []" if "json_delim xs" for xs
    using that by (cases xs) (auto simp: json_delim_def num_char_def is_digit_def)
  have "takeWhile num_char (itoa n @ xs) = itoa n" if "json_delim xs" for n xs
    using itoa_num_chars(1) [of n] stop [OF that] by (simp add: list_all_iff takeWhile_append2)
  with assms have "itoa n = itoa m" by metis
  with assms(1) show ?thesis using itoa_inj by auto
qed

lemma json_marshal_ne: "json_marshal v \<noteq> []"
  by (cases v) (simp_all add: json_quote_def itoa_num_chars)

definition json_kind :: "json \<Rightarrow> nat" where
  "json_kind v = (case v of JNull \<Rightarrow> 0 | JBool b \<Rightarrow> (if b then 1 else 2) | JNum _ \<Rightarrow> 3 | JStr _ \<Rightarrow> 4
     | JArr _ \<Rightarrow> 5 | JObj _ \<Rightarrow> 6)"

definition char_kind :: "char \<Rightarrow> nat" where
  "char_kind c = (if c = CHR ''n'' then 0 else if c = CHR ''t'' then 1 else if c = CHR ''f'' then 2
     else if c = CHR 0x22 then 4 else if c = CHR ''['' then 5 else if c = CHR ''{'' then 6
     else if num_char c then 3 else 7)"

lemma char_kind_hd: "char_kind (hd (json_marshal v)) = json_kind v"
proof (cases v)
  case (JNum n)
  then have "num_char (hd (json_marshal v))"
    using itoa_num_chars [of n] by (cases "itoa n") auto
  then show ?thesis
    using JNum by (auto simp: char_kind_def json_kind_def num_char_def is_digit_def)
qed (simp_all add: char_kind_def json_kind_def json_quote_def)

lemma json_kind_cong: "json_marshal a @ xs = json_marshal b @ ys \<Longrightarrow> json_kind a = json_kind b"
  using char_kind_hd [of a] char_kind_hd [of b] json_marshal_ne [of a] json_marshal_ne [of b]
  by (metis hd_append)

text \<open>Comma-separated lists of self-delimiting items up to a closing bracket.\<close>

lemma join_items_prefix_free:
  assumes "join '','' (map f xs) @ c # r = join '','' (map f ys) @ c # s"
    and c: "c = CHR '']'' \<or> c = CHR ''}''"
    and item: "\<And>x y r s. x \<in> set xs \<Longrightarrow> f x @ r = f y @ s \<Longrightarrow> json_delim r \<Longrightarrow> json_delim s \<Longrightarrow> x = y \<and> r = s"
    and start: "\<And>x. f x \<noteq> [] \<and> hd (f x) \<noteq> c"
  shows "xs = ys \<and> r = s"
  using assms(1) item
proof (induction xs arbitrary: ys)
  case Nil
  show ?case
  proof (cases ys)
    case (Cons y zs)
    have "hd (join '','' (map f ys) @ c # s) = hd (f y)"
      using start [of y] Cons by (cases zs) simp_all
    with Nil start [of y] show ?thesis by (metis append_Nil join.simps(1) list.sel(1) list.simps(8))
  qed (use Nil in simp)
next
  case (Cons x xs)
  show ?case
  proof (cases ys)
    case Nil
    have "hd (join '','' (map f (x # xs)) @ c # r) = hd (f x)"
      using start [of x] by (cases xs) simp_all
    with Nil Cons.prems(1) start [of x] show ?thesis by simp
  next
    case (Cons y zs)
    let ?rest = "\<lambda>xs r. (if xs = [] then c # r else CHR '','' # join '','' (map f xs) @ c # r)"
    have split: "join '','' (map f (x # xs)) @ c # r = f x @ ?rest xs r" for x xs r
      by (cases xs) simp_all
    have delim: "json_delim (?rest xs r)" for xs r using c by (auto simp: json_delim_def)
    have "f x @ ?rest xs r = f y @ ?rest zs s"
      using Cons.prems(1) unfolding \<open>ys = y # zs\<close> split .
    from Cons.prems(2) [OF _ this delim delim] have "x = y" and rest: "?rest xs r = ?rest zs s" by simp_all
    from rest c have eq: "join '','' (map f xs) @ c # r = join '','' (map f zs) @ c # s"
      by (auto split: if_splits)
    have "xs = zs \<and> r = s"
      by (rule Cons.IH [OF eq]) (rule Cons.prems(2), simp_all)
    with \<open>x = y\<close> \<open>ys = y # zs\<close> show ?thesis by simp
  qed
qed

lemma json_marshal_prefix_free:
  "json_marshal a @ r = json_marshal b @ s \<Longrightarrow> json_delim r \<Longrightarrow> json_delim s \<Longrightarrow> a = b \<and> r = s"
proof (induction a arbitrary: b r s rule: json_marshal.induct)
  case 1
  then show ?case
    using json_kind_cong [OF 1(1)] by (cases b) (auto simp: json_kind_def split: if_splits)
next
  case (2 t)
  then show ?case
    using json_kind_cong [OF 2(1)] by (cases b) (auto simp: json_kind_def split: if_splits)
next
  case (3 n)
  then show ?case
    using json_kind_cong [OF 3(1)] itoa_prefix_free [of n r _ s]
    by (cases b) (auto simp: json_kind_def split: if_splits)
next
  case (4 t)
  then show ?case
    using json_kind_cong [OF 4(1)] json_quote_prefix_free [of t r _ s]
    by (cases b) (auto simp: json_kind_def split: if_splits)
next
  case (5 xs)
  obtain ys where b: "b = JArr ys"
    using json_kind_cong [OF 5(2)] by (cases b) (auto simp: json_kind_def split: if_splits)
  have "join '','' (map json_marshal xs) @ CHR '']'' # r = join '','' (map json_marshal ys) @ CHR '']'' # s"
    using 5(2) b by simp
  moreover have "json_marshal x \<noteq> [] \<and> hd (json_marshal x) \<noteq> CHR '']''" for x
    using char_kind_hd [of x] json_marshal_ne [of x]
    by (auto simp: char_kind_def num_char_def is_digit_def json_kind_def split: json.splits if_splits)
  ultimately have "xs = ys \<and> r = s"
    using 5(1) by (intro join_items_prefix_free [of json_marshal]) blast+
  with b show ?case by simp
next
  case (6 kvs)
  let ?f = "\<lambda>(k, v). json_quote k @ '':'' @ json_marshal v"
  obtain kws where b: "b = JObj kws"
    using json_kind_cong [OF 6(2)] by (cases b) (auto simp: json_kind_def split: if_splits)
  have eq: "join '','' (map ?f kvs) @ CHR ''}'' # r = join '','' (map ?f kws) @ CHR ''}'' # s"
    using 6(2) b by simp
  have item: "p = q \<and> r = s" if p: "p \<in> set kvs" and e: "?f p @ r = ?f q @ s"
    and d: "json_delim r" "json_delim s" for p q r s
  proof -
    obtain k v k' v' where pq: "p = (k, v)" "q = (k', v')" by (cases p, cases q)
    have "json_quote k @ (CHR '':'' # json_marshal v @ r) = json_quote k' @ (CHR '':'' # json_marshal v' @ s)"
      using e pq by simp
    from json_quote_prefix_free [OF this] have "k = k'" "json_marshal v @ r = json_marshal v' @ s" by simp_all
    with 6(1) [OF p pq(1) [symmetric], of r v' s] d pq show ?thesis by simp
  qed
  have start: "?f p \<noteq> [] \<and> hd (?f p) \<noteq> CHR ''}''" for p
    by (cases p) (simp add: json_quote_def)
  from join_items_prefix_free [OF eq _ item start] b show ?case by simp
qed

theorem json_marshal_inj: "json_marshal a = json_marshal b \<longleftrightarrow> a = b"
  using json_marshal_prefix_free [of a "[]" b "[]"] by (auto simp: json_delim_def)

lemma json_str_obj_inj: "json_str_obj a = json_str_obj b \<longleftrightarrow> a = b"
proof -
  have "inj (\<lambda>(k :: string, v). (k, JStr v))" by (auto simp: inj_def)
  then show ?thesis by (simp add: json_str_obj_def inj_map_eq_map)
qed

end
