(* ===== verification/Go_Time.thy ===== *)
theory Go_Time
  imports Go_Prelude
begin

text \<open>
  \<^verbatim>\<open>time.Time\<close> in UTC, formatted with the layout \<^verbatim>\<open>time.RFC3339\<close>.  An instant is a number of
  nanoseconds since the epoch; the calendar date is computed from the day number with the usual
  400-year cycle.
\<close>

definition civil_from_days :: "int \<Rightarrow> int \<times> int \<times> int" where
  "civil_from_days d =
     (let z = d + 719468;
          era = z div 146097;
          doe = z mod 146097;
          yoe = (doe - doe div 1460 + doe div 36524 - doe div 146096) div 365;
          doy = doe - (365 * yoe + yoe div 4 - yoe div 100);
          mp = (5 * doy + 2) div 153;
          day = doy - (153 * mp + 2) div 5 + 1;
          month = (if mp < 10 then mp + 3 else mp - 9);
          year = yoe + era * 400 + (if month \<le> 2 then 1 else 0)
      in (year, month, day))"

text \<open>Zero-padded decimal.\<close>

definition pad_int :: "nat \<Rightarrow> int \<Rightarrow> string" where
  "pad_int w i = (let s = show_nat (nat i) in replicate (w - length s) (CHR ''0'') @ s)"

definition rfc3339 :: "instant \<Rightarrow> string" where
  "rfc3339 t =
     (let s = unix t; sod = s mod 86400; (y, m, d) = civil_from_days (s div 86400)
      in pad_int 4 y @ ''-'' @ pad_int 2 m @ ''-'' @ pad_int 2 d @ ''T'' @
         pad_int 2 (sod div 3600) @ '':'' @ pad_int 2 (sod div 60 mod 60) @ '':'' @ pad_int 2 (sod mod 60) @ ''Z'')"

text \<open>The layout \<^verbatim>\<open>time.RFC3339Nano\<close>, which \<^verbatim>\<open>json.Marshal\<close> uses: the fraction of the second without
  trailing zeros, if there is one.\<close>

definition frac_digits :: "int \<Rightarrow> string" where
  "frac_digits n = (if n = 0 then [] else
     ''.'' @ rev (dropWhile (\<lambda>c. c = CHR ''0'') (rev (pad_int 9 n))))"

definition rfc3339nano :: "instant \<Rightarrow> string" where
  "rfc3339nano t = butlast (rfc3339 t) @ frac_digits (t mod second) @ ''Z''"

lemma civil_epoch: "civil_from_days 0 = (1970, 1, 1)"
  by code_simp

lemma civil_sample: "civil_from_days 19782 = (2024, 2, 29)"
  by code_simp

lemma pad_int_1970: "pad_int 4 1970 = ''1970''"
  by (simp add: pad_int_def show_nat_rec)

end
