(* ===== verification/GF256.thy ===== *)
theory GF256
  imports Go_Prelude
begin

text \<open>
  The finite field arithmetic of \<^verbatim>\<open>src/pkg/recovery/recovery.go\<close>: multiplication, inversion and
  polynomial evaluation on bytes, as the source computes them (shift-and-add multiplication
  modulo \<open>x^8 + x^4 + x^3 + x + 1\<close>, inversion by square-and-multiply).  The byte operations are
  proved to be those of a field: a copy \<open>gf\<close> of the type of bytes is made an instance of the
  class \<open>field\<close>, so that the library's algebra applies to them.
\<close>

section \<open>The source's operations\<close>

text \<open>One round of the loop of \<^verbatim>\<open>gfMul\<close>: \<open>a\<close> is doubled and reduced by \<^verbatim>\<open>0x1b\<close> when its top bit
  was set.\<close>

(* src: pkg/recovery/recovery.go:116-120 gfMul (reduction step) *)
definition gf_double :: "byte \<Rightarrow> byte" where
  "gf_double a = (let hi = a AND 0x80; a' = push_bit 1 a in if hi \<noteq> 0 then a' XOR 0x1b else a')"

(* src: pkg/recovery/recovery.go:112-122 gfMul (loop) *)
fun gfMul_loop :: "nat \<Rightarrow> byte \<Rightarrow> byte \<Rightarrow> byte \<Rightarrow> byte" where
  "gfMul_loop 0 p a b = p"
| "gfMul_loop (Suc n) p a b =
     gfMul_loop n (if b AND 1 \<noteq> 0 then p XOR a else p) (gf_double a) (drop_bit 1 b)"

(* src: pkg/recovery/recovery.go:110-124 gfMul *)
definition gfMul :: "byte \<Rightarrow> byte \<Rightarrow> byte" where
  "gfMul a b = gfMul_loop 8 0 a b"

text \<open>\<^verbatim>\<open>gfPolyEval\<close> runs from the last coefficient down to the first (Horner).\<close>

(* src: pkg/recovery/recovery.go:126-132 gfPolyEval *)
definition gfPolyEval :: "byte list \<Rightarrow> byte \<Rightarrow> byte" where
  "gfPolyEval coeffs x = foldr (\<lambda>c result. gfMul result x XOR c) coeffs 0"

(* src: pkg/recovery/recovery.go:140-146 gfInv (loop) *)
function gfInv_loop :: "byte \<Rightarrow> byte \<Rightarrow> byte \<Rightarrow> byte" where
  "gfInv_loop result a exp =
     (if exp = 0 then result
      else gfInv_loop (if exp AND 1 \<noteq> 0 then gfMul result a else result) (gfMul a a) (drop_bit 1 exp))"
  by pat_completeness auto
termination
proof (relation "measure (\<lambda>(result, a, exp). unat exp)")
  fix result a exp :: byte
  assume "exp \<noteq> 0"
  then have "unat exp > 0" by (simp add: unat_gt_0)
  then show "((if exp AND 1 \<noteq> 0 then gfMul result a else result, gfMul a a, drop_bit 1 exp),
              result, a, exp) \<in> measure (\<lambda>(result, a, exp). unat exp)"
    by (simp add: drop_bit_eq_div unat_div)
qed simp

declare gfInv_loop.simps [simp del]

(* src: pkg/recovery/recovery.go:134-148 gfInv *)
definition gfInv :: "byte \<Rightarrow> byte" where
  "gfInv a = (if a = 0 then 0 else gfInv_loop 1 a 254)"


section \<open>Bilinearity\<close>

lemma byte_all_bits: "(a::byte) = b \<longleftrightarrow> (\<forall>k\<in>set [0,1,2,3,4,5,6,7]. bit a k = bit b k)" (is "?L = ?R")
proof
  assume r: ?R
  have "bit a k = bit b k" if "k < 8" for k
  proof -
    from that have "k \<in> set [0,1,2,3,4,5,6,7]" by auto
    with r show ?thesis by blast
  qed
  then show ?L by (simp add: bit_eq_iff)
qed simp

lemma gf_double_xor: "gf_double (a XOR b) = gf_double a XOR gf_double b"
proof -
  have top: "x AND 0x80 \<noteq> 0 \<longleftrightarrow> bit x 7" for x :: byte
    by (simp add: byte_all_bits bit_simps)
  show ?thesis
    by (simp add: gf_double_def Let_def top bit_simps push_bit_xor xor.assoc xor.left_commute xor.commute)
qed

lemma gf_double_0 [simp]: "gf_double 0 = 0"
  by (simp add: gf_double_def)

lemma odd_byte: "b AND 1 \<noteq> 0 \<longleftrightarrow> bit (b::byte) 0"
  by (simp add: byte_all_bits bit_simps)

lemma gfMul_loop_acc: "gfMul_loop n (p XOR q) a b = p XOR gfMul_loop n q a b"
  by (induction n arbitrary: p q a b) (simp_all add: xor.assoc)

lemma gfMul_loop_acc0: "gfMul_loop n p a b = p XOR gfMul_loop n 0 a b"
  using gfMul_loop_acc [of n p 0 a b] by simp

lemma gfMul_loop_Suc:
  "gfMul_loop (Suc n) 0 a b = (if bit b 0 then a else 0) XOR gfMul_loop n 0 (gf_double a) (drop_bit 1 b)"
  by (subst gfMul_loop.simps, subst gfMul_loop_acc0) (simp only: odd_byte xor_self_eq, simp)

lemma gfMul_loop_xor_left:
  "gfMul_loop n 0 (a XOR a') b = gfMul_loop n 0 a b XOR gfMul_loop n 0 a' b"
proof (induction n arbitrary: a a' b)
  case (Suc n)
  then show ?case
    by (simp only: gfMul_loop_Suc gf_double_xor) (simp add: xor.assoc xor.left_commute xor.commute)
qed simp

lemma gfMul_loop_xor_right:
  "gfMul_loop n 0 a (b XOR b') = gfMul_loop n 0 a b XOR gfMul_loop n 0 a b'"
proof (induction n arbitrary: a b b')
  case (Suc n)
  then show ?case
    by (simp only: gfMul_loop_Suc drop_bit_xor bit_xor_iff)
      (auto simp add: xor.assoc xor.left_commute xor.commute)
qed simp

lemma gfMul_loop_double:
  "gfMul_loop n 0 (gf_double a) b = gf_double (gfMul_loop n 0 a b)"
proof (induction n arbitrary: a b)
  case (Suc n)
  then show ?case by (simp only: gfMul_loop_Suc gf_double_xor) simp
qed simp

lemma gfMul_loop_0 [simp]: "gfMul_loop n 0 0 b = 0" "gfMul_loop n 0 a 0 = 0"
  by (induction n arbitrary: a b) simp_all

lemma gfMul_xor_left: "gfMul (a XOR a') b = gfMul a b XOR gfMul a' b"
  and gfMul_xor_right: "gfMul a (b XOR b') = gfMul a b XOR gfMul a b'"
  and gfMul_double: "gfMul (gf_double a) b = gf_double (gfMul a b)"
  and gfMul_0 [simp]: "gfMul 0 b = 0" "gfMul a 0 = 0"
  by (simp_all add: gfMul_def gfMul_loop_xor_left gfMul_loop_xor_right gfMul_loop_double)

lemma gfMul_double_iter: "gfMul ((gf_double ^^ k) a) b = (gf_double ^^ k) (gfMul a b)"
  by (induction k) (simp_all add: gfMul_double)

text \<open>Multiplying by the byte \<open>2 ^ k\<close> is doubling \<open>k\<close> times.\<close>

lemma gfMul_loop_pow2:
  "k < n \<Longrightarrow> k < 8 \<Longrightarrow> gfMul_loop n 0 a (2 ^ k) = (gf_double ^^ k) a"
proof (induction n arbitrary: k a)
  case (Suc n)
  show ?case
  proof (cases k)
    case 0
    have "drop_bit 1 (1::byte) = 0" by simp
    with 0 show ?thesis by (simp only: gfMul_loop_Suc) (simp add: bit_simps)
  next
    case (Suc j)
    have "drop_bit 1 ((2::byte) ^ k) = 2 ^ j"
      using Suc \<open>k < 8\<close> by (intro bit_word_eqI) (auto simp: bit_simps)
    moreover have "\<not> bit ((2::byte) ^ k) 0"
      using Suc by (simp add: bit_simps)
    ultimately show ?thesis
      using Suc Suc.IH [of j "gf_double a"] Suc.prems
      by (simp only: gfMul_loop_Suc) (simp add: funpow_swap1)
  qed
qed simp

lemma gfMul_pow2: "k < 8 \<Longrightarrow> gfMul a (2 ^ k) = (gf_double ^^ k) a"
  by (simp only: gfMul_def) (rule gfMul_loop_pow2; simp)

lemma pow2_double: "k < 8 \<Longrightarrow> 2 ^ k = (gf_double ^^ k) 1"
proof -
  have step: "gf_double (2 ^ j) = 2 ^ Suc j" if "Suc j < 8" for j
  proof -
    have "2 ^ j AND 0x80 = (0::byte)"
      using that by (auto simp: byte_all_bits bit_simps)
    moreover have "push_bit 1 (2 ^ j) = (2::byte) ^ Suc j" by (simp add: push_bit_eq_mult)
    ultimately show ?thesis by (simp add: gf_double_def del: power_Suc)
  qed
  show "k < 8 \<Longrightarrow> 2 ^ k = (gf_double ^^ k) 1"
  proof (induction k)
    case (Suc k)
    then show ?case using step [of k] by (simp del: power_Suc)
  qed simp
qed

text \<open>An additive map on bytes is determined by its values on the powers of two.\<close>

lemma byte_basis_induct:
  fixes P :: "byte \<Rightarrow> bool"
  assumes zero: "P 0" and pow: "\<And>k. k < 8 \<Longrightarrow> P (2 ^ k)"
    and add: "\<And>a b. P a \<Longrightarrow> P b \<Longrightarrow> P (a XOR b)"
  shows "P a"
proof -
  have "P (take_bit n a)" if "n \<le> 8" for n
    using that
  proof (induction n)
    case (Suc n)
    have "take_bit (Suc n) a = take_bit n a XOR (if bit a n then 2 ^ n else 0)"
      by (intro bit_word_eqI) (auto simp: bit_simps less_Suc_eq)
    with Suc pow [of n] show ?case by (auto intro: add zero)
  qed (simp add: zero)
  from this [of 8] show ?thesis
    by (simp add: take_bit_word_eq_self)
qed

lemma additive_ext:
  fixes f g :: "byte \<Rightarrow> byte"
  assumes f: "\<And>a b. f (a XOR b) = f a XOR f b" and g: "\<And>a b. g (a XOR b) = g a XOR g b"
    and basis: "\<And>k. k < 8 \<Longrightarrow> f (2 ^ k) = g (2 ^ k)"
  shows "f a = g a"
proof (induction a rule: byte_basis_induct)
  case 1
  have "f 0 = 0" "g 0 = 0" using f [of 0 0] g [of 0 0] by simp_all
  then show ?case by simp
qed (simp_all add: f g basis)

section \<open>The field laws\<close>

lemma gfMul_1: "gfMul a 1 = a"
  using gfMul_pow2 [of 0 a] by simp

lemma gfMul_commute: "gfMul a b = gfMul b a"
proof (rule additive_ext [of "\<lambda>b. gfMul a b" "\<lambda>b. gfMul b a"])
  fix k :: nat assume k: "k < 8"
  show "gfMul a (2 ^ k) = gfMul (2 ^ k) a"
  proof (rule additive_ext [of "\<lambda>a. gfMul a (2 ^ k)" "\<lambda>a. gfMul (2 ^ k) a"])
    fix j :: nat assume j: "j < 8"
    have "gfMul (2 ^ j) (2 ^ k) = (gf_double ^^ (k + j)) 1"
      using k j by (simp add: gfMul_pow2 pow2_double [of j] funpow_add)
    also have "\<dots> = gfMul (2 ^ k) (2 ^ j)"
      using k j by (simp add: gfMul_pow2 pow2_double [of k] funpow_add add.commute [of k j])
    finally show "gfMul (2 ^ j) (2 ^ k) = gfMul (2 ^ k) (2 ^ j)" .
  qed (simp_all add: gfMul_xor_left gfMul_xor_right)
qed (simp_all add: gfMul_xor_left gfMul_xor_right)

lemma gfMul_assoc: "gfMul (gfMul a b) c = gfMul a (gfMul b c)"
proof (rule additive_ext [of "\<lambda>c. gfMul (gfMul a b) c" "\<lambda>c. gfMul a (gfMul b c)"])
  fix k :: nat assume k: "k < 8"
  have "gfMul a ((gf_double ^^ k) b) = (gf_double ^^ k) (gfMul a b)"
    using gfMul_double_iter [of k b a] by (simp add: gfMul_commute)
  with k show "gfMul (gfMul a b) (2 ^ k) = gfMul a (gfMul b (2 ^ k))"
    by (simp add: gfMul_pow2)
qed (simp_all add: gfMul_xor_right)

text \<open>Squaring is additive; written out on the bits of its argument.\<close>

definition gf_sq_bits :: "byte \<Rightarrow> byte" where
  "gf_sq_bits a =
     (if bit a 0 then 0x01 else 0) XOR (if bit a 1 then 0x04 else 0) XOR
     (if bit a 2 then 0x10 else 0) XOR (if bit a 3 then 0x40 else 0) XOR
     (if bit a 4 then 0x1b else 0) XOR (if bit a 5 then 0x6c else 0) XOR
     (if bit a 6 then 0xab else 0) XOR (if bit a 7 then 0x9a else 0)"

lemma gf_sq_bits_xor: "gf_sq_bits (a XOR b) = gf_sq_bits a XOR gf_sq_bits b"
proof -
  have aux: "(if p \<noteq> q then c else 0) = (if p then c else 0) XOR (if q then c else (0::byte))" for p q c
    by simp
  show ?thesis
    unfolding gf_sq_bits_def bit_xor_iff aux
    by (simp only: xor.assoc xor.left_commute xor.commute)
qed

lemma less_8_cases: "k < 8 \<Longrightarrow> k \<in> {0, 1, 2, 3, 4, 5, 6, 7::nat}"
  by auto

lemma funpow_numeral: "f ^^ numeral n = f \<circ> (f ^^ pred_numeral n)"
  by (simp add: numeral_eq_Suc)

lemma gf_sq_bits: "gfMul a a = gf_sq_bits a"
proof (rule additive_ext [of "\<lambda>a. gfMul a a" gf_sq_bits])
  fix k :: nat assume k: "k < 8"
  have "gfMul (2 ^ k) (2 ^ k) = (gf_double ^^ k) (2 ^ k)"
    using k by (rule gfMul_pow2)
  also have "\<dots> = (gf_double ^^ (k + k)) 1"
    by (subst pow2_double [OF k]) (simp add: funpow_add)
  also have "\<dots> = gf_sq_bits (2 ^ k)"
    using less_8_cases [OF k] by (auto simp: gf_double_def gf_sq_bits_def bit_simps funpow_numeral)
  finally show "gfMul (2 ^ k) (2 ^ k) = gf_sq_bits (2 ^ k)" .
qed (simp_all add: gfMul_xor_left gfMul_xor_right gfMul_commute gf_sq_bits_xor xor.assoc xor.left_commute)

lemma gf_sq_orbits:
  "gf_sq_bits 1 = 1" "gf_sq_bits 2 = 4" "gf_sq_bits 4 = 16" "gf_sq_bits 8 = 64"
  "gf_sq_bits 16 = 27" "gf_sq_bits 27 = 94" "gf_sq_bits 29 = 74" "gf_sq_bits 32 = 108"
  "gf_sq_bits 64 = 171" "gf_sq_bits 74 = 239" "gf_sq_bits 77 = 250" "gf_sq_bits 94 = 228"
  "gf_sq_bits 108 = 151" "gf_sq_bits 128 = 154" "gf_sq_bits 145 = 128" "gf_sq_bits 148 = 145"
  "gf_sq_bits 151 = 148" "gf_sq_bits 154 = 197" "gf_sq_bits 171 = 179" "gf_sq_bits 179 = 232"
  "gf_sq_bits 197 = 32" "gf_sq_bits 228 = 77" "gf_sq_bits 232 = 29" "gf_sq_bits 239 = 8"
  "gf_sq_bits 250 = 2"
  by (simp_all add: gf_sq_bits_def bit_simps)

lemma gf_frobenius: "(gf_sq_bits ^^ 8) a = a"
proof (rule additive_ext [of "gf_sq_bits ^^ 8" "\<lambda>a. a"])
  fix a b :: byte
  have "(gf_sq_bits ^^ n) (a XOR b) = (gf_sq_bits ^^ n) a XOR (gf_sq_bits ^^ n) b" for n
    by (induction n) (simp_all add: gf_sq_bits_xor)
  then show "(gf_sq_bits ^^ 8) (a XOR b) = (gf_sq_bits ^^ 8) a XOR (gf_sq_bits ^^ 8) b" .
next
  fix k :: nat assume "k < 8"
  from less_8_cases [OF this] show "(gf_sq_bits ^^ 8) (2 ^ k) = 2 ^ k"
    by (auto simp: gf_sq_orbits funpow_numeral)
qed simp

lemma bit_if_0: "bit (if p then c else (0::byte)) k \<longleftrightarrow> p \<and> bit c k"
  by simp

lemma bit_gf_sq:
  "bit (gf_sq_bits e) 1 = ((bit e 4 \<noteq> bit e 6) \<noteq> bit e 7)"
  "bit (gf_sq_bits e) 0 = ((bit e 0 \<noteq> bit e 4) \<noteq> bit e 6)"
  "bit (gf_sq_bits e) 2 = (bit e 1 \<noteq> bit e 5)"
  "bit (gf_sq_bits e) 3 = (((bit e 4 \<noteq> bit e 5) \<noteq> bit e 6) \<noteq> bit e 7)"
  "bit (gf_sq_bits e) 4 = ((bit e 2 \<noteq> bit e 4) \<noteq> bit e 7)"
  "bit (gf_sq_bits e) 6 = (bit e 3 \<noteq> bit e 5)"
  "bit (gf_sq_bits e) 7 = (bit e 6 \<noteq> bit e 7)"
  by (simp only: gf_sq_bits_def bit_xor_iff bit_if_0; simp; argo)+

lemma gf_idempotent:
  assumes "gf_sq_bits e = e"
  shows "e = 0 \<or> e = 1"
proof -
  note b = bit_gf_sq [of e, unfolded assms]
  from b have "\<not> bit e 6" "\<not> bit e 4" "\<not> bit e 7" "\<not> bit e 1" "\<not> bit e 2" "\<not> bit e 3" "\<not> bit e 5"
    by argo+
  then show ?thesis
    by (cases "bit e 0") (simp_all add: byte_all_bits bit_1_iff)
qed

section \<open>Bytes as a field\<close>

typedef gf = "UNIV :: byte set" morphisms byte_of gf_of ..

setup_lifting type_definition_gf

instantiation gf :: comm_ring_1
begin

lift_definition zero_gf :: gf is "0" .
lift_definition one_gf :: gf is "1" .
lift_definition plus_gf :: "gf \<Rightarrow> gf \<Rightarrow> gf" is "(XOR)" .
lift_definition minus_gf :: "gf \<Rightarrow> gf \<Rightarrow> gf" is "(XOR)" .
lift_definition uminus_gf :: "gf \<Rightarrow> gf" is "\<lambda>a. a" .
lift_definition times_gf :: "gf \<Rightarrow> gf \<Rightarrow> gf" is gfMul .

instance
proof
  fix a b c :: gf
  show "a * b * c = a * (b * c)" by transfer (rule gfMul_assoc)
  show "a * b = b * a" by transfer (rule gfMul_commute)
  show "1 * a = a" by transfer (simp add: gfMul_commute [of 1] gfMul_1)
  show "a + b + c = a + (b + c)" by transfer (rule xor.assoc)
  show "a + b = b + a" by transfer (rule xor.commute)
  show "(a + b) * c = a * c + b * c" by transfer (rule gfMul_xor_left)
  show "a - b = a + - b" by transfer simp
qed (transfer, simp)+

end

lemma gf_of_times: "gf_of (gfMul a b) = gf_of a * gf_of b"
  and gf_of_xor: "gf_of (a XOR b) = gf_of a + gf_of b"
  and gf_of_0 [simp]: "gf_of 0 = 0"
  and gf_of_1 [simp]: "gf_of 1 = 1"
  by (simp_all add: times_gf.abs_eq plus_gf.abs_eq zero_gf.abs_eq one_gf.abs_eq)

lemmas gf_of_hom = gf_of_times gf_of_xor

lemma gf_of_inject_iff [simp]: "gf_of a = gf_of b \<longleftrightarrow> a = b"
  by (simp add: gf_of_inject)

lemma gf_of_eq_0_iff [simp]: "gf_of a = 0 \<longleftrightarrow> a = 0"
  using gf_of_inject_iff [of a 0] by (simp del: gf_of_inject_iff)

lemma gf_minus_eq_plus: "(a::gf) - b = a + b"
  by transfer simp

lemma gf_add_self [simp]: "(a::gf) + a = 0"
  by transfer simp

text \<open>Fermat: every non-zero byte has order dividing 255.\<close>

lemma gf_pow_256: "(a::gf) ^ 256 = a"
proof (cases a)
  case (gf_of b)
  have sq: "gf_of (gf_sq_bits x) = gf_of x ^ 2" for x
    by (simp add: gf_of_times power2_eq_square flip: gf_sq_bits)
  have "gf_of ((gf_sq_bits ^^ n) b) = gf_of b ^ (2 ^ n)" for n
    by (induction n) (simp_all add: sq power_mult [symmetric] mult.commute)
  from this [of 8] gf_of show ?thesis by (simp add: gf_frobenius)
qed

lemma gf_pow_255:
  assumes "(a::gf) \<noteq> 0"
  shows "a ^ 255 = 1"
proof -
  define e where "e = a ^ 255"
  have ae: "a * e = a"
    using gf_pow_256 [of a] by (simp add: e_def flip: power_Suc)
  have "e * e = a ^ 254 * (a * e)"
    by (simp add: e_def mult.assoc flip: power_Suc power_add)
  also have "\<dots> = e"
    by (simp add: ae) (simp add: e_def flip: power_Suc2)
  finally have "e * e = e" .
  then have "byte_of e = 0 \<or> byte_of e = 1"
    by (intro gf_idempotent, transfer) (simp flip: gf_sq_bits)
  then have "e = 0 \<or> e = 1"
    by transfer
  with ae assms show ?thesis by (auto simp: e_def)
qed

text \<open>The square-and-multiply loop computes the power \<open>exp\<close> of its base.\<close>

lemma gf_of_inv_loop: "gf_of (gfInv_loop r a exp) = gf_of r * gf_of a ^ unat exp"
proof (induction r a exp rule: gfInv_loop.induct)
  case (1 r a exp)
  show ?case
  proof (cases "exp = 0")
    case False
    have half: "unat (drop_bit 1 exp) = unat exp div 2"
      by (simp add: drop_bit_eq_div unat_div)
    have odd: "exp AND 1 \<noteq> 0 \<longleftrightarrow> odd (unat exp)"
      by (simp only: odd_byte bit_0 [symmetric] bit_unsigned_iff) simp
    have split: "unat exp = 2 * (unat exp div 2) + (if odd (unat exp) then 1 else 0)"
      by simp
    have "gf_of (gfInv_loop r a exp)
        = gf_of (if odd (unat exp) then gfMul r a else r) * (gf_of a * gf_of a) ^ (unat exp div 2)"
      using 1 [OF False, unfolded odd half gf_of_times]
      by (subst gfInv_loop.simps) (simp only: False odd if_False gf_of_times)
    also have "\<dots> = gf_of r * gf_of a ^ (2 * (unat exp div 2) + (if odd (unat exp) then 1 else 0))"
      by (simp add: gf_of_times power_add power_mult power2_eq_square mult.commute mult.left_commute)
    finally show ?thesis
      using split by simp
  qed (simp add: gfInv_loop.simps)
qed

lemma gf_of_inv: "a \<noteq> 0 \<Longrightarrow> gf_of (gfInv a) = gf_of a ^ 254"
  by (simp add: gfInv_def gf_of_inv_loop)

instantiation gf :: field
begin

lift_definition inverse_gf :: "gf \<Rightarrow> gf" is gfInv .

definition divide_gf :: "gf \<Rightarrow> gf \<Rightarrow> gf" where
  "divide_gf a b = a * inverse b"

instance
proof
  fix a b :: gf
  show "inverse (0::gf) = 0" by transfer (simp add: gfInv_def)
  show "a div b = a * inverse b" by (rule divide_gf_def)
  assume a: "a \<noteq> 0"
  obtain x where x: "a = gf_of x" by (cases a)
  with a have "inverse a = a ^ 254"
    by (simp add: inverse_gf.abs_eq gf_of_inv)
  then show "inverse a * a = 1"
    using gf_pow_255 [OF a] by (simp flip: power_Suc2)
qed

end

lemma gf_of_gfInv: "gf_of (gfInv a) = inverse (gf_of a)"
  by (simp add: inverse_gf.abs_eq)

lemma gfMul_gfInv: "a \<noteq> 0 \<Longrightarrow> gfMul a (gfInv a) = 1"
  using gf_of_inject_iff [of "gfMul a (gfInv a)" 1]
  by (simp add: gf_of_times gf_of_gfInv del: gf_of_inject_iff)

lemma gf_of_polyEval:
  "gf_of (gfPolyEval cs x) = foldr (\<lambda>c r. r * gf_of x + c) (map gf_of cs) 0"
  unfolding gfPolyEval_def by (induction cs) (simp_all add: gf_of_hom)

end
