(* ===== verification/Interpolation.thy ===== *)
theory Interpolation
  imports Main
begin

text \<open>
  Polynomial interpolation over an arbitrary field, on coefficient lists in the order the Shamir
  code keeps them (constant term first, evaluated by Horner's rule).  Two facts carry the secret
  sharing proofs: the Lagrange sum over enough distinct points recovers the polynomial, and every
  choice of values at distinct points is taken by some polynomial.
\<close>

section \<open>Coefficient lists\<close>

definition horner :: "'a::comm_semiring_0 list \<Rightarrow> 'a \<Rightarrow> 'a" where
  "horner cs x = foldr (\<lambda>c r. r * x + c) cs 0"

lemma horner_simps [simp]: "horner [] x = 0" "horner (c # cs) x = horner cs x * x + c"
  by (simp_all add: horner_def)

lemma horner_padding [simp]: "horner (cs @ replicate n 0) x = horner cs x"
proof (induction cs)
  case Nil
  show ?case by (induction n) simp_all
qed simp

text \<open>\<open>polyfun n f\<close>: the function \<open>f\<close> is given by \<open>n\<close> coefficients.\<close>

definition polyfun :: "nat \<Rightarrow> ('a::comm_semiring_0 \<Rightarrow> 'a) \<Rightarrow> bool" where
  "polyfun n f \<longleftrightarrow> (\<exists>cs. length cs = n \<and> (\<forall>x. f x = horner cs x))"

lemma polyfunI: "length cs \<le> n \<Longrightarrow> (\<And>x. f x = horner cs x) \<Longrightarrow> polyfun n f"
  unfolding polyfun_def
  by (rule exI [of _ "cs @ replicate (n - length cs) 0"]) simp

lemma polyfunE:
  assumes "polyfun n f"
  obtains cs where "length cs = n" "\<And>x. f x = horner cs x"
  using assms unfolding polyfun_def by blast

lemma polyfun_zero: "polyfun n (\<lambda>x. 0)"
  by (rule polyfunI [of "[]"]) simp_all

lemma polyfun_const: "0 < n \<Longrightarrow> polyfun n (\<lambda>x. c)"
  by (rule polyfunI [of "[c]"]) simp_all

lemma horner_scale: "horner (map ((*) c) cs) x = c * horner cs x"
  by (induction cs) (simp_all add: algebra_simps)

lemma polyfun_scale: "polyfun n f \<Longrightarrow> polyfun n (\<lambda>x. c * f x)"
  by (erule polyfunE) (rule polyfunI [where cs = "map ((*) c) cs" for cs], simp_all add: horner_scale)

lemma horner_add:
  "length cs = length ds \<Longrightarrow> horner (map2 (+) cs ds) x = horner cs x + horner ds x"
  by (induction cs ds rule: list_induct2) (simp_all add: algebra_simps)

lemma polyfun_add:
  assumes "polyfun n f" "polyfun n g"
  shows "polyfun n (\<lambda>x. f x + g x)"
proof -
  from assms obtain cs ds where "length cs = n" "\<And>x. f x = horner cs x"
    and "length ds = n" "\<And>x. g x = horner ds x" by (auto elim!: polyfunE)
  then show ?thesis
    by (intro polyfunI [of "map2 (+) cs ds"]) (simp_all add: horner_add)
qed

lemma polyfun_sum: "(\<And>i. i \<in> I \<Longrightarrow> polyfun n (f i)) \<Longrightarrow> polyfun n (\<lambda>x. \<Sum>i\<in>I. f i x)"
  by (induction I rule: infinite_finite_induct) (simp_all add: polyfun_zero polyfun_add)

lemma polyfun_linear:
  fixes f :: "'a::comm_ring_1 \<Rightarrow> 'a"
  assumes "polyfun n f"
  shows "polyfun (Suc n) (\<lambda>x. (x - a) * f x)"
proof -
  from assms obtain cs where cs: "length cs = n" "\<And>x. f x = horner cs x"
    by (auto elim!: polyfunE)
  have A: "polyfun (Suc n) (\<lambda>x. x * f x)"
    using cs by (intro polyfunI [of "0 # cs"]) (simp_all add: algebra_simps)
  have B: "polyfun (Suc n) (\<lambda>x. (- a) * f x)"
    using cs by (intro polyfunI [of "map ((*) (- a)) cs"]) (simp_all add: horner_scale)
  from polyfun_add [OF A B] show ?thesis
    by (simp add: left_diff_distrib)
qed

lemma polyfun_prod_linear:
  fixes a :: "'i \<Rightarrow> 'a::comm_ring_1"
  assumes "finite J" "card J < n"
  shows "polyfun n (\<lambda>x. \<Prod>j\<in>J. (x - a j))"
  using assms
proof (induction J arbitrary: n rule: finite_induct)
  case empty
  then show ?case by (simp add: polyfun_const)
next
  case (insert j J)
  then obtain m where m: "n = Suc m" "card J < m" by (cases n) auto
  from insert.IH [OF m(2)] insert(1,2) m(1) show ?case
    by (simp add: polyfun_linear)
qed

section \<open>Roots\<close>

lemma horner_split:
  fixes cs :: "'a::comm_ring_1 list"
  shows "\<exists>qs. length qs = length cs - 1 \<and> (\<forall>x. horner cs x = horner cs a + (x - a) * horner qs x)"
proof (induction cs)
  case (Cons c cs)
  then obtain qs where qs: "length qs = length cs - 1"
    "\<And>x. horner cs x = horner cs a + (x - a) * horner qs x" by blast
  show ?case
  proof (cases cs)
    case Nil
    then show ?thesis by auto
  next
    case (Cons d ds)
    have eq: "horner (c # cs) x = horner (c # cs) a + (x - a) * horner (horner cs a # qs) x" for x
      by (simp only: horner_simps qs(2) [of x]) (simp add: algebra_simps)
    show ?thesis
    proof (intro exI [of _ "horner cs a # qs"] conjI allI)
      show "length (horner cs a # qs) = length (c # cs) - 1" using qs(1) Cons by simp
    qed (rule eq)
  qed
qed simp

lemma horner_roots:
  fixes cs :: "'a::idom list"
  assumes "finite R" "length cs \<le> card R" "\<And>r. r \<in> R \<Longrightarrow> horner cs r = 0"
  shows "horner cs x = 0"
  using assms
proof (induction "length cs" arbitrary: cs R)
  case (Suc n)
  then have "R \<noteq> {}" by auto
  then obtain a where a: "a \<in> R" by blast
  obtain qs where qs: "length qs = length cs - 1"
    "\<And>x. horner cs x = horner cs a + (x - a) * horner qs x" using horner_split by blast
  have "horner qs x = 0"
  proof (rule Suc.hyps(1) [of qs "R - {a}"])
    show "n = length qs" using qs(1) Suc.hyps(2) by simp
    show "finite (R - {a})" "length qs \<le> card (R - {a})"
      using Suc.prems a qs(1) by (simp_all add: card_Diff_singleton)
    show "horner qs r = 0" if "r \<in> R - {a}" for r
      using that qs(2) [of r] Suc.prems(3) [of r] Suc.prems(3) [OF a] by auto
  qed
  then show ?case using qs(2) [of x] Suc.prems(3) [OF a] by simp
qed simp

lemma polyfun_unique:
  fixes f g :: "'a::idom \<Rightarrow> 'a"
  assumes f: "polyfun n f" and g: "polyfun n g"
    and R: "finite R" "n \<le> card R" and eq: "\<And>r. r \<in> R \<Longrightarrow> f r = g r"
  shows "f x = g x"
proof -
  have "polyfun n (\<lambda>x. f x + (- 1) * g x)"
    by (intro polyfun_add polyfun_scale f g)
  then obtain cs where cs: "length cs = n" "\<And>x. f x + (- 1) * g x = horner cs x"
    by (auto elim!: polyfunE)
  have "horner cs x = 0"
  proof (rule horner_roots [OF R(1)])
    show "length cs \<le> card R" using cs(1) R(2) by simp
    show "horner cs r = 0" if "r \<in> R" for r using eq [OF that] by (simp flip: cs(2))
  qed
  then show ?thesis by (simp flip: cs(2))
qed

section \<open>Lagrange interpolation\<close>

text \<open>The interpolating function through the points \<open>(xs ! i, ys ! i)\<close>.\<close>

definition lagrange :: "'a::field list \<Rightarrow> 'a list \<Rightarrow> 'a \<Rightarrow> 'a" where
  "lagrange xs ys z =
     (\<Sum>i<length xs. ys ! i * ((\<Prod>j\<in>{..<length xs} - {i}. z - xs ! j) *
        inverse (\<Prod>j\<in>{..<length xs} - {i}. xs ! i - xs ! j)))"

lemma polyfun_lagrange: "polyfun (length xs) (lagrange xs ys)"
proof -
  have "polyfun (length xs) (\<lambda>z. ys ! i * inverse (\<Prod>j\<in>{..<length xs} - {i}. xs ! i - xs ! j) *
      (\<Prod>j\<in>{..<length xs} - {i}. z - xs ! j))" if "i < length xs" for i
    using that by (intro polyfun_scale polyfun_prod_linear) simp_all
  then have "polyfun (length xs) (\<lambda>z. \<Sum>i<length xs.
      ys ! i * inverse (\<Prod>j\<in>{..<length xs} - {i}. xs ! i - xs ! j) *
      (\<Prod>j\<in>{..<length xs} - {i}. z - xs ! j))"
    by (intro polyfun_sum) simp
  then show ?thesis
    by (simp add: lagrange_def [abs_def] mult_ac)
qed

lemma lagrange_at:
  assumes "distinct xs" and k: "k < length xs"
  shows "lagrange xs ys (xs ! k) = ys ! k"
proof -
  let ?t = "\<lambda>i. ys ! i * ((\<Prod>j\<in>{..<length xs} - {i}. xs ! k - xs ! j) *
      inverse (\<Prod>j\<in>{..<length xs} - {i}. xs ! i - xs ! j))"
  have other: "?t i = 0" if "i \<in> {..<length xs} - {k}" for i
  proof -
    have "k \<in> {..<length xs} - {i}" using that k by auto
    then have "(\<Prod>j\<in>{..<length xs} - {i}. xs ! k - xs ! j) = 0"
      by (intro prod_zero) auto
    then show ?thesis by simp
  qed
  have "(\<Prod>j\<in>{..<length xs} - {k}. xs ! k - xs ! j) \<noteq> 0"
    using assms by (subst prod_zero_iff) (auto simp: nth_eq_iff_index_eq)
  then have same: "?t k = ys ! k" by simp
  have "lagrange xs ys (xs ! k) = ?t k + (\<Sum>i\<in>{..<length xs} - {k}. ?t i)"
    unfolding lagrange_def using k by (intro sum.remove) simp_all
  also have "(\<Sum>i\<in>{..<length xs} - {k}. ?t i) = 0"
    by (intro sum.neutral ballI) (rule other)
  finally show ?thesis using same by simp
qed

text \<open>Enough distinct points determine the polynomial.\<close>

lemma lagrange_recovers:
  assumes "distinct xs" "polyfun n f" "n \<le> length xs"
    and ys: "\<And>i. i < length xs \<Longrightarrow> ys ! i = f (xs ! i)"
  shows "lagrange xs ys z = f z"
proof (rule polyfun_unique [of "length xs" "lagrange xs ys" f "set xs" z])
  show "polyfun (length xs) (lagrange xs ys)" by (rule polyfun_lagrange)
  show "polyfun (length xs) f"
    using assms(2,3) by (auto elim!: polyfunE intro!: polyfunI)
  show "length xs \<le> card (set xs)" using assms(1) by (simp add: distinct_card)
  show "lagrange xs ys r = f r" if "r \<in> set xs" for r
    using that assms(1) by (auto simp: in_set_conv_nth lagrange_at ys)
qed simp

text \<open>A polynomial with a prescribed constant term takes any values at distinct non-zero points.\<close>

lemma interpolating_coefficients:
  fixes xs :: "'a::field list"
  assumes "distinct xs" "0 \<notin> set xs"
  obtains cs where "length cs = length xs" "\<And>i. i < length xs \<Longrightarrow> horner (s # cs) (xs ! i) = ys ! i"
proof -
  have "polyfun (length (0 # xs)) (lagrange (0 # xs) (s # ys))" by (rule polyfun_lagrange)
  then obtain ds where ds: "length ds = Suc (length xs)"
    "\<And>x. lagrange (0 # xs) (s # ys) x = horner ds x"
    unfolding polyfun_def by auto
  then obtain c cs where cs: "length cs = length xs"
    "\<And>x. lagrange (0 # xs) (s # ys) x = horner (c # cs) x"
    by (cases ds) auto
  have "distinct (0 # xs)" using assms by simp
  note at = lagrange_at [OF this, of _ "s # ys"]
  have "c = s" using at [of 0] cs(2) [of 0] by simp
  moreover have "horner (c # cs) (xs ! i) = ys ! i" if "i < length xs" for i
    using at [of "Suc i"] cs(2) [of "xs ! i"] that by simp
  ultimately show thesis using cs(1) that by blast
qed

end
