(* ===== verification/Recovery.thy ===== *)
theory Recovery
  imports Go_Encoding GF256 Interpolation
begin

text \<open>
  Guardian key recovery, \<^verbatim>\<open>src/pkg/recovery/recovery.go\<close>: Shamir secret sharing over the bytes.
  A share keeps its x-coordinate and one y-coordinate per byte of the secret; \<open>Split\<close> evaluates
  one random polynomial per secret byte and \<open>Combine\<close> interpolates at zero.  The random bytes are
  an argument: \<open>rnd i\<close> is what \<^verbatim>\<open>rand.Read\<close> delivers for byte \<open>i\<close> of the secret (\<open>None\<close> when the
  read fails).
\<close>

section \<open>Shares and their textual form\<close>

(* src: pkg/recovery/recovery.go:14-17 Share *)
record share =
  Index :: byte
  Value :: "byte list"

datatype recovery_error =
    ErrShareFormat | ErrShareIndex | ErrShareValue
  | ErrEmptySecret | ErrParameters int int | ErrCoefficients
  | ErrTooFewShares | ErrInconsistentLengths | ErrToken

(* src: pkg/recovery/recovery.go:20-22 Share.Hex *)
definition share_Hex :: "share \<Rightarrow> string" where
  "share_Hex s = hex_encode [Index s] @ '':'' @ hex_encode (Value s)"

(* src: pkg/recovery/recovery.go:25-38 ParseHex *)
definition ParseHex :: "string \<Rightarrow> recovery_error + share" where
  "ParseHex encoded =
     (if length encoded < 4 \<or> encoded ! 2 \<noteq> CHR '':'' then Inl ErrShareFormat
      else case hex_decode (take 2 encoded) of
        None \<Rightarrow> Inl ErrShareIndex
      | Some idxBytes \<Rightarrow>
          if length idxBytes \<noteq> 1 then Inl ErrShareIndex
          else case hex_decode (drop 3 encoded) of
            None \<Rightarrow> Inl ErrShareValue
          | Some val \<Rightarrow> Inr \<lparr>Index = idxBytes ! 0, Value = val\<rparr>)"

(* src: pkg/recovery/recovery.go:98-104 NewRecoveryToken *)
definition NewRecoveryToken :: "(nat \<Rightarrow> byte) option \<Rightarrow> recovery_error + byte list" where
  "NewRecoveryToken rnd = (case rnd of None \<Rightarrow> Inl ErrToken | Some f \<Rightarrow> Inr (map f [0..<32]))"

section \<open>Splitting\<close>

(* src: pkg/recovery/recovery.go:50-53 Split (allocation of the shares) *)
definition split_init :: "nat \<Rightarrow> nat \<Rightarrow> share list" where
  "split_init n len = map (\<lambda>i. \<lparr>Index = of_nat (i + 1), Value = replicate len 0\<rparr>) [0..<n]"

text \<open>The inner loop writes through \<^verbatim>\<open>shares[sh.Index-1]\<close> while it ranges over \<^verbatim>\<open>shares\<close>.\<close>

(* src: pkg/recovery/recovery.go:63-65 Split (inner loop) *)
definition split_fill :: "byte list \<Rightarrow> nat \<Rightarrow> share list \<Rightarrow> share list" where
  "split_fill coefficients byteIdx shares =
     fold (\<lambda>sh acc.
        let k = unat (Index sh - 1)
        in acc[k := (acc ! k)\<lparr>Value := (Value (acc ! k))[byteIdx := gfPolyEval coefficients (Index sh)]\<rparr>])
       shares shares"

(* src: pkg/recovery/recovery.go:57-66 Split (loop over the secret) *)
fun split_loop :: "nat \<Rightarrow> (nat \<Rightarrow> (nat \<Rightarrow> byte) option) \<Rightarrow> byte list \<Rightarrow> nat \<Rightarrow> share list
    \<Rightarrow> recovery_error + share list" where
  "split_loop threshold rnd [] byteIdx shares = Inr shares"
| "split_loop threshold rnd (b # secret) byteIdx shares =
     (case rnd byteIdx of
        None \<Rightarrow> Inl ErrCoefficients
      | Some f \<Rightarrow> split_loop threshold rnd secret (Suc byteIdx)
                    (split_fill (b # map f [0..<threshold - 1]) byteIdx shares))"

(* src: pkg/recovery/recovery.go:42-68 Split *)
definition Split :: "(nat \<Rightarrow> (nat \<Rightarrow> byte) option) \<Rightarrow> byte list \<Rightarrow> int \<Rightarrow> int
    \<Rightarrow> recovery_error + share list" where
  "Split rnd secret threshold n =
     (if length secret = 0 then Inl ErrEmptySecret
      else if threshold < 2 \<or> threshold > n \<or> n > 255 then Inl (ErrParameters threshold n)
      else split_loop (nat threshold) rnd secret 0 (split_init (nat n) (length secret)))"

section \<open>Combining\<close>

(* src: pkg/recovery/recovery.go:153-161 gfLagrange (inner loop) *)
definition gfLagrange_basis :: "byte list \<Rightarrow> nat \<Rightarrow> byte \<times> byte" where
  "gfLagrange_basis xs i =
     fold (\<lambda>j (num, den). if i = j then (num, den)
                          else (gfMul num (xs ! j), gfMul den (xs ! i XOR xs ! j)))
       [0..<length xs] (1, 1)"

(* src: pkg/recovery/recovery.go:150-165 gfLagrange *)
definition gfLagrange :: "byte list \<Rightarrow> byte list \<Rightarrow> byte" where
  "gfLagrange xs ys =
     fold (\<lambda>i result. let (num, den) = gfLagrange_basis xs i
                      in result XOR gfMul (ys ! i) (gfMul num (gfInv den)))
       [0..<length xs] 0"

(* src: pkg/recovery/recovery.go:72-95 Combine *)
definition Combine :: "share list \<Rightarrow> recovery_error + byte list" where
  "Combine shares =
     (if length shares < 2 then Inl ErrTooFewShares
      else let len = length (Value (shares ! 0)) in
        if \<exists>s\<in>set (drop 1 shares). length (Value s) \<noteq> len then Inl ErrInconsistentLengths
        else Inr (map (\<lambda>byteIdx. gfLagrange (map Index shares) (map (\<lambda>s. Value s ! byteIdx) shares))
                   [0..<len]))"

section \<open>What the shares hold\<close>

lemma split_fill_map:
  assumes "\<And>i. i < length shares \<Longrightarrow> Index (shares ! i) = of_nat (i + 1)" "length shares \<le> 255"
  shows "split_fill cs k shares = map (\<lambda>s. s\<lparr>Value := (Value s)[k := gfPolyEval cs (Index s)]\<rparr>) shares"
proof -
  let ?g = "\<lambda>s. s\<lparr>Value := (Value s)[k := gfPolyEval cs (Index s)]\<rparr>"
  let ?upd = "\<lambda>sh acc. let j = unat (Index sh - 1)
      in acc[j := (acc ! j)\<lparr>Value := (Value (acc ! j))[k := gfPolyEval cs (Index sh)]\<rparr>]"
  have "fold ?upd (take m shares) shares = map ?g (take m shares) @ drop m shares"
    if "m \<le> length shares" for m
    using that
  proof (induction m)
    case (Suc m)
    then have m: "m < length shares" by simp
    then have "Index (shares ! m) - 1 = of_nat m" using assms(1) by simp
    moreover have "unat (of_nat m :: byte) = m"
      using m assms(2) by (simp add: unat_of_nat)
    ultimately have ix: "unat (Index (shares ! m) - 1) = m" by simp
    have "fold ?upd (take (Suc m) shares) shares
        = ?upd (shares ! m) (map ?g (take m shares) @ drop m shares)"
      using Suc m by (simp add: take_Suc_conv_app_nth)
    also have "\<dots> = map ?g (take (Suc m) shares) @ drop (Suc m) shares"
      using m by (simp add: ix Let_def nth_append take_Suc_conv_app_nth list_update_append
          Cons_nth_drop_Suc [symmetric])
    finally show ?case .
  qed simp
  from this [of "length shares"] show ?thesis by (simp add: split_fill_def)
qed

text \<open>The closed form of a successful split.\<close>

definition share_of :: "nat \<Rightarrow> (nat \<Rightarrow> nat \<Rightarrow> byte) \<Rightarrow> byte list \<Rightarrow> nat \<Rightarrow> share" where
  "share_of t coef secret i =
     \<lparr>Index = of_nat (i + 1),
      Value = map (\<lambda>k. gfPolyEval (secret ! k # map (coef k) [0..<t - 1]) (of_nat (i + 1)))
                [0..<length secret]\<rparr>"

lemma split_loop_spec:
  assumes "length pre = k" "n \<le> 255" "\<And>j. j < length rest \<Longrightarrow> rnd (k + j) = Some (coef (k + j))"
    and "shares = map (\<lambda>i. \<lparr>Index = of_nat (i + 1),
           Value = Value (share_of t coef pre i) @ replicate (length rest) 0\<rparr>) [0..<n]"
  shows "split_loop t rnd rest k shares = Inr (map (share_of t coef (pre @ rest)) [0..<n])"
  using assms
proof (induction rest arbitrary: pre k shares)
  case Nil
  then show ?case by (simp add: share_of_def)
next
  case (Cons b rest)
  have r: "rnd k = Some (coef k)" using Cons.prems(3) [of 0] by simp
  let ?cs = "b # map (coef k) [0..<t - 1]"
  have fill: "split_fill ?cs k shares = map (\<lambda>i. \<lparr>Index = of_nat (i + 1),
      Value = Value (share_of t coef (pre @ [b]) i) @ replicate (length rest) 0\<rparr>) [0..<n]"
  proof -
    have ix: "Index (shares ! i) = of_nat (i + 1)" if "i < length shares" for i
      using that Cons.prems(4) by simp
    have len: "length shares \<le> 255" using Cons.prems(2,4) by simp
    have "split_fill ?cs k shares
        = map (\<lambda>s. s\<lparr>Value := (Value s)[k := gfPolyEval ?cs (Index s)]\<rparr>) shares"
      using ix len by (intro split_fill_map)
    also have "\<dots> = map (\<lambda>i. \<lparr>Index = of_nat (i + 1),
        Value = Value (share_of t coef (pre @ [b]) i) @ replicate (length rest) 0\<rparr>) [0..<n]"
      unfolding Cons.prems(4) using Cons.prems(1)
      by (auto simp: share_of_def list_update_append nth_append)
    finally show ?thesis .
  qed
  have more: "rnd (Suc k + j) = Some (coef (Suc k + j))" if "j < length rest" for j
    using Cons.prems(3) [of "Suc j"] that by simp
  have "split_loop t rnd rest (Suc k) (split_fill ?cs k shares)
      = Inr (map (share_of t coef ((pre @ [b]) @ rest)) [0..<n])"
    using Cons.prems(1,2) fill more by (intro Cons.IH) simp_all
  then show ?case by (simp add: r)
qed

lemma split_loop_fails:
  assumes "rnd j = None" "k \<le> j" "j < k + length rest"
  shows "split_loop t rnd rest k shares = Inl ErrCoefficients"
  using assms
proof (induction rest arbitrary: k shares)
  case (Cons b rest)
  then show ?case by (cases "k = j") (auto split: option.split)
qed simp

definition split_params_ok :: "byte list \<Rightarrow> int \<Rightarrow> int \<Rightarrow> bool" where
  "split_params_ok secret t n \<longleftrightarrow> secret \<noteq> [] \<and> 2 \<le> t \<and> t \<le> n \<and> n \<le> 255"

lemma Split_closed_form:
  assumes "split_params_ok secret t n" "\<And>j. j < length secret \<Longrightarrow> rnd j = Some (coef j)"
  shows "Split rnd secret t n = Inr (map (share_of (nat t) coef secret) [0..<nat n])"
proof -
  have "split_loop (nat t) rnd secret 0 (split_init (nat n) (length secret))
      = Inr (map (share_of (nat t) coef ([] @ secret)) [0..<nat n])"
    using assms by (intro split_loop_spec) (auto simp: split_params_ok_def split_init_def share_of_def)
  then show ?thesis
    using assms(1) by (auto simp: Split_def split_params_ok_def)
qed

lemma Split_success:
  assumes "Split rnd secret t n = Inr shares"
  shows "split_params_ok secret t n"
    and "\<exists>coef. (\<forall>j<length secret. rnd j = Some (coef j)) \<and>
          shares = map (share_of (nat t) coef secret) [0..<nat n]"
proof -
  show ok: "split_params_ok secret t n"
    using assms by (auto simp: Split_def split_params_ok_def split: if_splits)
  have "rnd j \<noteq> None" if "j < length secret" for j
    using assms that split_loop_fails [of rnd j 0 secret "nat t"] ok
    by (cases "rnd j") (auto simp: Split_def split_params_ok_def)
  then have "\<forall>j<length secret. rnd j = Some (the (rnd j))" by auto
  with Split_closed_form [OF ok, of rnd "\<lambda>j. the (rnd j)"] assms
  show "\<exists>coef. (\<forall>j<length secret. rnd j = Some (coef j)) \<and>
          shares = map (share_of (nat t) coef secret) [0..<nat n]"
    by auto
qed

section \<open>Interpolation of the shares\<close>

lemma gfLagrange_basis_fold:
  "fold (\<lambda>j (num, den). if i = j then (num, den)
      else (gfMul num (xs ! j), gfMul den (xs ! i XOR xs ! j))) js (n0, d0) = (n, d)
   \<Longrightarrow> distinct js \<Longrightarrow>
   gf_of n = gf_of n0 * (\<Prod>j\<in>set js - {i}. gf_of (xs ! j)) \<and>
   gf_of d = gf_of d0 * (\<Prod>j\<in>set js - {i}. gf_of (xs ! i) + gf_of (xs ! j))"
proof (induction js arbitrary: n0 d0)
  case (Cons j js)
  have "set (j # js) - {i} = (if i = j then set js - {i} else insert j (set js - {i}))" by auto
  with Cons show ?case by (auto simp: gf_of_hom mult.assoc split: if_splits)
qed simp

lemma gf_of_fold_xor:
  "distinct is \<Longrightarrow> gf_of (fold (\<lambda>i r. r XOR f i) is r) = gf_of r + (\<Sum>i\<in>set is. gf_of (f i))"
  by (induction "is" arbitrary: r) (simp_all add: gf_of_xor add.assoc)

lemma gf_of_gfLagrange:
  assumes "length ys = length xs"
  shows "gf_of (gfLagrange xs ys) = lagrange (map gf_of xs) (map gf_of ys) 0"
proof -
  have basis: "gf_of (fst (gfLagrange_basis xs i)) = (\<Prod>j\<in>{..<length xs} - {i}. gf_of (xs ! j))"
    "gf_of (snd (gfLagrange_basis xs i)) = (\<Prod>j\<in>{..<length xs} - {i}. gf_of (xs ! i) + gf_of (xs ! j))" for i
    using gfLagrange_basis_fold [of i xs "[0..<length xs]" 1 1 "fst (gfLagrange_basis xs i)"
        "snd (gfLagrange_basis xs i)"]
    by (simp_all add: gfLagrange_basis_def atLeast0LessThan)
  have "gfLagrange xs ys = fold (\<lambda>i r. r XOR gfMul (ys ! i)
      (gfMul (fst (gfLagrange_basis xs i)) (gfInv (snd (gfLagrange_basis xs i))))) [0..<length xs] 0"
    by (simp add: gfLagrange_def case_prod_unfold Let_def)
  then have "gf_of (gfLagrange xs ys) = (\<Sum>i<length xs. gf_of (ys ! i) *
      ((\<Prod>j\<in>{..<length xs} - {i}. gf_of (xs ! j)) *
       inverse (\<Prod>j\<in>{..<length xs} - {i}. gf_of (xs ! i) + gf_of (xs ! j))))"
    by (simp add: gf_of_fold_xor gf_of_hom gf_of_gfInv basis atLeast0LessThan)
  also have "\<dots> = lagrange (map gf_of xs) (map gf_of ys) 0"
    unfolding lagrange_def length_map using assms
    by (intro sum.cong arg_cong2 [where f = "(*)"] arg_cong [where f = inverse] prod.cong refl)
      (simp_all add: gf_minus_eq_plus)
  finally show ?thesis .
qed

lemma gf_of_polyEval_horner: "gf_of (gfPolyEval cs x) = horner (map gf_of cs) (gf_of x)"
  by (simp add: gf_of_polyEval horner_def)

lemma gfLagrange_recovers:
  assumes "distinct xs" "length cs \<le> length xs" "cs \<noteq> []"
    and ys: "ys = map (gfPolyEval cs) xs"
  shows "gfLagrange xs ys = cs ! 0"
proof -
  have inj: "distinct (map gf_of xs)"
    using assms(1) by (simp add: distinct_map inj_on_def)
  have pf: "polyfun (length cs) (horner (map gf_of cs))"
    by (rule polyfunI [of "map gf_of cs"]) simp_all
  have "lagrange (map gf_of xs) (map gf_of ys) 0 = horner (map gf_of cs) 0"
    using assms(2)
    by (intro lagrange_recovers [OF inj pf]) (simp_all add: ys gf_of_polyEval_horner)
  also have "\<dots> = gf_of (cs ! 0)" using assms(3) by (cases cs) simp_all
  finally show ?thesis
    using gf_of_gfLagrange [of ys xs] ys by (simp flip: gf_of_inject_iff)
qed

lemma unat_byte_of_nat: "m < 256 \<Longrightarrow> unat (of_nat m :: byte) = m"
  by (simp add: unat_of_nat)

lemma of_nat_byte_inj: "i < 256 \<Longrightarrow> j < 256 \<Longrightarrow> (of_nat i :: byte) = of_nat j \<longleftrightarrow> i = j"
  by (auto dest: arg_cong [where f = unat] simp: unat_of_nat)

lemma share_of_inj: "i < 255 \<Longrightarrow> j < 255 \<Longrightarrow> Index (share_of t c s i) = Index (share_of t c s j) \<longleftrightarrow> i = j"
  using of_nat_byte_inj [of "i + 1" "j + 1"] by (simp add: share_of_def)

lemma share_Index_nonzero: "i < 255 \<Longrightarrow> Index (share_of t c s i) \<noteq> 0"
  using of_nat_byte_inj [of "i + 1" 0] by (simp add: share_of_def)

lemma Combine_same_length:
  assumes "2 \<le> length shares" "\<And>s. s \<in> set shares \<Longrightarrow> length (Value s) = len"
  shows "Combine shares = Inr (map (\<lambda>k. gfLagrange (map Index shares) (map (\<lambda>s. Value s ! k) shares)) [0..<len])"
proof -
  have "shares ! 0 \<in> set shares" using assms(1) by (intro nth_mem) linarith
  moreover have "set (drop 1 shares) \<subseteq> set shares" by (rule set_drop_subset)
  ultimately show ?thesis
    using assms by (auto simp: Combine_def Let_def)
qed

text \<open>Any values at fewer than \<open>m + 1\<close> share positions are met by some polynomial with a given
  constant term and \<open>m\<close> further coefficients.\<close>

lemma matching_coefficients:
  assumes "I \<subseteq> {..<255}" "card I \<le> m"
  shows "\<exists>cs. length cs = m \<and> (\<forall>i\<in>I. gfPolyEval (s # cs) (of_nat (i + 1)) = y i)"
proof -
  have "finite I" using assms(1) by (rule finite_subset) simp
  from finite_distinct_list [OF this] obtain ns where ns: "set ns = I" "distinct ns" by blast
  from distinct_card [OF ns(2)] have len: "length ns = card I" by (simp add: ns(1))
  define xs where "xs = map (\<lambda>i. gf_of (of_nat (i + 1))) ns"
  have bound: "i + 1 < 256" if "i \<in> set ns" for i using that ns(1) assms(1) by auto
  have "inj_on (\<lambda>i. gf_of (of_nat (i + 1))) (set ns)"
  proof (rule inj_onI)
    fix i j assume "i \<in> set ns" "j \<in> set ns" "gf_of (of_nat (i + 1)) = gf_of (of_nat (j + 1))"
    then show "i = j"
      using of_nat_byte_inj [of "i + 1" "j + 1"] bound [of i] bound [of j] by (simp only: gf_of_inject_iff)
  qed
  then have "distinct xs" using ns(2) by (simp only: xs_def distinct_map)
  moreover have "0 \<notin> set xs"
  proof
    assume "0 \<in> set xs"
    then obtain i where i: "i \<in> set ns" "gf_of (of_nat (i + 1)) = 0" unfolding xs_def by auto
    then show False
      using of_nat_byte_inj [of "i + 1" 0] bound [of i] by (simp only: gf_of_eq_0_iff) simp
  qed
  ultimately obtain ds where ds: "length ds = length xs"
    "\<And>i. i < length xs \<Longrightarrow> horner (gf_of s # ds) (xs ! i) = map (\<lambda>i. gf_of (y i)) ns ! i"
    by (rule interpolating_coefficients) blast
  define cs where "cs = map byte_of ds @ replicate (m - length ns) 0"
  have cs: "map gf_of cs = ds @ replicate (m - length ns) 0"
    by (simp add: cs_def byte_of_inverse map_idI)
  have "gfPolyEval (s # cs) (of_nat (i + 1)) = y i" if i: "i \<in> I" for i
  proof -
    obtain k where k: "k < length ns" "ns ! k = i" using i [folded ns(1)] by (auto simp: in_set_conv_nth)
    have "gf_of (gfPolyEval (s # cs) (of_nat (i + 1))) = horner (gf_of s # ds) (gf_of (of_nat (i + 1)))"
      by (simp add: gf_of_polyEval_horner cs del: of_nat_add)
    also have "\<dots> = gf_of (y i)" using ds(2) [of k] k by (simp add: xs_def del: of_nat_add)
    finally show ?thesis by simp
  qed
  moreover have "length cs = m" using ds(1) len assms(2) by (simp add: cs_def xs_def)
  ultimately show ?thesis by blast
qed

section \<open>Properties\<close>

text \<open>C12: reconstruction.  Whenever \<open>Split\<close> succeeds, \<open>Combine\<close> applied to any threshold-or-more
  different shares of the result, in any order, returns exactly the secret.\<close>

theorem Combine_Split:
  assumes "Split rnd secret threshold n = Inr shares"
    and "set sub \<subseteq> set shares" "distinct sub" "threshold \<le> int (length sub)"
  shows "Combine sub = Inr secret"
proof -
  obtain coef where ok: "split_params_ok secret threshold n"
    and shares: "shares = map (share_of (nat threshold) coef secret) [0..<nat n]"
    using Split_success [OF assms(1)] by blast
  let ?sh = "share_of (nat threshold) coef secret"
  let ?cs = "\<lambda>k. secret ! k # map (coef k) [0..<nat threshold - 1]"
  have n: "nat n \<le> 255" and t: "2 \<le> nat threshold" and len: "nat threshold \<le> length sub"
    using ok assms(4) by (auto simp: split_params_ok_def)
  have mem: "\<exists>i<255. s = ?sh i" if "s \<in> set sub" for s
  proof -
    from that assms(2) have "s \<in> set shares" by blast
    then obtain i where "i < nat n" "s = ?sh i" by (auto simp: shares)
    with n show ?thesis by (intro exI [of _ i]) simp
  qed
  have "inj_on Index (set sub)"
  proof (rule inj_onI)
    fix s s' assume "s \<in> set sub" "s' \<in> set sub" "Index s = Index s'"
    with mem [of s] mem [of s'] show "s = s'" by (auto simp: share_of_inj)
  qed
  then have dist: "distinct (map Index sub)"
    using assms(3) by (simp add: distinct_map)
  have lengths: "length (Value s) = length secret" if "s \<in> set sub" for s
    using mem [OF that] by (auto simp: share_of_def)
  have byte: "gfLagrange (map Index sub) (map (\<lambda>s. Value s ! k) sub) = secret ! k"
    if k: "k < length secret" for k
  proof -
    have "map (\<lambda>s. Value s ! k) sub = map (gfPolyEval (?cs k)) (map Index sub)"
      using k by (auto dest!: mem simp: share_of_def)
    moreover have "length (?cs k) \<le> length (map Index sub)"
      using len t by simp
    ultimately have "gfLagrange (map Index sub) (map (\<lambda>s. Value s ! k) sub) = ?cs k ! 0"
      using dist by (intro gfLagrange_recovers) auto
    then show ?thesis by simp
  qed
  have "Combine sub = Inr (map (\<lambda>k. secret ! k) [0..<length secret])"
    using Combine_same_length [of sub "length secret", OF _ lengths] len t byte by auto
  then show ?thesis by (simp add: map_nth)
qed

text \<open>C13: secrecy.  Fewer than \<open>threshold\<close> shares are consistent with every secret of the same
  length: for each such secret there are random bytes with which \<open>Split\<close> hands out the very same
  shares at those positions.\<close>

theorem few_shares_reveal_nothing:
  assumes "Split rnd secret threshold n = Inr shares"
    and "I \<subseteq> {..<nat n}" "int (card I) < threshold" "length secret' = length secret"
  shows "\<exists>rnd' shares'. Split rnd' secret' threshold n = Inr shares' \<and> (\<forall>i\<in>I. shares' ! i = shares ! i)"
proof -
  obtain coef where ok: "split_params_ok secret threshold n"
    and shares: "shares = map (share_of (nat threshold) coef secret) [0..<nat n]"
    using Split_success [OF assms(1)] by blast
  have I: "I \<subseteq> {..<255}" "card I \<le> nat threshold - 1"
    using assms(2,3) ok by (auto simp: split_params_ok_def)
  have "\<forall>k. \<exists>cs. length cs = nat threshold - 1 \<and> (\<forall>i\<in>I. gfPolyEval (secret' ! k # cs) (of_nat (i + 1))
      = Value (share_of (nat threshold) coef secret i) ! k)"
    by (intro allI matching_coefficients [OF I])
  from choice [OF this] obtain cs where cs: "\<And>k. length (cs k) = nat threshold - 1"
    "\<And>k i. i \<in> I \<Longrightarrow> gfPolyEval (secret' ! k # cs k) (of_nat (i + 1))
        = Value (share_of (nat threshold) coef secret i) ! k"
    by blast
  define coef' where "coef' k = nth (cs k)" for k
  have coef': "map (coef' k) [0..<nat threshold - 1] = cs k" for k
    using cs(1) [of k] map_nth [of "cs k"] by (simp add: coef'_def)
  have same: "share_of (nat threshold) coef' secret' i = share_of (nat threshold) coef secret i"
    if "i \<in> I" for i
    using cs(2) [OF that] assms(4) unfolding share_of_def coef' by simp
  have "split_params_ok secret' threshold n"
    using ok assms(4) by (auto simp: split_params_ok_def)
  from Split_closed_form [OF this, of "\<lambda>k. Some (coef' k)"]
  have "Split (\<lambda>k. Some (coef' k)) secret' threshold n
      = Inr (map (share_of (nat threshold) coef' secret') [0..<nat n])" by simp
  moreover have "map (share_of (nat threshold) coef' secret') [0..<nat n] ! i = shares ! i" if "i \<in> I" for i
    using same [OF that] that assms(2) by (auto simp: shares)
  ultimately show ?thesis by blast
qed

text \<open>\<open>Split\<close> returns shares exactly when the secret is non-empty, \<open>2 \<le> threshold \<le> n \<le> 255\<close>
  and every read of random bytes succeeds; it then hands out \<open>n\<close> shares with the indices
  \<open>1, \<dots>, n\<close>, each as long as the secret.\<close>

theorem Split_total:
  "(\<exists>shares. Split rnd secret threshold n = Inr shares \<and> length shares = nat n \<and>
      (\<forall>i<nat n. unat (Index (shares ! i)) = i + 1 \<and> length (Value (shares ! i)) = length secret))
   \<longleftrightarrow> secret \<noteq> [] \<and> 2 \<le> threshold \<and> threshold \<le> n \<and> n \<le> 255 \<and> (\<forall>j<length secret. rnd j \<noteq> None)"
  (is "?L \<longleftrightarrow> ?R")
proof
  assume ?L
  then obtain shares where "Split rnd secret threshold n = Inr shares" by blast
  from Split_success [OF this] show ?R by (auto simp: split_params_ok_def)
next
  assume r: ?R
  then have "\<forall>j<length secret. rnd j = Some (the (rnd j))" by auto
  with r Split_closed_form [of secret threshold n rnd "\<lambda>j. the (rnd j)"]
  have "Split rnd secret threshold n = Inr (map (share_of (nat threshold) (\<lambda>j. the (rnd j)) secret) [0..<nat n])"
    by (auto simp: split_params_ok_def)
  moreover have "unat (of_nat (i + 1) :: byte) = i + 1" if "i < nat n" for i
    using that r by (intro unat_byte_of_nat) linarith
  ultimately show ?L by (auto simp: share_of_def)
qed

text \<open>Parsing the textual form of a share with a non-empty value gives the share back, and
  the text is two hex digits, a colon and two hex digits per byte.\<close>

theorem ParseHex_Hex:
  "Value s \<noteq> [] \<Longrightarrow> ParseHex (share_Hex s) = Inr s \<and> length (share_Hex s) = 3 + 2 * length (Value s)"
proof -
  assume v: "Value s \<noteq> []"
  define h e where "h = hex_encode [Index s]" and "e = hex_encode (Value s)"
  have h: "length h = 2" "hex_decode h = Some [Index s]"
    unfolding h_def by (simp_all only: length_hex_encode hex_decode_encode) simp
  have e: "length e = 2 * length (Value s)" "hex_decode e = Some (Value s)"
    unfolding e_def by (simp_all add: length_hex_encode hex_decode_encode)
  then have "2 \<le> length e" using v by (cases "Value s") simp_all
  then have ge: "4 \<le> length (h @ '':'' @ e)" using h(1) by simp
  have "ParseHex (h @ '':'' @ e) = Inr \<lparr>Index = Index s, Value = Value s\<rparr>"
    using h e ge v by (simp add: ParseHex_def nth_append)
  with h(1) e(1) show ?thesis unfolding share_Hex_def h_def [symmetric] e_def [symmetric] by simp
qed

section \<open>Witnesses\<close>

definition demo_rnd :: "nat \<Rightarrow> (nat \<Rightarrow> byte) option" where
  "demo_rnd k = Some (\<lambda>j. of_nat (7 * k + 3 * j + 1))"

definition demo_shares :: "share list" where
  "demo_shares = (case Split demo_rnd [0x2a, 0xff] 2 3 of Inr s \<Rightarrow> s | Inl _ \<Rightarrow> [])"

lemma demo_Split:
  "Split demo_rnd [0x2a, 0xff] 2 3 = Inr demo_shares"
proof -
  have "split_params_ok [0x2a, 0xff] 2 3" by (simp add: split_params_ok_def)
  from Split_closed_form [OF this, of demo_rnd "\<lambda>k. the (demo_rnd k)"]
  show ?thesis by (simp add: demo_shares_def demo_rnd_def)
qed

lemma demo_shares_indices: "map Index demo_shares = [1, 2, 3]"
proof -
  have "split_params_ok [0x2a, 0xff] 2 3" by (simp add: split_params_ok_def)
  from Split_closed_form [OF this, of demo_rnd "\<lambda>k. the (demo_rnd k)"]
  show ?thesis by (simp add: demo_shares_def demo_rnd_def share_of_def upt_rec)
qed

theorem Combine_Split_witness:
  "Combine [demo_shares ! 2, demo_shares ! 0] = Inr [0x2a, 0xff]"
proof (rule Combine_Split [OF demo_Split])
  have "length demo_shares = length (map Index demo_shares)" by simp
  then have l: "length demo_shares = 3" by (simp only: demo_shares_indices) simp
  have ix: "map Index demo_shares ! i = [1, 2, 3] ! i" for i by (simp only: demo_shares_indices)
  show "set [demo_shares ! 2, demo_shares ! 0] \<subseteq> set demo_shares"
    using l by simp
  have "Index (demo_shares ! 2) \<noteq> Index (demo_shares ! 0)"
    using ix [of 2] ix [of 0] l by simp
  then show "distinct [demo_shares ! 2, demo_shares ! 0]" by auto
qed simp

theorem few_shares_reveal_nothing_witness:
  "\<exists>rnd' shares'. Split rnd' [0, 1] 2 3 = Inr shares' \<and> shares' ! 1 = demo_shares ! 1"
  using few_shares_reveal_nothing [OF demo_Split, of "{1}" "[0, 1]"] by simp

theorem Split_total_witness:
  "\<exists>shares. Split demo_rnd [0x2a, 0xff] 2 3 = Inr shares \<and> length shares = 3"
  using Split_total [of demo_rnd "[0x2a, 0xff]" 2 3] by (auto simp: demo_rnd_def)

theorem ParseHex_Hex_witness:
  "Value \<lparr>Index = 0x0a, Value = [0xff]\<rparr> \<noteq> [] \<and>
   ParseHex (share_Hex \<lparr>Index = 0x0a, Value = [0xff]\<rparr>) = Inr \<lparr>Index = 0x0a, Value = [0xff]\<rparr>"
  using ParseHex_Hex [of "\<lparr>Index = 0x0a, Value = [0xff]\<rparr>"] by simp

end
