(* ===== verification/Schema.thy ===== *)
theory Schema
  imports Go_Json
begin

text \<open>
  The credential schema registry, \<^verbatim>\<open>src/pkg/schema/registry.go\<close>, and the schema documents of
  \<^verbatim>\<open>src/pkg/schema/validate.go\<close>.  The two package-level maps are the fields of \<open>registry\<close>; a Go map
  is an association list whose order stands for one of the orders in which a range over the map
  may run, so the properties of the listing operations are stated over sets.  A panic of
  \<open>RegisterSchema\<close> is the result \<open>None\<close>.  The JSON Schema library is a parameter of \<open>Validate\<close>.
\<close>

section \<open>Types\<close>

(* src: pkg/schema/registry.go:11-17 Source *)
datatype source = SourceCore | SourceCommunity | SourceThirdParty | SourceOther string

(* src: pkg/schema/registry.go:20-25 ClaimDefinition *)
record claim_definition =
  cl_Name :: string
  cl_Type :: string
  cl_Required :: bool
  cl_Description :: string

(* src: pkg/schema/registry.go:28-33 Category *)
record category =
  cat_ID :: string
  cat_Name :: string
  cat_Description :: string
  cat_Icon :: string

(* src: pkg/schema/registry.go:36-55 Schema *)
record schema =
  sch_ID :: string
  sch_CategoryID :: string
  sch_Name :: string
  sch_Description :: string
  sch_Version :: int
  sch_ExtraSensitive :: bool
  sch_Claims :: "claim_definition list"
  sch_Source :: source

text \<open>The zero values a composite literal starts from.\<close>

definition zero_claim :: claim_definition where
  "zero_claim = \<lparr>cl_Name = [], cl_Type = [], cl_Required = False, cl_Description = []\<rparr>"

definition zero_schema :: schema where
  "zero_schema = \<lparr>sch_ID = [], sch_CategoryID = [], sch_Name = [], sch_Description = [], sch_Version = 0,
     sch_ExtraSensitive = False, sch_Claims = [], sch_Source = SourceOther []\<rparr>"

section \<open>Versioned identifiers\<close>

(* src: pkg/schema/registry.go:59-65 Schema.VersionedID *)
definition VersionedID :: "schema \<Rightarrow> string" where
  "VersionedID s =
     (let v = sch_Version s; v = (if v \<le> 0 then 1 else v) in sch_ID s @ ''-v'' @ itoa v)"

(* src: pkg/schema/registry.go:69-77 BaseID *)
definition BaseID :: "string \<Rightarrow> string" where
  "BaseID sid =
     (case last_index sid ''-v'' of
        None \<Rightarrow> sid
      | Some idx \<Rightarrow>
          if idx > 0 then
            (case atoi (drop (idx + 2) sid) of Some _ \<Rightarrow> take idx sid | None \<Rightarrow> sid)
          else sid)"

(* src: pkg/schema/registry.go:123-131 baseID *)
definition baseID :: "string \<Rightarrow> string" where
  "baseID sid =
     (case last_index sid ''-v'' of
        None \<Rightarrow> sid
      | Some idx \<Rightarrow>
          if idx > 0 then
            (case atoi (drop (idx + 2) sid) of Some _ \<Rightarrow> take idx sid | None \<Rightarrow> sid)
          else sid)"

section \<open>The registry\<close>

(* src: pkg/schema/registry.go:79-83 categories, schemas *)
record registry =
  categories :: "(string \<times> category) list"
  schemas :: "(string \<times> schema) list"

definition empty_registry :: registry where
  "empty_registry = \<lparr>categories = [], schemas = []\<rparr>"

(* src: pkg/schema/registry.go:86-90 RegisterCategory *)
definition RegisterCategory :: "category \<Rightarrow> registry \<Rightarrow> registry" where
  "RegisterCategory c r = r\<lparr>categories := map_put (cat_ID c) c (categories r)\<rparr>"

(* src: pkg/schema/registry.go:94-101 RegisterSchema *)
definition RegisterSchema :: "schema \<Rightarrow> registry \<Rightarrow> registry option" where
  "RegisterSchema s r =
     (case map_of (schemas r) (sch_ID s) of
        Some _ \<Rightarrow> None
      | None \<Rightarrow> Some (r\<lparr>schemas := map_put (sch_ID s) s (schemas r)\<rparr>))"

datatype schema_error = ErrSchemaNotFound string | ErrCategoryNotFound string
  | ErrCompileSchema string | ErrInvalidClaims string

(* src: pkg/schema/registry.go:106-120 GetSchema *)
definition GetSchema :: "registry \<Rightarrow> string \<Rightarrow> schema_error + schema" where
  "GetSchema r sid =
     (case map_of (schemas r) sid of
        Some s \<Rightarrow> Inr s
      | None \<Rightarrow>
          let base = baseID sid in
          if base \<noteq> sid then
            (case map_of (schemas r) base of Some s \<Rightarrow> Inr s | None \<Rightarrow> Inl (ErrSchemaNotFound sid))
          else Inl (ErrSchemaNotFound sid))"

(* src: pkg/schema/registry.go:134-142 GetCategory *)
definition GetCategory :: "registry \<Rightarrow> string \<Rightarrow> schema_error + category" where
  "GetCategory r sid =
     (case map_of (categories r) sid of Some c \<Rightarrow> Inr c | None \<Rightarrow> Inl (ErrCategoryNotFound sid))"

(* src: pkg/schema/registry.go:145-155 SchemasForCategory *)
definition SchemasForCategory :: "registry \<Rightarrow> string \<Rightarrow> schema list" where
  "SchemasForCategory r categoryID = filter (\<lambda>s. sch_CategoryID s = categoryID) (map snd (schemas r))"

(* src: pkg/schema/registry.go:158-166 AllCategories *)
definition AllCategories :: "registry \<Rightarrow> category list" where
  "AllCategories r = map snd (categories r)"

(* src: pkg/schema/registry.go:169-177 AllSchemas *)
definition AllSchemas :: "registry \<Rightarrow> schema list" where
  "AllSchemas r = map snd (schemas r)"

(* src: pkg/schema/registry.go:180-185 IsExtraSensitive *)
definition IsExtraSensitive :: "registry \<Rightarrow> string \<Rightarrow> bool" where
  "IsExtraSensitive r sid = (case map_of (schemas r) sid of Some s \<Rightarrow> sch_ExtraSensitive s | None \<Rightarrow> False)"

text \<open>The loop \<^verbatim>\<open>for _, s := range [...] { schema.RegisterSchema(s) }\<close> of the core schema files.\<close>

fun register_all :: "schema list \<Rightarrow> registry \<Rightarrow> registry option" where
  "register_all [] r = Some r"
| "register_all (s # ss) r = (case RegisterSchema s r of None \<Rightarrow> None | Some r' \<Rightarrow> register_all ss r')"

section \<open>Schema documents and validation\<close>

(* src: pkg/schema/validate.go:111-124 claimProp *)
definition claimProp :: "string \<Rightarrow> json" where
  "claimProp typ =
     (if typ = ''date'' then JObj [(''type'', JStr ''string''), (''format'', JStr ''date'')]
      else if typ = ''number'' then
        JObj [(''type'', JStr ''string''), (''pattern'', JStr (''^-?[0-9]+('' @ [CHR 0x5C] @ ''.[0-9]+)?$''))]
      else if typ = ''boolean'' then JObj [(''enum'', JArr [JStr ''true'', JStr ''false''])]
      else JObj [(''type'', JStr ''string''), (''minLength'', JNum 1)])"

(* src: pkg/schema/validate.go:88-107 schemaDoc *)
definition schemaDoc :: "schema \<Rightarrow> json" where
  "schemaDoc s =
     (let props = fold (\<lambda>def. map_put (cl_Name def) (claimProp (cl_Type def))) (sch_Claims s) [];
          required = map cl_Name (filter cl_Required (sch_Claims s))
      in JObj ([(''$schema'', JStr ''https://json-schema.org/draft/2020-12/schema''),
                (''type'', JStr ''object''),
                (''properties'', JObj props),
                (''additionalProperties'', JBool True)] @
               (if length required > 0 then [(''required'', json_strs required)] else [])))"

text \<open>The JSON Schema compiler: \<open>js_compile url doc\<close> is the compiled schema, if it compiles, and
  \<open>js_validate sch data\<close> whether the data satisfies it.\<close>

(* src: pkg/schema/validate.go:74-84 compileSchema *)
definition compileSchema :: "(string \<Rightarrow> json \<Rightarrow> 'c option) \<Rightarrow> schema \<Rightarrow> 'c option" where
  "compileSchema js_compile s = js_compile (''tpt://'' @ sch_ID s @ ''.json'') (schemaDoc s)"

(* src: pkg/schema/validate.go:58-72 compiledFor *)
definition compiledFor :: "(string \<Rightarrow> json \<Rightarrow> 'c option) \<Rightarrow> registry \<Rightarrow> (string \<rightharpoonup> 'c) \<Rightarrow> string
    \<Rightarrow> (schema_error + 'c) \<times> (string \<rightharpoonup> 'c)" where
  "compiledFor js_compile r cache schemaID =
     (case GetSchema r schemaID of
        Inl e \<Rightarrow> (Inl e, cache)
      | Inr s \<Rightarrow>
          (case cache (sch_ID s) of
             Some sch \<Rightarrow> (Inr sch, cache)
           | None \<Rightarrow>
               (case compileSchema js_compile s of
                  None \<Rightarrow> (Inl (ErrCompileSchema (sch_ID s)), cache)
                | Some sch \<Rightarrow> (Inr sch, cache(sch_ID s \<mapsto> sch)))))"

(* src: pkg/schema/validate.go:17-31 Validate *)
definition Validate :: "(string \<Rightarrow> json \<Rightarrow> 'c option) \<Rightarrow> ('c \<Rightarrow> (string \<times> json) list \<Rightarrow> bool) \<Rightarrow> registry
    \<Rightarrow> (string \<rightharpoonup> 'c) \<Rightarrow> string \<Rightarrow> (string \<times> string) list \<Rightarrow> (schema_error + unit) \<times> (string \<rightharpoonup> 'c)" where
  "Validate js_compile js_validate r cache schemaID claims =
     (case compiledFor js_compile r cache schemaID of
        (Inl e, cache') \<Rightarrow> (Inl e, cache')
      | (Inr sch, cache') \<Rightarrow>
          (if js_validate sch (map (\<lambda>(k, v). (k, JStr v)) claims) then (Inr (), cache')
           else (Inl (ErrInvalidClaims schemaID), cache')))"

text \<open>A claim value as \<^verbatim>\<open>ValidateAny\<close> receives it: \<open>AnyFloat\<close> carries the text
  \<^verbatim>\<open>strconv.FormatFloat(val, 'f', -1, 64)\<close> and \<open>AnyOther\<close> the text of \<^verbatim>\<open>%v\<close>.\<close>

datatype any_claim = AnyString string | AnyFloat string | AnyBool bool | AnyOther string

(* src: pkg/schema/validate.go:39-52 ValidateAny (conversion) *)
fun claim_string :: "any_claim \<Rightarrow> string" where
  "claim_string (AnyString s) = s"
| "claim_string (AnyFloat s) = s"
| "claim_string (AnyBool b) = (if b then ''true'' else ''false'')"
| "claim_string (AnyOther s) = s"

(* src: pkg/schema/validate.go:36-55 ValidateAny *)
definition ValidateAny :: "(string \<Rightarrow> json \<Rightarrow> 'c option) \<Rightarrow> ('c \<Rightarrow> (string \<times> json) list \<Rightarrow> bool) \<Rightarrow> registry
    \<Rightarrow> (string \<rightharpoonup> 'c) \<Rightarrow> string \<Rightarrow> (string \<times> any_claim) list \<Rightarrow> (schema_error + unit) \<times> (string \<rightharpoonup> 'c)" where
  "ValidateAny js_compile js_validate r cache schemaID claims =
     Validate js_compile js_validate r cache schemaID (map (\<lambda>(k, v). (k, claim_string v)) claims)"

section \<open>Lemmas\<close>

lemma baseID_eq: "baseID = BaseID"
  by (rule ext) (simp add: baseID_def BaseID_def)

text \<open>Invariant of the registry: every entry is filed under its own identifier, once.\<close>

definition registry_ok :: "registry \<Rightarrow> bool" where
  "registry_ok r \<longleftrightarrow>
     (\<forall>(k, c)\<in>set (categories r). k = cat_ID c) \<and> distinct (map fst (categories r)) \<and>
     (\<forall>(k, s)\<in>set (schemas r). k = sch_ID s) \<and> distinct (map fst (schemas r))"

lemma RegisterCategory_ok: "registry_ok r \<Longrightarrow> registry_ok (RegisterCategory c r)"
  unfolding registry_ok_def RegisterCategory_def
  by (auto simp: distinct_map_put dest!: map_put_entries)

lemma RegisterSchema_ok: "RegisterSchema s r = Some r' \<Longrightarrow> registry_ok r \<Longrightarrow> registry_ok r'"
  unfolding registry_ok_def RegisterSchema_def
  by (auto simp: distinct_map_put dest!: map_put_entries split: option.splits)

lemma RegisterSchema_fresh:
  "sch_ID s \<notin> fst ` set (schemas r) \<Longrightarrow> RegisterSchema s r = Some (r\<lparr>schemas := schemas r @ [(sch_ID s, s)]\<rparr>)"
  by (simp add: RegisterSchema_def map_put_fresh map_of_eq_None_iff split: option.split)

lemma register_all_fresh:
  "distinct (map sch_ID ss) \<Longrightarrow> (\<forall>s\<in>set ss. sch_ID s \<notin> fst ` set (schemas r)) \<Longrightarrow>
   register_all ss r = Some (r\<lparr>schemas := schemas r @ map (\<lambda>s. (sch_ID s, s)) ss\<rparr>)"
proof (induction ss arbitrary: r)
  case (Cons s ss)
  then have "RegisterSchema s r = Some (r\<lparr>schemas := schemas r @ [(sch_ID s, s)]\<rparr>)"
    by (intro RegisterSchema_fresh) simp
  moreover have "register_all ss (r\<lparr>schemas := schemas r @ [(sch_ID s, s)]\<rparr>)
      = Some (r\<lparr>schemas := schemas r @ (sch_ID s, s) # map (\<lambda>s. (sch_ID s, s)) ss\<rparr>)"
    using Cons.prems by (subst Cons.IH) (auto simp: image_iff)
  ultimately show ?case by simp
qed simp

lemma BaseID_VersionedID:
  assumes "sch_ID s \<noteq> []" "sch_Version s < 2 ^ 63"
  shows "BaseID (VersionedID s) = sch_ID s"
proof -
  define v where "v = (if sch_Version s \<le> 0 then 1 else sch_Version s)"
  have v: "0 \<le> v" "v < 2 ^ 63" using assms(2) by (auto simp: v_def)
  then have "CHR ''-'' \<notin> set (itoa v)" by (simp add: itoa_def minus_notin_show_nat)
  then have "last_index (sch_ID s @ CHR ''-'' # ''v'' @ itoa v) (CHR ''-'' # ''v'') = Some (length (sch_ID s))"
    by (intro last_index_hit) simp_all
  moreover have "atoi (itoa v) = Some v" using v by (intro atoi_itoa) simp_all
  moreover have "VersionedID s = sch_ID s @ CHR ''-'' # ''v'' @ itoa v"
    by (simp add: VersionedID_def v_def)
  ultimately show ?thesis
    using assms(1) by (simp add: BaseID_def)
qed

lemma GetSchema_base: "map_of (schemas r) sid = Some s \<Longrightarrow> GetSchema r sid = Inr s"
  by (simp add: GetSchema_def)

lemma GetSchema_found:
  "GetSchema r sid = Inr s \<Longrightarrow> map_of (schemas r) sid = Some s \<or>
     map_of (schemas r) sid = None \<and> map_of (schemas r) (BaseID sid) = Some s"
  by (auto simp: GetSchema_def Let_def baseID_eq split: option.splits if_splits)

lemma GetSchema_registered: "registry_ok r \<Longrightarrow> GetSchema r sid = Inr s \<Longrightarrow> (sch_ID s, s) \<in> set (schemas r)"
  by (auto dest!: GetSchema_found map_of_SomeD simp: registry_ok_def)

lemma registry_ok_lookup:
  "registry_ok r \<Longrightarrow> (k, s) \<in> set (schemas r) \<Longrightarrow> map_of (schemas r) (sch_ID s) = Some s"
  by (auto simp: registry_ok_def)

text \<open>A schema of the registry is found under its plain identifier, and under the versioned
  identifier that issued credentials carry, unless that versioned identifier is itself registered.\<close>

theorem GetSchema_versioned:
  assumes "registry_ok r" "(k, s) \<in> set (schemas r)" "sch_ID s \<noteq> []" "sch_Version s < 2 ^ 63"
    and "map_of (schemas r) (VersionedID s) = None"
  shows "GetSchema r (sch_ID s) = Inr s \<and> GetSchema r (VersionedID s) = Inr s \<and>
         BaseID (VersionedID s) = sch_ID s"
proof -
  have reg: "map_of (schemas r) (sch_ID s) = Some s"
    using assms(1,2) by (rule registry_ok_lookup)
  have base: "BaseID (VersionedID s) = sch_ID s"
    using assms(3,4) by (rule BaseID_VersionedID)
  moreover have "VersionedID s \<noteq> sch_ID s" using reg assms(5) by auto
  ultimately show ?thesis
    using reg assms(5) by (simp add: GetSchema_def baseID_eq Let_def)
qed

text \<open>The cache holds compiled forms of registered schemas only.\<close>

definition cache_ok :: "(string \<Rightarrow> json \<Rightarrow> 'c option) \<Rightarrow> registry \<Rightarrow> (string \<rightharpoonup> 'c) \<Rightarrow> bool" where
  "cache_ok js_compile r cache \<longleftrightarrow>
     (\<forall>sid c. cache sid = Some c \<longrightarrow> (\<exists>s. map_of (schemas r) sid = Some s \<and> compileSchema js_compile s = Some c))"

lemma cache_okD:
  "cache_ok js r cache \<Longrightarrow> cache (sch_ID s) = Some c \<Longrightarrow> map_of (schemas r) (sch_ID s) = Some s
   \<Longrightarrow> compileSchema js s = Some c"
  unfolding cache_ok_def by fastforce

text \<open>C29: the cache of compiled schemas is transparent: starting from a cache that agrees with the
  registry, validation gives the same result as compiling afresh, and the cache it leaves agrees
  with the registry again.\<close>

theorem Validate_cache_transparent:
  assumes "registry_ok r" "cache_ok js_compile r cache"
  shows "fst (Validate js_compile js_validate r cache schemaID claims)
       = fst (Validate js_compile js_validate r Map.empty schemaID claims) \<and>
     cache_ok js_compile r (snd (Validate js_compile js_validate r cache schemaID claims))"
proof (cases "GetSchema r schemaID")
  case (Inl e)
  with assms show ?thesis by (simp add: Validate_def compiledFor_def)
next
  case (Inr s)
  with assms(1) have reg: "map_of (schemas r) (sch_ID s) = Some s"
    by (blast intro: registry_ok_lookup GetSchema_registered)
  show ?thesis
  proof (cases "cache (sch_ID s)")
    case None
    with Inr reg assms(2) show ?thesis
      by (auto simp: Validate_def compiledFor_def cache_ok_def split: option.splits)
  next
    case (Some c)
    with cache_okD [OF assms(2) Some reg] Inr assms(2) show ?thesis
      by (simp add: Validate_def compiledFor_def)
  qed
qed

section \<open>Witnesses\<close>

definition demo_schema :: schema where
  "demo_schema = zero_schema\<lparr>sch_ID := ''a.b'', sch_CategoryID := ''a'', sch_Version := 3\<rparr>"

definition demo_registry :: registry where
  "demo_registry = \<lparr>categories = [], schemas = [(''a.b'', demo_schema)]\<rparr>"

lemma demo_registry_ok: "registry_ok demo_registry"
  by (simp add: registry_ok_def demo_registry_def demo_schema_def zero_schema_def)

theorem GetSchema_versioned_witness:
  "GetSchema demo_registry ''a.b-v3'' = Inr demo_schema"
proof -
  have v: "VersionedID demo_schema = ''a.b-v3''"
    by (simp add: VersionedID_def demo_schema_def zero_schema_def itoa_def show_nat.simps)
  have "GetSchema demo_registry (VersionedID demo_schema) = Inr demo_schema"
    using GetSchema_versioned [OF demo_registry_ok, of "''a.b''" demo_schema] v
    by (simp add: demo_registry_def demo_schema_def zero_schema_def)
  then show ?thesis by (simp only: v)
qed

theorem Validate_cache_transparent_witness:
  "fst (Validate (\<lambda>url doc. Some doc) (\<lambda>sch data. data = []) demo_registry [''a.b'' \<mapsto> schemaDoc demo_schema] ''a.b'' [])
     = Inr ()"
proof -
  have "cache_ok (\<lambda>url doc. Some doc) demo_registry [''a.b'' \<mapsto> schemaDoc demo_schema]"
    by (simp add: cache_ok_def compileSchema_def demo_registry_def)
  from Validate_cache_transparent [OF demo_registry_ok this, of "\<lambda>sch data. data = []" "''a.b''" "[]"]
  show ?thesis
    by (simp add: Validate_def compiledFor_def GetSchema_def demo_registry_def demo_schema_def compileSchema_def)
qed

end
