(* ===== verification/Schema_Core.thy ===== *)
theory Schema_Core
  imports Schema
begin

text \<open>
  The built-in schemas, \<^verbatim>\<open>src/pkg/schema/core\<close>: one category and one list of schemas per file,
  registered by the files' \<^verbatim>\<open>init\<close> functions in the order in which the compiler runs them (by file
  name).  The theorems say that start-up never panics and what the registry then holds.
\<close>

section \<open>The tables\<close>

(* src: pkg/schema/core/civic.go:6-11 init (civic category) *)
definition civic_category :: category where
  "civic_category =
     \<lparr>cat_ID = ''civic'', cat_Name = ''Civic & Government'',
      cat_Description = ''Electoral, taxation, government benefits, and business registration'', cat_Icon = ''landmark''\<rparr>"

(* src: pkg/schema/core/civic.go:13-42 init (civic schemas) *)
definition civic_schemas :: "schema list" where
  "civic_schemas = [
       zero_schema\<lparr>sch_ID := ''civic.electoral-roll'', sch_CategoryID := ''civic'', sch_Name := ''Electoral Roll'', sch_Source := SourceCore,
         sch_Claims := [
           zero_claim\<lparr>cl_Name := ''electoralDistrict'', cl_Type := ''string''\<rparr>,
           zero_claim\<lparr>cl_Name := ''maoriRollElector'', cl_Type := ''boolean''\<rparr>,
           zero_claim\<lparr>cl_Name := ''enrolledDate'', cl_Type := ''date''\<rparr>]\<rparr>,
       zero_schema\<lparr>sch_ID := ''civic.benefits-entitlements'', sch_CategoryID := ''civic'', sch_Name := ''Government Benefit Entitlements'', sch_Source := SourceCore,
         sch_Claims := [
           zero_claim\<lparr>cl_Name := ''benefitType'', cl_Type := ''string'', cl_Required := True\<rparr>,
           zero_claim\<lparr>cl_Name := ''issuingAgency'', cl_Type := ''string''\<rparr>,
           zero_claim\<lparr>cl_Name := ''validFrom'', cl_Type := ''date''\<rparr>,
           zero_claim\<lparr>cl_Name := ''validTo'', cl_Type := ''date''\<rparr>]\<rparr>,
       zero_schema\<lparr>sch_ID := ''civic.tax-filing'', sch_CategoryID := ''civic'', sch_Name := ''Tax Filing Status'', sch_Source := SourceCore,
         sch_Claims := [
           zero_claim\<lparr>cl_Name := ''taxYear'', cl_Type := ''string'', cl_Required := True\<rparr>,
           zero_claim\<lparr>cl_Name := ''filingStatus'', cl_Type := ''string''\<rparr>,
           zero_claim\<lparr>cl_Name := ''jurisdiction'', cl_Type := ''string''\<rparr>]\<rparr>,
       zero_schema\<lparr>sch_ID := ''civic.business-registration'', sch_CategoryID := ''civic'', sch_Name := ''Business Registration'', sch_Source := SourceCore, sch_Description := ''Companies Office (NZ) and equivalent registries'',
         sch_Claims := [
           zero_claim\<lparr>cl_Name := ''companyNumber'', cl_Type := ''string'', cl_Required := True\<rparr>,
           zero_claim\<lparr>cl_Name := ''companyName'', cl_Type := ''string'', cl_Required := True\<rparr>,
           zero_claim\<lparr>cl_Name := ''registrationDate'', cl_Type := ''date''\<rparr>,
           zero_claim\<lparr>cl_Name := ''companyStatus'', cl_Type := ''string''\<rparr>,
           zero_claim\<lparr>cl_Name := ''nzbn'', cl_Type := ''string'', cl_Description := ''New Zealand Business Number''\<rparr>]\<rparr>]"

(* src: pkg/schema/core/civic.go:5-45 init *)
definition init_civic :: "registry \<Rightarrow> registry option" where
  "init_civic r = register_all civic_schemas (RegisterCategory civic_category r)"

(* src: pkg/schema/core/education.go:6-11 init (education category) *)
definition education_category :: category where
  "education_category =
     \<lparr>cat_ID = ''education'', cat_Name = ''Education'',
      cat_Description = ''Academic enrolments, transcripts, and qualifications'', cat_Icon = ''graduation-cap''\<rparr>"

(* src: pkg/schema/core/education.go:13-42 init (education schemas) *)
definition education_schemas :: "schema list" where
  "education_schemas = [
       zero_schema\<lparr>sch_ID := ''education.enrolments'', sch_CategoryID := ''education'', sch_Name := ''Enrolments'', sch_Source := SourceCore,
         sch_Claims := [
           zero_claim\<lparr>cl_Name := ''institution'', cl_Type := ''string'', cl_Required := True\<rparr>,
           zero_claim\<lparr>cl_Name := ''programme'', cl_Type := ''string''\<rparr>,
           zero_claim\<lparr>cl_Name := ''startDate'', cl_Type := ''date''\<rparr>,
           zero_claim\<lparr>cl_Name := ''endDate'', cl_Type := ''date''\<rparr>,
           zero_claim\<lparr>cl_Name := ''fullTime'', cl_Type := ''boolean''\<rparr>]\<rparr>,
       zero_schema\<lparr>sch_ID := ''education.transcripts'', sch_CategoryID := ''education'', sch_Name := ''Academic Transcripts'', sch_Source := SourceCore,
         sch_Claims := [
           zero_claim\<lparr>cl_Name := ''institution'', cl_Type := ''string'', cl_Required := True\<rparr>,
           zero_claim\<lparr>cl_Name := ''programme'', cl_Type := ''string'', cl_Required := True\<rparr>,
           zero_claim\<lparr>cl_Name := ''gpa'', cl_Type := ''number''\<rparr>,
           zero_claim\<lparr>cl_Name := ''completionDate'', cl_Type := ''date''\<rparr>]\<rparr>,
       zero_schema\<lparr>sch_ID := ''education.qualifications'', sch_CategoryID := ''education'', sch_Name := ''Academic Qualifications'', sch_Source := SourceCore,
         sch_Claims := [
           zero_claim\<lparr>cl_Name := ''qualification'', cl_Type := ''string'', cl_Required := True\<rparr>,
           zero_claim\<lparr>cl_Name := ''awardingInstitution'', cl_Type := ''string'', cl_Required := True\<rparr>,
           zero_claim\<lparr>cl_Name := ''awardDate'', cl_Type := ''date''\<rparr>]\<rparr>,
       zero_schema\<lparr>sch_ID := ''education.nzqa'', sch_CategoryID := ''education'', sch_Name := ''NZQA Records (NZ)'', sch_Source := SourceCore, sch_Description := ''New Zealand Qualifications Authority records'',
         sch_Claims := [
           zero_claim\<lparr>cl_Name := ''nzqaId'', cl_Type := ''string'', cl_Required := True\<rparr>,
           zero_claim\<lparr>cl_Name := ''nzqfLevel'', cl_Type := ''number''\<rparr>,
           zero_claim\<lparr>cl_Name := ''credits'', cl_Type := ''number''\<rparr>]\<rparr>]"

(* src: pkg/schema/core/education.go:5-45 init *)
definition init_education :: "registry \<Rightarrow> registry option" where
  "init_education r = register_all education_schemas (RegisterCategory education_category r)"

(* src: pkg/schema/core/finance.go:6-11 init (finance category) *)
definition finance_category :: category where
  "finance_category =
     \<lparr>cat_ID = ''finance'', cat_Name = ''Finance'',
      cat_Description = ''Banking, income, tax, credit, and financial account credentials'', cat_Icon = ''banknote''\<rparr>"

(* src: pkg/schema/core/finance.go:13-66 init (finance schemas) *)
definition finance_schemas :: "schema list" where
  "finance_schemas = [
       zero_schema\<lparr>sch_ID := ''finance.bank-account'', sch_CategoryID := ''finance'', sch_Name := ''Bank Account'', sch_Source := SourceCore,
         sch_Claims := [
           zero_claim\<lparr>cl_Name := ''bankName'', cl_Type := ''string'', cl_Required := True\<rparr>,
           zero_claim\<lparr>cl_Name := ''accountNumber'', cl_Type := ''string'', cl_Required := True\<rparr>,
           zero_claim\<lparr>cl_Name := ''accountType'', cl_Type := ''string''\<rparr>,
           zero_claim\<lparr>cl_Name := ''currency'', cl_Type := ''string''\<rparr>]\<rparr>,
       zero_schema\<lparr>sch_ID := ''finance.income'', sch_CategoryID := ''finance'', sch_Name := ''Income Verification'', sch_Source := SourceCore,
         sch_Claims := [
           zero_claim\<lparr>cl_Name := ''employerName'', cl_Type := ''string''\<rparr>,
           zero_claim\<lparr>cl_Name := ''annualIncome'', cl_Type := ''number''\<rparr>,
           zero_claim\<lparr>cl_Name := ''currency'', cl_Type := ''string''\<rparr>,
           zero_claim\<lparr>cl_Name := ''periodEndDate'', cl_Type := ''date''\<rparr>]\<rparr>,
       zero_schema\<lparr>sch_ID := ''finance.tax-records'', sch_CategoryID := ''finance'', sch_Name := ''Tax Records'', sch_Source := SourceCore,
         sch_Claims := [
           zero_claim\<lparr>cl_Name := ''taxYear'', cl_Type := ''string'', cl_Required := True\<rparr>,
           zero_claim\<lparr>cl_Name := ''filingStatus'', cl_Type := ''string''\<rparr>,
           zero_claim\<lparr>cl_Name := ''jurisdiction'', cl_Type := ''string''\<rparr>]\<rparr>,
       zero_schema\<lparr>sch_ID := ''finance.credit-history'', sch_CategoryID := ''finance'', sch_Name := ''Credit History'', sch_Source := SourceCore,
         sch_Claims := [
           zero_claim\<lparr>cl_Name := ''creditScore'', cl_Type := ''number''\<rparr>,
           zero_claim\<lparr>cl_Name := ''bureau'', cl_Type := ''string''\<rparr>,
           zero_claim\<lparr>cl_Name := ''reportDate'', cl_Type := ''date''\<rparr>]\<rparr>,
       zero_schema\<lparr>sch_ID := ''finance.benefits'', sch_CategoryID := ''finance'', sch_Name := ''Benefit Entitlements'', sch_Source := SourceCore,
         sch_Claims := [
           zero_claim\<lparr>cl_Name := ''benefitType'', cl_Type := ''string'', cl_Required := True\<rparr>,
           zero_claim\<lparr>cl_Name := ''issuingAuthority'', cl_Type := ''string''\<rparr>,
           zero_claim\<lparr>cl_Name := ''validFrom'', cl_Type := ''date''\<rparr>,
           zero_claim\<lparr>cl_Name := ''validTo'', cl_Type := ''date''\<rparr>]\<rparr>,
       zero_schema\<lparr>sch_ID := ''finance.insurance-policies'', sch_CategoryID := ''finance'', sch_Name := ''Insurance Policies'', sch_Source := SourceCore,
         sch_Claims := [
           zero_claim\<lparr>cl_Name := ''insurerName'', cl_Type := ''string'', cl_Required := True\<rparr>,
           zero_claim\<lparr>cl_Name := ''policyNumber'', cl_Type := ''string'', cl_Required := True\<rparr>,
           zero_claim\<lparr>cl_Name := ''policyType'', cl_Type := ''string''\<rparr>,
           zero_claim\<lparr>cl_Name := ''expiryDate'', cl_Type := ''date''\<rparr>]\<rparr>,
       zero_schema\<lparr>sch_ID := ''finance.investments'', sch_CategoryID := ''finance'', sch_Name := ''Investment Accounts'', sch_Source := SourceCore,
         sch_Claims := [
           zero_claim\<lparr>cl_Name := ''providerName'', cl_Type := ''string'', cl_Required := True\<rparr>,
           zero_claim\<lparr>cl_Name := ''accountType'', cl_Type := ''string''\<rparr>,
           zero_claim\<lparr>cl_Name := ''currency'', cl_Type := ''string''\<rparr>]\<rparr>,
       zero_schema\<lparr>sch_ID := ''finance.property-ownership'', sch_CategoryID := ''finance'', sch_Name := ''Property Ownership'', sch_Source := SourceCore,
         sch_Claims := [
           zero_claim\<lparr>cl_Name := ''titleReference'', cl_Type := ''string''\<rparr>,
           zero_claim\<lparr>cl_Name := ''legalDescription'', cl_Type := ''string''\<rparr>,
           zero_claim\<lparr>cl_Name := ''registeredDate'', cl_Type := ''date''\<rparr>]\<rparr>]"

(* src: pkg/schema/core/finance.go:5-69 init *)
definition init_finance :: "registry \<Rightarrow> registry option" where
  "init_finance r = register_all finance_schemas (RegisterCategory finance_category r)"

(* src: pkg/schema/core/healthcare.go:6-11 init (healthcare category) *)
definition healthcare_category :: category where
  "healthcare_category =
     \<lparr>cat_ID = ''healthcare'', cat_Name = ''Healthcare'',
      cat_Description = ''Medical records, clinical history, and health credentials'', cat_Icon = ''heart-pulse''\<rparr>"

(* src: pkg/schema/core/healthcare.go:13-115 init (healthcare schemas) *)
definition healthcare_schemas :: "schema list" where
  "healthcare_schemas = [
       zero_schema\<lparr>sch_ID := ''healthcare.gp-records'', sch_CategoryID := ''healthcare'', sch_Name := ''GP / Primary Care Records'', sch_Source := SourceCore,
         sch_Claims := [
           zero_claim\<lparr>cl_Name := ''practiceId'', cl_Type := ''string'', cl_Required := True\<rparr>,
           zero_claim\<lparr>cl_Name := ''practiceName'', cl_Type := ''string''\<rparr>,
           zero_claim\<lparr>cl_Name := ''enrolledSince'', cl_Type := ''date''\<rparr>]\<rparr>,
       zero_schema\<lparr>sch_ID := ''healthcare.specialist'', sch_CategoryID := ''healthcare'', sch_Name := ''Specialist Visits'', sch_Source := SourceCore,
         sch_Claims := [
           zero_claim\<lparr>cl_Name := ''specialty'', cl_Type := ''string'', cl_Required := True\<rparr>,
           zero_claim\<lparr>cl_Name := ''providerName'', cl_Type := ''string''\<rparr>,
           zero_claim\<lparr>cl_Name := ''visitDate'', cl_Type := ''date''\<rparr>]\<rparr>,
       zero_schema\<lparr>sch_ID := ''healthcare.pharmacy'', sch_CategoryID := ''healthcare'', sch_Name := ''Pharmacy / Dispensing Records'', sch_Source := SourceCore,
         sch_Claims := [
           zero_claim\<lparr>cl_Name := ''pharmacyId'', cl_Type := ''string''\<rparr>,
           zero_claim\<lparr>cl_Name := ''pharmacyName'', cl_Type := ''string''\<rparr>]\<rparr>,
       zero_schema\<lparr>sch_ID := ''healthcare.allergies'', sch_CategoryID := ''healthcare'', sch_Name := ''Allergies & Adverse Reactions'', sch_Source := SourceCore,
         sch_Claims := [
           zero_claim\<lparr>cl_Name := ''allergen'', cl_Type := ''string'', cl_Required := True\<rparr>,
           zero_claim\<lparr>cl_Name := ''reactionType'', cl_Type := ''string''\<rparr>,
           zero_claim\<lparr>cl_Name := ''severity'', cl_Type := ''string''\<rparr>,
           zero_claim\<lparr>cl_Name := ''recordedDate'', cl_Type := ''date''\<rparr>]\<rparr>,
       zero_schema\<lparr>sch_ID := ''healthcare.immunisation'', sch_CategoryID := ''healthcare'', sch_Name := ''Immunisation History'', sch_Source := SourceCore,
         sch_Claims := [
           zero_claim\<lparr>cl_Name := ''vaccine'', cl_Type := ''string'', cl_Required := True\<rparr>,
           zero_claim\<lparr>cl_Name := ''administeredDate'', cl_Type := ''date'', cl_Required := True\<rparr>,
           zero_claim\<lparr>cl_Name := ''batchNumber'', cl_Type := ''string''\<rparr>,
           zero_claim\<lparr>cl_Name := ''administeringProvider'', cl_Type := ''string''\<rparr>]\<rparr>,
       zero_schema\<lparr>sch_ID := ''healthcare.radiology'', sch_CategoryID := ''healthcare'', sch_Name := ''Radiology / Imaging'', sch_Source := SourceCore,
         sch_Claims := [
           zero_claim\<lparr>cl_Name := ''modality'', cl_Type := ''string'', cl_Required := True, cl_Description := ''e.g. X-ray, MRI, CT''\<rparr>,
           zero_claim\<lparr>cl_Name := ''bodyPart'', cl_Type := ''string''\<rparr>,
           zero_claim\<lparr>cl_Name := ''studyDate'', cl_Type := ''date''\<rparr>,
           zero_claim\<lparr>cl_Name := ''reportingRadiologist'', cl_Type := ''string''\<rparr>]\<rparr>,
       zero_schema\<lparr>sch_ID := ''healthcare.pathology'', sch_CategoryID := ''healthcare'', sch_Name := ''Pathology / Lab Results'', sch_Source := SourceCore,
         sch_Claims := [
           zero_claim\<lparr>cl_Name := ''testName'', cl_Type := ''string'', cl_Required := True\<rparr>,
           zero_claim\<lparr>cl_Name := ''collectionDate'', cl_Type := ''date''\<rparr>,
           zero_claim\<lparr>cl_Name := ''laboratory'', cl_Type := ''string''\<rparr>]\<rparr>,
       zero_schema\<lparr>sch_ID := ''healthcare.dental'', sch_CategoryID := ''healthcare'', sch_Name := ''Dental Records'', sch_Source := SourceCore,
         sch_Claims := [
           zero_claim\<lparr>cl_Name := ''practiceId'', cl_Type := ''string''\<rparr>,
           zero_claim\<lparr>cl_Name := ''practiceName'', cl_Type := ''string''\<rparr>]\<rparr>,
       zero_schema\<lparr>sch_ID := ''healthcare.acc-injury'', sch_CategoryID := ''healthcare'', sch_Name := ''ACC Injury Records (NZ)'', sch_Source := SourceCore, sch_Description := ''Accident Compensation Corporation injury claims'',
         sch_Claims := [
           zero_claim\<lparr>cl_Name := ''accClaimNumber'', cl_Type := ''string'', cl_Required := True\<rparr>,
           zero_claim\<lparr>cl_Name := ''injuryDate'', cl_Type := ''date''\<rparr>,
           zero_claim\<lparr>cl_Name := ''injuryType'', cl_Type := ''string''\<rparr>,
           zero_claim\<lparr>cl_Name := ''status'', cl_Type := ''string''\<rparr>]\<rparr>,
       zero_schema\<lparr>sch_ID := ''healthcare.acc-authorisation'', sch_CategoryID := ''healthcare'', sch_Name := ''ACC Treatment Authorisation (NZ)'', sch_Source := SourceCore, sch_Description := ''Accident Compensation Corporation authorisation for a specific treatment or service'',
         sch_Claims := [
           zero_claim\<lparr>cl_Name := ''accClaimNumber'', cl_Type := ''string'', cl_Required := True\<rparr>,
           zero_claim\<lparr>cl_Name := ''authorisationNumber'', cl_Type := ''string'', cl_Required := True\<rparr>,
           zero_claim\<lparr>cl_Name := ''serviceType'', cl_Type := ''string'', cl_Required := True, cl_Description := ''Authorised service, e.g. physiotherapy, specialist consultation''\<rparr>,
           zero_claim\<lparr>cl_Name := ''provider'', cl_Type := ''string'', cl_Description := ''Authorised healthcare provider name or HPI number''\<rparr>,
           zero_claim\<lparr>cl_Name := ''maxSessions'', cl_Type := ''string'', cl_Description := ''Maximum number of authorised sessions''\<rparr>,
           zero_claim\<lparr>cl_Name := ''validFrom'', cl_Type := ''date''\<rparr>,
           zero_claim\<lparr>cl_Name := ''validUntil'', cl_Type := ''date''\<rparr>,
           zero_claim\<lparr>cl_Name := ''status'', cl_Type := ''string'', cl_Description := ''active, expired, or cancelled''\<rparr>]\<rparr>,
       zero_schema\<lparr>sch_ID := ''healthcare.nhi-patient'', sch_CategoryID := ''healthcare'', sch_Name := ''NHI Patient Record (NZ)'', sch_Source := SourceCore, sch_Description := ''National Health Index patient identity credential linking DID to FHIR Patient resource'',
         sch_Claims := [
           zero_claim\<lparr>cl_Name := ''nhiNumber'', cl_Type := ''string'', cl_Required := True, cl_Description := ''NHI number, e.g. ZCX7823''\<rparr>,
           zero_claim\<lparr>cl_Name := ''fhirResourceId'', cl_Type := ''string'', cl_Description := ''FHIR Patient resource ID from the NZ NHI FHIR API''\<rparr>,
           zero_claim\<lparr>cl_Name := ''givenNames'', cl_Type := ''string''\<rparr>,
           zero_claim\<lparr>cl_Name := ''familyName'', cl_Type := ''string''\<rparr>,
           zero_claim\<lparr>cl_Name := ''dateOfBirth'', cl_Type := ''date''\<rparr>]\<rparr>,
       zero_schema\<lparr>sch_ID := ''healthcare.disability'', sch_CategoryID := ''healthcare'', sch_Name := ''Disability Assessments'', sch_Source := SourceCore,
         sch_Claims := [
           zero_claim\<lparr>cl_Name := ''assessmentType'', cl_Type := ''string''\<rparr>,
           zero_claim\<lparr>cl_Name := ''assessmentDate'', cl_Type := ''date''\<rparr>,
           zero_claim\<lparr>cl_Name := ''fundingAuthority'', cl_Type := ''string''\<rparr>]\<rparr>,
       zero_schema\<lparr>sch_ID := ''healthcare.mental-health'', sch_CategoryID := ''healthcare'', sch_Name := ''Mental Health Records'', sch_Source := SourceCore, sch_ExtraSensitive := True,
         sch_Claims := [
           zero_claim\<lparr>cl_Name := ''providerName'', cl_Type := ''string''\<rparr>,
           zero_claim\<lparr>cl_Name := ''serviceType'', cl_Type := ''string''\<rparr>]\<rparr>,
       zero_schema\<lparr>sch_ID := ''healthcare.sexual-health'', sch_CategoryID := ''healthcare'', sch_Name := ''Sexual Health Records'', sch_Source := SourceCore, sch_ExtraSensitive := True\<rparr>,
       zero_schema\<lparr>sch_ID := ''healthcare.reproductive-health'', sch_CategoryID := ''healthcare'', sch_Name := ''Reproductive Health Records'', sch_Source := SourceCore, sch_ExtraSensitive := True\<rparr>,
       zero_schema\<lparr>sch_ID := ''healthcare.addiction'', sch_CategoryID := ''healthcare'', sch_Name := ''Addiction & Substance Use'', sch_Source := SourceCore, sch_ExtraSensitive := True,
         sch_Claims := [
           zero_claim\<lparr>cl_Name := ''programmeType'', cl_Type := ''string''\<rparr>,
           zero_claim\<lparr>cl_Name := ''providerName'', cl_Type := ''string''\<rparr>]\<rparr>]"

(* src: pkg/schema/core/healthcare.go:5-118 init *)
definition init_healthcare :: "registry \<Rightarrow> registry option" where
  "init_healthcare r = register_all healthcare_schemas (RegisterCategory healthcare_category r)"

(* src: pkg/schema/core/identity.go:6-11 init (identity category) *)
definition identity_category :: category where
  "identity_category =
     \<lparr>cat_ID = ''identity'', cat_Name = ''Identity'',
      cat_Description = ''Core personal identity documents and government identifiers'', cat_Icon = ''id-card''\<rparr>"

(* src: pkg/schema/core/identity.go:13-87 init (identity schemas) *)
definition identity_schemas :: "schema list" where
  "identity_schemas = [
       zero_schema\<lparr>sch_ID := ''identity.legal-name'', sch_CategoryID := ''identity'', sch_Name := ''Legal Name'', sch_Source := SourceCore,
         sch_Claims := [
           zero_claim\<lparr>cl_Name := ''givenNames'', cl_Type := ''string'', cl_Required := True\<rparr>,
           zero_claim\<lparr>cl_Name := ''familyName'', cl_Type := ''string'', cl_Required := True\<rparr>,
           zero_claim\<lparr>cl_Name := ''preferredName'', cl_Type := ''string''\<rparr>]\<rparr>,
       zero_schema\<lparr>sch_ID := ''identity.dob'', sch_CategoryID := ''identity'', sch_Name := ''Date of Birth'', sch_Source := SourceCore,
         sch_Claims := [
           zero_claim\<lparr>cl_Name := ''dateOfBirth'', cl_Type := ''date'', cl_Required := True\<rparr>]\<rparr>,
       zero_schema\<lparr>sch_ID := ''identity.address'', sch_CategoryID := ''identity'', sch_Name := ''Address'', sch_Source := SourceCore,
         sch_Claims := [
           zero_claim\<lparr>cl_Name := ''streetAddress'', cl_Type := ''string'', cl_Required := True\<rparr>,
           zero_claim\<lparr>cl_Name := ''suburb'', cl_Type := ''string''\<rparr>,
           zero_claim\<lparr>cl_Name := ''city'', cl_Type := ''string'', cl_Required := True\<rparr>,
           zero_claim\<lparr>cl_Name := ''postcode'', cl_Type := ''string''\<rparr>,
           zero_claim\<lparr>cl_Name := ''country'', cl_Type := ''string'', cl_Required := True\<rparr>]\<rparr>,
       zero_schema\<lparr>sch_ID := ''identity.passport'', sch_CategoryID := ''identity'', sch_Name := ''Passport'', sch_Source := SourceCore,
         sch_Claims := [
           zero_claim\<lparr>cl_Name := ''passportNumber'', cl_Type := ''string'', cl_Required := True\<rparr>,
           zero_claim\<lparr>cl_Name := ''issuingCountry'', cl_Type := ''string'', cl_Required := True\<rparr>,
           zero_claim\<lparr>cl_Name := ''expiryDate'', cl_Type := ''date'', cl_Required := True\<rparr>]\<rparr>,
       zero_schema\<lparr>sch_ID := ''identity.drivers-licence'', sch_CategoryID := ''identity'', sch_Name := ''Driver's Licence'', sch_Source := SourceCore,
         sch_Claims := [
           zero_claim\<lparr>cl_Name := ''licenceNumber'', cl_Type := ''string'', cl_Required := True\<rparr>,
           zero_claim\<lparr>cl_Name := ''issuingAuthority'', cl_Type := ''string'', cl_Required := True\<rparr>,
           zero_claim\<lparr>cl_Name := ''licenceClass'', cl_Type := ''string''\<rparr>,
           zero_claim\<lparr>cl_Name := ''expiryDate'', cl_Type := ''date'', cl_Required := True\<rparr>]\<rparr>,
       zero_schema\<lparr>sch_ID := ''identity.nhi'', sch_CategoryID := ''identity'', sch_Name := ''NHI Number (NZ)'', sch_Source := SourceCore, sch_Description := ''New Zealand National Health Index number'',
         sch_Claims := [
           zero_claim\<lparr>cl_Name := ''nhiNumber'', cl_Type := ''string'', cl_Required := True\<rparr>]\<rparr>,
       zero_schema\<lparr>sch_ID := ''identity.ird-number'', sch_CategoryID := ''identity'', sch_Name := ''IRD Number (NZ)'', sch_Source := SourceCore, sch_Description := ''New Zealand Inland Revenue Department tax number'',
         sch_Claims := [
           zero_claim\<lparr>cl_Name := ''irdNumber'', cl_Type := ''string'', cl_Required := True\<rparr>]\<rparr>,
       zero_schema\<lparr>sch_ID := ''identity.realme-verified'', sch_CategoryID := ''identity'', sch_Name := ''RealMe Verified Identity (NZ)'', sch_Source := SourceCore, sch_Description := ''Identity verified via the New Zealand Department of Internal Affairs RealMe service'',
         sch_Claims := [
           zero_claim\<lparr>cl_Name := ''flt'', cl_Type := ''string'', cl_Required := True, cl_Description := (''RealMe Federated Login Token '' @ [CHR 0xE2, CHR 0x80, CHR 0x94] @ '' pseudonymous per-service stable identifier'')\<rparr>,
           zero_claim\<lparr>cl_Name := ''loaLevel'', cl_Type := ''string'', cl_Required := True, cl_Description := ''Level of Assurance achieved: 1, 2, or 3''\<rparr>,
           zero_claim\<lparr>cl_Name := ''givenNames'', cl_Type := ''string''\<rparr>,
           zero_claim\<lparr>cl_Name := ''familyName'', cl_Type := ''string''\<rparr>,
           zero_claim\<lparr>cl_Name := ''dateOfBirth'', cl_Type := ''date''\<rparr>,
           zero_claim\<lparr>cl_Name := ''addressLine1'', cl_Type := ''string''\<rparr>,
           zero_claim\<lparr>cl_Name := ''addressCity'', cl_Type := ''string''\<rparr>,
           zero_claim\<lparr>cl_Name := ''addressPostcode'', cl_Type := ''string''\<rparr>,
           zero_claim\<lparr>cl_Name := ''verifiedOn'', cl_Type := ''date'', cl_Description := ''Date the identity was verified with DIA''\<rparr>]\<rparr>,
       zero_schema\<lparr>sch_ID := ''identity.hpi-practitioner'', sch_CategoryID := ''identity'', sch_Name := ''HPI Practitioner Identity (NZ)'', sch_Source := SourceCore, sch_Description := ''Health Practitioner Index (HPI) identity credential for NZ registered health professionals'',
         sch_Claims := [
           zero_claim\<lparr>cl_Name := ''hpiNumber'', cl_Type := ''string'', cl_Required := True, cl_Description := ''HPI Person ID (Common Person Number)''\<rparr>,
           zero_claim\<lparr>cl_Name := ''fhirResourceId'', cl_Type := ''string'', cl_Description := ''FHIR Practitioner resource ID from the NZ HPI FHIR API''\<rparr>,
           zero_claim\<lparr>cl_Name := ''givenNames'', cl_Type := ''string''\<rparr>,
           zero_claim\<lparr>cl_Name := ''familyName'', cl_Type := ''string''\<rparr>]\<rparr>,
       zero_schema\<lparr>sch_ID := ''identity.age-over-proof'', sch_CategoryID := ''identity'', sch_Name := ''Age Over Proof'', sch_Source := SourceCore, sch_Description := ''Cryptographically signed assertion that the subject is at least N years old, without revealing the actual date of birth'',
         sch_Claims := [
           zero_claim\<lparr>cl_Name := ''age_over'', cl_Type := ''number'', cl_Required := True, cl_Description := ''The minimum age threshold being proved''\<rparr>,
           zero_claim\<lparr>cl_Name := ''result'', cl_Type := ''boolean'', cl_Required := True, cl_Description := ''true if the subject's age >= age_over''\<rparr>,
           zero_claim\<lparr>cl_Name := ''verifier'', cl_Type := ''string'', cl_Description := ''DID of the intended verifier (audience binding)''\<rparr>,
           zero_claim\<lparr>cl_Name := ''proof_type'', cl_Type := ''string'', cl_Description := (''Always '' @ [CHR 0x27] @ ''derived'' @ [CHR 0x27])\<rparr>,
           zero_claim\<lparr>cl_Name := ''method'', cl_Type := ''string'', cl_Description := (''Computation method: '' @ [CHR 0x27] @ ''issuer-computed'' @ [CHR 0x27])\<rparr>]\<rparr>]"

(* src: pkg/schema/core/identity.go:5-90 init *)
definition init_identity :: "registry \<Rightarrow> registry option" where
  "init_identity r = register_all identity_schemas (RegisterCategory identity_category r)"

(* src: pkg/schema/core/insurance.go:6-11 init (insurance category) *)
definition insurance_category :: category where
  "insurance_category =
     \<lparr>cat_ID = ''insurance'', cat_Name = ''Insurance'',
      cat_Description = ''Health, life, vehicle, home, and business insurance policies'', cat_Icon = ''shield''\<rparr>"

(* src: pkg/schema/core/insurance.go:13-52 init (insurance schemas) *)
definition insurance_schemas :: "schema list" where
  "insurance_schemas = [
       zero_schema\<lparr>sch_ID := ''insurance.health'', sch_CategoryID := ''insurance'', sch_Name := ''Health Insurance'', sch_Source := SourceCore,
         sch_Claims := [
           zero_claim\<lparr>cl_Name := ''insurerName'', cl_Type := ''string'', cl_Required := True\<rparr>,
           zero_claim\<lparr>cl_Name := ''policyNumber'', cl_Type := ''string'', cl_Required := True\<rparr>,
           zero_claim\<lparr>cl_Name := ''coverageType'', cl_Type := ''string''\<rparr>,
           zero_claim\<lparr>cl_Name := ''expiryDate'', cl_Type := ''date''\<rparr>]\<rparr>,
       zero_schema\<lparr>sch_ID := ''insurance.life'', sch_CategoryID := ''insurance'', sch_Name := ''Life Insurance'', sch_Source := SourceCore,
         sch_Claims := [
           zero_claim\<lparr>cl_Name := ''insurerName'', cl_Type := ''string'', cl_Required := True\<rparr>,
           zero_claim\<lparr>cl_Name := ''policyNumber'', cl_Type := ''string'', cl_Required := True\<rparr>,
           zero_claim\<lparr>cl_Name := ''sumInsured'', cl_Type := ''number''\<rparr>,
           zero_claim\<lparr>cl_Name := ''currency'', cl_Type := ''string''\<rparr>,
           zero_claim\<lparr>cl_Name := ''expiryDate'', cl_Type := ''date''\<rparr>]\<rparr>,
       zero_schema\<lparr>sch_ID := ''insurance.vehicle'', sch_CategoryID := ''insurance'', sch_Name := ''Vehicle Insurance'', sch_Source := SourceCore,
         sch_Claims := [
           zero_claim\<lparr>cl_Name := ''insurerName'', cl_Type := ''string'', cl_Required := True\<rparr>,
           zero_claim\<lparr>cl_Name := ''policyNumber'', cl_Type := ''string'', cl_Required := True\<rparr>,
           zero_claim\<lparr>cl_Name := ''vehicleRegistration'', cl_Type := ''string''\<rparr>,
           zero_claim\<lparr>cl_Name := ''coverageType'', cl_Type := ''string'', cl_Description := ''e.g. comprehensive, third-party''\<rparr>,
           zero_claim\<lparr>cl_Name := ''expiryDate'', cl_Type := ''date''\<rparr>]\<rparr>,
       zero_schema\<lparr>sch_ID := ''insurance.home'', sch_CategoryID := ''insurance'', sch_Name := ''Home Insurance'', sch_Source := SourceCore,
         sch_Claims := [
           zero_claim\<lparr>cl_Name := ''insurerName'', cl_Type := ''string'', cl_Required := True\<rparr>,
           zero_claim\<lparr>cl_Name := ''policyNumber'', cl_Type := ''string'', cl_Required := True\<rparr>,
           zero_claim\<lparr>cl_Name := ''propertyAddress'', cl_Type := ''string''\<rparr>,
           zero_claim\<lparr>cl_Name := ''coverageType'', cl_Type := ''string''\<rparr>,
           zero_claim\<lparr>cl_Name := ''expiryDate'', cl_Type := ''date''\<rparr>]\<rparr>,
       zero_schema\<lparr>sch_ID := ''insurance.business'', sch_CategoryID := ''insurance'', sch_Name := ''Business Insurance'', sch_Source := SourceCore,
         sch_Claims := [
           zero_claim\<lparr>cl_Name := ''insurerName'', cl_Type := ''string'', cl_Required := True\<rparr>,
           zero_claim\<lparr>cl_Name := ''policyNumber'', cl_Type := ''string'', cl_Required := True\<rparr>,
           zero_claim\<lparr>cl_Name := ''coverageType'', cl_Type := ''string''\<rparr>,
           zero_claim\<lparr>cl_Name := ''expiryDate'', cl_Type := ''date''\<rparr>]\<rparr>]"

(* src: pkg/schema/core/insurance.go:5-55 init *)
definition init_insurance :: "registry \<Rightarrow> registry option" where
  "init_insurance r = register_all insurance_schemas (RegisterCategory insurance_category r)"

(* src: pkg/schema/core/legal.go:6-11 init (legal category) *)
definition legal_category :: category where
  "legal_category =
     \<lparr>cat_ID = ''legal'', cat_Name = ''Legal'',
      cat_Description = ''Court orders, legal authority documents, and immigration status'', cat_Icon = ''scale''\<rparr>"

(* src: pkg/schema/core/legal.go:13-49 init (legal schemas) *)
definition legal_schemas :: "schema list" where
  "legal_schemas = [
       zero_schema\<lparr>sch_ID := ''legal.court-orders'', sch_CategoryID := ''legal'', sch_Name := ''Court Orders'', sch_Source := SourceCore,
         sch_Claims := [
           zero_claim\<lparr>cl_Name := ''orderType'', cl_Type := ''string'', cl_Required := True\<rparr>,
           zero_claim\<lparr>cl_Name := ''court'', cl_Type := ''string''\<rparr>,
           zero_claim\<lparr>cl_Name := ''orderDate'', cl_Type := ''date''\<rparr>,
           zero_claim\<lparr>cl_Name := ''caseNumber'', cl_Type := ''string''\<rparr>]\<rparr>,
       zero_schema\<lparr>sch_ID := ''legal.poa'', sch_CategoryID := ''legal'', sch_Name := ''Power of Attorney'', sch_Source := SourceCore,
         sch_Claims := [
           zero_claim\<lparr>cl_Name := ''poaType'', cl_Type := ''string'', cl_Required := True, cl_Description := ''e.g. Enduring, General''\<rparr>,
           zero_claim\<lparr>cl_Name := ''grantor'', cl_Type := ''string''\<rparr>,
           zero_claim\<lparr>cl_Name := ''attorney'', cl_Type := ''string''\<rparr>,
           zero_claim\<lparr>cl_Name := ''executionDate'', cl_Type := ''date''\<rparr>]\<rparr>,
       zero_schema\<lparr>sch_ID := ''legal.will-estate'', sch_CategoryID := ''legal'', sch_Name := ''Will & Estate Documents'', sch_Source := SourceCore,
         sch_Claims := [
           zero_claim\<lparr>cl_Name := ''documentType'', cl_Type := ''string'', cl_Required := True\<rparr>,
           zero_claim\<lparr>cl_Name := ''executionDate'', cl_Type := ''date''\<rparr>,
           zero_claim\<lparr>cl_Name := ''notarisedBy'', cl_Type := ''string''\<rparr>]\<rparr>,
       zero_schema\<lparr>sch_ID := ''legal.immigration-status'', sch_CategoryID := ''legal'', sch_Name := ''Immigration Status'', sch_Source := SourceCore,
         sch_Claims := [
           zero_claim\<lparr>cl_Name := ''visaType'', cl_Type := ''string''\<rparr>,
           zero_claim\<lparr>cl_Name := ''visaNumber'', cl_Type := ''string''\<rparr>,
           zero_claim\<lparr>cl_Name := ''expiryDate'', cl_Type := ''date''\<rparr>,
           zero_claim\<lparr>cl_Name := ''conditions'', cl_Type := ''string''\<rparr>]\<rparr>,
       zero_schema\<lparr>sch_ID := ''legal.criminal-record'', sch_CategoryID := ''legal'', sch_Name := ''Criminal Record'', sch_Source := SourceCore, sch_ExtraSensitive := True,
         sch_Claims := [
           zero_claim\<lparr>cl_Name := ''recordType'', cl_Type := ''string'', cl_Description := ''e.g. clean, spent, conviction''\<rparr>,
           zero_claim\<lparr>cl_Name := ''issuingAuthority'', cl_Type := ''string''\<rparr>,
           zero_claim\<lparr>cl_Name := ''issuedDate'', cl_Type := ''date''\<rparr>]\<rparr>]"

(* src: pkg/schema/core/legal.go:5-52 init *)
definition init_legal :: "registry \<Rightarrow> registry option" where
  "init_legal r = register_all legal_schemas (RegisterCategory legal_category r)"

(* src: pkg/schema/core/professional.go:6-11 init (professional category) *)
definition professional_category :: category where
  "professional_category =
     \<lparr>cat_ID = ''professional'', cat_Name = ''Professional'',
      cat_Description = ''Qualifications, professional registrations, and employment credentials'', cat_Icon = ''briefcase''\<rparr>"

(* src: pkg/schema/core/professional.go:13-44 init (professional schemas) *)
definition professional_schemas :: "schema list" where
  "professional_schemas = [
       zero_schema\<lparr>sch_ID := ''professional.qualifications'', sch_CategoryID := ''professional'', sch_Name := ''Qualifications'', sch_Source := SourceCore,
         sch_Claims := [
           zero_claim\<lparr>cl_Name := ''qualification'', cl_Type := ''string'', cl_Required := True\<rparr>,
           zero_claim\<lparr>cl_Name := ''awardingBody'', cl_Type := ''string'', cl_Required := True\<rparr>,
           zero_claim\<lparr>cl_Name := ''awardDate'', cl_Type := ''date''\<rparr>,
           zero_claim\<lparr>cl_Name := ''level'', cl_Type := ''string'', cl_Description := ''e.g. NZQF Level 7''\<rparr>]\<rparr>,
       zero_schema\<lparr>sch_ID := ''professional.registrations'', sch_CategoryID := ''professional'', sch_Name := ''Professional Registrations'', sch_Source := SourceCore, sch_Description := ''HPCA, NZLS, NZIA, IPENZ and similar regulatory body registrations'',
         sch_Claims := [
           zero_claim\<lparr>cl_Name := ''registrationBody'', cl_Type := ''string'', cl_Required := True\<rparr>,
           zero_claim\<lparr>cl_Name := ''registrationNumber'', cl_Type := ''string'', cl_Required := True\<rparr>,
           zero_claim\<lparr>cl_Name := ''registrationClass'', cl_Type := ''string''\<rparr>,
           zero_claim\<lparr>cl_Name := ''expiryDate'', cl_Type := ''date''\<rparr>,
           zero_claim\<lparr>cl_Name := ''scope'', cl_Type := ''string''\<rparr>]\<rparr>,
       zero_schema\<lparr>sch_ID := ''professional.employment'', sch_CategoryID := ''professional'', sch_Name := ''Employment History'', sch_Source := SourceCore,
         sch_Claims := [
           zero_claim\<lparr>cl_Name := ''employerName'', cl_Type := ''string'', cl_Required := True\<rparr>,
           zero_claim\<lparr>cl_Name := ''jobTitle'', cl_Type := ''string''\<rparr>,
           zero_claim\<lparr>cl_Name := ''startDate'', cl_Type := ''date''\<rparr>,
           zero_claim\<lparr>cl_Name := ''endDate'', cl_Type := ''date''\<rparr>]\<rparr>,
       zero_schema\<lparr>sch_ID := ''professional.practising-certificates'', sch_CategoryID := ''professional'', sch_Name := ''Practising Certificates'', sch_Source := SourceCore,
         sch_Claims := [
           zero_claim\<lparr>cl_Name := ''issuingBody'', cl_Type := ''string'', cl_Required := True\<rparr>,
           zero_claim\<lparr>cl_Name := ''certificateNumber'', cl_Type := ''string'', cl_Required := True\<rparr>,
           zero_claim\<lparr>cl_Name := ''validFrom'', cl_Type := ''date'', cl_Required := True\<rparr>,
           zero_claim\<lparr>cl_Name := ''validTo'', cl_Type := ''date'', cl_Required := True\<rparr>]\<rparr>]"

(* src: pkg/schema/core/professional.go:5-47 init *)
definition init_professional :: "registry \<Rightarrow> registry option" where
  "init_professional r = register_all professional_schemas (RegisterCategory professional_category r)"

(* src: pkg/schema/core/property.go:6-11 init (property category) *)
definition property_category :: category where
  "property_category =
     \<lparr>cat_ID = ''property'', cat_Name = ''Property & Assets'',
      cat_Description = ''Real estate, vehicles, and other asset ownership records'', cat_Icon = ''home''\<rparr>"

(* src: pkg/schema/core/property.go:13-38 init (property schemas) *)
definition property_schemas :: "schema list" where
  "property_schemas = [
       zero_schema\<lparr>sch_ID := ''property.real-estate'', sch_CategoryID := ''property'', sch_Name := ''Real Estate'', sch_Source := SourceCore, sch_Description := ''Land and property ownership (LINZ in NZ)'',
         sch_Claims := [
           zero_claim\<lparr>cl_Name := ''titleReference'', cl_Type := ''string'', cl_Required := True\<rparr>,
           zero_claim\<lparr>cl_Name := ''legalDescription'', cl_Type := ''string''\<rparr>,
           zero_claim\<lparr>cl_Name := ''address'', cl_Type := ''string''\<rparr>,
           zero_claim\<lparr>cl_Name := ''registeredDate'', cl_Type := ''date''\<rparr>,
           zero_claim\<lparr>cl_Name := ''ownershipType'', cl_Type := ''string'', cl_Description := ''e.g. freehold, leasehold, cross-lease''\<rparr>]\<rparr>,
       zero_schema\<lparr>sch_ID := ''property.vehicles'', sch_CategoryID := ''property'', sch_Name := ''Vehicles'', sch_Source := SourceCore,
         sch_Claims := [
           zero_claim\<lparr>cl_Name := ''registration'', cl_Type := ''string'', cl_Required := True\<rparr>,
           zero_claim\<lparr>cl_Name := ''make'', cl_Type := ''string''\<rparr>,
           zero_claim\<lparr>cl_Name := ''model'', cl_Type := ''string''\<rparr>,
           zero_claim\<lparr>cl_Name := ''year'', cl_Type := ''number''\<rparr>,
           zero_claim\<lparr>cl_Name := ''vin'', cl_Type := ''string''\<rparr>]\<rparr>,
       zero_schema\<lparr>sch_ID := ''property.assets'', sch_CategoryID := ''property'', sch_Name := ''Other Assets'', sch_Source := SourceCore,
         sch_Claims := [
           zero_claim\<lparr>cl_Name := ''assetType'', cl_Type := ''string'', cl_Required := True\<rparr>,
           zero_claim\<lparr>cl_Name := ''description'', cl_Type := ''string''\<rparr>,
           zero_claim\<lparr>cl_Name := ''estimatedValue'', cl_Type := ''number''\<rparr>,
           zero_claim\<lparr>cl_Name := ''currency'', cl_Type := ''string''\<rparr>]\<rparr>]"

(* src: pkg/schema/core/property.go:5-41 init *)
definition init_property :: "registry \<Rightarrow> registry option" where
  "init_property r = register_all property_schemas (RegisterCategory property_category r)"

(* src: pkg/schema/core/social.go:6-11 init (social category) *)
definition social_category :: category where
  "social_category =
     \<lparr>cat_ID = ''social'', cat_Name = ''Social & Contact'',
      cat_Description = ''Verified contact addresses, social graph, and reputation'', cat_Icon = ''users''\<rparr>"

(* src: pkg/schema/core/social.go:13-33 init (social schemas) *)
definition social_schemas :: "schema list" where
  "social_schemas = [
       zero_schema\<lparr>sch_ID := ''social.verified-contacts'', sch_CategoryID := ''social'', sch_Name := ''Verified Contact Addresses'', sch_Source := SourceCore,
         sch_Claims := [
           zero_claim\<lparr>cl_Name := ''contactType'', cl_Type := ''string'', cl_Required := True, cl_Description := ''e.g. email, did, phone''\<rparr>,
           zero_claim\<lparr>cl_Name := ''value'', cl_Type := ''string'', cl_Required := True\<rparr>,
           zero_claim\<lparr>cl_Name := ''verifiedDate'', cl_Type := ''date''\<rparr>]\<rparr>,
       zero_schema\<lparr>sch_ID := ''social.social-graph'', sch_CategoryID := ''social'', sch_Name := ''Social Graph Connections'', sch_Source := SourceCore,
         sch_Claims := [
           zero_claim\<lparr>cl_Name := ''platform'', cl_Type := ''string''\<rparr>,
           zero_claim\<lparr>cl_Name := ''profileUrl'', cl_Type := ''string''\<rparr>,
           zero_claim\<lparr>cl_Name := ''verifiedDate'', cl_Type := ''date''\<rparr>]\<rparr>,
       zero_schema\<lparr>sch_ID := ''social.reputation'', sch_CategoryID := ''social'', sch_Name := ''Platform Reputation'', sch_Source := SourceCore,
         sch_Claims := [
           zero_claim\<lparr>cl_Name := ''platform'', cl_Type := ''string'', cl_Required := True\<rparr>,
           zero_claim\<lparr>cl_Name := ''reputationScore'', cl_Type := ''number''\<rparr>,
           zero_claim\<lparr>cl_Name := ''tier'', cl_Type := ''string''\<rparr>,
           zero_claim\<lparr>cl_Name := ''evaluatedDate'', cl_Type := ''date''\<rparr>]\<rparr>]"

(* src: pkg/schema/core/social.go:5-36 init *)
definition init_social :: "registry \<Rightarrow> registry option" where
  "init_social r = register_all social_schemas (RegisterCategory social_category r)"

(* src: pkg/schema/core/travel.go:6-11 init (travel category) *)
definition travel_category :: category where
  "travel_category =
     \<lparr>cat_ID = ''travel'', cat_Name = ''Travel'',
      cat_Description = ''Passports, visas, vaccination certificates, and travel insurance'', cat_Icon = ''plane''\<rparr>"

(* src: pkg/schema/core/travel.go:13-45 init (travel schemas) *)
definition travel_schemas :: "schema list" where
  "travel_schemas = [
       zero_schema\<lparr>sch_ID := ''travel.passport'', sch_CategoryID := ''travel'', sch_Name := ''Passport'', sch_Source := SourceCore,
         sch_Claims := [
           zero_claim\<lparr>cl_Name := ''passportNumber'', cl_Type := ''string'', cl_Required := True\<rparr>,
           zero_claim\<lparr>cl_Name := ''issuingCountry'', cl_Type := ''string'', cl_Required := True\<rparr>,
           zero_claim\<lparr>cl_Name := ''issueDate'', cl_Type := ''date''\<rparr>,
           zero_claim\<lparr>cl_Name := ''expiryDate'', cl_Type := ''date'', cl_Required := True\<rparr>]\<rparr>,
       zero_schema\<lparr>sch_ID := ''travel.visas'', sch_CategoryID := ''travel'', sch_Name := ''Visas'', sch_Source := SourceCore,
         sch_Claims := [
           zero_claim\<lparr>cl_Name := ''visaType'', cl_Type := ''string'', cl_Required := True\<rparr>,
           zero_claim\<lparr>cl_Name := ''issuingCountry'', cl_Type := ''string'', cl_Required := True\<rparr>,
           zero_claim\<lparr>cl_Name := ''visaNumber'', cl_Type := ''string''\<rparr>,
           zero_claim\<lparr>cl_Name := ''validFrom'', cl_Type := ''date''\<rparr>,
           zero_claim\<lparr>cl_Name := ''validTo'', cl_Type := ''date''\<rparr>,
           zero_claim\<lparr>cl_Name := ''conditions'', cl_Type := ''string''\<rparr>]\<rparr>,
       zero_schema\<lparr>sch_ID := ''travel.vaccination-certs'', sch_CategoryID := ''travel'', sch_Name := ''International Vaccination Certificates'', sch_Source := SourceCore,
         sch_Claims := [
           zero_claim\<lparr>cl_Name := ''vaccine'', cl_Type := ''string'', cl_Required := True\<rparr>,
           zero_claim\<lparr>cl_Name := ''administeredDate'', cl_Type := ''date'', cl_Required := True\<rparr>,
           zero_claim\<lparr>cl_Name := ''issuingAuthority'', cl_Type := ''string''\<rparr>,
           zero_claim\<lparr>cl_Name := ''certificateNumber'', cl_Type := ''string''\<rparr>]\<rparr>,
       zero_schema\<lparr>sch_ID := ''travel.travel-insurance'', sch_CategoryID := ''travel'', sch_Name := ''Travel Insurance'', sch_Source := SourceCore,
         sch_Claims := [
           zero_claim\<lparr>cl_Name := ''insurerName'', cl_Type := ''string'', cl_Required := True\<rparr>,
           zero_claim\<lparr>cl_Name := ''policyNumber'', cl_Type := ''string'', cl_Required := True\<rparr>,
           zero_claim\<lparr>cl_Name := ''coverageStart'', cl_Type := ''date''\<rparr>,
           zero_claim\<lparr>cl_Name := ''coverageEnd'', cl_Type := ''date''\<rparr>,
           zero_claim\<lparr>cl_Name := ''coverageRegions'', cl_Type := ''string''\<rparr>]\<rparr>]"

(* src: pkg/schema/core/travel.go:5-48 init *)
definition init_travel :: "registry \<Rightarrow> registry option" where
  "init_travel r = register_all travel_schemas (RegisterCategory travel_category r)"


section \<open>Start-up\<close>

definition core_categories :: "category list" where
  "core_categories = [civic_category, education_category, finance_category, healthcare_category, identity_category, insurance_category, legal_category, professional_category, property_category, social_category, travel_category]"

definition core_schemas :: "schema list" where
  "core_schemas = civic_schemas @ education_schemas @ finance_schemas @ healthcare_schemas @ identity_schemas @ insurance_schemas @ legal_schemas @ professional_schemas @ property_schemas @ social_schemas @ travel_schemas"

text \<open>The package initialisation: every file's \<^verbatim>\<open>init\<close> in turn.\<close>

definition core_init :: "registry \<Rightarrow> registry option" where
  "core_init r = List.fold (\<lambda>init acc. case acc of None \<Rightarrow> None | Some r \<Rightarrow> init r)
     [init_civic, init_education, init_finance, init_healthcare, init_identity, init_insurance, init_legal, init_professional, init_property, init_social, init_travel] (Some r)"

lemmas core_schema_defs = civic_schemas_def education_schemas_def finance_schemas_def healthcare_schemas_def identity_schemas_def insurance_schemas_def legal_schemas_def professional_schemas_def property_schemas_def social_schemas_def travel_schemas_def zero_schema_def zero_claim_def

lemmas core_category_defs = civic_category_def education_category_def finance_category_def healthcare_category_def identity_category_def insurance_category_def legal_category_def professional_category_def property_category_def social_category_def travel_category_def

lemmas core_init_defs = init_civic_def init_education_def init_finance_def init_healthcare_def init_identity_def init_insurance_def init_legal_def init_professional_def init_property_def init_social_def init_travel_def

lemma core_ids:
  "map sch_ID core_schemas = [''civic.electoral-roll'', ''civic.benefits-entitlements'', ''civic.tax-filing'', 
     ''civic.business-registration'', ''education.enrolments'', ''education.transcripts'', 
     ''education.qualifications'', ''education.nzqa'', ''finance.bank-account'', ''finance.income'', 
     ''finance.tax-records'', ''finance.credit-history'', ''finance.benefits'', 
     ''finance.insurance-policies'', ''finance.investments'', ''finance.property-ownership'', 
     ''healthcare.gp-records'', ''healthcare.specialist'', ''healthcare.pharmacy'', 
     ''healthcare.allergies'', ''healthcare.immunisation'', ''healthcare.radiology'', 
     ''healthcare.pathology'', ''healthcare.dental'', ''healthcare.acc-injury'', 
     ''healthcare.acc-authorisation'', ''healthcare.nhi-patient'', ''healthcare.disability'', 
     ''healthcare.mental-health'', ''healthcare.sexual-health'', ''healthcare.reproductive-health'', 
     ''healthcare.addiction'', ''identity.legal-name'', ''identity.dob'', ''identity.address'', 
     ''identity.passport'', ''identity.drivers-licence'', ''identity.nhi'', ''identity.ird-number'', 
     ''identity.realme-verified'', ''identity.hpi-practitioner'', ''identity.age-over-proof'', 
     ''insurance.health'', ''insurance.life'', ''insurance.vehicle'', ''insurance.home'', 
     ''insurance.business'', ''legal.court-orders'', ''legal.poa'', ''legal.will-estate'', 
     ''legal.immigration-status'', ''legal.criminal-record'', ''professional.qualifications'', 
     ''professional.registrations'', ''professional.employment'', 
     ''professional.practising-certificates'', ''property.real-estate'', ''property.vehicles'', 
     ''property.assets'', ''social.verified-contacts'', ''social.social-graph'', 
     ''social.reputation'', ''travel.passport'', ''travel.visas'', ''travel.vaccination-certs'', 
     ''travel.travel-insurance'']"
  by (simp add: core_schemas_def core_schema_defs)

lemma core_ids_distinct: "distinct (map sch_ID core_schemas)"
  unfolding core_ids by simp

lemma core_cat_ids: "map cat_ID core_categories = [''civic'', ''education'', ''finance'', ''healthcare'', ''identity'', ''insurance'', ''legal'', 
     ''professional'', ''property'', ''social'', ''travel'']"
  by (simp add: core_categories_def core_category_defs)

lemma core_schema_categories:
  "list_all (\<lambda>s. sch_CategoryID s \<in> set (map cat_ID core_categories) \<and>
      has_prefix (sch_ID s) (sch_CategoryID s @ ''.'')) core_schemas"
  unfolding core_cat_ids by (simp add: core_schemas_def core_schema_defs has_prefix_def)

lemma core_extra:
  "map sch_ID (filter sch_ExtraSensitive core_schemas) = [''healthcare.mental-health'', ''healthcare.sexual-health'', ''healthcare.reproductive-health'', 
     ''healthcare.addiction'', ''legal.criminal-record'']"
  by (simp add: core_schemas_def core_schema_defs)

section \<open>The registry after start-up\<close>

lemma fold_init_None: "fold (\<lambda>init acc. case acc of None \<Rightarrow> None | Some r \<Rightarrow> init r) is None = None"
  by (induction "is") simp_all

lemma fold_inits:
  assumes "distinct (map fst (schemas r) @ map sch_ID (concat (map snd ps)))"
    and "distinct (map fst (categories r) @ map cat_ID (map fst ps))"
  shows "fold (\<lambda>init acc. case acc of None \<Rightarrow> None | Some r \<Rightarrow> init r)
      (map (\<lambda>(c, ss) r. register_all ss (RegisterCategory c r)) ps) (Some r)
    = Some \<lparr>categories = categories r @ map (\<lambda>c. (cat_ID c, c)) (map fst ps),
            schemas = schemas r @ map (\<lambda>s. (sch_ID s, s)) (concat (map snd ps))\<rparr>"
  using assms
proof (induction ps arbitrary: r)
  case (Cons p ps)
  obtain c ss where p: "p = (c, ss)" by (cases p)
  let ?r = "r\<lparr>categories := categories r @ [(cat_ID c, c)], schemas := schemas r @ map (\<lambda>s. (sch_ID s, s)) ss\<rparr>"
  have "RegisterCategory c r = r\<lparr>categories := categories r @ [(cat_ID c, c)]\<rparr>"
    using Cons.prems(2) p by (simp add: RegisterCategory_def map_put_fresh)
  moreover have "register_all ss (r\<lparr>categories := categories r @ [(cat_ID c, c)]\<rparr>) = Some ?r"
    using Cons.prems(1) p by (subst register_all_fresh) auto
  moreover have "map fst (schemas ?r) = map fst (schemas r) @ map sch_ID ss"
    "map fst (categories ?r) = map fst (categories r) @ [cat_ID c]" by (simp_all add: comp_def)
  then have "fold (\<lambda>init acc. case acc of None \<Rightarrow> None | Some r \<Rightarrow> init r)
      (map (\<lambda>(c, ss) r. register_all ss (RegisterCategory c r)) ps) (Some ?r)
    = Some \<lparr>categories = categories ?r @ map (\<lambda>c. (cat_ID c, c)) (map fst ps),
            schemas = schemas ?r @ map (\<lambda>s. (sch_ID s, s)) (concat (map snd ps))\<rparr>"
    using Cons.prems p by (intro Cons.IH) (auto simp: comp_def)
  ultimately show ?case using p by simp
qed simp

definition core_registry :: registry where
  "core_registry = \<lparr>categories = map (\<lambda>c. (cat_ID c, c)) core_categories,
     schemas = map (\<lambda>s. (sch_ID s, s)) core_schemas\<rparr>"

lemma core_init_eq: "core_init empty_registry = Some core_registry"
proof -
  let ?ps = "[(civic_category, civic_schemas), (education_category, education_schemas), (finance_category, finance_schemas), (healthcare_category, healthcare_schemas), (identity_category, identity_schemas), (insurance_category, insurance_schemas), (legal_category, legal_schemas), (professional_category, professional_schemas), (property_category, property_schemas), (social_category, social_schemas), (travel_category, travel_schemas)]"
  have s: "concat (map snd ?ps) = core_schemas" by (simp add: core_schemas_def)
  have c: "map fst ?ps = core_categories" by (simp add: core_categories_def)
  have "core_init empty_registry = fold (\<lambda>init acc. case acc of None \<Rightarrow> None | Some r \<Rightarrow> init r)
      (map (\<lambda>(c, ss) r. register_all ss (RegisterCategory c r)) ?ps) (Some empty_registry)"
    unfolding core_init_def core_init_defs [abs_def] by simp
  also have "\<dots> = Some \<lparr>categories = categories empty_registry @ map (\<lambda>c. (cat_ID c, c)) (map fst ?ps),
      schemas = schemas empty_registry @ map (\<lambda>s. (sch_ID s, s)) (concat (map snd ?ps))\<rparr>"
  proof (rule fold_inits)
    show "distinct (map fst (schemas empty_registry) @ map sch_ID (concat (map snd ?ps)))"
      unfolding s using core_ids_distinct by (simp add: empty_registry_def)
    show "distinct (map fst (categories empty_registry) @ map cat_ID (map fst ?ps))"
      unfolding c core_cat_ids by (simp add: empty_registry_def)
  qed
  finally show ?thesis unfolding s c by (simp add: core_registry_def empty_registry_def)
qed

lemma core_registry_ok: "registry_ok core_registry"
  using core_ids_distinct distinct_map [of cat_ID core_categories]
  by (auto simp: registry_ok_def core_registry_def comp_def core_cat_ids)

lemma core_not_versioned: "list_all (\<lambda>s. \<not> has_suffix (sch_ID s) ''-v1'' \<and> sch_Version s = 0 \<and> sch_ID s \<noteq> []) core_schemas"
  by (simp add: core_schemas_def core_schema_defs has_suffix_def)

lemma core_versioned_id: "s \<in> set core_schemas \<Longrightarrow> VersionedID s = sch_ID s @ ''-v1''"
  using core_not_versioned by (simp add: list_all_iff VersionedID_def itoa_def show_nat.simps)

lemma core_versioned_unregistered:
  assumes "s \<in> set core_schemas"
  shows "map_of (schemas core_registry) (VersionedID s) = None"
proof -
  have "sch_ID t \<noteq> sch_ID s @ ''-v1''" if "t \<in> set core_schemas" for t
    using core_not_versioned that by (auto simp: list_all_iff has_suffix_def)
  then show ?thesis
    unfolding core_versioned_id [OF assms] map_of_eq_None_iff
    by (force simp: core_registry_def)
qed

text \<open>C40: start-up registers all built-in schemas without a panic; the registry then holds exactly
  those schemas, each filed under its own identifier, each identifier prefixed by a registered
  category, and the extra-sensitive ones are exactly the four health schemas on mental, sexual and
  reproductive health and addiction and the criminal record.\<close>

theorem core_startup:
  "\<exists>r. core_init empty_registry = Some r \<and> registry_ok r \<and> AllSchemas r = core_schemas \<and>
     map sch_ID (filter sch_ExtraSensitive (AllSchemas r)) =
       [''healthcare.mental-health'', ''healthcare.sexual-health'', ''healthcare.reproductive-health'',
        ''healthcare.addiction'', ''legal.criminal-record''] \<and>
     list_all (\<lambda>s. (\<exists>c. GetCategory r (sch_CategoryID s) = Inr c) \<and>
        has_prefix (sch_ID s) (sch_CategoryID s @ ''.'')) (AllSchemas r)"
proof (intro exI conjI)
  have all: "AllSchemas core_registry = core_schemas"
    by (simp add: AllSchemas_def core_registry_def comp_def)
  show "core_init empty_registry = Some core_registry" by (rule core_init_eq)
  show "registry_ok core_registry" by (rule core_registry_ok)
  show "AllSchemas core_registry = core_schemas" by (rule all)
  show "map sch_ID (filter sch_ExtraSensitive (AllSchemas core_registry)) =
       [''healthcare.mental-health'', ''healthcare.sexual-health'', ''healthcare.reproductive-health'',
        ''healthcare.addiction'', ''legal.criminal-record'']"
    unfolding all by (rule core_extra)
  have "\<exists>c. GetCategory core_registry k = Inr c" if "k \<in> set (map cat_ID core_categories)" for k
  proof -
    from that have "k \<in> fst ` set (categories core_registry)" by (force simp: core_registry_def)
    then show ?thesis
      by (cases "map_of (categories core_registry) k") (auto simp: GetCategory_def map_of_eq_None_iff)
  qed
  with core_schema_categories show "list_all (\<lambda>s. (\<exists>c. GetCategory core_registry (sch_CategoryID s) = Inr c) \<and>
        has_prefix (sch_ID s) (sch_CategoryID s @ ''.'')) (AllSchemas core_registry)"
    unfolding all list_all_iff by blast
qed

text \<open>Every built-in schema is found under its identifier and under the versioned identifier
  that credentials issued for it carry.\<close>

theorem core_lookup:
  assumes "s \<in> set core_schemas"
  shows "GetSchema core_registry (sch_ID s) = Inr s \<and> GetSchema core_registry (sch_ID s @ ''-v1'') = Inr s"
proof -
  have "sch_Version s = 0" "sch_ID s \<noteq> []" using core_not_versioned assms by (auto simp: list_all_iff)
  moreover have "(sch_ID s, s) \<in> set (schemas core_registry)" using assms by (simp add: core_registry_def)
  moreover note base = BaseID_VersionedID [of s] registry_ok_lookup [OF core_registry_ok]
  ultimately show ?thesis
    using core_versioned_unregistered [OF assms] core_versioned_id [OF assms]
    by (auto simp: GetSchema_def baseID_eq Let_def)
qed

theorem core_lookup_witness:
  "\<exists>s. GetSchema core_registry ''healthcare.mental-health-v1'' = Inr s \<and> sch_ExtraSensitive s"
proof -
  have "''healthcare.mental-health'' \<in> set (map sch_ID (filter sch_ExtraSensitive core_schemas))"
    unfolding core_extra by simp
  then obtain s where s: "s \<in> set core_schemas" "sch_ExtraSensitive s" "sch_ID s = ''healthcare.mental-health''"
    by auto
  with core_lookup [OF s(1)] show ?thesis by auto
qed

text \<open>\<open>IsExtraSensitive\<close>, unlike \<open>GetSchema\<close>, does not resolve versioned identifiers: it denies
  the sensitivity of every built-in schema when asked by the identifier its credentials carry.\<close>

theorem IsExtraSensitive_ignores_versions:
  assumes "s \<in> set core_schemas"
  shows "IsExtraSensitive core_registry (sch_ID s) = sch_ExtraSensitive s \<and>
         \<not> IsExtraSensitive core_registry (sch_ID s @ ''-v1'')"
proof -
  have "(sch_ID s, s) \<in> set (schemas core_registry)" using assms by (simp add: core_registry_def)
  from registry_ok_lookup [OF core_registry_ok this] show ?thesis
    using core_versioned_unregistered [OF assms] core_versioned_id [OF assms]
    by (simp add: IsExtraSensitive_def)
qed

theorem IsExtraSensitive_ignores_versions_witness:
  "IsExtraSensitive core_registry ''legal.criminal-record'' \<and>
   \<not> IsExtraSensitive core_registry ''legal.criminal-record-v1''"
proof -
  have "''legal.criminal-record'' \<in> set (map sch_ID (filter sch_ExtraSensitive core_schemas))"
    unfolding core_extra by simp
  then obtain s where s: "s \<in> set core_schemas" "sch_ExtraSensitive s" "sch_ID s = ''legal.criminal-record''"
    by auto
  with IsExtraSensitive_ignores_versions [OF s(1)] show ?thesis by auto
qed

end
