(* ===== verification/Crypto.thy ===== *)
theory Crypto
  imports Go_Json "HOL-Library.List_Lexorder" "HOL-Library.Char_ord"
begin

text \<open>
  The package \<^verbatim>\<open>src/pkg/crypto\<close>: key handling, hashing of canonical JSON, signatures and
  authenticated encryption.  The primitives below it (SHA-2, Ed25519, X25519, NaCl secretbox) are
  the fields of a record \<open>prims\<close>, an argument of every operation that uses one; \<open>signatures_ok\<close>
  and \<open>secretbox_ok\<close> state what their documentation promises about them.
\<close>

section \<open>The primitives\<close>

record prims =
  sha256 :: "byte list \<Rightarrow> byte list"
  sha512 :: "byte list \<Rightarrow> byte list"
  ed_pub :: "byte list \<Rightarrow> byte list"
  ed_sign :: "byte list \<Rightarrow> byte list \<Rightarrow> byte list"
  ed_verify :: "byte list \<Rightarrow> byte list \<Rightarrow> byte list \<Rightarrow> bool"
  x25519 :: "byte list \<Rightarrow> byte list \<Rightarrow> byte list option"
  box_seal :: "byte list \<Rightarrow> byte list \<Rightarrow> byte list \<Rightarrow> byte list"
  box_open :: "byte list \<Rightarrow> byte list \<Rightarrow> byte list \<Rightarrow> byte list option"

text \<open>A signature made with a private key verifies under its public key.\<close>

definition signatures_ok :: "prims \<Rightarrow> bool" where
  "signatures_ok P \<longleftrightarrow> (\<forall>sk m. ed_verify P (ed_pub P sk) m (ed_sign P sk m))"

text \<open>A sealed box opens to its plaintext under the same nonce and key, and is 16 bytes longer.\<close>

definition secretbox_ok :: "prims \<Rightarrow> bool" where
  "secretbox_ok P \<longleftrightarrow> (\<forall>key nonce m. box_open P key nonce (box_seal P key nonce m) = Some m \<and>
     length (box_seal P key nonce m) = length m + 16)"

text \<open>The Diffie-Hellman law of X25519, for the base point \<open>9\<close>.\<close>

definition basepoint :: "byte list" where
  "basepoint = 9 # replicate 31 0"

definition x25519_ok :: "prims \<Rightarrow> bool" where
  "x25519_ok P \<longleftrightarrow> (\<forall>a b A B. x25519 P a basepoint = Some A \<longrightarrow> x25519 P b basepoint = Some B \<longrightarrow>
     x25519 P a B = x25519 P b A)"

datatype crypto_error = ErrRandom | ErrX25519 | ErrNonce | ErrCiphertextTooShort | ErrDecryption
  | ErrInvalidSignature

section \<open>Signatures\<close>

(* src: pkg/crypto/sign.go:18-21 Sign *)
definition Sign :: "prims \<Rightarrow> byte list \<Rightarrow> byte list \<Rightarrow> byte list" where
  "Sign P key payload = ed_sign P key (sha512 P payload)"

(* src: pkg/crypto/sign.go:24-30 Verify *)
definition Verify :: "prims \<Rightarrow> byte list \<Rightarrow> byte list \<Rightarrow> byte list \<Rightarrow> crypto_error + unit" where
  "Verify P pub payload sig =
     (if \<not> ed_verify P pub (sha512 P payload) sig then Inl ErrInvalidSignature else Inr ())"

(* src: pkg/crypto/sign.go:33-39 SignJSON *)
definition SignJSON :: "prims \<Rightarrow> byte list \<Rightarrow> json \<Rightarrow> byte list" where
  "SignJSON P key v = Sign P key (bytes_of (json_marshal v))"

(* src: pkg/crypto/sign.go:42-48 VerifyJSON *)
definition VerifyJSON :: "prims \<Rightarrow> byte list \<Rightarrow> json \<Rightarrow> byte list \<Rightarrow> crypto_error + unit" where
  "VerifyJSON P pub v sig = Verify P pub (bytes_of (json_marshal v)) sig"

section \<open>Hashes of canonical JSON\<close>

text \<open>\<^verbatim>\<open>json.Unmarshal\<close> into \<^verbatim>\<open>any\<close> followed by \<^verbatim>\<open>json.Marshal\<close>: the members of every object come out
  sorted by key, and of members with the same key the last one stays.\<close>

fun last_members :: "(string \<times> 'a) list \<Rightarrow> (string \<times> 'a) list" where
  "last_members [] = []"
| "last_members ((k, v) # kvs) =
     (if k \<in> fst ` set kvs then last_members kvs else (k, v) # last_members kvs)"

fun json_canonical :: "json \<Rightarrow> json" where
  "json_canonical (JArr xs) = JArr (map json_canonical xs)"
| "json_canonical (JObj kvs) =
     JObj (sort_key fst (last_members (map (\<lambda>(k, v). (k, json_canonical v)) kvs)))"
| "json_canonical v = v"

(* src: pkg/crypto/hash.go:16-30 JCS *)
definition JCS :: "json \<Rightarrow> byte list" where
  "JCS v = bytes_of (json_marshal (json_canonical v))"

(* src: pkg/crypto/hash.go:33-36 SHA256Hex *)
definition SHA256Hex :: "prims \<Rightarrow> byte list \<Rightarrow> string" where
  "SHA256Hex P data = hex_encode (sha256 P data)"

(* src: pkg/crypto/hash.go:39-42 SHA512B64 *)
definition SHA512B64 :: "prims \<Rightarrow> byte list \<Rightarrow> string" where
  "SHA512B64 P data = b64_encode (sha512 P data)"

(* src: pkg/crypto/hash.go:45-51 CanonicalJSON *)
definition CanonicalJSON :: "json \<Rightarrow> byte list" where
  "CanonicalJSON v = bytes_of (json_marshal v)"

(* src: pkg/crypto/hash.go:54-60 HashJSON *)
definition HashJSON :: "prims \<Rightarrow> json \<Rightarrow> string" where
  "HashJSON P v = SHA512B64 P (CanonicalJSON v)"

section \<open>Encryption\<close>

text \<open>The private key is 32 random bytes, clamped as RFC 7748 asks.\<close>

(* src: pkg/crypto/encrypt.go:24-26 GenerateEncryptionKey (clamping) *)
definition clamp :: "byte list \<Rightarrow> byte list" where
  "clamp priv =
     (let priv = priv[0 := priv ! 0 AND 248];
          priv = priv[31 := priv ! 31 AND 127]
      in priv[31 := priv ! 31 OR 64])"

(* src: pkg/crypto/encrypt.go:19-33 GenerateEncryptionKey *)
definition GenerateEncryptionKey :: "prims \<Rightarrow> (nat \<Rightarrow> byte) option \<Rightarrow> crypto_error + byte list \<times> byte list" where
  "GenerateEncryptionKey P rnd =
     (case rnd of
        None \<Rightarrow> Inl ErrRandom
      | Some f \<Rightarrow>
          let priv = clamp (map f [0..<32]) in
          (case x25519 P priv basepoint of
             None \<Rightarrow> Inl ErrX25519
           | Some pub \<Rightarrow> Inr (pub, priv)))"

(* src: pkg/crypto/encrypt.go:36-44 ECDH *)
definition ECDH :: "prims \<Rightarrow> byte list \<Rightarrow> byte list \<Rightarrow> crypto_error + byte list" where
  "ECDH P myPriv theirPub =
     (case x25519 P myPriv theirPub of None \<Rightarrow> Inl ErrX25519 | Some shared \<Rightarrow> Inr shared)"

(* src: pkg/crypto/encrypt.go:48-56 Seal *)
definition Seal :: "prims \<Rightarrow> (nat \<Rightarrow> byte) option \<Rightarrow> byte list \<Rightarrow> byte list \<Rightarrow> crypto_error + byte list" where
  "Seal P rnd key plaintext =
     (case rnd of
        None \<Rightarrow> Inl ErrNonce
      | Some f \<Rightarrow> let nonce = map f [0..<24] in Inr (nonce @ box_seal P key nonce plaintext))"

(* src: pkg/crypto/encrypt.go:59-70 Open *)
definition Open :: "prims \<Rightarrow> byte list \<Rightarrow> byte list \<Rightarrow> crypto_error + byte list" where
  "Open P key ciphertext =
     (if length ciphertext < 24 + 16 then Inl ErrCiphertextTooShort
      else case box_open P key (take 24 ciphertext) (drop 24 ciphertext) of
        None \<Rightarrow> Inl ErrDecryption
      | Some plain \<Rightarrow> Inr plain)"

section \<open>Lemmas\<close>

lemma Verify_Sign: "signatures_ok P \<Longrightarrow> Verify P (ed_pub P key) payload (Sign P key payload) = Inr ()"
  by (simp add: signatures_ok_def Verify_def Sign_def)

lemma VerifyJSON_SignJSON: "signatures_ok P \<Longrightarrow> VerifyJSON P (ed_pub P key) v (SignJSON P key v) = Inr ()"
  by (simp add: VerifyJSON_def SignJSON_def Verify_Sign)

lemma VerifyJSON_iff: "VerifyJSON P pub v sig = Inr () \<longleftrightarrow> ed_verify P pub (sha512 P (bytes_of (json_marshal v))) sig"
  by (simp add: VerifyJSON_def Verify_def)

text \<open>What \<open>Seal\<close> encrypts, \<open>Open\<close> decrypts under the same key, for every nonce the random
  source delivers; a ciphertext shorter than a nonce and an authenticator is refused.\<close>

theorem Open_Seal:
  assumes "secretbox_ok P" "Seal P rnd key plaintext = Inr ct"
  shows "Open P key ct = Inr plaintext \<and> length ct = length plaintext + 40 \<and>
         Open P key (take 39 ct) = Inl ErrCiphertextTooShort"
  using assms by (auto simp: Seal_def Open_def secretbox_ok_def Let_def split: option.splits)

text \<open>The clamped scalar has its low three bits clear, its top bit clear and the next one set.\<close>

lemma clamp_bits:
  assumes "length ks = 32"
  shows "length (clamp ks) = 32" "\<not> bit (clamp ks ! 0) 0" "\<not> bit (clamp ks ! 0) 1" "\<not> bit (clamp ks ! 0) 2"
    "bit (clamp ks ! 31) 6" "\<not> bit (clamp ks ! 31) 7"
  using assms by (simp_all add: clamp_def Let_def bit_simps)

text \<open>Two parties that generated their key pairs with \<open>GenerateEncryptionKey\<close> agree on the
  Diffie-Hellman secret, and both private scalars are clamped as RFC 7748 asks.\<close>

theorem ECDH_agreement:
  assumes "x25519_ok P"
    and "GenerateEncryptionKey P r1 = Inr (pubA, privA)" "GenerateEncryptionKey P r2 = Inr (pubB, privB)"
  shows "ECDH P privA pubB = ECDH P privB pubA \<and> length privA = 32 \<and>
         \<not> bit (privA ! 0) 0 \<and> bit (privA ! 31) 6 \<and> \<not> bit (privA ! 31) 7"
proof -
  from assms(2) obtain f where f: "privA = clamp (map f [0..<32])" "x25519 P privA basepoint = Some pubA"
    by (auto simp: GenerateEncryptionKey_def Let_def split: option.splits)
  from assms(3) have "x25519 P privB basepoint = Some pubB"
    by (auto simp: GenerateEncryptionKey_def Let_def split: option.splits)
  with assms(1) f(2) have "x25519 P privA pubB = x25519 P privB pubA"
    unfolding x25519_ok_def by blast
  with clamp_bits [of "map f [0..<32]"] f(1) show ?thesis by (simp add: ECDH_def)
qed

section \<open>Concrete primitives for the witnesses\<close>

definition demo_prims :: prims where
  "demo_prims = \<lparr>sha256 = (\<lambda>m. m), sha512 = (\<lambda>m. m), ed_pub = (\<lambda>k. k),
     ed_sign = (\<lambda>k m. k @ m), ed_verify = (\<lambda>pk m s. s = pk @ m),
     x25519 = (\<lambda>a b. Some (map2 (XOR) a b)),
     box_seal = (\<lambda>k n m. m @ replicate 16 0), box_open = (\<lambda>k n c. Some (take (length c - 16) c))\<rparr>"

lemma demo_signatures_ok: "signatures_ok demo_prims"
  by (simp add: signatures_ok_def demo_prims_def)

lemma demo_secretbox_ok: "secretbox_ok demo_prims"
  by (simp add: secretbox_ok_def demo_prims_def)

lemma demo_x25519_ok: "x25519_ok demo_prims"
proof -
  have "map2 (XOR) a (map2 (XOR) b c) = map2 (XOR) b (map2 (XOR) a (c :: byte list))" for a b c
    by (rule nth_equalityI) (simp_all add: xor.left_commute min.left_commute)
  then show ?thesis by (auto simp: x25519_ok_def demo_prims_def)
qed

theorem Open_Seal_witness:
  "secretbox_ok demo_prims \<and>
   (\<exists>ct. Seal demo_prims (Some (\<lambda>i. 7)) [1] [2, 3] = Inr ct \<and> Open demo_prims [1] ct = Inr [2, 3])"
proof -
  obtain ct where ct: "Seal demo_prims (Some (\<lambda>i. 7)) [1] [2, 3] = Inr ct" by (simp add: Seal_def Let_def)
  with Open_Seal [OF demo_secretbox_ok ct] show ?thesis by (simp add: demo_secretbox_ok)
qed

theorem ECDH_agreement_witness:
  "\<exists>pA sA pB sB. GenerateEncryptionKey demo_prims (Some (\<lambda>i. 1)) = Inr (pA, sA) \<and>
     GenerateEncryptionKey demo_prims (Some (\<lambda>i. 2)) = Inr (pB, sB) \<and>
     ECDH demo_prims sA pB = ECDH demo_prims sB pA"
proof -
  obtain pA sA where a: "GenerateEncryptionKey demo_prims (Some (\<lambda>i. 1)) = Inr (pA, sA)"
    by (simp add: GenerateEncryptionKey_def demo_prims_def Let_def)
  obtain pB sB where b: "GenerateEncryptionKey demo_prims (Some (\<lambda>i. 2)) = Inr (pB, sB)"
    by (simp add: GenerateEncryptionKey_def demo_prims_def Let_def)
  from ECDH_agreement [OF demo_x25519_ok a b] a b show ?thesis by auto
qed

end
