(* ===== verification/Consent.thy ===== *)
theory Consent
  imports Schema Crypto Go_Time
begin

text \<open>
  Consent, \<^verbatim>\<open>src/pkg/consent\<close>: the in-memory policy that decides whether a relying party may see
  credentials of a schema (\<^verbatim>\<open>policy.go\<close>), and the signed receipts of accesses (\<^verbatim>\<open>receipt.go\<close>).  The
  schema registry is an argument, as is the current instant of every operation that reads the
  clock.
\<close>

section \<open>Grants and policies\<close>

(* src: pkg/consent/policy.go:13-21 GrantLevel *)
datatype grant_level = GrantSchema | GrantCategory | GrantOther string

(* src: pkg/consent/policy.go:24-38 Grant *)
record grant =
  gr_ID :: string
  gr_SubjectDID :: string
  gr_RelyingDID :: string
  gr_Level :: grant_level
  gr_ScopeID :: string
  gr_GrantedAt :: instant
  gr_ExpiresAt :: "instant option"
  gr_RevokedAt :: "instant option"
  gr_ExplicitlyConfirmed :: bool

(* src: pkg/consent/policy.go:41-44 Policy *)
record policy =
  grants :: "grant list"

datatype policy_error =
    ErrUnknownSchema string
  | ErrExtraSensitive string
  | ErrNotGranted string string string
  | ErrAlreadyRevoked string
  | ErrGrantNotFound string
  | ErrMissingFields
  | ErrPolicySchema schema_error
  | ErrNeedsConfirmation string
  | ErrCategoryConfirmation
  | ErrUnknownLevel grant_level

(* src: pkg/consent/policy.go:47-49 NewPolicy *)
definition NewPolicy :: "grant list \<Rightarrow> policy" where
  "NewPolicy gs = \<lparr>grants = gs\<rparr>"

text \<open>The body of the loop of \<open>CanAccess\<close>: whether this grant lets the request through.\<close>

(* src: pkg/consent/policy.go:64-89 Policy.CanAccess (loop body) *)
definition grant_allows :: "instant \<Rightarrow> schema \<Rightarrow> string \<Rightarrow> string \<Rightarrow> string \<Rightarrow> grant \<Rightarrow> bool" where
  "grant_allows now s subjectDID relyingDID schemaID g =
     (if gr_SubjectDID g \<noteq> subjectDID \<or> gr_RelyingDID g \<noteq> relyingDID then False
      else if gr_RevokedAt g \<noteq> None then False
      else if (case gr_ExpiresAt g of Some e \<Rightarrow> now > e | None \<Rightarrow> False) then False
      else case gr_Level g of
        GrantSchema \<Rightarrow> gr_ScopeID g = schemaID
      | GrantCategory \<Rightarrow>
          if gr_ScopeID g = sch_CategoryID s then
            (if sch_ExtraSensitive s then False
             else if \<not> gr_ExplicitlyConfirmed g then False
             else True)
          else False
      | GrantOther _ \<Rightarrow> False)"

fun can_access_loop :: "(grant \<Rightarrow> bool) \<Rightarrow> grant list \<Rightarrow> bool" where
  "can_access_loop allows [] = False"
| "can_access_loop allows (g # gs) = (if allows g then True else can_access_loop allows gs)"

(* src: pkg/consent/policy.go:53-95 Policy.CanAccess *)
definition CanAccess :: "registry \<Rightarrow> instant \<Rightarrow> policy \<Rightarrow> string \<Rightarrow> string \<Rightarrow> string \<Rightarrow> policy_error + unit" where
  "CanAccess reg now p subjectDID relyingDID schemaID =
     (case GetSchema reg schemaID of
        Inl _ \<Rightarrow> Inl (ErrUnknownSchema schemaID)
      | Inr s \<Rightarrow>
          if can_access_loop (grant_allows now s subjectDID relyingDID schemaID) (grants p) then Inr ()
          else if sch_ExtraSensitive s then Inl (ErrExtraSensitive schemaID)
          else Inl (ErrNotGranted subjectDID relyingDID schemaID))"

(* src: pkg/consent/policy.go:128-152 validateGrant *)
definition validateGrant :: "registry \<Rightarrow> grant \<Rightarrow> policy_error + unit" where
  "validateGrant reg g =
     (if gr_SubjectDID g = [] \<or> gr_RelyingDID g = [] \<or> gr_ScopeID g = [] then Inl ErrMissingFields
      else case gr_Level g of
        GrantSchema \<Rightarrow>
          (case GetSchema reg (gr_ScopeID g) of
             Inl e \<Rightarrow> Inl (ErrPolicySchema e)
           | Inr s \<Rightarrow> if sch_ExtraSensitive s \<and> \<not> gr_ExplicitlyConfirmed g
                       then Inl (ErrNeedsConfirmation (gr_ScopeID g)) else Inr ())
      | GrantCategory \<Rightarrow>
          (case GetCategory reg (gr_ScopeID g) of
             Inl e \<Rightarrow> Inl (ErrPolicySchema e)
           | Inr _ \<Rightarrow> if \<not> gr_ExplicitlyConfirmed g then Inl ErrCategoryConfirmation else Inr ())
      | GrantOther l \<Rightarrow> Inl (ErrUnknownLevel (GrantOther l)))"

(* src: pkg/consent/policy.go:99-107 Policy.AddGrant *)
definition AddGrant :: "registry \<Rightarrow> grant \<Rightarrow> policy \<Rightarrow> policy_error + policy" where
  "AddGrant reg g p =
     (case validateGrant reg g of Inl e \<Rightarrow> Inl e | Inr _ \<Rightarrow> Inr (p\<lparr>grants := grants p @ [g]\<rparr>))"

text \<open>The search loop of \<open>RevokeGrant\<close>: it stops at the first grant with the identifier.\<close>

(* src: pkg/consent/policy.go:114-125 Policy.RevokeGrant (loop) *)
fun revoke_loop :: "instant \<Rightarrow> string \<Rightarrow> grant list \<Rightarrow> policy_error + grant list" where
  "revoke_loop now grantID [] = Inl (ErrGrantNotFound grantID)"
| "revoke_loop now grantID (g # gs) =
     (if gr_ID g = grantID then
        (if gr_RevokedAt g \<noteq> None then Inl (ErrAlreadyRevoked grantID)
         else Inr (g\<lparr>gr_RevokedAt := Some now\<rparr> # gs))
      else case revoke_loop now grantID gs of Inl e \<Rightarrow> Inl e | Inr gs' \<Rightarrow> Inr (g # gs'))"

(* src: pkg/consent/policy.go:111-126 Policy.RevokeGrant *)
definition RevokeGrant :: "instant \<Rightarrow> string \<Rightarrow> policy \<Rightarrow> policy_error + policy" where
  "RevokeGrant now grantID p =
     (case revoke_loop now grantID (grants p) of Inl e \<Rightarrow> Inl e | Inr gs \<Rightarrow> Inr (p\<lparr>grants := gs\<rparr>))"

section \<open>Receipts\<close>

(* src: pkg/consent/receipt.go:14-21 LegalBasis *)
datatype legal_basis = LegalBasisConsent | LegalBasisVitalInterest | LegalBasisLegalObligation
  | LegalBasisPublicTask | LegalBasisOther string

fun legal_basis_text :: "legal_basis \<Rightarrow> string" where
  "legal_basis_text LegalBasisConsent = ''consent''"
| "legal_basis_text LegalBasisVitalInterest = ''vital-interest''"
| "legal_basis_text LegalBasisLegalObligation = ''legal-obligation''"
| "legal_basis_text LegalBasisPublicTask = ''public-task''"
| "legal_basis_text (LegalBasisOther s) = s"

(* src: pkg/consent/receipt.go:25-42 Receipt *)
record receipt =
  rc_ID :: string
  rc_SubjectDID :: string
  rc_RelyingDID :: string
  rc_SchemaID :: string
  rc_AccessedAt :: instant
  rc_LegalBasis :: legal_basis
  rc_Purpose :: string
  rc_ExpiresAt :: "instant option"
  rc_RevokedAt :: "instant option"
  rc_Signature :: string
  rc_SignedBy :: string

(* src: pkg/consent/receipt.go:45-54 IssueOptions *)
record issue_options =
  io_SubjectDID :: string
  io_RelyingDID :: string
  io_SchemaID :: string
  io_Purpose :: string
  io_LegalBasis :: legal_basis
  io_ExpiresAt :: "instant option"
  io_SignerKey :: "byte list"
  io_SignerKeyID :: string

text \<open>The signable fields as \<^verbatim>\<open>json.Marshal\<close> writes the map, with its keys sorted.\<close>

(* src: pkg/consent/receipt.go:86-101 receiptPayload *)
definition receiptPayload :: "receipt \<Rightarrow> json" where
  "receiptPayload r = json_str_obj (
     [(''accessedAt'', rfc3339 (rc_AccessedAt r))] @
     (case rc_ExpiresAt r of Some e \<Rightarrow> [(''expiresAt'', rfc3339 e)] | None \<Rightarrow> []) @
     [(''id'', rc_ID r),
      (''legalBasis'', legal_basis_text (rc_LegalBasis r)),
      (''purpose'', rc_Purpose r),
      (''relyingDid'', rc_RelyingDID r),
      (''schemaId'', rc_SchemaID r),
      (''signedBy'', rc_SignedBy r),
      (''subjectDid'', rc_SubjectDID r)])"

(* src: pkg/consent/receipt.go:58-76 Issue *)
definition Issue :: "prims \<Rightarrow> string \<Rightarrow> instant \<Rightarrow> issue_options \<Rightarrow> receipt" where
  "Issue P uuid now opts =
     (let r = \<lparr>rc_ID = ''urn:uuid:'' @ uuid, rc_SubjectDID = io_SubjectDID opts,
               rc_RelyingDID = io_RelyingDID opts, rc_SchemaID = io_SchemaID opts,
               rc_AccessedAt = now, rc_LegalBasis = io_LegalBasis opts, rc_Purpose = io_Purpose opts,
               rc_ExpiresAt = io_ExpiresAt opts, rc_RevokedAt = None, rc_Signature = [],
               rc_SignedBy = io_SignerKeyID opts\<rparr>;
          sig = SignJSON P (io_SignerKey opts) (receiptPayload r)
      in r\<lparr>rc_Signature := b64_encode sig\<rparr>)"

(* src: pkg/consent/receipt.go:79-82 Withdraw *)
definition Withdraw :: "instant \<Rightarrow> receipt \<Rightarrow> receipt" where
  "Withdraw now r = r\<lparr>rc_RevokedAt := Some now\<rparr>"

section \<open>Lemmas\<close>

lemma can_access_loop_iff: "can_access_loop allows gs \<longleftrightarrow> (\<exists>g\<in>set gs. allows g)"
  by (induction gs) auto

text \<open>A grant is active when it is neither revoked nor past its expiry.\<close>

definition grant_active :: "instant \<Rightarrow> grant \<Rightarrow> bool" where
  "grant_active now g \<longleftrightarrow> gr_RevokedAt g = None \<and> (case gr_ExpiresAt g of Some e \<Rightarrow> now \<le> e | None \<Rightarrow> True)"

lemma grant_allows_iff:
  "grant_allows now s subj rely sid g \<longleftrightarrow>
     gr_SubjectDID g = subj \<and> gr_RelyingDID g = rely \<and> grant_active now g \<and>
     (gr_Level g = GrantSchema \<and> gr_ScopeID g = sid \<or>
      gr_Level g = GrantCategory \<and> gr_ScopeID g = sch_CategoryID s \<and> \<not> sch_ExtraSensitive s \<and>
      gr_ExplicitlyConfirmed g)"
  unfolding grant_allows_def grant_active_def
  by (cases "gr_Level g"; cases "gr_ExpiresAt g"; cases "gr_RevokedAt g") auto

lemma CanAccess_iff:
  "CanAccess reg now p subj rely sid = Inr () \<longleftrightarrow>
     (\<exists>s. GetSchema reg sid = Inr s \<and> (\<exists>g\<in>set (grants p). grant_allows now s subj rely sid g))"
  by (auto simp: CanAccess_def can_access_loop_iff split: sum.splits)

lemma validateGrant_iff:
  "validateGrant reg g = Inr () \<longleftrightarrow>
     gr_SubjectDID g \<noteq> [] \<and> gr_RelyingDID g \<noteq> [] \<and> gr_ScopeID g \<noteq> [] \<and>
     (gr_Level g = GrantSchema \<and>
        (\<exists>s. GetSchema reg (gr_ScopeID g) = Inr s \<and> (sch_ExtraSensitive s \<longrightarrow> gr_ExplicitlyConfirmed g)) \<or>
      gr_Level g = GrantCategory \<and> (\<exists>c. GetCategory reg (gr_ScopeID g) = Inr c) \<and> gr_ExplicitlyConfirmed g)"
  by (auto simp: validateGrant_def split: grant_level.splits sum.splits)

text \<open>What revocation does to the list of grants.\<close>

lemma revoke_loop_Inr:
  "revoke_loop now gid gs = Inr gs' \<longleftrightarrow>
     (\<exists>pre g post. gs = pre @ g # post \<and> gid \<notin> gr_ID ` set pre \<and> gr_ID g = gid \<and> gr_RevokedAt g = None \<and>
        gs' = pre @ g\<lparr>gr_RevokedAt := Some now\<rparr> # post)" (is "?L gs gs' \<longleftrightarrow> ?R gs gs'")
proof
  show "?L gs gs' \<Longrightarrow> ?R gs gs'"
  proof (induction gs arbitrary: gs')
    case (Cons g gs)
    show ?case
    proof (cases "gr_ID g = gid")
      case True
      with Cons.prems show ?thesis
        by (intro exI [of _ "[]"] exI [of _ g] exI [of _ gs]) (auto split: if_splits)
    next
      case False
      with Cons.prems obtain gs'' where r: "revoke_loop now gid gs = Inr gs''" "gs' = g # gs''"
        by (auto split: sum.splits)
      from Cons.IH [OF r(1)] obtain pre h post where
        "gs = pre @ h # post" "gid \<notin> gr_ID ` set pre" "gr_ID h = gid" "gr_RevokedAt h = None"
        "gs'' = pre @ h\<lparr>gr_RevokedAt := Some now\<rparr> # post" by blast
      with False r(2) show ?thesis
        by (intro exI [of _ "g # pre"] exI [of _ h] exI [of _ post]) auto
    qed
  qed simp
next
  show "?R gs gs' \<Longrightarrow> ?L gs gs'"
  proof (elim exE conjE)
    fix pre g post
    assume "gs = pre @ g # post" "gid \<notin> gr_ID ` set pre" "gr_ID g = gid" "gr_RevokedAt g = None"
      "gs' = pre @ g\<lparr>gr_RevokedAt := Some now\<rparr> # post"
    then show "?L gs gs'" by (induction pre arbitrary: gs gs') auto
  qed
qed

section \<open>Reachable policies\<close>

text \<open>The policies that arise from an empty one by \<open>AddGrant\<close> and \<open>RevokeGrant\<close>.\<close>

inductive reachable_policy :: "registry \<Rightarrow> policy \<Rightarrow> bool" for reg where
  empty: "reachable_policy reg (NewPolicy [])"
| add: "reachable_policy reg p \<Longrightarrow> AddGrant reg g p = Inr p' \<Longrightarrow> reachable_policy reg p'"
| revoke: "reachable_policy reg p \<Longrightarrow> RevokeGrant now gid p = Inr p' \<Longrightarrow> reachable_policy reg p'"

lemma validateGrant_revoked: "validateGrant reg (g\<lparr>gr_RevokedAt := x\<rparr>) = validateGrant reg g"
  by (auto simp: validateGrant_def split: grant_level.split sum.split)

lemma reachable_grants_valid:
  "reachable_policy reg p \<Longrightarrow> g \<in> set (grants p) \<Longrightarrow> validateGrant reg g = Inr ()"
proof (induction arbitrary: g rule: reachable_policy.induct)
  case (add p h p')
  then show ?case by (auto simp: AddGrant_def split: sum.splits)
next
  case (revoke p now gid p')
  then obtain pre h post where "grants p = pre @ h # post"
    "grants p' = pre @ h\<lparr>gr_RevokedAt := Some now\<rparr> # post"
    by (auto simp: RevokeGrant_def revoke_loop_Inr split: sum.splits)
  with revoke show ?case by (auto simp: validateGrant_revoked)
qed (simp add: NewPolicy_def)

text \<open>C32: in every policy built by \<open>AddGrant\<close> and \<open>RevokeGrant\<close>, access to an extra-sensitive
  schema is granted only by a grant for that very schema, made by the subject to that relying
  party, explicitly confirmed, unrevoked and unexpired; a category grant never suffices.\<close>

theorem extra_sensitive_needs_explicit_grant:
  assumes "reachable_policy reg p" "CanAccess reg now p subj rely sid = Inr ()"
    and "GetSchema reg sid = Inr s" "sch_ExtraSensitive s"
  shows "\<exists>g\<in>set (grants p). gr_Level g = GrantSchema \<and> gr_ScopeID g = sid \<and> gr_ExplicitlyConfirmed g \<and>
           gr_SubjectDID g = subj \<and> gr_RelyingDID g = rely \<and> grant_active now g"
proof -
  from assms(2,3) obtain g where g: "g \<in> set (grants p)" "grant_allows now s subj rely sid g"
    by (auto simp: CanAccess_iff)
  from g(2) assms(4) have lvl: "gr_Level g = GrantSchema" "gr_ScopeID g = sid"
    by (auto simp: grant_allows_iff)
  from reachable_grants_valid [OF assms(1) g(1)] lvl assms(3,4) have "gr_ExplicitlyConfirmed g"
    by (auto simp: validateGrant_iff)
  with g lvl show ?thesis by (auto simp: grant_allows_iff)
qed

text \<open>Withdrawing consent.  \<open>RevokeGrant\<close> keeps every grant on record and changes nothing but
  the revocation time of one; when identifiers are unique, that grant lets no request through any
  more, at any time, and a second revocation is refused.\<close>

theorem RevokeGrant_effect:
  assumes "RevokeGrant now gid p = Inr p'" "distinct (map gr_ID (grants p))"
  shows "length (grants p') = length (grants p) \<and>
         map (\<lambda>g. g\<lparr>gr_RevokedAt := None\<rparr>) (grants p') = map (\<lambda>g. g\<lparr>gr_RevokedAt := None\<rparr>) (grants p) \<and>
         (\<forall>g\<in>set (grants p'). gr_ID g = gid \<longrightarrow> \<not> grant_allows t s subj rely sid g) \<and>
         RevokeGrant t gid p' = Inl (ErrAlreadyRevoked gid)"
proof -
  from assms(1) obtain pre g post where
    p: "grants p = pre @ g # post" and g: "gid \<notin> gr_ID ` set pre" "gr_ID g = gid"
    and p': "grants p' = pre @ g\<lparr>gr_RevokedAt := Some now\<rparr> # post"
    by (auto simp: RevokeGrant_def revoke_loop_Inr split: sum.splits)
  have post: "gid \<notin> gr_ID ` set post" using assms(2) p g(2) by auto
  have "revoke_loop t gid (pre @ g\<lparr>gr_RevokedAt := Some now\<rparr> # post) = Inl (ErrAlreadyRevoked gid)"
    using g by (induction pre) auto
  then have "RevokeGrant t gid p' = Inl (ErrAlreadyRevoked gid)"
    by (simp add: RevokeGrant_def p')
  moreover have "\<forall>h\<in>set (grants p'). gr_ID h = gid \<longrightarrow> \<not> grant_allows t s subj rely sid h"
    using g(1) post by (auto simp: p' grant_allows_iff grant_active_def)
  ultimately show ?thesis by (simp add: p p')
qed

text \<open>A receipt issued with a key verifies under the corresponding public key, still does so
  after consent was withdrawn, and its signature covers who accessed what about whom: a receipt
  with the same payload has the same identifier, parties, schema, purpose, legal basis and signer.\<close>

theorem receipt_signature:
  assumes "signatures_ok P"
  shows "VerifyJSON P (ed_pub P (io_SignerKey opts)) (receiptPayload (Withdraw t (Issue P uuid now opts)))
           (the (b64_decode (rc_Signature (Issue P uuid now opts)))) = Inr () \<and>
         (receiptPayload r = receiptPayload r' \<longrightarrow>
            rc_ID r = rc_ID r' \<and> rc_SubjectDID r = rc_SubjectDID r' \<and> rc_RelyingDID r = rc_RelyingDID r' \<and>
            rc_SchemaID r = rc_SchemaID r' \<and> rc_Purpose r = rc_Purpose r' \<and> rc_SignedBy r = rc_SignedBy r' \<and>
            legal_basis_text (rc_LegalBasis r) = legal_basis_text (rc_LegalBasis r'))"
proof (intro conjI)
  define r0 where "r0 = \<lparr>rc_ID = ''urn:uuid:'' @ uuid, rc_SubjectDID = io_SubjectDID opts,
    rc_RelyingDID = io_RelyingDID opts, rc_SchemaID = io_SchemaID opts,
    rc_AccessedAt = now, rc_LegalBasis = io_LegalBasis opts, rc_Purpose = io_Purpose opts,
    rc_ExpiresAt = io_ExpiresAt opts, rc_RevokedAt = None, rc_Signature = [],
    rc_SignedBy = io_SignerKeyID opts\<rparr>"
  have issue: "Issue P uuid now opts = r0\<lparr>rc_Signature := b64_encode (SignJSON P (io_SignerKey opts) (receiptPayload r0))\<rparr>"
    by (simp only: Issue_def r0_def Let_def)
  have "receiptPayload (Withdraw t (r0\<lparr>rc_Signature := sig\<rparr>)) = receiptPayload r0" for sig
    by (simp add: receiptPayload_def Withdraw_def)
  then show "VerifyJSON P (ed_pub P (io_SignerKey opts)) (receiptPayload (Withdraw t (Issue P uuid now opts)))
      (the (b64_decode (rc_Signature (Issue P uuid now opts)))) = Inr ()"
    unfolding issue by (simp add: b64_decode_encode VerifyJSON_SignJSON [OF assms])
qed (auto simp: receiptPayload_def json_str_obj_inj split: option.splits)

section \<open>Witnesses\<close>

definition demo_reg :: registry where
  "demo_reg = \<lparr>categories = [(''h'', \<lparr>cat_ID = ''h'', cat_Name = [], cat_Description = [], cat_Icon = []\<rparr>)],
     schemas = [(''h.x'', zero_schema\<lparr>sch_ID := ''h.x'', sch_CategoryID := ''h'', sch_ExtraSensitive := True\<rparr>)]\<rparr>"

definition demo_grant :: grant where
  "demo_grant = \<lparr>gr_ID = ''g1'', gr_SubjectDID = ''alice'', gr_RelyingDID = ''clinic'', gr_Level = GrantSchema,
     gr_ScopeID = ''h.x'', gr_GrantedAt = 0, gr_ExpiresAt = Some 100, gr_RevokedAt = None,
     gr_ExplicitlyConfirmed = True\<rparr>"

definition demo_policy :: policy where
  "demo_policy = \<lparr>grants = [demo_grant]\<rparr>"

lemma demo_reachable: "reachable_policy demo_reg demo_policy"
  by (rule reachable_policy.add [OF reachable_policy.empty, of demo_reg demo_grant])
    (simp add: AddGrant_def validateGrant_def GetSchema_def demo_reg_def demo_grant_def demo_policy_def NewPolicy_def)

theorem extra_sensitive_needs_explicit_grant_witness:
  "\<exists>g\<in>set (grants demo_policy). gr_Level g = GrantSchema \<and> gr_ExplicitlyConfirmed g \<and> grant_active 50 g"
proof -
  have "CanAccess demo_reg 50 demo_policy ''alice'' ''clinic'' ''h.x'' = Inr ()"
    by (simp add: CanAccess_def GetSchema_def grant_allows_def demo_reg_def demo_policy_def demo_grant_def)
  from extra_sensitive_needs_explicit_grant [OF demo_reachable this] show ?thesis
    by (auto simp: GetSchema_def demo_reg_def)
qed

theorem RevokeGrant_effect_witness:
  "\<exists>p'. RevokeGrant 60 ''g1'' demo_policy = Inr p' \<and> length (grants p') = 1 \<and>
     RevokeGrant 70 ''g1'' p' = Inl (ErrAlreadyRevoked ''g1'')"
proof -
  obtain p' where p': "RevokeGrant 60 ''g1'' demo_policy = Inr p'"
    by (simp add: RevokeGrant_def demo_policy_def demo_grant_def)
  from RevokeGrant_effect [OF p', of 70] p' show ?thesis by (simp add: demo_policy_def)
qed

theorem receipt_signature_witness:
  "signatures_ok demo_prims \<and>
   VerifyJSON demo_prims (ed_pub demo_prims [1]) (receiptPayload (Withdraw 9 (Issue demo_prims ''u'' 5
     \<lparr>io_SubjectDID = ''alice'', io_RelyingDID = ''clinic'', io_SchemaID = ''h.x'', io_Purpose = [],
      io_LegalBasis = LegalBasisConsent, io_ExpiresAt = None, io_SignerKey = [1], io_SignerKeyID = ''k''\<rparr>)))
     (the (b64_decode (rc_Signature (Issue demo_prims ''u'' 5
     \<lparr>io_SubjectDID = ''alice'', io_RelyingDID = ''clinic'', io_SchemaID = ''h.x'', io_Purpose = [],
      io_LegalBasis = LegalBasisConsent, io_ExpiresAt = None, io_SignerKey = [1], io_SignerKeyID = ''k''\<rparr>)))) = Inr ()"
  using receipt_signature [OF demo_signatures_ok, of "\<lparr>io_SubjectDID = ''alice'', io_RelyingDID = ''clinic'',
      io_SchemaID = ''h.x'', io_Purpose = [], io_LegalBasis = LegalBasisConsent, io_ExpiresAt = None,
      io_SignerKey = [1], io_SignerKeyID = ''k''\<rparr>" 9 "''u''" 5] demo_signatures_ok
  by simp

end
