(* ===== verification/Did.thy ===== *)
theory Did
  imports Crypto Go_Time
begin

text \<open>
  Decentralised identifiers, \<^verbatim>\<open>src/pkg/did\<close>: DID documents, the registry of methods and the
  methods key, peer, web and ion, and the caching resolver \<^verbatim>\<open>src/internal/resolver\<close>.  The multibase
  codec, the HTTP client, DNS and the JSON decoder are the fields of \<open>did_env\<close>.
\<close>

section \<open>Documents\<close>

(* src: pkg/did/document.go:27-34 VerificationMethod *)
record verification_method =
  vm_ID :: string
  vm_Type :: string
  vm_Controller :: string
  vm_PublicKeyMultibase :: "string option"
  vm_Revoked :: bool
  vm_NotBefore :: "string option"

(* src: pkg/did/document.go:37-41 Service *)
record did_service =
  sv_ID :: string
  sv_Type :: string
  sv_ServiceEndpoint :: string

(* src: pkg/did/document.go:13-24 Document *)
record document =
  doc_Context :: "string list"
  doc_ID :: string
  doc_Controller :: string
  doc_VerificationMethod :: "verification_method list"
  doc_Authentication :: "string list"
  doc_KeyAgreement :: "string list"
  doc_AssertionMethod :: "string list"
  doc_Service :: "did_service list"
  doc_Created :: "instant option"
  doc_Updated :: "instant option"

(* src: pkg/did/document.go:44-46 DefaultContext *)
definition did_DefaultContext :: "string list" where
  "did_DefaultContext = [''https://www.w3.org/ns/did/v1'',
     ''https://w3id.org/security/suites/ed25519-2020/v1'',
     ''https://w3id.org/security/suites/x25519-2020/v1'']"

definition zero_document :: document where
  "zero_document = \<lparr>doc_Context = [], doc_ID = [], doc_Controller = [], doc_VerificationMethod = [],
     doc_Authentication = [], doc_KeyAgreement = [], doc_AssertionMethod = [], doc_Service = [],
     doc_Created = None, doc_Updated = None\<rparr>"

(* src: pkg/did/method.go:10-17 CreateOptions *)
record create_options =
  co_Domain :: string
  co_SigningPub :: "byte list"
  co_EncPub :: "byte list"

text \<open>Code outside the repository: the multibase codec (\<open>mb_encode\<close> for Base58BTC), an HTTP GET that
  gives the status and the body, and the decoders of a DID document and of an ION result.\<close>

record did_env =
  mb_encode :: "byte list \<Rightarrow> string option"
  mb_decode :: "string \<Rightarrow> byte list option"
  http_get :: "string \<Rightarrow> (nat \<times> string) option"
  parse_document :: "string \<Rightarrow> document option"
  parse_ion_result :: "string \<Rightarrow> document option option"

definition multibase_ok :: "did_env \<Rightarrow> bool" where
  "multibase_ok E \<longleftrightarrow> (\<forall>b s. mb_encode E b = Some s \<longrightarrow> mb_decode E s = Some b)"

datatype did_error =
    ErrMalformedDID string | ErrUnsupportedMethod string
  | ErrSigningKeySize | ErrMultibase | ErrInvalidDID string | ErrKeyTooShort | ErrMulticodec "64 word"
  | ErrKeyLength | ErrPeerNotFound string | ErrNoDocumentID
  | ErrDomainRequired | ErrSigningKeyRequired | ErrNotAllowed string | ErrHTTP | ErrHTTPStatus nat | ErrParse
  | ErrIonCreate | ErrIonNoDocument

section \<open>Multicodec prefixes\<close>

(* src: pkg/did/web.go:245-255 uvarint *)
function uvarint :: "64 word \<Rightarrow> byte list" where
  "uvarint x = (if x \<ge> 0x80 then (ucast x OR 0x80) # uvarint (drop_bit 7 x) else [ucast x])"
  by pat_completeness auto
termination
proof (relation "measure unat")
  fix x :: "64 word"
  assume "0x80 \<le> x"
  then have "0 < unat x" by (simp add: word_le_nat_alt)
  then show "(drop_bit 7 x, x) \<in> measure unat"
    by (simp add: drop_bit_eq_div unat_div)
qed simp

declare uvarint.simps [simp del]

(* src: pkg/did/key.go:107-118 decodeUvarint *)
fun decodeUvarint_loop :: "64 word \<Rightarrow> nat \<Rightarrow> nat \<Rightarrow> byte list \<Rightarrow> 64 word \<times> nat" where
  "decodeUvarint_loop x s i [] = (0, 0)"
| "decodeUvarint_loop x s i (c # b) =
     (if c < 0x80 then (x OR push_bit s (ucast c), i + 1)
      else decodeUvarint_loop (x OR push_bit s (ucast (c AND 0x7f))) (s + 7) (i + 1) b)"

(* src: pkg/did/key.go:107-118 decodeUvarint *)
definition decodeUvarint :: "byte list \<Rightarrow> 64 word \<times> nat" where
  "decodeUvarint b = decodeUvarint_loop 0 0 0 b"

(* src: pkg/did/web.go:233-243 toMultibase *)
definition toMultibase :: "did_env \<Rightarrow> byte list \<Rightarrow> 64 word \<Rightarrow> string" where
  "toMultibase E key codec =
     (let raw = uvarint codec @ key in
      case mb_encode E raw of None \<Rightarrow> ''u'' @ b64_encode raw | Some enc \<Rightarrow> enc)"

section \<open>did:key\<close>

(* src: pkg/did/key.go:60-69 encodeKeyDID *)
definition encodeKeyDID :: "did_env \<Rightarrow> byte list \<Rightarrow> did_error + string" where
  "encodeKeyDID E pub =
     (case mb_encode E ([0xed, 0x01] @ pub) of
        None \<Rightarrow> Inl ErrMultibase
      | Some mb \<Rightarrow> Inr (''did:key:'' @ mb))"

definition ed_method :: "string \<Rightarrow> string \<Rightarrow> string \<Rightarrow> verification_method" where
  "ed_method vid did mb = \<lparr>vm_ID = vid, vm_Type = ''Ed25519VerificationKey2020'', vm_Controller = did,
     vm_PublicKeyMultibase = Some mb, vm_Revoked = False, vm_NotBefore = None\<rparr>"

definition x_method :: "string \<Rightarrow> string \<Rightarrow> string \<Rightarrow> verification_method" where
  "x_method vid did mb = \<lparr>vm_ID = vid, vm_Type = ''X25519KeyAgreementKey2020'', vm_Controller = did,
     vm_PublicKeyMultibase = Some mb, vm_Revoked = False, vm_NotBefore = None\<rparr>"

(* src: pkg/did/key.go:71-100 keyDocument *)
definition keyDocument :: "did_env \<Rightarrow> string \<Rightarrow> byte list \<Rightarrow> byte list \<Rightarrow> document" where
  "keyDocument E did sigPub encPub =
     (let sigKeyID = did @ ''#'' @ trim_prefix did ''did:key:'';
          sigPubMB = toMultibase E sigPub 0xed;
          doc = zero_document\<lparr>doc_Context := did_DefaultContext, doc_ID := did,
            doc_VerificationMethod := [ed_method sigKeyID did sigPubMB],
            doc_Authentication := [sigKeyID], doc_AssertionMethod := [sigKeyID]\<rparr>
      in if length encPub = 32 then
           (let encKeyID = did @ ''#enc''; encPubMB = toMultibase E encPub 0xec
            in doc\<lparr>doc_VerificationMethod := doc_VerificationMethod doc @ [x_method encKeyID did encPubMB],
                   doc_KeyAgreement := [encKeyID]\<rparr>)
         else doc)"

(* src: pkg/did/key.go:23-33 keyMethod.Create *)
definition key_Create :: "did_env \<Rightarrow> create_options \<Rightarrow> did_error + string \<times> document" where
  "key_Create E opts =
     (if length (co_SigningPub opts) \<noteq> 32 then Inl ErrSigningKeySize
      else case encodeKeyDID E (co_SigningPub opts) of
        Inl e \<Rightarrow> Inl e
      | Inr did \<Rightarrow> Inr (did, keyDocument E did (co_SigningPub opts) (co_EncPub opts)))"

(* src: pkg/did/key.go:36-58 keyMethod.Resolve *)
definition key_Resolve :: "did_env \<Rightarrow> string \<Rightarrow> did_error + document" where
  "key_Resolve E did =
     (if \<not> has_prefix did ''did:key:'' then Inl (ErrInvalidDID did)
      else case mb_decode E (trim_prefix did ''did:key:'') of
        None \<Rightarrow> Inl ErrMultibase
      | Some raw \<Rightarrow>
          if length raw < 3 then Inl ErrKeyTooShort
          else let (codec, n) = decodeUvarint raw in
            if codec \<noteq> 0xed then Inl (ErrMulticodec codec)
            else let pubKey = drop n raw in
              if length pubKey \<noteq> 32 then Inl ErrKeyLength
              else Inr (keyDocument E did pubKey []))"

section \<open>did:peer\<close>

type_synonym peer_docs = "(string \<times> document) list"

(* src: pkg/did/peer.go:30-71 peerMethod.Create *)
definition peer_Create :: "create_options \<Rightarrow> peer_docs \<Rightarrow> (did_error + string \<times> document) \<times> peer_docs" where
  "peer_Create opts docs =
     (if length (co_SigningPub opts) \<noteq> 32 then (Inl ErrSigningKeySize, docs)
      else
        let raw = [0xed, 0x01] @ co_SigningPub opts;
            mb = ''u'' @ b64_encode raw;
            did = ''did:peer:0'' @ mb;
            sigKeyID = did @ ''#key-1'';
            doc = zero_document\<lparr>doc_Context := did_DefaultContext, doc_ID := did,
              doc_VerificationMethod := [ed_method sigKeyID did mb],
              doc_Authentication := [sigKeyID], doc_AssertionMethod := [sigKeyID]\<rparr>;
            doc = (if length (co_EncPub opts) = 32 then
                (let encKeyID = did @ ''#key-2'';
                     encRaw = [0xec, 0x01] @ co_EncPub opts;
                     encMB = ''z'' @ b64_encode encRaw
                 in doc\<lparr>doc_VerificationMethod := doc_VerificationMethod doc @ [x_method encKeyID did encMB],
                        doc_KeyAgreement := [encKeyID]\<rparr>)
              else doc)
        in (Inr (did, doc), map_put did doc docs))"

(* src: pkg/did/peer.go:76-85 peerMethod.Resolve *)
definition peer_Resolve :: "peer_docs \<Rightarrow> string \<Rightarrow> did_error + document" where
  "peer_Resolve docs did =
     (if \<not> has_prefix did ''did:peer:'' then Inl (ErrInvalidDID did)
      else case map_of docs did of None \<Rightarrow> Inl (ErrPeerNotFound did) | Some doc \<Rightarrow> Inr doc)"

(* src: pkg/did/peer.go:89-95 peerMethod.StoreDocument *)
definition peer_StoreDocument :: "document \<Rightarrow> peer_docs \<Rightarrow> did_error + peer_docs" where
  "peer_StoreDocument doc docs =
     (if doc_ID doc = [] then Inl ErrNoDocumentID else Inr (map_put (doc_ID doc) doc docs))"

section \<open>did:web\<close>

text \<open>Addresses and networks, as \<^verbatim>\<open>net.IP\<close> and \<^verbatim>\<open>net.IPNet\<close> compare them.\<close>

datatype ip = IPv4 "32 word" | IPv6 "128 word"
datatype cidr = CIDR4 "32 word" nat | CIDR6 "128 word" nat

fun cidr_contains :: "cidr \<Rightarrow> ip \<Rightarrow> bool" where
  "cidr_contains (CIDR4 net len) (IPv4 a) = (drop_bit (32 - len) a = drop_bit (32 - len) net)"
| "cidr_contains (CIDR6 net len) (IPv6 a) = (drop_bit (128 - len) a = drop_bit (128 - len) net)"
| "cidr_contains _ _ = False"

(* src: pkg/did/web.go:82-104 privateRanges *)
definition privateRanges :: "cidr list" where
  "privateRanges =
     [CIDR4 0x0A000000 8,
      CIDR4 0xAC100000 12,
      CIDR4 0xC0A80000 16,
      CIDR4 0x7F000000 8,
      CIDR6 1 128,
      CIDR6 0xFC000000000000000000000000000000 7,
      CIDR4 0xA9FE0000 16,
      CIDR6 0xFE800000000000000000000000000000 10,
      CIDR4 0x64400000 10,
      CIDR4 0xC6120000 15,
      CIDR4 0xCB007100 24,
      CIDR4 0 8]"

text \<open>\<^verbatim>\<open>IsLoopback\<close>, \<^verbatim>\<open>IsLinkLocalUnicast\<close> and \<^verbatim>\<open>IsLinkLocalMulticast\<close> of \<^verbatim>\<open>net.IP\<close>.\<close>

fun ip_special :: "ip \<Rightarrow> bool" where
  "ip_special (IPv4 a) = (drop_bit 24 a = 127 \<or> drop_bit 16 a = 0xA9FE \<or> drop_bit 8 a = 0xE00000)"
| "ip_special (IPv6 a) = (a = 1 \<or> drop_bit 118 a = 0x3FA \<or> drop_bit 112 a AND 0xFF0F = 0xFF02)"

(* src: pkg/did/web.go:106-116 isPrivateIP *)
definition isPrivateIP :: "ip \<Rightarrow> bool" where
  "isPrivateIP a = (if ip_special a then True else list_ex (\<lambda>block. cidr_contains block a) privateRanges)"

datatype dial_error = ErrParseAddr | ErrLookup | ErrPrivateAddress string | ErrDial

text \<open>\<open>split\<close>, \<open>lookup\<close> and \<open>parse_ip\<close> are \<^verbatim>\<open>net.SplitHostPort\<close>, the DNS resolver and \<^verbatim>\<open>net.ParseIP\<close>.  \<open>dial\<close> is
  \<^verbatim>\<open>Dialer.DialContext\<close>, which is given the name, not the addresses that were checked, and resolves it on its own.\<close>

fun first_private :: "(string \<Rightarrow> ip option) \<Rightarrow> string list \<Rightarrow> string option" where
  "first_private parse_ip [] = None"
| "first_private parse_ip (s # ips) =
     (case parse_ip s of
        None \<Rightarrow> first_private parse_ip ips
      | Some a \<Rightarrow> if isPrivateIP a then Some s else first_private parse_ip ips)"

(* src: pkg/did/web.go:59-79 ssrfDialer *)
definition ssrfDialer :: "(string \<Rightarrow> string option) \<Rightarrow> (string \<Rightarrow> string list option) \<Rightarrow> (string \<Rightarrow> ip option)
    \<Rightarrow> (string \<Rightarrow> 'conn option) \<Rightarrow> string \<Rightarrow> dial_error + 'conn" where
  "ssrfDialer split lookup parse_ip dial addr =
     (case split addr of
        None \<Rightarrow> Inl ErrParseAddr
      | Some host \<Rightarrow>
          (case lookup host of
             None \<Rightarrow> Inl ErrLookup
           | Some ips \<Rightarrow>
               (case first_private parse_ip ips of
                  Some s \<Rightarrow> Inl (ErrPrivateAddress s)
                | None \<Rightarrow> (case dial addr of None \<Rightarrow> Inl ErrDial | Some c \<Rightarrow> Inr c))))"

(* src: pkg/did/web.go:125-172 webMethod.Create *)
definition web_Create :: "did_env \<Rightarrow> instant \<Rightarrow> create_options \<Rightarrow> did_error + string \<times> document" where
  "web_Create E now opts =
     (if co_Domain opts = [] then Inl ErrDomainRequired
      else if length (co_SigningPub opts) = 0 then Inl ErrSigningKeyRequired
      else
        let did = ''did:web:'' @ co_Domain opts;
            sigKeyID = did @ ''#signing-key-1'';
            sigPubMB = toMultibase E (co_SigningPub opts) 0xed;
            doc = zero_document\<lparr>doc_Context := did_DefaultContext, doc_ID := did,
              doc_Created := Some now, doc_Updated := Some now,
              doc_VerificationMethod := [ed_method sigKeyID did sigPubMB],
              doc_Authentication := [sigKeyID], doc_AssertionMethod := [sigKeyID]\<rparr>;
            doc = (if length (co_EncPub opts) > 0 then
                (let encKeyID = did @ ''#enc-key-1'';
                     encPubMB = toMultibase E (co_EncPub opts) 0xec
                 in doc\<lparr>doc_VerificationMethod := doc_VerificationMethod doc @ [x_method encKeyID did encPubMB],
                        doc_KeyAgreement := [encKeyID]\<rparr>)
              else doc)
        in Inr (did, doc))"

(* src: pkg/did/web.go:217-230 didWebURL *)
definition didWebURL :: "string \<Rightarrow> string option" where
  "didWebURL did =
     (let rest = trim_prefix did ''did:web:'' in
      if rest = did then None
      else let parts = split_all (CHR '':'') rest; domain = parts ! 0 in
        if length parts = 1 then Some (''https://'' @ domain @ ''/.well-known/did.json'')
        else let path = join ''/'' (drop 1 parts) in Some (''https://'' @ domain @ ''/'' @ path @ ''/did.json''))"

(* src: pkg/did/web.go:203-212 webMethod.checkAllowlist *)
definition checkAllowlist :: "string list \<Rightarrow> string \<Rightarrow> bool" where
  "checkAllowlist allowedDomains did =
     (let rest = trim_prefix did ''did:web:''; domain = split_n 2 (CHR '':'') rest ! 0
      in list_ex (\<lambda>allowed. domain = allowed \<or> has_suffix domain (''.'' @ allowed)) allowedDomains)"

(* src: pkg/did/web.go:174-201 webMethod.Resolve *)
definition web_Resolve :: "did_env \<Rightarrow> string list \<Rightarrow> string \<Rightarrow> did_error + document" where
  "web_Resolve E allowedDomains did =
     (case didWebURL did of
        None \<Rightarrow> Inl (ErrInvalidDID did)
      | Some url \<Rightarrow>
          if length allowedDomains > 0 \<and> \<not> checkAllowlist allowedDomains did then Inl (ErrNotAllowed did)
          else case http_get E url of
            None \<Rightarrow> Inl ErrHTTP
          | Some (status, body) \<Rightarrow>
              if status \<noteq> 200 then Inl (ErrHTTPStatus status)
              else case parse_document E (take 1048576 body) of
                None \<Rightarrow> Inl ErrParse
              | Some doc \<Rightarrow> Inr doc)"

section \<open>did:ion\<close>

(* src: pkg/did/ion.go:34-36 ionMethod.Create *)
definition ion_Create :: "create_options \<Rightarrow> did_error + string \<times> document" where
  "ion_Create opts = Inl ErrIonCreate"

(* src: pkg/did/ion.go:39-68 ionMethod.Resolve *)
definition ion_Resolve :: "did_env \<Rightarrow> string \<Rightarrow> string \<Rightarrow> did_error + document" where
  "ion_Resolve E endpoint did =
     (if \<not> has_prefix did ''did:ion:'' then Inl (ErrInvalidDID did)
      else case http_get E (endpoint @ did) of
        None \<Rightarrow> Inl ErrHTTP
      | Some (status, body) \<Rightarrow>
          if status \<noteq> 200 then Inl (ErrHTTPStatus status)
          else case parse_ion_result E (take 1048576 body) of
            None \<Rightarrow> Inl ErrParse
          | Some None \<Rightarrow> Inl ErrIonNoDocument
          | Some (Some doc) \<Rightarrow> Inr doc)"

section \<open>The method registry\<close>

datatype did_method = KeyMethod | PeerMethod | WebMethod "string list" | IonMethod string

fun method_Prefix :: "did_method \<Rightarrow> string" where
  "method_Prefix KeyMethod = ''key''"
| "method_Prefix PeerMethod = ''peer''"
| "method_Prefix (WebMethod _) = ''web''"
| "method_Prefix (IonMethod _) = ''ion''"

record did_state =
  methods :: "(string \<times> did_method) list"
  peer_docs :: peer_docs

(* src: pkg/did/method.go:38-46 RegisterMethod *)
definition RegisterMethod :: "did_method \<Rightarrow> did_state \<Rightarrow> did_state option" where
  "RegisterMethod m st =
     (let p = method_Prefix m in
      case map_of (methods st) p of
        Some _ \<Rightarrow> None
      | None \<Rightarrow> Some (st\<lparr>methods := map_put p m (methods st)\<rparr>))"

(* src: pkg/did/web.go:28-33 SetWebResolverConfig *)
definition SetWebResolverConfig :: "string list \<Rightarrow> did_state \<Rightarrow> did_state" where
  "SetWebResolverConfig cfg st = st\<lparr>methods := map_put ''web'' (WebMethod cfg) (methods st)\<rparr>"

(* src: pkg/did/method.go:75-81 prefix *)
definition did_prefix :: "string \<Rightarrow> did_error + string" where
  "did_prefix did =
     (let parts = split_n 3 (CHR '':'') did in
      if length parts < 3 \<or> parts ! 0 \<noteq> ''did'' then Inl (ErrMalformedDID did) else Inr (parts ! 1))"

fun method_Resolve :: "did_env \<Rightarrow> did_state \<Rightarrow> did_method \<Rightarrow> string \<Rightarrow> did_error + document" where
  "method_Resolve E st KeyMethod did = key_Resolve E did"
| "method_Resolve E st PeerMethod did = peer_Resolve (peer_docs st) did"
| "method_Resolve E st (WebMethod cfg) did = web_Resolve E cfg did"
| "method_Resolve E st (IonMethod endpoint) did = ion_Resolve E endpoint did"

(* src: pkg/did/method.go:49-61 Resolve *)
definition did_Resolve :: "did_env \<Rightarrow> did_state \<Rightarrow> string \<Rightarrow> did_error + document" where
  "did_Resolve E st did =
     (case did_prefix did of
        Inl e \<Rightarrow> Inl e
      | Inr prefix \<Rightarrow>
          (case map_of (methods st) prefix of
             None \<Rightarrow> Inl (ErrUnsupportedMethod prefix)
           | Some m \<Rightarrow> method_Resolve E st m did))"

(* src: pkg/did/method.go:64-72 Create *)
definition did_Create :: "did_env \<Rightarrow> instant \<Rightarrow> string \<Rightarrow> create_options \<Rightarrow> did_state
    \<Rightarrow> (did_error + string \<times> document) \<times> did_state" where
  "did_Create E now methodName opts st =
     (case map_of (methods st) methodName of
        None \<Rightarrow> (Inl (ErrUnsupportedMethod methodName), st)
      | Some KeyMethod \<Rightarrow> (key_Create E opts, st)
      | Some PeerMethod \<Rightarrow>
          (let (r, docs) = peer_Create opts (peer_docs st) in (r, st\<lparr>peer_docs := docs\<rparr>))
      | Some (WebMethod _) \<Rightarrow> (web_Create E now opts, st)
      | Some (IonMethod _) \<Rightarrow> (ion_Create opts, st))"

section \<open>The caching resolver\<close>

(* src: internal/resolver/resolver.go:13-16 entry *)
record cache_entry =
  ce_doc :: document
  ce_expires :: instant

(* src: internal/resolver/resolver.go:19-23 Resolver *)
record resolver =
  rs_ttl :: duration
  rs_cache :: "(string \<times> cache_entry) list"

(* src: internal/resolver/resolver.go:26-31 New *)
definition resolver_New :: "duration \<Rightarrow> resolver" where
  "resolver_New ttl = (let ttl = (if ttl = 0 then 5 * minute else ttl) in \<lparr>rs_ttl = ttl, rs_cache = []\<rparr>)"

(* src: internal/resolver/resolver.go:34-51 Resolver.Resolve *)
definition resolver_Resolve :: "(string \<Rightarrow> did_error + document) \<Rightarrow> instant \<Rightarrow> string \<Rightarrow> resolver
    \<Rightarrow> (did_error + document) \<times> resolver" where
  "resolver_Resolve resolve now i r =
     (case map_of (rs_cache r) i of
        Some e \<Rightarrow>
          if now < ce_expires e then (Inr (ce_doc e), r)
          else (case resolve i of
                  Inl err \<Rightarrow> (Inl err, r)
                | Inr doc \<Rightarrow> (Inr doc, r\<lparr>rs_cache := map_put i \<lparr>ce_doc = doc, ce_expires = now + rs_ttl r\<rparr> (rs_cache r)\<rparr>))
      | None \<Rightarrow>
          (case resolve i of
             Inl err \<Rightarrow> (Inl err, r)
           | Inr doc \<Rightarrow> (Inr doc, r\<lparr>rs_cache := map_put i \<lparr>ce_doc = doc, ce_expires = now + rs_ttl r\<rparr> (rs_cache r)\<rparr>)))"

(* src: internal/resolver/resolver.go:54-58 Resolver.Invalidate *)
definition resolver_Invalidate :: "string \<Rightarrow> resolver \<Rightarrow> resolver" where
  "resolver_Invalidate i r = r\<lparr>rs_cache := map_del i (rs_cache r)\<rparr>"

(* src: internal/resolver/resolver.go:61-70 Resolver.Purge *)
definition resolver_Purge :: "instant \<Rightarrow> resolver \<Rightarrow> resolver" where
  "resolver_Purge now r = r\<lparr>rs_cache := filter (\<lambda>(k, e). \<not> now > ce_expires e) (rs_cache r)\<rparr>"

section \<open>Round trips\<close>

lemma byte_less_128: "(c::byte) < 0x80 \<longleftrightarrow> \<not> bit c 7"
proof -
  have "bit c 7 \<longleftrightarrow> odd (unat c div 128)"
    using bit_unsigned_iff [of c 7, where 'a = nat] by (simp add: bit_iff_odd)
  moreover have "unat c div 128 = (if unat c < 128 then 0 else 1)"
    using unat_byte_less [of c] by (auto intro: div_nat_eqI)
  ultimately show ?thesis by (simp add: word_less_nat_alt)
qed

lemma bit_0x80: "bit (0x80 :: byte) n \<longleftrightarrow> n = 7"
proof -
  have "(0x80 :: byte) = 2 ^ 7" by simp
  then show ?thesis by (simp only: bit_exp_iff) auto
qed

lemma and_0x7f: "(c :: byte) AND 0x7f = take_bit 7 c"
  by (simp add: take_bit_eq_mask mask_eq_exp_minus_1)

lemma take_bit_7_small:
  assumes "(x::64 word) < 0x80"
  shows "take_bit 7 x = x"
proof -
  have "unat (take_bit 7 x) = unat x"
    using assms by (simp add: unsigned_take_bit_eq take_bit_nat_eq_self word_less_nat_alt)
  then show ?thesis by (simp only: unsigned_word_eqI)
qed

lemma decodeUvarint_loop_uvarint:
  "decodeUvarint_loop acc s i (uvarint x @ r) = (acc OR push_bit s x, i + length (uvarint x))"
proof (induction x arbitrary: acc s i rule: uvarint.induct)
  case (1 x)
  show ?case
  proof (cases "x \<ge> 0x80")
    case True
    let ?c = "ucast x OR 0x80 :: byte"
    have cont: "\<not> ?c < 0x80" by (simp add: byte_less_128 bit_simps bit_0x80)
    have low: "ucast (?c AND 0x7f) = take_bit 7 x"
      unfolding and_0x7f by (rule bit_word_eqI) (auto simp: bit_simps bit_0x80)
    have join: "(acc OR push_bit s (take_bit 7 x)) OR push_bit (s + 7) (drop_bit 7 x) = acc OR push_bit s x"
    proof (rule bit_word_eqI)
      fix n
      have "7 + (n - (s + 7)) = n - s" if "\<not> n - s < 7" using that by simp
      then show "bit ((acc OR push_bit s (take_bit 7 x)) OR push_bit (s + 7) (drop_bit 7 x)) n = bit (acc OR push_bit s x) n"
        by (cases "n - s < 7") (auto simp: bit_simps)
    qed
    have "decodeUvarint_loop acc s i (uvarint x @ r)
        = decodeUvarint_loop (acc OR push_bit s (take_bit 7 x)) (s + 7) (i + 1) (uvarint (drop_bit 7 x) @ r)"
      by (subst uvarint.simps) (simp only: True if_True append_Cons decodeUvarint_loop.simps cont if_False low)
    also have "\<dots> = (acc OR push_bit s x, i + 1 + length (uvarint (drop_bit 7 x)))"
      by (simp only: 1 [OF True] join)
    also have "i + 1 + length (uvarint (drop_bit 7 x)) = i + length (uvarint x)"
      using True by (subst (2) uvarint.simps) simp
    finally show ?thesis .
  next
    case False
    then have small: "take_bit 7 x = x" by (intro take_bit_7_small) simp
    have "bit (take_bit 7 x) n \<Longrightarrow> n < 7" for n by (simp add: bit_simps)
    then have b7: "bit x n \<Longrightarrow> n < 7" for n by (simp add: small)
    have "(ucast x :: byte) < 0x80"
      using b7 [of 7] by (auto simp: byte_less_128 bit_simps)
    moreover have "ucast (ucast x :: byte) = x"
      by (rule bit_word_eqI) (auto simp: bit_simps dest: b7)
    ultimately show ?thesis
      using False by (subst (1 2) uvarint.simps) simp
  qed
qed

text \<open>The multicodec prefix codec: decoding what \<open>uvarint\<close> wrote, followed by any bytes, gives
  the 64-bit value back and the length of its encoding.\<close>

theorem decodeUvarint_uvarint: "decodeUvarint (uvarint x @ r) = (x, length (uvarint x))"
  by (simp add: decodeUvarint_def decodeUvarint_loop_uvarint)

lemma uvarint_ed: "uvarint 0xed = [0xed, 0x01]" and uvarint_ec: "uvarint 0xec = [0xec, 0x01]"
  by (subst uvarint.simps, simp, subst uvarint.simps, simp add: word_le_nat_alt)+

lemma has_prefix_self [simp]: "has_prefix (p @ s) p"
  by (simp add: has_prefix_iff)

text \<open>A did:key is self-certifying: resolving the DID that \<open>Create\<close> derives from a 32-byte
  public key gives back a document for exactly that key, the one \<open>Create\<close> returned when no
  encryption key was given.\<close>

theorem key_Resolve_Create:
  assumes "multibase_ok E" "key_Create E opts = Inr (did, doc)"
  shows "key_Resolve E did = Inr (keyDocument E did (co_SigningPub opts) []) \<and>
         (co_EncPub opts = [] \<longrightarrow> key_Resolve E did = Inr doc) \<and> doc_ID doc = did"
proof -
  from assms(2) obtain mb where len: "length (co_SigningPub opts) = 32"
    and mb: "mb_encode E ([0xed, 0x01] @ co_SigningPub opts) = Some mb"
    and did: "did = ''did:key:'' @ mb" and doc: "doc = keyDocument E did (co_SigningPub opts) (co_EncPub opts)"
    by (auto simp: key_Create_def encodeKeyDID_def split: if_splits option.splits)
  have dec: "mb_decode E mb = Some ([0xed, 0x01] @ co_SigningPub opts)"
    using assms(1) mb unfolding multibase_ok_def by blast
  have codec: "decodeUvarint ([0xed, 0x01] @ co_SigningPub opts) = (0xed, 2)"
    using decodeUvarint_uvarint [of "0xed" "co_SigningPub opts"] unfolding uvarint_ed by simp
  have "trim_prefix did ''did:key:'' = mb" "has_prefix did ''did:key:''"
    unfolding did by (rule trim_prefix_append) (rule has_prefix_append)
  then have "key_Resolve E did = Inr (keyDocument E did (co_SigningPub opts) [])"
    using dec codec len by (simp add: key_Resolve_def)
  then show ?thesis by (simp add: doc keyDocument_def Let_def)
qed

text \<open>A did:peer document created in this process is what the process resolves the DID to, and
  creating or storing one leaves the documents of all other DIDs alone.\<close>

theorem peer_Resolve_Create:
  assumes "peer_Create opts docs = (Inr (did, doc), docs')"
  shows "peer_Resolve docs' did = Inr doc \<and> doc_ID doc = did \<and>
         (did' \<noteq> did \<longrightarrow> peer_Resolve docs' did' = peer_Resolve docs did')"
proof -
  from assms have d: "docs' = map_put did doc docs" and i: "doc_ID doc = did"
    and did: "did = ''did:peer:'' @ ''0u'' @ b64_encode ([0xed, 0x01] @ co_SigningPub opts)"
    by (auto simp: peer_Create_def Let_def split: if_splits)
  have "has_prefix did ''did:peer:''" unfolding did by (rule has_prefix_append)
  then show ?thesis by (simp add: peer_Resolve_def d i)
qed

section \<open>Fetching did:web documents\<close>

text \<open>The address ranges the dialer must not reach, by their first and last address and independently of the table of the
  source: this network, the private networks of RFC 1918, shared address space, loopback, link-local unicast and multicast,
  benchmarking and one documentation network; of IPv6 the loopback address, unique local and link-local addresses.\<close>

definition dotted :: "nat \<Rightarrow> nat \<Rightarrow> nat \<Rightarrow> nat \<Rightarrow> nat" where
  "dotted a b c d = ((a * 256 + b) * 256 + c) * 256 + d"

definition reserved4 :: "(nat \<times> nat) list" where
  "reserved4 =
     [(dotted 0 0 0 0, dotted 0 255 255 255), (dotted 10 0 0 0, dotted 10 255 255 255),
      (dotted 100 64 0 0, dotted 100 127 255 255), (dotted 127 0 0 0, dotted 127 255 255 255),
      (dotted 169 254 0 0, dotted 169 254 255 255), (dotted 172 16 0 0, dotted 172 31 255 255),
      (dotted 192 168 0 0, dotted 192 168 255 255), (dotted 198 18 0 0, dotted 198 19 255 255),
      (dotted 203 0 113 0, dotted 203 0 113 255), (dotted 224 0 0 0, dotted 224 0 0 255)]"

definition reserved6 :: "(nat \<times> nat) list" where
  "reserved6 =
     [(1, 1), (0xFC * 2 ^ 120, 0xFE * 2 ^ 120 - 1), (0xFE80 * 2 ^ 112, 0xFEC0 * 2 ^ 112 - 1)]"

fun reserved :: "ip \<Rightarrow> bool" where
  "reserved (IPv4 a) = list_ex (\<lambda>(lo, hi). lo \<le> unat a \<and> unat a \<le> hi) reserved4"
| "reserved (IPv6 a) = (list_ex (\<lambda>(lo, hi). lo \<le> unat a \<and> unat a \<le> hi) reserved6 \<or> drop_bit 112 a AND 0xFF0F = 0xFF02)"

lemma drop_bit_eq_interval:
  fixes a k :: "'a::len word"
  shows "drop_bit n a = k \<longleftrightarrow> unat k * 2 ^ n \<le> unat a \<and> unat a \<le> unat k * 2 ^ n + (2 ^ n - 1)"
proof -
  have "drop_bit n a = k \<longleftrightarrow> unat k \<le> unat a div 2 ^ n \<and> unat a div 2 ^ n < unat k + 1"
    unfolding word_unat_eq_iff unat_drop_bit_eq by (auto simp: drop_bit_eq_div)
  also have "\<dots> \<longleftrightarrow> unat k * 2 ^ n \<le> unat a \<and> unat a < unat k * 2 ^ n + 2 ^ n"
    by (simp add: less_eq_div_iff_mult_less_eq div_less_iff_less_mult distrib_right add.commute)
  also have "\<dots> \<longleftrightarrow> unat k * 2 ^ n \<le> unat a \<and> unat a \<le> unat k * 2 ^ n + (2 ^ n - 1)"
    using zero_less_power [of "2::nat" n] by linarith
  finally show ?thesis .
qed

lemma isPrivateIP_reserved: "isPrivateIP a = reserved a"
proof (cases a)
  case (IPv4 w)
  show ?thesis unfolding IPv4 isPrivateIP_def privateRanges_def reserved.simps reserved4_def dotted_def
    by (simp add: drop_bit_eq_interval) blast
next
  case (IPv6 w)
  have "w = 1 \<longleftrightarrow> Suc 0 \<le> unat w \<and> unat w \<le> Suc 0" by (auto simp: word_unat_eq_iff)
  then show ?thesis unfolding IPv6 isPrivateIP_def privateRanges_def reserved.simps reserved6_def
    by (simp add: drop_bit_eq_interval)
qed

lemma first_private_None:
  "first_private parse_ip ips = None \<longleftrightarrow> (\<forall>s\<in>set ips. \<forall>a. parse_ip s = Some a \<longrightarrow> \<not> isPrivateIP a)"
  by (induction parse_ip ips rule: first_private.induct) (auto split: option.splits)

text \<open>C33: the dialer used for did:web connects exactly when every address its lookup gives for the host, as far as it is
  an address at all, lies outside the listed ranges: this network, 10/8, 172.16/12, 192.168/16, 100.64/10, loopback,
  169.254/16, link-local multicast, 198.18/15 and 203.0.113/24, and for IPv6 the loopback address, fc00::/7, fe80::/10 and
  link-local multicast.  The statement is about the addresses of this lookup; the connection is made by a dial
  that resolves the name again.\<close>

theorem ssrfDialer_safe:
  "ssrfDialer split lookup parse_ip dial addr = Inr c \<longleftrightarrow>
     (\<exists>host ips. split addr = Some host \<and> lookup host = Some ips \<and> dial addr = Some c \<and>
        (\<forall>s\<in>set ips. \<forall>a. parse_ip s = Some a \<longrightarrow> \<not> reserved a))"
  by (auto simp: ssrfDialer_def isPrivateIP_reserved [symmetric] first_private_None [symmetric] split: option.splits)

text \<open>The table is not complete: the unspecified IPv6 address, which reaches the local host, and the first documentation
  network pass the check.\<close>

lemma unlisted_addresses_pass: "\<not> isPrivateIP (IPv6 0)" "\<not> isPrivateIP (IPv4 0xC0000201)"
  by (simp_all add: isPrivateIP_reserved reserved6_def reserved4_def dotted_def)

lemma split_all_ne: "split_all c s \<noteq> []"
  by (induction s) (auto split: list.split)

lemma split_all_hd: "split_all c s ! 0 = takeWhile (\<lambda>x. x \<noteq> c) s"
proof (induction s)
  case (Cons x xs)
  then show ?case using split_all_ne [of c xs] by (cases "split_all c xs") auto
qed simp

lemma split_n_2_hd: "split_n 2 c s ! 0 = takeWhile (\<lambda>x. x \<noteq> c) s"
proof -
  have "(case str_cut c s of None \<Rightarrow> s | Some (a, b) \<Rightarrow> a) = takeWhile (\<lambda>x. x \<noteq> c) s"
  proof (cases "str_cut c s")
    case None
    then have "takeWhile (\<lambda>x. x \<noteq> c) s = s" by (auto simp: takeWhile_eq_all_conv)
    with None show ?thesis by (simp only: option.case)
  next
    case (Some p)
    then show ?thesis by (cases p) (auto dest!: str_cut_SomeD simp: takeWhile_append)
  qed
  then show ?thesis
    by (cases "str_cut c s") (auto simp: numeral_2_eq_2 simp del: str_cut_None)
qed

text \<open>With an allow-list, the document is fetched over HTTPS from a URL whose text begins with
  the DID's domain, and that domain is on the list or ends in a dot followed by a listed one.\<close>

theorem web_Resolve_allowlist:
  assumes "web_Resolve E allowed did = Inr doc" "allowed \<noteq> []"
  shows "\<exists>domain url rest d. has_prefix did ''did:web:'' \<and>
           domain = takeWhile (\<lambda>c. c \<noteq> CHR '':'') (trim_prefix did ''did:web:'') \<and>
           didWebURL did = Some url \<and> url = ''https://'' @ domain @ ''/'' @ rest \<and> http_get E url \<noteq> None \<and>
           d \<in> set allowed \<and> (domain = d \<or> has_suffix domain (''.'' @ d))"
proof -
  define domain where "domain = takeWhile (\<lambda>c. c \<noteq> CHR '':'') (trim_prefix did ''did:web:'')"
  from assms obtain url where url: "didWebURL did = Some url" and get: "http_get E url \<noteq> None"
    and chk: "checkAllowlist allowed did"
    by (auto simp: web_Resolve_def split: option.splits if_splits)
  have "trim_prefix did ''did:web:'' \<noteq> did" using url by (auto simp: didWebURL_def Let_def)
  then have pre: "has_prefix did ''did:web:''" by (auto simp: trim_prefix_def split: if_splits)
  obtain rest where "url = ''https://'' @ domain @ ''/'' @ rest"
    using url by (auto simp: didWebURL_def Let_def split_all_hd domain_def split: if_splits)
  moreover obtain d where "d \<in> set allowed" "domain = d \<or> has_suffix domain (''.'' @ d)"
    using chk by (auto simp: checkAllowlist_def Let_def split_n_2_hd list_ex_iff domain_def)
  ultimately show ?thesis using pre url get domain_def by blast
qed

text \<open>The allow-list compares text, not host names.  With only \<^verbatim>\<open>example.org\<close> allowed, the DID
  \<^verbatim>\<open>did:web:evil.test/.example.org\<close> passes the check, and the URL fetched for it has the host
  \<^verbatim>\<open>evil.test\<close>.\<close>

theorem checkAllowlist_bypass:
  "checkAllowlist [''example.org''] ''did:web:evil.test/.example.org'' \<and>
   didWebURL ''did:web:evil.test/.example.org'' = Some ''https://evil.test/.example.org/.well-known/did.json''"
  by (simp add: checkAllowlist_def didWebURL_def Let_def trim_prefix_def has_prefix_def has_suffix_def
      numeral_2_eq_2)

section \<open>What the cache may return\<close>

text \<open>Executions of the resolver against an underlying resolution whose answers may change over
  time: \<open>log\<close> records the fetches, with their instants, and the clock never runs backwards.\<close>

inductive resolver_run :: "duration \<Rightarrow> instant \<Rightarrow> (instant \<times> string \<times> document) list \<Rightarrow> resolver \<Rightarrow> bool" where
  start: "resolver_run ttl now [] (\<lparr>rs_ttl = ttl, rs_cache = []\<rparr>)"
| tick: "resolver_run ttl now log r \<Longrightarrow> now \<le> now' \<Longrightarrow> resolver_run ttl now' log r"
| fetch: "resolver_run ttl now log r \<Longrightarrow> resolver_Resolve resolve now i r = (Inr doc, r') \<Longrightarrow> r' \<noteq> r
    \<Longrightarrow> resolver_run ttl now ((now, i, doc) # log) r'"
| hit: "resolver_run ttl now log r \<Longrightarrow> resolver_Resolve resolve now i r = (res, r) \<Longrightarrow> resolver_run ttl now log r"
| invalidate: "resolver_run ttl now log r \<Longrightarrow> resolver_run ttl now log (resolver_Invalidate i r)"
| purge: "resolver_run ttl now log r \<Longrightarrow> resolver_run ttl now log (resolver_Purge now r)"

lemma resolver_Resolve_cases:
  assumes "resolver_Resolve resolve now i r = (Inr doc, r')"
  shows "(r' = r \<and> (\<exists>e. map_of (rs_cache r) i = Some e \<and> now < ce_expires e \<and> doc = ce_doc e)) \<or>
         (resolve i = Inr doc \<and> r' = r\<lparr>rs_cache := map_put i \<lparr>ce_doc = doc, ce_expires = now + rs_ttl r\<rparr> (rs_cache r)\<rparr>)"
  using assms by (auto simp: resolver_Resolve_def split: option.splits sum.splits if_splits)

lemma resolver_run_inv:
  "resolver_run ttl now log r \<Longrightarrow> rs_ttl r = ttl \<and> (\<forall>t i d. (t, i, d) \<in> set log \<longrightarrow> t \<le> now) \<and>
     (\<forall>i e. (i, e) \<in> set (rs_cache r) \<longrightarrow> (\<exists>t. (t, i, ce_doc e) \<in> set log \<and> ce_expires e = t + ttl))"
proof (induction rule: resolver_run.induct)
  case (tick ttl now log r now')
  then show ?case by (meson order_trans)
next
  case (fetch ttl now log r resolve i doc r')
  from resolver_Resolve_cases [OF fetch.hyps(2)] fetch.hyps(3)
  have r': "r' = r\<lparr>rs_cache := map_put i \<lparr>ce_doc = doc, ce_expires = now + rs_ttl r\<rparr> (rs_cache r)\<rparr>" by blast
  show ?case
  proof (intro conjI allI impI)
    fix j e assume "(j, e) \<in> set (rs_cache r')"
    then have "(j, e) = (i, \<lparr>ce_doc = doc, ce_expires = now + rs_ttl r\<rparr>) \<or> (j, e) \<in> set (rs_cache r)"
      using r' by (auto dest: map_put_entries)
    then show "\<exists>t. (t, j, ce_doc e) \<in> set ((now, i, doc) # log) \<and> ce_expires e = t + ttl"
    proof
      assume "(j, e) \<in> set (rs_cache r)"
      with fetch.IH show ?thesis by (meson list.set_intros(2))
    qed (use fetch.IH in auto)
  qed (use fetch.IH r' in auto)
next
  case (invalidate ttl now log r i)
  then show ?case by (simp add: resolver_Invalidate_def map_del_def)
next
  case (purge ttl now log r)
  then show ?case by (simp add: resolver_Purge_def)
qed simp_all

text \<open>Bounded staleness.  Whatever the resolver answers is either fetched by this call or was
  fetched, for the same DID, less than the time-to-live ago.\<close>

theorem resolver_staleness:
  assumes "resolver_run ttl now log r" "resolver_Resolve resolve now i r = (Inr doc, r')"
  shows "resolve i = Inr doc \<or> (\<exists>t. (t, i, doc) \<in> set log \<and> t \<le> now \<and> now - t < ttl)"
proof -
  note inv = resolver_run_inv [OF assms(1)]
  from resolver_Resolve_cases [OF assms(2)] show ?thesis
  proof
    assume "r' = r \<and> (\<exists>e. map_of (rs_cache r) i = Some e \<and> now < ce_expires e \<and> doc = ce_doc e)"
    then obtain e where e: "(i, e) \<in> set (rs_cache r)" "now < ce_expires e" "doc = ce_doc e"
      by (auto dest: map_of_SomeD)
    with inv obtain t where "(t, i, doc) \<in> set log" "ce_expires e = t + ttl" by blast
    with e inv show ?thesis by force
  qed blast
qed

section \<open>Witnesses\<close>

definition demo_env :: did_env where
  "demo_env = \<lparr>mb_encode = (\<lambda>b. Some (''z'' @ hex_encode b)), mb_decode = (\<lambda>s. hex_decode (drop 1 s)),
     http_get = (\<lambda>url. Some (200, url)),
     parse_document = (\<lambda>s. Some (zero_document\<lparr>doc_ID := s\<rparr>)), parse_ion_result = (\<lambda>s. None)\<rparr>"

definition demo_opts :: create_options where
  "demo_opts = \<lparr>co_Domain = ''example.org'', co_SigningPub = replicate 32 7, co_EncPub = []\<rparr>"

theorem key_Resolve_Create_witness:
  "multibase_ok demo_env \<and> (\<exists>did doc. key_Create demo_env demo_opts = Inr (did, doc) \<and> key_Resolve demo_env did = Inr doc)"
proof -
  have ok: "multibase_ok demo_env"
    by (simp add: multibase_ok_def demo_env_def hex_decode_encode)
  obtain did doc where c: "key_Create demo_env demo_opts = Inr (did, doc)"
    by (simp add: key_Create_def encodeKeyDID_def demo_env_def demo_opts_def)
  have "co_EncPub demo_opts = []" by (simp add: demo_opts_def)
  with key_Resolve_Create [OF ok c] ok c show ?thesis by blast
qed

theorem peer_Resolve_Create_witness:
  "\<exists>did doc docs'. peer_Create demo_opts [] = (Inr (did, doc), docs') \<and> peer_Resolve docs' did = Inr doc"
proof -
  obtain did doc docs' where c: "peer_Create demo_opts [] = (Inr (did, doc), docs')"
    by (simp add: peer_Create_def demo_opts_def Let_def)
  with peer_Resolve_Create [OF c] show ?thesis by blast
qed

theorem ssrfDialer_safe_witness:
  "ssrfDialer Some (\<lambda>h. Some [h]) (\<lambda>s. Some (IPv4 0x08080808)) Some ''dns'' = Inr ''dns'' \<and>
   (\<forall>c. ssrfDialer Some (\<lambda>h. Some [h]) (\<lambda>s. Some (IPv4 0x0A000001)) Some ''intranet'' \<noteq> Inr c)"
  using ssrfDialer_safe [of Some "\<lambda>h. Some [h]" "\<lambda>s. Some (IPv4 0x08080808)" Some "''dns''" "''dns''"]
    ssrfDialer_safe [of Some "\<lambda>h. Some [h]" "\<lambda>s. Some (IPv4 0x0A000001)" Some "''intranet''"]
  by (simp add: reserved4_def dotted_def)

theorem web_Resolve_allowlist_witness:
  "\<exists>d. d \<in> set [''example.org''] \<and> (''id.example.org'' = d \<or> has_suffix ''id.example.org'' (''.'' @ d))"
proof -
  have "\<exists>doc. web_Resolve demo_env [''example.org''] ''did:web:id.example.org'' = Inr doc"
    by (simp add: web_Resolve_def didWebURL_def checkAllowlist_def demo_env_def Let_def trim_prefix_def
        has_prefix_def has_suffix_def numeral_2_eq_2)
  then obtain doc where c: "web_Resolve demo_env [''example.org''] ''did:web:id.example.org'' = Inr doc" ..
  from web_Resolve_allowlist [OF c] show ?thesis
    by (auto simp: trim_prefix_def has_prefix_def)
qed

theorem resolver_staleness_witness:
  "\<exists>t. (t, ''did:x:y'', zero_document) \<in> set [(0, ''did:x:y'', zero_document)] \<and> (3::int) - t < 5"
proof -
  let ?r = "\<lparr>rs_ttl = 5, rs_cache = [(''did:x:y'', \<lparr>ce_doc = zero_document, ce_expires = 5\<rparr>)]\<rparr>"
  have "resolver_run 5 0 [(0, ''did:x:y'', zero_document)] ?r"
    by (rule resolver_run.fetch [OF resolver_run.start, of "\<lambda>_. Inr zero_document"])
      (simp_all add: resolver_Resolve_def)
  then have run: "resolver_run 5 3 [(0, ''did:x:y'', zero_document)] ?r"
    by (rule resolver_run.tick) simp
  have "resolver_Resolve (\<lambda>_. Inl ErrHTTP) 3 ''did:x:y'' ?r = (Inr zero_document, ?r)"
    by (simp add: resolver_Resolve_def)
  from resolver_staleness [OF run this] show ?thesis by simp
qed

end
