(* ===== verification/Vc.thy ===== *)
theory Vc
  imports Schema Did
begin

text \<open>
  Verifiable credentials, \<^verbatim>\<open>src/pkg/vc\<close>: the data model with its JSON form (\<^verbatim>\<open>credential.go\<close>), issuing
  (\<^verbatim>\<open>issue.go\<close>), verification of credentials and presentations (\<^verbatim>\<open>verify.go\<close>) and presentations
  (\<^verbatim>\<open>presentation.go\<close>).  A claims map is an association list with distinct keys; a nil slice is the
  empty list.  The revocation bitstring is in \<^verbatim>\<open>Vc_Status\<close>.
\<close>

section \<open>The data model\<close>

(* src: pkg/vc/credential.go:14-20 CredentialStatus *)
record credential_status =
  cs_ID :: string
  cs_Type :: string
  cs_StatusPurpose :: string
  cs_StatusListIndex :: int
  cs_StatusListCredential :: string

(* src: pkg/vc/credential.go:38-41 CredentialSubject *)
record credential_subject =
  sub_ID :: string
  sub_Claims :: "(string \<times> string) list"

(* src: pkg/vc/credential.go:44-47 CredentialSchema *)
record credential_schema =
  csch_ID :: string
  csch_Type :: string

(* src: pkg/vc/credential.go:23-35 Credential *)
record credential =
  cr_Context :: "string list"
  cr_ID :: string
  cr_Type :: "string list"
  cr_Issuer :: string
  cr_ValidFrom :: instant
  cr_ValidUntil :: "instant option"
  cr_CredentialSubject :: credential_subject
  cr_CredentialSchema :: "credential_schema option"
  cr_CredentialStatus :: "credential_status option"

(* src: pkg/vc/credential.go:57-64 Proof *)
record di_proof =
  pf_Type :: string
  pf_Cryptosuite :: string
  pf_Created :: string
  pf_VerificationMethod :: string
  pf_ProofPurpose :: string
  pf_ProofValue :: string

(* src: pkg/vc/credential.go:50-53 VerifiableCredential *)
record vcredential =
  vc_Credential :: credential
  vc_Proof :: "di_proof option"

(* src: pkg/vc/credential.go:67-77 Presentation *)
record presentation =
  vp_Context :: "string list"
  vp_ID :: string
  vp_Type :: "string list"
  vp_Holder :: string
  vp_VerifiableCredential :: "vcredential list"
  vp_Challenge :: string
  vp_Domain :: string

(* src: pkg/vc/credential.go:80-83 VerifiablePresentation *)
record vpresentation =
  vpp_Presentation :: presentation
  vpp_Proof :: "di_proof option"

(* src: pkg/vc/credential.go:86-88 DefaultContext *)
definition vc_DefaultContext :: "string list" where
  "vc_DefaultContext = [''https://www.w3.org/ns/credentials/v2'', ''https://tpt-identity.org/ns/v1'']"

text \<open>The JSON objects \<^verbatim>\<open>json.Marshal\<close> makes of these structs, from their field tags; \<open>opt\<close> is a member
  with \<^verbatim>\<open>omitempty\<close> on a string.\<close>

definition opt :: "string \<Rightarrow> string \<Rightarrow> (string \<times> json) list" where
  "opt k v = (if v = [] then [] else [(k, JStr v)])"

(* src: pkg/vc/credential.go:38-41 CredentialSubject (JSON) *)
definition subject_json :: "credential_subject \<Rightarrow> json" where
  "subject_json s = JObj ([(''id'', JStr (sub_ID s))] @
     (if sub_Claims s = [] then [] else [(''claims'', json_str_obj (sort_key fst (sub_Claims s)))]))"

(* src: pkg/vc/credential.go:14-20 CredentialStatus (JSON) *)
definition status_json :: "credential_status \<Rightarrow> json" where
  "status_json s = JObj [(''id'', JStr (cs_ID s)), (''type'', JStr (cs_Type s)),
     (''statusPurpose'', JStr (cs_StatusPurpose s)), (''statusListIndex'', JNum (cs_StatusListIndex s)),
     (''statusListCredential'', JStr (cs_StatusListCredential s))]"

(* src: pkg/vc/credential.go:23-35 Credential (JSON) *)
definition credential_members :: "credential \<Rightarrow> (string \<times> json) list" where
  "credential_members c =
     [(''@context'', json_strs (cr_Context c))] @ opt ''id'' (cr_ID c) @
     [(''type'', json_strs (cr_Type c)), (''issuer'', JStr (cr_Issuer c)),
      (''validFrom'', JStr (rfc3339nano (cr_ValidFrom c)))] @
     (case cr_ValidUntil c of None \<Rightarrow> [] | Some t \<Rightarrow> [(''validUntil'', JStr (rfc3339nano t))]) @
     [(''credentialSubject'', subject_json (cr_CredentialSubject c))] @
     (case cr_CredentialSchema c of None \<Rightarrow> []
      | Some s \<Rightarrow> [(''credentialSchema'', JObj [(''id'', JStr (csch_ID s)), (''type'', JStr (csch_Type s))])]) @
     (case cr_CredentialStatus c of None \<Rightarrow> [] | Some s \<Rightarrow> [(''credentialStatus'', status_json s)])"

(* src: pkg/vc/credential.go:23-35 Credential (JSON object) *)
definition credential_json :: "credential \<Rightarrow> json" where
  "credential_json c = JObj (credential_members c)"

(* src: pkg/vc/credential.go:57-64 Proof (JSON) *)
definition proof_json :: "di_proof \<Rightarrow> json" where
  "proof_json p = JObj ([(''type'', JStr (pf_Type p))] @ opt ''cryptosuite'' (pf_Cryptosuite p) @
     [(''created'', JStr (pf_Created p)), (''verificationMethod'', JStr (pf_VerificationMethod p)),
      (''proofPurpose'', JStr (pf_ProofPurpose p)), (''proofValue'', JStr (pf_ProofValue p))])"

(* src: pkg/vc/credential.go:50-53 VerifiableCredential (JSON) *)
definition vcredential_json :: "vcredential \<Rightarrow> json" where
  "vcredential_json v = JObj (credential_members (vc_Credential v) @
     (case vc_Proof v of None \<Rightarrow> [] | Some p \<Rightarrow> [(''proof'', proof_json p)]))"

(* src: pkg/vc/credential.go:67-77 Presentation (JSON) *)
definition presentation_members :: "presentation \<Rightarrow> (string \<times> json) list" where
  "presentation_members p =
     [(''@context'', json_strs (vp_Context p))] @ opt ''id'' (vp_ID p) @ [(''type'', json_strs (vp_Type p))] @
     opt ''holder'' (vp_Holder p) @
     (if vp_VerifiableCredential p = [] then []
      else [(''verifiableCredential'', JArr (map vcredential_json (vp_VerifiableCredential p)))]) @
     opt ''challenge'' (vp_Challenge p) @ opt ''domain'' (vp_Domain p)"

(* src: pkg/vc/credential.go:67-77 Presentation (JSON object) *)
definition presentation_json :: "presentation \<Rightarrow> json" where
  "presentation_json p = JObj (presentation_members p)"

section \<open>Data integrity proofs\<close>

datatype vc_error =
    ErrEphemeralIssuer | ErrIssueSchema schema_error
  | ErrNoProof | ErrNotYetValid | ErrExpired | ErrResolve did_error | ErrKey string | ErrDecodeProof
  | ErrSignature | ErrUnsupportedProof string string | ErrRevoked | ErrCredentialRevoked vc_error
  | ErrChallenge | ErrDomain | ErrNoCredentials
  | ErrStatusIndex int | ErrCompress | ErrStatusDecode | ErrPanic

text \<open>The proof options, with the keys in the order of the sorted map, and the bytes that are signed.\<close>

(* src: pkg/vc/issue.go:92-98 Issue (proof options) *)
definition proof_options :: "string \<Rightarrow> string \<Rightarrow> string \<Rightarrow> string \<Rightarrow> string \<Rightarrow> json" where
  "proof_options typ suite created vmid purpose = json_str_obj
     [(''created'', created), (''cryptosuite'', suite), (''proofPurpose'', purpose), (''type'', typ),
      (''verificationMethod'', vmid)]"

(* src: pkg/vc/issue.go:99-109 Issue (hash data) *)
definition hash_data :: "prims \<Rightarrow> json \<Rightarrow> credential \<Rightarrow> byte list" where
  "hash_data P options cred = sha256 P (JCS options) @ sha256 P (JCS (credential_json cred))"

(* src: pkg/vc/issue.go:23-42 IssueOptions *)
record vc_issue_options =
  vo_IssuerDID :: string
  vo_IssuerKey :: "byte list"
  vo_VerificationMethodID :: string
  vo_SubjectDID :: string
  vo_SchemaID :: string
  vo_Claims :: "(string \<times> string) list"
  vo_ValidFor :: duration
  vo_StatusListCredential :: string
  vo_StatusListIndex :: int

(* src: pkg/vc/issue.go:61-89 Issue (the unsigned credential) *)
definition issue_credential :: "string \<Rightarrow> instant \<Rightarrow> vc_issue_options \<Rightarrow> string \<Rightarrow> credential" where
  "issue_credential uuid now opts versionedSchemaID =
     \<lparr>cr_Context = vc_DefaultContext, cr_ID = ''urn:uuid:'' @ uuid,
      cr_Type = [''VerifiableCredential'', versionedSchemaID], cr_Issuer = vo_IssuerDID opts,
      cr_ValidFrom = now,
      cr_ValidUntil = (if vo_ValidFor opts \<noteq> 0 then Some (now + vo_ValidFor opts) else None),
      cr_CredentialSubject = \<lparr>sub_ID = vo_SubjectDID opts, sub_Claims = vo_Claims opts\<rparr>,
      cr_CredentialSchema = Some \<lparr>csch_ID = versionedSchemaID, csch_Type = ''TptCredentialSchema''\<rparr>,
      cr_CredentialStatus =
        (if vo_StatusListCredential opts \<noteq> [] then
           Some \<lparr>cs_ID = vo_StatusListCredential opts @ ''#'' @ itoa (vo_StatusListIndex opts),
                 cs_Type = ''BitstringStatusListEntry'', cs_StatusPurpose = ''revocation'',
                 cs_StatusListIndex = vo_StatusListIndex opts,
                 cs_StatusListCredential = vo_StatusListCredential opts\<rparr>
         else None)\<rparr>"

(* src: pkg/vc/issue.go:91-122 Issue (signing) *)
definition sign_credential :: "prims \<Rightarrow> byte list \<Rightarrow> string \<Rightarrow> instant \<Rightarrow> credential \<Rightarrow> vcredential" where
  "sign_credential P key vmid now cred =
     (let options = proof_options ''DataIntegrityProof'' ''eddsa-jcs-2022'' (rfc3339 now) vmid ''assertionMethod'';
          sig = ed_sign P key (hash_data P options cred)
      in \<lparr>vc_Credential = cred,
          vc_Proof = Some \<lparr>pf_Type = ''DataIntegrityProof'', pf_Cryptosuite = ''eddsa-jcs-2022'',
            pf_Created = rfc3339 now, pf_VerificationMethod = vmid, pf_ProofPurpose = ''assertionMethod'',
            pf_ProofValue = b64_encode sig\<rparr>\<rparr>)"

text \<open>The validation may fill the cache of compiled schemas, which is part of the result.\<close>

(* src: pkg/vc/issue.go:46-123 Issue *)
definition vc_Issue :: "prims \<Rightarrow> (string \<Rightarrow> json \<Rightarrow> 'c option) \<Rightarrow> ('c \<Rightarrow> (string \<times> json) list \<Rightarrow> bool) \<Rightarrow> registry
    \<Rightarrow> (string \<rightharpoonup> 'c) \<Rightarrow> string \<Rightarrow> instant \<Rightarrow> vc_issue_options \<Rightarrow> (vc_error + vcredential) \<times> (string \<rightharpoonup> 'c)" where
  "vc_Issue P js_compile js_validate reg cache uuid now opts =
     (if has_prefix (vo_IssuerDID opts) ''did:key:'' then (Inl ErrEphemeralIssuer, cache)
      else case Validate js_compile js_validate reg cache (vo_SchemaID opts) (vo_Claims opts) of
        (Inl e, cache') \<Rightarrow> (Inl (ErrIssueSchema e), cache')
      | (Inr _, cache') \<Rightarrow>
          (case GetSchema reg (vo_SchemaID opts) of
             Inl e \<Rightarrow> (Inl (ErrIssueSchema e), cache')
           | Inr s \<Rightarrow>
               (Inr (sign_credential P (vo_IssuerKey opts) (vo_VerificationMethodID opts) now
                     (issue_credential uuid now opts (VersionedID s))), cache')))"

section \<open>Verification\<close>

(* src: pkg/vc/verify.go:185-209 decodeMultibaseEd25519 *)
definition decodeMultibaseEd25519 :: "did_env \<Rightarrow> string \<Rightarrow> vc_error + byte list" where
  "decodeMultibaseEd25519 E mb =
     (case (case mb_decode E mb of
              Some raw \<Rightarrow> Some raw
            | None \<Rightarrow> if has_prefix mb ''u'' then b64_decode (drop 1 mb) else None) of
        None \<Rightarrow> Inl (ErrKey ''decode key'')
      | Some raw \<Rightarrow>
          if length raw < 2 then Inl (ErrKey ''key too short'')
          else let (_, n) = decodeUvarint raw; key = drop n raw in
            if length key \<noteq> 32 then Inl (ErrKey ''expected 32-byte Ed25519 key'') else Inr key)"

(* src: pkg/vc/verify.go:166-181 extractEd25519Key (loop) *)
fun extract_loop :: "did_env \<Rightarrow> string \<Rightarrow> verification_method list \<Rightarrow> vc_error + byte list" where
  "extract_loop E vmID [] = Inl (ErrKey ''verification method not found'')"
| "extract_loop E vmID (vm # vms) =
     (if vm_ID vm \<noteq> vmID then extract_loop E vmID vms
      else if vm_Revoked vm then Inl (ErrKey ''revoked'')
      else if vm_Type vm \<noteq> ''Ed25519VerificationKey2020'' then Inl (ErrKey ''type'')
      else case vm_PublicKeyMultibase vm of
        None \<Rightarrow> Inl (ErrKey ''no publicKeyMultibase'')
      | Some mb \<Rightarrow> decodeMultibaseEd25519 E mb)"

(* src: pkg/vc/verify.go:165-182 extractEd25519Key *)
definition extractEd25519Key :: "did_env \<Rightarrow> document \<Rightarrow> string \<Rightarrow> vc_error + byte list" where
  "extractEd25519Key E doc vmID = extract_loop E vmID (doc_VerificationMethod doc)"

(* src: pkg/vc/verify.go:90-119 verifyDataIntegrity *)
definition verifyDataIntegrity :: "prims \<Rightarrow> byte list \<Rightarrow> credential \<Rightarrow> di_proof \<Rightarrow> vc_error + unit" where
  "verifyDataIntegrity P pub cred pf =
     (case b64_decode (pf_ProofValue pf) of
        None \<Rightarrow> Inl ErrDecodeProof
      | Some sig \<Rightarrow>
          let options = proof_options (pf_Type pf) (pf_Cryptosuite pf) (pf_Created pf)
                (pf_VerificationMethod pf) (pf_ProofPurpose pf)
          in if \<not> ed_verify P pub (hash_data P options cred) sig then Inl ErrSignature else Inr ())"

text \<open>The verifier: the answers of its resolver while the call runs and the optional revocation check.
  Resolving through the cache does not change what the cache answers at the same instant
  (\<open>resolver_answers_stable\<close> below), so a function of the DID is enough.\<close>

(* src: pkg/vc/verify.go:23-26 Verifier *)
record verifier =
  vf_resolve :: "string \<Rightarrow> did_error + document"
  vf_statusChecker :: "(credential_status \<Rightarrow> vc_error + unit) option"

(* src: pkg/vc/verify.go:40-87 Verifier.Verify *)
definition vc_Verify :: "prims \<Rightarrow> did_env \<Rightarrow> verifier \<Rightarrow> instant \<Rightarrow> vcredential \<Rightarrow> vc_error + unit" where
  "vc_Verify P E v now cred =
     (case vc_Proof cred of
        None \<Rightarrow> Inl ErrNoProof
      | Some pf \<Rightarrow>
          let c = vc_Credential cred in
          if now < cr_ValidFrom c then Inl ErrNotYetValid
          else if (case cr_ValidUntil c of Some u \<Rightarrow> now > u | None \<Rightarrow> False) then Inl ErrExpired
          else case vf_resolve v (cr_Issuer c) of
            Inl e \<Rightarrow> Inl (ErrResolve e)
          | Inr doc \<Rightarrow>
              (case extractEd25519Key E doc (pf_VerificationMethod pf) of
                 Inl e \<Rightarrow> Inl e
               | Inr pub \<Rightarrow>
                   (case (if pf_Type pf = ''DataIntegrityProof'' \<and> pf_Cryptosuite pf = ''eddsa-jcs-2022'' then
                            verifyDataIntegrity P pub c pf
                          else if pf_Type pf = ''Ed25519Signature2020'' then
                            (case b64_decode (pf_ProofValue pf) of
                               None \<Rightarrow> Inl ErrDecodeProof
                             | Some sig \<Rightarrow>
                                 (case VerifyJSON P pub (credential_json c) sig of
                                    Inl _ \<Rightarrow> Inl ErrSignature | Inr _ \<Rightarrow> Inr ()))
                          else Inl (ErrUnsupportedProof (pf_Type pf) (pf_Cryptosuite pf))) of
                      Inl e \<Rightarrow> Inl e
                    | Inr _ \<Rightarrow>
                        (case (cr_CredentialStatus c, vf_statusChecker v) of
                           (Some st, Some check) \<Rightarrow>
                             (case check st of Inl e \<Rightarrow> Inl (ErrCredentialRevoked e) | Inr _ \<Rightarrow> Inr ())
                         | _ \<Rightarrow> Inr ()))))"

section \<open>Presentations\<close>

(* src: pkg/vc/presentation.go:14-24 PresentOptions *)
record present_options =
  po_HolderDID :: string
  po_HolderKey :: "byte list"
  po_VerificationMethodID :: string
  po_Credentials :: "vcredential list"
  po_Challenge :: string
  po_Domain :: string

(* src: pkg/vc/presentation.go:28-56 Present *)
definition Present :: "prims \<Rightarrow> string \<Rightarrow> instant \<Rightarrow> present_options \<Rightarrow> vc_error + vpresentation" where
  "Present P uuid now opts =
     (if length (po_Credentials opts) = 0 then Inl ErrNoCredentials
      else
        let pres = \<lparr>vp_Context = vc_DefaultContext, vp_ID = ''urn:uuid:'' @ uuid,
              vp_Type = [''VerifiablePresentation''], vp_Holder = po_HolderDID opts,
              vp_VerifiableCredential = po_Credentials opts, vp_Challenge = po_Challenge opts,
              vp_Domain = po_Domain opts\<rparr>;
            sig = SignJSON P (po_HolderKey opts) (presentation_json pres)
        in Inr \<lparr>vpp_Presentation = pres,
             vpp_Proof = Some \<lparr>pf_Type = ''Ed25519Signature2020'', pf_Cryptosuite = [], pf_Created = rfc3339 now,
               pf_VerificationMethod = po_VerificationMethodID opts, pf_ProofPurpose = ''authentication'',
               pf_ProofValue = b64_encode sig\<rparr>\<rparr>)"

(* src: pkg/vc/verify.go:156-160 Verifier.VerifyPresentation (loop) *)
fun verify_all :: "(vcredential \<Rightarrow> vc_error + unit) \<Rightarrow> vcredential list \<Rightarrow> vc_error + unit" where
  "verify_all f [] = Inr ()"
| "verify_all f (c # cs) = (case f c of Inl e \<Rightarrow> Inl e | Inr _ \<Rightarrow> verify_all f cs)"

(* src: pkg/vc/verify.go:131-162 Verifier.VerifyPresentation *)
definition VerifyPresentation :: "prims \<Rightarrow> did_env \<Rightarrow> verifier \<Rightarrow> instant \<Rightarrow> string \<Rightarrow> string \<Rightarrow> vpresentation
    \<Rightarrow> vc_error + unit" where
  "VerifyPresentation P E v now expectedChallenge expectedDomain vp =
     (case vpp_Proof vp of
        None \<Rightarrow> Inl ErrNoProof
      | Some pf \<Rightarrow>
          let p = vpp_Presentation vp in
          if expectedChallenge \<noteq> [] \<and> vp_Challenge p \<noteq> expectedChallenge then Inl ErrChallenge
          else if expectedDomain \<noteq> [] \<and> vp_Domain p \<noteq> expectedDomain then Inl ErrDomain
          else case vf_resolve v (vp_Holder p) of
            Inl e \<Rightarrow> Inl (ErrResolve e)
          | Inr doc \<Rightarrow>
              (case extractEd25519Key E doc (pf_VerificationMethod pf) of
                 Inl e \<Rightarrow> Inl e
               | Inr pub \<Rightarrow>
                   (case b64_decode (pf_ProofValue pf) of
                      None \<Rightarrow> Inl ErrDecodeProof
                    | Some sig \<Rightarrow>
                        (case VerifyJSON P pub (presentation_json p) sig of
                           Inl _ \<Rightarrow> Inl ErrSignature
                         | Inr _ \<Rightarrow> verify_all (vc_Verify P E v now) (vp_VerifiableCredential p)))))"

section \<open>What an accepted credential is\<close>

lemma resolver_answers_stable:
  assumes "0 < rs_ttl r"
  shows "fst (resolver_Resolve f now d' (snd (resolver_Resolve f now d r))) = fst (resolver_Resolve f now d' r)"
  using assms by (auto simp: resolver_Resolve_def map_of_put split: option.splits sum.splits if_splits)

lemma extract_loop_Inr:
  assumes "extract_loop E vmID vms = Inr pub"
  shows "\<exists>vm\<in>set vms. vm_ID vm = vmID \<and> \<not> vm_Revoked vm \<and> vm_Type vm = ''Ed25519VerificationKey2020'' \<and>
           (\<exists>mb. vm_PublicKeyMultibase vm = Some mb \<and> decodeMultibaseEd25519 E mb = Inr pub)"
  using assms by (induction vms) (auto split: if_splits option.splits)

text \<open>C9: soundness of verification.  A credential that \<open>Verify\<close> accepts carries a proof, is inside its
  validity window, was signed under a key of the issuer's resolved document that is not revoked, the
  signature covers this credential (for the data-integrity suite together with the proof's own
  options), and the status check, if there is one, raised no objection.\<close>

theorem vc_Verify_sound:
  assumes "vc_Verify P E v now cred = Inr ()"
  shows "\<exists>pf doc vm mb pub sig. vc_Proof cred = Some pf \<and>
     cr_ValidFrom (vc_Credential cred) \<le> now \<and>
     (case cr_ValidUntil (vc_Credential cred) of None \<Rightarrow> True | Some u \<Rightarrow> now \<le> u) \<and>
     vf_resolve v (cr_Issuer (vc_Credential cred)) = Inr doc \<and>
     vm \<in> set (doc_VerificationMethod doc) \<and> vm_ID vm = pf_VerificationMethod pf \<and> \<not> vm_Revoked vm \<and>
     vm_PublicKeyMultibase vm = Some mb \<and> decodeMultibaseEd25519 E mb = Inr pub \<and>
     b64_decode (pf_ProofValue pf) = Some sig \<and>
     (ed_verify P pub (hash_data P (proof_options (pf_Type pf) (pf_Cryptosuite pf) (pf_Created pf)
         (pf_VerificationMethod pf) (pf_ProofPurpose pf)) (vc_Credential cred)) sig \<or>
      pf_Type pf = ''Ed25519Signature2020'' \<and>
      ed_verify P pub (sha512 P (bytes_of (json_marshal (credential_json (vc_Credential cred))))) sig) \<and>
     (case (cr_CredentialStatus (vc_Credential cred), vf_statusChecker v) of
        (Some st, Some check) \<Rightarrow> check st = Inr () | _ \<Rightarrow> True)"
proof -
  let ?c = "vc_Credential cred"
  from assms obtain pf doc pub where
    pf: "vc_Proof cred = Some pf" and t: "cr_ValidFrom ?c \<le> now"
      "(case cr_ValidUntil ?c of None \<Rightarrow> True | Some u \<Rightarrow> now \<le> u)"
    and doc: "vf_resolve v (cr_Issuer ?c) = Inr doc"
    and pub: "extractEd25519Key E doc (pf_VerificationMethod pf) = Inr pub"
    and rest: "(case (if pf_Type pf = ''DataIntegrityProof'' \<and> pf_Cryptosuite pf = ''eddsa-jcs-2022'' then
                            verifyDataIntegrity P pub ?c pf
                          else if pf_Type pf = ''Ed25519Signature2020'' then
                            (case b64_decode (pf_ProofValue pf) of
                               None \<Rightarrow> Inl ErrDecodeProof
                             | Some sig \<Rightarrow>
                                 (case VerifyJSON P pub (credential_json ?c) sig of
                                    Inl _ \<Rightarrow> Inl ErrSignature | Inr _ \<Rightarrow> Inr ()))
                          else Inl (ErrUnsupportedProof (pf_Type pf) (pf_Cryptosuite pf))) of
                      Inl e \<Rightarrow> Inl e
                    | Inr _ \<Rightarrow>
                        (case (cr_CredentialStatus ?c, vf_statusChecker v) of
                           (Some st, Some check) \<Rightarrow>
                             (case check st of Inl e \<Rightarrow> Inl (ErrCredentialRevoked e) | Inr _ \<Rightarrow> Inr ())
                         | _ \<Rightarrow> Inr ())) = Inr ()"
    by (auto simp: vc_Verify_def Let_def not_less split: option.splits if_splits sum.splits)
  obtain vm mb where vm: "vm \<in> set (doc_VerificationMethod doc)" "vm_ID vm = pf_VerificationMethod pf"
      "\<not> vm_Revoked vm" "vm_PublicKeyMultibase vm = Some mb" "decodeMultibaseEd25519 E mb = Inr pub"
    using extract_loop_Inr [OF pub [unfolded extractEd25519Key_def]] by blast
  have st: "case (cr_CredentialStatus ?c, vf_statusChecker v) of
        (Some st, Some check) \<Rightarrow> check st = Inr () | _ \<Rightarrow> True"
    using rest by (auto split: option.splits sum.splits if_splits)
  obtain sig where "b64_decode (pf_ProofValue pf) = Some sig"
     "ed_verify P pub (hash_data P (proof_options (pf_Type pf) (pf_Cryptosuite pf) (pf_Created pf)
         (pf_VerificationMethod pf) (pf_ProofPurpose pf)) ?c) sig \<or>
      pf_Type pf = ''Ed25519Signature2020'' \<and>
      ed_verify P pub (sha512 P (bytes_of (json_marshal (credential_json ?c)))) sig"
    using rest by (auto simp: verifyDataIntegrity_def Let_def VerifyJSON_def Verify_def
        split: option.splits sum.splits if_splits)
  with pf t doc vm st show ?thesis by blast
qed

text \<open>C11: what \<open>Issue\<close> signs, \<open>Verify\<close> accepts: from the instant of issue to the expiry, if the issuer's
  DID still resolves to a document whose verification method is the signing key's, and no status
  check objects.\<close>

theorem vc_Verify_Issue:
  assumes "signatures_ok P" "vc_Issue P js_compile js_validate reg cache uuid t0 opts = (Inr cred, cache')"
    and "vf_resolve v (vo_IssuerDID opts) = Inr doc"
    and "extractEd25519Key E doc (vo_VerificationMethodID opts) = Inr (ed_pub P (vo_IssuerKey opts))"
    and "t0 \<le> now" "vo_ValidFor opts = 0 \<or> now \<le> t0 + vo_ValidFor opts"
    and "case vf_statusChecker v of None \<Rightarrow> True | Some check \<Rightarrow> \<forall>st. check st = Inr ()"
  shows "vc_Verify P E v now cred = Inr ()"
proof -
  from assms(2) obtain vsid where cred: "cred = sign_credential P (vo_IssuerKey opts)
      (vo_VerificationMethodID opts) t0 (issue_credential uuid t0 opts vsid)"
    by (auto simp: vc_Issue_def split: if_splits sum.splits prod.splits)
  let ?c = "issue_credential uuid t0 opts vsid"
  have c: "cr_ValidFrom ?c = t0" "cr_Issuer ?c = vo_IssuerDID opts"
      "cr_ValidUntil ?c = (if vo_ValidFor opts \<noteq> 0 then Some (t0 + vo_ValidFor opts) else None)"
    by (simp_all add: issue_credential_def)
  show ?thesis
    using assms(1,3-7) unfolding cred vc_Verify_def sign_credential_def Let_def
    by (auto simp: c verifyDataIntegrity_def signatures_ok_def split: option.splits)
qed

section \<open>Tampering\<close>

text \<open>A member of an object survives canonicalisation under its key.\<close>

lemma last_members_distinct: "distinct (map fst kvs) \<Longrightarrow> last_members kvs = kvs"
  by (induction kvs rule: last_members.induct) auto

lemma map_of_sort_key: "distinct (map fst kvs) \<Longrightarrow> map_of (sort_key fst kvs) = map_of kvs"
proof (rule map_of_inject_set [THEN iffD2])
  assume d: "distinct (map fst kvs)"
  show "distinct (map fst (sort_key fst kvs))"
    using d by (metis distinct_map distinct_sort set_sort)
qed auto

lemma canonical_member:
  assumes "distinct (map fst a)" "distinct (map fst b)" "json_canonical (JObj a) = json_canonical (JObj b)"
  shows "map_option json_canonical (map_of a k) = map_option json_canonical (map_of b k)"
proof -
  have "map_of (sort_key fst (last_members (map (\<lambda>(k, v). (k, json_canonical v)) c))) k =
        map_option json_canonical (map_of c k)" if "distinct (map fst c)" for c
  proof -
    have d: "distinct (map fst (map (\<lambda>(k, v). (k, json_canonical v)) c))"
      using that by (simp add: case_prod_beta comp_def)
    show ?thesis unfolding last_members_distinct [OF d] map_of_sort_key [OF d] by (simp add: map_of_map)
  qed
  from this [OF assms(1)] this [OF assms(2)] assms(3) show ?thesis by simp
qed

lemma credential_members_distinct: "distinct (map fst (credential_members c))"
  by (auto simp: credential_members_def opt_def split: option.splits)

lemma credential_member:
  "map_of (credential_members c) ''issuer'' = Some (JStr (cr_Issuer c))"
  "map_of (credential_members c) ''type'' = Some (json_strs (cr_Type c))"
  "map_of (credential_members c) ''validUntil'' = map_option (\<lambda>t. JStr (rfc3339nano t)) (cr_ValidUntil c)"
  "map_of (credential_members c) ''credentialSubject'' = Some (subject_json (cr_CredentialSubject c))"
  "map_of (credential_members c) ''credentialStatus'' = map_option status_json (cr_CredentialStatus c)"
  by (simp_all add: credential_members_def opt_def split: option.splits)

lemma strs_inj: "json_strs a = json_strs b \<longleftrightarrow> a = b"
  by (simp add: json_strs_def inj_map_eq_map inj_def)

lemma canonical_strs: "json_canonical (json_strs a) = json_strs a"
  by (simp add: json_strs_def)

lemma canonical_claims:
  assumes "distinct (map fst a)"
  shows "json_canonical (json_str_obj (sort_key fst a)) = json_str_obj (sort_key fst a)"
proof -
  have d: "distinct (map fst (sort_key fst a))" using assms by (metis distinct_map distinct_sort set_sort)
  let ?k = "map (\<lambda>(k, v). (k, JStr v)) (sort_key fst a)"
  have c: "map (\<lambda>(k, v). (k, json_canonical v)) ?k = ?k" by auto
  have k: "map fst ?k = map fst (sort_key fst a)" by auto
  with d have "distinct (map fst ?k)" by (simp only:)
  then have l: "last_members ?k = ?k" by (rule last_members_distinct)
  have "sorted (map fst ?k)" unfolding k by (rule sorted_sort_key)
  then have "sort_key fst ?k = ?k" by (rule sort_key_id_if_sorted)
  then show ?thesis unfolding json_str_obj_def json_canonical.simps c l by (rule arg_cong)
qed

lemma subject_canonical:
  assumes "distinct (map fst (sub_Claims a))" "distinct (map fst (sub_Claims b))"
    and "json_canonical (subject_json a) = json_canonical (subject_json b)"
  shows "sub_ID a = sub_ID b \<and> map_of (sub_Claims a) = map_of (sub_Claims b)"
proof -
  let ?m = "\<lambda>s. [(''id'', JStr (sub_ID s))] @
     (if sub_Claims s = [] then [] else [(''claims'', json_str_obj (sort_key fst (sub_Claims s)))])"
  have d: "distinct (map fst (?m s))" for s by simp
  note m = canonical_member [OF d [of a] d [of b] assms(3) [unfolded subject_json_def]]
  from m [of "''id''"] have i: "sub_ID a = sub_ID b" by simp
  have "sort_key fst (sub_Claims a) = sort_key fst (sub_Claims b)"
    using m [of "''claims''"] assms(1,2)
    by (auto simp: canonical_claims json_str_obj_inj split: if_splits)
  then have "map_of (sub_Claims a) = map_of (sub_Claims b)"
    using map_of_sort_key [OF assms(1)] map_of_sort_key [OF assms(2)] by simp
  with i show ?thesis by blast
qed

text \<open>What the canonical form of a credential determines.\<close>

lemma JCS_credential:
  assumes "JCS (credential_json a) = JCS (credential_json b)"
    and "distinct (map fst (sub_Claims (cr_CredentialSubject a)))" "distinct (map fst (sub_Claims (cr_CredentialSubject b)))"
  shows "cr_Issuer a = cr_Issuer b" "cr_Type a = cr_Type b"
    "map_option rfc3339nano (cr_ValidUntil a) = map_option rfc3339nano (cr_ValidUntil b)"
    "sub_ID (cr_CredentialSubject a) = sub_ID (cr_CredentialSubject b)"
    "map_of (sub_Claims (cr_CredentialSubject a)) = map_of (sub_Claims (cr_CredentialSubject b))"
proof -
  have "json_canonical (JObj (credential_members a)) = json_canonical (JObj (credential_members b))"
    using assms(1) by (simp only: JCS_def bytes_of_inj json_marshal_inj credential_json_def)
  note m = canonical_member [OF credential_members_distinct credential_members_distinct this]
  show "cr_Issuer a = cr_Issuer b" using m [of "''issuer''"] by (simp only: credential_member) simp
  show "cr_Type a = cr_Type b" using m [of "''type''"]
    by (simp only: credential_member option.map option.inject canonical_strs strs_inj)
  show "map_option rfc3339nano (cr_ValidUntil a) = map_option rfc3339nano (cr_ValidUntil b)"
    using m [of "''validUntil''"] unfolding credential_member
    by (cases "cr_ValidUntil a"; cases "cr_ValidUntil b") auto
  have "json_canonical (subject_json (cr_CredentialSubject a)) = json_canonical (subject_json (cr_CredentialSubject b))"
    using m [of "''credentialSubject''"] by (simp only: credential_member option.map option.inject)
  from subject_canonical [OF assms(2,3) this]
  show "sub_ID (cr_CredentialSubject a) = sub_ID (cr_CredentialSubject b)"
    "map_of (sub_Claims (cr_CredentialSubject a)) = map_of (sub_Claims (cr_CredentialSubject b))" by blast+
qed

text \<open>A signature is bound to its message: what Ed25519 promises about honestly generated keys, as far as
  an attacker can find another message at all.\<close>

definition signature_binds :: "prims \<Rightarrow> byte list \<Rightarrow> bool" where
  "signature_binds P sk \<longleftrightarrow> (\<forall>m m'. ed_verify P (ed_pub P sk) m' (ed_sign P sk m) \<longrightarrow> m' = m)"

text \<open>C10: tampering is detected.  If \<open>Verify\<close> accepts an issued proof on another credential, then that credential has the
  issuer, the types, the expiry, the subject and the claims of the issued one, unless the canonical texts of exactly these two
  credentials differ and have the same SHA-256 hash.  A signature of the issuing key is taken to verify for the signed
  message only, and the issuer to resolve to that key.\<close>

theorem vc_tamper_evident:
  assumes "signature_binds P key"
    and "cred = sign_credential P key vmid t0 c"
    and "vc_Proof cred' = vc_Proof cred" "vc_Verify P E v now cred' = Inr ()"
    and "vf_resolve v (cr_Issuer (vc_Credential cred')) = Inr doc" "extractEd25519Key E doc vmid = Inr (ed_pub P key)"
    and "distinct (map fst (sub_Claims (cr_CredentialSubject c)))"
      "distinct (map fst (sub_Claims (cr_CredentialSubject (vc_Credential cred'))))"
  shows "(let c' = vc_Credential cred' in
          cr_Issuer c' = cr_Issuer c \<and> cr_Type c' = cr_Type c \<and>
          map_option rfc3339nano (cr_ValidUntil c') = map_option rfc3339nano (cr_ValidUntil c) \<and>
          sub_ID (cr_CredentialSubject c') = sub_ID (cr_CredentialSubject c) \<and>
          map_of (sub_Claims (cr_CredentialSubject c')) = map_of (sub_Claims (cr_CredentialSubject c))) \<or>
         (JCS (credential_json (vc_Credential cred')) \<noteq> JCS (credential_json c) \<and>
          sha256 P (JCS (credential_json (vc_Credential cred'))) = sha256 P (JCS (credential_json c)))"
proof -
  let ?o = "proof_options ''DataIntegrityProof'' ''eddsa-jcs-2022'' (rfc3339 t0) vmid ''assertionMethod''"
  let ?c = "vc_Credential cred'"
  have "verifyDataIntegrity P (ed_pub P key) ?c
      \<lparr>pf_Type = ''DataIntegrityProof'', pf_Cryptosuite = ''eddsa-jcs-2022'', pf_Created = rfc3339 t0,
       pf_VerificationMethod = vmid, pf_ProofPurpose = ''assertionMethod'',
       pf_ProofValue = b64_encode (ed_sign P key (hash_data P ?o c))\<rparr> = Inr ()"
    using assms(3-6) unfolding assms(2) sign_credential_def Let_def
    by (auto simp: vc_Verify_def Let_def split: if_splits sum.splits option.splits)
  then have "ed_verify P (ed_pub P key) (hash_data P ?o ?c) (ed_sign P key (hash_data P ?o c))"
    by (simp add: verifyDataIntegrity_def Let_def split: if_splits)
  with assms(1) have "hash_data P ?o ?c = hash_data P ?o c" unfolding signature_binds_def by blast
  then have h: "sha256 P (JCS (credential_json ?c)) = sha256 P (JCS (credential_json c))"
    by (simp add: hash_data_def)
  show ?thesis
  proof (cases "JCS (credential_json ?c) = JCS (credential_json c)")
    case True
    from JCS_credential [OF this assms(8,7)] show ?thesis by (simp add: Let_def)
  qed (use h in blast)
qed

section \<open>Presentations\<close>

lemma verify_all_Inr: "verify_all f cs = Inr () \<longleftrightarrow> (\<forall>c\<in>set cs. f c = Inr ())"
  by (induction cs) (auto split: sum.splits)

lemma map_of_opt: "map_of (opt k v) j = (if k = j \<and> v \<noteq> [] then Some (JStr v) else None)"
  by (simp add: opt_def)

lemma presentation_member:
  "map_of (presentation_members p) ''holder'' = (if vp_Holder p = [] then None else Some (JStr (vp_Holder p)))"
  "map_of (presentation_members p) ''challenge'' = (if vp_Challenge p = [] then None else Some (JStr (vp_Challenge p)))"
  "map_of (presentation_members p) ''domain'' = (if vp_Domain p = [] then None else Some (JStr (vp_Domain p)))"
  "map_of (presentation_members p) ''verifiableCredential'' = (if vp_VerifiableCredential p = [] then None
     else Some (JArr (map vcredential_json (vp_VerifiableCredential p))))"
  by (simp_all add: presentation_members_def map_of_opt map_add_def)

lemma presentation_json_inj:
  assumes "presentation_json a = presentation_json b"
  shows "vp_Holder a = vp_Holder b" "vp_Challenge a = vp_Challenge b" "vp_Domain a = vp_Domain b"
    "map vcredential_json (vp_VerifiableCredential a) = map vcredential_json (vp_VerifiableCredential b)"
proof -
  have m: "map_of (presentation_members a) k = map_of (presentation_members b) k" for k
    using assms by (simp only: presentation_json_def json.inject)
  show "vp_Holder a = vp_Holder b" "vp_Challenge a = vp_Challenge b" "vp_Domain a = vp_Domain b"
    "map vcredential_json (vp_VerifiableCredential a) = map vcredential_json (vp_VerifiableCredential b)"
    using m [of "''holder''"] m [of "''challenge''"] m [of "''domain''"] m [of "''verifiableCredential''"]
    unfolding presentation_member by (simp_all split: if_splits)
qed

lemma VerifyPresentation_Inr:
  assumes "VerifyPresentation P E v now ch dm vp = Inr ()"
  shows "\<exists>pf doc pub sig. vpp_Proof vp = Some pf \<and> vf_resolve v (vp_Holder (vpp_Presentation vp)) = Inr doc \<and>
     extractEd25519Key E doc (pf_VerificationMethod pf) = Inr pub \<and> b64_decode (pf_ProofValue pf) = Some sig \<and>
     VerifyJSON P pub (presentation_json (vpp_Presentation vp)) sig = Inr () \<and>
     (ch = [] \<or> vp_Challenge (vpp_Presentation vp) = ch) \<and> (dm = [] \<or> vp_Domain (vpp_Presentation vp) = dm) \<and>
     (\<forall>c\<in>set (vp_VerifiableCredential (vpp_Presentation vp)). vc_Verify P E v now c = Inr ())"
  using assms
  by (auto simp: VerifyPresentation_def Let_def verify_all_Inr split: option.splits sum.splits if_splits)

lemma Present_cases:
  assumes "Present P uuid t0 opts = Inr vp"
  obtains pres where "vp_Holder pres = po_HolderDID opts" "vp_Challenge pres = po_Challenge opts"
      "vp_Domain pres = po_Domain opts" "vp_VerifiableCredential pres = po_Credentials opts"
      "vp = \<lparr>vpp_Presentation = pres,
             vpp_Proof = Some \<lparr>pf_Type = ''Ed25519Signature2020'', pf_Cryptosuite = [], pf_Created = rfc3339 t0,
               pf_VerificationMethod = po_VerificationMethodID opts, pf_ProofPurpose = ''authentication'',
               pf_ProofValue = b64_encode (SignJSON P (po_HolderKey opts) (presentation_json pres))\<rparr>\<rparr>"
  using assms by (auto simp: Present_def Let_def split: if_splits)

text \<open>A presentation made by \<open>Present\<close> verifies for the challenge and domain it was made for exactly
  when all its credentials do; a verifier that expects another challenge refuses it.\<close>

theorem VerifyPresentation_Present:
  assumes "signatures_ok P" "Present P uuid t0 opts = Inr vp"
    and "vf_resolve v (po_HolderDID opts) = Inr doc"
    and "extractEd25519Key E doc (po_VerificationMethodID opts) = Inr (ed_pub P (po_HolderKey opts))"
  shows "(VerifyPresentation P E v now (po_Challenge opts) (po_Domain opts) vp = Inr () \<longleftrightarrow>
            list_all (\<lambda>c. vc_Verify P E v now c = Inr ()) (po_Credentials opts)) \<and>
         (ch \<noteq> [] \<longrightarrow> ch \<noteq> po_Challenge opts \<longrightarrow> VerifyPresentation P E v now ch dm vp = Inl ErrChallenge)"
proof -
  obtain pres where pres: "vp_Holder pres = po_HolderDID opts" "vp_Challenge pres = po_Challenge opts"
      "vp_Domain pres = po_Domain opts" "vp_VerifiableCredential pres = po_Credentials opts"
    and vp: "vp = \<lparr>vpp_Presentation = pres,
             vpp_Proof = Some \<lparr>pf_Type = ''Ed25519Signature2020'', pf_Cryptosuite = [], pf_Created = rfc3339 t0,
               pf_VerificationMethod = po_VerificationMethodID opts, pf_ProofPurpose = ''authentication'',
               pf_ProofValue = b64_encode (SignJSON P (po_HolderKey opts) (presentation_json pres))\<rparr>\<rparr>"
    by (rule Present_cases [OF assms(2)])
  show ?thesis using assms(1,3,4)
    by (simp add: vp VerifyPresentation_def Let_def pres VerifyJSON_SignJSON verify_all_Inr list_all_iff)
qed

text \<open>A presentation cannot be replayed under another challenge.  Any presentation that carries the
  proof of one made by \<open>Present\<close> and is accepted has the same holder, challenge, domain and credentials,
  or two different texts with the same SHA-512 hash are at hand.\<close>

theorem presentation_replay:
  assumes "signature_binds P (po_HolderKey opts)" "Present P uuid t0 opts = Inr vp"
    and "vpp_Proof vp' = vpp_Proof vp" "VerifyPresentation P E v now ch dm vp' = Inr ()"
    and "vf_resolve v (vp_Holder (vpp_Presentation vp')) = Inr doc"
    and "extractEd25519Key E doc (po_VerificationMethodID opts) = Inr (ed_pub P (po_HolderKey opts))"
  shows "(\<exists>x y. x \<noteq> y \<and> sha512 P x = sha512 P y) \<or>
         (let p = vpp_Presentation vp' in
          vp_Holder p = po_HolderDID opts \<and> vp_Challenge p = po_Challenge opts \<and> vp_Domain p = po_Domain opts \<and>
          map vcredential_json (vp_VerifiableCredential p) = map vcredential_json (po_Credentials opts) \<and>
          (ch = [] \<or> ch = po_Challenge opts) \<and> (dm = [] \<or> dm = po_Domain opts))"
proof (cases "\<exists>x y. x \<noteq> y \<and> sha512 P x = sha512 P y")
  case False
  let ?p = "vpp_Presentation vp'"
  obtain pres where pres: "vp_Holder pres = po_HolderDID opts" "vp_Challenge pres = po_Challenge opts"
      "vp_Domain pres = po_Domain opts" "vp_VerifiableCredential pres = po_Credentials opts"
    and vp: "vp = \<lparr>vpp_Presentation = pres,
             vpp_Proof = Some \<lparr>pf_Type = ''Ed25519Signature2020'', pf_Cryptosuite = [], pf_Created = rfc3339 t0,
               pf_VerificationMethod = po_VerificationMethodID opts, pf_ProofPurpose = ''authentication'',
               pf_ProofValue = b64_encode (SignJSON P (po_HolderKey opts) (presentation_json pres))\<rparr>\<rparr>"
    by (rule Present_cases [OF assms(2)])
  from VerifyPresentation_Inr [OF assms(4)] assms(3,5,6) vp
  have acc: "VerifyJSON P (ed_pub P (po_HolderKey opts)) (presentation_json ?p)
              (SignJSON P (po_HolderKey opts) (presentation_json pres)) = Inr ()"
    and exp: "ch = [] \<or> vp_Challenge ?p = ch" "dm = [] \<or> vp_Domain ?p = dm" by auto
  from acc have "sha512 P (bytes_of (json_marshal (presentation_json ?p))) = sha512 P (bytes_of (json_marshal (presentation_json pres)))"
    using assms(1) unfolding VerifyJSON_iff SignJSON_def Sign_def signature_binds_def by blast
  with False have "bytes_of (json_marshal (presentation_json ?p)) = bytes_of (json_marshal (presentation_json pres))"
    by blast
  then have "presentation_json ?p = presentation_json pres" by (simp only: bytes_of_inj json_marshal_inj)
  from presentation_json_inj [OF this] exp pres show ?thesis by (auto simp: Let_def)
qed blast

section \<open>Witnesses\<close>

definition demo_key :: "byte list" where
  "demo_key = replicate 32 7"

definition demo_doc :: document where
  "demo_doc = zero_document\<lparr>doc_VerificationMethod := [ed_method ''k1'' ''did:web:a'' ''u7'']\<rparr>"

definition demo_vc_env :: did_env where
  "demo_vc_env = demo_env\<lparr>mb_decode := (\<lambda>_. Some ([0xed, 0x01] @ demo_key))\<rparr>"

definition demo_verifier :: verifier where
  "demo_verifier = \<lparr>vf_resolve = (\<lambda>_. Inr demo_doc), vf_statusChecker = Some (\<lambda>_. Inr ())\<rparr>"

definition demo_vc_opts :: vc_issue_options where
  "demo_vc_opts = \<lparr>vo_IssuerDID = ''did:web:a'', vo_IssuerKey = demo_key, vo_VerificationMethodID = ''k1'',
     vo_SubjectDID = ''did:web:b'', vo_SchemaID = ''a.b'', vo_Claims = [(''a'', ''1'')],
     vo_ValidFor = hour, vo_StatusListCredential = ''l'', vo_StatusListIndex = 9\<rparr>"

definition demo_cred :: credential where
  "demo_cred = issue_credential ''u'' 0 demo_vc_opts ''s@1''"

definition demo_present_opts :: present_options where
  "demo_present_opts = \<lparr>po_HolderDID = ''did:web:a'', po_HolderKey = demo_key, po_VerificationMethodID = ''k1'',
     po_Credentials = [sign_credential demo_prims demo_key ''k1'' 0 demo_cred], po_Challenge = ''n'', po_Domain = ''d''\<rparr>"

lemma demo_extract: "extractEd25519Key demo_vc_env demo_doc ''k1'' = Inr demo_key"
proof -
  have "decodeUvarint ([0xed, 0x01] @ demo_key) = (0xed, 2)"
    by (simp add: decodeUvarint_def)
  then show ?thesis
    by (simp add: extractEd25519Key_def demo_doc_def ed_method_def decodeMultibaseEd25519_def demo_vc_env_def demo_key_def)
qed

lemma demo_pub: "ed_pub demo_prims k = k"
  by (simp add: demo_prims_def)

lemma demo_resolve: "vf_resolve demo_verifier did = Inr demo_doc"
  by (simp add: demo_verifier_def)

lemma demo_signature_binds: "signature_binds demo_prims k"
  by (simp add: signature_binds_def demo_prims_def)

theorem vc_Verify_Issue_witness:
  "\<exists>cred cache. vc_Issue demo_prims (\<lambda>url doc. Some doc) (\<lambda>sch data. True) demo_registry Map.empty ''u'' 0 demo_vc_opts
       = (Inr cred, cache) \<and>
     vc_Verify demo_prims demo_vc_env demo_verifier 60 cred = Inr ()"
proof -
  have "\<exists>cred cache. vc_Issue demo_prims (\<lambda>url doc. Some doc) (\<lambda>sch data. True) demo_registry Map.empty ''u'' 0 demo_vc_opts
       = (Inr cred, cache)"
    by (simp add: vc_Issue_def demo_vc_opts_def has_prefix_def GetSchema_def demo_registry_def demo_schema_def
        Validate_def compiledFor_def compileSchema_def)
  then obtain cred cache where c: "vc_Issue demo_prims (\<lambda>url doc. Some doc) (\<lambda>sch data. True) demo_registry
      Map.empty ''u'' 0 demo_vc_opts = (Inr cred, cache)" by blast
  have o: "vo_VerificationMethodID demo_vc_opts = ''k1''" "vo_IssuerKey demo_vc_opts = demo_key" "vo_ValidFor demo_vc_opts = hour"
    by (simp_all add: demo_vc_opts_def)
  have x: "extractEd25519Key demo_vc_env demo_doc (vo_VerificationMethodID demo_vc_opts) =
      Inr (ed_pub demo_prims (vo_IssuerKey demo_vc_opts))"
    by (simp only: o demo_pub demo_extract)
  have "vc_Verify demo_prims demo_vc_env demo_verifier 60 cred = Inr ()"
    by (rule vc_Verify_Issue [OF demo_signatures_ok c demo_resolve x])
      (simp_all add: o hour_def minute_def second_def demo_verifier_def)
  with c show ?thesis by blast
qed

lemma demo_verify: "vc_Verify demo_prims demo_vc_env demo_verifier 60 (sign_credential demo_prims demo_key ''k1'' 0 demo_cred) = Inr ()"
proof -
  have c: "cr_ValidFrom demo_cred = 0" "cr_ValidUntil demo_cred = Some (0 + hour)"
    by (simp_all add: demo_cred_def issue_credential_def demo_vc_opts_def hour_def minute_def second_def)
  show ?thesis
    using demo_signatures_ok unfolding vc_Verify_def sign_credential_def Let_def demo_resolve signatures_ok_def demo_pub
    by (simp add: c demo_extract verifyDataIntegrity_def demo_verifier_def hour_def minute_def second_def split: option.splits)
qed

theorem vc_Verify_sound_witness:
  "\<exists>vm\<in>set (doc_VerificationMethod demo_doc). vm_ID vm = ''k1'' \<and> \<not> vm_Revoked vm"
  using vc_Verify_sound [OF demo_verify] by (auto simp: demo_resolve sign_credential_def Let_def)

theorem vc_tamper_evident_witness:
  "let cred = sign_credential demo_prims demo_key ''k1'' 0 demo_cred;
       stolen = demo_cred\<lparr>cr_CredentialSubject := (cr_CredentialSubject demo_cred)\<lparr>sub_ID := ''did:web:thief''\<rparr>\<rparr>
   in vc_Verify demo_prims demo_vc_env demo_verifier 60 cred = Inr () \<and>
      map_of (sub_Claims (cr_CredentialSubject (vc_Credential cred))) = map_of (sub_Claims (cr_CredentialSubject demo_cred)) \<and>
      vc_Verify demo_prims demo_vc_env demo_verifier 60 (cred\<lparr>vc_Credential := stolen\<rparr>) \<noteq> Inr ()"
proof -
  let ?cred = "sign_credential demo_prims demo_key ''k1'' 0 demo_cred"
  let ?stolen = "demo_cred\<lparr>cr_CredentialSubject := (cr_CredentialSubject demo_cred)\<lparr>sub_ID := ''did:web:thief''\<rparr>\<rparr>"
  have s: "vc_Credential ?cred = demo_cred" by (simp add: sign_credential_def Let_def)
  have b: "signature_binds demo_prims demo_key" by (simp add: signature_binds_def demo_prims_def)
  have x: "extractEd25519Key demo_vc_env demo_doc ''k1'' = Inr (ed_pub demo_prims demo_key)"
    by (simp add: demo_extract demo_prims_def)
  have d: "distinct (map fst (sub_Claims (cr_CredentialSubject demo_cred)))" "sub_ID (cr_CredentialSubject demo_cred) \<noteq> ''did:web:thief''"
    by (simp_all add: demo_cred_def issue_credential_def demo_vc_opts_def)
  have inj: "sha256 demo_prims m = m" for m by (simp add: demo_prims_def)
  from vc_tamper_evident [OF b refl refl demo_verify demo_resolve x d(1)] d(1) s
  have "map_of (sub_Claims (cr_CredentialSubject (vc_Credential ?cred))) = map_of (sub_Claims (cr_CredentialSubject demo_cred))"
    by (simp add: Let_def)
  moreover have "vc_Verify demo_prims demo_vc_env demo_verifier 60 (?cred\<lparr>vc_Credential := ?stolen\<rparr>) \<noteq> Inr ()"
    using vc_tamper_evident [OF b refl _ _ _ x d(1), of "?cred\<lparr>vc_Credential := ?stolen\<rparr>" 0 demo_verifier 60] d demo_resolve
    by (auto simp: Let_def inj)
  ultimately show ?thesis using demo_verify by (simp add: Let_def)
qed

theorem VerifyPresentation_Present_witness:
  "\<exists>vp. Present demo_prims ''u'' 0 demo_present_opts = Inr vp \<and>
     VerifyPresentation demo_prims demo_vc_env demo_verifier 60 ''n'' ''d'' vp = Inr () \<and>
     VerifyPresentation demo_prims demo_vc_env demo_verifier 60 ''m'' ''d'' vp = Inl ErrChallenge"
proof -
  have o: "po_VerificationMethodID demo_present_opts = ''k1''" "po_HolderKey demo_present_opts = demo_key"
      "po_Challenge demo_present_opts = ''n''" "po_Domain demo_present_opts = ''d''"
      "po_Credentials demo_present_opts = [sign_credential demo_prims demo_key ''k1'' 0 demo_cred]"
    by (simp_all add: demo_present_opts_def)
  have "\<exists>vp. Present demo_prims ''u'' 0 demo_present_opts = Inr vp" by (simp add: Present_def Let_def o)
  then obtain vp where vp: "Present demo_prims ''u'' 0 demo_present_opts = Inr vp" ..
  have x: "extractEd25519Key demo_vc_env demo_doc (po_VerificationMethodID demo_present_opts) =
      Inr (ed_pub demo_prims (po_HolderKey demo_present_opts))"
    by (simp only: o demo_pub demo_extract)
  from VerifyPresentation_Present [OF demo_signatures_ok vp demo_resolve x, of 60 "''m''" "''d''"] vp
  show ?thesis by (auto simp: o demo_verify)
qed

theorem presentation_replay_witness:
  "\<exists>vp. Present demo_prims ''u'' 0 demo_present_opts = Inr vp \<and>
     VerifyPresentation demo_prims demo_vc_env demo_verifier 60 ''n'' ''d'' vp = Inr () \<and>
     vp_Challenge (vpp_Presentation vp) = ''n''"
proof -
  have o: "po_VerificationMethodID demo_present_opts = ''k1''" "po_HolderKey demo_present_opts = demo_key"
      "po_Challenge demo_present_opts = ''n''" "po_Domain demo_present_opts = ''d''"
      "po_Credentials demo_present_opts = [sign_credential demo_prims demo_key ''k1'' 0 demo_cred]"
    by (simp_all add: demo_present_opts_def)
  have "\<exists>vp. Present demo_prims ''u'' 0 demo_present_opts = Inr vp" by (simp add: Present_def Let_def o)
  then obtain vp where vp: "Present demo_prims ''u'' 0 demo_present_opts = Inr vp" ..
  have x: "extractEd25519Key demo_vc_env demo_doc (po_VerificationMethodID demo_present_opts) =
      Inr (ed_pub demo_prims (po_HolderKey demo_present_opts))"
    by (simp only: o demo_pub demo_extract)
  obtain pres where p: "vp_Holder pres = po_HolderDID demo_present_opts" "vp_Challenge pres = po_Challenge demo_present_opts"
      "vp_Domain pres = po_Domain demo_present_opts" "vp_VerifiableCredential pres = po_Credentials demo_present_opts"
    and q: "vpp_Presentation vp = pres" "\<exists>pf. vpp_Proof vp = Some pf \<and> pf_VerificationMethod pf = ''k1'' \<and>
      pf_ProofValue pf = b64_encode (SignJSON demo_prims demo_key (presentation_json pres))"
    by (rule Present_cases [OF vp]) (simp add: o)
  have v: "VerifyPresentation demo_prims demo_vc_env demo_verifier 60 ''n'' ''d'' vp = Inr ()"
    using q(2) by (auto simp: VerifyPresentation_def Let_def q(1) p o demo_resolve demo_extract demo_verify
        VerifyJSON_SignJSON [OF demo_signatures_ok, unfolded demo_pub])
  have "sha512 demo_prims a = sha512 demo_prims b \<Longrightarrow> a = b" for a b by (simp add: demo_prims_def)
  with presentation_replay [OF demo_signature_binds vp refl v demo_resolve x] vp v show ?thesis
    unfolding Let_def o by blast
qed

end
