(* ===== verification/Vc_Status.thy ===== *)
theory Vc_Status
  imports Vc
begin

text \<open>
  Revocation of credentials, \<^verbatim>\<open>src/pkg/vc/status.go\<close>: the bitstring status list, its published form
  and the check of a credential's entry.  Gzip is a parameter.
\<close>

section \<open>The status list\<close>

(* src: pkg/vc/status.go:24-29 StatusList *)
record status_list =
  sl_id :: string
  sl_bits :: "byte list"
  sl_size :: int

text \<open>Sizes are mathematical integers: \<^verbatim>\<open>size + 7\<close> wraps in Go only for sizes no memory can hold.\<close>

(* src: pkg/vc/status.go:32-38 NewStatusList *)
definition NewStatusList :: "string \<Rightarrow> int \<Rightarrow> status_list" where
  "NewStatusList sid sz =
     (let sz = (if sz < 131072 then 131072 else sz); byteLen = (sz + 7) div 8
      in \<lparr>sl_id = sid, sl_bits = replicate (nat byteLen) 0, sl_size = byteLen * 8\<rparr>)"

(* src: pkg/vc/status.go:72-77 StatusList.checkIndex *)
definition checkIndex :: "status_list \<Rightarrow> int \<Rightarrow> vc_error + unit" where
  "checkIndex s index = (if index < 0 \<or> index \<ge> sl_size s then Inl (ErrStatusIndex index) else Inr ())"

(* src: pkg/vc/status.go:41-49 StatusList.Revoke *)
definition sl_Revoke :: "int \<Rightarrow> status_list \<Rightarrow> vc_error + status_list" where
  "sl_Revoke index s =
     (case checkIndex s index of
        Inl e \<Rightarrow> Inl e
      | Inr _ \<Rightarrow> let i = nat index div 8 in
          Inr (s\<lparr>sl_bits := (sl_bits s)[i := (sl_bits s ! i) OR push_bit (nat index mod 8) 1]\<rparr>))"

(* src: pkg/vc/status.go:52-60 StatusList.Unrevoke *)
definition sl_Unrevoke :: "int \<Rightarrow> status_list \<Rightarrow> vc_error + status_list" where
  "sl_Unrevoke index s =
     (case checkIndex s index of
        Inl e \<Rightarrow> Inl e
      | Inr _ \<Rightarrow> let i = nat index div 8 in
          Inr (s\<lparr>sl_bits := (sl_bits s)[i := (sl_bits s ! i) AND NOT (push_bit (nat index mod 8) 1)]\<rparr>))"

(* src: pkg/vc/status.go:63-70 StatusList.IsRevoked *)
definition sl_IsRevoked :: "int \<Rightarrow> status_list \<Rightarrow> vc_error + bool" where
  "sl_IsRevoked index s =
     (case checkIndex s index of
        Inl e \<Rightarrow> Inl e
      | Inr _ \<Rightarrow> Inr ((sl_bits s ! (nat index div 8)) AND push_bit (nat index mod 8) 1 \<noteq> 0))"

text \<open>\<^verbatim>\<open>compress/gzip\<close>: writing a buffer, and reading at most \<open>n\<close> bytes of a compressed one.\<close>

record gzip =
  gz_write :: "byte list \<Rightarrow> byte list option"
  gz_read :: "nat \<Rightarrow> byte list \<Rightarrow> byte list option"

definition gzip_ok :: "gzip \<Rightarrow> bool" where
  "gzip_ok G \<longleftrightarrow> (\<forall>n bits buf. gz_write G bits = Some buf \<longrightarrow> gz_read G n buf = Some (take n bits))"

(* src: pkg/vc/status.go:80-92 StatusList.EncodedList *)
definition EncodedList :: "gzip \<Rightarrow> status_list \<Rightarrow> vc_error + string" where
  "EncodedList G s = (case gz_write G (sl_bits s) of None \<Rightarrow> Inl ErrCompress | Some buf \<Rightarrow> Inr (b64_encode buf))"

(* src: pkg/vc/status.go:95-152 StatusList.IssueStatusListVC *)
definition IssueStatusListVC :: "prims \<Rightarrow> gzip \<Rightarrow> instant \<Rightarrow> string \<Rightarrow> byte list \<Rightarrow> string \<Rightarrow> status_list
    \<Rightarrow> vc_error + vcredential" where
  "IssueStatusListVC P G now issuerDID issuerKey vmid s =
     (case EncodedList G s of
        Inl e \<Rightarrow> Inl e
      | Inr encodedList \<Rightarrow>
          Inr (sign_credential P issuerKey vmid now
            \<lparr>cr_Context = vc_DefaultContext @ [''https://www.w3.org/ns/credentials/status/v1''],
             cr_ID = sl_id s, cr_Type = [''VerifiableCredential'', ''BitstringStatusListCredential''],
             cr_Issuer = issuerDID, cr_ValidFrom = now, cr_ValidUntil = None,
             cr_CredentialSubject = \<lparr>sub_ID = sl_id s @ ''#list'',
               sub_Claims = [(''type'', ''BitstringStatusList''), (''statusPurpose'', ''revocation''),
                 (''encodedList'', encodedList)]\<rparr>,
             cr_CredentialSchema = None, cr_CredentialStatus = None\<rparr>))"

(* src: pkg/vc/status.go:155-157 NewStatusListID *)
definition NewStatusListID :: "string \<Rightarrow> string \<Rightarrow> string" where
  "NewStatusListID uuid serverBase = serverBase @ ''/api/v1/status/'' @ uuid"

(* src: pkg/vc/status.go:160-175 ParseEncodedList *)
definition ParseEncodedList :: "gzip \<Rightarrow> string \<Rightarrow> vc_error + byte list" where
  "ParseEncodedList G encoded =
     (case b64_decode encoded of
        None \<Rightarrow> Inl ErrStatusDecode
      | Some compressed \<Rightarrow>
          (case gz_read G 0x1000000 compressed of None \<Rightarrow> Inl ErrStatusDecode | Some bits \<Rightarrow> Inr bits))"

text \<open>Go's division truncates, so an index from \<open>-7\<close> to \<open>-1\<close> reads the first byte, and the conversion to
  \<^verbatim>\<open>uint\<close> leaves the index modulo 8; a smaller index makes the byte access panic.\<close>

(* src: pkg/vc/status.go:179-193 CheckStatus *)
definition CheckStatus :: "byte list \<Rightarrow> credential_status option \<Rightarrow> vc_error + unit" where
  "CheckStatus bits status =
     (case status of
        None \<Rightarrow> Inr ()
      | Some st \<Rightarrow>
          let idx = cs_StatusListIndex st;
              byteIdx = (if idx < 0 then - ((- idx) div 8) else idx div 8);
              bitIdx = nat (idx mod 8)
          in if byteIdx \<ge> int (length bits) then Inl (ErrStatusIndex idx)
             else if byteIdx < 0 then Inl ErrPanic
             else if (bits ! nat byteIdx) AND push_bit bitIdx 1 \<noteq> 0 then Inl ErrRevoked else Inr ())"

section \<open>The status list implements a set of revoked indices\<close>

text \<open>The contract of a revocation register: a set of revoked indices below a bound, which revoking
  and unrevoking change at one index only, and which a query reads.\<close>

locale revocation_register =
  fixes inv :: "'s \<Rightarrow> bool" and bound :: "'s \<Rightarrow> int" and revoked :: "'s \<Rightarrow> int set"
    and revoke unrevoke :: "int \<Rightarrow> 's \<Rightarrow> 'e + 's" and query :: "int \<Rightarrow> 's \<Rightarrow> 'e + bool"
  assumes revoke_ok: "inv s \<Longrightarrow> 0 \<le> i \<Longrightarrow> i < bound s \<Longrightarrow>
      \<exists>s'. revoke i s = Inr s' \<and> inv s' \<and> bound s' = bound s \<and> revoked s' = insert i (revoked s)"
    and unrevoke_ok: "inv s \<Longrightarrow> 0 \<le> i \<Longrightarrow> i < bound s \<Longrightarrow>
      \<exists>s'. unrevoke i s = Inr s' \<and> inv s' \<and> bound s' = bound s \<and> revoked s' = revoked s - {i}"
    and query_ok: "inv s \<Longrightarrow> 0 \<le> i \<Longrightarrow> i < bound s \<Longrightarrow> query i s = Inr (i \<in> revoked s)"
    and out_of_range: "\<not> (0 \<le> i \<and> i < bound s) \<Longrightarrow> isl (revoke i s) \<and> isl (unrevoke i s) \<and> isl (query i s)"
begin

text \<open>A command is a revocation (\<open>True\<close>) or its reversal, at an index; a refused one changes nothing.\<close>

definition step :: "bool \<Rightarrow> int \<Rightarrow> 's \<Rightarrow> 's" where
  "step r i s = (case (if r then revoke i s else unrevoke i s) of Inl _ \<Rightarrow> s | Inr s' \<Rightarrow> s')"

fun run :: "(bool \<times> int) list \<Rightarrow> 's \<Rightarrow> 's" where
  "run [] s = s"
| "run ((r, i) # cs) s = run cs (step r i s)"

fun spec :: "int \<Rightarrow> (bool \<times> int) list \<Rightarrow> int set \<Rightarrow> int set" where
  "spec n [] S = S"
| "spec n ((r, i) # cs) S = spec n cs (if 0 \<le> i \<and> i < n then (if r then insert i S else S - {i}) else S)"

lemma step_spec:
  assumes "inv s"
  shows "inv (step r i s)" "bound (step r i s) = bound s"
    "revoked (step r i s) = (if 0 \<le> i \<and> i < bound s then (if r then insert i (revoked s) else revoked s - {i}) else revoked s)"
proof -
  have "inv (step r i s) \<and> bound (step r i s) = bound s \<and> revoked (step r i s) =
      (if 0 \<le> i \<and> i < bound s then (if r then insert i (revoked s) else revoked s - {i}) else revoked s)"
  proof (cases "0 \<le> i \<and> i < bound s")
    case True
    obtain a where a: "revoke i s = Inr a" "inv a" "bound a = bound s" "revoked a = insert i (revoked s)"
      using revoke_ok [OF assms(1)] True by blast
    obtain b where b: "unrevoke i s = Inr b" "inv b" "bound b = bound s" "revoked b = revoked s - {i}"
      using unrevoke_ok [OF assms(1)] True by blast
    from True show ?thesis unfolding step_def by (cases r) (simp_all add: a b)
  next
    case False
    obtain e f where "revoke i s = Inl e" "unrevoke i s = Inl f"
      using out_of_range [OF False] unfolding isl_def by blast
    with False assms(1) show ?thesis unfolding step_def by (cases r) auto
  qed
  then show "inv (step r i s)" "bound (step r i s) = bound s" "revoked (step r i s) =
      (if 0 \<le> i \<and> i < bound s then (if r then insert i (revoked s) else revoked s - {i}) else revoked s)"
    by blast+
qed

lemma run_spec: "inv s \<Longrightarrow> inv (run cs s) \<and> bound (run cs s) = bound s \<and> revoked (run cs s) = spec (bound s) cs (revoked s)"
proof (induction cs arbitrary: s)
  case (Cons c cs)
  obtain r i where c: "c = (r, i)" by force
  note st = step_spec [OF Cons.prems, of r i]
  show ?case using Cons.IH [OF st(1)] unfolding c run.simps spec.simps st(2,3) .
qed simp

text \<open>The last command on an index decides.\<close>

lemma spec_member: "0 \<le> i \<Longrightarrow> i < n \<Longrightarrow>
    i \<in> spec n cs S \<longleftrightarrow> (case filter (\<lambda>c. snd c = i) cs of [] \<Rightarrow> i \<in> S | ds \<Rightarrow> fst (last ds))"
proof (induction cs arbitrary: S)
  case (Cons c cs)
  obtain r j where c: "c = (r, j)" by force
  show ?case
  proof (cases "j = i")
    case True
    with Cons show ?thesis by (cases "filter (\<lambda>c. snd c = i) cs") (auto simp: c)
  next
    case False
    with Cons.prems Cons.IH [of "if 0 \<le> j \<and> j < n then (if r then insert j S else S - {j}) else S"]
    show ?thesis by (auto simp: c split: list.splits)
  qed
qed simp

lemma last_command_decides:
  assumes "inv s" "0 \<le> i" "i < bound s"
  shows "query i (run cs s) = Inr (case filter (\<lambda>c. snd c = i) cs of [] \<Rightarrow> i \<in> revoked s | ds \<Rightarrow> fst (last ds))"
proof -
  have r: "inv (run cs s)" "bound (run cs s) = bound s" "revoked (run cs s) = spec (bound s) cs (revoked s)"
    using run_spec [OF assms(1), of cs] by blast+
  have "query i (run cs s) = Inr (i \<in> revoked (run cs s))"
    by (rule query_ok) (simp_all add: r assms)
  then show ?thesis unfolding r(3) spec_member [OF assms(2,3)] .
qed

end

definition status_list_ok :: "status_list \<Rightarrow> bool" where
  "status_list_ok s \<longleftrightarrow> sl_size s = 8 * int (length (sl_bits s))"

definition revoked_indices :: "status_list \<Rightarrow> int set" where
  "revoked_indices s = {i. 0 \<le> i \<and> i < sl_size s \<and> bit (sl_bits s ! (nat i div 8)) (nat i mod 8)}"

lemma and_power_2: "(b::byte) AND 2 ^ k = 0 \<longleftrightarrow> \<not> bit b k"
proof -
  have "b AND 2 ^ k = (if bit b k then 2 ^ k else 0)"
    by (rule bit_word_eqI) (auto simp: bit_simps)
  moreover have "(2 ^ k :: byte) \<noteq> 0" if "bit b k"
  proof
    assume "(2 ^ k :: byte) = 0"
    then have "bit (2 ^ k :: byte) k = bit (0 :: byte) k" by (rule arg_cong)
    with bit_imp_le_length [OF that] show False by (simp add: bit_exp_iff)
  qed
  ultimately show ?thesis by auto
qed

lemma index_split: "0 \<le> i \<Longrightarrow> 0 \<le> j \<Longrightarrow> nat i div 8 = nat j div 8 \<Longrightarrow> nat i mod 8 = nat j mod 8 \<Longrightarrow> i = (j::int)"
  by (metis div_mult_mod_eq eq_nat_nat_iff)

lemma index_byte: "status_list_ok s \<Longrightarrow> 0 \<le> i \<Longrightarrow> i < sl_size s \<Longrightarrow> nat i div 8 < length (sl_bits s)"
  by (simp add: status_list_ok_def)

lemma sl_set_byte:
  assumes "status_list_ok s" "0 \<le> i" "i < sl_size s"
    and "\<And>k. k < 8 \<Longrightarrow> bit b k \<longleftrightarrow> (if k = nat i mod 8 then v else bit (sl_bits s ! (nat i div 8)) k)"
  defines "s' \<equiv> s\<lparr>sl_bits := (sl_bits s)[nat i div 8 := b]\<rparr>"
  shows "status_list_ok s'" "sl_size s' = sl_size s"
    "revoked_indices s' = (if v then insert i (revoked_indices s) else revoked_indices s - {i})"
proof -
  note len = index_byte [OF assms(1-3)]
  show "status_list_ok s'" "sl_size s' = sl_size s" using assms(1) by (simp_all add: s'_def status_list_ok_def)
  have "j \<in> revoked_indices s' \<longleftrightarrow> (if j = i then v else j \<in> revoked_indices s)" for j
  proof (cases "0 \<le> j \<and> j < sl_size s")
    case True
    have m: "nat j mod 8 < 8" by simp
    note b = assms(4) [OF m]
    have "bit ((sl_bits s)[nat i div 8 := b] ! (nat j div 8)) (nat j mod 8) \<longleftrightarrow>
        (if j = i then v else bit (sl_bits s ! (nat j div 8)) (nat j mod 8))"
    proof (cases "nat j div 8 = nat i div 8")
      case True
      then have eq: "nat j mod 8 = nat i mod 8 \<longleftrightarrow> j = i"
        using index_split [of j i] assms(2) \<open>0 \<le> j \<and> _\<close> by blast
      have nth: "(sl_bits s)[nat i div 8 := b] ! (nat j div 8) = b" using len True by simp
      show ?thesis unfolding nth b eq by (simp only: True)
    next
      case False
      then show ?thesis by auto
    qed
    with True show ?thesis unfolding revoked_indices_def s'_def by simp
  next
    case False
    then show ?thesis using assms(2,3) unfolding revoked_indices_def s'_def by auto
  qed
  note mem = this
  show "revoked_indices s' = (if v then insert i (revoked_indices s) else revoked_indices s - {i})"
  proof (rule set_eqI)
    fix j
    show "j \<in> revoked_indices s' \<longleftrightarrow> j \<in> (if v then insert i (revoked_indices s) else revoked_indices s - {i})"
      unfolding mem [of j] by (cases v; cases "j = i") simp_all
  qed
qed

interpretation sl: revocation_register status_list_ok sl_size revoked_indices sl_Revoke sl_Unrevoke sl_IsRevoked
proof unfold_locales
  fix s i assume a: "status_list_ok s" "0 \<le> i" "i < sl_size s"
  let ?b = "(sl_bits s ! (nat i div 8)) OR push_bit (nat i mod 8) 1"
  have "bit ?b k \<longleftrightarrow> (if k = nat i mod 8 then True else bit (sl_bits s ! (nat i div 8)) k)" if "k < 8" for k
    using that by (auto simp: bit_simps)
  from sl_set_byte [OF a this] a
  show "\<exists>s'. sl_Revoke i s = Inr s' \<and> status_list_ok s' \<and> sl_size s' = sl_size s \<and> revoked_indices s' = insert i (revoked_indices s)"
    by (simp add: sl_Revoke_def checkIndex_def Let_def)
next
  fix s i assume a: "status_list_ok s" "0 \<le> i" "i < sl_size s"
  let ?b = "(sl_bits s ! (nat i div 8)) AND NOT (push_bit (nat i mod 8) 1)"
  have "bit ?b k \<longleftrightarrow> (if k = nat i mod 8 then False else bit (sl_bits s ! (nat i div 8)) k)" if "k < 8" for k
    using that by (auto simp: bit_simps)
  from sl_set_byte [OF a this] a
  show "\<exists>s'. sl_Unrevoke i s = Inr s' \<and> status_list_ok s' \<and> sl_size s' = sl_size s \<and> revoked_indices s' = revoked_indices s - {i}"
    by (simp add: sl_Unrevoke_def checkIndex_def Let_def)
qed (auto simp: sl_IsRevoked_def sl_Revoke_def sl_Unrevoke_def checkIndex_def and_power_2 revoked_indices_def)

lemma NewStatusList_shape:
  obtains b where "NewStatusList sid n = \<lparr>sl_id = sid, sl_bits = replicate (nat b) 0, sl_size = b * 8\<rparr>"
    "131072 \<le> b * 8" "n \<le> b * 8"
proof (rule that [of "((if n < 131072 then 131072 else n) + 7) div 8"])
  show "NewStatusList sid n = \<lparr>sl_id = sid,
      sl_bits = replicate (nat (((if n < 131072 then 131072 else n) + 7) div 8)) 0,
      sl_size = ((if n < 131072 then 131072 else n) + 7) div 8 * 8\<rparr>"
    unfolding NewStatusList_def Let_def ..
qed auto

lemma NewStatusList_ok:
  "status_list_ok (NewStatusList sid n)" "revoked_indices (NewStatusList sid n) = {}"
  "max 131072 n \<le> sl_size (NewStatusList sid n)"
proof -
  obtain b where b: "NewStatusList sid n = \<lparr>sl_id = sid, sl_bits = replicate (nat b) 0, sl_size = b * 8\<rparr>"
    "131072 \<le> b * 8" "n \<le> b * 8" by (rule NewStatusList_shape)
  then show "max 131072 n \<le> sl_size (NewStatusList sid n)" "status_list_ok (NewStatusList sid n)"
    by (simp_all add: status_list_ok_def)
  show "revoked_indices (NewStatusList sid n) = {}"
    unfolding b(1) revoked_indices_def by auto
qed

text \<open>C28: refinement.  A new status list starts with no revoked index and at least the 131072 entries
  the specification asks for, and whatever sequence of revocations and reversals follows, the last
  command on an index decides what \<open>IsRevoked\<close> answers for it; the bits of other indices in the same
  byte never matter.\<close>

theorem StatusList_refines_register:
  assumes "0 \<le> i" "i < max 131072 n"
  shows "sl_IsRevoked i (sl.run cs (NewStatusList sid n)) =
           Inr (case filter (\<lambda>c. snd c = i) cs of [] \<Rightarrow> False | ds \<Rightarrow> fst (last ds))"
proof -
  have "i < sl_size (NewStatusList sid n)" using NewStatusList_ok(3) [of n sid] assms by linarith
  from sl.last_command_decides [OF NewStatusList_ok(1) assms(1) this, of cs]
  show ?thesis unfolding NewStatusList_ok(2) empty_iff .
qed

lemma CheckStatus_IsRevoked:
  assumes "status_list_ok s" "0 \<le> cs_StatusListIndex st" "cs_StatusListIndex st < sl_size s"
  shows "CheckStatus (sl_bits s) (Some st) =
           (if cs_StatusListIndex st \<in> revoked_indices s then Inl ErrRevoked else Inr ())"
proof -
  define i where "i = cs_StatusListIndex st"
  have i: "0 \<le> i" "nat i div 8 < length (sl_bits s)" using assms index_byte [of s i] by (simp_all add: i_def)
  have "nat (i div 8) = nat i div 8" "nat (i mod 8) = nat i mod 8" "i div 8 \<ge> 0"
    using i(1) by (simp_all add: nat_div_distrib nat_mod_distrib)
  then show ?thesis using i assms(3)
    by (simp add: CheckStatus_def Let_def revoked_indices_def and_power_2 flip: i_def) linarith
qed

text \<open>Publishing a status list of at most 16 MiB and checking a credential's entry against the
  parsed list gives the answer \<open>IsRevoked\<close> gives on the list itself.\<close>

theorem CheckStatus_published:
  assumes "gzip_ok G" "status_list_ok s" "length (sl_bits s) \<le> 16777216"
    and "EncodedList G s = Inr enc" "sl_IsRevoked (cs_StatusListIndex st) s = Inr r"
  shows "\<exists>bits. ParseEncodedList G enc = Inr bits \<and>
           CheckStatus bits (Some st) = (if r then Inl ErrRevoked else Inr ())"
proof -
  from assms(4) obtain buf where buf: "gz_write G (sl_bits s) = Some buf" "enc = b64_encode buf"
    by (auto simp: EncodedList_def split: option.splits)
  with assms(1) have "gz_read G 0x1000000 buf = Some (take 0x1000000 (sl_bits s))"
    unfolding gzip_ok_def by blast
  with buf assms(3) have parse: "ParseEncodedList G enc = Inr (sl_bits s)"
    by (simp add: ParseEncodedList_def)
  have range: "0 \<le> cs_StatusListIndex st" "cs_StatusListIndex st < sl_size s"
    using assms(5) by (auto simp: sl_IsRevoked_def checkIndex_def split: if_splits)
  have "r = (cs_StatusListIndex st \<in> revoked_indices s)"
    using sl.query_ok [OF assms(2) range] assms(5) by simp
  with parse CheckStatus_IsRevoked [OF assms(2) range] show ?thesis by simp
qed

section \<open>Witnesses\<close>

theorem StatusList_refines_register_witness:
  "sl_IsRevoked 9 (sl.run [(True, 9), (True, 8), (False, 8), (True, - 1)] (NewStatusList ''l'' 10)) = Inr True"
  using StatusList_refines_register [of 9 10 "[(True, 9), (True, 8), (False, 8), (True, - 1)]" "''l''"] by simp

definition demo_gzip :: gzip where
  "demo_gzip = \<lparr>gz_write = Some, gz_read = (\<lambda>n b. Some (take n b))\<rparr>"

definition demo_status_list :: status_list where
  "demo_status_list = \<lparr>sl_id = ''l'', sl_bits = [0, 2], sl_size = 16\<rparr>"

theorem CheckStatus_published_witness:
  "\<exists>bits. ParseEncodedList demo_gzip (b64_encode [0, 2]) = Inr bits \<and>
     CheckStatus bits (Some \<lparr>cs_ID = [], cs_Type = [], cs_StatusPurpose = [], cs_StatusListIndex = 9,
       cs_StatusListCredential = []\<rparr>) = Inl ErrRevoked"
proof -
  let ?st = "\<lparr>cs_ID = [], cs_Type = [], cs_StatusPurpose = [], cs_StatusListIndex = 9, cs_StatusListCredential = []\<rparr>"
  have "gzip_ok demo_gzip" by (simp add: gzip_ok_def demo_gzip_def)
  moreover have "status_list_ok demo_status_list" by (simp add: status_list_ok_def demo_status_list_def)
  moreover have "EncodedList demo_gzip demo_status_list = Inr (b64_encode [0, 2])"
    by (simp add: EncodedList_def demo_gzip_def demo_status_list_def del: b64_encode.simps)
  moreover have "sl_IsRevoked (cs_StatusListIndex ?st) demo_status_list = Inr True"
    by (simp add: sl_IsRevoked_def checkIndex_def demo_status_list_def)
  ultimately show ?thesis
    using CheckStatus_published [of demo_gzip demo_status_list "b64_encode [0, 2]" ?st True]
    by (simp add: demo_status_list_def del: b64_encode.simps)
qed

text \<open>An index outside the list is refused by every operation, also a negative one; the client-side
  check refuses an index past the end, but reads the first byte for an index from \<open>-7\<close> to \<open>-1\<close> and
  panics below that.\<close>

theorem status_index_errors:
  "(index < 0 \<or> index \<ge> sl_size s \<longrightarrow>
      sl_Revoke index s = Inl (ErrStatusIndex index) \<and> sl_Unrevoke index s = Inl (ErrStatusIndex index) \<and>
      sl_IsRevoked index s = Inl (ErrStatusIndex index)) \<and>
   (cs_StatusListIndex st \<ge> 8 * int (length bits) \<longrightarrow> 0 \<le> cs_StatusListIndex st \<longrightarrow>
      CheckStatus bits (Some st) = Inl (ErrStatusIndex (cs_StatusListIndex st))) \<and>
   (cs_StatusListIndex st \<le> - 8 \<longrightarrow> CheckStatus bits (Some st) = Inl ErrPanic)"
proof -
  have "cs_StatusListIndex st \<ge> 8 * int (length bits) \<Longrightarrow> 0 \<le> cs_StatusListIndex st \<Longrightarrow>
      CheckStatus bits (Some st) = Inl (ErrStatusIndex (cs_StatusListIndex st))"
    by (simp add: CheckStatus_def Let_def) linarith
  moreover have "CheckStatus bits (Some st) = Inl ErrPanic" if "cs_StatusListIndex st \<le> - 8"
  proof -
    have "(- cs_StatusListIndex st) div 8 \<ge> 1" using that by linarith
    with that show ?thesis by (simp add: CheckStatus_def Let_def)
  qed
  ultimately show ?thesis by (auto simp: sl_Revoke_def sl_Unrevoke_def sl_IsRevoked_def checkIndex_def)
qed

theorem status_index_errors_witness:
  "sl_Revoke (- 1) demo_status_list = Inl (ErrStatusIndex (- 1)) \<and>
   CheckStatus [0, 2] (Some \<lparr>cs_ID = [], cs_Type = [], cs_StatusPurpose = [], cs_StatusListIndex = - 9,
     cs_StatusListCredential = []\<rparr>) = Inl ErrPanic"
  using status_index_errors [of "- 1" demo_status_list "[0, 2]" "\<lparr>cs_ID = [], cs_Type = [],
    cs_StatusPurpose = [], cs_StatusListIndex = - 9, cs_StatusListCredential = []\<rparr>"] by simp

end
