(* ===== verification/Db.thy ===== *)
theory Db
  imports Go_Prelude
begin

text \<open>
  Tables of the SQLite database and the statements the store runs on them.  A table is the list of its
  rows in insertion order; \<open>key\<close> gives the primary key of a row.  The locales at the end state what the
  clients of the store rely on: a table of rows that are looked up by key, and one whose rows are
  consumed at most once.
\<close>

section \<open>Statements\<close>

datatype store_error = ErrNoRows | ErrConstraint | ErrClosed | ErrNoColumn string

definition tbl_find :: "('r \<Rightarrow> 'k) \<Rightarrow> 'k \<Rightarrow> 'r list \<Rightarrow> store_error + 'r" where
  "tbl_find key k rows = (case find (\<lambda>r. key r = k) rows of None \<Rightarrow> Inl ErrNoRows | Some r \<Rightarrow> Inr r)"

definition tbl_has :: "('r \<Rightarrow> 'k) \<Rightarrow> 'k \<Rightarrow> 'r list \<Rightarrow> bool" where
  "tbl_has key k rows = list_ex (\<lambda>r. key r = k) rows"

text \<open>\<^verbatim>\<open>INSERT\<close>, which fails on a duplicate key; \<^verbatim>\<open>INSERT ... ON CONFLICT(key) DO UPDATE SET\<close>, where \<open>merge old new\<close>
  sets the listed columns of the old row to the new values; \<^verbatim>\<open>UPDATE\<close> and \<^verbatim>\<open>DELETE\<close> by key.\<close>

definition tbl_insert :: "('r \<Rightarrow> 'k) \<Rightarrow> 'r \<Rightarrow> 'r list \<Rightarrow> store_error + 'r list" where
  "tbl_insert key r rows = (if tbl_has key (key r) rows then Inl ErrConstraint else Inr (rows @ [r]))"

definition tbl_update :: "('r \<Rightarrow> 'k) \<Rightarrow> 'k \<Rightarrow> ('r \<Rightarrow> 'r) \<Rightarrow> 'r list \<Rightarrow> 'r list" where
  "tbl_update key k f rows = map (\<lambda>r. if key r = k then f r else r) rows"

definition tbl_upsert :: "('r \<Rightarrow> 'k) \<Rightarrow> ('r \<Rightarrow> 'r \<Rightarrow> 'r) \<Rightarrow> 'r \<Rightarrow> 'r list \<Rightarrow> 'r list" where
  "tbl_upsert key merge r rows =
     (if tbl_has key (key r) rows then tbl_update key (key r) (\<lambda>old. merge old r) rows else rows @ [r])"

definition tbl_delete :: "('r \<Rightarrow> 'k) \<Rightarrow> 'k \<Rightarrow> 'r list \<Rightarrow> 'r list" where
  "tbl_delete key k rows = filter (\<lambda>r. key r \<noteq> k) rows"

text \<open>\<^verbatim>\<open>ORDER BY column DESC\<close>, rows that compare equal in insertion order, and \<^verbatim>\<open>LIMIT ? OFFSET ?\<close>, where a
  negative limit is none.\<close>

definition order_desc :: "('r \<Rightarrow> int) \<Rightarrow> 'r list \<Rightarrow> 'r list" where
  "order_desc col rows = sort_key (\<lambda>r. - col r) rows"

definition page :: "int \<Rightarrow> int \<Rightarrow> 'r list \<Rightarrow> 'r list" where
  "page limit offset rows =
     (let rest = drop (nat offset) rows in if limit < 0 then rest else take (nat limit) rest)"

text \<open>The default of a column \<^verbatim>\<open>DEFAULT CURRENT_TIMESTAMP\<close> has the resolution of a second.\<close>

definition current_timestamp :: "instant \<Rightarrow> instant" where
  "current_timestamp now = from_unix (unix now)"

section \<open>Keys stay unique\<close>

named_theorems tbl_keys

lemma tbl_has_iff: "tbl_has key k rows \<longleftrightarrow> k \<in> key ` set rows"
  by (auto simp: tbl_has_def list_ex_iff)

lemma tbl_insert_keys [tbl_keys]: "tbl_insert key r rows = Inr rows' \<Longrightarrow> distinct (map key rows) \<Longrightarrow> distinct (map key rows')"
  by (auto simp: tbl_insert_def tbl_has_iff split: if_splits)

lemma tbl_update_map_key: "(\<And>r. key (f r) = key r) \<Longrightarrow> map key (tbl_update key k f rows) = map key rows"
  by (auto simp: tbl_update_def)

lemma tbl_update_keys [tbl_keys]:
  "(\<And>r. key (f r) = key r) \<Longrightarrow> distinct (map key rows) \<Longrightarrow> distinct (map key (tbl_update key k f rows))"
  by (simp only: tbl_update_map_key)

lemma tbl_upsert_keys [tbl_keys]:
  assumes "\<And>old new. key (merge old new) = key old" "distinct (map key rows)"
  shows "distinct (map key (tbl_upsert key merge r rows))"
  using assms tbl_update_map_key [of key "\<lambda>old. merge old r" "key r" rows]
  by (auto simp: tbl_upsert_def tbl_has_iff)

lemma tbl_delete_keys [tbl_keys]: "distinct (map key rows) \<Longrightarrow> distinct (map key (tbl_delete key k rows))"
  by (simp add: tbl_delete_def distinct_map_filter)

section \<open>Reading after writing\<close>

lemma tbl_find_Inr: "tbl_find key k rows = Inr r \<Longrightarrow> r \<in> set rows \<and> key r = k"
  by (auto simp: tbl_find_def find_Some_iff split: option.splits)

lemma tbl_find_Inl: "tbl_find key k rows = Inl e \<longleftrightarrow> e = ErrNoRows \<and> \<not> tbl_has key k rows"
  by (induction rows) (auto simp: tbl_find_def tbl_has_def)

lemma tbl_find_none: "\<not> tbl_has key k rows \<Longrightarrow> tbl_find key k rows = Inl ErrNoRows"
  by (simp add: tbl_find_Inl)

lemma tbl_find_some: "tbl_has key k rows \<Longrightarrow> \<exists>r. tbl_find key k rows = Inr r"
  using tbl_find_Inl [of key k rows] by (cases "tbl_find key k rows") auto

lemma tbl_find_append: "\<not> tbl_has key (key r) rows \<Longrightarrow>
    tbl_find key k (rows @ [r]) = (if k = key r then Inr r else tbl_find key k rows)"
  by (induction rows) (auto simp: tbl_find_def tbl_has_def)

lemma tbl_find_insert:
  "tbl_insert key r rows = Inr rows' \<Longrightarrow> tbl_find key k rows' = (if k = key r then Inr r else tbl_find key k rows)"
  by (auto simp: tbl_insert_def tbl_find_append split: if_splits)

lemma tbl_find_delete: "tbl_find key k (tbl_delete key j rows) = (if k = j then Inl ErrNoRows else tbl_find key k rows)"
proof (induction rows)
  case (Cons r rows)
  then show ?case by (auto simp: tbl_find_def tbl_delete_def)
qed (simp add: tbl_find_def tbl_delete_def)

lemma tbl_find_update:
  assumes "\<And>r. key (f r) = key r"
  shows "tbl_find key k (tbl_update key j f rows) =
           (if k = j then map_sum (\<lambda>e. e) f (tbl_find key k rows) else tbl_find key k rows)"
proof (induction rows)
  case (Cons r rows)
  then show ?case using assms by (auto simp: tbl_find_def tbl_update_def split: option.splits)
qed (simp add: tbl_find_def tbl_update_def)

lemma tbl_find_upsert:
  assumes "\<And>old new. key (merge old new) = key old"
  shows "tbl_find key k (tbl_upsert key merge r rows) =
           (if k = key r then (case tbl_find key k rows of Inl _ \<Rightarrow> Inr r | Inr old \<Rightarrow> Inr (merge old r))
            else tbl_find key k rows)"
proof (cases "tbl_has key (key r) rows")
  case True
  from tbl_find_some [OF this] True tbl_find_update [of key "\<lambda>old. merge old r" k "key r" rows] assms
  show ?thesis by (auto simp: tbl_upsert_def)
next
  case False
  from tbl_find_none [OF this] False show ?thesis by (auto simp: tbl_upsert_def tbl_find_append)
qed

lemma page_bounds: "0 \<le> limit \<Longrightarrow> length (page limit offset rows) \<le> nat limit"
  by (simp add: page_def Let_def)

lemma page_all: "0 \<le> n \<Longrightarrow> int (length rows) \<le> n \<Longrightarrow> page n 0 rows = rows"
  by (simp add: page_def Let_def)

lemma set_order_desc [simp]: "set (order_desc col rows) = set rows"
  by (simp add: order_desc_def)

section \<open>Contracts\<close>

text \<open>A store of entries looked up by key: what a read returns after a delete, and that reading and
  deleting one key leaves the others alone.\<close>

locale keyed_store =
  fixes ok :: "'s \<Rightarrow> bool" and get :: "'k \<Rightarrow> 's \<Rightarrow> store_error + 'v" and del :: "'k \<Rightarrow> 's \<Rightarrow> store_error + 's"
  assumes del_total: "ok s \<Longrightarrow> \<exists>s'. del k s = Inr s' \<and> ok s'"
    and get_del: "ok s \<Longrightarrow> del k s = Inr s' \<Longrightarrow> get j s' = (if j = k then Inl ErrNoRows else get j s)"
begin

text \<open>Consuming an entry: read it, then delete it.\<close>

definition consume :: "'k \<Rightarrow> 's \<Rightarrow> (store_error + 'v) \<times> 's" where
  "consume k s = (case get k s of Inl e \<Rightarrow> (Inl e, s)
     | Inr v \<Rightarrow> (case del k s of Inl e \<Rightarrow> (Inl e, s) | Inr s' \<Rightarrow> (Inr v, s')))"

lemma consume_ok: "ok s \<Longrightarrow> ok (snd (consume k s))"
  using del_total [of s k] by (auto simp: consume_def split: sum.splits)

lemma consume_get: "ok s \<Longrightarrow> fst (consume k s) = get k s"
  using del_total [of s k] by (auto simp: consume_def split: sum.splits)

lemma consume_after: "ok s \<Longrightarrow> get j (snd (consume k s)) = (if j = k \<and> \<not> isl (get k s) then Inl ErrNoRows else get j s)"
  using del_total [of s k] get_del [of s k _ j] by (auto simp: consume_def split: sum.splits)

fun consume_all :: "'k list \<Rightarrow> 's \<Rightarrow> (store_error + 'v) list" where
  "consume_all [] s = []"
| "consume_all (k # ks) s = (let (r, s') = consume k s in r # consume_all ks s')"

lemma consumed_stays: "ok s \<Longrightarrow> isl (get k s) \<Longrightarrow> \<forall>i<length ks. ks ! i = k \<longrightarrow> isl (consume_all ks s ! i)"
proof (induction ks arbitrary: s)
  case (Cons j ks)
  have k: "isl (get k (snd (consume j s)))"
    using consume_after [OF Cons.prems(1), of k j] Cons.prems(2) by auto
  note IH = Cons.IH [OF consume_ok [OF Cons.prems(1)] k]
  show ?case
  proof (intro allI impI)
    fix i assume "i < length (j # ks)" "(j # ks) ! i = k"
    then show "isl (consume_all (j # ks) s ! i)"
      using IH consume_get [OF Cons.prems(1)] Cons.prems(2)
      by (cases i) (auto simp: Let_def case_prod_beta)
  qed
qed simp

text \<open>Whatever is asked for in between, an entry is handed out at most once.\<close>

lemma consume_once:
  assumes "ok s" "i < j" "j < length ks" "ks ! i = ks ! j" "\<not> isl (consume_all ks s ! i)"
  shows "isl (consume_all ks s ! j)"
  using assms
proof (induction ks arbitrary: s i j)
  case (Cons k ks)
  let ?s = "snd (consume k s)"
  have ok': "ok ?s" by (rule consume_ok [OF Cons.prems(1)])
  obtain j' where j: "j = Suc j'" using Cons.prems(2) by (cases j) auto
  show ?case
  proof (cases i)
    case 0
    then have "\<not> isl (get k s)" using Cons.prems consume_get [OF Cons.prems(1), of k]
      by (simp add: Let_def case_prod_beta)
    then have "isl (get k ?s)" using consume_after [OF Cons.prems(1), of k k] by simp
    from consumed_stays [OF ok' this] Cons.prems 0 j show ?thesis
      by (simp add: Let_def case_prod_beta)
  next
    case (Suc i')
    with Cons.IH [OF ok', of i' j'] Cons.prems j show ?thesis
      by (simp add: Let_def case_prod_beta)
  qed
qed simp

end

end
