(* ===== verification/Store.thy ===== *)
theory Store
  imports Consent Vc Db
begin

text \<open>
  The persistence layer, \<^verbatim>\<open>src/internal/store\<close>: the entities of \<^verbatim>\<open>store.go\<close> as records, the database of
  \<^verbatim>\<open>sqlite.go\<close> as a record of tables; the operations are in \<^verbatim>\<open>Sqlite\<close>.
  A write returns the new database or an error that leaves it as it was.  A JSON column holds the Go
  value it was encoded from, and a \<^verbatim>\<open>DATETIME\<close> column an instant, compared as one.
\<close>

section \<open>Entities\<close>

(* src: internal/store/store.go:154-163 Identity *)
record identity =
  idn_DID :: string
  idn_Method :: string
  idn_SigningKeyPath :: string
  idn_EncKeyPath :: string
  idn_Role :: string
  idn_TenantID :: string
  idn_CreatedAt :: instant
  idn_UpdatedAt :: instant

(* src: internal/store/store.go:166-185 OIDCSession *)
record oidc_session =
  ses_ID :: string
  ses_SubjectDID :: string
  ses_ClientID :: string
  ses_RedirectURI :: string
  ses_Scope :: string
  ses_Nonce :: string
  ses_State :: string
  ses_Code :: string
  ses_CodeChallenge :: string
  ses_CodeChallengeMethod :: string
  ses_AccessToken :: string
  ses_RefreshTokenHash :: string
  ses_UserAgent :: string
  ses_IPAddress :: string
  ses_LastUsedAt :: "instant option"
  ses_CreatedAt :: instant
  ses_ExpiresAt :: instant

(* src: internal/store/store.go:188-203 OIDCClient *)
record oidc_client =
  cli_ClientID :: string
  cli_ClientSecretHash :: string
  cli_ClientName :: string
  cli_RedirectURIs :: "string list"
  cli_TokenEndpointAuthMethod :: string
  cli_GrantTypes :: "string list"
  cli_ResponseTypes :: "string list"
  cli_Scope :: string
  cli_TenantID :: string
  cli_BackchannelLogoutURI :: string
  cli_PostLogoutRedirectURIs :: "string list"
  cli_CreatedAt :: instant

(* src: internal/store/store.go:206-214 RefreshToken *)
record refresh_token =
  rt_Hash :: string
  rt_SubjectDID :: string
  rt_ClientID :: string
  rt_Scope :: string
  rt_IssuedAt :: instant
  rt_ExpiresAt :: instant
  rt_UsedAt :: "instant option"

(* src: internal/store/store.go:217-223 ExternalProviderLink *)
record external_link =
  ln_SubjectDID :: string
  ln_Provider :: string
  ln_ExternalID :: string
  ln_LinkedAt :: instant
  ln_LastUsedAt :: instant

(* src: internal/store/store.go:226-231 MagicLinkToken *)
record magic_link_token =
  ml_Hash :: string
  ml_Email :: string
  ml_ExpiresAt :: instant
  ml_CreatedAt :: instant

(* src: internal/store/store.go:234-245 WebAuthnCredential *)
record webauthn_credential =
  wa_CredentialID :: string
  wa_SubjectDID :: string
  wa_PublicKeyCBOR :: "byte list"
  wa_AttestationType :: string
  wa_AAGUID :: string
  wa_SignCount :: "32 word"
  wa_Name :: string
  wa_Transports :: "string list"
  wa_CreatedAt :: instant
  wa_LastUsedAt :: "instant option"

(* src: internal/store/store.go:248-253 TOTPCredential *)
record totp_credential =
  tc_SubjectDID :: string
  tc_EncryptedSecret :: string
  tc_AccountName :: string
  tc_CreatedAt :: instant

(* src: internal/store/store.go:256-263 WebhookSubscription *)
record webhook_subscription =
  wh_ID :: string
  wh_URL :: string
  wh_EventTypes :: "string list"
  wh_SecretHash :: string
  wh_TenantID :: string
  wh_CreatedAt :: instant

(* src: internal/store/store.go:266-273 AuditEvent *)
record audit_event =
  ae_Seq :: int
  ae_Timestamp :: instant
  ae_EventType :: string
  ae_Payload :: string
  ae_Hash :: string
  ae_PrevHash :: string

(* src: internal/store/store.go:276-281 RecoveryConfig *)
record recovery_config =
  rcf_SubjectDID :: string
  rcf_Threshold :: int
  rcf_GuardianDIDs :: "string list"
  rcf_CreatedAt :: instant

(* src: internal/store/store.go:284-290 RecoveryRequest *)
record recovery_request =
  rr_ID :: string
  rr_SubjectDID :: string
  rr_StartedAt :: instant
  rr_SharesCollected :: int
  rr_Completed :: bool

(* src: internal/store/store.go:293-298 RecoveryShare *)
record recovery_share =
  rsh_RequestID :: string
  rsh_GuardianDID :: string
  rsh_ShareHash :: string
  rsh_CollectedAt :: instant

(* src: internal/store/store.go:301-307 PARRequest *)
record par_request =
  par_RequestURI :: string
  par_ClientID :: string
  par_Params :: string
  par_ExpiresAt :: instant
  par_CreatedAt :: instant

(* src: internal/store/store.go:310-321 DeviceCode *)
record device_code =
  dc_DeviceCode :: string
  dc_UserCode :: string
  dc_ClientID :: string
  dc_Scope :: string
  dc_SubjectDID :: string
  dc_Approved :: bool
  dc_Denied :: bool
  dc_ExpiresAt :: instant
  dc_IntervalSecs :: int
  dc_CreatedAt :: instant

(* src: internal/store/store.go:324-329 PasswordResetToken *)
record password_reset_token =
  pr_Hash :: string
  pr_Identifier :: string
  pr_ExpiresAt :: instant
  pr_CreatedAt :: instant

(* src: internal/store/store.go:332-339 PrivacyDisclosure *)
record privacy_disclosure =
  pd_ID :: string
  pd_SubjectDID :: string
  pd_SchemaID :: string
  pd_VerifierDID :: string
  pd_FieldNames :: "string list"
  pd_DisclosedAt :: instant

(* src: internal/store/store.go:342-351 CredentialOffer *)
record credential_offer =
  of_ID :: string
  of_ClientID :: string
  of_SchemaIDs :: "string list"
  of_IssuerDID :: string
  of_SubjectDID :: string
  of_ExpiresAt :: instant
  of_Used :: bool
  of_CreatedAt :: instant

text \<open>Rows that have no struct of their own.\<close>

(* src: internal/store/sqlite.go:195-200 auth_failures *)
record auth_failure =
  af_subject_or_email :: string
  af_count :: int
  af_last_failure_at :: instant
  af_locked_until :: "instant option"

(* src: internal/store/sqlite.go:202-206 passwords *)
record password_row =
  pw_identifier :: string
  pw_hash :: string
  pw_created_at :: instant

(* src: internal/store/sqlite.go:208-212 duress_configs *)
record duress_row =
  du_subject_did :: string
  du_hash :: string
  du_created_at :: instant

(* src: internal/store/sqlite.go:58-62 did_documents *)
record document_row =
  dr_did :: string
  dr_document :: document
  dr_cached_at :: instant

(* src: internal/store/sqlite.go:64-73 credentials *)
record credential_row =
  crow_id :: string
  crow_subject_did :: string
  crow_issuer_did :: string
  crow_schema_id :: string
  crow_valid_from :: instant
  crow_valid_until :: "instant option"
  crow_credential :: vcredential
  crow_created_at :: instant

text \<open>The database.  \<open>t_audit_seq\<close> is the counter of \<^verbatim>\<open>AUTOINCREMENT\<close>.\<close>

(* src: internal/store/sqlite.go:43-309 SQLiteStore.migrate *)
record db =
  t_closed :: bool
  t_identities :: "identity list"
  t_documents :: "document_row list"
  t_credentials :: "credential_row list"
  t_grants :: "grant list"
  t_receipts :: "receipt list"
  t_sessions :: "oidc_session list"
  t_clients :: "oidc_client list"
  t_refresh :: "refresh_token list"
  t_links :: "external_link list"
  t_magic :: "magic_link_token list"
  t_webauthn :: "webauthn_credential list"
  t_totp :: "totp_credential list"
  t_webhooks :: "webhook_subscription list"
  t_failures :: "auth_failure list"
  t_passwords :: "password_row list"
  t_duress :: "duress_row list"
  t_audit :: "audit_event list"
  t_audit_seq :: int
  t_recovery :: "recovery_config list"
  t_requests :: "recovery_request list"
  t_shares :: "recovery_share list"
  t_par :: "par_request list"
  t_devices :: "device_code list"
  t_resets :: "password_reset_token list"
  t_disclosures :: "privacy_disclosure list"
  t_offers :: "credential_offer list"

(* src: internal/store/sqlite.go:26-38 OpenSQLite *)
definition OpenSQLite :: db where
  "OpenSQLite = \<lparr>t_closed = False, t_identities = [], t_documents = [], t_credentials = [], t_grants = [],
     t_receipts = [], t_sessions = [], t_clients = [], t_refresh = [], t_links = [], t_magic = [],
     t_webauthn = [], t_totp = [], t_webhooks = [], t_failures = [], t_passwords = [], t_duress = [],
     t_audit = [], t_audit_seq = 0, t_recovery = [], t_requests = [], t_shares = [], t_par = [],
     t_devices = [], t_resets = [], t_disclosures = [], t_offers = []\<rparr>"

(* src: internal/store/sqlite.go:40-40 SQLiteStore.Close *)
definition store_Close :: "db \<Rightarrow> db" where
  "store_Close s = s\<lparr>t_closed := True\<rparr>"

text \<open>A statement on a closed database fails.\<close>

definition db_read :: "(db \<Rightarrow> store_error + 'a) \<Rightarrow> db \<Rightarrow> store_error + 'a" where
  "db_read f s = (if t_closed s then Inl ErrClosed else f s)"

definition db_write :: "(db \<Rightarrow> db) \<Rightarrow> db \<Rightarrow> store_error + db" where
  "db_write f s = (if t_closed s then Inl ErrClosed else Inr (f s))"

definition db_try :: "(db \<Rightarrow> store_error + 'r) \<Rightarrow> ('r \<Rightarrow> db \<Rightarrow> db) \<Rightarrow> db \<Rightarrow> store_error + db" where
  "db_try f upd s = (if t_closed s then Inl ErrClosed else case f s of Inl e \<Rightarrow> Inl e | Inr r \<Rightarrow> Inr (upd r s))"

end
