(* ===== verification/Sqlite.thy ===== *)
theory Sqlite
  imports Store
begin

text \<open>
  The operations of \<^verbatim>\<open>src/internal/store/sqlite.go\<close> on the database of \<^verbatim>\<open>Store\<close>, in the order of the source.
  Operations that read the clock take the instant as an argument; the hash of the audit log takes the
  primitives.
\<close>

section \<open>Identities\<close>

(* src: internal/store/sqlite.go:313-329 SQLiteStore.SaveIdentity *)
definition SaveIdentity :: "identity \<Rightarrow> db \<Rightarrow> store_error + db" where
  "SaveIdentity r = db_write (t_identities_update (tbl_upsert idn_DID
     (\<lambda>old new. old\<lparr>idn_SigningKeyPath := idn_SigningKeyPath new, idn_EncKeyPath := idn_EncKeyPath new, idn_Role := idn_Role new, idn_TenantID := idn_TenantID new, idn_UpdatedAt := idn_UpdatedAt new\<rparr>) (if idn_Role r = [] then r\<lparr>idn_Role := ''user''\<rparr> else r)))"

(* src: internal/store/sqlite.go:331-338 SQLiteStore.GetIdentity *)
definition GetIdentity :: "string \<Rightarrow> db \<Rightarrow> store_error + identity" where
  "GetIdentity did = db_read (\<lambda>s. tbl_find idn_DID did (t_identities s))"

(* src: internal/store/sqlite.go:340-359 SQLiteStore.ListIdentities *)
definition ListIdentities :: "int \<Rightarrow> int \<Rightarrow> db \<Rightarrow> store_error + identity list \<times> int" where
  "ListIdentities limit offset = db_read (\<lambda>s.
     Inr (page limit offset (order_desc idn_CreatedAt (t_identities s)), int (length (t_identities s))))"

(* src: internal/store/sqlite.go:361-365 SQLiteStore.UpdateIdentity *)
definition UpdateIdentity :: "identity \<Rightarrow> db \<Rightarrow> store_error + db" where
  "UpdateIdentity r = db_write (t_identities_update (tbl_update idn_DID (idn_DID r)
     (\<lambda>old. old\<lparr>idn_Role := idn_Role r, idn_TenantID := idn_TenantID r, idn_UpdatedAt := idn_UpdatedAt r\<rparr>)))"

section \<open>DID documents and credentials\<close>

(* src: internal/store/sqlite.go:369-377 SQLiteStore.SaveDocument *)
definition SaveDocument :: "instant \<Rightarrow> document \<Rightarrow> db \<Rightarrow> store_error + db" where
  "SaveDocument now doc = db_write (t_documents_update (tbl_upsert dr_did
     (\<lambda>old new. old\<lparr>dr_document := dr_document new, dr_cached_at := dr_cached_at new\<rparr>)
     \<lparr>dr_did = doc_ID doc, dr_document = doc, dr_cached_at = now\<rparr>))"

(* src: internal/store/sqlite.go:379-387 SQLiteStore.GetDocument *)
definition GetDocument :: "string \<Rightarrow> db \<Rightarrow> store_error + document" where
  "GetDocument did = db_read (\<lambda>s. map_sum (\<lambda>e. e) dr_document (tbl_find dr_did did (t_documents s)))"

(* src: internal/store/sqlite.go:391-403 SQLiteStore.SaveCredential *)
definition SaveCredential :: "instant \<Rightarrow> vcredential \<Rightarrow> db \<Rightarrow> store_error + db" where
  "SaveCredential now cred =
     (let c = vc_Credential cred;
          schemaID = (case cr_CredentialSchema c of Some sch \<Rightarrow> csch_ID sch | None \<Rightarrow> []);
          r = \<lparr>crow_id = cr_ID c, crow_subject_did = sub_ID (cr_CredentialSubject c), crow_issuer_did = cr_Issuer c,
               crow_schema_id = schemaID, crow_valid_from = cr_ValidFrom c, crow_valid_until = cr_ValidUntil c,
               crow_credential = cred, crow_created_at = now\<rparr>
      in db_try (\<lambda>s. tbl_insert crow_id r (t_credentials s)) (\<lambda>rows. t_credentials_update (\<lambda>_. rows)))"

(* src: internal/store/sqlite.go:405-413 SQLiteStore.GetCredential *)
definition GetCredential :: "string \<Rightarrow> db \<Rightarrow> store_error + vcredential" where
  "GetCredential k = db_read (\<lambda>s. map_sum (\<lambda>e. e) crow_credential (tbl_find crow_id k (t_credentials s)))"

(* src: internal/store/sqlite.go:1249-1263 scanCredentials *)
definition scanCredentials :: "credential_row list \<Rightarrow> vcredential list" where
  "scanCredentials rows = map crow_credential rows"

(* src: internal/store/sqlite.go:415-422 SQLiteStore.ListCredentials *)
definition ListCredentials :: "string \<Rightarrow> db \<Rightarrow> store_error + vcredential list" where
  "ListCredentials subjectDID = db_read (\<lambda>s. Inr (scanCredentials (order_desc crow_valid_from
     (filter (\<lambda>r. crow_subject_did r = subjectDID) (t_credentials s)))))"

(* src: internal/store/sqlite.go:424-427 SQLiteStore.DeleteCredential *)
definition DeleteCredential :: "string \<Rightarrow> db \<Rightarrow> store_error + db" where
  "DeleteCredential k = db_write (t_credentials_update (tbl_delete crow_id k))"

section \<open>Consent\<close>

text \<open>The table of grants has no column for the revocation, that of receipts none for expiry and
  revocation.\<close>

(* src: internal/store/sqlite.go:431-439 SQLiteStore.SaveGrant *)
definition SaveGrant :: "grant \<Rightarrow> db \<Rightarrow> store_error + db" where
  "SaveGrant r = db_try (\<lambda>s. tbl_insert gr_ID (r\<lparr>gr_RevokedAt := None\<rparr>) (t_grants s)) (\<lambda>rows. t_grants_update (\<lambda>_. rows))"

(* src: internal/store/sqlite.go:441-450 SQLiteStore.GetGrant *)
definition GetGrant :: "string \<Rightarrow> db \<Rightarrow> store_error + grant" where
  "GetGrant k = db_read (\<lambda>s. tbl_find gr_ID k (t_grants s))"

(* src: internal/store/sqlite.go:452-469 SQLiteStore.ListGrants *)
definition ListGrants :: "string \<Rightarrow> db \<Rightarrow> store_error + grant list" where
  "ListGrants subjectDID = db_read (\<lambda>s. Inr (order_desc gr_GrantedAt (filter (\<lambda>r. gr_SubjectDID r = subjectDID) (t_grants s))))"

(* src: internal/store/sqlite.go:471-474 SQLiteStore.DeleteGrant *)
definition DeleteGrant :: "string \<Rightarrow> db \<Rightarrow> store_error + db" where
  "DeleteGrant k = db_write (t_grants_update (tbl_delete gr_ID k))"

(* src: internal/store/sqlite.go:478-482 SQLiteStore.SaveReceipt *)
definition SaveReceipt :: "receipt \<Rightarrow> db \<Rightarrow> store_error + db" where
  "SaveReceipt r = db_try (\<lambda>s. tbl_insert rc_ID (r\<lparr>rc_ExpiresAt := None, rc_RevokedAt := None\<rparr>) (t_receipts s)) (\<lambda>rows. t_receipts_update (\<lambda>_. rows))"

(* src: internal/store/sqlite.go:484-499 SQLiteStore.ListReceipts *)
definition ListReceipts :: "string \<Rightarrow> db \<Rightarrow> store_error + receipt list" where
  "ListReceipts subjectDID = db_read (\<lambda>s. Inr (order_desc rc_AccessedAt (filter (\<lambda>r. rc_SubjectDID r = subjectDID) (t_receipts s))))"

section \<open>OIDC sessions and clients\<close>

(* src: internal/store/sqlite.go:505-523 SQLiteStore.SaveSession *)
definition SaveSession :: "oidc_session \<Rightarrow> db \<Rightarrow> store_error + db" where
  "SaveSession r = db_write (t_sessions_update (tbl_upsert ses_ID
     (\<lambda>old new. old\<lparr>ses_State := ses_State new, ses_Code := ses_Code new, ses_CodeChallenge := ses_CodeChallenge new, ses_CodeChallengeMethod := ses_CodeChallengeMethod new, ses_AccessToken := ses_AccessToken new, ses_RefreshTokenHash := ses_RefreshTokenHash new, ses_LastUsedAt := ses_LastUsedAt new, ses_ExpiresAt := ses_ExpiresAt new\<rparr>) r))"

(* src: internal/store/sqlite.go:525-527 SQLiteStore.GetSession *)
definition GetSession :: "string \<Rightarrow> db \<Rightarrow> store_error + oidc_session" where
  "GetSession k = db_read (\<lambda>s. tbl_find ses_ID k (t_sessions s))"

(* src: internal/store/sqlite.go:529-531 SQLiteStore.GetSessionByCode *)
definition GetSessionByCode :: "string \<Rightarrow> db \<Rightarrow> store_error + oidc_session" where
  "GetSessionByCode code = db_read (\<lambda>s. tbl_find ses_Code code (t_sessions s))"

(* src: internal/store/sqlite.go:533-548 SQLiteStore.ListSessionsBySubject *)
definition ListSessionsBySubject :: "instant \<Rightarrow> string \<Rightarrow> db \<Rightarrow> store_error + oidc_session list" where
  "ListSessionsBySubject now subjectDID = db_read (\<lambda>s. Inr (order_desc ses_CreatedAt (filter (\<lambda>r. ses_SubjectDID r = subjectDID \<and> ses_ExpiresAt r > now) (t_sessions s))))"

(* src: internal/store/sqlite.go:550-553 SQLiteStore.DeleteSession *)
definition DeleteSession :: "string \<Rightarrow> db \<Rightarrow> store_error + db" where
  "DeleteSession k = db_write (t_sessions_update (tbl_delete ses_ID k))"

(* src: internal/store/sqlite.go:555-558 SQLiteStore.PurgeExpiredSessions *)
definition PurgeExpiredSessions :: "instant \<Rightarrow> db \<Rightarrow> store_error + db" where
  "PurgeExpiredSessions now = db_write (t_sessions_update (filter (\<lambda>r. \<not> ses_ExpiresAt r < now)))"

(* src: internal/store/sqlite.go:594-618 SQLiteStore.SaveClient *)
definition SaveClient :: "oidc_client \<Rightarrow> db \<Rightarrow> store_error + db" where
  "SaveClient r = db_write (t_clients_update (tbl_upsert cli_ClientID
     (\<lambda>old new. old\<lparr>cli_ClientSecretHash := cli_ClientSecretHash new, cli_ClientName := cli_ClientName new, cli_RedirectURIs := cli_RedirectURIs new, cli_TokenEndpointAuthMethod := cli_TokenEndpointAuthMethod new, cli_GrantTypes := cli_GrantTypes new, cli_ResponseTypes := cli_ResponseTypes new, cli_Scope := cli_Scope new, cli_BackchannelLogoutURI := cli_BackchannelLogoutURI new, cli_PostLogoutRedirectURIs := cli_PostLogoutRedirectURIs new\<rparr>) r))"

(* src: internal/store/sqlite.go:624-628 SQLiteStore.GetClient *)
definition GetClient :: "string \<Rightarrow> db \<Rightarrow> store_error + oidc_client" where
  "GetClient clientID = db_read (\<lambda>s. tbl_find cli_ClientID clientID (t_clients s))"

(* src: internal/store/sqlite.go:630-646 SQLiteStore.ListClients *)
definition ListClients :: "db \<Rightarrow> store_error + oidc_client list" where
  "ListClients = db_read (\<lambda>s. Inr (order_desc cli_CreatedAt (t_clients s)))"

(* src: internal/store/sqlite.go:648-651 SQLiteStore.DeleteClient *)
definition DeleteClient :: "string \<Rightarrow> db \<Rightarrow> store_error + db" where
  "DeleteClient clientID = db_write (t_clients_update (tbl_delete cli_ClientID clientID))"

section \<open>Tokens and links\<close>

(* src: internal/store/sqlite.go:685-692 SQLiteStore.SaveRefreshToken *)
definition SaveRefreshToken :: "refresh_token \<Rightarrow> db \<Rightarrow> store_error + db" where
  "SaveRefreshToken r = db_write (t_refresh_update (tbl_upsert rt_Hash
     (\<lambda>old new. old\<lparr>rt_UsedAt := rt_UsedAt new\<rparr>) r))"

(* src: internal/store/sqlite.go:694-705 SQLiteStore.GetRefreshToken *)
definition GetRefreshToken :: "string \<Rightarrow> db \<Rightarrow> store_error + refresh_token" where
  "GetRefreshToken hash = db_read (\<lambda>s. tbl_find rt_Hash hash (t_refresh s))"

(* src: internal/store/sqlite.go:707-710 SQLiteStore.DeleteRefreshToken *)
definition DeleteRefreshToken :: "string \<Rightarrow> db \<Rightarrow> store_error + db" where
  "DeleteRefreshToken hash = db_write (t_refresh_update (tbl_delete rt_Hash hash))"

definition link_key :: "external_link \<Rightarrow> string \<times> string" where
  "link_key l = (ln_Provider l, ln_ExternalID l)"

(* src: internal/store/sqlite.go:714-723 SQLiteStore.SaveExternalLink *)
definition SaveExternalLink :: "external_link \<Rightarrow> db \<Rightarrow> store_error + db" where
  "SaveExternalLink r = db_write (t_links_update (tbl_upsert link_key
     (\<lambda>old new. old\<lparr>ln_SubjectDID := ln_SubjectDID new, ln_LastUsedAt := ln_LastUsedAt new\<rparr>) r))"

(* src: internal/store/sqlite.go:725-732 SQLiteStore.GetExternalLink *)
definition GetExternalLink :: "string \<Rightarrow> string \<Rightarrow> db \<Rightarrow> store_error + external_link" where
  "GetExternalLink provider externalID = db_read (\<lambda>s. tbl_find link_key (provider, externalID) (t_links s))"

(* src: internal/store/sqlite.go:734-749 SQLiteStore.ListExternalLinks *)
definition ListExternalLinks :: "string \<Rightarrow> db \<Rightarrow> store_error + external_link list" where
  "ListExternalLinks subjectDID = db_read (\<lambda>s. Inr (order_desc ln_LinkedAt (filter (\<lambda>r. ln_SubjectDID r = subjectDID) (t_links s))))"

(* src: internal/store/sqlite.go:751-754 SQLiteStore.DeleteExternalLink *)
definition DeleteExternalLink :: "string \<Rightarrow> string \<Rightarrow> db \<Rightarrow> store_error + db" where
  "DeleteExternalLink provider externalID = db_write (t_links_update (tbl_delete link_key (provider, externalID)))"

(* src: internal/store/sqlite.go:758-762 SQLiteStore.SaveMagicLinkToken *)
definition SaveMagicLinkToken :: "magic_link_token \<Rightarrow> db \<Rightarrow> store_error + db" where
  "SaveMagicLinkToken r = db_try (\<lambda>s. tbl_insert ml_Hash r (t_magic s)) (\<lambda>rows. t_magic_update (\<lambda>_. rows))"

(* src: internal/store/sqlite.go:764-771 SQLiteStore.GetMagicLinkToken *)
definition GetMagicLinkToken :: "string \<Rightarrow> db \<Rightarrow> store_error + magic_link_token" where
  "GetMagicLinkToken hash = db_read (\<lambda>s. tbl_find ml_Hash hash (t_magic s))"

(* src: internal/store/sqlite.go:773-776 SQLiteStore.DeleteMagicLinkToken *)
definition DeleteMagicLinkToken :: "string \<Rightarrow> db \<Rightarrow> store_error + db" where
  "DeleteMagicLinkToken hash = db_write (t_magic_update (tbl_delete ml_Hash hash))"

section \<open>Authenticators\<close>

(* src: internal/store/sqlite.go:780-789 SQLiteStore.SaveWebAuthnCredential *)
definition SaveWebAuthnCredential :: "webauthn_credential \<Rightarrow> db \<Rightarrow> store_error + db" where
  "SaveWebAuthnCredential r = db_write (t_webauthn_update (tbl_upsert wa_CredentialID
     (\<lambda>old new. old\<lparr>wa_SignCount := wa_SignCount new, wa_Name := wa_Name new, wa_LastUsedAt := wa_LastUsedAt new\<rparr>) r))"

(* src: internal/store/sqlite.go:791-794 SQLiteStore.GetWebAuthnCredential *)
definition GetWebAuthnCredential :: "string \<Rightarrow> db \<Rightarrow> store_error + webauthn_credential" where
  "GetWebAuthnCredential k = db_read (\<lambda>s. tbl_find wa_CredentialID k (t_webauthn s))"

(* src: internal/store/sqlite.go:796-811 SQLiteStore.ListWebAuthnCredentials *)
definition ListWebAuthnCredentials :: "string \<Rightarrow> db \<Rightarrow> store_error + webauthn_credential list" where
  "ListWebAuthnCredentials subjectDID = db_read (\<lambda>s. Inr (order_desc wa_CreatedAt (filter (\<lambda>r. wa_SubjectDID r = subjectDID) (t_webauthn s))))"

(* src: internal/store/sqlite.go:813-817 SQLiteStore.UpdateWebAuthnCredential *)
definition UpdateWebAuthnCredential :: "webauthn_credential \<Rightarrow> db \<Rightarrow> store_error + db" where
  "UpdateWebAuthnCredential r = db_write (t_webauthn_update (tbl_update wa_CredentialID (wa_CredentialID r)
     (\<lambda>old. old\<lparr>wa_SignCount := wa_SignCount r, wa_LastUsedAt := wa_LastUsedAt r, wa_Name := wa_Name r\<rparr>)))"

(* src: internal/store/sqlite.go:819-822 SQLiteStore.DeleteWebAuthnCredential *)
definition DeleteWebAuthnCredential :: "string \<Rightarrow> db \<Rightarrow> store_error + db" where
  "DeleteWebAuthnCredential k = db_write (t_webauthn_update (tbl_delete wa_CredentialID k))"

(* src: internal/store/sqlite.go:860-867 SQLiteStore.SaveTOTPCredential *)
definition SaveTOTPCredential :: "totp_credential \<Rightarrow> db \<Rightarrow> store_error + db" where
  "SaveTOTPCredential r = db_write (t_totp_update (tbl_upsert tc_SubjectDID
     (\<lambda>old new. old\<lparr>tc_EncryptedSecret := tc_EncryptedSecret new, tc_AccountName := tc_AccountName new\<rparr>) r))"

(* src: internal/store/sqlite.go:869-876 SQLiteStore.GetTOTPCredential *)
definition GetTOTPCredential :: "string \<Rightarrow> db \<Rightarrow> store_error + totp_credential" where
  "GetTOTPCredential subjectDID = db_read (\<lambda>s. tbl_find tc_SubjectDID subjectDID (t_totp s))"

(* src: internal/store/sqlite.go:878-881 SQLiteStore.DeleteTOTPCredential *)
definition DeleteTOTPCredential :: "string \<Rightarrow> db \<Rightarrow> store_error + db" where
  "DeleteTOTPCredential subjectDID = db_write (t_totp_update (tbl_delete tc_SubjectDID subjectDID))"

section \<open>Webhooks\<close>

(* src: internal/store/sqlite.go:885-893 SQLiteStore.SaveWebhookSubscription *)
definition SaveWebhookSubscription :: "webhook_subscription \<Rightarrow> db \<Rightarrow> store_error + db" where
  "SaveWebhookSubscription r = db_write (t_webhooks_update (tbl_upsert wh_ID
     (\<lambda>old new. old\<lparr>wh_URL := wh_URL new, wh_EventTypes := wh_EventTypes new\<rparr>) r))"

(* src: internal/store/sqlite.go:895-898 SQLiteStore.GetWebhookSubscription *)
definition GetWebhookSubscription :: "string \<Rightarrow> db \<Rightarrow> store_error + webhook_subscription" where
  "GetWebhookSubscription k = db_read (\<lambda>s. tbl_find wh_ID k (t_webhooks s))"

(* src: internal/store/sqlite.go:900-926 SQLiteStore.ListWebhookSubscriptions *)
definition ListWebhookSubscriptions :: "string \<Rightarrow> db \<Rightarrow> store_error + webhook_subscription list" where
  "ListWebhookSubscriptions eventType = db_read (\<lambda>s. Inr (filter (\<lambda>r. eventType = [] \<or> list_ex (\<lambda>et. et = ''*'' \<or> et = eventType) (wh_EventTypes r)) (t_webhooks s)))"

(* src: internal/store/sqlite.go:928-931 SQLiteStore.DeleteWebhookSubscription *)
definition DeleteWebhookSubscription :: "string \<Rightarrow> db \<Rightarrow> store_error + db" where
  "DeleteWebhookSubscription k = db_write (t_webhooks_update (tbl_delete wh_ID k))"

section \<open>Authentication failures\<close>

(* src: internal/store/sqlite.go:967-973 lock thresholds *)
definition lock_duration :: "int \<Rightarrow> duration option" where
  "lock_duration count =
     (if count \<ge> 20 then Some (100 * 365 * 24 * hour)
      else if count \<ge> 10 then Some (30 * minute)
      else if count \<ge> 5 then Some (5 * minute)
      else None)"

(* src: internal/store/sqlite.go:975-999 SQLiteStore.RecordAuthFailure *)
definition RecordAuthFailure :: "instant \<Rightarrow> string \<Rightarrow> db \<Rightarrow> store_error + db" where
  "RecordAuthFailure now who s =
     (let count = (case tbl_find af_subject_or_email who (t_failures s) of Inr r \<Rightarrow> af_count r | Inl _ \<Rightarrow> 0) + 1;
          lockedUntil = map_option (\<lambda>d. now + d) (lock_duration count)
      in db_write (t_failures_update (tbl_upsert af_subject_or_email
           (\<lambda>old new. old\<lparr>af_count := af_count new, af_last_failure_at := af_last_failure_at new,
              af_locked_until := af_locked_until new\<rparr>)
           \<lparr>af_subject_or_email = who, af_count = count, af_last_failure_at = now,
            af_locked_until = lockedUntil\<rparr>)) s)"

(* src: internal/store/sqlite.go:1001-1016 SQLiteStore.GetAuthFailures *)
definition GetAuthFailures :: "string \<Rightarrow> db \<Rightarrow> store_error + int \<times> instant option" where
  "GetAuthFailures who = db_read (\<lambda>s.
     (case tbl_find af_subject_or_email who (t_failures s) of
        Inl ErrNoRows \<Rightarrow> Inr (0, None)
      | Inl e \<Rightarrow> Inl e
      | Inr r \<Rightarrow> Inr (af_count r, af_locked_until r)))"

(* src: internal/store/sqlite.go:1018-1021 SQLiteStore.ClearAuthFailures *)
definition ClearAuthFailures :: "string \<Rightarrow> db \<Rightarrow> store_error + db" where
  "ClearAuthFailures who = db_write (t_failures_update (tbl_delete af_subject_or_email who))"

section \<open>Duress passphrases and expiring consent\<close>

(* src: internal/store/sqlite.go:1025-1031 SQLiteStore.SaveDuressConfig *)
definition SaveDuressConfig :: "instant \<Rightarrow> string \<Rightarrow> string \<Rightarrow> db \<Rightarrow> store_error + db" where
  "SaveDuressConfig now subjectDID hash = db_write (t_duress_update (tbl_upsert du_subject_did
     (\<lambda>old new. old\<lparr>du_hash := du_hash new, du_created_at := du_created_at new\<rparr>)
     \<lparr>du_subject_did = subjectDID, du_hash = hash, du_created_at = current_timestamp now\<rparr>))"

(* src: internal/store/sqlite.go:1033-1040 SQLiteStore.GetDuressHash *)
definition GetDuressHash :: "string \<Rightarrow> db \<Rightarrow> store_error + string" where
  "GetDuressHash subjectDID = db_read (\<lambda>s. map_sum (\<lambda>e. e) du_hash (tbl_find du_subject_did subjectDID (t_duress s)))"

(* src: internal/store/sqlite.go:1042-1045 SQLiteStore.DeleteDuressConfig *)
definition DeleteDuressConfig :: "string \<Rightarrow> db \<Rightarrow> store_error + db" where
  "DeleteDuressConfig subjectDID = db_write (t_duress_update (tbl_delete du_subject_did subjectDID))"

(* src: internal/store/sqlite.go:77-86 consent_grants *)
definition consent_grants_columns :: "string list" where
  "consent_grants_columns = [''id'', ''subject_did'', ''relying_did'', ''level'', ''scope_id'', ''granted_at'',
     ''expires_at'', ''explicitly_confirmed'']"

(* src: internal/store/sqlite.go:1049-1072 SQLiteStore.ListExpiringGrants *)
definition ListExpiringGrants :: "instant \<Rightarrow> duration \<Rightarrow> db \<Rightarrow> store_error + grant list" where
  "ListExpiringGrants now within = db_read (\<lambda>s.
     if \<not> list_ex (\<lambda>c. c = ''revoked_at'') consent_grants_columns then Inl (ErrNoColumn ''revoked_at'')
     else Inr (sort_key (\<lambda>r. case gr_ExpiresAt r of Some e \<Rightarrow> e | None \<Rightarrow> 0)
       (filter (\<lambda>r. (case gr_ExpiresAt r of Some e \<Rightarrow> e \<le> now + within | None \<Rightarrow> False) \<and> gr_RevokedAt r = None)
         (t_grants s))))"

section \<open>The audit log\<close>

text \<open>The hashed text: the previous hash, then the event as a JSON object with sorted keys.\<close>

(* src: internal/store/sqlite.go:1077-1079 SQLiteStore.AppendAuditEvent (hash) *)
definition audit_hash :: "prims \<Rightarrow> string \<Rightarrow> string \<Rightarrow> string \<Rightarrow> string" where
  "audit_hash P eventType payload prevHash =
     hex_encode (sha256 P (bytes_of (prevHash @ json_marshal (json_str_obj
       [(''event_type'', eventType), (''payload'', payload), (''prev_hash'', prevHash)]))))"

(* src: internal/store/sqlite.go:1076-1095 SQLiteStore.AppendAuditEvent *)
definition AppendAuditEvent :: "prims \<Rightarrow> instant \<Rightarrow> string \<Rightarrow> string \<Rightarrow> string \<Rightarrow> db \<Rightarrow> store_error + audit_event \<times> db" where
  "AppendAuditEvent P now eventType payload prevHash s =
     (if t_closed s then Inl ErrClosed
      else
        let hash = audit_hash P eventType payload prevHash;
            seq = t_audit_seq s + 1;
            e = \<lparr>ae_Seq = seq, ae_Timestamp = now, ae_EventType = eventType, ae_Payload = payload,
                 ae_Hash = hash, ae_PrevHash = prevHash\<rparr>
        in Inr (e, s\<lparr>t_audit := t_audit s @ [e\<lparr>ae_Timestamp := current_timestamp now\<rparr>], t_audit_seq := seq\<rparr>))"

(* src: internal/store/sqlite.go:1097-1101 SQLiteStore.GetAuditHead *)
definition GetAuditHead :: "db \<Rightarrow> store_error + audit_event" where
  "GetAuditHead = db_read (\<lambda>s. case order_desc ae_Seq (t_audit s) of [] \<Rightarrow> Inl ErrNoRows | e # _ \<Rightarrow> Inr e)"

(* src: internal/store/sqlite.go:1103-1124 SQLiteStore.ListAuditEvents *)
definition ListAuditEvents :: "int \<Rightarrow> int \<Rightarrow> db \<Rightarrow> store_error + audit_event list \<times> int" where
  "ListAuditEvents limit offset = db_read (\<lambda>s.
     Inr (page limit offset (sort_key ae_Seq (t_audit s)), int (length (t_audit s))))"

section \<open>Guardian recovery\<close>

(* src: internal/store/sqlite.go:1136-1143 SQLiteStore.SaveRecoveryConfig *)
definition SaveRecoveryConfig :: "instant \<Rightarrow> recovery_config \<Rightarrow> db \<Rightarrow> store_error + db" where
  "SaveRecoveryConfig now cfg = db_write (t_recovery_update (tbl_upsert rcf_SubjectDID
     (\<lambda>old new. old\<lparr>rcf_Threshold := rcf_Threshold new, rcf_GuardianDIDs := rcf_GuardianDIDs new,
        rcf_CreatedAt := rcf_CreatedAt new\<rparr>)
     (cfg\<lparr>rcf_CreatedAt := current_timestamp now\<rparr>)))"

(* src: internal/store/sqlite.go:1145-1157 SQLiteStore.GetRecoveryConfig *)
definition GetRecoveryConfig :: "string \<Rightarrow> db \<Rightarrow> store_error + recovery_config" where
  "GetRecoveryConfig subjectDID = db_read (\<lambda>s. tbl_find rcf_SubjectDID subjectDID (t_recovery s))"

(* src: internal/store/sqlite.go:1159-1162 SQLiteStore.DeleteRecoveryConfig *)
definition DeleteRecoveryConfig :: "string \<Rightarrow> db \<Rightarrow> store_error + db" where
  "DeleteRecoveryConfig subjectDID = db_write (t_recovery_update (tbl_delete rcf_SubjectDID subjectDID))"

(* src: internal/store/sqlite.go:1164-1169 SQLiteStore.SaveRecoveryRequest *)
definition SaveRecoveryRequest :: "instant \<Rightarrow> recovery_request \<Rightarrow> db \<Rightarrow> store_error + db" where
  "SaveRecoveryRequest now r = db_try (\<lambda>s. tbl_insert rr_ID (r\<lparr>rr_StartedAt := current_timestamp now\<rparr>) (t_requests s)) (\<lambda>rows. t_requests_update (\<lambda>_. rows))"

(* src: internal/store/sqlite.go:1171-1181 SQLiteStore.GetRecoveryRequest *)
definition GetRecoveryRequest :: "string \<Rightarrow> db \<Rightarrow> store_error + recovery_request" where
  "GetRecoveryRequest k = db_read (\<lambda>s. tbl_find rr_ID k (t_requests s))"

(* src: internal/store/sqlite.go:1183-1188 SQLiteStore.UpdateRecoveryRequest *)
definition UpdateRecoveryRequest :: "recovery_request \<Rightarrow> db \<Rightarrow> store_error + db" where
  "UpdateRecoveryRequest r = db_write (t_requests_update (tbl_update rr_ID (rr_ID r)
     (\<lambda>old. old\<lparr>rr_SharesCollected := rr_SharesCollected r, rr_Completed := rr_Completed r\<rparr>)))"

definition share_key :: "recovery_share \<Rightarrow> string \<times> string" where
  "share_key sh = (rsh_RequestID sh, rsh_GuardianDID sh)"

(* src: internal/store/sqlite.go:1190-1196 SQLiteStore.SaveRecoveryShare *)
definition SaveRecoveryShare :: "instant \<Rightarrow> recovery_share \<Rightarrow> db \<Rightarrow> store_error + db" where
  "SaveRecoveryShare now sh = db_write (t_shares_update (\<lambda>rows.
     if tbl_has share_key (share_key sh) rows then rows
     else rows @ [sh\<lparr>rsh_CollectedAt := current_timestamp now\<rparr>]))"

(* src: internal/store/sqlite.go:1198-1214 SQLiteStore.ListRecoveryShares *)
definition ListRecoveryShares :: "string \<Rightarrow> db \<Rightarrow> store_error + recovery_share list" where
  "ListRecoveryShares requestID = db_read (\<lambda>s. Inr (filter (\<lambda>r. rsh_RequestID r = requestID) (t_shares s)))"

section \<open>Passwords\<close>

(* src: internal/store/sqlite.go:1225-1231 SQLiteStore.SavePasswordHash *)
definition SavePasswordHash :: "instant \<Rightarrow> string \<Rightarrow> string \<Rightarrow> db \<Rightarrow> store_error + db" where
  "SavePasswordHash now identifier hash = db_write (t_passwords_update (tbl_upsert pw_identifier
     (\<lambda>old new. old\<lparr>pw_hash := pw_hash new, pw_created_at := pw_created_at new\<rparr>)
     \<lparr>pw_identifier = identifier, pw_hash = hash, pw_created_at = current_timestamp now\<rparr>))"

(* src: internal/store/sqlite.go:1233-1240 SQLiteStore.GetPasswordHash *)
definition GetPasswordHash :: "string \<Rightarrow> db \<Rightarrow> store_error + string" where
  "GetPasswordHash identifier = db_read (\<lambda>s. map_sum (\<lambda>e. e) pw_hash (tbl_find pw_identifier identifier (t_passwords s)))"

(* src: internal/store/sqlite.go:1242-1245 SQLiteStore.DeletePasswordHash *)
definition DeletePasswordHash :: "string \<Rightarrow> db \<Rightarrow> store_error + db" where
  "DeletePasswordHash identifier = db_write (t_passwords_update (tbl_delete pw_identifier identifier))"

section \<open>Pushed requests, device codes and reset tokens\<close>

(* src: internal/store/sqlite.go:1267-1272 SQLiteStore.SavePARRequest *)
definition SavePARRequest :: "par_request \<Rightarrow> db \<Rightarrow> store_error + db" where
  "SavePARRequest r = db_try (\<lambda>s. tbl_insert par_RequestURI r (t_par s)) (\<lambda>rows. t_par_update (\<lambda>_. rows))"

(* src: internal/store/sqlite.go:1274-1282 SQLiteStore.GetPARRequest *)
definition GetPARRequest :: "string \<Rightarrow> db \<Rightarrow> store_error + par_request" where
  "GetPARRequest requestURI = db_read (\<lambda>s. tbl_find par_RequestURI requestURI (t_par s))"

(* src: internal/store/sqlite.go:1284-1287 SQLiteStore.DeletePARRequest *)
definition DeletePARRequest :: "string \<Rightarrow> db \<Rightarrow> store_error + db" where
  "DeletePARRequest requestURI = db_write (t_par_update (tbl_delete par_RequestURI requestURI))"

text \<open>The user code is unique as well: a fresh device code with a taken user code is refused.\<close>

(* src: internal/store/sqlite.go:1291-1300 SQLiteStore.SaveDeviceCode *)
definition SaveDeviceCode :: "device_code \<Rightarrow> db \<Rightarrow> store_error + db" where
  "SaveDeviceCode r = db_try
     (\<lambda>s. if tbl_has dc_DeviceCode (dc_DeviceCode r) (t_devices s) then
            Inr (tbl_update dc_DeviceCode (dc_DeviceCode r) (\<lambda>old. old\<lparr>dc_SubjectDID := dc_SubjectDID r,
              dc_Approved := dc_Approved r, dc_Denied := dc_Denied r\<rparr>) (t_devices s))
          else if tbl_has dc_UserCode (dc_UserCode r) (t_devices s) then Inl ErrConstraint
          else Inr (t_devices s @ [r]))
     (\<lambda>rows. t_devices_update (\<lambda>_. rows))"

(* src: internal/store/sqlite.go:1302-1307 SQLiteStore.GetDeviceCode *)
definition GetDeviceCode :: "string \<Rightarrow> db \<Rightarrow> store_error + device_code" where
  "GetDeviceCode deviceCode = db_read (\<lambda>s. tbl_find dc_DeviceCode deviceCode (t_devices s))"

(* src: internal/store/sqlite.go:1309-1314 SQLiteStore.GetDeviceCodeByUserCode *)
definition GetDeviceCodeByUserCode :: "string \<Rightarrow> db \<Rightarrow> store_error + device_code" where
  "GetDeviceCodeByUserCode userCode = db_read (\<lambda>s. tbl_find dc_UserCode userCode (t_devices s))"

(* src: internal/store/sqlite.go:1316-1321 SQLiteStore.UpdateDeviceCode *)
definition UpdateDeviceCode :: "device_code \<Rightarrow> db \<Rightarrow> store_error + db" where
  "UpdateDeviceCode r = db_write (t_devices_update (tbl_update dc_DeviceCode (dc_DeviceCode r)
     (\<lambda>old. old\<lparr>dc_SubjectDID := dc_SubjectDID r, dc_Approved := dc_Approved r, dc_Denied := dc_Denied r\<rparr>)))"

(* src: internal/store/sqlite.go:1323-1326 SQLiteStore.DeleteDeviceCode *)
definition DeleteDeviceCode :: "string \<Rightarrow> db \<Rightarrow> store_error + db" where
  "DeleteDeviceCode deviceCode = db_write (t_devices_update (tbl_delete dc_DeviceCode deviceCode))"

(* src: internal/store/sqlite.go:1344-1349 SQLiteStore.SavePasswordResetToken *)
definition SavePasswordResetToken :: "password_reset_token \<Rightarrow> db \<Rightarrow> store_error + db" where
  "SavePasswordResetToken r = db_try (\<lambda>s. tbl_insert pr_Hash r (t_resets s)) (\<lambda>rows. t_resets_update (\<lambda>_. rows))"

(* src: internal/store/sqlite.go:1351-1359 SQLiteStore.GetPasswordResetToken *)
definition GetPasswordResetToken :: "string \<Rightarrow> db \<Rightarrow> store_error + password_reset_token" where
  "GetPasswordResetToken hash = db_read (\<lambda>s. tbl_find pr_Hash hash (t_resets s))"

(* src: internal/store/sqlite.go:1361-1364 SQLiteStore.DeletePasswordResetToken *)
definition DeletePasswordResetToken :: "string \<Rightarrow> db \<Rightarrow> store_error + db" where
  "DeletePasswordResetToken hash = db_write (t_resets_update (tbl_delete pr_Hash hash))"

section \<open>Disclosures and credential offers\<close>

(* src: internal/store/sqlite.go:1368-1375 SQLiteStore.RecordDisclosure *)
definition RecordDisclosure :: "privacy_disclosure \<Rightarrow> db \<Rightarrow> store_error + db" where
  "RecordDisclosure r = db_try (\<lambda>s. tbl_insert pd_ID r (t_disclosures s)) (\<lambda>rows. t_disclosures_update (\<lambda>_. rows))"

(* src: internal/store/sqlite.go:1377-1401 SQLiteStore.ListDisclosures *)
definition ListDisclosures :: "string \<Rightarrow> string \<Rightarrow> db \<Rightarrow> store_error + privacy_disclosure list" where
  "ListDisclosures subjectDID schemaID = db_read (\<lambda>s. Inr (order_desc pd_DisclosedAt (filter (\<lambda>r. pd_SubjectDID r = subjectDID \<and> (schemaID \<noteq> [] \<longrightarrow> pd_SchemaID r = schemaID)) (t_disclosures s))))"

(* src: internal/store/sqlite.go:1403-1413 SQLiteStore.CountDisclosures *)
definition CountDisclosures :: "string \<Rightarrow> string \<Rightarrow> db \<Rightarrow> store_error + int" where
  "CountDisclosures subjectDID schemaID = db_read (\<lambda>s. Inr (int (length (filter
     (\<lambda>r. pd_SubjectDID r = subjectDID \<and> (schemaID \<noteq> [] \<longrightarrow> pd_SchemaID r = schemaID)) (t_disclosures s)))))"

(* src: internal/store/sqlite.go:1417-1425 SQLiteStore.SaveCredentialOffer *)
definition SaveCredentialOffer :: "credential_offer \<Rightarrow> db \<Rightarrow> store_error + db" where
  "SaveCredentialOffer r = db_try (\<lambda>s. tbl_insert of_ID r (t_offers s)) (\<lambda>rows. t_offers_update (\<lambda>_. rows))"

(* src: internal/store/sqlite.go:1427-1443 SQLiteStore.GetCredentialOffer *)
definition GetCredentialOffer :: "string \<Rightarrow> db \<Rightarrow> store_error + credential_offer" where
  "GetCredentialOffer k = db_read (\<lambda>s. tbl_find of_ID k (t_offers s))"

(* src: internal/store/sqlite.go:1445-1448 SQLiteStore.MarkCredentialOfferUsed *)
definition MarkCredentialOfferUsed :: "string \<Rightarrow> db \<Rightarrow> store_error + db" where
  "MarkCredentialOfferUsed k = db_write (t_offers_update (tbl_update of_ID k (\<lambda>old. old\<lparr>of_Used := True\<rparr>)))"

section \<open>Interfaces the clients rely on\<close>

definition db_open :: "db \<Rightarrow> bool" where
  "db_open s \<longleftrightarrow> \<not> t_closed s"

lemmas db_defs = db_read_def db_write_def db_try_def db_open_def

interpretation magic: keyed_store db_open GetMagicLinkToken DeleteMagicLinkToken
  by unfold_locales (auto simp: GetMagicLinkToken_def DeleteMagicLinkToken_def db_defs tbl_find_delete)

interpretation par: keyed_store db_open GetPARRequest DeletePARRequest
  by unfold_locales (auto simp: GetPARRequest_def DeletePARRequest_def db_defs tbl_find_delete)

interpretation reset: keyed_store db_open GetPasswordResetToken DeletePasswordResetToken
  by unfold_locales (auto simp: GetPasswordResetToken_def DeletePasswordResetToken_def db_defs tbl_find_delete)

interpretation refresh: keyed_store db_open GetRefreshToken DeleteRefreshToken
  by unfold_locales (auto simp: GetRefreshToken_def DeleteRefreshToken_def db_defs tbl_find_delete)

interpretation session: keyed_store db_open GetSession DeleteSession
  by unfold_locales (auto simp: GetSession_def DeleteSession_def db_defs tbl_find_delete)

interpretation device: keyed_store db_open GetDeviceCode DeleteDeviceCode
  by unfold_locales (auto simp: GetDeviceCode_def DeleteDeviceCode_def db_defs tbl_find_delete)

interpretation totp: keyed_store db_open GetTOTPCredential DeleteTOTPCredential
  by unfold_locales (auto simp: GetTOTPCredential_def DeleteTOTPCredential_def db_defs tbl_find_delete)

interpretation duress: keyed_store db_open GetDuressHash DeleteDuressConfig
  by unfold_locales (auto simp: GetDuressHash_def DeleteDuressConfig_def db_defs tbl_find_delete)

interpretation password: keyed_store db_open GetPasswordHash DeletePasswordHash
  by unfold_locales (auto simp: GetPasswordHash_def DeletePasswordHash_def db_defs tbl_find_delete)

interpretation grant: keyed_store db_open GetGrant DeleteGrant
  by unfold_locales (auto simp: GetGrant_def DeleteGrant_def db_defs tbl_find_delete)

interpretation passkey: keyed_store db_open GetWebAuthnCredential DeleteWebAuthnCredential
  by unfold_locales (auto simp: GetWebAuthnCredential_def DeleteWebAuthnCredential_def db_defs tbl_find_delete)

interpretation client: keyed_store db_open GetClient DeleteClient
  by unfold_locales (auto simp: GetClient_def DeleteClient_def db_defs tbl_find_delete)

end
