(* ===== verification/Sqlite_Inv.thy ===== *)
theory Sqlite_Inv
  imports Sqlite
begin

text \<open>
  The invariant of the database and its preservation by every operation, closed databases, and what the
  failure counter locks.
\<close>

section \<open>Primary keys stay unique\<close>

text \<open>The invariant of the database: the primary keys of every table, the user codes of the device
  grants, and the audit counter as an upper bound of the sequence numbers.\<close>

definition db_ok :: "db \<Rightarrow> bool" where
  "db_ok s \<longleftrightarrow>
     distinct (map idn_DID (t_identities s)) \<and>
     distinct (map dr_did (t_documents s)) \<and>
     distinct (map crow_id (t_credentials s)) \<and>
     distinct (map gr_ID (t_grants s)) \<and>
     distinct (map rc_ID (t_receipts s)) \<and>
     distinct (map ses_ID (t_sessions s)) \<and>
     distinct (map cli_ClientID (t_clients s)) \<and>
     distinct (map rt_Hash (t_refresh s)) \<and>
     distinct (map link_key (t_links s)) \<and>
     distinct (map ml_Hash (t_magic s)) \<and>
     distinct (map wa_CredentialID (t_webauthn s)) \<and>
     distinct (map tc_SubjectDID (t_totp s)) \<and>
     distinct (map wh_ID (t_webhooks s)) \<and>
     distinct (map af_subject_or_email (t_failures s)) \<and>
     distinct (map pw_identifier (t_passwords s)) \<and>
     distinct (map du_subject_did (t_duress s)) \<and>
     distinct (map ae_Seq (t_audit s)) \<and>
     distinct (map rcf_SubjectDID (t_recovery s)) \<and>
     distinct (map rr_ID (t_requests s)) \<and>
     distinct (map share_key (t_shares s)) \<and>
     distinct (map par_RequestURI (t_par s)) \<and>
     distinct (map dc_DeviceCode (t_devices s)) \<and>
     distinct (map pr_Hash (t_resets s)) \<and>
     distinct (map pd_ID (t_disclosures s)) \<and>
     distinct (map of_ID (t_offers s)) \<and>
     distinct (map dc_UserCode (t_devices s)) \<and>
     sorted (map ae_Seq (t_audit s)) \<and> list_all (\<lambda>e. ae_Seq e \<le> t_audit_seq s) (t_audit s)"

text \<open>One write operation of the store.\<close>

inductive store_step :: "db \<Rightarrow> db \<Rightarrow> bool" where
  st_SaveIdentity: "SaveIdentity a0 s = Inr s' \<Longrightarrow> store_step s s'"
| st_UpdateIdentity: "UpdateIdentity a0 s = Inr s' \<Longrightarrow> store_step s s'"
| st_SaveDocument: "SaveDocument a0 a1 s = Inr s' \<Longrightarrow> store_step s s'"
| st_SaveCredential: "SaveCredential a0 a1 s = Inr s' \<Longrightarrow> store_step s s'"
| st_DeleteCredential: "DeleteCredential a0 s = Inr s' \<Longrightarrow> store_step s s'"
| st_SaveGrant: "SaveGrant a0 s = Inr s' \<Longrightarrow> store_step s s'"
| st_DeleteGrant: "DeleteGrant a0 s = Inr s' \<Longrightarrow> store_step s s'"
| st_SaveReceipt: "SaveReceipt a0 s = Inr s' \<Longrightarrow> store_step s s'"
| st_SaveSession: "SaveSession a0 s = Inr s' \<Longrightarrow> store_step s s'"
| st_DeleteSession: "DeleteSession a0 s = Inr s' \<Longrightarrow> store_step s s'"
| st_PurgeExpiredSessions: "PurgeExpiredSessions a0 s = Inr s' \<Longrightarrow> store_step s s'"
| st_SaveClient: "SaveClient a0 s = Inr s' \<Longrightarrow> store_step s s'"
| st_DeleteClient: "DeleteClient a0 s = Inr s' \<Longrightarrow> store_step s s'"
| st_SaveRefreshToken: "SaveRefreshToken a0 s = Inr s' \<Longrightarrow> store_step s s'"
| st_DeleteRefreshToken: "DeleteRefreshToken a0 s = Inr s' \<Longrightarrow> store_step s s'"
| st_SaveExternalLink: "SaveExternalLink a0 s = Inr s' \<Longrightarrow> store_step s s'"
| st_DeleteExternalLink: "DeleteExternalLink a0 a1 s = Inr s' \<Longrightarrow> store_step s s'"
| st_SaveMagicLinkToken: "SaveMagicLinkToken a0 s = Inr s' \<Longrightarrow> store_step s s'"
| st_DeleteMagicLinkToken: "DeleteMagicLinkToken a0 s = Inr s' \<Longrightarrow> store_step s s'"
| st_SaveWebAuthnCredential: "SaveWebAuthnCredential a0 s = Inr s' \<Longrightarrow> store_step s s'"
| st_UpdateWebAuthnCredential: "UpdateWebAuthnCredential a0 s = Inr s' \<Longrightarrow> store_step s s'"
| st_DeleteWebAuthnCredential: "DeleteWebAuthnCredential a0 s = Inr s' \<Longrightarrow> store_step s s'"
| st_SaveTOTPCredential: "SaveTOTPCredential a0 s = Inr s' \<Longrightarrow> store_step s s'"
| st_DeleteTOTPCredential: "DeleteTOTPCredential a0 s = Inr s' \<Longrightarrow> store_step s s'"
| st_SaveWebhookSubscription: "SaveWebhookSubscription a0 s = Inr s' \<Longrightarrow> store_step s s'"
| st_DeleteWebhookSubscription: "DeleteWebhookSubscription a0 s = Inr s' \<Longrightarrow> store_step s s'"
| st_RecordAuthFailure: "RecordAuthFailure a0 a1 s = Inr s' \<Longrightarrow> store_step s s'"
| st_ClearAuthFailures: "ClearAuthFailures a0 s = Inr s' \<Longrightarrow> store_step s s'"
| st_SaveDuressConfig: "SaveDuressConfig a0 a1 a2 s = Inr s' \<Longrightarrow> store_step s s'"
| st_DeleteDuressConfig: "DeleteDuressConfig a0 s = Inr s' \<Longrightarrow> store_step s s'"
| st_AppendAuditEvent: "AppendAuditEvent a0 a1 a2 a3 a4 s = Inr (e, s') \<Longrightarrow> store_step s s'"
| st_SaveRecoveryConfig: "SaveRecoveryConfig a0 a1 s = Inr s' \<Longrightarrow> store_step s s'"
| st_DeleteRecoveryConfig: "DeleteRecoveryConfig a0 s = Inr s' \<Longrightarrow> store_step s s'"
| st_SaveRecoveryRequest: "SaveRecoveryRequest a0 a1 s = Inr s' \<Longrightarrow> store_step s s'"
| st_UpdateRecoveryRequest: "UpdateRecoveryRequest a0 s = Inr s' \<Longrightarrow> store_step s s'"
| st_SaveRecoveryShare: "SaveRecoveryShare a0 a1 s = Inr s' \<Longrightarrow> store_step s s'"
| st_SavePasswordHash: "SavePasswordHash a0 a1 a2 s = Inr s' \<Longrightarrow> store_step s s'"
| st_DeletePasswordHash: "DeletePasswordHash a0 s = Inr s' \<Longrightarrow> store_step s s'"
| st_SavePARRequest: "SavePARRequest a0 s = Inr s' \<Longrightarrow> store_step s s'"
| st_DeletePARRequest: "DeletePARRequest a0 s = Inr s' \<Longrightarrow> store_step s s'"
| st_SaveDeviceCode: "SaveDeviceCode a0 s = Inr s' \<Longrightarrow> store_step s s'"
| st_UpdateDeviceCode: "UpdateDeviceCode a0 s = Inr s' \<Longrightarrow> store_step s s'"
| st_DeleteDeviceCode: "DeleteDeviceCode a0 s = Inr s' \<Longrightarrow> store_step s s'"
| st_SavePasswordResetToken: "SavePasswordResetToken a0 s = Inr s' \<Longrightarrow> store_step s s'"
| st_DeletePasswordResetToken: "DeletePasswordResetToken a0 s = Inr s' \<Longrightarrow> store_step s s'"
| st_RecordDisclosure: "RecordDisclosure a0 s = Inr s' \<Longrightarrow> store_step s s'"
| st_SaveCredentialOffer: "SaveCredentialOffer a0 s = Inr s' \<Longrightarrow> store_step s s'"
| st_MarkCredentialOfferUsed: "MarkCredentialOfferUsed a0 s = Inr s' \<Longrightarrow> store_step s s'"
| st_Close: "store_step s (store_Close s)"

inductive_cases store_stepE: "store_step s s'"

lemma tbl_update_map: "(\<And>r. g (f r) = g r) \<Longrightarrow> map g (tbl_update key k f rows) = map g rows"
  by (auto simp: tbl_update_def)

lemmas tbl_distinct = tbl_update_keys tbl_upsert_keys tbl_delete_keys

lemma tbl_insert_Inr: "tbl_insert key r rows = Inr rows' \<longleftrightarrow> \<not> tbl_has key (key r) rows \<and> rows' = rows @ [r]"
  by (auto simp: tbl_insert_def)

lemmas store_op_defs =
  SaveIdentity_def UpdateIdentity_def SaveDocument_def SaveCredential_def DeleteCredential_def
  SaveGrant_def DeleteGrant_def SaveReceipt_def SaveSession_def DeleteSession_def
  PurgeExpiredSessions_def SaveClient_def DeleteClient_def SaveRefreshToken_def DeleteRefreshToken_def
  SaveExternalLink_def DeleteExternalLink_def SaveMagicLinkToken_def DeleteMagicLinkToken_def
  SaveWebAuthnCredential_def UpdateWebAuthnCredential_def DeleteWebAuthnCredential_def
  SaveTOTPCredential_def DeleteTOTPCredential_def SaveWebhookSubscription_def
  DeleteWebhookSubscription_def RecordAuthFailure_def ClearAuthFailures_def SaveDuressConfig_def
  DeleteDuressConfig_def AppendAuditEvent_def SaveRecoveryConfig_def DeleteRecoveryConfig_def
  SaveRecoveryRequest_def UpdateRecoveryRequest_def SaveRecoveryShare_def SavePasswordHash_def
  DeletePasswordHash_def SavePARRequest_def DeletePARRequest_def SaveDeviceCode_def UpdateDeviceCode_def
  DeleteDeviceCode_def SavePasswordResetToken_def DeletePasswordResetToken_def RecordDisclosure_def
  SaveCredentialOffer_def MarkCredentialOfferUsed_def
  store_Close_def

lemma db_okD:
  assumes "db_ok s"
  shows "distinct (map idn_DID (t_identities s))"
    "distinct (map dr_did (t_documents s))"
    "distinct (map crow_id (t_credentials s))"
    "distinct (map gr_ID (t_grants s))"
    "distinct (map rc_ID (t_receipts s))"
    "distinct (map ses_ID (t_sessions s))"
    "distinct (map cli_ClientID (t_clients s))"
    "distinct (map rt_Hash (t_refresh s))"
    "distinct (map link_key (t_links s))"
    "distinct (map ml_Hash (t_magic s))"
    "distinct (map wa_CredentialID (t_webauthn s))"
    "distinct (map tc_SubjectDID (t_totp s))"
    "distinct (map wh_ID (t_webhooks s))"
    "distinct (map af_subject_or_email (t_failures s))"
    "distinct (map pw_identifier (t_passwords s))"
    "distinct (map du_subject_did (t_duress s))"
    "distinct (map ae_Seq (t_audit s))"
    "distinct (map rcf_SubjectDID (t_recovery s))"
    "distinct (map rr_ID (t_requests s))"
    "distinct (map share_key (t_shares s))"
    "distinct (map par_RequestURI (t_par s))"
    "distinct (map dc_DeviceCode (t_devices s))"
    "distinct (map pr_Hash (t_resets s))"
    "distinct (map pd_ID (t_disclosures s))"
    "distinct (map of_ID (t_offers s))"
    "distinct (map dc_UserCode (t_devices s))"
  using assms unfolding db_ok_def by simp_all

lemma db_ok_upd:
  assumes "db_ok s"
  shows "distinct (map idn_DID (f0 (t_identities s))) \<Longrightarrow> db_ok (t_identities_update f0 s)"
    "distinct (map dr_did (f1 (t_documents s))) \<Longrightarrow> db_ok (t_documents_update f1 s)"
    "distinct (map crow_id (f2 (t_credentials s))) \<Longrightarrow> db_ok (t_credentials_update f2 s)"
    "distinct (map gr_ID (f3 (t_grants s))) \<Longrightarrow> db_ok (t_grants_update f3 s)"
    "distinct (map rc_ID (f4 (t_receipts s))) \<Longrightarrow> db_ok (t_receipts_update f4 s)"
    "distinct (map ses_ID (f5 (t_sessions s))) \<Longrightarrow> db_ok (t_sessions_update f5 s)"
    "distinct (map cli_ClientID (f6 (t_clients s))) \<Longrightarrow> db_ok (t_clients_update f6 s)"
    "distinct (map rt_Hash (f7 (t_refresh s))) \<Longrightarrow> db_ok (t_refresh_update f7 s)"
    "distinct (map link_key (f8 (t_links s))) \<Longrightarrow> db_ok (t_links_update f8 s)"
    "distinct (map ml_Hash (f9 (t_magic s))) \<Longrightarrow> db_ok (t_magic_update f9 s)"
    "distinct (map wa_CredentialID (f10 (t_webauthn s))) \<Longrightarrow> db_ok (t_webauthn_update f10 s)"
    "distinct (map tc_SubjectDID (f11 (t_totp s))) \<Longrightarrow> db_ok (t_totp_update f11 s)"
    "distinct (map wh_ID (f12 (t_webhooks s))) \<Longrightarrow> db_ok (t_webhooks_update f12 s)"
    "distinct (map af_subject_or_email (f13 (t_failures s))) \<Longrightarrow> db_ok (t_failures_update f13 s)"
    "distinct (map pw_identifier (f14 (t_passwords s))) \<Longrightarrow> db_ok (t_passwords_update f14 s)"
    "distinct (map du_subject_did (f15 (t_duress s))) \<Longrightarrow> db_ok (t_duress_update f15 s)"
    "distinct (map rcf_SubjectDID (f17 (t_recovery s))) \<Longrightarrow> db_ok (t_recovery_update f17 s)"
    "distinct (map rr_ID (f18 (t_requests s))) \<Longrightarrow> db_ok (t_requests_update f18 s)"
    "distinct (map share_key (f19 (t_shares s))) \<Longrightarrow> db_ok (t_shares_update f19 s)"
    "distinct (map par_RequestURI (f20 (t_par s))) \<Longrightarrow> db_ok (t_par_update f20 s)"
    "distinct (map pr_Hash (f22 (t_resets s))) \<Longrightarrow> db_ok (t_resets_update f22 s)"
    "distinct (map pd_ID (f23 (t_disclosures s))) \<Longrightarrow> db_ok (t_disclosures_update f23 s)"
    "distinct (map of_ID (f24 (t_offers s))) \<Longrightarrow> db_ok (t_offers_update f24 s)"
    "distinct (map dc_DeviceCode (g (t_devices s))) \<Longrightarrow> distinct (map dc_UserCode (g (t_devices s))) \<Longrightarrow> db_ok (t_devices_update g s)"
    "db_ok (s\<lparr>t_closed := b\<rparr>)"
  using assms unfolding db_ok_def by simp_all

lemma tbl_insert_distinct: "distinct (map key rows) \<Longrightarrow> \<not> tbl_has key (key r) rows \<Longrightarrow> distinct (map key (rows @ [r]))"
  by (auto simp: tbl_has_iff)

lemma distinct_map_delete: "distinct (map g rows) \<Longrightarrow> distinct (map g (tbl_delete key k rows))"
  by (simp add: tbl_delete_def distinct_map_filter)

lemma distinct_map_update: "(\<And>r. g (f r) = g r) \<Longrightarrow> distinct (map g rows) \<Longrightarrow> distinct (map g (tbl_update key k f rows))"
  by (simp only: tbl_update_map)

lemma db_ok_AppendAuditEvent:
  assumes "AppendAuditEvent P now et pl ph s = Inr (e, s')" "db_ok s"
  shows "db_ok s'"
proof -
  have "ae_Seq x \<le> t_audit_seq s" if "x \<in> set (t_audit s)" for x
    using assms(2) that by (simp add: db_ok_def list_all_iff)
  then have "t_audit_seq s + 1 \<noteq> ae_Seq x \<and> ae_Seq x \<le> t_audit_seq s + 1" if "x \<in> set (t_audit s)" for x
    using that by force
  moreover have "s' = s\<lparr>t_audit := t_audit s @ [e\<lparr>ae_Timestamp := current_timestamp now\<rparr>], t_audit_seq := t_audit_seq s + 1\<rparr>"
      "ae_Seq e = t_audit_seq s + 1"
    using assms(1) by (auto simp: AppendAuditEvent_def Let_def split: if_splits)
  ultimately show ?thesis
    using assms(2) by (auto simp: db_ok_def sorted_append list_all_iff image_iff)
qed

lemma db_ok_step: "store_step s s' \<Longrightarrow> db_ok s \<Longrightarrow> db_ok s'"
proof (induction rule: store_step.induct)
  case (st_AppendAuditEvent P now et pl ph s e s')
  then show ?case by (rule db_ok_AppendAuditEvent)
next
  case (st_SaveRecoveryShare now sh s s')
  then show ?case
    by (auto simp: SaveRecoveryShare_def db_defs tbl_has_iff share_key_def db_okD split: if_splits intro!: db_ok_upd)
qed (auto simp: store_op_defs db_defs Let_def tbl_insert_Inr link_key_def distinct_map_filter db_okD
      split: if_splits sum.splits
      intro!: db_ok_upd tbl_insert_distinct tbl_upsert_keys distinct_map_delete distinct_map_update)

lemma db_ok_OpenSQLite: "db_ok OpenSQLite"
  by (simp add: db_ok_def OpenSQLite_def)

lemma db_ok_reachable: "store_step\<^sup>*\<^sup>* OpenSQLite s \<Longrightarrow> db_ok s"
  by (induction rule: rtranclp_induct) (simp_all add: db_ok_OpenSQLite db_ok_step)

lemma tbl_find_row: "distinct (map key rows) \<Longrightarrow> r \<in> set rows \<Longrightarrow> tbl_find key (key r) rows = Inr r"
  by (induction rows) (auto simp: tbl_find_def)

text \<open>C31: in every database that the operations of the store can reach, primary keys are unique, so that
  each session, refresh token, client, grant and device code that is stored is the one its key finds.\<close>

theorem store_keys_unique:
  assumes "store_step\<^sup>*\<^sup>* OpenSQLite s"
  shows "db_ok s \<and> (t_closed s \<or>
     list_all (\<lambda>r. GetSession (ses_ID r) s = Inr r) (t_sessions s) \<and>
     list_all (\<lambda>r. GetRefreshToken (rt_Hash r) s = Inr r) (t_refresh s) \<and>
     list_all (\<lambda>r. GetClient (cli_ClientID r) s = Inr r) (t_clients s) \<and>
     list_all (\<lambda>r. GetGrant (gr_ID r) s = Inr r) (t_grants s) \<and>
     list_all (\<lambda>r. GetDeviceCode (dc_DeviceCode r) s = Inr r \<and> GetDeviceCodeByUserCode (dc_UserCode r) s = Inr r) (t_devices s))"
proof -
  have ok: "db_ok s" using assms by (rule db_ok_reachable)
  then show ?thesis
    by (auto simp: db_ok_def list_all_iff db_defs tbl_find_row GetSession_def GetRefreshToken_def GetClient_def
        GetGrant_def GetDeviceCode_def GetDeviceCodeByUserCode_def)
qed

text \<open>After \<open>Close\<close> no operation changes the database any more, and reads fail.\<close>

theorem closed_store_frozen:
  assumes "store_step s s'" "t_closed s"
  shows "s' = s \<and> GetSession k s = Inl ErrClosed \<and> GetRefreshToken k s = Inl ErrClosed \<and>
         GetAuthFailures k s = Inl ErrClosed \<and> GetAuditHead s = Inl ErrClosed"
proof -
  have "s' = s" using assms
    by (cases rule: store_step.cases) (auto simp: store_op_defs db_defs Let_def split: if_splits)
  with assms(2) show ?thesis
    by (simp add: GetSession_def GetRefreshToken_def GetAuthFailures_def GetAuditHead_def db_defs)
qed

section \<open>Failure counting\<close>

fun record_failures :: "instant list \<Rightarrow> string \<Rightarrow> db \<Rightarrow> store_error + db" where
  "record_failures [] who s = Inr s"
| "record_failures (t # ts) who s =
     (case RecordAuthFailure t who s of Inl e \<Rightarrow> Inl e | Inr s' \<Rightarrow> record_failures ts who s')"

lemma RecordAuthFailure_effect:
  assumes "db_open s" "GetAuthFailures who s = Inr (n, l)"
  shows "\<exists>s'. RecordAuthFailure now who s = Inr s' \<and> db_open s' \<and>
     GetAuthFailures who s' = Inr (n + 1, map_option (\<lambda>d. now + d) (lock_duration (n + 1))) \<and>
     (\<forall>w. w \<noteq> who \<longrightarrow> GetAuthFailures w s' = GetAuthFailures w s)"
proof (cases "tbl_find af_subject_or_email who (t_failures s)")
  case (Inl e)
  then have e: "e = ErrNoRows" by (simp add: tbl_find_Inl)
  with assms Inl show ?thesis
    by (auto simp: RecordAuthFailure_def GetAuthFailures_def db_defs tbl_find_upsert Let_def)
next
  case (Inr r)
  with assms show ?thesis
    by (auto simp: RecordAuthFailure_def GetAuthFailures_def db_defs tbl_find_upsert Let_def)
qed

lemma record_failures_effect:
  assumes "db_open s" "GetAuthFailures who s = Inr (n, l)" "ts \<noteq> []"
  shows "\<exists>s'. record_failures ts who s = Inr s' \<and>
     GetAuthFailures who s' = (let m = n + int (length ts) in Inr (m,
       if m \<ge> 20 then Some (last ts + 876000 * hour) else if m \<ge> 10 then Some (last ts + 30 * minute)
       else if m \<ge> 5 then Some (last ts + 5 * minute) else None)) \<and>
     (\<forall>w. w \<noteq> who \<longrightarrow> GetAuthFailures w s' = GetAuthFailures w s)"
  using assms
proof (induction ts arbitrary: s n l)
  case (Cons t ts)
  obtain s1 where s1: "RecordAuthFailure t who s = Inr s1" "db_open s1"
      "GetAuthFailures who s1 = Inr (n + 1, map_option (\<lambda>d. t + d) (lock_duration (n + 1)))"
      "\<And>w. w \<noteq> who \<Longrightarrow> GetAuthFailures w s1 = GetAuthFailures w s"
    using RecordAuthFailure_effect [OF Cons.prems(1,2), of t] by blast
  show ?case
  proof (cases "ts = []")
    case True
    with s1 show ?thesis by (auto simp: lock_duration_def Let_def)
  next
    case False
    from Cons.IH [OF s1(2,3) False] s1 False show ?thesis
      by (auto simp: Let_def algebra_simps)
  qed
qed simp

text \<open>Brute-force protection.  After any sequence of failures the counter has grown by their number
  and the account is locked for five minutes from the fifth, thirty minutes from the tenth and a
  century from the twentieth, counted from the last failure; other accounts are not affected.\<close>

theorem lockout_progression:
  assumes "db_open s" "GetAuthFailures who s = Inr (n, l)" "ts \<noteq> []"
  shows "\<exists>s'. record_failures ts who s = Inr s' \<and>
     GetAuthFailures who s' = (let m = n + int (length ts) in Inr (m,
       if m \<ge> 20 then Some (last ts + 876000 * hour) else if m \<ge> 10 then Some (last ts + 30 * minute)
       else if m \<ge> 5 then Some (last ts + 5 * minute) else None)) \<and>
     (\<forall>w. w \<noteq> who \<longrightarrow> GetAuthFailures w s' = GetAuthFailures w s)"
  using record_failures_effect [OF assms] .

text \<open>The query for expiring grants names a column that the table does not have, so it fails on every
  open database.\<close>

theorem ListExpiringGrants_fails:
  "ListExpiringGrants now within s = (if t_closed s then Inl ErrClosed else Inl (ErrNoColumn ''revoked_at''))"
  by (simp add: ListExpiringGrants_def db_read_def consent_grants_columns_def)

section \<open>Witnesses\<close>

definition demo_refresh :: refresh_token where
  "demo_refresh = \<lparr>rt_Hash = ''h'', rt_SubjectDID = ''did:web:a'', rt_ClientID = ''c'', rt_Scope = ''openid'',
     rt_IssuedAt = 0, rt_ExpiresAt = 10, rt_UsedAt = None\<rparr>"

theorem store_keys_unique_witness:
  "\<exists>s. SaveRefreshToken demo_refresh OpenSQLite = Inr s \<and> GetRefreshToken ''h'' s = Inr demo_refresh"
proof -
  obtain s where s: "SaveRefreshToken demo_refresh OpenSQLite = Inr s" "t_refresh s = [demo_refresh]" "\<not> t_closed s"
    by (simp add: SaveRefreshToken_def db_write_def OpenSQLite_def tbl_upsert_def tbl_has_def)
  have "store_step\<^sup>*\<^sup>* OpenSQLite s" using st_SaveRefreshToken [OF s(1)] by blast
  from store_keys_unique [OF this] s show ?thesis by (simp add: demo_refresh_def)
qed

theorem closed_store_frozen_witness:
  "store_Close (store_Close OpenSQLite) = store_Close OpenSQLite \<and> GetSession ''x'' (store_Close OpenSQLite) = Inl ErrClosed"
  using closed_store_frozen [OF st_Close [of "store_Close OpenSQLite"], of "''x''"] by (simp add: store_Close_def)

theorem lockout_progression_witness:
  "\<exists>s. record_failures [1, 2, 3, 4, 5] ''a'' OpenSQLite = Inr s \<and>
     GetAuthFailures ''a'' s = Inr (5, Some (5 + 5 * minute)) \<and> GetAuthFailures ''b'' s = Inr (0, None)"
proof -
  have "db_open OpenSQLite" "GetAuthFailures w OpenSQLite = Inr (0, None)" for w
    by (simp_all add: db_open_def OpenSQLite_def GetAuthFailures_def db_read_def tbl_find_def)
  from lockout_progression [OF this, of "[1, 2, 3, 4, 5]" "''a''"] this(2) [of "''b''"] show ?thesis
    by (auto simp: Let_def simp del: record_failures.simps)
qed

end
