(* ===== verification/Json_Decode.thy ===== *)
theory Json_Decode
  imports Go_Json
begin

text \<open>
  Reading JSON.  The code decodes with \<^verbatim>\<open>json.Unmarshal\<close>, whose full input language (white space, every
  number format, surrogate pairs) is wider than what its own encoder writes; the definitions that decode
  therefore take the decoder as an argument and rely on one law, \<open>decodes\<close>: it reads back what
  \<^verbatim>\<open>json.Marshal\<close> wrote.  \<open>json_read\<close> is an executable decoder that has it.
\<close>

type_synonym json_decoder = "string \<Rightarrow> json option"

definition decodes :: "json_decoder \<Rightarrow> bool" where
  "decodes J \<longleftrightarrow> (\<forall>v. J (json_marshal v) = Some v)"

section \<open>A decoder of the encoder's output\<close>

function read_str :: "string \<Rightarrow> (string \<times> string) option" where
  "read_str s =
     (if s = [] then None
      else if hd s = CHR 0x22 then Some ([], tl s)
      else let (c, r) = json_unesc s in
        if length r < length s
        then (case read_str r of None \<Rightarrow> None | Some (t, r') \<Rightarrow> Some (c # t, r'))
        else None)"
  by pat_completeness auto
termination
  by (relation "measure length") auto

declare read_str.simps [simp del]

fun read_value :: "nat \<Rightarrow> string \<Rightarrow> (json \<times> string) option"
  and read_items :: "nat \<Rightarrow> string \<Rightarrow> (json list \<times> string) option"
  and read_members :: "nat \<Rightarrow> string \<Rightarrow> ((string \<times> json) list \<times> string) option" where
  "read_value 0 s = None"
| "read_value (Suc n) s =
     (if s = [] then None
      else if hd s = CHR 0x22 then map_option (\<lambda>(t, r). (JStr t, r)) (read_str (tl s))
      else if hd s = CHR ''['' then
        (if take 1 (tl s) = '']'' then Some (JArr [], drop 2 s)
         else map_option (\<lambda>(vs, r). (JArr vs, r)) (read_items n (tl s)))
      else if hd s = CHR ''{'' then
        (if take 1 (tl s) = ''}'' then Some (JObj [], drop 2 s)
         else map_option (\<lambda>(kvs, r). (JObj kvs, r)) (read_members n (tl s)))
      else if take 4 s = ''null'' then Some (JNull, drop 4 s)
      else if take 4 s = ''true'' then Some (JBool True, drop 4 s)
      else if take 5 s = ''false'' then Some (JBool False, drop 5 s)
      else let d = takeWhile num_char s in
        (if d = [] then None
         else if hd d = CHR ''-'' then Some (JNum (- int (read_nat 0 (tl d))), drop (length d) s)
         else Some (JNum (int (read_nat 0 d)), drop (length d) s)))"
| "read_items 0 s = None"
| "read_items (Suc n) s =
     (case read_value n s of
        None \<Rightarrow> None
      | Some (v, r) \<Rightarrow>
          if take 1 r = '','' then map_option (\<lambda>(vs, r'). (v # vs, r')) (read_items n (tl r))
          else if take 1 r = '']'' then Some ([v], tl r) else None)"
| "read_members 0 s = None"
| "read_members (Suc n) s =
     (if take 1 s \<noteq> [CHR 0x22] then None
      else case read_str (tl s) of
        None \<Rightarrow> None
      | Some (k, r) \<Rightarrow>
          if take 1 r \<noteq> '':'' then None
          else case read_value n (tl r) of
            None \<Rightarrow> None
          | Some (v, r') \<Rightarrow>
              if take 1 r' = '','' then map_option (\<lambda>(kvs, r''). ((k, v) # kvs, r'')) (read_members n (tl r'))
              else if take 1 r' = ''}'' then Some ([(k, v)], tl r') else None)"

definition json_read :: json_decoder where
  "json_read s = (case read_value (Suc (length s)) s of Some (v, []) \<Rightarrow> Some v | _ \<Rightarrow> None)"

section \<open>It inverts the encoder\<close>

lemma read_str_quote: "read_str (concat (map json_esc s) @ CHR 0x22 # r) = Some (s, r)"
proof (induction s)
  case Nil
  then show ?case by (subst read_str.simps) simp
next
  case (Cons c s)
  let ?t = "concat (map json_esc s) @ CHR 0x22 # r"
  have h: "json_esc c @ ?t \<noteq> []" "hd (json_esc c @ ?t) \<noteq> CHR 0x22"
    using json_esc_no_quote(1,3) [where c = c] by (cases "json_esc c"; auto)+
  have "length ?t < length (json_esc c @ ?t)" using json_esc_no_quote(3) [where c = c] by simp
  with h json_unesc_esc [of c ?t] Cons show ?case
    by (subst read_str.simps) simp
qed

lemma read_num:
  assumes "json_delim r"
  shows "read_value (Suc n) (itoa i @ r) = Some (JNum i, r)"
proof -
  have stop: "takeWhile num_char r = []"
    using assms by (cases r) (auto simp: json_delim_def num_char_def is_digit_def)
  have d: "takeWhile num_char (itoa i @ r) = itoa i"
    using itoa_num_chars(1) [of i] stop by (simp add: list_all_iff takeWhile_append2)
  obtain c t where c: "itoa i = c # t" "num_char c"
    using itoa_num_chars [of i] by (cases "itoa i") auto
  have nc: "c \<notin> {CHR 0x22, CHR ''['', CHR ''{'', CHR ''n'', CHR ''t'', CHR ''f''}"
    using c(2) by (auto simp: num_char_def is_digit_def)
  have v: "(if hd (itoa i) = CHR ''-'' then - int (read_nat 0 (tl (itoa i))) else int (read_nat 0 (itoa i))) = i"
    using hd_show_nat(1) [of "nat i"] by (auto simp: itoa_def)
  show ?thesis
  proof (cases "c = CHR ''-''")
    case True
    with c nc d v show ?thesis by (simp add: Let_def)
  next
    case False
    with c nc d v show ?thesis by (simp add: Let_def)
  qed
qed

lemma join_cons: "ws \<noteq> [] \<Longrightarrow> join sep (w # ws) = w @ sep @ join sep ws"
  by (cases ws) simp_all

lemma json_delim_cons: "json_delim ('','' @ r)" "json_delim ('']'' @ r)" "json_delim (''}'' @ r)"
  by (simp_all add: json_delim_def)

lemma read_items_join:
  assumes "\<And>v n r. v \<in> set vs \<Longrightarrow> json_delim r \<Longrightarrow> length (json_marshal v) < n \<Longrightarrow>
      read_value n (json_marshal v @ r) = Some (v, r)"
    and "vs \<noteq> []" "length (join '','' (map json_marshal vs)) + 1 < n"
  shows "read_items n (join '','' (map json_marshal vs) @ '']'' @ r) = Some (vs, r)"
  using assms
proof (induction vs arbitrary: n)
  case (Cons v vs)
  from Cons.prems(3) obtain m where n: "n = Suc m" by (cases n) auto
  show ?case
  proof (cases "vs = []")
    case True
    with Cons.prems(1) [of v "'']'' @ r" m] Cons.prems(3) n show ?thesis by (simp add: json_delim_def)
  next
    case False
    then have j: "join '','' (map json_marshal (v # vs)) = json_marshal v @ '','' @ join '','' (map json_marshal vs)"
      by (simp add: join_cons)
    have "read_value m (json_marshal v @ '','' @ join '','' (map json_marshal vs) @ '']'' @ r) =
        Some (v, '','' @ join '','' (map json_marshal vs) @ '']'' @ r)"
      by (rule Cons.prems(1)) (use Cons.prems(3) n j in \<open>auto simp: json_delim_def\<close>)
    moreover have "read_items m (join '','' (map json_marshal vs) @ '']'' @ r) = Some (vs, r)"
      by (rule Cons.IH) (use Cons.prems n j False in auto)
    ultimately show ?thesis unfolding j n by simp
  qed
qed simp

lemma read_members_join:
  assumes "\<And>k v n r. (k, v) \<in> set kvs \<Longrightarrow> json_delim r \<Longrightarrow> length (json_marshal v) < n \<Longrightarrow>
      read_value n (json_marshal v @ r) = Some (v, r)"
    and "kvs \<noteq> []" "length (join '','' (map (\<lambda>(k, v). json_quote k @ '':'' @ json_marshal v) kvs)) + 1 < n"
  shows "read_members n (join '','' (map (\<lambda>(k, v). json_quote k @ '':'' @ json_marshal v) kvs) @ ''}'' @ r) = Some (kvs, r)"
  using assms
proof (induction kvs arbitrary: n)
  case (Cons kv kvs)
  obtain k v where kv: "kv = (k, v)" by force
  let ?f = "\<lambda>(k, v). json_quote k @ '':'' @ json_marshal v"
  from Cons.prems(3) obtain m where n: "n = Suc m" by (cases n) auto
  have q: "read_str (concat (map json_esc k) @ CHR 0x22 # '':'' @ t) = Some (k, '':'' @ t)" for t
    by (rule read_str_quote)
  show ?case
  proof (cases "kvs = []")
    case True
    have "read_value m (json_marshal v @ ''}'' @ r) = Some (v, ''}'' @ r)"
      by (rule Cons.prems(1)) (use Cons.prems(3) n kv True in \<open>auto simp: json_delim_def\<close>)
    with q [of "json_marshal v @ ''}'' @ r"] True show ?thesis
      by (simp add: n kv json_quote_def)
  next
    case False
    then have j: "join '','' (map ?f (kv # kvs)) = json_quote k @ '':'' @ json_marshal v @ '','' @ join '','' (map ?f kvs)"
      by (simp add: join_cons kv)
    have a: "read_value m (json_marshal v @ '','' @ join '','' (map ?f kvs) @ ''}'' @ r) =
        Some (v, '','' @ join '','' (map ?f kvs) @ ''}'' @ r)"
      by (rule Cons.prems(1)) (use Cons.prems(3) n j kv in \<open>auto simp: json_delim_def\<close>)
    have "read_members m (join '','' (map ?f kvs) @ ''}'' @ r) = Some (kvs, r)"
      by (rule Cons.IH) (use Cons.prems n j False in auto)
    with a q [of "json_marshal v @ '','' @ join '','' (map ?f kvs) @ ''}'' @ r"] show ?thesis
      unfolding j n json_quote_def [of k] by (simp add: kv)
  qed
qed simp

lemma marshal_head: "take 1 (json_marshal v) \<noteq> '']''"
proof -
  have "hd (show_nat n) \<noteq> CHR '']''" for n
    using show_nat_digits [of n] by (cases "show_nat n") (auto simp: is_digit_def)
  then show ?thesis
    by (cases v) (auto simp: json_quote_def itoa_def take_Suc dest: arg_cong [where f = hd])
qed

lemma join_head: "ws \<noteq> [] \<Longrightarrow> hd ws \<noteq> [] \<Longrightarrow> take 1 (join sep ws @ r) = take 1 (hd ws)"
  by (cases ws; cases "tl ws") (auto simp: neq_Nil_conv)

lemma read_marshal: "json_delim r \<Longrightarrow> length (json_marshal v) < n \<Longrightarrow> read_value n (json_marshal v @ r) = Some (v, r)"
proof (induction v arbitrary: n r rule: json_marshal.induct)
  case (3 i)
  then obtain m where "n = Suc m" by (cases n) auto
  with read_num [OF 3(1)] show ?case by simp
next
  case (4 s)
  then obtain m where "n = Suc m" by (cases n) auto
  with read_str_quote [of s r] show ?case by (simp add: json_quote_def)
next
  case (5 vs)
  then obtain m where n: "n = Suc m" by (cases n) auto
  show ?case
  proof (cases "vs = []")
    case False
    have "read_items m (join '','' (map json_marshal vs) @ '']'' @ r) = Some (vs, r)"
      by (rule read_items_join) (use 5 n False in auto)
    moreover have "take 1 (join '','' (map json_marshal vs) @ '']'' @ r) \<noteq> '']''"
      using False join_head [of "map json_marshal vs" "'',''" "'']'' @ r"] marshal_head [of "hd vs"] json_marshal_ne [of "hd vs"]
      by (simp add: hd_map)
    ultimately show ?thesis by (simp add: n)
  qed (simp add: n)
next
  case (6 kvs)
  then obtain m where n: "n = Suc m" by (cases n) auto
  let ?f = "\<lambda>(k, v). json_quote k @ '':'' @ json_marshal v"
  show ?case
  proof (cases "kvs = []")
    case False
    have "read_members m (join '','' (map ?f kvs) @ ''}'' @ r) = Some (kvs, r)"
      by (rule read_members_join) (use 6 n False in auto)
    moreover have "take 1 (join '','' (map ?f kvs) @ ''}'' @ r) \<noteq> ''}''"
      using False join_head [of "map ?f kvs" "'',''" "''}'' @ r"]
      by (cases "hd kvs") (simp add: hd_map json_quote_def)
    ultimately show ?thesis by (simp add: n)
  qed (simp add: n)
qed (auto simp: gr0_conv_Suc dest!: less_imp_Suc_add)

theorem json_read_marshal: "json_read (json_marshal v) = Some v"
  using read_marshal [of "[]" v "Suc (length (json_marshal v))"] by (simp add: json_read_def json_delim_def)

lemma decodes_json_read: "decodes json_read"
  by (simp add: decodes_def json_read_marshal)

end
