(* ===== verification/Go_Http.thy ===== *)
theory Go_Http
  imports Json_Decode
begin

text \<open>
  What the handlers see of \<^verbatim>\<open>net/http\<close>: a request with its method, parsed form, query, headers, path values and
  JSON body, and the response a handler writes.  \<^verbatim>\<open>r.FormValue\<close>, \<^verbatim>\<open>q.Get\<close> and \<^verbatim>\<open>Header.Get\<close> answer the empty
  string for a missing key.  Response headers other than \<^verbatim>\<open>Location\<close> are left out.
\<close>

record http_request =
  rq_form :: "(string \<times> string) list option"
  rq_query :: "(string \<times> string) list"
  rq_headers :: "(string \<times> string) list"
  rq_basic :: "(string \<times> string) option"
  rq_path :: "(string \<times> string) list"
  rq_body :: "json option"
  rq_remote :: string
  rq_method :: string

definition assoc_get :: "(string \<times> string) list \<Rightarrow> string \<Rightarrow> string" where
  "assoc_get kvs k = (case map_of kvs k of Some v \<Rightarrow> v | None \<Rightarrow> [])"

definition form_value :: "http_request \<Rightarrow> string \<Rightarrow> string" where
  "form_value rq k = (case rq_form rq of None \<Rightarrow> [] | Some f \<Rightarrow> assoc_get f k)"

definition query_get :: "http_request \<Rightarrow> string \<Rightarrow> string" where
  "query_get rq k = assoc_get (rq_query rq) k"

definition header_get :: "http_request \<Rightarrow> string \<Rightarrow> string" where
  "header_get rq k = assoc_get (rq_headers rq) k"

definition path_value :: "http_request \<Rightarrow> string \<Rightarrow> string" where
  "path_value rq k = assoc_get (rq_path rq) k"

text \<open>\<open>RespJSON\<close> is a status and the encoded body, \<open>RespText\<close> is \<^verbatim>\<open>http.Error\<close> or a plain body, and \<open>Redirect\<close> a
  302 to a location.\<close>

datatype response = RespJSON int json | RespText int string | RespEmpty int | Redirect string

fun resp_status :: "response \<Rightarrow> int" where
  "resp_status (RespJSON n _) = n"
| "resp_status (RespText n _) = n"
| "resp_status (RespEmpty n) = n"
| "resp_status (Redirect _) = 302"

section \<open>Members of a decoded object\<close>

text \<open>Decoding into a struct: a member name matches a field without regard to ASCII case, of several matches
  the last one that is not \<^verbatim>\<open>null\<close> counts, an absent member leaves the zero value, and a member of another type is
  an error.\<close>

definition member :: "json \<Rightarrow> string \<Rightarrow> json" where
  "member v k = (case v of
     JObj kvs \<Rightarrow> (case find (\<lambda>(k', x). to_lower k' = to_lower k \<and> x \<noteq> JNull) (rev kvs) of Some (_, x) \<Rightarrow> x | None \<Rightarrow> JNull)
   | _ \<Rightarrow> JNull)"

definition as_struct :: "json \<Rightarrow> bool" where
  "as_struct v = (case v of JObj _ \<Rightarrow> True | JNull \<Rightarrow> True | _ \<Rightarrow> False)"

fun as_string :: "json \<Rightarrow> string option" where
  "as_string JNull = Some []"
| "as_string (JStr s) = Some s"
| "as_string _ = None"

fun as_int64 :: "json \<Rightarrow> int option" where
  "as_int64 JNull = Some 0"
| "as_int64 (JNum n) = (if - (2 ^ 63) \<le> n \<and> n < 2 ^ 63 then Some n else None)"
| "as_int64 _ = None"

fun as_bool :: "json \<Rightarrow> bool option" where
  "as_bool JNull = Some False"
| "as_bool (JBool b) = Some b"
| "as_bool _ = None"

fun as_strings :: "json \<Rightarrow> string list option" where
  "as_strings JNull = Some []"
| "as_strings (JArr vs) = opt_list (map as_string vs)"
| "as_strings _ = None"

text \<open>Decoding into \<^verbatim>\<open>map[string]string\<close>.\<close>

fun as_string_map :: "json \<Rightarrow> (string \<times> string) list option" where
  "as_string_map JNull = Some []"
| "as_string_map (JObj kvs) = opt_list (map (\<lambda>(k, v). map_option (Pair k) (as_string v)) (rev kvs))"
| "as_string_map _ = None"

section \<open>Random text\<close>

text \<open>\<open>n\<close> random bytes in hexadecimal; \<open>None\<close> when the random source fails.\<close>

type_synonym random = "(nat \<Rightarrow> byte) option"

definition random_hex :: "nat \<Rightarrow> random \<Rightarrow> string option" where
  "random_hex n rnd = map_option (\<lambda>f. hex_encode (map f [0..<n])) rnd"

section \<open>Lemmas\<close>

lemma opt_list_map_Some [simp]: "opt_list (map Some xs) = Some xs"
  by (induction xs) auto

lemma as_strings_json [simp]: "as_strings (json_strs xs) = Some xs"
  by (simp add: json_strs_def comp_def)

lemma as_string_map_obj [simp]: "as_string_map (json_str_obj kvs) = Some (rev kvs)"
proof -
  have "map (\<lambda>(k, v). map_option (Pair k) (as_string v)) (rev (map (\<lambda>(k, v). (k, JStr v)) kvs)) = map Some (rev kvs)"
    by (auto simp: rev_map)
  then show ?thesis by (simp only: json_str_obj_def as_string_map.simps opt_list_map_Some)
qed

end
