(* ===== verification/Jwt.thy ===== *)
theory Jwt
  imports Json_Decode Go_Http Crypto
begin

text \<open>
  Signed tokens, \<^verbatim>\<open>src/oidc/jwt.go\<close>: the claims, signing, parsing and verification.  Decoding takes the
  JSON decoder as an argument.
\<close>

section \<open>Claims\<close>

(* src: oidc/jwt.go:13-25 Claims *)
record claims =
  cl_Issuer :: string
  cl_Subject :: string
  cl_Audience :: string
  cl_IssuedAt :: int
  cl_ExpiresAt :: int
  cl_Nonce :: string
  cl_DID :: string
  cl_AMR :: "string list"
  cl_ACR :: string
  cl_TokenType :: string
  cl_Scope :: string

definition jopt :: "string \<Rightarrow> string \<Rightarrow> (string \<times> json) list" where
  "jopt k v = (if v = [] then [] else [(k, JStr v)])"

(* src: oidc/jwt.go:13-25 Claims (encoding) *)
definition claims_json :: "claims \<Rightarrow> json" where
  "claims_json c = JObj (
     [(''iss'', JStr (cl_Issuer c)), (''sub'', JStr (cl_Subject c)), (''aud'', JStr (cl_Audience c)),
      (''iat'', JNum (cl_IssuedAt c)), (''exp'', JNum (cl_ExpiresAt c))] @ jopt ''nonce'' (cl_Nonce c) @
     [(''did'', JStr (cl_DID c))] @ (if cl_AMR c = [] then [] else [(''amr'', json_strs (cl_AMR c))]) @
     jopt ''acr'' (cl_ACR c) @ jopt ''token_type'' (cl_TokenType c) @ jopt ''scope'' (cl_Scope c))"

(* src: oidc/jwt.go:83-87 ParseUnverified (decoding) *)
definition claims_of :: "json \<Rightarrow> claims option" where
  "claims_of v =
     (if \<not> as_struct v then None
      else case (as_string (member v ''iss''), as_string (member v ''sub''), as_string (member v ''aud'')) of
        (Some iss, Some sub, Some aud) \<Rightarrow>
          (case (as_int64 (member v ''iat''), as_int64 (member v ''exp''), as_string (member v ''nonce''),
                 as_string (member v ''did'')) of
             (Some iat, Some exp, Some nonce, Some did) \<Rightarrow>
               (case (as_strings (member v ''amr''), as_string (member v ''acr''),
                      as_string (member v ''token_type''), as_string (member v ''scope'')) of
                  (Some amr, Some acr, Some tt, Some sc) \<Rightarrow>
                    Some \<lparr>cl_Issuer = iss, cl_Subject = sub, cl_Audience = aud, cl_IssuedAt = iat,
                      cl_ExpiresAt = exp, cl_Nonce = nonce, cl_DID = did, cl_AMR = amr, cl_ACR = acr,
                      cl_TokenType = tt, cl_Scope = sc\<rparr>
                | _ \<Rightarrow> None)
           | _ \<Rightarrow> None)
      | _ \<Rightarrow> None)"

section \<open>Signing and verifying\<close>

(* src: oidc/jwt.go:59-71 signJWT *)
definition signJWT :: "prims \<Rightarrow> json \<Rightarrow> byte list \<Rightarrow> string \<Rightarrow> string" where
  "signJWT P payload key keyID =
     (let header = b64_encode (bytes_of (json_marshal (json_str_obj
            [(''alg'', ''EdDSA''), (''kid'', keyID), (''typ'', ''JWT'')])));
          payloadB64 = b64_encode (bytes_of (json_marshal payload));
          sigInput = header @ ''.'' @ payloadB64;
          sig = ed_sign P key (bytes_of sigInput)
      in sigInput @ ''.'' @ b64_encode sig)"

(* src: oidc/jwt.go:28-42 IssueIDToken *)
definition IssueIDToken :: "prims \<Rightarrow> instant \<Rightarrow> string \<Rightarrow> string \<Rightarrow> string \<Rightarrow> string \<Rightarrow> duration \<Rightarrow> byte list
    \<Rightarrow> string list \<Rightarrow> string \<Rightarrow> string" where
  "IssueIDToken P now issuer subjectDID audience nonce ttl key amr keyID =
     signJWT P (claims_json \<lparr>cl_Issuer = issuer, cl_Subject = subjectDID, cl_Audience = audience,
       cl_IssuedAt = unix now, cl_ExpiresAt = unix (now + ttl), cl_Nonce = nonce, cl_DID = subjectDID,
       cl_AMR = amr, cl_ACR = [], cl_TokenType = ''id'', cl_Scope = []\<rparr>) key keyID"

definition access_claims :: "instant \<Rightarrow> string \<Rightarrow> string \<Rightarrow> string \<Rightarrow> duration \<Rightarrow> claims" where
  "access_claims now issuer subjectDID audience ttl =
     \<lparr>cl_Issuer = issuer, cl_Subject = subjectDID, cl_Audience = audience,
       cl_IssuedAt = unix now, cl_ExpiresAt = unix (now + ttl), cl_Nonce = [], cl_DID = subjectDID,
       cl_AMR = [], cl_ACR = [], cl_TokenType = ''access'', cl_Scope = []\<rparr>"

(* src: oidc/jwt.go:45-57 IssueAccessToken *)
definition IssueAccessToken :: "prims \<Rightarrow> instant \<Rightarrow> string \<Rightarrow> string \<Rightarrow> string \<Rightarrow> duration \<Rightarrow> byte list \<Rightarrow> string \<Rightarrow> string" where
  "IssueAccessToken P now issuer subjectDID audience ttl key keyID =
     signJWT P (claims_json (access_claims now issuer subjectDID audience ttl)) key keyID"

datatype jwt_error = ErrMalformed | ErrJwtPayload | ErrJwtUnmarshal | ErrJwtSigEncoding | ErrJwtSignature | ErrJwtExpired
  | ErrJwtHeader

fun jwt_error_text :: "jwt_error \<Rightarrow> string" where
  "jwt_error_text ErrMalformed = ''jwt: malformed token''"
| "jwt_error_text ErrJwtPayload = ''jwt: decode payload''"
| "jwt_error_text ErrJwtUnmarshal = ''jwt: unmarshal''"
| "jwt_error_text ErrJwtSigEncoding = ''jwt: decode signature''"
| "jwt_error_text ErrJwtSignature = ''jwt: invalid signature''"
| "jwt_error_text ErrJwtExpired = ''jwt: token expired''"
| "jwt_error_text ErrJwtHeader = ''jwt: decode header''"

(* src: oidc/jwt.go:74-88 ParseUnverified *)
definition ParseUnverified :: "json_decoder \<Rightarrow> string \<Rightarrow> jwt_error + claims" where
  "ParseUnverified J token =
     (let parts = split_n 3 (CHR ''.'') token in
      if length parts \<noteq> 3 then Inl ErrMalformed
      else case b64_decode (parts ! 1) of
        None \<Rightarrow> Inl ErrJwtPayload
      | Some payload \<Rightarrow>
          (case J (string_of payload) of
             None \<Rightarrow> Inl ErrJwtUnmarshal
           | Some v \<Rightarrow> (case claims_of v of None \<Rightarrow> Inl ErrJwtUnmarshal | Some c \<Rightarrow> Inr c)))"

(* src: oidc/jwt.go:91-111 Verify *)
definition jwt_Verify :: "prims \<Rightarrow> json_decoder \<Rightarrow> instant \<Rightarrow> string \<Rightarrow> byte list \<Rightarrow> jwt_error + claims" where
  "jwt_Verify P J now token pub =
     (let parts = split_n 3 (CHR ''.'') token in
      if length parts \<noteq> 3 then Inl ErrMalformed
      else case b64_decode (parts ! 2) of
        None \<Rightarrow> Inl ErrJwtSigEncoding
      | Some sig \<Rightarrow>
          if \<not> ed_verify P pub (bytes_of (parts ! 0 @ ''.'' @ parts ! 1)) sig then Inl ErrJwtSignature
          else case ParseUnverified J token of
            Inl e \<Rightarrow> Inl e
          | Inr c \<Rightarrow> if unix now > cl_ExpiresAt c then Inl ErrJwtExpired else Inr c)"

text \<open>The payload map of \<open>issueJWTWithExtra\<close>: the base claims with the extra ones put over them.\<close>

(* src: oidc/jwt.go:115-135 issueJWTWithExtra *)
definition issueJWTWithExtra :: "prims \<Rightarrow> instant \<Rightarrow> string \<Rightarrow> string \<Rightarrow> string \<Rightarrow> duration \<Rightarrow> byte list \<Rightarrow> string
    \<Rightarrow> (string \<times> json) list \<Rightarrow> string" where
  "issueJWTWithExtra P now issuer subject clientID ttl key keyID extra =
     (let payload = [(''iss'', JStr issuer), (''sub'', JStr subject), (''aud'', JStr clientID),
            (''iat'', JNum (unix now)), (''exp'', JNum (unix (now + ttl))), (''did'', JStr subject),
            (''token_type'', JStr ''access'')];
          payload = fold (\<lambda>(k, v). map_put k v) extra payload
      in signJWT P (JObj (sort_key fst payload)) key keyID)"

(* src: oidc/jwt.go:138-152 ParseHeader *)
definition ParseHeader :: "json_decoder \<Rightarrow> string \<Rightarrow> jwt_error + (string \<times> string) list" where
  "ParseHeader J token =
     (let parts = split_n 3 (CHR ''.'') token in
      if length parts \<noteq> 3 then Inl ErrMalformed
      else case b64_decode (parts ! 0) of
        None \<Rightarrow> Inl ErrJwtHeader
      | Some raw \<Rightarrow>
          (case J (string_of raw) of
             None \<Rightarrow> Inl ErrJwtUnmarshal
           | Some v \<Rightarrow> (case as_string_map v of None \<Rightarrow> Inl ErrJwtUnmarshal | Some h \<Rightarrow> Inr h)))"

section \<open>Lemmas\<close>

definition int64 :: "int \<Rightarrow> bool" where
  "int64 n \<longleftrightarrow> - (2 ^ 63) \<le> n \<and> n < 2 ^ 63"

lemma find_append: "find Q (xs @ ys) = (case find Q xs of Some x \<Rightarrow> Some x | None \<Rightarrow> find Q ys)"
  by (induction xs) auto

lemma find_jopt: "find Q (jopt k v) = (if v \<noteq> [] \<and> Q (k, JStr v) then Some (k, JStr v) else None)"
  by (simp add: jopt_def)

lemma to_lower_Cons: "to_lower (c # s) = to_lower_char c # to_lower s"
  by (simp add: to_lower_def)

lemma to_lower_Nil: "to_lower [] = []"
  by (simp add: to_lower_def)

lemmas to_lower_simps = to_lower_Nil to_lower_Cons to_lower_char_def

lemma rev_jopt: "rev (jopt k v) = jopt k v"
  by (simp add: jopt_def)

lemma claims_of_json:
  assumes "int64 (cl_IssuedAt c)" "int64 (cl_ExpiresAt c)"
  shows "claims_of (claims_json c) = Some c"
proof -
  let ?v = "claims_json c"
  have m: "member ?v ''iss'' = JStr (cl_Issuer c)" "member ?v ''sub'' = JStr (cl_Subject c)"
    "member ?v ''aud'' = JStr (cl_Audience c)" "member ?v ''iat'' = JNum (cl_IssuedAt c)"
    "member ?v ''exp'' = JNum (cl_ExpiresAt c)" "member ?v ''did'' = JStr (cl_DID c)"
    "as_string (member ?v ''nonce'') = Some (cl_Nonce c)" "as_string (member ?v ''acr'') = Some (cl_ACR c)"
    "as_string (member ?v ''token_type'') = Some (cl_TokenType c)" "as_string (member ?v ''scope'') = Some (cl_Scope c)"
    "as_strings (member ?v ''amr'') = Some (cl_AMR c)"
    by (simp_all add: claims_json_def member_def rev_jopt find_jopt find_append to_lower_simps json_strs_def comp_def)
  have "as_struct ?v" by (simp add: claims_json_def as_struct_def)
  with m assms show ?thesis by (simp add: claims_of_def int64_def)
qed

text \<open>The three parts of a signed token.\<close>

lemma signJWT_split:
  "split_n 3 (CHR ''.'') (signJWT P v key keyID) =
     (let h = b64_encode (bytes_of (json_marshal (json_str_obj [(''alg'', ''EdDSA''), (''kid'', keyID), (''typ'', ''JWT'')])));
          p = b64_encode (bytes_of (json_marshal v))
      in [h, p, b64_encode (ed_sign P key (bytes_of (h @ ''.'' @ p)))])"
  by (simp add: signJWT_def Let_def split_n_3)

lemma ParseUnverified_signJWT:
  "decodes J \<Longrightarrow> ParseUnverified J (signJWT P v key keyID) =
     (case claims_of v of None \<Rightarrow> Inl ErrJwtUnmarshal | Some c \<Rightarrow> Inr c)"
  by (simp add: ParseUnverified_def signJWT_split Let_def decodes_def)

lemma jwt_Verify_signJWT:
  assumes "signatures_ok P" "decodes J"
  shows "jwt_Verify P J now (signJWT P v key keyID) (ed_pub P key) =
     (case claims_of v of None \<Rightarrow> Inl ErrJwtUnmarshal
      | Some c \<Rightarrow> if unix now > cl_ExpiresAt c then Inl ErrJwtExpired else Inr c)"
  using assms by (simp add: jwt_Verify_def ParseUnverified_signJWT signJWT_split Let_def signatures_ok_def split: option.split)

end
