(* ===== verification/Oidc.thy ===== *)
theory Oidc
  imports Jwt Sqlite_Inv
begin

text \<open>
  The authorization server, \<^verbatim>\<open>src/oidc/provider.go\<close> with the pushed requests, the device flow and the token
  exchange its endpoints dispatch to (\<^verbatim>\<open>par.go\<close>, \<^verbatim>\<open>device.go\<close>, \<^verbatim>\<open>token_exchange.go\<close>).  A handler takes the
  time of the request, the random draws it makes, the request and the store, and gives the response and the store it
  leaves.  A write whose error the code drops is \<open>ign\<close>.
\<close>

section \<open>The provider and its helpers\<close>

(* src: oidc/provider.go:20-25 codeTTL *)
definition codeTTL :: duration where "codeTTL = 5 * minute"

definition idTokenTTL :: duration where "idTokenTTL = hour"
definition accessTokenTTL :: duration where "accessTokenTTL = hour"
definition refreshTokenTTL :: duration where "refreshTokenTTL = 30 * 24 * hour"

(* src: oidc/provider.go:28-34 Provider *)
record provider =
  pv_issuer :: string
  pv_signingKey :: "byte list"
  pv_signingPub :: "byte list"
  pv_keyID :: string

(* src: oidc/provider.go:37-45 NewProvider *)
definition NewProvider :: "prims \<Rightarrow> string \<Rightarrow> byte list \<Rightarrow> string \<Rightarrow> provider" where
  "NewProvider P issuer key keyID =
     \<lparr>pv_issuer = issuer, pv_signingKey = key, pv_signingPub = ed_pub P key, pv_keyID = keyID\<rparr>"

definition ign :: "(db \<Rightarrow> store_error + db) \<Rightarrow> db \<Rightarrow> db" where
  "ign f s = (case f s of Inl _ \<Rightarrow> s | Inr t \<Rightarrow> t)"

(* src: oidc/provider.go:501-505 writeError *)
definition writeError :: "string \<Rightarrow> string \<Rightarrow> response" where
  "writeError code desc = RespJSON 400 (json_str_obj [(''error'', code), (''error_description'', desc)])"

definition internal_error :: response where
  "internal_error = RespText 500 ''internal error''"

(* src: oidc/provider.go:507-513 randomHex *)
definition randomHex :: "nat \<Rightarrow> random \<Rightarrow> string option" where
  "randomHex n rnd = random_hex n rnd"

(* src: oidc/provider.go:515-518 randomID *)
definition randomID :: "random \<Rightarrow> string" where
  "randomID rnd = ''sess_'' @ (case randomHex 16 rnd of None \<Rightarrow> [] | Some s \<Rightarrow> s)"

(* src: oidc/provider.go:466-469 hashToken *)
definition hashToken :: "prims \<Rightarrow> string \<Rightarrow> string" where
  "hashToken P raw = hex_encode (sha256 P (bytes_of raw))"

(* src: oidc/registration.go:118-121 hashSecret *)
definition hashSecret :: "prims \<Rightarrow> string \<Rightarrow> string" where
  "hashSecret P s = hex_encode (sha256 P (bytes_of s))"

(* src: oidc/provider.go:458-464 generateRefreshToken *)
definition generateRefreshToken :: "prims \<Rightarrow> random \<Rightarrow> (string \<times> string) option" where
  "generateRefreshToken P rnd = map_option (\<lambda>raw. (raw, hashToken P raw)) (randomHex 32 rnd)"

(* src: oidc/provider.go:472-479 verifyPKCE *)
definition verifyPKCE :: "prims \<Rightarrow> string \<Rightarrow> string \<Rightarrow> bool" where
  "verifyPKCE P challenge verifier \<longleftrightarrow> b64_encode (sha256 P (bytes_of verifier)) = challenge"

(* src: oidc/provider.go:481-488 containsURI *)
fun containsURI :: "string list \<Rightarrow> string \<Rightarrow> bool" where
  "containsURI [] uri = False"
| "containsURI (u # list) uri = (if u = uri then True else containsURI list uri)"

(* src: oidc/provider.go:490-499 remoteIP *)
definition remoteIP :: "http_request \<Rightarrow> string" where
  "remoteIP rq =
     (let fwd = header_get rq ''X-Forwarded-For'' in
      if fwd \<noteq> [] then hd (split_n 2 (CHR '','') fwd)
      else let ip = rq_remote rq in
        case last_index '':'' ip of Some idx \<Rightarrow> (if idx > 0 then take idx ip else ip) | None \<Rightarrow> ip)"

text \<open>\<open>validateClientAuth\<close> gives the error, or \<open>None\<close> when the client is authenticated.\<close>

(* src: oidc/provider.go:418-440 Provider.validateClientAuth *)
definition validateClientAuth :: "prims \<Rightarrow> http_request \<Rightarrow> string \<Rightarrow> db \<Rightarrow> string option" where
  "validateClientAuth P rq clientID s =
     (case GetClient clientID s of
        Inl _ \<Rightarrow> Some ''unknown client''
      | Inr client \<Rightarrow>
          if cli_TokenEndpointAuthMethod client = ''none'' then None
          else
            let providedSecret = (case rq_basic rq of
                  Some (user, pass) \<Rightarrow> if user = clientID then pass else form_value rq ''client_secret''
                | None \<Rightarrow> form_value rq ''client_secret'') in
            if providedSecret = [] then Some ''client authentication required''
            else if hashSecret P providedSecret \<noteq> cli_ClientSecretHash client then Some ''invalid client credentials''
            else None)"

(* src: oidc/provider.go:442-456 writeTokenResponse *)
definition writeTokenResponse :: "string \<Rightarrow> string \<Rightarrow> string \<Rightarrow> string \<Rightarrow> duration \<Rightarrow> response" where
  "writeTokenResponse accessToken idToken refreshToken scope ttl = RespJSON 200 (JObj (
     [(''access_token'', JStr accessToken), (''expires_in'', JNum (ttl div second))] @
     jopt ''id_token'' idToken @
     [(''refresh_token'', JStr refreshToken), (''scope'', JStr scope), (''token_type'', JStr ''Bearer'')]))"

section \<open>Pushed authorization requests\<close>

(* src: oidc/par.go:12-12 parTTL *)
definition parTTL :: duration where "parTTL = 90 * second"

text \<open>The form's first value of each key, without empty values, with the keys in the order of encoding.\<close>

definition par_params :: "(string \<times> string) list \<Rightarrow> (string \<times> string) list" where
  "par_params form = filter (\<lambda>(k, v). v \<noteq> []) (map (\<lambda>k. (k, assoc_get form k)) (sort (remdups (map fst form))))"

(* src: oidc/par.go:20-87 Provider.PARHandler *)
definition PARHandler :: "prims \<Rightarrow> instant \<Rightarrow> random \<Rightarrow> http_request \<Rightarrow> db \<Rightarrow> response \<times> db" where
  "PARHandler P now rnd rq s =
     (case rq_form rq of
        None \<Rightarrow> (writeError ''invalid_request'' ''could not parse form'', s)
      | Some form \<Rightarrow>
          let clientID = form_value rq ''client_id'' in
          if clientID = [] then (writeError ''invalid_client'' ''client_id required'', s)
          else case validateClientAuth P rq clientID s of
            Some err \<Rightarrow> (writeError ''invalid_client'' err, s)
          | None \<Rightarrow>
              let redirectURI = form_value rq ''redirect_uri'';
                  redirect_err = (if redirectURI = [] then None else
                    case GetClient clientID s of
                      Inl _ \<Rightarrow> Some (writeError ''invalid_client'' ''unknown client'')
                    | Inr client \<Rightarrow>
                        if \<not> containsURI (cli_RedirectURIs client) redirectURI
                        then Some (writeError ''invalid_request'' ''redirect_uri not registered for this client'')
                        else None) in
              (case redirect_err of
                 Some resp \<Rightarrow> (resp, s)
               | None \<Rightarrow>
                   let raw = json_marshal (json_str_obj (par_params form)) in
                   (case randomHex 32 rnd of
                      None \<Rightarrow> (internal_error, s)
                    | Some requestID \<Rightarrow>
                        let requestURI = ''urn:ietf:params:oauth:request_uri:'' @ requestID in
                        (case SavePARRequest \<lparr>par_RequestURI = requestURI, par_ClientID = clientID, par_Params = raw,
                            par_ExpiresAt = now + parTTL, par_CreatedAt = now\<rparr> s of
                           Inl _ \<Rightarrow> (internal_error, s)
                         | Inr s' \<Rightarrow> (RespJSON 201 (JObj [(''expires_in'', JNum (parTTL div second)),
                             (''request_uri'', JStr requestURI)]), s')))))"

(* src: oidc/par.go:91-106 Provider.resolvePARRequest *)
definition resolvePARRequest :: "json_decoder \<Rightarrow> instant \<Rightarrow> string \<Rightarrow> db \<Rightarrow> (string + (string \<times> string) list) \<times> db" where
  "resolvePARRequest J now requestURI s =
     (case GetPARRequest requestURI s of
        Inl _ \<Rightarrow> (Inl ''par: request_uri not found'', s)
      | Inr par \<Rightarrow>
          if now > par_ExpiresAt par then (Inl ''par: request_uri expired'', ign (DeletePARRequest requestURI) s)
          else
            let s = ign (DeletePARRequest requestURI) s in
            (case J (par_Params par) of
               None \<Rightarrow> (Inl ''par: malformed params'', s)
             | Some v \<Rightarrow> (case as_string_map v of None \<Rightarrow> (Inl ''par: malformed params'', s) | Some params \<Rightarrow> (Inr params, s))))"

section \<open>The authorization endpoint\<close>

text \<open>The parameters the endpoint reads: those of the pushed request first, then those of the query.\<close>

definition merged :: "(string \<times> string) list \<Rightarrow> http_request \<Rightarrow> string \<Rightarrow> string" where
  "merged params rq k = (case map_of params k of Some v \<Rightarrow> v | None \<Rightarrow> query_get rq k)"

(* src: oidc/provider.go:97-140 Provider.AuthorizeHandler (validated request) *)
definition authorize_issue :: "instant \<Rightarrow> random \<Rightarrow> random \<Rightarrow> http_request \<Rightarrow> (string \<Rightarrow> string) \<Rightarrow> db \<Rightarrow> response \<times> db" where
  "authorize_issue now rcode rid rq q s =
     (case GetClient (q ''client_id'') s of
        Inl _ \<Rightarrow> (writeError ''unauthorized_client'' ''unknown client_id'', s)
      | Inr client \<Rightarrow>
          if \<not> containsURI (cli_RedirectURIs client) (q ''redirect_uri'')
          then (writeError ''invalid_request'' ''redirect_uri not registered for this client'', s)
          else case randomHex 32 rcode of
            None \<Rightarrow> (internal_error, s)
          | Some code \<Rightarrow>
              (case SaveSession \<lparr>ses_ID = randomID rid, ses_SubjectDID = header_get rq ''X-Subject-DID'',
                  ses_ClientID = q ''client_id'', ses_RedirectURI = q ''redirect_uri'', ses_Scope = q ''scope'',
                  ses_Nonce = q ''nonce'', ses_State = q ''state'', ses_Code = code,
                  ses_CodeChallenge = q ''code_challenge'', ses_CodeChallengeMethod = q ''code_challenge_method'',
                  ses_AccessToken = [], ses_RefreshTokenHash = [], ses_UserAgent = header_get rq ''User-Agent'',
                  ses_IPAddress = remoteIP rq, ses_LastUsedAt = None, ses_CreatedAt = now,
                  ses_ExpiresAt = now + codeTTL\<rparr> s of
                 Inl _ \<Rightarrow> (internal_error, s)
               | Inr s' \<Rightarrow> (Redirect (q ''redirect_uri'' @ ''?code='' @ code @
                   (if q ''state'' \<noteq> [] then ''&state='' @ q ''state'' else [])), s')))"

(* src: oidc/provider.go:50-95 Provider.AuthorizeHandler *)
definition AuthorizeHandler :: "json_decoder \<Rightarrow> instant \<Rightarrow> random \<Rightarrow> random \<Rightarrow> http_request \<Rightarrow> db \<Rightarrow> response \<times> db" where
  "AuthorizeHandler J now rcode rid rq s =
     (let requestURI = query_get rq ''request_uri'' in
      case (if requestURI \<noteq> [] then resolvePARRequest J now requestURI s else (Inr [], s)) of
        (Inl err, s) \<Rightarrow> (writeError ''invalid_request'' err, s)
      | (Inr params, s) \<Rightarrow>
          let q = merged params rq in
          if q ''client_id'' = [] \<or> q ''redirect_uri'' = [] \<or> header_get rq ''X-Subject-DID'' = []
          then (RespText 400 ''missing required parameters'', s)
          else if q ''state'' = [] then (writeError ''invalid_request'' ''state parameter is required'', s)
          else if q ''code_challenge'' = []
          then (writeError ''invalid_request'' ''code_challenge is required (PKCE, RFC 7636)'', s)
          else if q ''code_challenge_method'' \<noteq> ''S256''
          then (writeError ''invalid_request'' ''code_challenge_method must be S256'', s)
          else authorize_issue now rcode rid rq q s)"

section \<open>The token endpoint\<close>

text \<open>A fresh refresh token, saved for the subject and client.\<close>

definition new_refresh :: "instant \<Rightarrow> string \<Rightarrow> string \<Rightarrow> string \<Rightarrow> string \<Rightarrow> refresh_token" where
  "new_refresh now hash subjectDID clientID scope =
     \<lparr>rt_Hash = hash, rt_SubjectDID = subjectDID, rt_ClientID = clientID, rt_Scope = scope, rt_IssuedAt = now,
      rt_ExpiresAt = now + refreshTokenTTL, rt_UsedAt = None\<rparr>"

(* src: oidc/provider.go:170-246 Provider.handleAuthCodeExchange *)
definition handleAuthCodeExchange :: "prims \<Rightarrow> provider \<Rightarrow> instant \<Rightarrow> random \<Rightarrow> http_request \<Rightarrow> db \<Rightarrow> response \<times> db" where
  "handleAuthCodeExchange P p now rnd rq s =
     (let code = form_value rq ''code''; clientID = form_value rq ''client_id'';
          codeVerifier = form_value rq ''code_verifier'' in
      if code = [] then (writeError ''invalid_request'' ''missing code'', s)
      else case GetSessionByCode code s of
        Inl _ \<Rightarrow> (writeError ''invalid_grant'' ''code not found or expired'', s)
      | Inr sess \<Rightarrow>
          if now > ses_ExpiresAt sess then (writeError ''invalid_grant'' ''code not found or expired'', s)
          else if clientID \<noteq> [] \<and> clientID \<noteq> ses_ClientID sess
          then (writeError ''invalid_grant'' ''client_id mismatch'', s)
          else if codeVerifier = [] then (writeError ''invalid_grant'' ''code_verifier is required (PKCE)'', s)
          else if ses_CodeChallenge sess = []
          then (writeError ''invalid_grant'' ''no PKCE challenge found for this code'', s)
          else if \<not> verifyPKCE P (ses_CodeChallenge sess) codeVerifier
          then (writeError ''invalid_grant'' ''code_verifier mismatch'', s)
          else case validateClientAuth P rq (ses_ClientID sess) s of
            Some err \<Rightarrow> (writeError ''invalid_client'' err, s)
          | None \<Rightarrow>
              let idToken = IssueIDToken P now (pv_issuer p) (ses_SubjectDID sess) (ses_ClientID sess)
                    (ses_Nonce sess) idTokenTTL (pv_signingKey p) [] (pv_keyID p);
                  accessToken = IssueAccessToken P now (pv_issuer p) (ses_SubjectDID sess) (ses_ClientID sess)
                    accessTokenTTL (pv_signingKey p) (pv_keyID p) in
              (case generateRefreshToken P rnd of
                 None \<Rightarrow> (internal_error, s)
               | Some (rawRefresh, refreshHash) \<Rightarrow>
                   (case SaveRefreshToken (new_refresh now refreshHash (ses_SubjectDID sess) (ses_ClientID sess)
                        (ses_Scope sess)) s of
                      Inl _ \<Rightarrow> (internal_error, s)
                    | Inr s' \<Rightarrow>
                        (writeTokenResponse accessToken idToken rawRefresh (ses_Scope sess) accessTokenTTL,
                         ign (DeleteSession (ses_ID sess)) s'))))"

(* src: oidc/provider.go:248-309 Provider.handleRefreshTokenGrant *)
definition handleRefreshTokenGrant :: "prims \<Rightarrow> provider \<Rightarrow> instant \<Rightarrow> random \<Rightarrow> http_request \<Rightarrow> db \<Rightarrow> response \<times> db" where
  "handleRefreshTokenGrant P p now rnd rq s =
     (let rawToken = form_value rq ''refresh_token''; hash = hashToken P rawToken in
      if rawToken = [] then (writeError ''invalid_request'' ''missing refresh_token'', s)
      else case GetRefreshToken hash s of
        Inl _ \<Rightarrow> (writeError ''invalid_grant'' ''refresh token not found'', s)
      | Inr rt \<Rightarrow>
          if now > rt_ExpiresAt rt
          then (writeError ''invalid_grant'' ''refresh token expired'', ign (DeleteRefreshToken hash) s)
          else if rt_UsedAt rt \<noteq> None
          then (writeError ''invalid_grant'' ''refresh token already used'', ign (DeleteRefreshToken hash) s)
          else case validateClientAuth P rq (rt_ClientID rt) s of
            Some err \<Rightarrow> (writeError ''invalid_client'' err, s)
          | None \<Rightarrow>
              let s = ign (SaveRefreshToken (rt\<lparr>rt_UsedAt := Some now\<rparr>)) s;
                  accessToken = IssueAccessToken P now (pv_issuer p) (rt_SubjectDID rt) (rt_ClientID rt)
                    accessTokenTTL (pv_signingKey p) (pv_keyID p) in
              (case generateRefreshToken P rnd of
                 None \<Rightarrow> (internal_error, s)
               | Some (rawRefresh, refreshHash) \<Rightarrow>
                   (case SaveRefreshToken (new_refresh now refreshHash (rt_SubjectDID rt) (rt_ClientID rt)
                        (rt_Scope rt)) s of
                      Inl _ \<Rightarrow> (internal_error, s)
                    | Inr s' \<Rightarrow> (writeTokenResponse accessToken [] rawRefresh (rt_Scope rt) accessTokenTTL, s'))))"

(* src: oidc/provider.go:313-356 Provider.handleClientCredentialsGrant *)
definition handleClientCredentialsGrant :: "prims \<Rightarrow> provider \<Rightarrow> instant \<Rightarrow> http_request \<Rightarrow> db \<Rightarrow> response" where
  "handleClientCredentialsGrant P p now rq s =
     (let clientID = (if form_value rq ''client_id'' \<noteq> [] then form_value rq ''client_id''
            else case rq_basic rq of Some (user, _) \<Rightarrow> user | None \<Rightarrow> []) in
      if clientID = [] then writeError ''invalid_client'' ''client_id required''
      else case validateClientAuth P rq clientID s of
        Some err \<Rightarrow> writeError ''invalid_client'' err
      | None \<Rightarrow>
          (case GetClient clientID s of
             Inl _ \<Rightarrow> writeError ''invalid_client'' ''unknown client''
           | Inr client \<Rightarrow>
               if cli_TokenEndpointAuthMethod client = ''none''
               then writeError ''unauthorized_client'' ''public clients may not use client_credentials grant''
               else
                 let scope = (if form_value rq ''scope'' = [] then cli_Scope client else form_value rq ''scope'');
                     accessToken = IssueAccessToken P now (pv_issuer p) clientID clientID accessTokenTTL
                       (pv_signingKey p) (pv_keyID p) in
                 RespJSON 200 (JObj [(''access_token'', JStr accessToken),
                   (''expires_in'', JNum (accessTokenTTL div second)), (''scope'', JStr scope),
                   (''token_type'', JStr ''Bearer'')])))"

section \<open>The device flow\<close>

definition deviceCodeTTL :: duration where "deviceCodeTTL = 15 * minute"

(* src: oidc/device.go:14-17 devicePollInterval *)
definition devicePollInterval :: int where "devicePollInterval = 5"

definition user_code_chars :: string where
  "user_code_chars = ''ABCDEFGHJKLMNPQRSTUVWXYZ23456789''"

text \<open>\<open>draw i\<close> is the \<open>i\<close>-th \<^verbatim>\<open>rand.Intn(32)\<close>.\<close>

(* src: oidc/device.go:201-208 generateUserCode *)
definition generateUserCode :: "(nat \<Rightarrow> nat) \<Rightarrow> string" where
  "generateUserCode draw =
     (let b = map (\<lambda>i. user_code_chars ! (draw i mod length user_code_chars)) [0..<8] in take 4 b @ ''-'' @ drop 4 b)"

(* src: oidc/device.go:24-74 Provider.DeviceAuthorizationHandler *)
definition DeviceAuthorizationHandler :: "prims \<Rightarrow> provider \<Rightarrow> instant \<Rightarrow> random \<Rightarrow> (nat \<Rightarrow> nat) \<Rightarrow> http_request \<Rightarrow> db
    \<Rightarrow> response \<times> db" where
  "DeviceAuthorizationHandler P p now rnd draw rq s =
     (if rq_form rq = None then (writeError ''invalid_request'' ''could not parse form'', s)
      else
        let clientID = form_value rq ''client_id'' in
        if clientID = [] then (writeError ''invalid_client'' ''client_id required'', s)
        else case validateClientAuth P rq clientID s of
          Some err \<Rightarrow> (writeError ''invalid_client'' err, s)
        | None \<Rightarrow>
            let scope = form_value rq ''scope'' in
            (case randomHex 32 rnd of
               None \<Rightarrow> (internal_error, s)
             | Some devCode \<Rightarrow>
                 let userCode = generateUserCode draw; verificationURI = pv_issuer p @ ''/device'' in
                 (case SaveDeviceCode \<lparr>dc_DeviceCode = devCode, dc_UserCode = userCode, dc_ClientID = clientID,
                     dc_Scope = scope, dc_SubjectDID = [], dc_Approved = False, dc_Denied = False,
                     dc_ExpiresAt = now + deviceCodeTTL, dc_IntervalSecs = devicePollInterval, dc_CreatedAt = now\<rparr> s of
                    Inl _ \<Rightarrow> (internal_error, s)
                  | Inr s' \<Rightarrow> (RespJSON 200 (JObj [(''device_code'', JStr devCode),
                      (''expires_in'', JNum (deviceCodeTTL div second)), (''interval'', JNum devicePollInterval),
                      (''user_code'', JStr userCode), (''verification_uri'', JStr verificationURI),
                      (''verification_uri_complete'', JStr (verificationURI @ ''?user_code='' @ userCode))]), s'))))"

(* src: oidc/device.go:79-100 Provider.DeviceVerifyHandler *)
definition DeviceVerifyHandler :: "instant \<Rightarrow> http_request \<Rightarrow> db \<Rightarrow> response" where
  "DeviceVerifyHandler now rq s =
     (let userCode = query_get rq ''user_code'' in
      if userCode = [] then RespJSON 200 (json_str_obj [(''prompt'',
        ''Enter the user_code shown on your device at this URL, then POST to /device/approve.'')])
      else case GetDeviceCodeByUserCode (to_upper userCode) s of
        Inl _ \<Rightarrow> writeError ''invalid_request'' ''user_code not found or expired''
      | Inr dc \<Rightarrow>
          if now > dc_ExpiresAt dc then writeError ''invalid_request'' ''user_code not found or expired''
          else RespJSON 200 (json_str_obj [(''client_id'', dc_ClientID dc),
            (''message'', ''Authenticate and POST to /device/approve with {user_code, subject_did} to approve.''),
            (''scope'', dc_Scope dc)]))"

(* src: oidc/device.go:106-131 Provider.DeviceApproveHandler *)
definition DeviceApproveHandler :: "instant \<Rightarrow> http_request \<Rightarrow> db \<Rightarrow> response \<times> db" where
  "DeviceApproveHandler now rq s =
     (if rq_form rq = None then (writeError ''invalid_request'' ''could not parse form'', s)
      else
        let userCode = to_upper (form_value rq ''user_code''); subjectDID = form_value rq ''subject_did'' in
        if userCode = [] \<or> subjectDID = []
        then (writeError ''invalid_request'' ''user_code and subject_did required'', s)
        else case GetDeviceCodeByUserCode userCode s of
          Inl _ \<Rightarrow> (writeError ''invalid_request'' ''user_code not found or expired'', s)
        | Inr dc \<Rightarrow>
            if now > dc_ExpiresAt dc then (writeError ''invalid_request'' ''user_code not found or expired'', s)
            else case UpdateDeviceCode (dc\<lparr>dc_SubjectDID := subjectDID, dc_Approved := True\<rparr>) s of
              Inl _ \<Rightarrow> (internal_error, s)
            | Inr s' \<Rightarrow> (RespJSON 200 (json_str_obj [(''status'', ''approved'')]), s'))"

(* src: oidc/device.go:134-197 Provider.handleDeviceGrant *)
definition handleDeviceGrant :: "prims \<Rightarrow> provider \<Rightarrow> instant \<Rightarrow> random \<Rightarrow> http_request \<Rightarrow> db \<Rightarrow> response \<times> db" where
  "handleDeviceGrant P p now rnd rq s =
     (let deviceCode = form_value rq ''device_code''; clientID = form_value rq ''client_id'' in
      if deviceCode = [] then (writeError ''invalid_request'' ''device_code required'', s)
      else case GetDeviceCode deviceCode s of
        Inl _ \<Rightarrow> (writeError ''invalid_grant'' ''device_code not found'', s)
      | Inr dc \<Rightarrow>
          if clientID \<noteq> [] \<and> clientID \<noteq> dc_ClientID dc then (writeError ''invalid_client'' ''client_id mismatch'', s)
          else if now > dc_ExpiresAt dc
          then (writeError ''expired_token'' ''device_code expired'', ign (DeleteDeviceCode deviceCode) s)
          else if dc_Denied dc
          then (writeError ''access_denied'' ''user denied the request'', ign (DeleteDeviceCode deviceCode) s)
          else if \<not> dc_Approved dc
          then (RespJSON 400 (json_str_obj [(''error'', ''authorization_pending''), (''error_description'',
            ''The user has not yet approved the device request; keep polling.'')]), s)
          else
            let accessToken = IssueAccessToken P now (pv_issuer p) (dc_SubjectDID dc) (dc_ClientID dc)
                  accessTokenTTL (pv_signingKey p) (pv_keyID p) in
            (case generateRefreshToken P rnd of
               None \<Rightarrow> (internal_error, s)
             | Some (rawRefresh, refreshHash) \<Rightarrow>
                 (case SaveRefreshToken (new_refresh now refreshHash (dc_SubjectDID dc) (dc_ClientID dc) (dc_Scope dc)) s of
                    Inl _ \<Rightarrow> (internal_error, s)
                  | Inr s' \<Rightarrow> (writeTokenResponse accessToken [] rawRefresh (dc_Scope dc) accessTokenTTL,
                      ign (DeleteDeviceCode deviceCode) s'))))"

section \<open>Token exchange\<close>

(* src: oidc/token_exchange.go:122-133 scopeIsSubset *)
definition scopeIsSubset :: "string \<Rightarrow> string \<Rightarrow> bool" where
  "scopeIsSubset requested allowed = list_all (\<lambda>x. x \<in> set (Go_Prelude.fields allowed)) (Go_Prelude.fields requested)"

definition ttAccessToken :: string where
  "ttAccessToken = ''urn:ietf:params:oauth:token-type:access_token''"

(* src: oidc/token_exchange.go:81-118 Provider.handleTokenExchange (issuing) *)
definition exchange_issue :: "prims \<Rightarrow> json_decoder \<Rightarrow> provider \<Rightarrow> instant \<Rightarrow> http_request \<Rightarrow> claims \<Rightarrow> string \<Rightarrow> string \<Rightarrow> response" where
  "exchange_issue P J p now rq cl callerClientID effectiveScope =
     (let audience = (if form_value rq ''audience'' = [] then pv_issuer p else form_value rq ''audience'');
          actorToken = form_value rq ''actor_token'';
          extra = [(''aud'', JStr audience)] @ jopt ''scope'' effectiveScope @
            (if actorToken \<noteq> [] then
               (case jwt_Verify P J now actorToken (pv_signingPub p) of
                  Inr act \<Rightarrow> [(''act'', json_str_obj [(''sub'', cl_Subject act)])]
                | Inl _ \<Rightarrow> [])
             else if callerClientID \<noteq> [] then [(''act'', json_str_obj [(''sub'', callerClientID)])] else []);
          accessToken = issueJWTWithExtra P now (pv_issuer p) (cl_Subject cl) audience accessTokenTTL
            (pv_signingKey p) (pv_keyID p) extra
      in RespJSON 200 (JObj [(''access_token'', JStr accessToken), (''expires_in'', JNum (accessTokenTTL div second)),
           (''issued_token_type'', JStr ttAccessToken), (''scope'', JStr effectiveScope), (''token_type'', JStr ''Bearer'')]))"

(* src: oidc/token_exchange.go:27-79 Provider.handleTokenExchange *)
definition handleTokenExchange :: "prims \<Rightarrow> json_decoder \<Rightarrow> provider \<Rightarrow> instant \<Rightarrow> http_request \<Rightarrow> db \<Rightarrow> response" where
  "handleTokenExchange P J p now rq s =
     (let subjectToken = form_value rq ''subject_token''; requestedTokenType = form_value rq ''requested_token_type'';
          requestedScope = form_value rq ''scope'' in
      if subjectToken = [] then writeError ''invalid_request'' ''subject_token required''
      else if form_value rq ''subject_token_type'' \<noteq> ttAccessToken
      then writeError ''invalid_request'' (''subject_token_type must be '' @ ttAccessToken)
      else if requestedTokenType \<noteq> [] \<and> requestedTokenType \<noteq> ttAccessToken
      then writeError ''invalid_request'' (''requested_token_type must be '' @ ttAccessToken)
      else case jwt_Verify P J now subjectToken (pv_signingPub p) of
        Inl err \<Rightarrow> writeError ''invalid_request'' (''subject_token invalid: '' @ jwt_error_text err)
      | Inr cl \<Rightarrow>
          let callerClientID = (case rq_basic rq of Some (user, _) \<Rightarrow> user | None \<Rightarrow> form_value rq ''client_id'') in
          (case (if callerClientID \<noteq> [] then validateClientAuth P rq callerClientID s else None) of
             Some err \<Rightarrow> writeError ''invalid_client'' err
           | None \<Rightarrow>
               if requestedScope \<noteq> [] \<and> \<not> scopeIsSubset requestedScope (cl_Scope cl)
               then writeError ''invalid_scope'' ''requested scope exceeds subject_token scope''
               else exchange_issue P J p now rq cl callerClientID
                 (if requestedScope \<noteq> [] then requestedScope else cl_Scope cl)))"

section \<open>Dispatch and the remaining endpoints\<close>

(* src: oidc/provider.go:143-168 Provider.TokenHandler *)
definition TokenHandler :: "prims \<Rightarrow> json_decoder \<Rightarrow> provider \<Rightarrow> instant \<Rightarrow> random \<Rightarrow> http_request \<Rightarrow> db \<Rightarrow> response \<times> db" where
  "TokenHandler P J p now rnd rq s =
     (if rq_form rq = None then (RespText 400 ''bad request'', s)
      else
        let grantType = (if form_value rq ''grant_type'' = [] then ''authorization_code'' else form_value rq ''grant_type'') in
        if grantType = ''authorization_code'' then handleAuthCodeExchange P p now rnd rq s
        else if grantType = ''refresh_token'' then handleRefreshTokenGrant P p now rnd rq s
        else if grantType = ''client_credentials'' then (handleClientCredentialsGrant P p now rq s, s)
        else if grantType = ''urn:ietf:params:oauth:grant-type:device_code'' then handleDeviceGrant P p now rnd rq s
        else if grantType = ''urn:ietf:params:oauth:grant-type:token-exchange''
        then (handleTokenExchange P J p now rq s, s)
        else (writeError ''unsupported_grant_type'' ''supported: authorization_code, refresh_token, client_credentials, urn:ietf:params:oauth:grant-type:device_code, urn:ietf:params:oauth:grant-type:token-exchange'', s))"

text \<open>Error texts leave out the cause \<^verbatim>\<open>%w\<close> adds.  An empty \<^verbatim>\<open>amr\<close> is \<^verbatim>\<open>nil\<close>: the provider's own tokens omit
  the member when there is none.\<close>

(* src: oidc/provider.go:359-376 Provider.UserinfoHandler *)
definition UserinfoHandler :: "prims \<Rightarrow> json_decoder \<Rightarrow> provider \<Rightarrow> instant \<Rightarrow> http_request \<Rightarrow> response" where
  "UserinfoHandler P J p now rq =
     (let bearer = trim_prefix (header_get rq ''Authorization'') ''Bearer '' in
      if bearer = [] then RespText 401 ''unauthorized''
      else case jwt_Verify P J now bearer (pv_signingPub p) of
        Inl err \<Rightarrow> RespText 401 (''invalid token: '' @ jwt_error_text err)
      | Inr cl \<Rightarrow> RespJSON 200 (JObj [(''amr'', if cl_AMR cl = [] then JNull else json_strs (cl_AMR cl)),
          (''did'', JStr (cl_DID cl)), (''sub'', JStr (cl_Subject cl))]))"

(* src: oidc/provider.go:381-402 Provider.IssueSessionForDIDCtx *)
definition IssueSessionForDIDCtx :: "instant \<Rightarrow> random \<Rightarrow> random \<Rightarrow> http_request \<Rightarrow> string \<Rightarrow> string \<Rightarrow> string \<Rightarrow> string \<Rightarrow> string
    \<Rightarrow> string \<Rightarrow> string \<Rightarrow> db \<Rightarrow> string option \<times> db" where
  "IssueSessionForDIDCtx now rcode rid rq subjectDID clientID redirectURI scope nonce codeChallenge codeChallengeMethod s =
     (case randomHex 32 rcode of
        None \<Rightarrow> (None, s)
      | Some code \<Rightarrow>
          (case SaveSession \<lparr>ses_ID = randomID rid, ses_SubjectDID = subjectDID, ses_ClientID = clientID,
              ses_RedirectURI = redirectURI, ses_Scope = scope, ses_Nonce = nonce, ses_State = [], ses_Code = code,
              ses_CodeChallenge = codeChallenge, ses_CodeChallengeMethod = codeChallengeMethod, ses_AccessToken = [],
              ses_RefreshTokenHash = [], ses_UserAgent = header_get rq ''User-Agent'', ses_IPAddress = remoteIP rq,
              ses_LastUsedAt = None, ses_CreatedAt = now, ses_ExpiresAt = now + codeTTL\<rparr> s of
             Inl _ \<Rightarrow> (None, s)
           | Inr s' \<Rightarrow> (Some code, s')))"

(* src: oidc/provider.go:405-415 Provider.SubjectFromBearer *)
definition SubjectFromBearer :: "prims \<Rightarrow> json_decoder \<Rightarrow> provider \<Rightarrow> instant \<Rightarrow> string \<Rightarrow> string + string" where
  "SubjectFromBearer P J p now authHeader =
     (let bearer = trim_prefix authHeader ''Bearer '' in
      if bearer = [] then Inl ''no bearer token''
      else case jwt_Verify P J now bearer (pv_signingPub p) of
        Inl err \<Rightarrow> Inl (jwt_error_text err)
      | Inr cl \<Rightarrow> Inr (cl_Subject cl))"

end
