(* ===== verification/Oidc_Flow.thy ===== *)
theory Oidc_Flow
  imports Oidc
begin

text \<open>
  What the authorization server promises: a signed token verifies, the code flow goes through and a code works
  once, a rotated refresh token is dead, a device code is redeemed once and only after an approval, and an exchanged
  token never has more scope than the one presented.
\<close>

section \<open>Shared lemmas\<close>

lemma writeError_status [simp]: "resp_status (writeError c d) = 400"
  by (simp add: writeError_def)

lemma internal_error_status [simp]: "resp_status internal_error = 500"
  by (simp add: internal_error_def)

lemma writeTokenResponse_status [simp]: "resp_status (writeTokenResponse a i r sc t) = 200"
  by (simp add: writeTokenResponse_def)

lemma containsURI_iff: "containsURI us u \<longleftrightarrow> u \<in> set us"
  by (induction us) auto

lemmas session_defs = GetSessionByCode_def GetSession_def SaveSession_def DeleteSession_def
lemmas refresh_defs = GetRefreshToken_def SaveRefreshToken_def DeleteRefreshToken_def
lemmas device_defs = GetDeviceCode_def GetDeviceCodeByUserCode_def SaveDeviceCode_def UpdateDeviceCode_def DeleteDeviceCode_def

lemma db_write_Inr: "db_write f s = Inr s' \<longleftrightarrow> db_open s \<and> s' = f s"
  by (auto simp: db_defs)

lemma ign_open: "db_open s \<Longrightarrow> ign (db_write f) s = f s"
  by (simp add: ign_def db_defs)

lemma ign_closed: "\<not> db_open s \<Longrightarrow> ign (db_write f) s = s"
  by (simp add: ign_def db_defs)

lemma hour_seconds: "accessTokenTTL = 3600 * second"
  by (simp add: accessTokenTTL_def hour_def minute_def)

section \<open>Tokens\<close>

text \<open>An access token the provider signs verifies under its public key until it expires, with the subject and
  the audience it was issued for, and never after.\<close>

theorem access_token_roundtrip:
  assumes "signatures_ok P" "decodes J" "int64 (unix now)" "int64 (unix now + 3600)"
  shows "jwt_Verify P J t (IssueAccessToken P now issuer subjectDID audience accessTokenTTL key keyID) (ed_pub P key) =
    (if unix t \<le> unix now + 3600 then Inr (access_claims now issuer subjectDID audience accessTokenTTL)
     else Inl ErrJwtExpired)"
  using assms by (simp add: IssueAccessToken_def jwt_Verify_signJWT claims_of_json access_claims_def hour_seconds unix_add_seconds)

theorem access_token_roundtrip_witness:
  "jwt_Verify demo_prims json_read 0 (IssueAccessToken demo_prims 0 ''i'' ''did:a'' ''c'' accessTokenTTL [1, 2] ''k'')
     (ed_pub demo_prims [1, 2]) = Inr (access_claims 0 ''i'' ''did:a'' ''c'' accessTokenTTL)"
  using access_token_roundtrip [of demo_prims json_read 0 0 "''i''" "''did:a''" "''c''" "[1, 2]" "''k''"]
  by (simp add: demo_signatures_ok decodes_json_read int64_def unix_def)

section \<open>The code flow\<close>

lemma exchange_success:
  assumes "handleAuthCodeExchange P p now rnd rq s = (resp, s')" "resp_status resp = 200"
  obtains sess raw h where "GetSessionByCode (form_value rq ''code'') s = Inr sess" "now \<le> ses_ExpiresAt sess"
    "form_value rq ''client_id'' \<in> {[], ses_ClientID sess}"
    "verifyPKCE P (ses_CodeChallenge sess) (form_value rq ''code_verifier'')"
    "validateClientAuth P rq (ses_ClientID sess) s = None" "generateRefreshToken P rnd = Some (raw, h)" "db_open s"
    "s' = t_sessions_update (tbl_delete ses_ID (ses_ID sess)) (t_refresh_update (tbl_upsert rt_Hash
       (\<lambda>old new. old\<lparr>rt_UsedAt := rt_UsedAt new\<rparr>) (new_refresh now h (ses_SubjectDID sess) (ses_ClientID sess) (ses_Scope sess))) s)"
proof -
  obtain sess where g: "GetSessionByCode (form_value rq ''code'') s = Inr sess"
    using assms by (cases "GetSessionByCode (form_value rq ''code'') s") (auto simp: handleAuthCodeExchange_def Let_def split: if_splits)
  then have o: "db_open s" by (simp add: GetSessionByCode_def db_defs split: if_splits)
  have a: "validateClientAuth P rq (ses_ClientID sess) s = None"
    using assms g by (cases "validateClientAuth P rq (ses_ClientID sess) s") (auto simp: handleAuthCodeExchange_def Let_def split: if_splits)
  obtain raw h where r: "generateRefreshToken P rnd = Some (raw, h)"
    using assms g a by (cases "generateRefreshToken P rnd") (auto simp: handleAuthCodeExchange_def Let_def split: if_splits)
  show ?thesis
    using assms g a r o by (intro that [OF g _ _ _ a r o])
      (auto simp: handleAuthCodeExchange_def Let_def SaveRefreshToken_def DeleteSession_def db_defs ign_def split: if_splits)
qed

text \<open>C2: tokens are issued for a code only to who presents the verifier its challenge was made from, passes the
  client's authentication, and presents the code in time; the session of the code is gone afterwards.\<close>

theorem auth_code_sound:
  assumes "handleAuthCodeExchange P p now rnd rq s = (resp, s')" "resp_status resp = 200"
  shows "\<exists>sess. GetSessionByCode (form_value rq ''code'') s = Inr sess \<and> now \<le> ses_ExpiresAt sess \<and>
    b64_encode (sha256 P (bytes_of (form_value rq ''code_verifier''))) = ses_CodeChallenge sess \<and>
    validateClientAuth P rq (ses_ClientID sess) s = None \<and>
    form_value rq ''client_id'' \<in> {[], ses_ClientID sess} \<and> GetSession (ses_ID sess) s' = Inl ErrNoRows"
proof -
  obtain sess raw h where *: "GetSessionByCode (form_value rq ''code'') s = Inr sess" "now \<le> ses_ExpiresAt sess"
    "form_value rq ''client_id'' \<in> {[], ses_ClientID sess}"
    "verifyPKCE P (ses_CodeChallenge sess) (form_value rq ''code_verifier'')"
    "validateClientAuth P rq (ses_ClientID sess) s = None" "db_open s"
    "s' = t_sessions_update (tbl_delete ses_ID (ses_ID sess)) (t_refresh_update (tbl_upsert rt_Hash
       (\<lambda>old new. old\<lparr>rt_UsedAt := rt_UsedAt new\<rparr>) (new_refresh now h (ses_SubjectDID sess) (ses_ClientID sess) (ses_Scope sess))) s)"
    using exchange_success [OF assms] by metis
  from *(6,7) have "GetSession (ses_ID sess) s' = Inl ErrNoRows"
    by (simp add: GetSession_def db_defs tbl_find_delete)
  with * show ?thesis unfolding verifyPKCE_def by blast
qed

lemma delete_only:
  assumes "length (filter (\<lambda>r. f r = c) rows) \<le> 1" "tbl_find f c rows = Inr r"
  shows "\<not> tbl_has f c (tbl_delete key (key r) rows)"
proof
  assume "tbl_has f c (tbl_delete key (key r) rows)"
  then obtain r' where r': "r' \<in> set rows" "f r' = c" "key r' \<noteq> key r"
    by (auto simp: tbl_has_iff tbl_delete_def)
  have r: "r \<in> set rows" "f r = c" using tbl_find_Inr [OF assms(2)] by auto
  from r r' have "{r, r'} \<subseteq> set (filter (\<lambda>r. f r = c) rows)" by auto
  then have "card {r, r'} \<le> length (filter (\<lambda>r. f r = c) rows)"
    by (meson List.finite_set card_length card_mono le_trans)
  moreover have "r \<noteq> r'" using r'(3) by auto
  ultimately show False using assms(1) by simp
qed

text \<open>C3: a code works once.  When no two sessions share it, every later exchange of the same code, by anybody, at
  any time, is refused and changes nothing.\<close>

theorem auth_code_single_use:
  assumes "handleAuthCodeExchange P p now rnd rq s = (resp, s')" "resp_status resp = 200"
    "length (filter (\<lambda>r. ses_Code r = form_value rq ''code'') (t_sessions s)) \<le> 1"
    "form_value rq' ''code'' = form_value rq ''code''"
  shows "handleAuthCodeExchange P' p' now' rnd' rq' s' =
    (if form_value rq ''code'' = [] then writeError ''invalid_request'' ''missing code''
     else writeError ''invalid_grant'' ''code not found or expired'', s')"
proof -
  obtain sess raw h where *: "GetSessionByCode (form_value rq ''code'') s = Inr sess" "db_open s"
    "s' = t_sessions_update (tbl_delete ses_ID (ses_ID sess)) (t_refresh_update (tbl_upsert rt_Hash
       (\<lambda>old new. old\<lparr>rt_UsedAt := rt_UsedAt new\<rparr>) (new_refresh now h (ses_SubjectDID sess) (ses_ClientID sess) (ses_Scope sess))) s)"
    using exchange_success [OF assms(1,2)] by metis
  from *(1,2) have f: "tbl_find ses_Code (form_value rq ''code'') (t_sessions s) = Inr sess"
    by (simp add: GetSessionByCode_def db_defs)
  have "GetSessionByCode (form_value rq ''code'') s' = Inl ErrNoRows"
    using *(2,3) tbl_find_none [OF delete_only [OF assms(3) f, of ses_ID]] by (simp add: GetSessionByCode_def db_defs)
  with assms(4) show ?thesis by (simp add: handleAuthCodeExchange_def)
qed

lemma validateClientAuth_frame: "t_clients s' = t_clients s \<Longrightarrow> t_closed s' = t_closed s \<Longrightarrow>
    validateClientAuth P rq c s' = validateClientAuth P rq c s"
  by (simp add: validateClientAuth_def GetClient_def db_defs)

lemma upsert_new: "\<not> tbl_has key (key r) rows \<Longrightarrow> tbl_upsert key m r rows = rows @ [r]"
  by (simp add: tbl_upsert_def)

lemma authorize_success:
  assumes "db_open s" "query_get rq ''request_uri'' = []" "GetClient (query_get rq ''client_id'') s = Inr client"
    "query_get rq ''redirect_uri'' \<in> set (cli_RedirectURIs client)" "query_get rq ''client_id'' \<noteq> []"
    "query_get rq ''redirect_uri'' \<noteq> []" "header_get rq ''X-Subject-DID'' \<noteq> []" "query_get rq ''state'' \<noteq> []"
    "query_get rq ''code_challenge'' \<noteq> []" "query_get rq ''code_challenge_method'' = ''S256''"
    "randomHex 32 rcode = Some code" "\<not> tbl_has ses_ID (randomID rid) (t_sessions s)"
  obtains sess where "AuthorizeHandler J now rcode rid rq s =
      (Redirect (query_get rq ''redirect_uri'' @ ''?code='' @ code @ ''&state='' @ query_get rq ''state''),
       t_sessions_update (\<lambda>rows. rows @ [sess]) s)"
    "ses_Code sess = code" "ses_ClientID sess = query_get rq ''client_id''" "ses_Scope sess = query_get rq ''scope''"
    "ses_SubjectDID sess = header_get rq ''X-Subject-DID''" "ses_CodeChallenge sess = query_get rq ''code_challenge''"
    "ses_ExpiresAt sess = now + codeTTL" "ses_ID sess = randomID rid"
proof -
  let ?sess = "\<lparr>ses_ID = randomID rid, ses_SubjectDID = header_get rq ''X-Subject-DID'',
    ses_ClientID = query_get rq ''client_id'', ses_RedirectURI = query_get rq ''redirect_uri'',
    ses_Scope = query_get rq ''scope'', ses_Nonce = query_get rq ''nonce'', ses_State = query_get rq ''state'',
    ses_Code = code, ses_CodeChallenge = query_get rq ''code_challenge'', ses_CodeChallengeMethod = ''S256'',
    ses_AccessToken = [], ses_RefreshTokenHash = [], ses_UserAgent = header_get rq ''User-Agent'',
    ses_IPAddress = remoteIP rq, ses_LastUsedAt = None, ses_CreatedAt = now, ses_ExpiresAt = now + codeTTL\<rparr>"
  have m: "merged [] rq = query_get rq" by (simp add: fun_eq_iff merged_def)
  have t: "t_sessions_update (\<lambda>_. t_sessions s @ [?sess]) s = t_sessions_update (\<lambda>rows. rows @ [?sess]) s"
    by simp
  have "AuthorizeHandler J now rcode rid rq s =
      (Redirect (query_get rq ''redirect_uri'' @ ''?code='' @ code @ ''&state='' @ query_get rq ''state''),
       t_sessions_update (\<lambda>rows. rows @ [?sess]) s)"
    using assms by (simp add: AuthorizeHandler_def authorize_issue_def m containsURI_iff SaveSession_def Let_def db_defs
        upsert_new cong: db.fold_congs)
  then show ?thesis by (rule that) simp_all
qed

text \<open>C1: the code flow goes through.  A registered client sends its user to the authorization endpoint with a
  challenge, gets a fresh code, presents it within five minutes with the verifier, and receives an access token
  that identifies the user for an hour.\<close>

theorem auth_code_flow:
  assumes P: "signatures_ok P" "decodes J" and s: "db_open s"
    and client: "GetClient (query_get rq ''client_id'') s = Inr client"
      "query_get rq ''redirect_uri'' \<in> set (cli_RedirectURIs client)"
    and params: "query_get rq ''request_uri'' = []" "query_get rq ''client_id'' \<noteq> []" "query_get rq ''redirect_uri'' \<noteq> []"
      "header_get rq ''X-Subject-DID'' \<noteq> []" "query_get rq ''state'' \<noteq> []"
      "query_get rq ''code_challenge'' = b64_encode (sha256 P (bytes_of (form_value rq' ''code_verifier'')))"
      "query_get rq ''code_challenge'' \<noteq> []" "query_get rq ''code_challenge_method'' = ''S256''"
    and fresh: "\<not> tbl_has ses_ID (randomID rid) (t_sessions s)"
      "\<not> tbl_has ses_Code (hex_encode (map f [0..<32])) (t_sessions s)"
    and exchange: "rq_form rq' \<noteq> None" "form_value rq' ''grant_type'' = ''authorization_code''"
      "form_value rq' ''code'' = hex_encode (map f [0..<32])" "form_value rq' ''code_verifier'' \<noteq> []"
      "form_value rq' ''client_id'' = query_get rq ''client_id''"
      "validateClientAuth P rq' (query_get rq ''client_id'') s = None"
    and time: "t1 \<le> t0 + 5 * minute" "unix t2 \<le> unix t1 + 3600" "int64 (unix t1)" "int64 (unix t1 + 3600)"
  shows "\<exists>s1 s2 access idt.
    AuthorizeHandler J t0 (Some f) rid rq s = (Redirect (query_get rq ''redirect_uri'' @ ''?code='' @
      hex_encode (map f [0..<32]) @ ''&state='' @ query_get rq ''state''), s1) \<and>
    TokenHandler P J (NewProvider P issuer key keyID) t1 (Some h) rq' s1 =
      (writeTokenResponse access idt (hex_encode (map h [0..<32])) (query_get rq ''scope'') accessTokenTTL, s2) \<and>
    SubjectFromBearer P J (NewProvider P issuer key keyID) t2 (''Bearer '' @ access) = Inr (header_get rq ''X-Subject-DID'')"
proof -
  define code where "code = hex_encode (map f [0..<32])"
  have rc: "randomHex 32 (Some f) = Some code" by (simp add: randomHex_def random_hex_def code_def)
  obtain sess where az: "AuthorizeHandler J t0 (Some f) rid rq s =
      (Redirect (query_get rq ''redirect_uri'' @ ''?code='' @ code @ ''&state='' @ query_get rq ''state''),
       t_sessions_update (\<lambda>rows. rows @ [sess]) s)" (is "_ = (_, ?s1)")
    and sess: "ses_Code sess = code" "ses_ClientID sess = query_get rq ''client_id''" "ses_Scope sess = query_get rq ''scope''"
    "ses_SubjectDID sess = header_get rq ''X-Subject-DID''" "ses_CodeChallenge sess = query_get rq ''code_challenge''"
    "ses_ExpiresAt sess = t0 + codeTTL" "ses_ID sess = randomID rid"
    using authorize_success [OF s params(1) client params(2-5,7,8) rc fresh(1)] by metis
  have get: "GetSessionByCode code ?s1 = Inr sess"
    using s fresh(2) tbl_find_append [of ses_Code sess "t_sessions s" code] sess(1)
    by (simp add: GetSessionByCode_def db_defs code_def)
  have val: "validateClientAuth P rq' (query_get rq ''client_id'') ?s1 = None"
    using exchange(6) validateClientAuth_frame [of ?s1 s] by simp
  have code: "code \<noteq> []" by (simp add: code_def)
  let ?p = "NewProvider P issuer key keyID"
  let ?access = "IssueAccessToken P t1 issuer (header_get rq ''X-Subject-DID'') (query_get rq ''client_id'') accessTokenTTL key keyID"
  have tok: "\<exists>idt s2. TokenHandler P J ?p t1 (Some h) rq' ?s1 =
      (writeTokenResponse ?access idt (hex_encode (map h [0..<32])) (query_get rq ''scope'') accessTokenTTL, s2)"
    using exchange(1-5) get val code sess params(6,7) s time(1)
    by (auto simp: TokenHandler_def handleAuthCodeExchange_def Let_def code_def [symmetric] verifyPKCE_def codeTTL_def
        generateRefreshToken_def randomHex_def random_hex_def SaveRefreshToken_def db_defs NewProvider_def)
  have "jwt_Verify P J t2 ?access (ed_pub P key) = Inr (access_claims t1 issuer (header_get rq ''X-Subject-DID'')
      (query_get rq ''client_id'') accessTokenTTL)"
    using P time(2-4) by (simp add: IssueAccessToken_def jwt_Verify_signJWT claims_of_json access_claims_def hour_seconds unix_add_seconds)
  then have "SubjectFromBearer P J ?p t2 (''Bearer '' @ ?access) = Inr (header_get rq ''X-Subject-DID'')"
    by (simp add: SubjectFromBearer_def NewProvider_def trim_prefix_def has_prefix_def access_claims_def IssueAccessToken_def signJWT_def Let_def)
  with az tok show ?thesis unfolding code_def by blast
qed


section \<open>Refresh tokens\<close>

lemma refresh_success:
  assumes "handleRefreshTokenGrant P p now rnd rq s = (resp, s')" "resp_status resp = 200"
  obtains rt raw h where "GetRefreshToken (hashToken P (form_value rq ''refresh_token'')) s = Inr rt" "now \<le> rt_ExpiresAt rt"
    "rt_UsedAt rt = None" "validateClientAuth P rq (rt_ClientID rt) s = None" "generateRefreshToken P rnd = Some (raw, h)"
    "db_open s" "SaveRefreshToken (new_refresh now h (rt_SubjectDID rt) (rt_ClientID rt) (rt_Scope rt))
       (ign (SaveRefreshToken (rt\<lparr>rt_UsedAt := Some now\<rparr>)) s) = Inr s'"
proof -
  let ?hash = "hashToken P (form_value rq ''refresh_token'')"
  obtain rt where g: "GetRefreshToken ?hash s = Inr rt"
    using assms by (cases "GetRefreshToken ?hash s") (auto simp: handleRefreshTokenGrant_def Let_def split: if_splits)
  then have o: "db_open s" by (simp add: GetRefreshToken_def db_defs split: if_splits)
  have a: "validateClientAuth P rq (rt_ClientID rt) s = None"
    using assms g by (cases "validateClientAuth P rq (rt_ClientID rt) s") (auto simp: handleRefreshTokenGrant_def Let_def split: if_splits)
  obtain raw h where r: "generateRefreshToken P rnd = Some (raw, h)"
    using assms g a by (cases "generateRefreshToken P rnd") (auto simp: handleRefreshTokenGrant_def Let_def split: if_splits)
  show ?thesis
    using assms g a r by (intro that [OF g _ _ a r o])
      (auto simp: handleRefreshTokenGrant_def Let_def split: if_splits sum.splits)
qed

lemma refresh_merge_key: "rt_Hash (old\<lparr>rt_UsedAt := rt_UsedAt new\<rparr>) = rt_Hash old"
  by simp

lemma GetRefreshToken_Save:
  assumes "SaveRefreshToken r s = Inr s'"
  shows "GetRefreshToken k s' = (if k = rt_Hash r
    then (case GetRefreshToken k s of Inl _ \<Rightarrow> Inr r | Inr old \<Rightarrow> Inr (old\<lparr>rt_UsedAt := rt_UsedAt r\<rparr>)) else GetRefreshToken k s)"
    "db_open s'"
  using assms tbl_find_upsert [of rt_Hash "\<lambda>old new. old\<lparr>rt_UsedAt := rt_UsedAt new\<rparr>", OF refresh_merge_key, where k = k and r = r and rows = "t_refresh s"]
  by (auto simp: SaveRefreshToken_def GetRefreshToken_def db_defs split: if_splits)

text \<open>C4: a refresh token that was exchanged is dead.  Presenting it again is refused, whoever presents it, with a
  replay or an expiry error, and removes it for good.\<close>

theorem refresh_replay_refused:
  assumes "handleRefreshTokenGrant P p now rnd rq s = (resp, s')" "resp_status resp = 200"
    "generateRefreshToken P rnd = Some (raw, h)" "h \<noteq> hashToken P (form_value rq ''refresh_token'')"
    "form_value rq' ''refresh_token'' = form_value rq ''refresh_token''"
  shows "\<exists>desc s''. handleRefreshTokenGrant P p' now' rnd' rq' s' = (writeError ''invalid_grant'' desc, s'') \<and>
    desc \<in> {''refresh token already used'', ''refresh token expired''} \<and>
    GetRefreshToken (hashToken P (form_value rq ''refresh_token'')) s'' = Inl ErrNoRows"
proof -
  let ?hash = "hashToken P (form_value rq ''refresh_token'')"
  have raw: "form_value rq ''refresh_token'' \<noteq> []" using assms(1,2) by (auto simp: handleRefreshTokenGrant_def Let_def)
  obtain rt raw' h' where rt: "GetRefreshToken ?hash s = Inr rt" "db_open s"
    and gen: "generateRefreshToken P rnd = Some (raw', h')"
    and save': "SaveRefreshToken (new_refresh now h' (rt_SubjectDID rt) (rt_ClientID rt) (rt_Scope rt))
       (ign (SaveRefreshToken (rt\<lparr>rt_UsedAt := Some now\<rparr>)) s) = Inr s'"
    by (rule refresh_success [OF assms(1,2)])
  from gen assms(3) have h: "h' = h" by simp
  note save = save' [unfolded h]
  have key: "rt_Hash rt = ?hash"
    using rt tbl_find_Inr [of rt_Hash ?hash "t_refresh s" rt] by (simp add: GetRefreshToken_def db_defs)
  obtain s1 where s1: "SaveRefreshToken (rt\<lparr>rt_UsedAt := Some now\<rparr>) s = Inr s1"
    using rt(2) by (simp add: SaveRefreshToken_def db_defs)
  have "GetRefreshToken ?hash s1 = Inr (rt\<lparr>rt_UsedAt := Some now\<rparr>)"
    using GetRefreshToken_Save(1) [OF s1, of ?hash] key rt(1) by simp
  moreover have s': "SaveRefreshToken (new_refresh now h (rt_SubjectDID rt) (rt_ClientID rt) (rt_Scope rt)) s1 = Inr s'"
    using save s1 by (simp add: ign_def)
  ultimately have used: "GetRefreshToken ?hash s' = Inr (rt\<lparr>rt_UsedAt := Some now\<rparr>)"
    using GetRefreshToken_Save(1) [OF s', of ?hash] assms(4) by (simp add: new_refresh_def)
  have o: "db_open s'" by (rule GetRefreshToken_Save(2) [OF s'])
  obtain s2 where s2: "DeleteRefreshToken ?hash s' = Inr s2" using refresh.del_total [OF o] by blast
  have "GetRefreshToken ?hash s2 = Inl ErrNoRows" using refresh.get_del [OF o s2] by simp
  then show ?thesis using used raw assms(5) s2
    by (auto simp: handleRefreshTokenGrant_def Let_def ign_def)
qed


section \<open>The device flow as a state machine\<close>

text \<open>The events of the flow: a client starts it, a user approves, the client polls.\<close>

datatype device_event = DevStart instant random "nat \<Rightarrow> nat" http_request | DevApprove instant http_request
  | DevPoll instant random http_request

fun device_handle :: "prims \<Rightarrow> provider \<Rightarrow> device_event \<Rightarrow> db \<Rightarrow> response \<times> db" where
  "device_handle P p (DevStart now rnd draw rq) s = DeviceAuthorizationHandler P p now rnd draw rq s"
| "device_handle P p (DevApprove now rq) s = DeviceApproveHandler now rq s"
| "device_handle P p (DevPoll now rnd rq) s = handleDeviceGrant P p now rnd rq s"

inductive device_run :: "prims \<Rightarrow> provider \<Rightarrow> db \<Rightarrow> (device_event \<times> response) list \<Rightarrow> db \<Rightarrow> bool" for P p where
  run_nil: "device_run P p s [] s"
| run_step: "device_handle P p ev s = (resp, s1) \<Longrightarrow> device_run P p s1 tr s2 \<Longrightarrow> device_run P p s ((ev, resp) # tr) s2"

inductive_cases device_run_ConsE: "device_run P p s (x # tr) s2"

text \<open>\<open>redeems c\<close>: a poll for the device code \<open>c\<close> that got tokens; \<open>approves\<close>: an approval that was accepted;
  \<open>starts c\<close>: a start that drew \<open>c\<close>.\<close>

fun redeems :: "string \<Rightarrow> device_event \<times> response \<Rightarrow> bool" where
  "redeems c (DevPoll _ _ rq, resp) = (form_value rq ''device_code'' = c \<and> resp_status resp = 200)"
| "redeems c _ = False"

fun approves :: "device_event \<times> response \<Rightarrow> bool" where
  "approves (DevApprove _ _, resp) = (resp_status resp = 200)"
| "approves _ = False"

fun starts :: "string \<Rightarrow> device_event \<times> response \<Rightarrow> bool" where
  "starts c (DevStart _ rnd _ _, _) = (randomHex 32 rnd = Some c)"
| "starts c _ = False"

definition device_row :: "string \<Rightarrow> db \<Rightarrow> store_error + device_code" where
  "device_row c s = tbl_find dc_DeviceCode c (t_devices s)"

lemma poll_cases:
  assumes "handleDeviceGrant P p now rnd rq s = (resp, s')"
  shows "(t_devices s' = t_devices s \<or> t_devices s' = tbl_delete dc_DeviceCode (form_value rq ''device_code'') (t_devices s)) \<and>
    (resp_status resp = 200 \<longrightarrow> t_devices s' = tbl_delete dc_DeviceCode (form_value rq ''device_code'') (t_devices s) \<and>
       (\<exists>dc. device_row (form_value rq ''device_code'') s = Inr dc \<and> dc_Approved dc \<and> now \<le> dc_ExpiresAt dc))"
proof (cases "GetDeviceCode (form_value rq ''device_code'') s")
  case (Inl e)
  with assms show ?thesis by (auto simp: handleDeviceGrant_def Let_def split: if_splits)
next
  case (Inr dc)
  then have "db_open s" and row: "device_row (form_value rq ''device_code'') s = Inr dc"
    by (auto simp: GetDeviceCode_def db_defs device_row_def split: if_splits)
  with assms Inr show ?thesis
    by (cases "generateRefreshToken P rnd")
      (auto simp: handleDeviceGrant_def Let_def ign_def DeleteDeviceCode_def SaveRefreshToken_def db_defs split: if_splits)
qed

definition approved_row :: "string \<Rightarrow> db \<Rightarrow> bool" where
  "approved_row c s = (case device_row c s of Inl _ \<Rightarrow> False | Inr dc \<Rightarrow> dc_Approved dc)"

lemma approve_cases:
  assumes "DeviceApproveHandler now rq s = (resp, s')"
  shows "isl (device_row c s') = isl (device_row c s)" "resp_status resp \<noteq> 200 \<Longrightarrow> t_devices s' = t_devices s"
  using assms by (cases "GetDeviceCodeByUserCode (to_upper (form_value rq ''user_code'')) s";
    auto simp: DeviceApproveHandler_def Let_def UpdateDeviceCode_def db_defs device_row_def tbl_find_update isl_map_sum split: if_splits)+

lemma approved_row_append: "\<not> tbl_has dc_DeviceCode (dc_DeviceCode r) rows \<Longrightarrow> \<not> dc_Approved r \<Longrightarrow>
    (case tbl_find dc_DeviceCode c (rows @ [r]) of Inl _ \<Rightarrow> False | Inr dc \<Rightarrow> dc_Approved dc) \<Longrightarrow>
    (case tbl_find dc_DeviceCode c rows of Inl _ \<Rightarrow> False | Inr dc \<Rightarrow> dc_Approved dc)"
  by (simp add: tbl_find_append split: if_splits)

lemma start_cases:
  assumes "DeviceAuthorizationHandler P p now rnd draw rq s = (resp, s')"
  shows "randomHex 32 rnd \<noteq> Some c \<Longrightarrow> device_row c s' = device_row c s" "approved_row c s' \<Longrightarrow> approved_row c s"
  using assms
  by (cases "validateClientAuth P rq (form_value rq ''client_id'') s"; cases "randomHex 32 rnd";
    auto simp: DeviceAuthorizationHandler_def Let_def SaveDeviceCode_def db_defs device_row_def approved_row_def
      tbl_find_update tbl_find_append split: if_splits sum.splits)+

lemma redeem_effect:
  assumes "device_handle P p ev s = (resp, s')" "redeems c (ev, resp)"
  shows "isl (device_row c s')" "approved_row c s"
  using assms poll_cases by (cases ev; fastforce simp: device_row_def approved_row_def tbl_find_delete)+

lemma absent_stays:
  assumes "device_handle P p ev s = (resp, s')" "isl (device_row c s)" "\<not> starts c (ev, resp)"
  shows "isl (device_row c s')"
proof (cases ev)
  case (DevStart now rnd draw rq)
  then show ?thesis using assms start_cases(1) [of P p now rnd draw rq s resp s' c] by simp
next
  case (DevApprove now rq)
  then show ?thesis using assms approve_cases(1) [of now rq s resp s' c] by simp
next
  case (DevPoll now rnd rq)
  then have "t_devices s' = t_devices s \<or> t_devices s' = tbl_delete dc_DeviceCode (form_value rq ''device_code'') (t_devices s)"
    using assms poll_cases [of P p now rnd rq s resp s'] by simp
  then show ?thesis using assms(2) by (auto simp: device_row_def tbl_find_delete)
qed

lemma unapproved_stays:
  assumes "device_handle P p ev s = (resp, s')" "\<not> approved_row c s" "\<not> approves (ev, resp)"
  shows "\<not> approved_row c s'"
proof (cases ev)
  case (DevStart now rnd draw rq)
  then show ?thesis using assms start_cases(2) [of P p now rnd draw rq s resp s' c] by auto
next
  case (DevApprove now rq)
  then show ?thesis using assms approve_cases(2) [of now rq s resp s'] by (simp add: approved_row_def device_row_def)
next
  case (DevPoll now rnd rq)
  then have "t_devices s' = t_devices s \<or> t_devices s' = tbl_delete dc_DeviceCode (form_value rq ''device_code'') (t_devices s)"
    using assms poll_cases [of P p now rnd rq s resp s'] by simp
  then show ?thesis using assms(2) by (auto simp: approved_row_def device_row_def tbl_find_delete split: if_splits)
qed

lemma gone_no_redeem:
  assumes "device_run P p s tr s'" "isl (device_row c s)" "\<forall>e\<in>set tr. \<not> starts c e"
  shows "filter (redeems c) tr = []"
  using assms
proof (induction rule: device_run.induct)
  case (run_step ev s resp s1 tr s2)
  then have "\<not> redeems c (ev, resp)"
    using redeem_effect(2) [OF run_step.hyps(1), of c] by (auto simp: approved_row_def split: sum.splits)
  then show ?case using run_step absent_stays [OF run_step.hyps(1)] by simp
qed simp

lemma unapproved_no_redeem:
  assumes "device_run P p s tr s'" "\<not> approved_row c s" "\<forall>e\<in>set tr. \<not> approves e"
  shows "filter (redeems c) tr = []"
  using assms
proof (induction rule: device_run.induct)
  case (run_step ev s resp s1 tr s2)
  then have "\<not> redeems c (ev, resp)" using redeem_effect(2) [OF run_step.hyps(1), of c] by auto
  then show ?case using run_step unapproved_stays [OF run_step.hyps(1)] by simp
qed simp

text \<open>C5: over any interleaving of starts, approvals and polls a device code is redeemed at most once, as long as no
  later start draws the same code, and never before an approval was accepted.\<close>

theorem device_code_redeemed_once:
  assumes "device_run P p s tr s'" "\<forall>e\<in>set tr. \<not> starts c e"
  shows "length (filter (redeems c) tr) \<le> 1 \<and>
    (\<not> approved_row c s \<and> filter (redeems c) tr \<noteq> [] \<longrightarrow> (\<exists>e\<in>set tr. approves e))"
proof
  show "length (filter (redeems c) tr) \<le> 1" using assms
  proof (induction rule: device_run.induct)
    case (run_step ev s resp s1 tr s2)
    then show ?case
      using gone_no_redeem [OF run_step.hyps(2), of c] redeem_effect(1) [OF run_step.hyps(1), of c] by simp
  qed simp
  show "\<not> approved_row c s \<and> filter (redeems c) tr \<noteq> [] \<longrightarrow> (\<exists>e\<in>set tr. approves e)"
    using unapproved_no_redeem [OF assms(1)] by blast
qed


section \<open>Token exchange\<close>

lemma find_set_cong:
  assumes "set xs = set ys" "\<And>x y. x \<in> set xs \<Longrightarrow> y \<in> set xs \<Longrightarrow> Q x \<Longrightarrow> Q y \<Longrightarrow> x = y"
  shows "find Q xs = find Q ys"
proof (cases "find Q xs")
  case None
  then have "find Q ys = None" using assms(1) by (simp add: find_None_iff)
  with None show ?thesis by simp
next
  case (Some x)
  then have x: "x \<in> set xs" "Q x" by (auto simp: find_Some_iff)
  then obtain y where y: "find Q ys = Some y" using assms(1) by (cases "find Q ys") (auto simp: find_None_iff)
  then have "y \<in> set xs" "Q y" using assms(1) by (auto simp: find_Some_iff)
  with assms(2) x Some y show ?thesis by simp
qed

lemma member_sorted:
  assumes "distinct (map (to_lower \<circ> fst) kvs)"
  shows "member (JObj (sort_key fst kvs)) k = member (JObj kvs) k"
proof -
  have "inj_on (to_lower \<circ> fst) (set kvs)" using assms by (simp add: distinct_map)
  then have u: "x = y" if "x \<in> set kvs" "y \<in> set kvs" "to_lower (fst x) = to_lower (fst y)" for x y
    using that by (simp add: inj_on_def)
  have "find (\<lambda>(k', x). to_lower k' = to_lower k \<and> x \<noteq> JNull) (rev (sort_key fst kvs)) =
      find (\<lambda>(k', x). to_lower k' = to_lower k \<and> x \<noteq> JNull) (rev kvs)"
    by (rule find_set_cong) (use u in \<open>fastforce+\<close>)
  then show ?thesis by (simp add: member_def)
qed

lemma as_struct_JObj [simp]: "as_struct (JObj kvs)"
  by (simp add: as_struct_def)

lemma claims_of_cong:
  assumes "\<And>k. member v k = member w k" "as_struct v = as_struct w"
  shows "claims_of v = claims_of w"
  unfolding claims_of_def assms ..

definition exchanged :: "instant \<Rightarrow> string \<Rightarrow> string \<Rightarrow> string \<Rightarrow> string \<Rightarrow> claims" where
  "exchanged now issuer subject audience scope = (access_claims now issuer subject audience accessTokenTTL)\<lparr>cl_Scope := scope\<rparr>"

lemma claims_of_exchange:
  assumes "int64 (unix now)" "int64 (unix now + 3600)" "act = [] \<or> (\<exists>v. act = [(''act'', v)])"
  shows "claims_of (JObj (sort_key fst (fold (\<lambda>(k, v). map_put k v) ([(''aud'', JStr audience)] @ jopt ''scope'' scope @ act)
     [(''iss'', JStr issuer), (''sub'', JStr subject), (''aud'', JStr audience), (''iat'', JNum (unix now)),
      (''exp'', JNum (unix (now + accessTokenTTL))), (''did'', JStr subject), (''token_type'', JStr ''access'')]))) =
    Some (exchanged now issuer subject audience scope)"
proof -
  let ?kvs = "fold (\<lambda>(k, v). map_put k v) ([(''aud'', JStr audience)] @ jopt ''scope'' scope @ act)
     [(''iss'', JStr issuer), (''sub'', JStr subject), (''aud'', JStr audience), (''iat'', JNum (unix now)),
      (''exp'', JNum (unix (now + accessTokenTTL))), (''did'', JStr subject), (''token_type'', JStr ''access'')]"
  have k: "?kvs = [(''iss'', JStr issuer), (''sub'', JStr subject), (''aud'', JStr audience), (''iat'', JNum (unix now)),
      (''exp'', JNum (unix (now + accessTokenTTL))), (''did'', JStr subject), (''token_type'', JStr ''access'')] @ jopt ''scope'' scope @ act"
    using assms(3) by (auto simp: jopt_def)
  have d: "distinct (map (to_lower \<circ> fst) ?kvs)"
    unfolding k using assms(3) by (auto simp: jopt_def to_lower_simps)
  have act: "find (\<lambda>(k', x). to_lower k' = c # cs \<and> x \<noteq> JNull) (rev act) = None"
    if "(c, cs) \<noteq> (CHR ''a'', ''ct'')" for c cs
    using assms(3) that by (auto simp: to_lower_simps)
  have m: "member (JObj ?kvs) ''iss'' = JStr issuer" "member (JObj ?kvs) ''sub'' = JStr subject"
    "member (JObj ?kvs) ''aud'' = JStr audience" "member (JObj ?kvs) ''iat'' = JNum (unix now)"
    "member (JObj ?kvs) ''exp'' = JNum (unix now + 3600)" "member (JObj ?kvs) ''did'' = JStr subject"
    "member (JObj ?kvs) ''nonce'' = JNull" "member (JObj ?kvs) ''amr'' = JNull" "member (JObj ?kvs) ''acr'' = JNull"
    "member (JObj ?kvs) ''token_type'' = JStr ''access''" "as_string (member (JObj ?kvs) ''scope'') = Some scope"
    unfolding k member_def rev_append json.case rev_jopt find_append find_jopt
    by (simp_all add: act to_lower_simps hour_seconds unix_add_seconds)
  have "claims_of (JObj (sort_key fst ?kvs)) = claims_of (JObj ?kvs)"
    by (rule claims_of_cong [OF member_sorted [OF d]]) (simp only: as_struct_JObj)
  then show ?thesis using m assms(1,2)
    by (simp add: claims_of_def exchanged_def access_claims_def int64_def hour_seconds unix_add_seconds)
qed

text \<open>C6: token exchange never widens.  Whatever the request asks for, a token that is issued names the subject of
  the presented token, has no scope the presented token lacks, and lives one hour.\<close>

theorem token_exchange_narrows:
  assumes "signatures_ok P" "decodes J" "int64 (unix now)" "int64 (unix now + 3600)"
    "handleTokenExchange P J (NewProvider P issuer key keyID) now rq s = RespJSON 200 body"
  shows "\<exists>cl cl' tok. jwt_Verify P J now (form_value rq ''subject_token'') (ed_pub P key) = Inr cl \<and>
    member body ''access_token'' = JStr tok \<and> jwt_Verify P J now tok (ed_pub P key) = Inr cl' \<and>
    cl_Subject cl' = cl_Subject cl \<and> set (Go_Prelude.fields (cl_Scope cl')) \<subseteq> set (Go_Prelude.fields (cl_Scope cl)) \<and>
    cl_ExpiresAt cl' = unix now + 3600"
proof -
  let ?p = "NewProvider P issuer key keyID"
  let ?v = "jwt_Verify P J now (form_value rq ''subject_token'') (ed_pub P key)"
  obtain cl where cl: "?v = Inr cl"
    using assms(5) by (cases ?v) (auto simp: handleTokenExchange_def Let_def NewProvider_def writeError_def split: if_splits)
  obtain caller scope where ex: "exchange_issue P J ?p now rq cl caller scope = RespJSON 200 body"
    and sc: "scope = cl_Scope cl \<or> scopeIsSubset scope (cl_Scope cl)"
    using assms(5) cl
    by (fastforce simp: handleTokenExchange_def Let_def NewProvider_def writeError_def split: if_splits option.splits)
  obtain act audience where tok: "member body ''access_token'' =
      JStr (issueJWTWithExtra P now issuer (cl_Subject cl) audience accessTokenTTL key keyID
        ([(''aud'', JStr audience)] @ jopt ''scope'' scope @ act))"
    and act: "act = [] \<or> (\<exists>v. act = [(''act'', v)])"
  proof
    let ?act = "if form_value rq ''actor_token'' \<noteq> [] then
               (case jwt_Verify P J now (form_value rq ''actor_token'') (ed_pub P key) of
                  Inr act \<Rightarrow> [(''act'', json_str_obj [(''sub'', cl_Subject act)])]
                | Inl _ \<Rightarrow> [])
             else if caller \<noteq> [] then [(''act'', json_str_obj [(''sub'', caller)])] else []"
    let ?aud = "if form_value rq ''audience'' = [] then issuer else form_value rq ''audience''"
    show "member body ''access_token'' = JStr (issueJWTWithExtra P now issuer (cl_Subject cl) ?aud accessTokenTTL key keyID
        ([(''aud'', JStr ?aud)] @ jopt ''scope'' scope @ ?act))"
      using ex by (simp only: exchange_issue_def Let_def NewProvider_def provider.select_convs response.inject)
        (auto simp: member_def to_lower_simps)
    show "?act = [] \<or> (\<exists>v. ?act = [(''act'', v)])" by (simp split: sum.split)
  qed
  have ok: "jwt_Verify P J now (issueJWTWithExtra P now issuer (cl_Subject cl) audience accessTokenTTL key keyID
        ([(''aud'', JStr audience)] @ jopt ''scope'' scope @ act)) (ed_pub P key) =
      Inr (exchanged now issuer (cl_Subject cl) audience scope)"
    unfolding issueJWTWithExtra_def Let_def jwt_Verify_signJWT [OF assms(1,2)] claims_of_exchange [OF assms(3,4) act]
    by (simp add: exchanged_def access_claims_def hour_seconds unix_add_seconds)
  have "set (Go_Prelude.fields scope) \<subseteq> set (Go_Prelude.fields (cl_Scope cl))"
    using sc by (auto simp: scopeIsSubset_def list_all_iff)
  with cl tok ok show ?thesis
    by (intro exI [of _ cl] exI [of _ "exchanged now issuer (cl_Subject cl) audience scope"] exI conjI)
      (assumption | simp add: exchanged_def access_claims_def hour_seconds unix_add_seconds)+
qed

section \<open>Witnesses\<close>

definition demo_app :: oidc_client where
  "demo_app = \<lparr>cli_ClientID = ''app'', cli_ClientSecretHash = [], cli_ClientName = ''App'',
     cli_RedirectURIs = [''https://app/cb''], cli_TokenEndpointAuthMethod = ''none'',
     cli_GrantTypes = [''authorization_code''], cli_ResponseTypes = [''code''], cli_Scope = [], cli_TenantID = [],
     cli_BackchannelLogoutURI = [], cli_PostLogoutRedirectURIs = [], cli_CreatedAt = 0\<rparr>"

definition demo_rq :: http_request where
  "demo_rq = \<lparr>rq_form = Some [], rq_query = [], rq_headers = [], rq_basic = None, rq_path = [], rq_body = None,
     rq_remote = ''10.0.0.1:99'', rq_method = ''GET''\<rparr>"

definition demo_session :: oidc_session where
  "demo_session = \<lparr>ses_ID = ''s1'', ses_SubjectDID = ''did:a'', ses_ClientID = ''app'',
     ses_RedirectURI = ''https://app/cb'', ses_Scope = ''openid'', ses_Nonce = [], ses_State = ''st'',
     ses_Code = ''c0de'', ses_CodeChallenge = b64_encode (bytes_of ''v''), ses_CodeChallengeMethod = ''S256'',
     ses_AccessToken = [], ses_RefreshTokenHash = [], ses_UserAgent = [], ses_IPAddress = [], ses_LastUsedAt = None,
     ses_CreatedAt = 0, ses_ExpiresAt = 100\<rparr>"

definition demo_oidc_db :: db where
  "demo_oidc_db = OpenSQLite\<lparr>t_clients := [demo_app], t_sessions := [demo_session]\<rparr>"

definition demo_exchange_rq :: http_request where
  "demo_exchange_rq = demo_rq\<lparr>rq_form := Some [(''code'', ''c0de''), (''code_verifier'', ''v'')]\<rparr>"

definition demo_provider :: provider where
  "demo_provider = NewProvider demo_prims ''https://id'' [1, 2] ''k''"

lemma demo_find [simp]:
  "tbl_find ses_Code ''c0de'' [demo_session] = Inr demo_session" "tbl_find cli_ClientID ''app'' [demo_app] = Inr demo_app"
  by (simp_all add: tbl_find_def demo_session_def demo_app_def)

lemma demo_exchange_status:
  "resp_status (fst (handleAuthCodeExchange demo_prims demo_provider 5 (Some (\<lambda>_. 7)) demo_exchange_rq demo_oidc_db)) = 200"
proof -
  have d: "ses_ExpiresAt demo_session = 100" "ses_ClientID demo_session = ''app''"
    "ses_CodeChallenge demo_session = b64_encode (bytes_of ''v'')" "cli_TokenEndpointAuthMethod demo_app = ''none''"
    by (simp_all add: demo_session_def demo_app_def)
  have c: "b64_encode (bytes_of ''v'') \<noteq> []" by (simp add: bytes_of_def)
  have "GetSessionByCode ''c0de'' demo_oidc_db = Inr demo_session" "GetClient ''app'' demo_oidc_db = Inr demo_app"
    by (simp_all add: demo_oidc_db_def GetSessionByCode_def GetClient_def db_defs OpenSQLite_def)
  then show ?thesis using c
    by (simp add: handleAuthCodeExchange_def Let_def demo_exchange_rq_def form_value_def assoc_get_def demo_rq_def d
        validateClientAuth_def verifyPKCE_def generateRefreshToken_def randomHex_def random_hex_def demo_prims_def
        SaveRefreshToken_def db_defs demo_oidc_db_def OpenSQLite_def del: b64_encode.simps)
qed

theorem auth_code_sound_witness:
  "\<exists>sess. GetSessionByCode ''c0de'' demo_oidc_db = Inr sess \<and> 5 \<le> ses_ExpiresAt sess \<and>
    b64_encode (sha256 demo_prims (bytes_of ''v'')) = ses_CodeChallenge sess"
  using auth_code_sound [OF prod.collapse [symmetric] demo_exchange_status]
  by (auto simp: demo_exchange_rq_def form_value_def assoc_get_def)

theorem auth_code_single_use_witness:
  "fst (handleAuthCodeExchange demo_prims demo_provider 6 None demo_exchange_rq
     (snd (handleAuthCodeExchange demo_prims demo_provider 5 (Some (\<lambda>_. 7)) demo_exchange_rq demo_oidc_db))) =
   writeError ''invalid_grant'' ''code not found or expired''"
proof -
  have "length (filter (\<lambda>r. ses_Code r = form_value demo_exchange_rq ''code'') (t_sessions demo_oidc_db)) \<le> 1"
    by (simp add: demo_oidc_db_def)
  from auth_code_single_use [OF prod.collapse [symmetric] demo_exchange_status this refl]
  show ?thesis by (simp add: demo_exchange_rq_def form_value_def assoc_get_def)
qed

definition demo_authorize_rq :: http_request where
  "demo_authorize_rq = demo_rq\<lparr>rq_query := [(''client_id'', ''app''), (''redirect_uri'', ''https://app/cb''),
      (''state'', ''st''), (''code_challenge'', b64_encode (sha256 demo_prims (bytes_of ''v''))),
      (''code_challenge_method'', ''S256''), (''scope'', ''openid'')], rq_headers := [(''X-Subject-DID'', ''did:a'')]\<rparr>"

definition demo_redeem_rq :: http_request where
  "demo_redeem_rq = demo_rq\<lparr>rq_form := Some [(''grant_type'', ''authorization_code''),
     (''code'', hex_encode (map (\<lambda>_. 0) [0..<32])), (''code_verifier'', ''v''), (''client_id'', ''app'')]\<rparr>"

theorem auth_code_flow_witness:
  "\<exists>s1 s2 access idt.
    AuthorizeHandler json_read 0 (Some (\<lambda>_. 0)) None demo_authorize_rq (OpenSQLite\<lparr>t_clients := [demo_app]\<rparr>) =
      (Redirect (''https://app/cb'' @ ''?code='' @ hex_encode (map (\<lambda>_. 0) [0..<32]) @ ''&state='' @ ''st''), s1) \<and>
    TokenHandler demo_prims json_read demo_provider 1 (Some (\<lambda>_. 9)) demo_redeem_rq s1 =
      (writeTokenResponse access idt (hex_encode (map (\<lambda>_. 9) [0..<32])) ''openid'' accessTokenTTL, s2) \<and>
    SubjectFromBearer demo_prims json_read demo_provider 2 (''Bearer '' @ access) = Inr ''did:a''"
proof -
  let ?s = "OpenSQLite\<lparr>t_clients := [demo_app]\<rparr>"
  have q: "query_get demo_authorize_rq ''client_id'' = ''app''" "query_get demo_authorize_rq ''redirect_uri'' = ''https://app/cb''"
    "query_get demo_authorize_rq ''state'' = ''st''" "query_get demo_authorize_rq ''scope'' = ''openid''"
    "query_get demo_authorize_rq ''code_challenge'' = b64_encode (sha256 demo_prims (bytes_of ''v''))"
    "query_get demo_authorize_rq ''code_challenge_method'' = ''S256''" "query_get demo_authorize_rq ''request_uri'' = []"
    "header_get demo_authorize_rq ''X-Subject-DID'' = ''did:a''"
    by (simp_all add: demo_authorize_rq_def query_get_def header_get_def assoc_get_def)
  have f: "form_value demo_redeem_rq ''grant_type'' = ''authorization_code''"
    "form_value demo_redeem_rq ''code'' = hex_encode (map (\<lambda>_. 0) [0..<32])" "form_value demo_redeem_rq ''code_verifier'' = ''v''"
    "form_value demo_redeem_rq ''client_id'' = ''app''" "rq_form demo_redeem_rq \<noteq> None"
    by (simp_all only: demo_redeem_rq_def form_value_def assoc_get_def http_request.simps) simp_all
  have g: "GetClient ''app'' ?s = Inr demo_app" by (simp add: GetClient_def db_defs OpenSQLite_def)
  have v: "validateClientAuth demo_prims demo_redeem_rq ''app'' ?s = None"
    using g by (simp add: validateClientAuth_def demo_app_def)
  have c: "b64_encode (sha256 demo_prims (bytes_of ''v'')) \<noteq> []" by (simp add: bytes_of_def demo_prims_def)
  have r: "''https://app/cb'' \<in> set (cli_RedirectURIs demo_app)" by (simp add: demo_app_def)
  have e: "t_sessions ?s = []" "db_open ?s" by (simp_all add: OpenSQLite_def db_defs)
  show ?thesis
    using auth_code_flow [of demo_prims json_read ?s demo_authorize_rq demo_app demo_redeem_rq None "\<lambda>_. 0" 1 0 2
        "''https://id''" "[1, 2]" "''k''" "\<lambda>_. 9"]
    unfolding q f demo_provider_def [symmetric]
    using g v c r e f(5) by (simp add: demo_signatures_ok decodes_json_read tbl_has_def unix_def int64_def minute_def second_def)
qed

definition demo_refresh_db :: db where
  "demo_refresh_db = OpenSQLite\<lparr>t_clients := [demo_app],
     t_refresh := [new_refresh 0 (hashToken demo_prims ''r'') ''did:a'' ''app'' ''openid'']\<rparr>"

definition demo_refresh_rq :: http_request where
  "demo_refresh_rq = demo_rq\<lparr>rq_form := Some [(''refresh_token'', ''r'')]\<rparr>"

lemma demo_refresh_status:
  "resp_status (fst (handleRefreshTokenGrant demo_prims demo_provider 5 (Some (\<lambda>_. 7)) demo_refresh_rq demo_refresh_db)) = 200"
proof -
  have f: "form_value demo_refresh_rq ''refresh_token'' = ''r''"
    by (simp add: demo_refresh_rq_def form_value_def assoc_get_def)
  have g: "GetRefreshToken (hashToken demo_prims ''r'') demo_refresh_db =
      Inr (new_refresh 0 (hashToken demo_prims ''r'') ''did:a'' ''app'' ''openid'')"
    by (simp add: demo_refresh_db_def GetRefreshToken_def db_defs OpenSQLite_def tbl_find_def new_refresh_def)
  have c: "validateClientAuth demo_prims demo_refresh_rq ''app'' demo_refresh_db = None"
    by (simp add: validateClientAuth_def GetClient_def demo_refresh_db_def db_defs OpenSQLite_def) (simp add: demo_app_def)
  have o: "\<not> t_closed demo_refresh_db" by (simp add: demo_refresh_db_def OpenSQLite_def)
  show ?thesis
    by (simp add: handleRefreshTokenGrant_def Let_def f g c o new_refresh_def refreshTokenTTL_def hour_def minute_def second_def
        generateRefreshToken_def randomHex_def random_hex_def SaveRefreshToken_def db_defs ign_def)
qed

theorem refresh_replay_refused_witness:
  "\<exists>desc s''. handleRefreshTokenGrant demo_prims demo_provider 6 None demo_refresh_rq
      (snd (handleRefreshTokenGrant demo_prims demo_provider 5 (Some (\<lambda>_. 7)) demo_refresh_rq demo_refresh_db)) =
     (writeError ''invalid_grant'' desc, s'') \<and> GetRefreshToken (hashToken demo_prims ''r'') s'' = Inl ErrNoRows"
proof -
  have f: "form_value demo_refresh_rq ''refresh_token'' = ''r''"
    by (simp add: demo_refresh_rq_def form_value_def assoc_get_def)
  have g: "generateRefreshToken demo_prims (Some (\<lambda>_. 7)) =
      Some (hex_encode (map (\<lambda>_. 7) [0..<32]), hashToken demo_prims (hex_encode (map (\<lambda>_. 7) [0..<32])))"
    by (simp only: generateRefreshToken_def randomHex_def random_hex_def option.map)
  have "length (hashToken demo_prims (hex_encode (map (\<lambda>_. 7) [0..<32]))) = 128" "length (hashToken demo_prims ''r'') = 2"
    by (simp_all add: hashToken_def demo_prims_def)
  then have n: "hashToken demo_prims (hex_encode (map (\<lambda>_. 7) [0..<32])) \<noteq> hashToken demo_prims (form_value demo_refresh_rq ''refresh_token'')"
    unfolding f by (metis numeral_eq_iff num.distinct(1,3) num.inject)
  show ?thesis
    using refresh_replay_refused [OF prod.collapse [symmetric] demo_refresh_status g n refl, of demo_provider 6 None] f by auto
qed

definition demo_device :: device_code where
  "demo_device = \<lparr>dc_DeviceCode = ''dc'', dc_UserCode = ''AB'', dc_ClientID = ''app'', dc_Scope = ''openid'',
     dc_SubjectDID = [], dc_Approved = False, dc_Denied = False, dc_ExpiresAt = 100, dc_IntervalSecs = 5, dc_CreatedAt = 0\<rparr>"

definition demo_device_db :: db where
  "demo_device_db = OpenSQLite\<lparr>t_clients := [demo_app], t_devices := [demo_device]\<rparr>"

definition demo_approve_rq :: http_request where
  "demo_approve_rq = demo_rq\<lparr>rq_form := Some [(''user_code'', ''AB''), (''subject_did'', ''did:a'')]\<rparr>"

definition demo_poll_rq :: http_request where
  "demo_poll_rq = demo_rq\<lparr>rq_form := Some [(''device_code'', ''dc'')]\<rparr>"

definition demo_approved_db :: db where
  "demo_approved_db = OpenSQLite\<lparr>t_clients := [demo_app],
     t_devices := [demo_device\<lparr>dc_SubjectDID := ''did:a'', dc_Approved := True\<rparr>]\<rparr>"

lemma demo_approve: "DeviceApproveHandler 1 demo_approve_rq demo_device_db =
    (RespJSON 200 (json_str_obj [(''status'', ''approved'')]), demo_approved_db)"
  by (simp add: DeviceApproveHandler_def Let_def demo_approve_rq_def form_value_def assoc_get_def to_upper_def to_upper_char_def
      GetDeviceCodeByUserCode_def UpdateDeviceCode_def db_defs demo_device_db_def demo_approved_db_def OpenSQLite_def
      tbl_find_def tbl_update_def demo_device_def)

lemma demo_poll: "resp_status (fst (handleDeviceGrant demo_prims demo_provider 2 (Some (\<lambda>_. 7)) demo_poll_rq demo_approved_db)) = 200"
  by (simp add: handleDeviceGrant_def Let_def demo_poll_rq_def form_value_def assoc_get_def GetDeviceCode_def db_defs
      demo_approved_db_def OpenSQLite_def tbl_find_def demo_device_def generateRefreshToken_def randomHex_def random_hex_def
      SaveRefreshToken_def)

theorem device_code_redeemed_once_witness:
  "\<exists>tr s'. device_run demo_prims demo_provider demo_device_db tr s' \<and> length tr = 3 \<and> length (filter (redeems ''dc'') tr) = 1"
proof -
  let ?h = "handleDeviceGrant demo_prims demo_provider 2 (Some (\<lambda>_. 7)) demo_poll_rq"
  let ?tr = "[(DevApprove 1 demo_approve_rq, fst (DeviceApproveHandler 1 demo_approve_rq demo_device_db)),
    (DevPoll 2 (Some (\<lambda>_. 7)) demo_poll_rq, fst (?h demo_approved_db)),
    (DevPoll 2 (Some (\<lambda>_. 7)) demo_poll_rq, fst (?h (snd (?h demo_approved_db))))]"
  have run: "device_run demo_prims demo_provider demo_device_db ?tr (snd (?h (snd (?h demo_approved_db))))"
    by (intro run_step [where ?s1.0 = demo_approved_db] run_step [where ?s1.0 = "snd (?h demo_approved_db)"]
        run_step [where ?s1.0 = "snd (?h (snd (?h demo_approved_db)))"] run_nil) (simp_all add: demo_approve)
  have "\<forall>e\<in>set ?tr. \<not> starts ''dc'' e" by simp
  from device_code_redeemed_once [OF run this] have "length (filter (redeems ''dc'') ?tr) \<le> 1" by (rule conjunct1)
  moreover have "redeems ''dc'' (DevPoll 2 (Some (\<lambda>_. 7)) demo_poll_rq, fst (?h demo_approved_db))"
    using demo_poll by (simp add: demo_poll_rq_def form_value_def assoc_get_def)
  ultimately have "length (filter (redeems ''dc'') ?tr) = 1" by (simp split: if_splits)
  then show ?thesis using run by (intro exI [of _ ?tr] exI conjI) simp_all
qed

definition demo_subject_token :: string where
  "demo_subject_token = signJWT demo_prims (claims_json (exchanged 0 ''https://id'' ''did:a'' ''app'' ''a b'')) [1, 2] ''k''"

definition demo_narrow_rq :: http_request where
  "demo_narrow_rq = demo_rq\<lparr>rq_form := Some [(''subject_token'', demo_subject_token),
     (''subject_token_type'', ttAccessToken), (''scope'', ''a'')]\<rparr>"

theorem token_exchange_narrows_witness:
  "\<exists>body cl' tok. handleTokenExchange demo_prims json_read demo_provider 0 demo_narrow_rq OpenSQLite = RespJSON 200 body \<and>
    member body ''access_token'' = JStr tok \<and> jwt_Verify demo_prims json_read 0 tok (ed_pub demo_prims [1, 2]) = Inr cl' \<and>
    cl_Subject cl' = ''did:a'' \<and> set (Go_Prelude.fields (cl_Scope cl')) \<subseteq> set (Go_Prelude.fields ''a b'')"
proof -
  have f: "form_value demo_narrow_rq ''subject_token'' = demo_subject_token" "form_value demo_narrow_rq ''subject_token_type'' = ttAccessToken"
    "form_value demo_narrow_rq ''requested_token_type'' = []" "form_value demo_narrow_rq ''scope'' = ''a''"
    "form_value demo_narrow_rq ''client_id'' = []" "rq_basic demo_narrow_rq = None"
    by (simp_all add: demo_narrow_rq_def form_value_def assoc_get_def demo_rq_def)
  have v: "jwt_Verify demo_prims json_read 0 demo_subject_token (ed_pub demo_prims [1, 2]) =
      Inr (exchanged 0 ''https://id'' ''did:a'' ''app'' ''a b'')"
    unfolding demo_subject_token_def jwt_Verify_signJWT [OF demo_signatures_ok decodes_json_read]
    by (simp add: claims_of_json exchanged_def access_claims_def int64_def unix_def accessTokenTTL_def hour_def minute_def second_def)
  have n: "demo_subject_token \<noteq> []" by (simp add: demo_subject_token_def signJWT_def Let_def)
  have "scopeIsSubset ''a'' ''a b''" by (simp add: scopeIsSubset_def Go_Prelude.fields_def is_space_def)
  then have "handleTokenExchange demo_prims json_read demo_provider 0 demo_narrow_rq OpenSQLite =
      exchange_issue demo_prims json_read demo_provider 0 demo_narrow_rq (exchanged 0 ''https://id'' ''did:a'' ''app'' ''a b'') [] ''a''"
    by (simp add: handleTokenExchange_def Let_def f n v demo_provider_def NewProvider_def exchanged_def)
  then obtain body where b: "handleTokenExchange demo_prims json_read demo_provider 0 demo_narrow_rq OpenSQLite = RespJSON 200 body"
    by (simp add: exchange_issue_def Let_def)
  from token_exchange_narrows [OF demo_signatures_ok decodes_json_read _ _ this [unfolded demo_provider_def]]
  obtain cl' tok where "member body ''access_token'' = JStr tok"
    "jwt_Verify demo_prims json_read 0 tok (ed_pub demo_prims [1, 2]) = Inr cl'" "cl_Subject cl' = ''did:a''"
    "set (Go_Prelude.fields (cl_Scope cl')) \<subseteq> set (Go_Prelude.fields ''a b'')"
    unfolding f v by (auto simp: int64_def unix_def exchanged_def access_claims_def)
  with b show ?thesis by blast
qed

end
