(* ===== verification/Delivery.thy ===== *)
theory Delivery
  imports Go_Prelude
begin

text \<open>
  Delivery with a bounded number of attempts.  \<open>retry_loop\<close> is the contract of the loops that post to another
  server: an accepted answer ends the loop, anything else costs one attempt.
\<close>

locale retry_loop =
  fixes loop :: "nat \<Rightarrow> nat \<Rightarrow> (nat \<Rightarrow> int option) \<Rightarrow> 'e \<Rightarrow> 'r"
    and accepts :: "int \<Rightarrow> bool"
    and made :: "'r \<Rightarrow> nat"
    and won :: "'r \<Rightarrow> bool"
    and failed :: "'e \<Rightarrow> bool"
  assumes out: "failed e \<Longrightarrow> made (loop 0 i post e) = i \<and> \<not> won (loop 0 i post e)"
    and accept: "post i = Some c \<Longrightarrow> accepts c \<Longrightarrow>
      made (loop (Suc n) i post e) = Suc i \<and> won (loop (Suc n) i post e)"
    and again: "post i = None \<or> (\<exists>c. post i = Some c \<and> \<not> accepts c) \<Longrightarrow>
      \<exists>e'. failed e' \<and> loop (Suc n) i post e = loop n (Suc i) post e'"
begin

definition taken :: "(nat \<Rightarrow> int option) \<Rightarrow> nat \<Rightarrow> bool" where
  "taken post i \<longleftrightarrow> (\<exists>c. post i = Some c \<and> accepts c)"

lemma retry: "\<not> taken post i \<Longrightarrow> \<exists>e'. failed e' \<and> loop (Suc n) i post e = loop n (Suc i) post e'"
  by (rule again, cases "post i") (auto simp: taken_def)

lemma taken_wins: "taken post i \<Longrightarrow> made (loop (Suc n) i post e) = Suc i \<and> won (loop (Suc n) i post e)"
  using accept unfolding taken_def by blast

lemma loop_bound: "failed e \<Longrightarrow> made (loop n i post e) \<le> i + n"
proof (induction n arbitrary: i e)
  case 0
  then show ?case using out by simp
next
  case (Suc n)
  show ?case
  proof (cases "taken post i")
    case True
    then show ?thesis using taken_wins [of post i n e] by auto
  next
    case False
    then obtain e' where "failed e'" "loop (Suc n) i post e = loop n (Suc i) post e'"
      using retry [of post i n e] by blast
    then show ?thesis using Suc.IH [of e' "Suc i"] by simp
  qed
qed

lemma loop_won: "failed e \<Longrightarrow> won (loop n i post e) \<longleftrightarrow> (\<exists>j<n. taken post (i + j))"
proof (induction n arbitrary: i e)
  case 0
  then show ?case using out by simp
next
  case (Suc n)
  show ?case
  proof (cases "taken post i")
    case True
    then have "won (loop (Suc n) i post e)" using taken_wins [of post i n e] by auto
    then show ?thesis using True by (auto intro!: exI [of _ 0])
  next
    case False
    then obtain e' where e': "failed e'" "loop (Suc n) i post e = loop n (Suc i) post e'"
      using retry [of post i n e] by blast
    have "(\<exists>j<Suc n. taken post (i + j)) \<longleftrightarrow> (\<exists>j<n. taken post (Suc i + j))"
      using False by (metis add_Suc_right add_Suc less_Suc_eq_0_disj add_0_right)
    then show ?thesis using e' Suc.IH [of e' "Suc i"] by simp
  qed
qed

text \<open>The call the code makes: a positive number of attempts from the first one on.\<close>

lemma attempts:
  shows "made (loop (Suc n) 0 post e) \<le> Suc n" "won (loop (Suc n) 0 post e) \<longleftrightarrow> (\<exists>j<Suc n. taken post j)"
proof -
  show "made (loop (Suc n) 0 post e) \<le> Suc n"
  proof (cases "taken post 0")
    case True
    then show ?thesis using taken_wins [of post 0 n e] by auto
  next
    case False
    then obtain e' where e': "failed e'" "loop (Suc n) 0 post e = loop n (Suc 0) post e'"
      using retry [of post 0 n e] by blast
    then show ?thesis using loop_bound [OF e'(1), of n "Suc 0" post] by simp
  qed
  show "won (loop (Suc n) 0 post e) \<longleftrightarrow> (\<exists>j<Suc n. taken post j)"
  proof (cases "taken post 0")
    case True
    then show ?thesis using taken_wins [of post 0 n e] by auto
  next
    case False
    then obtain e' where e': "failed e'" "loop (Suc n) 0 post e = loop n (Suc 0) post e'"
      using retry [of post 0 n e] by blast
    have "(\<exists>j<Suc n. taken post j) \<longleftrightarrow> (\<exists>j<n. taken post (Suc 0 + j))"
      using False less_Suc_eq_0_disj by auto
    then show ?thesis using e' loop_won [OF e'(1), of n "Suc 0" post] by simp
  qed
qed

end

end
