(* ===== verification/Oidc_Ext.thy ===== *)
theory Oidc_Ext
  imports Oidc_Flow Delivery
begin

text \<open>
  The remaining endpoints of \<^verbatim>\<open>src/oidc\<close>: client registration, revocation and introspection, step-up, logout
  and its back channel, discovery, keys and WebFinger, credential offers and presentation requests.  Times are encoded in UTC.
\<close>

section \<open>Client registration\<close>

(* src: oidc/registration.go:14-22 RegisterClientRequest *)
record register_request =
  rg_ClientName :: string
  rg_RedirectURIs :: "string list"
  rg_TokenEndpointAuthMethod :: string
  rg_GrantTypes :: "string list"
  rg_ResponseTypes :: "string list"
  rg_Scope :: string
  rg_BackchannelLogoutURI :: string

(* src: oidc/registration.go:39-43 Provider.RegisterClientHandler (decoding) *)
definition register_of :: "json \<Rightarrow> register_request option" where
  "register_of v =
     (if \<not> as_struct v then None
      else case (as_string (member v ''client_name''), as_strings (member v ''redirect_uris''),
          as_string (member v ''token_endpoint_auth_method''), as_strings (member v ''grant_types'')) of
        (Some name, Some uris, Some auth, Some gts) \<Rightarrow>
          (case (as_strings (member v ''response_types''), as_string (member v ''scope''),
              as_string (member v ''backchannel_logout_uri'')) of
             (Some rts, Some sc, Some bc) \<Rightarrow>
               Some \<lparr>rg_ClientName = name, rg_RedirectURIs = uris, rg_TokenEndpointAuthMethod = auth,
                 rg_GrantTypes = gts, rg_ResponseTypes = rts, rg_Scope = sc, rg_BackchannelLogoutURI = bc\<rparr>
           | _ \<Rightarrow> None)
      | _ \<Rightarrow> None)"

(* src: oidc/registration.go:53-64 Provider.RegisterClientHandler (defaults) *)
definition register_defaults :: "register_request \<Rightarrow> register_request" where
  "register_defaults req = req\<lparr>
     rg_TokenEndpointAuthMethod := (if rg_TokenEndpointAuthMethod req = [] then ''client_secret_basic''
       else rg_TokenEndpointAuthMethod req),
     rg_GrantTypes := (if rg_GrantTypes req = [] then [''authorization_code'', ''refresh_token''] else rg_GrantTypes req),
     rg_ResponseTypes := (if rg_ResponseTypes req = [] then [''code''] else rg_ResponseTypes req)\<rparr>"

(* src: oidc/registration.go:100-112 RegisterClientResponse *)
definition register_response :: "instant \<Rightarrow> string \<Rightarrow> string \<Rightarrow> register_request \<Rightarrow> json" where
  "register_response now clientID clientSecret req = JObj (
     [(''client_id'', JStr clientID)] @ jopt ''client_secret'' clientSecret @
     [(''client_name'', JStr (rg_ClientName req)), (''redirect_uris'', json_strs (rg_RedirectURIs req)),
      (''token_endpoint_auth_method'', JStr (rg_TokenEndpointAuthMethod req)),
      (''grant_types'', json_strs (rg_GrantTypes req)), (''response_types'', json_strs (rg_ResponseTypes req))] @
     jopt ''backchannel_logout_uri'' (rg_BackchannelLogoutURI req) @ [(''client_id_issued_at'', JNum (unix now))])"

(* src: oidc/registration.go:38-116 Provider.RegisterClientHandler *)
definition RegisterClientHandler :: "prims \<Rightarrow> instant \<Rightarrow> random \<Rightarrow> random \<Rightarrow> http_request \<Rightarrow> db \<Rightarrow> response \<times> db" where
  "RegisterClientHandler P now rid rsecret rq s =
     (case Option.bind (rq_body rq) register_of of
        None \<Rightarrow> (writeError ''invalid_client_metadata'' ''invalid request body'', s)
      | Some req \<Rightarrow>
          if rg_RedirectURIs req = [] then (writeError ''invalid_client_metadata'' ''redirect_uris required'', s)
          else if rg_ClientName req = [] then (writeError ''invalid_client_metadata'' ''client_name required'', s)
          else
            let req = register_defaults req in
            (case randomHex 16 rid of
               None \<Rightarrow> (internal_error, s)
             | Some clientID \<Rightarrow>
                 (case (if rg_TokenEndpointAuthMethod req = ''none'' then Some ([], [])
                        else map_option (\<lambda>sec. (sec, hashSecret P sec)) (randomHex 32 rsecret)) of
                    None \<Rightarrow> (internal_error, s)
                  | Some (clientSecret, secretHash) \<Rightarrow>
                      (case SaveClient \<lparr>cli_ClientID = clientID, cli_ClientSecretHash = secretHash,
                          cli_ClientName = rg_ClientName req, cli_RedirectURIs = rg_RedirectURIs req,
                          cli_TokenEndpointAuthMethod = rg_TokenEndpointAuthMethod req, cli_GrantTypes = rg_GrantTypes req,
                          cli_ResponseTypes = rg_ResponseTypes req, cli_Scope = rg_Scope req, cli_TenantID = [],
                          cli_BackchannelLogoutURI = rg_BackchannelLogoutURI req, cli_PostLogoutRedirectURIs = [],
                          cli_CreatedAt = now\<rparr> s of
                         Inl _ \<Rightarrow> (internal_error, s)
                       | Inr s' \<Rightarrow> (RespJSON 201 (register_response now clientID clientSecret req), s')))))"

section \<open>Revocation and introspection\<close>

text \<open>The table of revoked tokens: the hash of a token and the time it expires.\<close>


type_synonym revoked_tokens = "(string \<times> instant) list"

(* src: oidc/revocation.go:105-108 hashTokenValue *)
definition hashTokenValue :: "prims \<Rightarrow> string \<Rightarrow> string" where
  "hashTokenValue P token = hex_encode (sha256 P (bytes_of token))"

(* src: oidc/revocation.go:25-41 IsAccessTokenRevoked *)
definition IsAccessTokenRevoked :: "prims \<Rightarrow> instant \<Rightarrow> string \<Rightarrow> revoked_tokens \<Rightarrow> bool \<times> revoked_tokens" where
  "IsAccessTokenRevoked P now token rvk =
     (let h = hashTokenValue P token in
      case map_of rvk h of
        None \<Rightarrow> (False, rvk)
      | Some expiresAt \<Rightarrow> if now > expiresAt then (False, map_del h rvk) else (True, rvk))"

(* src: oidc/revocation.go:45-103 Provider.RevokeHandler *)
definition RevokeHandler :: "prims \<Rightarrow> json_decoder \<Rightarrow> instant \<Rightarrow> http_request \<Rightarrow> revoked_tokens \<Rightarrow> db
    \<Rightarrow> response \<times> revoked_tokens \<times> db" where
  "RevokeHandler P J now rq rvk s =
     (let token = form_value rq ''token''; hint = form_value rq ''token_type_hint'';
          clientID = (if form_value rq ''client_id'' \<noteq> [] then form_value rq ''client_id''
            else case rq_basic rq of Some (user, _) \<Rightarrow> user | None \<Rightarrow> []) in
      if rq_form rq = None then (RespText 400 ''bad request'', rvk, s)
      else if token = [] then (writeError ''invalid_request'' ''token parameter is required'', rvk, s)
      else case (if clientID \<noteq> [] then validateClientAuth P rq clientID s else None) of
        Some err \<Rightarrow> (writeError ''invalid_client'' err, rvk, s)
      | None \<Rightarrow>
          let hash = hashToken P token;
              (revoked, s) = (if hint = [] \<or> hint = ''refresh_token'' then
                (case GetRefreshToken hash s of
                   Inl _ \<Rightarrow> (False, s)
                 | Inr rt \<Rightarrow> if clientID \<noteq> [] \<and> rt_ClientID rt \<noteq> clientID then (False, s)
                     else (True, ign (DeleteRefreshToken hash) s)) else (False, s));
              rvk = (if \<not> revoked \<and> (hint = [] \<or> hint = ''access_token'') then
                (case ParseUnverified J token of
                   Inl _ \<Rightarrow> rvk
                 | Inr cl \<Rightarrow>
                     let expiry = from_unix (cl_ExpiresAt cl) in
                     if now < expiry then map_put (hashTokenValue P token) expiry rvk else rvk) else rvk)
          in (RespJSON 200 (JObj []), rvk, s))"

(* src: oidc/introspect.go:10-19 IntrospectResponse *)
definition introspect_inactive :: response where
  "introspect_inactive = RespJSON 200 (JObj [(''active'', JBool False)])"

definition jnum_opt :: "string \<Rightarrow> int \<Rightarrow> (string \<times> json) list" where
  "jnum_opt k n = (if n = 0 then [] else [(k, JNum n)])"

(* src: oidc/introspect.go:59-69 IntrospectResponse (active) *)
definition introspect_active :: "claims \<Rightarrow> response" where
  "introspect_active cl = RespJSON 200 (JObj ([(''active'', JBool True)] @ jopt ''sub'' (cl_Subject cl) @
     jopt ''client_id'' (cl_Audience cl) @ jnum_opt ''iat'' (cl_IssuedAt cl) @ jnum_opt ''exp'' (cl_ExpiresAt cl) @
     jopt ''iss'' (cl_Issuer cl) @ [(''token_type'', JStr ''Bearer'')]))"

(* src: oidc/introspect.go:23-70 Provider.IntrospectHandler *)
definition IntrospectHandler :: "prims \<Rightarrow> json_decoder \<Rightarrow> provider \<Rightarrow> instant \<Rightarrow> http_request \<Rightarrow> revoked_tokens
    \<Rightarrow> response \<times> revoked_tokens" where
  "IntrospectHandler P J p now rq rvk =
     (let token = form_value rq ''token'' in
      if rq_form rq = None then (RespText 400 ''bad request'', rvk)
      else if token = [] then (writeError ''invalid_request'' ''token parameter is required'', rvk)
      else case jwt_Verify P J now token (pv_signingPub p) of
        Inl _ \<Rightarrow> (introspect_inactive, rvk)
      | Inr verified \<Rightarrow>
          (case IsAccessTokenRevoked P now token rvk of
             (True, rvk) \<Rightarrow> (introspect_inactive, rvk)
           | (False, rvk) \<Rightarrow>
               if unix now > cl_ExpiresAt verified then (introspect_inactive, rvk)
               else (introspect_active verified, rvk)))"

section \<open>Step-up authentication\<close>

definition acr_order :: "string \<Rightarrow> int option" where
  "acr_order v = map_of [(''mfa'', 3), (''pwd'', 2), (''social'', 1), ([], 0)] v"

(* src: oidc/stepup.go:94-106 acrSatisfies *)
definition acrSatisfies :: "string \<Rightarrow> string \<Rightarrow> bool" where
  "acrSatisfies have_acr need =
     (let needLevel = fold (\<lambda>v n. case acr_order v of Some l \<Rightarrow> (if l > n then l else n) | None \<Rightarrow> n)
            (Go_Prelude.fields need) 0;
          haveLevel = (case acr_order have_acr of Some l \<Rightarrow> l | None \<Rightarrow> 0)
      in haveLevel \<ge> needLevel)"

(* src: oidc/stepup.go:29-90 Provider.StepUpHandler *)
definition StepUpHandler :: "prims \<Rightarrow> json_decoder \<Rightarrow> provider \<Rightarrow> instant \<Rightarrow> http_request \<Rightarrow> response" where
  "StepUpHandler P J p now rq =
     (let bearer = (if query_get rq ''access_token'' \<noteq> [] then query_get rq ''access_token''
            else trim_prefix (header_get rq ''Authorization'') ''Bearer '') in
      if bearer = [] then writeError ''invalid_request'' ''access_token required''
      else case jwt_Verify P J now bearer (pv_signingPub p) of
        Inl err \<Rightarrow> writeError ''invalid_token'' (''access_token invalid: '' @ jwt_error_text err)
      | Inr cl \<Rightarrow>
          let requiredACR = query_get rq ''acr_values'' in
          if requiredACR = [] then writeError ''invalid_request'' ''acr_values required''
          else if acrSatisfies (cl_ACR cl) requiredACR then
            let token = issueJWTWithExtra P now (pv_issuer p) (cl_Subject cl) (cl_Audience cl) accessTokenTTL
                  (pv_signingKey p) (pv_keyID p) [(''acr'', JStr (cl_ACR cl)), (''scope'', JStr (cl_Scope cl))] in
            RespJSON 200 (JObj [(''access_token'', JStr token), (''acr'', JStr (cl_ACR cl)),
              (''expires_in'', JNum (accessTokenTTL div second)), (''token_type'', JStr ''Bearer'')])
          else
            let nonce = query_get rq ''nonce'';
                authorizeURL = pv_issuer p @ ''/authorize?response_type=code&acr_values='' @ requiredACR @
                  (if nonce \<noteq> [] then ''&nonce='' @ nonce else []) in
            RespJSON 401 (JObj [(''acr_values'', JStr requiredACR), (''authorize_url'', JStr authorizeURL),
              (''error'', JStr ''insufficient_user_authentication''),
              (''error_description'', JStr (''The current authentication level does not satisfy the required ACR: '' @ requiredACR)),
              (''max_age'', JNum 0)]))"

section \<open>Logout\<close>

(* src: oidc/logout.go:72-85 Provider.isRegisteredLogoutURI *)
definition isRegisteredLogoutURI :: "string \<Rightarrow> db \<Rightarrow> bool" where
  "isRegisteredLogoutURI uri s =
     (case ListClients s of Inl _ \<Rightarrow> False | Inr clients \<Rightarrow> list_ex (\<lambda>c. list_ex (\<lambda>u. u = uri) (cli_PostLogoutRedirectURIs c)) clients)"

(* src: oidc/logout.go:31-44 Provider.LogoutHandler (ending the sessions) *)
definition logout_subject :: "instant \<Rightarrow> string \<Rightarrow> db \<Rightarrow> db" where
  "logout_subject now subjectDID s =
     ign (PurgeExpiredSessions now)
       (case ListSessionsBySubject now subjectDID s of
          Inl _ \<Rightarrow> s
        | Inr sessions \<Rightarrow> fold (\<lambda>sess s. ign (DeleteSession (ses_ID sess))
            (if ses_RefreshTokenHash sess \<noteq> [] then ign (DeleteRefreshToken (ses_RefreshTokenHash sess)) s else s)) sessions s)"

(* src: oidc/logout.go:17-67 Provider.LogoutHandler *)
definition LogoutHandler :: "prims \<Rightarrow> json_decoder \<Rightarrow> provider \<Rightarrow> instant \<Rightarrow> http_request \<Rightarrow> db \<Rightarrow> response \<times> db" where
  "LogoutHandler P J p now rq s =
     (let idTokenHint = query_get rq ''id_token_hint''; postLogoutURI = query_get rq ''post_logout_redirect_uri'';
          state = query_get rq ''state'';
          subjectDID = (if idTokenHint = [] then []
            else case jwt_Verify P J now idTokenHint (pv_signingPub p) of Inl _ \<Rightarrow> [] | Inr cl \<Rightarrow> cl_Subject cl);
          s = (if subjectDID \<noteq> [] then logout_subject now subjectDID s else s);
          target = (if postLogoutURI \<noteq> [] \<and> subjectDID \<noteq> [] \<and> isRegisteredLogoutURI postLogoutURI s
            then postLogoutURI else pv_issuer p);
          target = (if state \<noteq> [] \<and> str_contains target ''?'' then target @ ''&state='' @ state
            else if state \<noteq> [] then target @ ''?state='' @ state else target)
      in (Redirect target, s))"

text \<open>A delivery: \<open>post i\<close> is what the \<open>i\<close>-th attempt gives, no answer or a status code.  The result is the error
  that is left, if any, and the number of attempts made.\<close>

datatype delivery_error = NoAnswer | BadStatus int | BadRequest | NoRandom

(* src: oidc/backchannel.go:46-64 Provider.SendBackChannelLogout (attempts) *)
fun backchannel_loop :: "nat \<Rightarrow> nat \<Rightarrow> (nat \<Rightarrow> int option) \<Rightarrow> delivery_error option \<Rightarrow> delivery_error option \<times> nat" where
  "backchannel_loop 0 attempt post lastErr = (lastErr, attempt)"
| "backchannel_loop (Suc left) attempt post lastErr =
     (case post attempt of
        None \<Rightarrow> backchannel_loop left (attempt + 1) post (Some NoAnswer)
      | Some code \<Rightarrow> if code < 300 then (None, attempt + 1)
          else backchannel_loop left (attempt + 1) post (Some (BadStatus code)))"

(* src: oidc/backchannel.go:26-41 Provider.SendBackChannelLogout (logout token) *)
definition logout_token :: "prims \<Rightarrow> provider \<Rightarrow> instant \<Rightarrow> string \<Rightarrow> string \<Rightarrow> string \<Rightarrow> string" where
  "logout_token P p now jti clientID subjectDID = signJWT P (JObj [(''aud'', JStr clientID),
     (''events'', JObj [(''http://schemas.openid.net/event/backchannel-logout'', JObj [])]),
     (''iat'', JNum (unix now)), (''iss'', JStr (pv_issuer p)), (''jti'', JStr jti), (''sub'', JStr subjectDID)])
     (pv_signingKey p) (pv_keyID p)"

text \<open>\<open>build\<close> is whether the request can be built for the address, \<open>post\<close> what the address answers to a token.\<close>

(* src: oidc/backchannel.go:15-65 Provider.SendBackChannelLogout *)
definition SendBackChannelLogout :: "prims \<Rightarrow> provider \<Rightarrow> instant \<Rightarrow> random \<Rightarrow> (string \<Rightarrow> bool) \<Rightarrow> (string \<Rightarrow> string \<Rightarrow> nat \<Rightarrow> int option)
    \<Rightarrow> string \<Rightarrow> string \<Rightarrow> db \<Rightarrow> delivery_error option \<times> nat" where
  "SendBackChannelLogout P p now rnd build post clientID subjectDID s =
     (case GetClient clientID s of
        Inl _ \<Rightarrow> (None, 0)
      | Inr client \<Rightarrow>
          if cli_BackchannelLogoutURI client = [] then (None, 0)
          else case randomHex 16 rnd of
            None \<Rightarrow> (Some NoRandom, 0)
          | Some jti \<Rightarrow>
              if \<not> build (cli_BackchannelLogoutURI client) then (Some BadRequest, 0)
              else backchannel_loop 3 0
                (post (cli_BackchannelLogoutURI client) (logout_token P p now jti clientID subjectDID)) None)"

section \<open>Discovery, keys and WebFinger\<close>

(* src: oidc/discovery.go:44-82 Provider.DiscoveryHandler *)
definition DiscoveryHandler :: "provider \<Rightarrow> response" where
  "DiscoveryHandler p =
     (let url = (\<lambda>path. JStr (pv_issuer p @ path)) in
      RespJSON 200 (JObj
       [(''issuer'', JStr (pv_issuer p)), (''authorization_endpoint'', url ''/authorize''), (''token_endpoint'', url ''/token''),
        (''userinfo_endpoint'', url ''/userinfo''), (''jwks_uri'', url ''/.well-known/jwks.json''),
        (''registration_endpoint'', url ''/oidc/register''), (''introspection_endpoint'', url ''/oauth/introspect''),
        (''revocation_endpoint'', url ''/oidc/revoke''), (''pushed_authorization_request_endpoint'', url ''/oidc/par''),
        (''device_authorization_endpoint'', url ''/device_authorization''), (''end_session_endpoint'', url ''/oidc/logout''),
        (''stepup_authentication_endpoint'', url ''/oidc/stepup''), (''response_types_supported'', json_strs [''code'']),
        (''subject_types_supported'', json_strs [''public'']), (''id_token_signing_alg_values_supported'', json_strs [''EdDSA'']),
        (''scopes_supported'', json_strs [''openid'', ''profile'', ''did'']),
        (''token_endpoint_auth_methods_supported'', json_strs [''client_secret_basic'', ''client_secret_post'', ''none'']),
        (''claims_supported'', json_strs [''sub'', ''iss'', ''iat'', ''exp'', ''nonce'', ''did'', ''amr'', ''acr'']),
        (''grant_types_supported'', json_strs [''authorization_code'', ''refresh_token'', ''client_credentials'',
          ''urn:ietf:params:oauth:grant-type:device_code'', ''urn:ietf:params:oauth:grant-type:token-exchange'',
          ''urn:ietf:params:oauth:grant-type:pre-authorized_code'']),
        (''acr_values_supported'', json_strs [''social'', ''pwd'', ''mfa'']), (''backchannel_logout_supported'', JBool True),
        (''backchannel_logout_session_supported'', JBool False), (''token_exchange_supported'', JBool True),
        (''credential_issuer_metadata_endpoint'', url ''/.well-known/openid-credential-issuer'')]))"

(* src: oidc/jwks.go:33-42 Provider.publicJWKS *)
definition publicJWKS :: "provider \<Rightarrow> json list" where
  "publicJWKS p = [JObj ([(''kty'', JStr ''OKP''), (''crv'', JStr ''Ed25519''), (''x'', JStr (b64_encode (pv_signingPub p))),
     (''use'', JStr ''sig''), (''alg'', JStr ''EdDSA'')] @ jopt ''kid'' (pv_keyID p))]"

(* src: oidc/jwks.go:26-30 Provider.JWKSHandler *)
definition JWKSHandler :: "provider \<Rightarrow> response" where
  "JWKSHandler p = RespJSON 200 (JObj [(''keys'', JArr (publicJWKS p))])"

text \<open>The host of an address: without the scheme, up to the first slash.\<close>

definition url_host :: "string \<Rightarrow> string" where
  "url_host u = takeWhile (\<lambda>c. c \<noteq> CHR ''/'') (trim_prefix (trim_prefix u ''https://'') ''http://'')"

(* src: oidc/webfinger.go:18-74 Provider.WebFingerHandler *)
definition WebFingerHandler :: "provider \<Rightarrow> http_request \<Rightarrow> response" where
  "WebFingerHandler p rq =
     (let resource = query_get rq ''resource'' in
      if resource = [] then RespText 400 ''resource parameter required''
      else
        let host = (if has_prefix resource ''acct:'' then
              (let parts = split_n 2 (CHR ''@'') (trim_prefix resource ''acct:'') in
               if length parts \<noteq> 2 then Inl (RespText 400 ''invalid acct resource'') else Inr (parts ! 1))
            else if has_prefix resource ''https://'' \<or> has_prefix resource ''http://'' then
              (if \<not> has_prefix resource (pv_issuer p)
               then Inl (writeError ''invalid_request'' ''resource does not match this issuer'')
               else Inr (url_host resource))
            else Inl (RespText 400 ''unsupported resource URI scheme'')) in
        (case host of
           Inl resp \<Rightarrow> resp
         | Inr h \<Rightarrow>
             if to_lower h \<noteq> to_lower (url_host (pv_issuer p)) then RespEmpty 404
             else RespJSON 200 (JObj [(''links'', JArr [json_str_obj [(''href'', pv_issuer p),
               (''rel'', ''http://openid.net/specs/connect/1.0/issuer'')]]), (''subject'', JStr resource)])))"

section \<open>Credential offers\<close>

(* src: oidc/oid4vci.go:28-61 Provider.CredentialIssuerMetadataHandler *)
definition CredentialIssuerMetadataHandler :: "provider \<Rightarrow> registry \<Rightarrow> response" where
  "CredentialIssuerMetadataHandler p reg =
     (let configs = fold (\<lambda>sc. map_put (sch_ID sc) (JObj
            [(''credential_definition'', JObj [(''type'', json_strs [''VerifiableCredential'', sch_Name sc])]),
             (''display'', JArr [json_str_obj [(''locale'', ''en-NZ''), (''name'', sch_Name sc)]]),
             (''format'', JStr ''jwt_vc_json''), (''scope'', JStr (''credential:'' @ sch_ID sc)), (''vct'', JStr (sch_ID sc))]))
            (AllSchemas reg) [];
          url = (\<lambda>path. JStr (pv_issuer p @ path)) in
      RespJSON 200 (JObj
       [(''authorization_servers'', json_strs [pv_issuer p]), (''batch_credential_issuance'', JObj [(''batch_size'', JNum 10)]),
        (''credential_configurations_supported'', JObj (sort_key fst configs)),
        (''credential_endpoint'', url ''/oid4vci/credential''), (''credential_issuer'', url []),
        (''credential_response_encryption_alg_values_supported'', json_strs [''ECDH-ES'']),
        (''deferred_credential_endpoint'', url ''/oid4vci/deferred''),
        (''notification_endpoint'', url ''/oid4vci/notification'')]))"

text \<open>\<^verbatim>\<open>time.Duration(n) * time.Second\<close> is 64-bit arithmetic.\<close>

definition seconds64 :: "int \<Rightarrow> duration" where
  "seconds64 n = (n * second + 2 ^ 63) mod 2 ^ 64 - 2 ^ 63"

definition preauth_grant :: string where
  "preauth_grant = ''urn:ietf:params:oauth:grant-type:pre-authorized_code''"

(* src: oidc/oid4vci.go:115-131 Provider.CreateCredentialOfferHandler (deep link) *)
definition offer_link :: "provider \<Rightarrow> string \<Rightarrow> string list \<Rightarrow> string" where
  "offer_link p offerID schemaIDs = ''openid-credential-offer://?credential_offer='' @ filter (\<lambda>c. c \<noteq> CHR '' '')
     (json_marshal (JObj [(''credential_configuration_ids'', json_strs schemaIDs), (''credential_issuer'', JStr (pv_issuer p)),
       (''grants'', JObj [(preauth_grant, JObj [(''pre-authorized_code'', JStr offerID),
          (''tx_code'', JObj [(''description'', JStr ''Enter the PIN shown on your issuer portal''),
             (''input_mode'', JStr ''numeric''), (''length'', JNum 6)])])])]))"

(* src: oidc/oid4vci.go:74-141 Provider.CreateCredentialOfferHandler *)
definition CreateCredentialOfferHandler :: "provider \<Rightarrow> instant \<Rightarrow> random \<Rightarrow> http_request \<Rightarrow> db \<Rightarrow> response \<times> db" where
  "CreateCredentialOfferHandler p now rnd rq s =
     (case Option.bind (rq_body rq) (\<lambda>v. if \<not> as_struct v then None
          else case (as_strings (member v ''schema_ids''), as_string (member v ''subject_did''),
              as_string (member v ''client_id''), as_int64 (member v ''expires_in'')) of
            (Some ids, Some sub, Some cid, Some n) \<Rightarrow> Some (ids, sub, cid, n) | _ \<Rightarrow> None) of
        None \<Rightarrow> (writeError ''invalid_request'' ''invalid JSON body'', s)
      | Some (schemaIDs, subjectDID, clientID, expiresIn) \<Rightarrow>
          if schemaIDs = [] then (writeError ''invalid_request'' ''schema_ids required'', s)
          else
            let ttl = (if seconds64 expiresIn \<le> 0 then 10 * minute else seconds64 expiresIn) in
            (case randomHex 16 rnd of
               None \<Rightarrow> (internal_error, s)
             | Some offerID \<Rightarrow>
                 (case SaveCredentialOffer \<lparr>of_ID = offerID, of_ClientID = clientID, of_SchemaIDs = schemaIDs,
                     of_IssuerDID = pv_issuer p, of_SubjectDID = subjectDID, of_ExpiresAt = now + ttl, of_Used = False,
                     of_CreatedAt = now\<rparr> s of
                    Inl _ \<Rightarrow> (internal_error, s)
                  | Inr s' \<Rightarrow> (RespJSON 200 (json_str_obj [(''deep_link'', offer_link p offerID schemaIDs),
                      (''expires_at'', rfc3339nano (now + ttl)), (''offer_id'', offerID),
                      (''qr_data'', offer_link p offerID schemaIDs)]), s'))))"

(* src: oidc/oid4vci.go:308-311 mustRandomHex *)
definition mustRandomHex :: "nat \<Rightarrow> random \<Rightarrow> string" where
  "mustRandomHex n rnd = (case randomHex n rnd of None \<Rightarrow> [] | Some x \<Rightarrow> x)"

(* src: oidc/oid4vci.go:145-197 Provider.handlePreAuthorizedCode *)
definition handlePreAuthorizedCode :: "prims \<Rightarrow> provider \<Rightarrow> instant \<Rightarrow> random \<Rightarrow> http_request \<Rightarrow> db \<Rightarrow> response \<times> db" where
  "handlePreAuthorizedCode P p now rnd rq s =
     (let preAuthCode = form_value rq ''pre-authorized_code'' in
      if preAuthCode = [] then (writeError ''invalid_request'' ''pre-authorized_code required'', s)
      else case GetCredentialOffer preAuthCode s of
        Inl _ \<Rightarrow> (writeError ''invalid_grant'' ''pre-authorized_code not found'', s)
      | Inr offer \<Rightarrow>
          if of_Used offer then (writeError ''invalid_grant'' ''pre-authorized_code already used'', s)
          else if now > of_ExpiresAt offer then (writeError ''invalid_grant'' ''pre-authorized_code expired'', s)
          else
            let s = ign (MarkCredentialOfferUsed preAuthCode) s;
                scopes = map (\<lambda>sid. ''credential:'' @ sid) (of_SchemaIDs offer);
                subject = (if of_SubjectDID offer = [] then ''urn:pre-auth:'' @ preAuthCode else of_SubjectDID offer);
                extra = [(''scope'', JStr (join '' '' scopes)), (''offer_id'', JStr (of_ID offer)),
                  (''schema_ids'', json_strs (of_SchemaIDs offer))];
                accessToken = issueJWTWithExtra P now (pv_issuer p) subject (pv_issuer p) accessTokenTTL
                  (pv_signingKey p) (pv_keyID p) extra
            in (RespJSON 200 (JObj [(''access_token'', JStr accessToken), (''c_nonce'', JStr (mustRandomHex 16 rnd)),
                  (''c_nonce_expires_in'', JNum 300), (''expires_in'', JNum (accessTokenTTL div second)),
                  (''token_type'', JStr ''Bearer'')]), s))"

section \<open>Presentation requests\<close>

(* src: oidc/oid4vp.go:22-33 OID4VPRequest *)
record oid4vp_request =
  vq_ID :: string
  vq_ClientID :: string
  vq_ResponseType :: string
  vq_ResponseMode :: string
  vq_ResponseURI :: string
  vq_Nonce :: string
  vq_PresentationDefinition :: json
  vq_ExpiresAt :: instant
  vq_CreatedAt :: instant

(* src: oidc/oid4vp.go:36-42 OID4VPResponse *)
record oid4vp_response =
  vr_RequestID :: string
  vr_VPToken :: string
  vr_State :: string
  vr_ReceivedAt :: instant

(* src: oidc/oid4vp.go:47-51 OID4VPStore *)
record oid4vp_store =
  vs_requests :: "(string \<times> oid4vp_request) list"
  vs_responses :: "(string \<times> oid4vp_response) list"

(* src: oidc/oid4vp.go:53-65 newOID4VPStore *)
definition newOID4VPStore :: oid4vp_store where
  "newOID4VPStore = \<lparr>vs_requests = [], vs_responses = []\<rparr>"

(* src: oidc/oid4vp.go:67-77 OID4VPStore.evict *)
definition vp_evict :: "instant \<Rightarrow> oid4vp_store \<Rightarrow> oid4vp_store" where
  "vp_evict now st =
     (let expired = map fst (filter (\<lambda>(k, rq). vq_ExpiresAt rq < now) (vs_requests st)) in
      \<lparr>vs_requests = fold map_del expired (vs_requests st), vs_responses = fold map_del expired (vs_responses st)\<rparr>)"

(* src: oidc/oid4vp.go:100-155 OID4VPHandler.CreateRequestHandler *)
definition CreateRequestHandler :: "provider \<Rightarrow> instant \<Rightarrow> random \<Rightarrow> random \<Rightarrow> http_request \<Rightarrow> oid4vp_store \<Rightarrow> response \<times> oid4vp_store" where
  "CreateRequestHandler p now rid rnonce rq st =
     (case Option.bind (rq_body rq) (\<lambda>v. if \<not> as_struct v then None
          else case (as_string (member v ''client_id''), as_int64 (member v ''expires_in''), as_string (member v ''response_mode'')) of
            (Some cid, Some n, Some mode) \<Rightarrow> Some (cid, member v ''presentation_definition'', n, mode) | _ \<Rightarrow> None) of
        None \<Rightarrow> (writeError ''invalid_request'' ''invalid JSON body'', st)
      | Some (clientID, def, expiresIn, mode) \<Rightarrow>
          if def = JNull then (writeError ''invalid_request'' ''presentation_definition required'', st)
          else
            let ttl = (if seconds64 expiresIn \<le> 0 then 5 * minute else seconds64 expiresIn);
                reqID = mustRandomHex 16 rid; nonce = mustRandomHex 16 rnonce;
                pReq = \<lparr>vq_ID = reqID, vq_ClientID = clientID, vq_ResponseType = ''vp_token'',
                  vq_ResponseMode = (if mode = [] then ''direct_post'' else mode),
                  vq_ResponseURI = pv_issuer p @ ''/oid4vp/responses'', vq_Nonce = nonce, vq_PresentationDefinition = def,
                  vq_ExpiresAt = now + ttl, vq_CreatedAt = now\<rparr>;
                requestURI = pv_issuer p @ ''/oid4vp/requests/'' @ reqID;
                deepLink = ''openid4vp://?request_uri='' @ requestURI @ ''&client_id='' @ clientID
            in (RespJSON 200 (json_str_obj [(''deep_link'', deepLink), (''expires_at'', rfc3339nano (now + ttl)),
                  (''nonce'', nonce), (''qr_data'', deepLink), (''request_id'', reqID), (''request_uri'', requestURI)]),
                st\<lparr>vs_requests := map_put reqID pReq (vs_requests st)\<rparr>))"

(* src: oidc/oid4vp.go:159-195 OID4VPHandler.GetRequestHandler *)
definition GetRequestHandler :: "prims \<Rightarrow> provider \<Rightarrow> instant \<Rightarrow> http_request \<Rightarrow> oid4vp_store \<Rightarrow> response" where
  "GetRequestHandler P p now rq st =
     (case map_of (vs_requests st) (path_value rq ''id'') of
        None \<Rightarrow> RespText 404 ''request not found''
      | Some pReq \<Rightarrow>
          if now > vq_ExpiresAt pReq then RespText 410 ''request expired''
          else RespText 200 (issueJWTWithExtra P now (pv_issuer p) (vq_ClientID pReq) (pv_issuer p)
            (vq_ExpiresAt pReq - now) (pv_signingKey p) (pv_keyID p)
            [(''response_type'', JStr (vq_ResponseType pReq)), (''response_mode'', JStr (vq_ResponseMode pReq)),
             (''response_uri'', JStr (vq_ResponseURI pReq)), (''client_id'', JStr (vq_ClientID pReq)),
             (''nonce'', JStr (vq_Nonce pReq)), (''presentation_definition'', vq_PresentationDefinition pReq),
             (''state'', JStr (vq_ID pReq))]))"

(* src: oidc/oid4vp.go:203-232 OID4VPHandler.PostResponseHandler *)
definition PostResponseHandler :: "provider \<Rightarrow> instant \<Rightarrow> http_request \<Rightarrow> oid4vp_store \<Rightarrow> response \<times> oid4vp_store" where
  "PostResponseHandler p now rq st =
     (let vpToken = form_value rq ''vp_token''; state = form_value rq ''state'' in
      if rq_form rq = None then (writeError ''invalid_request'' ''could not parse form'', st)
      else if vpToken = [] then (writeError ''invalid_request'' ''vp_token required'', st)
      else (RespJSON 200 (json_str_obj [(''redirect_uri'', pv_issuer p @ ''/oid4vp/responses/'' @ state @ ''/result'')]),
        st\<lparr>vs_responses := map_put state \<lparr>vr_RequestID = state, vr_VPToken = vpToken, vr_State = state,
          vr_ReceivedAt = now\<rparr> (vs_responses st)\<rparr>))"

(* src: oidc/oid4vp.go:236-259 OID4VPHandler.GetResponseHandler *)
definition GetResponseHandler :: "http_request \<Rightarrow> oid4vp_store \<Rightarrow> response" where
  "GetResponseHandler rq st =
     (case map_of (vs_responses st) (path_value rq ''id'') of
        None \<Rightarrow> RespJSON 202 (json_str_obj [(''message'', ''Waiting for wallet to submit presentation.''), (''status'', ''pending'')])
      | Some resp \<Rightarrow> RespJSON 200 (json_str_obj [(''received_at'', rfc3339nano (vr_ReceivedAt resp)), (''status'', ''complete''),
          (''vp_token'', vr_VPToken resp)]))"

section \<open>What revocation achieves\<close>

lemma less_div_iff: "0 < (k :: int) \<Longrightarrow> n < t div k \<longleftrightarrow> (n + 1) * k \<le> t"
proof
  assume k: "0 < k" and "n < t div k"
  then have "(n + 1) * k \<le> (t div k) * k" by (intro mult_right_mono) auto
  also have "\<dots> \<le> t" using k by (metis div_mult_mod_eq le_add_same_cancel1 pos_mod_sign)
  finally show "(n + 1) * k \<le> t" .
next
  assume k: "0 < k" and "(n + 1) * k \<le> t"
  then have "(n + 1) * k div k \<le> t div k" by (intro zdiv_mono1)
  then show "n < t div k" using k by simp
qed

lemma unix_less_iff: "unix t > n \<longleftrightarrow> t \<ge> from_unix n + second"
  unfolding unix_def from_unix_def by (subst less_div_iff) (simp_all add: second_def algebra_simps)

text \<open>A revoked access token is reported inactive, except in the last second of its life.  Between its expiry to
  the nanosecond and the next full second the revocation entry is already dropped while the expiry check, in whole
  seconds, still accepts, and introspection reports the token active again.\<close>

theorem revoked_token_introspection:
  assumes "signatures_ok P" "decodes J" "int64 (cl_IssuedAt cl)" "int64 (cl_ExpiresAt cl)"
    and token: "token = signJWT P (claims_json cl) key keyID" "token \<noteq> []"
    and revoke: "rq_form rq \<noteq> None" "form_value rq ''token'' = token" "form_value rq ''token_type_hint'' = ''access_token''"
      "form_value rq ''client_id'' = []" "rq_basic rq = None" "now < from_unix (cl_ExpiresAt cl)"
    and introspect: "rq_form rq' \<noteq> None" "form_value rq' ''token'' = token"
  shows "fst (IntrospectHandler P J (NewProvider P issuer key keyID) t rq' (fst (snd (RevokeHandler P J now rq rvk s)))) =
    (if from_unix (cl_ExpiresAt cl) < t \<and> t < from_unix (cl_ExpiresAt cl) + second
     then introspect_active cl else introspect_inactive)"
proof -
  have parse: "ParseUnverified J token = Inr cl"
    using assms(2-4) token(1) by (simp add: ParseUnverified_signJWT claims_of_json)
  have rvk: "fst (snd (RevokeHandler P J now rq rvk s)) = map_put (hashTokenValue P token) (from_unix (cl_ExpiresAt cl)) rvk"
    using revoke token(2) parse by (auto simp: RevokeHandler_def Let_def)
  have v: "jwt_Verify P J t token (ed_pub P key) =
      (if t \<ge> from_unix (cl_ExpiresAt cl) + second then Inl ErrJwtExpired else Inr cl)"
    using assms(1-4) token(1) by (simp add: jwt_Verify_signJWT claims_of_json unix_less_iff)
  show ?thesis unfolding rvk using introspect token(2)
    by (auto simp: IntrospectHandler_def NewProvider_def v IsAccessTokenRevoked_def Let_def unix_less_iff)
qed

definition demo_revoke_rq :: http_request where
  "demo_revoke_rq = demo_rq\<lparr>rq_form := Some [(''token'', demo_subject_token), (''token_type_hint'', ''access_token'')]\<rparr>"

theorem revoked_token_introspection_witness:
  "fst (IntrospectHandler demo_prims json_read demo_provider 5 demo_revoke_rq
     (fst (snd (RevokeHandler demo_prims json_read 0 demo_revoke_rq [] OpenSQLite)))) = introspect_inactive \<and>
   fst (IntrospectHandler demo_prims json_read demo_provider (from_unix 3600 + 1) demo_revoke_rq
     (fst (snd (RevokeHandler demo_prims json_read 0 demo_revoke_rq [] OpenSQLite)))) =
     introspect_active (exchanged 0 ''https://id'' ''did:a'' ''app'' ''a b'')"
proof -
  let ?cl = "exchanged 0 ''https://id'' ''did:a'' ''app'' ''a b''"
  have e: "cl_ExpiresAt ?cl = 3600" "cl_IssuedAt ?cl = 0"
    by (simp_all add: exchanged_def access_claims_def accessTokenTTL_def hour_def minute_def second_def unix_def)
  have n: "demo_subject_token \<noteq> []" by (simp add: demo_subject_token_def signJWT_def Let_def)
  have f: "rq_form demo_revoke_rq \<noteq> None" "form_value demo_revoke_rq ''token'' = demo_subject_token"
    "form_value demo_revoke_rq ''token_type_hint'' = ''access_token''" "form_value demo_revoke_rq ''client_id'' = []"
    "rq_basic demo_revoke_rq = None"
    by (simp_all add: demo_revoke_rq_def form_value_def assoc_get_def demo_rq_def)
  have g: "fst (IntrospectHandler demo_prims json_read demo_provider t demo_revoke_rq
     (fst (snd (RevokeHandler demo_prims json_read 0 demo_revoke_rq [] OpenSQLite)))) =
    (if from_unix 3600 < t \<and> t < from_unix 3600 + second then introspect_active ?cl else introspect_inactive)" for t
    using revoked_token_introspection [OF demo_signatures_ok decodes_json_read, of ?cl demo_subject_token "[1, 2]" "''k''"
        demo_revoke_rq 0 demo_revoke_rq "''https://id''" t "[]" OpenSQLite] f n e
    by (simp add: demo_subject_token_def [symmetric] demo_provider_def [symmetric] int64_def from_unix_def)
  show ?thesis unfolding g by (simp add: from_unix_def second_def)
qed

section \<open>Attempts of the back channel\<close>

interpretation backchannel: retry_loop backchannel_loop "\<lambda>c. c < 300" snd "\<lambda>r. fst r = None" "\<lambda>e. e \<noteq> None"
  by unfold_locales auto

text \<open>The back channel gives up.  A logout token is posted at most three times, nothing is posted for a client
  without an address, and the call reports success for a client with one exactly when one of the three attempts is
  answered with a status below 300.\<close>

theorem backchannel_attempts:
  shows "snd (SendBackChannelLogout P p now rnd build post clientID subjectDID s) \<le> 3 \<and>
    (\<forall>client jti. GetClient clientID s = Inr client \<and> cli_BackchannelLogoutURI client \<noteq> [] \<and> randomHex 16 rnd = Some jti \<and>
       build (cli_BackchannelLogoutURI client) \<longrightarrow>
       (fst (SendBackChannelLogout P p now rnd build post clientID subjectDID s) = None \<longleftrightarrow>
        (\<exists>i<3. \<exists>c. post (cli_BackchannelLogoutURI client) (logout_token P p now jti clientID subjectDID) i = Some c \<and> c < 300)))"
proof
  have b: "snd (backchannel_loop 3 0 f None) \<le> 3" for f
    using backchannel.attempts(1) [of 2 f None] by (simp add: numeral_3_eq_3)
  have w: "fst (backchannel_loop 3 0 f None) = None \<longleftrightarrow> (\<exists>i<3. \<exists>c. f i = Some c \<and> c < 300)" for f
    using backchannel.attempts(2) [of 2 f None] by (simp add: numeral_3_eq_3 backchannel.taken_def)
  show "snd (SendBackChannelLogout P p now rnd build post clientID subjectDID s) \<le> 3"
    by (simp add: SendBackChannelLogout_def b split: sum.split option.split)
  show "\<forall>client jti. GetClient clientID s = Inr client \<and> cli_BackchannelLogoutURI client \<noteq> [] \<and> randomHex 16 rnd = Some jti \<and>
       build (cli_BackchannelLogoutURI client) \<longrightarrow>
       (fst (SendBackChannelLogout P p now rnd build post clientID subjectDID s) = None \<longleftrightarrow>
        (\<exists>i<3. \<exists>c. post (cli_BackchannelLogoutURI client) (logout_token P p now jti clientID subjectDID) i = Some c \<and> c < 300))"
    by (simp add: SendBackChannelLogout_def w)
qed

definition demo_bc_app :: oidc_client where
  "demo_bc_app = demo_app\<lparr>cli_BackchannelLogoutURI := ''https://app/out''\<rparr>"

theorem backchannel_attempts_witness:
  "fst (SendBackChannelLogout demo_prims demo_provider 0 (Some (\<lambda>_. 1)) (\<lambda>_. True) (\<lambda>_ _ i. if i = 2 then Some 200 else None)
     ''app'' ''did:a'' (OpenSQLite\<lparr>t_clients := [demo_bc_app]\<rparr>)) = None"
proof -
  let ?s = "OpenSQLite\<lparr>t_clients := [demo_bc_app]\<rparr>"
  have "GetClient ''app'' ?s = Inr demo_bc_app"
    by (simp add: GetClient_def db_defs OpenSQLite_def tbl_find_def demo_bc_app_def demo_app_def)
  moreover have "cli_BackchannelLogoutURI demo_bc_app \<noteq> []" by (simp add: demo_bc_app_def)
  moreover obtain jti where "randomHex 16 (Some (\<lambda>_. 1)) = Some jti" by (simp add: randomHex_def random_hex_def)
  ultimately show ?thesis
    using backchannel_attempts [of demo_prims demo_provider 0 "Some (\<lambda>_. 1)" "\<lambda>_. True" "\<lambda>_ _ i. if i = 2 then Some 200 else None"
        "''app''" "''did:a''" ?s]
    by (auto intro!: exI [of _ 2])
qed

end
