(* ===== verification/Events.thy ===== *)
theory Events
  imports Delivery Oidc_Ext
begin

text \<open>
  The event bus, \<^verbatim>\<open>src/internal/events/events.go\<close>, and the audit log that subscribes to it,
  \<^verbatim>\<open>src/internal/auditlog/auditlog.go\<close>: publishing, webhook delivery, and the hash chain of the log.
\<close>

section \<open>Message authentication\<close>

text \<open>\<^verbatim>\<open>crypto/hmac\<close> over a hash with 64-byte blocks.\<close>

definition hmac :: "(byte list \<Rightarrow> byte list) \<Rightarrow> byte list \<Rightarrow> byte list \<Rightarrow> byte list" where
  "hmac H key msg =
     (let k = (if length key > 64 then H key else key);
          k = k @ replicate (64 - length k) 0;
          inner = H (map (\<lambda>b. xor b 0x36) k @ msg)
      in H (map (\<lambda>b. xor b 0x5c) k @ inner))"

section \<open>The bus\<close>

(* src: internal/events/events.go:32-37 Event *)
record event =
  ev_ID :: string
  ev_Type :: string
  ev_OccuredAt :: string
  ev_Payload :: json

definition event_json :: "event \<Rightarrow> json" where
  "event_json e = JObj [(''id'', JStr (ev_ID e)), (''type'', JStr (ev_Type e)), (''occurred_at'', JStr (ev_OccuredAt e)),
     (''payload'', ev_Payload e)]"

text \<open>Sixteen lower-case hexadecimal digits of the clock in nanoseconds.\<close>

(* src: internal/events/events.go:156-158 randomEventID *)
definition randomEventID :: "instant \<Rightarrow> string" where
  "randomEventID now = ''evt_'' @ map (\<lambda>i. nibble_char (nat (now div 16 ^ (15 - i) mod 16))) [0..<16]"

text \<open>A subscriber in the process is a function on the store.\<close>

type_synonym subscriber = "event \<Rightarrow> db \<Rightarrow> db"

(* src: internal/events/events.go:75-80 Bus.Publish (the event) *)
definition new_event :: "instant \<Rightarrow> string \<Rightarrow> json \<Rightarrow> event" where
  "new_event now eventType payload =
     \<lparr>ev_ID = randomEventID now, ev_Type = eventType, ev_OccuredAt = rfc3339 now, ev_Payload = payload\<rparr>"

text \<open>\<open>Publish\<close> gives the deliveries it starts and the store the subscribers leave.\<close>

(* src: internal/events/events.go:75-102 Bus.Publish *)
definition Publish :: "instant \<Rightarrow> string \<Rightarrow> json \<Rightarrow> subscriber list \<Rightarrow> db \<Rightarrow> (webhook_subscription \<times> string) list \<times> db" where
  "Publish now eventType payload subscribers s =
     (let event = new_event now eventType payload;
          body = json_marshal (event_json event);
          s = fold (\<lambda>fn s. fn event s) subscribers s
      in (case ListWebhookSubscriptions eventType s of Inl _ \<Rightarrow> [] | Inr subs \<Rightarrow> map (\<lambda>sub. (sub, body)) subs, s))"

section \<open>Delivery\<close>

(* src: internal/events/events.go:142-148 computeHMAC *)
definition computeHMAC :: "prims \<Rightarrow> string \<Rightarrow> string \<Rightarrow> string" where
  "computeHMAC P body secretHash = hex_encode (hmac (sha256 P) (bytes_of secretHash) (bytes_of body))"

(* src: internal/events/events.go:150-154 extractEventID *)
definition extractEventID :: "json_decoder \<Rightarrow> string \<Rightarrow> string" where
  "extractEventID J body =
     (case J body of None \<Rightarrow> [] | Some v \<Rightarrow> (case as_string (member v ''id'') of None \<Rightarrow> [] | Some x \<Rightarrow> x))"

text \<open>The state of the loop: the next backoff and the pauses made so far.  The result adds whether the delivery
  succeeded and the number of attempts.\<close>

record delivery =
  dl_ok :: bool
  dl_attempts :: nat
  dl_sleeps :: "duration list"

(* src: internal/events/events.go:107-136 Bus.deliver (attempts) *)
fun deliver_loop :: "nat \<Rightarrow> nat \<Rightarrow> (nat \<Rightarrow> int option) \<Rightarrow> duration \<times> duration list \<Rightarrow> delivery" where
  "deliver_loop 0 attempt post (backoff, sleeps) = \<lparr>dl_ok = False, dl_attempts = attempt, dl_sleeps = sleeps\<rparr>"
| "deliver_loop (Suc left) attempt post (backoff, sleeps) =
     (let (backoff, sleeps) = (if attempt > 0 then (backoff * 2, sleeps @ [backoff]) else (backoff, sleeps)) in
      case post attempt of
        None \<Rightarrow> deliver_loop left (attempt + 1) post (backoff, sleeps)
      | Some code \<Rightarrow>
          if 200 \<le> code \<and> code < 300 then \<lparr>dl_ok = True, dl_attempts = attempt + 1, dl_sleeps = sleeps\<rparr>
          else deliver_loop left (attempt + 1) post (backoff, sleeps))"

text \<open>The headers a delivery carries, and the delivery: \<open>build\<close> is whether a request can be built for the address,
  \<open>post\<close> what the address answers.  The first part of the result is what the delivery hook is told.\<close>

(* src: internal/events/events.go:118-120 Bus.deliver (headers) *)
definition delivery_headers :: "prims \<Rightarrow> json_decoder \<Rightarrow> webhook_subscription \<Rightarrow> string \<Rightarrow> (string \<times> string) list" where
  "delivery_headers P J sub body = [(''Content-Type'', ''application/json''),
     (''X-TPT-Signature-256'', ''sha256='' @ computeHMAC P body (wh_SecretHash sub)),
     (''X-TPT-Event-ID'', extractEventID J body)]"

(* src: internal/events/events.go:105-140 Bus.deliver *)
definition deliver :: "prims \<Rightarrow> json_decoder \<Rightarrow> (string \<Rightarrow> bool) \<Rightarrow> (string \<Rightarrow> (string \<times> string) list \<Rightarrow> string \<Rightarrow> nat \<Rightarrow> int option)
    \<Rightarrow> webhook_subscription \<Rightarrow> string \<Rightarrow> bool list \<times> nat \<times> duration list" where
  "deliver P J build post sub body =
     (if \<not> build (wh_URL sub) then ([], 0, [])
      else let d = deliver_loop 3 0 (post (wh_URL sub) (delivery_headers P J sub body) body) (2 * second, [])
        in ([dl_ok d], dl_attempts d, dl_sleeps d))"

section \<open>The audit logger\<close>

(* src: internal/auditlog/auditlog.go:30-46 Logger.handle *)
definition audit_handle :: "prims \<Rightarrow> instant \<Rightarrow> subscriber" where
  "audit_handle P now event s =
     (let payload = json_marshal (ev_Payload event);
          prevHash = (case GetAuditHead s of Inl _ \<Rightarrow> [] | Inr head \<Rightarrow> ae_Hash head)
      in case AppendAuditEvent P now (ev_Type event) payload prevHash s of Inl _ \<Rightarrow> s | Inr (_, s') \<Rightarrow> s')"

text \<open>A server that publishes a sequence of events, each at its time, with the audit logger subscribed.\<close>

(* src: internal/auditlog/auditlog.go:25-28 Logger.Subscribe *)
definition audit_publish :: "prims \<Rightarrow> instant \<times> string \<times> json \<Rightarrow> db \<Rightarrow> db" where
  "audit_publish P e s = (case e of (now, eventType, payload) \<Rightarrow> snd (Publish now eventType payload [audit_handle P now] s))"

section \<open>Delivery is bounded\<close>

interpretation webhook: retry_loop deliver_loop "\<lambda>c. 200 \<le> c \<and> c < 300" dl_attempts dl_ok "\<lambda>e. True"
proof
  fix e :: "duration \<times> duration list" and i post
  show "dl_attempts (deliver_loop 0 i post e) = i \<and> \<not> dl_ok (deliver_loop 0 i post e)" by (cases e) simp
next
  fix post :: "nat \<Rightarrow> int option" and i n c and e :: "duration \<times> duration list"
  assume "post i = Some c" "200 \<le> c \<and> c < 300"
  then show "dl_attempts (deliver_loop (Suc n) i post e) = Suc i \<and> dl_ok (deliver_loop (Suc n) i post e)"
    by (cases e) simp
next
  fix post :: "nat \<Rightarrow> int option" and i n and e :: "duration \<times> duration list"
  assume no: "post i = None \<or> (\<exists>c. post i = Some c \<and> \<not> (200 \<le> c \<and> c < 300))"
  obtain b z where e: "e = (b, z)" by (cases e)
  have "deliver_loop (Suc n) i post e = deliver_loop n (Suc i) post (if i > 0 then (b * 2, z @ [b]) else (b, z))"
    using no by (auto simp: e)
  then show "\<exists>e'. True \<and> deliver_loop (Suc n) i post e = deliver_loop n (Suc i) post e'" by blast
qed

lemma deliver_three: "deliver_loop 3 0 f (b, []) =
  (if webhook.taken f 0 then \<lparr>dl_ok = True, dl_attempts = 1, dl_sleeps = []\<rparr>
   else if webhook.taken f 1 then \<lparr>dl_ok = True, dl_attempts = 2, dl_sleeps = [b]\<rparr>
   else \<lparr>dl_ok = webhook.taken f 2, dl_attempts = 3, dl_sleeps = [b, b * 2]\<rparr>)"
  by (auto simp: numeral_3_eq_3 numeral_2_eq_2 webhook.taken_def split: option.splits)

text \<open>C30: webhook delivery ends.  A delivery makes at most three attempts, pauses two seconds before the second and
  four before the third, and tells the hook success exactly when one of the three attempts gets a 2xx answer.\<close>

theorem webhook_delivery_bounded:
  assumes "deliver P J build post sub body = (hook, attempts, sleeps)"
  shows "attempts \<le> 3 \<and> sleeps = take (attempts - 1) [2 * second, 4 * second] \<and>
    hook = (if build (wh_URL sub) then [\<exists>i<3. \<exists>c. post (wh_URL sub) (delivery_headers P J sub body) body i = Some c \<and> 200 \<le> c \<and> c < 300]
            else [])"
proof (cases "build (wh_URL sub)")
  case True
  let ?f = "post (wh_URL sub) (delivery_headers P J sub body) body"
  let ?d = "deliver_loop 3 0 ?f (2 * second, [])"
  have d: "hook = [dl_ok ?d]" "attempts = dl_attempts ?d" "sleeps = dl_sleeps ?d"
    using assms True by (simp_all add: deliver_def Let_def)
  have w: "dl_ok ?d \<longleftrightarrow> (\<exists>i<3. \<exists>c. ?f i = Some c \<and> 200 \<le> c \<and> c < 300)"
    using webhook.attempts(2) [of 2 ?f "(2 * second, [])"] by (simp add: numeral_3_eq_3 webhook.taken_def)
  have "dl_attempts ?d \<le> 3 \<and> dl_sleeps ?d = take (dl_attempts ?d - 1) [2 * second, 4 * second]"
    unfolding deliver_three by simp
  then show ?thesis using True d w by simp
qed (use assms in \<open>simp add: deliver_def\<close>)

definition demo_hook :: webhook_subscription where
  "demo_hook = \<lparr>wh_ID = ''h'', wh_URL = ''https://hook'', wh_EventTypes = [''*''], wh_SecretHash = ''s'', wh_TenantID = [],
     wh_CreatedAt = 0\<rparr>"

theorem webhook_delivery_bounded_witness:
  "deliver demo_prims json_read (\<lambda>_. True) (\<lambda>_ _ _ i. if i = 1 then Some 204 else Some 500) demo_hook ''{}'' =
     ([True], 2, [2 * second]) \<and> (2 :: nat) \<le> 3"
proof -
  let ?d = "deliver demo_prims json_read (\<lambda>_. True) (\<lambda>_ _ _ i. if i = 1 then Some 204 else Some 500) demo_hook ''{}''"
  have "?d = ([True], 2, [2 * second])"
    by (simp add: deliver_def deliver_three webhook.taken_def)
  with webhook_delivery_bounded [OF this] show ?thesis by simp
qed


section \<open>The hash chain\<close>

text \<open>A chain: every entry carries the hash of the one before, and its own hash is that of its content.\<close>

fun chain_from :: "prims \<Rightarrow> string \<Rightarrow> audit_event list \<Rightarrow> bool" where
  "chain_from P prev [] = True"
| "chain_from P prev (e # es) \<longleftrightarrow> ae_PrevHash e = prev \<and> ae_Hash e = audit_hash P (ae_EventType e) (ae_Payload e) prev \<and>
     chain_from P (ae_Hash e) es"

definition chain_head :: "string \<Rightarrow> audit_event list \<Rightarrow> string" where
  "chain_head prev es = (if es = [] then prev else ae_Hash (last es))"

definition audit_ok :: "prims \<Rightarrow> db \<Rightarrow> bool" where
  "audit_ok P s \<longleftrightarrow> chain_from P [] (t_audit s) \<and> map ae_Seq (t_audit s) = map int [1..<Suc (length (t_audit s))] \<and>
     t_audit_seq s = int (length (t_audit s))"

lemma chain_append: "chain_from P prev (xs @ ys) \<longleftrightarrow> chain_from P prev xs \<and> chain_from P (chain_head prev xs) ys"
  by (induction xs arbitrary: prev) (auto simp: chain_head_def)

lemma order_desc_head:
  assumes seq: "map ae_Seq rows = map int [1..<Suc (length rows)]" and ne: "rows \<noteq> []"
  shows "\<exists>rest. order_desc ae_Seq rows = last rows # rest"
proof -
  obtain r rest where o: "order_desc ae_Seq rows = r # rest"
    using ne by (metis order_desc_def list.exhaust length_0_conv length_sort)
  have "sorted (map (\<lambda>r. - ae_Seq r) (order_desc ae_Seq rows))"
    unfolding order_desc_def by (rule sorted_sort_key)
  moreover have rows: "set (order_desc ae_Seq rows) = set rows" by simp
  ultimately have min: "ae_Seq x \<le> ae_Seq r" if "x \<in> set rows" for x
    using that o by auto
  have r: "r \<in> set rows" using o rows by auto
  have d: "distinct (map ae_Seq rows)" unfolding seq by (simp add: distinct_map)
  have "ae_Seq (last rows) = last (map ae_Seq rows)" using ne by (simp add: last_map)
  also have "\<dots> = int (length rows)" unfolding seq using ne by (simp add: last_map Suc_le_eq)
  finally have l: "ae_Seq (last rows) = int (length rows)" .
  have "ae_Seq r \<in> set (map ae_Seq rows)" using r by simp
  then have "ae_Seq r \<le> int (length rows)" unfolding seq by auto
  then have "ae_Seq r = ae_Seq (last rows)" using min [of "last rows"] ne l by simp
  then have "r = last rows" using d r ne by (simp add: distinct_map inj_on_def)
  with o show ?thesis by blast
qed

lemma audit_ok_head:
  assumes "audit_ok P s" "db_open s"
  shows "(case GetAuditHead s of Inl _ \<Rightarrow> [] | Inr head \<Rightarrow> ae_Hash head) = chain_head [] (t_audit s)"
proof (cases "t_audit s = []")
  case True
  then show ?thesis using assms(2) by (simp add: GetAuditHead_def db_defs order_desc_def chain_head_def)
next
  case False
  then obtain rest where "order_desc ae_Seq (t_audit s) = last (t_audit s) # rest"
    using order_desc_head assms(1) unfolding audit_ok_def by blast
  then show ?thesis using False assms(2) by (simp add: GetAuditHead_def db_defs chain_head_def)
qed

lemma snd_Publish: "snd (Publish now ty pl subs s) = fold (\<lambda>fn s. fn (new_event now ty pl) s) subs s"
  by (simp add: Publish_def Let_def)

lemma audit_publish_step:
  assumes "audit_ok P s" "db_open s"
  shows "audit_ok P (audit_publish P (now, ty, pl) s) \<and> db_open (audit_publish P (now, ty, pl) s) \<and>
    map (\<lambda>e. (ae_EventType e, ae_Payload e)) (t_audit (audit_publish P (now, ty, pl) s)) =
      map (\<lambda>e. (ae_EventType e, ae_Payload e)) (t_audit s) @ [(ty, json_marshal pl)]"
proof -
  define h where "h = chain_head [] (t_audit s)"
  have e: "audit_publish P (now, ty, pl) s = s\<lparr>t_audit := t_audit s @ [\<lparr>ae_Seq = t_audit_seq s + 1,
      ae_Timestamp = current_timestamp now, ae_EventType = ty, ae_Payload = json_marshal pl,
      ae_Hash = audit_hash P ty (json_marshal pl) h, ae_PrevHash = h\<rparr>], t_audit_seq := t_audit_seq s + 1\<rparr>"
    using assms audit_ok_head [OF assms]
    by (simp add: audit_publish_def snd_Publish audit_handle_def new_event_def AppendAuditEvent_def Let_def h_def db_open_def)
  show ?thesis using assms unfolding e
    by (auto simp: audit_ok_def chain_append h_def [symmetric] db_open_def)
qed

text \<open>C17: the audit log is an unbroken chain.  Whatever sequence of events is published, the log the subscriber leaves
  holds exactly those events in order behind the ones that were there, numbered without gaps, and every entry carries
  the hash of the entry before it and of its own content.\<close>

theorem audit_chain_invariant:
  assumes "audit_ok P s" "db_open s"
  shows "audit_ok P (fold (audit_publish P) evs s) \<and>
    map (\<lambda>e. (ae_EventType e, ae_Payload e)) (t_audit (fold (audit_publish P) evs s)) =
      map (\<lambda>e. (ae_EventType e, ae_Payload e)) (t_audit s) @ map (\<lambda>(now, ty, pl). (ty, json_marshal pl)) evs"
  using assms
proof (induction evs arbitrary: s)
  case (Cons e evs)
  obtain now ty pl where e: "e = (now, ty, pl)" by (cases e)
  show ?case using Cons.IH [of "audit_publish P e s"] audit_publish_step [OF Cons.prems, of now ty pl] by (simp add: e)
qed simp

theorem audit_chain_invariant_witness:
  "audit_ok demo_prims (fold (audit_publish demo_prims) [(0, ''a'', JNull), (1, ''b'', JNum 2)] OpenSQLite) \<and>
   map (\<lambda>e. (ae_EventType e, ae_Payload e)) (t_audit (fold (audit_publish demo_prims) [(0, ''a'', JNull), (1, ''b'', JNum 2)] OpenSQLite)) =
     [(''a'', json_marshal JNull), (''b'', json_marshal (JNum 2))]"
  using audit_chain_invariant [of demo_prims OpenSQLite "[(0, ''a'', JNull), (1, ''b'', JNum 2)]"]
  by (simp add: audit_ok_def OpenSQLite_def db_open_def)


section \<open>Tampering shows\<close>

lemma split_at_brace:
  "p @ CHR ''{'' # x = q @ CHR ''{'' # y \<Longrightarrow> CHR ''{'' \<notin> set p \<Longrightarrow> CHR ''{'' \<notin> set q \<Longrightarrow> p = q \<and> x = y"
proof (induction p arbitrary: q)
  case Nil
  then show ?case by (cases q) auto
next
  case (Cons c p)
  then show ?case by (cases q) auto
qed

lemma brace_notin_hex: "CHR ''{'' \<notin> set (hex_encode bs)"
  using hex_encode_chars [of bs] by (auto simp: hex_alphabet_def)

lemma chain_head_hash:
  assumes "chain_from P [] es" "es \<noteq> []"
  shows "\<exists>bs. chain_head [] es = hex_encode (sha256 P bs)"
proof -
  obtain es' e where es: "es = es' @ [e]" using assms(2) by (cases es rule: rev_cases) auto
  with assms(1) have "ae_Hash e = audit_hash P (ae_EventType e) (ae_Payload e) (chain_head [] es')"
    by (simp add: chain_append)
  then show ?thesis by (auto simp: es chain_head_def audit_hash_def)
qed

text \<open>The text that is hashed for an entry.\<close>

definition audit_text :: "audit_event \<Rightarrow> string" where
  "audit_text e = ae_PrevHash e @ json_marshal (json_str_obj
     [(''event_type'', ae_EventType e), (''payload'', ae_Payload e), (''prev_hash'', ae_PrevHash e)])"

lemma audit_text_inj:
  assumes "audit_text e = audit_text e'" "CHR ''{'' \<notin> set (ae_PrevHash e)" "CHR ''{'' \<notin> set (ae_PrevHash e')"
  shows "ae_EventType e = ae_EventType e' \<and> ae_Payload e = ae_Payload e' \<and> ae_PrevHash e = ae_PrevHash e'"
proof -
  let ?j = "\<lambda>e. json_str_obj [(''event_type'', ae_EventType e), (''payload'', ae_Payload e), (''prev_hash'', ae_PrevHash e)]"
  have brace: "\<exists>x. json_marshal (?j e) = CHR ''{'' # x" for e by (simp add: json_str_obj_def)
  obtain x x' where x: "json_marshal (?j e) = CHR ''{'' # x" "json_marshal (?j e') = CHR ''{'' # x'"
    using brace by meson
  then have "ae_PrevHash e @ CHR ''{'' # x = ae_PrevHash e' @ CHR ''{'' # x'" using assms(1) by (simp add: audit_text_def)
  then have "x = x'" using split_at_brace assms(2,3) by blast
  then have "?j e = ?j e'" using x json_marshal_inj by metis
  then show ?thesis by (simp add: json_str_obj_def)
qed

lemma chain_last:
  assumes "chain_from P [] (es @ [e])"
  shows "chain_from P [] es" "ae_PrevHash e = chain_head [] es" "ae_Hash e = hex_encode (sha256 P (bytes_of (audit_text e)))"
  using assms by (simp_all add: chain_append audit_hash_def audit_text_def)

lemma chain_head_shape:
  assumes "chain_from P [] es" "\<And>m. length (sha256 P m) = 32"
  shows "CHR ''{'' \<notin> set (chain_head [] es)" "chain_head [] es = [] \<longleftrightarrow> es = []"
proof -
  show "CHR ''{'' \<notin> set (chain_head [] es)"
    using chain_head_hash [OF assms(1)] brace_notin_hex by (cases "es = []") (auto simp: chain_head_def)
  have "chain_head [] es \<noteq> []" if "es \<noteq> []"
    using chain_head_hash [OF assms(1) that] assms(2) by (metis hex_encode_eq_Nil list.size(3) zero_neq_numeral)
  then show "chain_head [] es = [] \<longleftrightarrow> es = []" by (auto simp: chain_head_def)
qed

text \<open>C18: tampering with the audit log shows.  Two logs that are both unbroken chains and end in the same hash record
  the same events in the same order, unless an entry of the one and an entry of the other were hashed from different texts
  with the same SHA-256.\<close>

theorem audit_tamper_evident:
  assumes "chain_from P [] xs" "chain_from P [] ys" "xs \<noteq> []" "ys \<noteq> []" "ae_Hash (last xs) = ae_Hash (last ys)"
    "\<And>m. length (sha256 P m) = 32"
  shows "map (\<lambda>e. (ae_EventType e, ae_Payload e)) xs = map (\<lambda>e. (ae_EventType e, ae_Payload e)) ys \<or>
    (\<exists>x\<in>set xs. \<exists>y\<in>set ys. audit_text x \<noteq> audit_text y \<and>
       sha256 P (bytes_of (audit_text x)) = sha256 P (bytes_of (audit_text y)))"
proof (rule disjCI)
  assume "\<not> (\<exists>x\<in>set xs. \<exists>y\<in>set ys. audit_text x \<noteq> audit_text y \<and>
       sha256 P (bytes_of (audit_text x)) = sha256 P (bytes_of (audit_text y)))"
  with assms(1-5) show "map (\<lambda>e. (ae_EventType e, ae_Payload e)) xs = map (\<lambda>e. (ae_EventType e, ae_Payload e)) ys"
  proof (induction xs arbitrary: ys rule: rev_induct)
    case (snoc x xs)
    obtain ys' y where ys: "ys = ys' @ [y]" using snoc.prems(4) by (cases ys rule: rev_cases) auto
    note x = chain_last [OF snoc.prems(1)] and y = chain_last [OF snoc.prems(2) [unfolded ys]]
    have "sha256 P (bytes_of (audit_text x)) = sha256 P (bytes_of (audit_text y))"
      using snoc.prems(5) x(3) y(3) by (simp add: ys hex_encode_inj)
    then have "audit_text x = audit_text y" using snoc.prems(6) by (auto simp: ys)
    then have eq: "ae_EventType x = ae_EventType y" "ae_Payload x = ae_Payload y" "chain_head [] xs = chain_head [] ys'"
      using audit_text_inj [of x y] chain_head_shape(1) [OF _ assms(6)] x y by auto
    have "map (\<lambda>e. (ae_EventType e, ae_Payload e)) xs = map (\<lambda>e. (ae_EventType e, ae_Payload e)) ys'"
    proof (cases "xs = [] \<or> ys' = []")
      case True
      then show ?thesis using chain_head_shape(2) [OF x(1) assms(6)] chain_head_shape(2) [OF y(1) assms(6)] eq(3) by auto
    next
      case False
      then show ?thesis using snoc.IH [OF x(1) y(1)] snoc.prems(6) eq(3) by (auto simp: chain_head_def ys)
    qed
    then show ?case by (simp add: ys eq)
  qed simp
qed

definition demo_hash_prims :: prims where
  "demo_hash_prims = demo_prims\<lparr>sha256 := \<lambda>m. take 32 (m @ replicate 32 0)\<rparr>"

definition demo_log :: "instant \<Rightarrow> audit_event list" where
  "demo_log t = [\<lparr>ae_Seq = 1, ae_Timestamp = t, ae_EventType = ''a'', ae_Payload = ''{}'',
     ae_Hash = audit_hash demo_hash_prims ''a'' ''{}'' [], ae_PrevHash = []\<rparr>]"

theorem audit_tamper_evident_witness:
  "demo_log 0 \<noteq> demo_log 1 \<and> chain_from demo_hash_prims [] (demo_log 0) \<and> chain_from demo_hash_prims [] (demo_log 1) \<and>
   map (\<lambda>e. (ae_EventType e, ae_Payload e)) (demo_log 0) = map (\<lambda>e. (ae_EventType e, ae_Payload e)) (demo_log 1)"
proof -
  have c: "chain_from demo_hash_prims [] (demo_log t)" "demo_log t \<noteq> []" for t by (simp_all add: demo_log_def)
  have h: "ae_Hash (last (demo_log 0)) = ae_Hash (last (demo_log 1))" by (simp add: demo_log_def)
  have t: "audit_text x = audit_text y" if "x \<in> set (demo_log 0)" "y \<in> set (demo_log 1)" for x y
    using that by (simp add: demo_log_def audit_text_def)
  have l: "length (sha256 demo_hash_prims m) = 32" for m by (simp add: demo_hash_prims_def)
  have "demo_log 0 \<noteq> demo_log 1" by (simp add: demo_log_def)
  with audit_tamper_evident [OF c(1) c(1) c(2) c(2) h l] c t show ?thesis by blast
qed

end
