(* ===== verification/Authn.thy ===== *)
theory Authn
  imports Events
begin

text \<open>
  Authentication factors, \<^verbatim>\<open>src/internal/authn\<close>: one-time codes (\<^verbatim>\<open>totp.go\<close>), the brute-force lock
  (\<^verbatim>\<open>lockout.go\<close>) and duress passphrases (\<^verbatim>\<open>duress.go\<close>).
\<close>

section \<open>Primitives\<close>

text \<open>SHA-1, Argon2id (time, memory, threads, key length, password, salt) and AES-256-GCM.\<close>

record authn_prims =
  ap_sha1 :: "byte list \<Rightarrow> byte list"
  ap_argon :: "nat \<Rightarrow> nat \<Rightarrow> nat \<Rightarrow> nat \<Rightarrow> byte list \<Rightarrow> byte list \<Rightarrow> byte list"
  ap_seal :: "byte list \<Rightarrow> byte list \<Rightarrow> byte list \<Rightarrow> byte list"
  ap_open :: "byte list \<Rightarrow> byte list \<Rightarrow> byte list \<Rightarrow> byte list option"

definition gcm_ok :: "authn_prims \<Rightarrow> bool" where
  "gcm_ok A \<longleftrightarrow> (\<forall>k n m. length n = 12 \<longrightarrow> ap_open A k n (ap_seal A k n m) = Some m)"

definition sha1_ok :: "authn_prims \<Rightarrow> bool" where
  "sha1_ok A \<longleftrightarrow> (\<forall>m. length (ap_sha1 A m) = 20)"

section \<open>Lockout\<close>

text \<open>\<open>CheckLocked\<close> gives the time that remains, to the nearest second, or \<open>None\<close>.\<close>

(* src: internal/authn/lockout.go:23-33 LockoutManager.CheckLocked *)
definition CheckLocked :: "instant \<Rightarrow> string \<Rightarrow> db \<Rightarrow> duration option" where
  "CheckLocked now who s =
     (case GetAuthFailures who s of
        Inl _ \<Rightarrow> None
      | Inr (_, Some lockedUntil) \<Rightarrow>
          if now < lockedUntil then Some ((lockedUntil - now + second div 2) div second * second) else None
      | Inr (_, None) \<Rightarrow> None)"

(* src: internal/authn/lockout.go:36-38 LockoutManager.RecordFailure *)
definition RecordFailure :: "instant \<Rightarrow> string \<Rightarrow> db \<Rightarrow> store_error + db" where
  "RecordFailure now who s = RecordAuthFailure now who s"

(* src: internal/authn/lockout.go:41-43 LockoutManager.RecordSuccess *)
definition RecordSuccess :: "string \<Rightarrow> db \<Rightarrow> db" where
  "RecordSuccess who s = ign (ClearAuthFailures who) s"

(* src: internal/authn/lockout.go:46-51 LockoutManager.AdminReset *)
definition AdminReset :: "string \<Rightarrow> db \<Rightarrow> store_error + db" where
  "AdminReset who s = ClearAuthFailures who s"

section \<open>Duress passphrases\<close>

datatype authn_error = ErrEmptyPassphrase | ErrSalt | ErrDuressStore store_error | ErrTotpSecret | ErrTotpFormat
  | ErrTotpDecrypt | PanicNonce | ErrTotpStore store_error | ErrNotEnrolled | ErrInvalidCode

(* src: internal/authn/duress.go:72-76 argon2HashDuress *)
definition argon2HashDuress :: "authn_prims \<Rightarrow> byte list \<Rightarrow> byte list \<Rightarrow> string" where
  "argon2HashDuress A pass salt = hex_encode (ap_argon A 3 (64 * 1024) 4 32 pass salt)"

(* src: internal/authn/duress.go:78-85 splitDuressStored *)
fun splitDuressStored :: "string \<Rightarrow> (string \<times> string) option" where
  "splitDuressStored [] = None"
| "splitDuressStored (c # s) = (if c = CHR '':'' then Some ([], s) else map_option (\<lambda>(a, b). (c # a, b)) (splitDuressStored s))"

(* src: internal/authn/duress.go:34-45 DuressManager.Enrol *)
definition duress_Enrol :: "authn_prims \<Rightarrow> instant \<Rightarrow> random \<Rightarrow> string \<Rightarrow> string \<Rightarrow> db \<Rightarrow> authn_error + db" where
  "duress_Enrol A now rnd subjectDID passphrase s =
     (if passphrase = [] then Inl ErrEmptyPassphrase
      else case rnd of
        None \<Rightarrow> Inl ErrSalt
      | Some f \<Rightarrow>
          let salt = map f [0..<16];
              stored = hex_encode salt @ '':'' @ argon2HashDuress A (bytes_of passphrase) salt
          in (case SaveDuressConfig now subjectDID stored s of Inl e \<Rightarrow> Inl (ErrDuressStore e) | Inr s' \<Rightarrow> Inr s'))"

(* src: internal/authn/duress.go:50-65 DuressManager.CheckDuress *)
definition CheckDuress :: "authn_prims \<Rightarrow> string \<Rightarrow> string \<Rightarrow> db \<Rightarrow> bool" where
  "CheckDuress A subjectDID provided s =
     (case GetDuressHash subjectDID s of
        Inl _ \<Rightarrow> False
      | Inr stored \<Rightarrow>
          if stored = [] then False
          else case splitDuressStored stored of
            None \<Rightarrow> False
          | Some (saltHex, hashStored) \<Rightarrow>
              (case hex_decode saltHex of
                 None \<Rightarrow> False
               | Some salt \<Rightarrow> argon2HashDuress A (bytes_of provided) salt = hashStored))"

(* src: internal/authn/duress.go:68-70 DuressManager.Remove *)
definition duress_Remove :: "string \<Rightarrow> db \<Rightarrow> store_error + db" where
  "duress_Remove subjectDID s = DeleteDuressConfig subjectDID s"

section \<open>One-time codes\<close>

(* src: internal/authn/totp.go:26-32 totpDigits *)
definition totpDigits :: nat where "totpDigits = 6"

definition totpPeriod :: int where "totpPeriod = 30"

(* src: internal/authn/totp.go:42-46 TOTPManager *)
record totp_manager =
  tm_passphrase :: string
  tm_issuer :: string

(* src: internal/authn/totp.go:196-205 timingSafeEqual *)
definition timingSafeEqual :: "string \<Rightarrow> string \<Rightarrow> bool" where
  "timingSafeEqual a b =
     (if length a \<noteq> length b then False
      else fold (\<lambda>i result. or result (xor (bytes_of a ! i) (bytes_of b ! i))) [0..<length a] 0 = 0)"

text \<open>The escape works on ASCII text; a character outside it would be written by its code point.\<close>

(* src: internal/authn/totp.go:207-219 urlEscape *)
definition urlEscape :: "string \<Rightarrow> string" where
  "urlEscape s = concat (map (\<lambda>c.
     if (CHR ''A'' \<le> c \<and> c \<le> CHR ''Z'') \<or> (CHR ''a'' \<le> c \<and> c \<le> CHR ''z'') \<or> (CHR ''0'' \<le> c \<and> c \<le> CHR ''9'') \<or>
        c \<in> {CHR ''-'', CHR ''_'', CHR ''.'', CHR ''~''} then [c]
     else CHR ''%'' # to_upper (hex_encode (bytes_of [c]))) s)"

definition b32_alphabet :: string where
  "b32_alphabet = ''ABCDEFGHIJKLMNOPQRSTUVWXYZ234567''"

text \<open>\<^verbatim>\<open>base32.StdEncoding\<close> without padding: eight characters for five bytes.\<close>

function b32_encode :: "byte list \<Rightarrow> string" where
  "b32_encode bs =
     (if bs = [] then []
      else let chunk = take 5 bs;
               v = foldl (\<lambda>acc b. acc * 256 + unat b) 0 (chunk @ replicate (5 - length chunk) 0);
               n = [0, 2, 4, 5, 7, 8] ! length chunk
        in map (\<lambda>i. b32_alphabet ! (v div 32 ^ (7 - i) mod 32)) [0..<n] @ b32_encode (drop 5 bs))"
  by auto
termination by (relation "measure length") auto

declare b32_encode.simps [simp del]

text \<open>Eight bytes, most significant first.\<close>

definition be64 :: "int \<Rightarrow> byte list" where
  "be64 n = map (\<lambda>i. of_int (n div 256 ^ (7 - i))) [0..<8]"

(* src: internal/authn/totp.go:134-142 generateTOTP (truncation) *)
definition totp_truncate :: "byte list \<Rightarrow> int" where
  "totp_truncate h =
     (let offset = unat (and (last h) 0x0f) in
      (int (unat (and (h ! offset) 0x7f)) * 2 ^ 24 + int (unat (h ! (offset + 1))) * 2 ^ 16 +
       int (unat (h ! (offset + 2))) * 2 ^ 8 + int (unat (h ! (offset + 3)))) mod 10 ^ totpDigits)"

(* src: internal/authn/totp.go:128-143 generateTOTP *)
definition generateTOTP :: "authn_prims \<Rightarrow> byte list \<Rightarrow> int \<Rightarrow> string" where
  "generateTOTP A secret counter = pad_int totpDigits (totp_truncate (hmac (ap_sha1 A) secret (be64 counter)))"

(* src: internal/authn/totp.go:145-165 TOTPManager.encryptSecret *)
definition encryptSecret :: "authn_prims \<Rightarrow> totp_manager \<Rightarrow> random \<Rightarrow> random \<Rightarrow> byte list \<Rightarrow> string option" where
  "encryptSecret A m rsalt rnonce secret =
     (case (rsalt, rnonce) of
        (Some f, Some g) \<Rightarrow>
          let salt = map f [0..<32];
              dk = ap_argon A 3 (64 * 1024) 4 32 (bytes_of (tm_passphrase m)) salt;
              nonce = map g [0..<12];
              ct = ap_seal A dk nonce secret
          in Some (hex_encode salt @ '':'' @ hex_encode nonce @ '':'' @ hex_encode ct)
      | _ \<Rightarrow> None)"

text \<open>Opening with a nonce of another length than 12 is a panic of the library.\<close>

(* src: internal/authn/totp.go:167-194 TOTPManager.decryptSecret *)
definition decryptSecret :: "authn_prims \<Rightarrow> totp_manager \<Rightarrow> string \<Rightarrow> authn_error + byte list" where
  "decryptSecret A m encoded =
     (let parts = split_n 3 (CHR '':'') encoded in
      if length parts \<noteq> 3 then Inl ErrTotpFormat
      else case (hex_decode (parts ! 0), hex_decode (parts ! 1), hex_decode (parts ! 2)) of
        (Some salt, Some nonce, Some ct) \<Rightarrow>
          let dk = ap_argon A 3 (64 * 1024) 4 32 (bytes_of (tm_passphrase m)) salt in
          if length nonce \<noteq> 12 then Inl PanicNonce
          else (case ap_open A dk nonce ct of None \<Rightarrow> Inl ErrTotpDecrypt | Some secret \<Rightarrow> Inr secret)
      | _ \<Rightarrow> Inl ErrTotpFormat)"

(* src: internal/authn/totp.go:60-86 TOTPManager.EnrolCtx *)
definition totp_EnrolCtx :: "authn_prims \<Rightarrow> totp_manager \<Rightarrow> instant \<Rightarrow> random \<Rightarrow> random \<Rightarrow> random \<Rightarrow> string \<Rightarrow> string \<Rightarrow> db
    \<Rightarrow> authn_error + string \<times> db" where
  "totp_EnrolCtx A m now rsecret rsalt rnonce subjectDID accountName s =
     (case rsecret of
        None \<Rightarrow> Inl ErrTotpSecret
      | Some f \<Rightarrow>
          let secret = map f [0..<20] in
          (case encryptSecret A m rsalt rnonce secret of
             None \<Rightarrow> Inl ErrTotpSecret
           | Some encrypted \<Rightarrow>
               (case SaveTOTPCredential \<lparr>tc_SubjectDID = subjectDID, tc_EncryptedSecret = encrypted,
                   tc_AccountName = accountName, tc_CreatedAt = now\<rparr> s of
                  Inl e \<Rightarrow> Inl (ErrTotpStore e)
                | Inr s' \<Rightarrow> Inr (''otpauth://totp/'' @ urlEscape (tm_issuer m) @ '':'' @ urlEscape accountName @ ''?secret='' @
                    b32_encode secret @ ''&issuer='' @ urlEscape (tm_issuer m) @ ''&algorithm=SHA1&digits='' @
                    itoa (int totpDigits) @ ''&period='' @ itoa totpPeriod, s'))))"

definition totp_counter :: "instant \<Rightarrow> int" where
  "totp_counter now = (if unix now \<ge> 0 then unix now div totpPeriod else - ((- unix now) div totpPeriod))"

(* src: internal/authn/totp.go:94-114 TOTPManager.VerifyCtx *)
definition totp_VerifyCtx :: "authn_prims \<Rightarrow> totp_manager \<Rightarrow> instant \<Rightarrow> string \<Rightarrow> string \<Rightarrow> db \<Rightarrow> authn_error + unit" where
  "totp_VerifyCtx A m now subjectDID code s =
     (case GetTOTPCredential subjectDID s of
        Inl _ \<Rightarrow> Inl ErrNotEnrolled
      | Inr cred \<Rightarrow>
          (case decryptSecret A m (tc_EncryptedSecret cred) of
             Inl e \<Rightarrow> Inl e
           | Inr secret \<Rightarrow>
               if list_ex (\<lambda>delta. timingSafeEqual code (generateTOTP A secret (totp_counter now + delta))) [-1, 0, 1]
               then Inr () else Inl ErrInvalidCode))"

(* src: internal/authn/totp.go:117-120 TOTPManager.IsEnrolled *)
definition IsEnrolled :: "string \<Rightarrow> db \<Rightarrow> bool" where
  "IsEnrolled subjectDID s = (case GetTOTPCredential subjectDID s of Inl _ \<Rightarrow> False | Inr _ \<Rightarrow> True)"

(* src: internal/authn/totp.go:123-125 TOTPManager.Unenrol *)
definition Unenrol :: "string \<Rightarrow> db \<Rightarrow> store_error + db" where
  "Unenrol subjectDID s = DeleteTOTPCredential subjectDID s"

section \<open>Comparing and formatting codes\<close>

lemma fold_or_zero: "fold (\<lambda>i r. or r (g i)) xs (r :: byte) = 0 \<longleftrightarrow> r = 0 \<and> (\<forall>i\<in>set xs. g i = 0)"
  by (induction xs arbitrary: r) (auto simp: or_eq_0_iff)

lemma xor_zero_iff: "xor a b = 0 \<longleftrightarrow> a = (b :: byte)"
  by (auto simp: bit_eq_iff bit_xor_iff)

lemma timingSafeEqual_eq: "timingSafeEqual a b \<longleftrightarrow> a = b"
proof -
  have "(\<forall>i<length a. bytes_of a ! i = bytes_of b ! i) \<longleftrightarrow> bytes_of a = bytes_of b" if "length a = length b"
    using that by (metis length_bytes_of nth_equalityI)
  then show ?thesis by (auto simp: timingSafeEqual_def fold_or_zero xor_zero_iff)
qed

text \<open>The constant-time comparison is equality.  Collecting the differences of all positions without an early
  exit decides the same thing as comparing the strings.\<close>

theorem timingSafeEqual_iff: "timingSafeEqual a b \<longleftrightarrow> a = b"
  by (rule timingSafeEqual_eq)

lemma length_show_nat: "n < 10 ^ k \<Longrightarrow> 0 < k \<Longrightarrow> length (show_nat n) \<le> k"
proof (induction n arbitrary: k rule: show_nat.induct)
  case (1 n)
  show ?case
  proof (cases "n < 10")
    case True
    then show ?thesis using 1(3) show_nat_rec by simp
  next
    case False
    with 1(2) have "k \<noteq> 1" by auto
    with 1(3) obtain j where k: "k = Suc j" "0 < j" by (cases k) auto
    have "n div 10 < 10 ^ j" using 1(2) k by (simp add: less_mult_imp_div_less mult.commute)
    from 1(1) [OF False this k(2)] show ?thesis using False k by (subst show_nat.simps) simp
  qed
qed

text \<open>A one-time code is always six decimal digits, whatever the secret and the counter.\<close>

theorem totp_code_format: "length (generateTOTP A secret counter) = 6 \<and> list_all is_digit (generateTOTP A secret counter)"
proof -
  let ?n = "totp_truncate (hmac (ap_sha1 A) secret (be64 counter))"
  have "0 \<le> ?n" "?n < 10 ^ 6" by (simp_all add: totp_truncate_def Let_def totpDigits_def)
  then have "nat ?n < 10 ^ 6" by (simp add: nat_less_iff)
  then have "length (show_nat (nat ?n)) \<le> 6" by (intro length_show_nat) simp_all
  then show ?thesis
    using show_nat_digits [of "nat ?n"] by (auto simp: generateTOTP_def pad_int_def Let_def totpDigits_def list_all_iff is_digit_def)
qed

section \<open>Enrolment and verification\<close>

lemma decrypt_encrypt:
  assumes "gcm_ok A" "encryptSecret A m rsalt rnonce secret = Some enc"
  shows "decryptSecret A m enc = Inr secret"
  using assms by (auto simp: encryptSecret_def decryptSecret_def gcm_ok_def Let_def split_n_3 split: option.splits)

text \<open>A code is accepted exactly in its window.  After an enrolment, a code verifies at a time if and only if it
  is the code of the enrolled secret for the current period of thirty seconds, the one before or the one after.\<close>

theorem totp_window:
  assumes "gcm_ok A" "totp_EnrolCtx A m now (Some f) rsalt rnonce subjectDID accountName s = Inr (uri, s')"
  shows "totp_VerifyCtx A m t subjectDID code s' = Inr () \<longleftrightarrow>
    (\<exists>delta\<in>{-1, 0, 1}. code = generateTOTP A (map f [0..<20]) (totp_counter t + delta))"
proof -
  obtain enc where enc: "encryptSecret A m rsalt rnonce (map f [0..<20]) = Some enc"
    and save: "SaveTOTPCredential \<lparr>tc_SubjectDID = subjectDID, tc_EncryptedSecret = enc, tc_AccountName = accountName,
       tc_CreatedAt = now\<rparr> s = Inr s'"
    using assms(2) by (auto simp: totp_EnrolCtx_def Let_def split: option.splits sum.splits)
  have "\<exists>cred. GetTOTPCredential subjectDID s' = Inr cred \<and> tc_EncryptedSecret cred = enc"
    using save by (auto simp: SaveTOTPCredential_def GetTOTPCredential_def db_defs tbl_find_upsert split: if_splits sum.splits)
  then show ?thesis using decrypt_encrypt [OF assms(1) enc]
    by (auto simp: totp_VerifyCtx_def timingSafeEqual_eq split: if_splits)
qed

text \<open>A demonstration cipher: the sealed text is the text.\<close>

definition demo_authn :: authn_prims where
  "demo_authn = \<lparr>ap_sha1 = \<lambda>m. take 20 (m @ replicate 20 0), ap_argon = \<lambda>_ _ _ _ pass salt. take 32 (pass @ salt @ replicate 32 0),
     ap_seal = \<lambda>_ _ m. m, ap_open = \<lambda>_ _ c. Some c\<rparr>"

lemma demo_gcm_ok: "gcm_ok demo_authn"
  by (simp add: gcm_ok_def demo_authn_def)

theorem totp_window_witness:
  "\<exists>uri s'. totp_EnrolCtx demo_authn \<lparr>tm_passphrase = ''p'', tm_issuer = ''i''\<rparr> 0 (Some (\<lambda>_. 1)) (Some (\<lambda>_. 2)) (Some (\<lambda>_. 3))
     ''did:a'' ''a'' OpenSQLite = Inr (uri, s') \<and>
   totp_VerifyCtx demo_authn \<lparr>tm_passphrase = ''p'', tm_issuer = ''i''\<rparr> (35 * second) ''did:a''
     (generateTOTP demo_authn (map (\<lambda>_. 1) [0..<20]) 0) s' = Inr ()"
proof -
  let ?m = "\<lparr>tm_passphrase = ''p'', tm_issuer = ''i''\<rparr>"
  obtain uri s' where e: "totp_EnrolCtx demo_authn ?m 0 (Some (\<lambda>_. 1)) (Some (\<lambda>_. 2)) (Some (\<lambda>_. 3)) ''did:a'' ''a'' OpenSQLite = Inr (uri, s')"
    by (simp add: totp_EnrolCtx_def Let_def encryptSecret_def SaveTOTPCredential_def db_defs OpenSQLite_def)
  have "totp_counter (35 * second) = 1" by (simp add: totp_counter_def unix_def second_def totpPeriod_def)
  then have "\<exists>delta\<in>{-1, 0, 1}. generateTOTP demo_authn (map (\<lambda>_. 1) [0..<20]) 0 =
      generateTOTP demo_authn (map (\<lambda>_. 1) [0..<20]) (totp_counter (35 * second) + delta)" by simp
  with totp_window [OF demo_gcm_ok e, of "35 * second" "generateTOTP demo_authn (map (\<lambda>_. 1) [0..<20]) 0"] e
  show ?thesis by blast
qed

section \<open>Duress and lockout\<close>

lemma splitDuressStored_append: "CHR '':'' \<notin> set a \<Longrightarrow> splitDuressStored (a @ CHR '':'' # b) = Some (a, b)"
  by (induction a) auto

text \<open>After an enrolment a passphrase raises the alarm exactly when it has the derived key of the enrolled one.\<close>

lemma duress_check:
  assumes "duress_Enrol A now (Some f) subjectDID passphrase s = Inr s'"
  shows "CheckDuress A subjectDID provided s' \<longleftrightarrow>
    ap_argon A 3 (64 * 1024) 4 32 (bytes_of provided) (map f [0..<16]) = ap_argon A 3 (64 * 1024) 4 32 (bytes_of passphrase) (map f [0..<16])"
proof -
  have "SaveDuressConfig now subjectDID (hex_encode (map f [0..<16]) @ '':'' @ argon2HashDuress A (bytes_of passphrase) (map f [0..<16])) s = Inr s'"
    using assms by (auto simp: duress_Enrol_def Let_def split: if_splits sum.splits)
  then have "GetDuressHash subjectDID s' = Inr (hex_encode (map f [0..<16]) @ '':'' @ argon2HashDuress A (bytes_of passphrase) (map f [0..<16]))"
    by (auto simp: SaveDuressConfig_def GetDuressHash_def db_defs tbl_find_upsert split: if_splits sum.splits)
  then show ?thesis by (simp add: CheckDuress_def splitDuressStored_append argon2HashDuress_def)
qed

text \<open>A lock ends.  After failures that brought the count below twenty, the account is open again half an hour
  after the last of them, and an administrator's reset opens any account at once.\<close>

theorem lock_released:
  assumes "db_open s" "GetAuthFailures who s = Inr (n, l)" "ts \<noteq> []" "n + int (length ts) < 20" "last ts + 30 * minute \<le> t"
  shows "(\<exists>s'. record_failures ts who s = Inr s' \<and> CheckLocked t who s' = None) \<and>
    (\<exists>s''. AdminReset who s = Inr s'' \<and> (\<forall>t. CheckLocked t who s'' = None))"
proof
  obtain s' where s': "record_failures ts who s = Inr s'"
    "GetAuthFailures who s' = (let m = n + int (length ts) in Inr (m,
       if m \<ge> 20 then Some (last ts + 876000 * hour) else if m \<ge> 10 then Some (last ts + 30 * minute)
       else if m \<ge> 5 then Some (last ts + 5 * minute) else None))"
    using record_failures_effect [OF assms(1-3)] by blast
  have "CheckLocked t who s' = None"
    using assms(4,5) by (auto simp: CheckLocked_def s'(2) Let_def minute_def second_def)
  with s' show "\<exists>s'. record_failures ts who s = Inr s' \<and> CheckLocked t who s' = None" by blast
  obtain s'' where a: "AdminReset who s = Inr s''" using assms(1) by (simp add: AdminReset_def ClearAuthFailures_def db_defs)
  then have "GetAuthFailures who s'' = Inr (0, None)"
    using assms(1) by (auto simp: AdminReset_def ClearAuthFailures_def GetAuthFailures_def db_defs tbl_find_delete)
  then have "\<forall>t. CheckLocked t who s'' = None" by (simp add: CheckLocked_def)
  with a show "\<exists>s''. AdminReset who s = Inr s'' \<and> (\<forall>t. CheckLocked t who s'' = None)" by blast
qed

theorem lock_released_witness:
  "\<exists>s'. record_failures [1, 2, 3, 4, 5] ''a'' OpenSQLite = Inr s' \<and> CheckLocked (5 + 30 * minute) ''a'' s' = None"
proof -
  have "db_open OpenSQLite" "GetAuthFailures ''a'' OpenSQLite = Inr (0, None)"
    by (simp_all add: db_open_def OpenSQLite_def GetAuthFailures_def db_read_def tbl_find_def)
  from lock_released [OF this, of "[1, 2, 3, 4, 5]" "5 + 30 * minute"] show ?thesis by simp
qed

end
