(* ===== verification/Bridge.thy ===== *)
theory Bridge
  imports Authn
begin

text \<open>
  The bridge to external identity providers, \<^verbatim>\<open>src/internal/bridge\<close>: the registry of providers, the mapper from
  external identities to platform DIDs, and the two providers that live in the platform's own store, magic links and
  passwords.
\<close>

section \<open>Providers\<close>

(* src: internal/bridge/bridge.go:13-21 ExternalIdentity *)
record external_identity =
  ex_Provider :: string
  ex_ExternalID :: string
  ex_Claims :: "(string \<times> string) list"
  ex_Duress :: bool

text \<open>The registry maps a name to a provider; \<open>None\<close> is the panic on a duplicate name.\<close>

type_synonym 'b bridge_manager = "(string \<times> 'b) list"

(* src: internal/bridge/bridge.go:60-62 NewManager *)
definition NewManager :: "'b bridge_manager" where
  "NewManager = []"

(* src: internal/bridge/bridge.go:65-72 Manager.Register *)
definition bridge_Register :: "string \<Rightarrow> 'b \<Rightarrow> 'b bridge_manager \<Rightarrow> 'b bridge_manager option" where
  "bridge_Register name b m = (case map_of m name of Some _ \<Rightarrow> None | None \<Rightarrow> Some (map_put name b m))"

(* src: internal/bridge/bridge.go:75-80 Manager.Get *)
definition bridge_Get :: "string \<Rightarrow> 'b bridge_manager \<Rightarrow> 'b option" where
  "bridge_Get name m = map_of m name"

(* src: internal/bridge/bridge.go:83-91 Manager.Names *)
definition bridge_Names :: "'b bridge_manager \<Rightarrow> string list" where
  "bridge_Names m = map fst m"

section \<open>The mapper\<close>

datatype bridge_error = ErrLookupLink store_error | ErrGenerateKey | ErrCreateDID did_error | ErrSaveIdentity store_error
  | ErrSaveDocument store_error | ErrSaveLink store_error | ErrLinkedElsewhere | ErrListLinks store_error | ErrLastMethod

(* src: internal/bridge/mapper.go:143-151 isNotFound *)
definition isNotFound :: "store_error \<Rightarrow> bool" where
  "isNotFound e \<longleftrightarrow> e = ErrNoRows"

text \<open>\<open>genkey\<close> is the public key \<^verbatim>\<open>ed25519.GenerateKey\<close> draws, or \<open>None\<close> when it fails.\<close>

(* src: internal/bridge/mapper.go:115-141 Mapper.createIdentity *)
definition createIdentity :: "did_env \<Rightarrow> did_state \<Rightarrow> instant \<Rightarrow> byte list option \<Rightarrow> db \<Rightarrow> (bridge_error + string) \<times> db" where
  "createIdentity E ds now genkey s =
     (case genkey of
        None \<Rightarrow> (Inl ErrGenerateKey, s)
      | Some pub \<Rightarrow>
          (case fst (did_Create E now ''key'' \<lparr>co_Domain = [], co_SigningPub = pub, co_EncPub = []\<rparr> ds) of
             Inl e \<Rightarrow> (Inl (ErrCreateDID e), s)
           | Inr (didStr, doc) \<Rightarrow>
               (case SaveIdentity \<lparr>idn_DID = didStr, idn_Method = ''key'', idn_SigningKeyPath = [], idn_EncKeyPath = [],
                   idn_Role = ''user'', idn_TenantID = [], idn_CreatedAt = now, idn_UpdatedAt = now\<rparr> s of
                  Inl e \<Rightarrow> (Inl (ErrSaveIdentity e), s)
                | Inr s \<Rightarrow>
                    (case SaveDocument now doc s of
                       Inl e \<Rightarrow> (Inl (ErrSaveDocument e), s)
                     | Inr s \<Rightarrow> (Inr didStr, s)))))"

definition new_link :: "instant \<Rightarrow> string \<Rightarrow> external_identity \<Rightarrow> external_link" where
  "new_link now subjectDID ext = \<lparr>ln_SubjectDID = subjectDID, ln_Provider = ex_Provider ext, ln_ExternalID = ex_ExternalID ext,
     ln_LinkedAt = now, ln_LastUsedAt = now\<rparr>"

text \<open>\<open>boot\<close> is the optional function that is called for a new identity.\<close>

(* src: internal/bridge/mapper.go:41-73 Mapper.FindOrCreate *)
definition FindOrCreate :: "did_env \<Rightarrow> did_state \<Rightarrow> instant \<Rightarrow> byte list option \<Rightarrow> (string \<Rightarrow> external_identity \<Rightarrow> db \<Rightarrow> db) option
    \<Rightarrow> external_identity \<Rightarrow> db \<Rightarrow> (bridge_error + string \<times> bool) \<times> db" where
  "FindOrCreate E ds now genkey boot ext s =
     (case GetExternalLink (ex_Provider ext) (ex_ExternalID ext) s of
        Inr link \<Rightarrow> (Inr (ln_SubjectDID link, False), ign (SaveExternalLink (link\<lparr>ln_LastUsedAt := now\<rparr>)) s)
      | Inl e \<Rightarrow>
          if \<not> isNotFound e then (Inl (ErrLookupLink e), s)
          else (case createIdentity E ds now genkey s of
             (Inl e, s) \<Rightarrow> (Inl e, s)
           | (Inr subjectDID, s) \<Rightarrow>
               (case SaveExternalLink (new_link now subjectDID ext) s of
                  Inl e \<Rightarrow> (Inl (ErrSaveLink e), s)
                | Inr s \<Rightarrow> (Inr (subjectDID, True), case boot of None \<Rightarrow> s | Some f \<Rightarrow> f subjectDID ext s))))"

(* src: internal/bridge/mapper.go:77-97 Mapper.LinkIdentity *)
definition LinkIdentity :: "instant \<Rightarrow> string \<Rightarrow> external_identity \<Rightarrow> db \<Rightarrow> bridge_error + db" where
  "LinkIdentity now subjectDID ext s =
     (case GetExternalLink (ex_Provider ext) (ex_ExternalID ext) s of
        Inr existing \<Rightarrow> if ln_SubjectDID existing \<noteq> subjectDID then Inl ErrLinkedElsewhere else Inr s
      | Inl e \<Rightarrow>
          if \<not> isNotFound e then Inl (ErrLookupLink e)
          else (case SaveExternalLink (new_link now subjectDID ext) s of Inl e \<Rightarrow> Inl (ErrSaveLink e) | Inr s' \<Rightarrow> Inr s'))"

(* src: internal/bridge/mapper.go:101-110 Mapper.UnlinkIdentity *)
definition UnlinkIdentity :: "string \<Rightarrow> string \<Rightarrow> string \<Rightarrow> db \<Rightarrow> bridge_error + db" where
  "UnlinkIdentity subjectDID provider externalID s =
     (case ListExternalLinks subjectDID s of
        Inl e \<Rightarrow> Inl (ErrListLinks e)
      | Inr links \<Rightarrow>
          if length links \<le> 1 then Inl ErrLastMethod
          else (case DeleteExternalLink provider externalID s of Inl e \<Rightarrow> Inl (ErrSaveLink e) | Inr s' \<Rightarrow> Inr s'))"

section \<open>Magic links\<close>

definition magicLinkTTL :: duration where "magicLinkTTL = 15 * minute"

(* src: internal/bridge/providers/magiclink.go:85-91 randomToken *)
definition randomToken :: "random \<Rightarrow> string option" where
  "randomToken rnd = random_hex 32 rnd"

(* src: internal/bridge/providers/magiclink.go:93-96 hashMagicToken *)
definition hashMagicToken :: "prims \<Rightarrow> string \<Rightarrow> string" where
  "hashMagicToken P raw = hex_encode (sha256 P (bytes_of raw))"

(* src: internal/bridge/providers/magiclink.go:98-100 normaliseEmail *)
definition normaliseEmail :: "string \<Rightarrow> string" where
  "normaliseEmail email = to_lower (trim_space email)"

datatype magic_error = ErrMagicRandom | ErrMagicStore store_error | ErrMagicInvalid | ErrMagicExpired

(* src: internal/bridge/providers/magiclink.go:41-59 MagicLinkBridge.GenerateToken *)
definition GenerateToken :: "prims \<Rightarrow> instant \<Rightarrow> random \<Rightarrow> string \<Rightarrow> db \<Rightarrow> (magic_error + string \<times> instant) \<times> db" where
  "GenerateToken P now rnd email s =
     (case randomToken rnd of
        None \<Rightarrow> (Inl ErrMagicRandom, s)
      | Some raw \<Rightarrow>
          let expiry = now + magicLinkTTL in
          (case SaveMagicLinkToken \<lparr>ml_Hash = hashMagicToken P raw, ml_Email = normaliseEmail email, ml_ExpiresAt = expiry,
              ml_CreatedAt = now\<rparr> s of
             Inl e \<Rightarrow> (Inl (ErrMagicStore e), s)
           | Inr s' \<Rightarrow> (Inr (raw, expiry), s')))"

(* src: internal/bridge/providers/magiclink.go:63-83 MagicLinkBridge.VerifyToken *)
definition VerifyToken :: "prims \<Rightarrow> instant \<Rightarrow> string \<Rightarrow> db \<Rightarrow> (magic_error + external_identity) \<times> db" where
  "VerifyToken P now rawToken s =
     (let hash = hashMagicToken P rawToken in
      case GetMagicLinkToken hash s of
        Inl _ \<Rightarrow> (Inl ErrMagicInvalid, s)
      | Inr t \<Rightarrow>
          if now > ml_ExpiresAt t then (Inl ErrMagicExpired, ign (DeleteMagicLinkToken hash) s)
          else (Inr \<lparr>ex_Provider = ''magiclink-email'', ex_ExternalID = ml_Email t, ex_Claims = [(''email'', ml_Email t)],
                 ex_Duress = False\<rparr>, ign (DeleteMagicLinkToken hash) s))"

section \<open>Passwords\<close>

datatype password_error = ErrInvalidCredentials | ErrPasswordShort | ErrPasswordSalt | ErrPasswordStore store_error

(* src: internal/bridge/providers/password.go:82-84 hashPassword *)
definition hashPassword :: "authn_prims \<Rightarrow> string \<Rightarrow> byte list \<Rightarrow> byte list" where
  "hashPassword A password salt = ap_argon A 3 (64 * 1024) 4 32 (bytes_of password) salt"

(* src: internal/bridge/providers/password.go:86-88 encodeArgon2Hash *)
definition encodeArgon2Hash :: "byte list \<Rightarrow> byte list \<Rightarrow> string" where
  "encodeArgon2Hash hash salt = hex_encode salt @ '':'' @ hex_encode hash"

(* src: internal/bridge/providers/password.go:90-108 verifyArgon2 *)
definition verifyArgon2 :: "authn_prims \<Rightarrow> string \<Rightarrow> string \<Rightarrow> bool" where
  "verifyArgon2 A password stored =
     (let parts = split_n 2 (CHR '':'') stored in
      if length parts \<noteq> 2 then False
      else case hex_decode (parts ! 0) of
        None \<Rightarrow> False
      | Some salt \<Rightarrow>
          (case hex_decode (parts ! 1) of
             None \<Rightarrow> False
           | Some expected \<Rightarrow> hashPassword A password salt = expected))"

(* src: internal/bridge/providers/password.go:52-67 PasswordBridge.VerifyCredentials *)
definition VerifyCredentials :: "authn_prims \<Rightarrow> string \<Rightarrow> string \<Rightarrow> db \<Rightarrow> password_error + external_identity" where
  "VerifyCredentials A identifier password s =
     (case GetPasswordHash (normaliseEmail identifier) s of
        Inl _ \<Rightarrow> Inl ErrInvalidCredentials
      | Inr storedHash \<Rightarrow>
          if \<not> verifyArgon2 A password storedHash then Inl ErrInvalidCredentials
          else Inr \<lparr>ex_Provider = ''password'', ex_ExternalID = normaliseEmail identifier,
            ex_Claims = [(''identifier'', identifier)], ex_Duress = False\<rparr>)"

(* src: internal/bridge/providers/password.go:70-80 PasswordBridge.SetPassword *)
definition SetPassword :: "authn_prims \<Rightarrow> instant \<Rightarrow> random \<Rightarrow> string \<Rightarrow> string \<Rightarrow> db \<Rightarrow> password_error + db" where
  "SetPassword A now rnd identifier password s =
     (if length password < 12 then Inl ErrPasswordShort
      else case rnd of
        None \<Rightarrow> Inl ErrPasswordSalt
      | Some f \<Rightarrow>
          let salt = map f [0..<32]; hash = encodeArgon2Hash (hashPassword A password salt) salt in
          (case SavePasswordHash now (normaliseEmail identifier) hash s of
             Inl e \<Rightarrow> Inl (ErrPasswordStore e) | Inr s' \<Rightarrow> Inr s'))"

section \<open>What the mapper keeps\<close>

text \<open>The DID an external identity signs in as.\<close>

definition owner :: "string \<Rightarrow> string \<Rightarrow> db \<Rightarrow> string option" where
  "owner provider externalID s = (case GetExternalLink provider externalID s of Inl _ \<Rightarrow> None | Inr l \<Rightarrow> Some (ln_SubjectDID l))"

lemma owner_save:
  assumes "SaveExternalLink l s = Inr s'"
  shows "owner p x s' = (if (p, x) = link_key l then Some (ln_SubjectDID l) else owner p x s)"
  using assms
  by (auto simp: SaveExternalLink_def owner_def GetExternalLink_def db_defs tbl_find_upsert link_key_def split: if_splits sum.splits)

lemma owner_frame: "t_links s' = t_links s \<Longrightarrow> t_closed s' = t_closed s \<Longrightarrow> owner p x s' = owner p x s"
  by (simp add: owner_def GetExternalLink_def db_defs)

lemma createIdentity_frame:
  assumes "createIdentity E ds now genkey s = (r, s')"
  shows "t_links s' = t_links s" "t_closed s' = t_closed s"
  using assms
  by (auto simp: createIdentity_def SaveIdentity_def SaveDocument_def db_defs split: option.splits sum.splits if_splits prod.splits)

lemma owner_new:
  "SaveExternalLink (new_link now did ext) s = Inr s' \<Longrightarrow> (ex_Provider ext, ex_ExternalID ext) \<noteq> (p, x) \<Longrightarrow> owner p x s' = owner p x s"
  using owner_save [of "new_link now did ext" s s' p x] by (auto simp: new_link_def link_key_def)

lemma FindOrCreate_new:
  assumes own: "owner p x s = Some d" and no: "(ex_Provider ext, ex_ExternalID ext) \<noteq> (p, x)"
    and link: "GetExternalLink (ex_Provider ext) (ex_ExternalID ext) s = Inl e"
    and boot: "\<And>f a b s. boot = Some f \<Longrightarrow> t_links (f a b s) = t_links s \<and> t_closed (f a b s) = t_closed s"
    and step: "FindOrCreate E ds now genkey boot ext s = (r, s')"
  shows "owner p x s' = Some d"
proof (cases "isNotFound e")
  case True
  obtain r1 s1 where c: "createIdentity E ds now genkey s = (r1, s1)" by (cases "createIdentity E ds now genkey s")
  have s1: "owner p x s1 = Some d" using owner_frame [OF createIdentity_frame [OF c], of p x] own by simp
  show ?thesis
  proof (cases r1)
    case (Inl e1)
    with step True link c s1 show ?thesis by (simp add: FindOrCreate_def)
  next
    case (Inr did)
    show ?thesis
    proof (cases "SaveExternalLink (new_link now did ext) s1")
      case (Inl e2)
      with step True link c s1 Inr show ?thesis by (simp add: FindOrCreate_def)
    next
      case s2: (Inr s2)
      have "s' = (case boot of None \<Rightarrow> s2 | Some f \<Rightarrow> f did ext s2)"
        using step True link c Inr s2 by (simp add: FindOrCreate_def)
      moreover have "owner p x (f did ext s2) = owner p x s2" if "boot = Some f" for f
        using owner_frame [of "f did ext s2" s2 p x] boot [OF that, of did ext s2] by blast
      ultimately have "owner p x s' = owner p x s2" by (cases boot) simp_all
      then show ?thesis using owner_new [OF s2 no] s1 by simp
    qed
  qed
qed (use step link own in \<open>simp add: FindOrCreate_def\<close>)

text \<open>C25: an external identity keeps its owner.  Signing in with an identity that is linked gives the linked DID;
  linking one that belongs to another DID is refused; and neither operation changes the owner of an identity that has
  one, as long as the function called for new identities leaves the links alone.\<close>

theorem links_are_not_stolen:
  assumes "owner p x s = Some d"
    and boot: "\<And>f a b s. boot = Some f \<Longrightarrow> t_links (f a b s) = t_links s \<and> t_closed (f a b s) = t_closed s"
  shows "(FindOrCreate E ds now genkey boot ext s = (r, s') \<longrightarrow> owner p x s' = Some d \<and>
       (ex_Provider ext = p \<and> ex_ExternalID ext = x \<longrightarrow> r = Inr (d, False))) \<and>
    (LinkIdentity now subjectDID ext s = Inr s'' \<longrightarrow> owner p x s'' = Some d) \<and>
    (ex_Provider ext = p \<and> ex_ExternalID ext = x \<and> subjectDID \<noteq> d \<longrightarrow> LinkIdentity now subjectDID ext s = Inl ErrLinkedElsewhere)"
proof (cases "GetExternalLink (ex_Provider ext) (ex_ExternalID ext) s")
  case (Inr link)
  then have o: "db_open s" and key: "link_key link = (ex_Provider ext, ex_ExternalID ext)"
    by (auto simp: GetExternalLink_def db_defs dest: tbl_find_Inr split: if_splits)
  obtain s1 where s1: "SaveExternalLink (link\<lparr>ln_LastUsedAt := now\<rparr>) s = Inr s1"
    using o by (simp add: SaveExternalLink_def db_defs)
  have own: "owner (ex_Provider ext) (ex_ExternalID ext) s = Some (ln_SubjectDID link)" by (simp add: owner_def Inr)
  have "owner p x s1 = Some d"
    using owner_save [OF s1, of p x] key own assms(1) by (auto simp: link_key_def split: if_splits)
  then show ?thesis using Inr own assms(1) s1
    by (auto simp: FindOrCreate_def LinkIdentity_def ign_def)
next
  case (Inl e)
  then have no: "(ex_Provider ext, ex_ExternalID ext) \<noteq> (p, x)" using assms(1) by (auto simp: owner_def)
  have "owner p x s' = Some d" if "FindOrCreate E ds now genkey boot ext s = (r, s')"
    using FindOrCreate_new [OF assms(1) no Inl _ that] boot by blast
  moreover have "owner p x s'' = Some d" if "LinkIdentity now subjectDID ext s = Inr s''"
    using that Inl owner_new [OF _ no] assms(1) by (auto simp: LinkIdentity_def split: if_splits sum.splits)
  ultimately show ?thesis using no by auto
qed

text \<open>Unlinking does not look whose link it removes.  A subject with two sign-in methods of its own can remove the
  link of any other subject, even that subject's last one, which then cannot sign in any more.\<close>

theorem unlink_removes_foreign_link:
  assumes "db_open s" "ListExternalLinks subjectDID s = Inr links" "2 \<le> length links" "owner p x s = Some victim" "victim \<noteq> subjectDID"
  shows "\<exists>s'. UnlinkIdentity subjectDID p x s = Inr s' \<and> owner p x s' = None"
proof -
  obtain s' where d: "DeleteExternalLink p x s = Inr s'" using assms(1) by (simp add: DeleteExternalLink_def db_defs)
  then have "owner p x s' = None"
    using assms(1) by (auto simp: DeleteExternalLink_def owner_def GetExternalLink_def db_defs tbl_find_delete)
  with assms d show ?thesis by (simp add: UnlinkIdentity_def)
qed

section \<open>Magic links and passwords\<close>

text \<open>C26: a magic link signs in once.  The token sent to an address signs in with the normalised address within
  fifteen minutes, and never again after that.\<close>

theorem magic_link_once:
  assumes "GenerateToken P now rnd email s = (Inr (raw, expiry), s1)" "t \<le> now + 15 * minute"
  shows "\<exists>ext s2. VerifyToken P t raw s1 = (Inr ext, s2) \<and> ex_ExternalID ext = normaliseEmail email \<and>
    (\<forall>t'. VerifyToken P t' raw s2 = (Inl ErrMagicInvalid, s2))"
proof -
  let ?h = "hashMagicToken P raw"
  let ?row = "\<lparr>ml_Hash = ?h, ml_Email = normaliseEmail email, ml_ExpiresAt = now + magicLinkTTL, ml_CreatedAt = now\<rparr>"
  have save: "SaveMagicLinkToken ?row s = Inr s1"
    using assms(1) by (auto simp: GenerateToken_def Let_def split: option.splits sum.splits)
  then have o: "db_open s1" and get: "GetMagicLinkToken ?h s1 = Inr ?row"
    by (auto simp: SaveMagicLinkToken_def GetMagicLinkToken_def db_defs tbl_find_insert split: if_splits sum.splits)
  obtain s2 where s2: "DeleteMagicLinkToken ?h s1 = Inr s2" using magic.del_total [OF o] by blast
  have "GetMagicLinkToken ?h s2 = Inl ErrNoRows" using magic.get_del [OF o s2] by simp
  then show ?thesis using get s2 assms(2) by (simp add: VerifyToken_def Let_def ign_def magicLinkTTL_def)
qed

lemma verifyArgon2_encode: "verifyArgon2 A pw (encodeArgon2Hash hash salt) \<longleftrightarrow> hashPassword A pw salt = hash"
  by (simp add: verifyArgon2_def encodeArgon2Hash_def split_n_2)

text \<open>After a password is set, exactly the passwords with its derived key sign in, under any spelling of the
  identifier that normalises to the same text, and other identifiers are not affected.\<close>

theorem password_set_verify:
  assumes "SetPassword A now (Some f) identifier password s = Inr s'"
  shows "VerifyCredentials A identifier' password' s' =
    (if normaliseEmail identifier' = normaliseEmail identifier then
       (if hashPassword A password' (map f [0..<32]) = hashPassword A password (map f [0..<32])
        then Inr \<lparr>ex_Provider = ''password'', ex_ExternalID = normaliseEmail identifier,
          ex_Claims = [(''identifier'', identifier')], ex_Duress = False\<rparr> else Inl ErrInvalidCredentials)
     else VerifyCredentials A identifier' password' s)"
proof -
  let ?h = "encodeArgon2Hash (hashPassword A password (map f [0..<32])) (map f [0..<32])"
  have save: "SavePasswordHash now (normaliseEmail identifier) ?h s = Inr s'"
    using assms by (auto simp: SetPassword_def Let_def split: if_splits sum.splits)
  have "GetPasswordHash k s' = (if k = normaliseEmail identifier then Inr ?h else GetPasswordHash k s)" for k
    using save by (auto simp: SavePasswordHash_def GetPasswordHash_def db_defs tbl_find_upsert split: if_splits sum.splits)
  then show ?thesis by (simp add: VerifyCredentials_def verifyArgon2_encode)
qed


section \<open>Witnesses\<close>

definition demo_link :: "string \<Rightarrow> string \<Rightarrow> external_link" where
  "demo_link did x = \<lparr>ln_SubjectDID = did, ln_Provider = ''github'', ln_ExternalID = x, ln_LinkedAt = 0, ln_LastUsedAt = 0\<rparr>"

definition demo_links_db :: db where
  "demo_links_db = OpenSQLite\<lparr>t_links := [demo_link ''did:a'' ''1'', demo_link ''did:a'' ''2'', demo_link ''did:b'' ''3'']\<rparr>"

definition demo_ext :: external_identity where
  "demo_ext = \<lparr>ex_Provider = ''github'', ex_ExternalID = ''3'', ex_Claims = [], ex_Duress = False\<rparr>"

lemma demo_owner: "owner ''github'' ''3'' demo_links_db = Some ''did:b''" "db_open demo_links_db"
  by (simp_all add: owner_def GetExternalLink_def demo_links_db_def OpenSQLite_def db_defs tbl_find_def link_key_def demo_link_def)

theorem links_are_not_stolen_witness:
  "LinkIdentity 0 ''did:a'' demo_ext demo_links_db = Inl ErrLinkedElsewhere"
  using links_are_not_stolen [OF demo_owner(1), where boot = None and ext = demo_ext] by (simp add: demo_ext_def)

theorem unlink_removes_foreign_link_witness:
  "\<exists>s'. UnlinkIdentity ''did:a'' ''github'' ''3'' demo_links_db = Inr s' \<and> owner ''github'' ''3'' s' = None"
proof -
  let ?links = "[demo_link ''did:a'' ''1'', demo_link ''did:a'' ''2'']"
  have "ListExternalLinks ''did:a'' demo_links_db = Inr (order_desc ln_LinkedAt ?links)"
    by (simp add: ListExternalLinks_def demo_links_db_def OpenSQLite_def db_defs demo_link_def)
  moreover have "2 \<le> length (order_desc ln_LinkedAt ?links)" by (simp add: order_desc_def)
  ultimately show ?thesis using unlink_removes_foreign_link [OF demo_owner(2) _ _ demo_owner(1), of "''did:a''"] by simp
qed

theorem magic_link_once_witness:
  "\<exists>raw expiry s1 ext s2. GenerateToken demo_prims 0 (Some (\<lambda>_. 5)) '' A@x '' OpenSQLite = (Inr (raw, expiry), s1) \<and>
     VerifyToken demo_prims 7 raw s1 = (Inr ext, s2) \<and> VerifyToken demo_prims 8 raw s2 = (Inl ErrMagicInvalid, s2)"
proof -
  obtain raw expiry s1 where g: "GenerateToken demo_prims 0 (Some (\<lambda>_. 5)) '' A@x '' OpenSQLite = (Inr (raw, expiry), s1)"
    by (simp add: GenerateToken_def randomToken_def random_hex_def SaveMagicLinkToken_def db_defs OpenSQLite_def tbl_insert_def tbl_has_def)
  have "(7 :: int) \<le> 0 + 15 * minute" by (simp add: minute_def second_def)
  from magic_link_once [OF g this] g show ?thesis by blast
qed

theorem password_set_verify_witness:
  "\<exists>s'. SetPassword demo_authn 0 (Some (\<lambda>_. 5)) ''A@x'' ''correct horse'' OpenSQLite = Inr s' \<and>
     \<not> isl (VerifyCredentials demo_authn '' A@x'' ''correct horse'' s')"
proof -
  obtain s' where g: "SetPassword demo_authn 0 (Some (\<lambda>_. 5)) ''A@x'' ''correct horse'' OpenSQLite = Inr s'"
    by (simp add: SetPassword_def SavePasswordHash_def db_defs OpenSQLite_def Let_def)
  have "normaliseEmail '' A@x'' = normaliseEmail ''A@x''"
    by (simp add: normaliseEmail_def trim_space_def is_space_def to_lower_simps)
  with password_set_verify [OF g, of "'' A@x''" "''correct horse''"] g show ?thesis by simp
qed

end
