(* ===== verification/Api_Server.thy ===== *)
theory Api_Server
  imports Recovery Bridge Events Oidc_Flow
begin

text \<open>
  The frame of the HTTP server, \<^verbatim>\<open>src/api/server.go\<close>: its configuration, the middleware every route goes through, and
  the JSON the handlers write.  A handler takes a request and the store and gives the response, the webhook
  deliveries it starts, and the store it leaves.  The token bucket of the rate limiter counts in floating point and
  its verdict is an argument; not modelled are logging and metrics, which have no effect on the response.
\<close>

section \<open>What the server uses from outside\<close>

text \<open>Primitives, the decoders of \<^verbatim>\<open>time\<close>, \<^verbatim>\<open>net\<close>, \<^verbatim>\<open>net/url\<close> and \<^verbatim>\<open>encoding/json\<close> the handlers call, name resolution, and the
  wording of the errors that are passed on in a message.\<close>

record api_env =
  en_prims :: prims
  en_json :: json_decoder
  en_authn :: authn_prims
  en_did :: did_env
  en_parse_time :: "string \<Rightarrow> instant option"
  en_parse_duration :: "string \<Rightarrow> duration option"
  en_split_host_port :: "string \<Rightarrow> string option"
  en_parse_ip :: "string \<Rightarrow> ip option"
  en_parse_cidr :: "string \<Rightarrow> cidr option"
  en_lookup_host :: "string \<Rightarrow> string + string list"
  en_parse_uri :: "string \<Rightarrow> (string \<times> string) option"
  en_query_escape :: "string \<Rightarrow> string"
  en_decode_text :: "http_request \<Rightarrow> string"
  en_store_text :: "store_error \<Rightarrow> string"
  en_bridge_text :: "bridge_error \<Rightarrow> string"
  en_recovery_text :: "recovery_error \<Rightarrow> string"
  en_authn_text :: "authn_error \<Rightarrow> string"
  en_vc_text :: "vc_error \<Rightarrow> string"
  en_did_text :: "did_error \<Rightarrow> string"
  en_duration_text :: "string \<Rightarrow> string"
  en_session_text :: string
  en_decode_vc :: "json \<Rightarrow> vcredential option"
  en_password_text :: "password_error \<Rightarrow> string"

section \<open>The server\<close>

text \<open>The providers a server is configured with, by the interface they implement: \<^verbatim>\<open>*PasswordBridge\<close>, a
  \<^verbatim>\<open>RedirectBridge\<close> with \<^verbatim>\<open>AuthorizationURL\<close> and \<^verbatim>\<open>ExchangeCode\<close>, a \<^verbatim>\<open>SAMLBridgeHandler\<close> with \<^verbatim>\<open>PrepareAuth\<close>,
  \<^verbatim>\<open>ProcessACS\<close> and its metadata, and one that only implements \<^verbatim>\<open>Bridge\<close>.\<close>

(* src: internal/bridge/bridge.go:24-51 Bridge, RedirectBridge, SAMLBridgeHandler *)
datatype bridge_impl =
    PasswordBridge
  | RedirectBridge "string \<Rightarrow> string + string" "string \<Rightarrow> string + external_identity"
  | SAMLBridge "string + string \<times> string" "http_request \<Rightarrow> string list \<Rightarrow> string + external_identity" response
  | PlainBridge

(* src: api/server.go:64-94 Config *)
record api_config =
  cf_APIKey :: string
  cf_Issuer :: string
  cf_TotpPassphrase :: string
  cf_SigningKey :: "byte list option"
  cf_SigningKeyID :: string
  cf_OIDC :: provider
  cf_Bridges :: "bridge_impl bridge_manager option"
  cf_TrustedProxies :: "string list"
  cf_CORSAllowedOrigins :: "string list"

(* src: api/server.go:27-61 Server *)
record server =
  sv_oidc :: provider
  sv_apiKey :: string
  sv_issuer :: string
  sv_totpPassphrase :: string
  sv_signingKey :: "byte list option"
  sv_signingKeyID :: string
  sv_bridges :: "bridge_impl bridge_manager"
  sv_subscribers :: "subscriber list"
  sv_trustedProxies :: "cidr list"
  sv_corsAllowedOrigins :: "string list"

text \<open>The subscribers of \<^verbatim>\<open>events.NewBus\<close>: the bus is made here and nothing else holds it.\<close>

(* src: api/server.go:97-143 NewServer *)
definition NewServer :: "api_env \<Rightarrow> api_config \<Rightarrow> server" where
  "NewServer E cfg =
     \<lparr>sv_oidc = cf_OIDC cfg, sv_apiKey = cf_APIKey cfg, sv_issuer = cf_Issuer cfg, sv_totpPassphrase = cf_TotpPassphrase cfg,
      sv_signingKey = cf_SigningKey cfg, sv_signingKeyID = cf_SigningKeyID cfg,
      sv_bridges = (case cf_Bridges cfg of None \<Rightarrow> NewManager | Some m \<Rightarrow> m),
      sv_subscribers = [],
      sv_trustedProxies = List.map_filter (en_parse_cidr E) (cf_TrustedProxies cfg),
      sv_corsAllowedOrigins = cf_CORSAllowedOrigins cfg\<rparr>"

type_synonym deliveries = "(webhook_subscription \<times> string) list"
type_synonym handler = "http_request \<Rightarrow> db \<Rightarrow> response \<times> deliveries \<times> db"

section \<open>Replies\<close>

definition text_reply :: "int \<Rightarrow> string \<Rightarrow> db \<Rightarrow> response \<times> deliveries \<times> db" where
  "text_reply n msg s = (RespText n msg, [], s)"

definition json_reply :: "int \<Rightarrow> json \<Rightarrow> db \<Rightarrow> response \<times> deliveries \<times> db" where
  "json_reply n v s = (RespJSON n v, [], s)"

definition no_content :: "db \<Rightarrow> response \<times> deliveries \<times> db" where
  "no_content s = (RespEmpty 204, [], s)"

(* src: api/server.go:422-429 writeJSONError *)
definition writeJSONError :: "int \<Rightarrow> string \<Rightarrow> string \<Rightarrow> db \<Rightarrow> response \<times> deliveries \<times> db" where
  "writeJSONError status code description s =
     (RespJSON status (json_str_obj [(''error'', code), (''error_description'', description)]), [], s)"

text \<open>A write whose error is answered with a reply.\<close>

definition on_store :: "store_error + db \<Rightarrow> (store_error \<Rightarrow> response \<times> deliveries \<times> db) \<Rightarrow> (db \<Rightarrow> response \<times> deliveries \<times> db)
    \<Rightarrow> response \<times> deliveries \<times> db" where
  "on_store r bad good = (case r of Inl e \<Rightarrow> bad e | Inr s \<Rightarrow> good s)"

text \<open>The subject of the bearer token, or the answer \<^verbatim>\<open>unauthorized\<close>.\<close>

definition subject_of :: "api_env \<Rightarrow> server \<Rightarrow> instant \<Rightarrow> http_request \<Rightarrow> string + string" where
  "subject_of E sv now rq = SubjectFromBearer (en_prims E) (en_json E) (sv_oidc sv) now (header_get rq ''Authorization'')"

definition with_subject :: "api_env \<Rightarrow> server \<Rightarrow> instant \<Rightarrow> (string \<Rightarrow> handler) \<Rightarrow> handler" where
  "with_subject E sv now h rq s =
     (case subject_of E sv now rq of Inl _ \<Rightarrow> text_reply 401 ''unauthorized'' s | Inr subjectDID \<Rightarrow> h subjectDID rq s)"

definition with_subject_json :: "api_env \<Rightarrow> server \<Rightarrow> instant \<Rightarrow> (string \<Rightarrow> handler) \<Rightarrow> handler" where
  "with_subject_json E sv now h rq s =
     (case subject_of E sv now rq of Inl err \<Rightarrow> writeJSONError 401 ''unauthorized'' err s | Inr subjectDID \<Rightarrow> h subjectDID rq s)"

text \<open>Publishing on the bus of the server.\<close>

definition publish :: "server \<Rightarrow> instant \<Rightarrow> string \<Rightarrow> json \<Rightarrow> db \<Rightarrow> deliveries \<times> db" where
  "publish sv now eventType payload s = Publish now eventType payload (sv_subscribers sv) s"

definition publish_reply :: "server \<Rightarrow> instant \<Rightarrow> string \<Rightarrow> json \<Rightarrow> response \<Rightarrow> db \<Rightarrow> response \<times> deliveries \<times> db" where
  "publish_reply sv now eventType payload resp s = (resp, publish sv now eventType payload s)"

text \<open>String fields of the body, \<open>None\<close> when it does not decode.\<close>

definition body_strs :: "http_request \<Rightarrow> string list \<Rightarrow> string list option" where
  "body_strs rq ks =
     (case rq_body rq of None \<Rightarrow> None
      | Some v \<Rightarrow> if as_struct v then opt_list (map (\<lambda>k. as_string (member v k)) ks) else None)"

section \<open>Middleware\<close>

(* src: api/server.go:388-399 Server.auth *)
definition auth :: "server \<Rightarrow> handler \<Rightarrow> handler" where
  "auth sv h rq s =
     (if sv_apiKey sv \<noteq> [] \<and> trim_prefix (header_get rq ''Authorization'') ''Bearer '' \<noteq> sv_apiKey sv
      then text_reply 401 ''unauthorized'' s
      else h rq s)"

(* src: api/server.go:402-419 parsePagination *)
definition parsePagination :: "http_request \<Rightarrow> int \<Rightarrow> int \<Rightarrow> int \<times> int" where
  "parsePagination rq defaultLimit maxLimit =
     (let v = query_get rq ''limit'';
          limit = (if v \<noteq> [] then (case atoi v of Some n \<Rightarrow> if n > 0 then n else defaultLimit | None \<Rightarrow> defaultLimit) else defaultLimit);
          limit = (if limit > maxLimit then maxLimit else limit);
          v = query_get rq ''offset'';
          offset = (if v \<noteq> [] then (case atoi v of Some n \<Rightarrow> if n \<ge> 0 then n else 0 | None \<Rightarrow> 0) else 0)
      in (limit, offset))"

text \<open>The slice the list handlers cut out of a list of all entries, \<^verbatim>\<open>xs[offset:][:limit]\<close> with the bounds clamped.\<close>

(* src: api/sessions.go:47-55 handleListMySessions (page) *)
definition page_slice :: "http_request \<Rightarrow> 'a list \<Rightarrow> 'a list" where
  "page_slice rq xs =
     (let (limit, offset) = parsePagination rq 100 500;
          total = int (length xs);
          offset = (if offset > total then total else offset);
          xs = drop (nat offset) xs
      in if int (length xs) > limit then take (nat limit) xs else xs)"

(* src: api/server.go:516-542 Server.clientIP *)
definition clientIP :: "api_env \<Rightarrow> server \<Rightarrow> http_request \<Rightarrow> string" where
  "clientIP E sv rq =
     (let remoteHost = (case en_split_host_port E (rq_remote rq) of Some h \<Rightarrow> h | None \<Rightarrow> rq_remote rq);
          isTrusted = (case en_parse_ip E remoteHost of None \<Rightarrow> False
                       | Some a \<Rightarrow> list_ex (\<lambda>c. cidr_contains c a) (sv_trustedProxies sv));
          fwd = header_get rq ''X-Forwarded-For'';
          ip = trim_space (hd (split_n 2 (CHR '','') fwd))
      in if sv_trustedProxies sv \<noteq> [] \<and> isTrusted \<and> fwd \<noteq> [] \<and> ip \<noteq> [] then ip else remoteHost)"

text \<open>\<open>allow\<close> is the verdict of the token bucket for a client address.\<close>

(* src: api/server.go:376-385 Server.rateLimit *)
definition rateLimit :: "(string \<Rightarrow> bool) \<Rightarrow> api_env \<Rightarrow> server \<Rightarrow> handler \<Rightarrow> handler" where
  "rateLimit allow E sv h rq s =
     (if \<not> allow (clientIP E sv rq) then text_reply 429 ''rate limit exceeded'' s else h rq s)"

text \<open>\<open>securityHeaders\<close> and \<open>cors\<close> give the headers they set beside the answer of the wrapped handler.\<close>

(* src: api/server.go:545-555 Server.securityHeaders *)
definition securityHeaders :: "server \<Rightarrow> (string \<times> string) list" where
  "securityHeaders sv =
     [(''X-Content-Type-Options'', ''nosniff''), (''X-Frame-Options'', ''DENY''),
      (''Referrer-Policy'', ''strict-origin-when-cross-origin'')] @
     (if has_prefix (sv_issuer sv) ''https://''
      then [(''Strict-Transport-Security'', ''max-age=63072000; includeSubDomains'')] else [])"

(* src: api/server.go:558-579 Server.cors *)
definition cors :: "server \<Rightarrow> handler \<Rightarrow> http_request \<Rightarrow> db \<Rightarrow> (string \<times> string) list \<times> response \<times> deliveries \<times> db" where
  "cors sv h rq s =
     (let origin = header_get rq ''Origin'';
          hs = (if origin \<noteq> [] \<and> sv_corsAllowedOrigins sv \<noteq> [] \<and>
                   list_ex (\<lambda>allowed. allowed = ''*'' \<or> allowed = origin) (sv_corsAllowedOrigins sv)
                then [(''Access-Control-Allow-Origin'', origin), (''Vary'', ''Origin''),
                      (''Access-Control-Allow-Methods'', ''GET, POST, PUT, DELETE, OPTIONS''),
                      (''Access-Control-Allow-Headers'', ''Authorization, Content-Type''),
                      (''Access-Control-Max-Age'', ''600'')]
                else [])
      in (hs, if rq_method rq = ''OPTIONS'' then no_content s else h rq s))"

(* src: api/server.go:204-206 Server.wrap *)
definition wrap :: "server \<Rightarrow> handler \<Rightarrow> http_request \<Rightarrow> db \<Rightarrow> (string \<times> string) list \<times> response \<times> deliveries \<times> db" where
  "wrap sv h rq s = (let (hs, r) = cors sv h rq s in (securityHeaders sv @ hs, r))"

section \<open>A small instance\<close>

text \<open>An environment and a server on which the hypotheses of the properties hold: times and addresses are read from fixed
  texts.\<close>

definition demo_api :: api_env where
  "demo_api = \<lparr>en_prims = demo_prims, en_json = json_read, en_authn = demo_authn, en_did = demo_env,
     en_parse_time = (\<lambda>_. None), en_parse_duration = (\<lambda>_. None), en_split_host_port = (\<lambda>_. None), en_parse_ip = (\<lambda>_. None),
     en_parse_cidr = (\<lambda>_. None), en_lookup_host = (\<lambda>_. Inl []), en_parse_uri = (\<lambda>_. None), en_query_escape = (\<lambda>x. x),
     en_decode_text = (\<lambda>_. []), en_store_text = (\<lambda>_. []), en_bridge_text = (\<lambda>_. []), en_recovery_text = (\<lambda>_. []),
     en_authn_text = (\<lambda>_. []), en_vc_text = (\<lambda>_. []), en_did_text = (\<lambda>_. []), en_duration_text = (\<lambda>_. []),
     en_session_text = [], en_decode_vc = (\<lambda>_. None), en_password_text = (\<lambda>_. [])\<rparr>"

definition demo_cfg :: api_config where
  "demo_cfg = \<lparr>cf_APIKey = ''k'', cf_Issuer = ''https://id'', cf_TotpPassphrase = ''t'', cf_SigningKey = None,
     cf_SigningKeyID = [], cf_OIDC = demo_provider, cf_Bridges = Some [(''password'', PasswordBridge)], cf_TrustedProxies = [],
     cf_CORSAllowedOrigins = [''*'']\<rparr>"

definition demo_server :: server where
  "demo_server = NewServer demo_api demo_cfg"

definition demo_get :: http_request where
  "demo_get = \<lparr>rq_form = None, rq_query = [], rq_headers = [], rq_basic = None, rq_path = [], rq_body = None,
     rq_remote = ''10.0.0.1:99'', rq_method = ''GET''\<rparr>"

end
