(* ===== verification/Api_Json.thy ===== *)
theory Api_Json
  imports Sqlite Go_Http
begin

text \<open>
  The JSON the API writes for the entities of the store, from the field tags of their structs: \<^verbatim>\<open>omitempty\<close> leaves
  out an empty string, an empty list, a false flag and a nil pointer, \<^verbatim>\<open>"-"\<close> leaves out the field, and a
  \<^verbatim>\<open>time.Time\<close> is written as RFC 3339 in UTC.  A nil slice is written \<^verbatim>\<open>null\<close>; the lists the store returns are nil when
  they have no row (\<open>json_slice\<close>).
\<close>

definition json_time :: "instant \<Rightarrow> json" where
  "json_time t = JStr (rfc3339nano t)"

definition opt_time :: "string \<Rightarrow> instant option \<Rightarrow> (string \<times> json) list" where
  "opt_time k t = (case t of None \<Rightarrow> [] | Some x \<Rightarrow> [(k, json_time x)])"

definition opt_strs :: "string \<Rightarrow> string list \<Rightarrow> (string \<times> json) list" where
  "opt_strs k xs = (if xs = [] then [] else [(k, json_strs xs)])"

definition json_slice :: "('a \<Rightarrow> json) \<Rightarrow> 'a list \<Rightarrow> json" where
  "json_slice f xs = (if xs = [] then JNull else JArr (map f xs))"

text \<open>A part \<open>ys\<close> of the slice \<open>xs\<close>: it is nil only when \<open>xs\<close> is.\<close>

definition json_subslice :: "('a \<Rightarrow> json) \<Rightarrow> 'a list \<Rightarrow> 'a list \<Rightarrow> json" where
  "json_subslice f xs ys = (if xs = [] then JNull else JArr (map f ys))"

(* src: internal/store/store.go:154-163 Identity (JSON) *)
definition identity_json :: "identity \<Rightarrow> json" where
  "identity_json i = JObj ([(''did'', JStr (idn_DID i)), (''method'', JStr (idn_Method i))] @
     opt ''signingKeyPath'' (idn_SigningKeyPath i) @ opt ''encKeyPath'' (idn_EncKeyPath i) @
     [(''role'', JStr (idn_Role i))] @ opt ''tenantId'' (idn_TenantID i) @
     [(''createdAt'', json_time (idn_CreatedAt i)), (''updatedAt'', json_time (idn_UpdatedAt i))])"

(* src: internal/store/store.go:166-185 OIDCSession (JSON) *)
definition session_json :: "oidc_session \<Rightarrow> json" where
  "session_json x = JObj ([(''id'', JStr (ses_ID x)), (''subjectDid'', JStr (ses_SubjectDID x)),
      (''clientId'', JStr (ses_ClientID x)), (''redirectUri'', JStr (ses_RedirectURI x)), (''scope'', JStr (ses_Scope x))] @
     opt ''nonce'' (ses_Nonce x) @ opt ''state'' (ses_State x) @ opt ''code'' (ses_Code x) @
     opt ''codeChallenge'' (ses_CodeChallenge x) @ opt ''codeChallengeMethod'' (ses_CodeChallengeMethod x) @
     opt ''accessToken'' (ses_AccessToken x) @ opt ''refreshTokenHash'' (ses_RefreshTokenHash x) @
     opt ''userAgent'' (ses_UserAgent x) @ opt ''ipAddress'' (ses_IPAddress x) @ opt_time ''lastUsedAt'' (ses_LastUsedAt x) @
     [(''createdAt'', json_time (ses_CreatedAt x)), (''expiresAt'', json_time (ses_ExpiresAt x))])"

(* src: internal/store/store.go:188-203 OIDCClient (JSON) *)
definition client_json :: "oidc_client \<Rightarrow> json" where
  "client_json c = JObj ([(''clientId'', JStr (cli_ClientID c)), (''clientName'', JStr (cli_ClientName c)),
      (''redirectUris'', json_strs (cli_RedirectURIs c)),
      (''tokenEndpointAuthMethod'', JStr (cli_TokenEndpointAuthMethod c)),
      (''grantTypes'', json_strs (cli_GrantTypes c)), (''responseTypes'', json_strs (cli_ResponseTypes c))] @
     opt ''scope'' (cli_Scope c) @ opt ''tenantId'' (cli_TenantID c) @
     opt ''backchannelLogoutUri'' (cli_BackchannelLogoutURI c) @
     opt_strs ''postLogoutRedirectUris'' (cli_PostLogoutRedirectURIs c) @
     [(''createdAt'', json_time (cli_CreatedAt c))])"

(* src: internal/store/store.go:217-223 ExternalProviderLink (JSON) *)
definition link_json :: "external_link \<Rightarrow> json" where
  "link_json l = JObj [(''subjectDid'', JStr (ln_SubjectDID l)), (''provider'', JStr (ln_Provider l)),
     (''externalId'', JStr (ln_ExternalID l)), (''linkedAt'', json_time (ln_LinkedAt l)),
     (''lastUsedAt'', json_time (ln_LastUsedAt l))]"

(* src: internal/store/store.go:256-263 WebhookSubscription (JSON) *)
definition webhook_json :: "webhook_subscription \<Rightarrow> json" where
  "webhook_json w = JObj ([(''id'', JStr (wh_ID w)), (''url'', JStr (wh_URL w)),
      (''eventTypes'', json_strs (wh_EventTypes w))] @ opt ''tenantId'' (wh_TenantID w) @
     [(''createdAt'', json_time (wh_CreatedAt w))])"

(* src: internal/store/store.go:266-273 AuditEvent (JSON) *)
definition audit_event_json :: "audit_event \<Rightarrow> json" where
  "audit_event_json e = JObj [(''seq'', JNum (ae_Seq e)), (''timestamp'', json_time (ae_Timestamp e)),
     (''event_type'', JStr (ae_EventType e)), (''payload'', JStr (ae_Payload e)), (''hash'', JStr (ae_Hash e)),
     (''prev_hash'', JStr (ae_PrevHash e))]"

(* src: internal/store/store.go:276-281 RecoveryConfig (JSON) *)
definition recovery_config_json :: "recovery_config \<Rightarrow> json" where
  "recovery_config_json c = JObj [(''subject_did'', JStr (rcf_SubjectDID c)), (''threshold'', JNum (rcf_Threshold c)),
     (''guardian_dids'', json_strs (rcf_GuardianDIDs c)), (''created_at'', json_time (rcf_CreatedAt c))]"

(* src: internal/store/store.go:284-290 RecoveryRequest (JSON) *)
definition recovery_request_json :: "recovery_request \<Rightarrow> json" where
  "recovery_request_json r = JObj [(''id'', JStr (rr_ID r)), (''subject_did'', JStr (rr_SubjectDID r)),
     (''started_at'', json_time (rr_StartedAt r)), (''shares_collected'', JNum (rr_SharesCollected r)),
     (''completed'', JBool (rr_Completed r))]"

(* src: internal/store/store.go:332-339 PrivacyDisclosure (JSON) *)
definition disclosure_json :: "privacy_disclosure \<Rightarrow> json" where
  "disclosure_json d = JObj [(''id'', JStr (pd_ID d)), (''subject_did'', JStr (pd_SubjectDID d)),
     (''schema_id'', JStr (pd_SchemaID d)), (''verifier_did'', JStr (pd_VerifierDID d)),
     (''field_names'', json_slice JStr (pd_FieldNames d)), (''disclosed_at'', json_time (pd_DisclosedAt d))]"

(* src: pkg/consent/policy.go:13-21 GrantLevel (text) *)
fun grant_level_text :: "grant_level \<Rightarrow> string" where
  "grant_level_text GrantSchema = ''schema''"
| "grant_level_text GrantCategory = ''category''"
| "grant_level_text (GrantOther x) = x"

definition grant_level_of :: "string \<Rightarrow> grant_level" where
  "grant_level_of x = (if x = ''schema'' then GrantSchema else if x = ''category'' then GrantCategory else GrantOther x)"

(* src: pkg/consent/policy.go:24-38 Grant (JSON) *)
definition grant_json :: "grant \<Rightarrow> json" where
  "grant_json g = JObj ([(''id'', JStr (gr_ID g)), (''subjectDid'', JStr (gr_SubjectDID g)),
      (''relyingDid'', JStr (gr_RelyingDID g)), (''level'', JStr (grant_level_text (gr_Level g))),
      (''scopeId'', JStr (gr_ScopeID g)), (''grantedAt'', json_time (gr_GrantedAt g))] @
     opt_time ''expiresAt'' (gr_ExpiresAt g) @ opt_time ''revokedAt'' (gr_RevokedAt g) @
     [(''explicitlyConfirmed'', JBool (gr_ExplicitlyConfirmed g))])"

(* src: pkg/consent/receipt.go:25-42 Receipt (JSON) *)
definition receipt_json :: "receipt \<Rightarrow> json" where
  "receipt_json r = JObj ([(''id'', JStr (rc_ID r)), (''subjectDid'', JStr (rc_SubjectDID r)),
      (''relyingDid'', JStr (rc_RelyingDID r)), (''schemaId'', JStr (rc_SchemaID r)),
      (''accessedAt'', json_time (rc_AccessedAt r)), (''legalBasis'', JStr (legal_basis_text (rc_LegalBasis r)))] @
     opt ''purpose'' (rc_Purpose r) @ opt_time ''expiresAt'' (rc_ExpiresAt r) @ opt_time ''revokedAt'' (rc_RevokedAt r) @
     opt ''signature'' (rc_Signature r) @ opt ''signedBy'' (rc_SignedBy r))"

text \<open>Decoding a grant; \<open>parse_time\<close> reads RFC 3339, and an absent time is the zero \<^verbatim>\<open>time.Time\<close>, January 1 of year 1.\<close>

definition zero_time :: instant where
  "zero_time = from_unix (- 62135596800)"

definition as_time :: "(string \<Rightarrow> instant option) \<Rightarrow> json \<Rightarrow> instant option" where
  "as_time parse_time v = (case v of JNull \<Rightarrow> Some zero_time | JStr x \<Rightarrow> parse_time x | _ \<Rightarrow> None)"

definition as_time_ptr :: "(string \<Rightarrow> instant option) \<Rightarrow> json \<Rightarrow> instant option option" where
  "as_time_ptr parse_time v = (case v of JNull \<Rightarrow> Some None | JStr x \<Rightarrow> map_option Some (parse_time x) | _ \<Rightarrow> None)"

(* src: pkg/consent/policy.go:24-38 Grant (decoding) *)
definition grant_of :: "(string \<Rightarrow> instant option) \<Rightarrow> json \<Rightarrow> grant option" where
  "grant_of parse_time v =
     (if \<not> as_struct v then None
      else case opt_list (map (\<lambda>k. as_string (member v k)) [''id'', ''subjectDid'', ''relyingDid'', ''level'', ''scopeId'']) of
        Some [gid, subj, rely, lev, scope] \<Rightarrow>
          (case as_time parse_time (member v ''grantedAt'') of None \<Rightarrow> None
           | Some g \<Rightarrow> (case as_time_ptr parse_time (member v ''expiresAt'') of None \<Rightarrow> None
           | Some e \<Rightarrow> (case as_time_ptr parse_time (member v ''revokedAt'') of None \<Rightarrow> None
           | Some r \<Rightarrow> (case as_bool (member v ''explicitlyConfirmed'') of None \<Rightarrow> None
           | Some c \<Rightarrow> Some \<lparr>gr_ID = gid, gr_SubjectDID = subj, gr_RelyingDID = rely, gr_Level = grant_level_of lev,
               gr_ScopeID = scope, gr_GrantedAt = g, gr_ExpiresAt = e, gr_RevokedAt = r, gr_ExplicitlyConfirmed = c\<rparr>))))
      | _ \<Rightarrow> None)"

(* src: pkg/schema/registry.go:11-17 Source (text) *)
fun source_text :: "source \<Rightarrow> string" where
  "source_text SourceCore = ''core''"
| "source_text SourceCommunity = ''community''"
| "source_text SourceThirdParty = ''third-party''"
| "source_text (SourceOther x) = x"

(* src: pkg/schema/registry.go:20-25 ClaimDefinition (JSON) *)
definition claim_json :: "claim_definition \<Rightarrow> json" where
  "claim_json c = JObj ([(''name'', JStr (cl_Name c)), (''type'', JStr (cl_Type c)),
     (''required'', JBool (cl_Required c))] @ opt ''description'' (cl_Description c))"

(* src: pkg/schema/registry.go:28-33 Category (JSON) *)
definition category_members :: "category \<Rightarrow> (string \<times> json) list" where
  "category_members c = [(''id'', JStr (cat_ID c)), (''name'', JStr (cat_Name c))] @
     opt ''description'' (cat_Description c) @ opt ''icon'' (cat_Icon c)"

(* src: pkg/schema/registry.go:36-55 Schema (JSON) *)
definition schema_json :: "schema \<Rightarrow> json" where
  "schema_json x = JObj ([(''id'', JStr (sch_ID x)), (''categoryId'', JStr (sch_CategoryID x)),
      (''name'', JStr (sch_Name x))] @ opt ''description'' (sch_Description x) @ [(''version'', JNum (sch_Version x))] @
     (if sch_ExtraSensitive x then [(''extraSensitive'', JBool True)] else []) @
     (if sch_Claims x = [] then [] else [(''claims'', JArr (map claim_json (sch_Claims x)))]) @
     [(''source'', JStr (source_text (sch_Source x)))])"

(* src: pkg/did/document.go:27-41 VerificationMethod, Service (JSON) *)
definition method_json :: "verification_method \<Rightarrow> json" where
  "method_json m = JObj ([(''id'', JStr (vm_ID m)), (''type'', JStr (vm_Type m)), (''controller'', JStr (vm_Controller m))] @
     (case vm_PublicKeyMultibase m of None \<Rightarrow> [] | Some k \<Rightarrow> [(''publicKeyMultibase'', JStr k)]) @
     (if vm_Revoked m then [(''revoked'', JBool True)] else []) @
     (case vm_NotBefore m of None \<Rightarrow> [] | Some x \<Rightarrow> [(''notBefore'', JStr x)]))"

definition service_json :: "did_service \<Rightarrow> json" where
  "service_json x = json_str_obj [(''id'', sv_ID x), (''type'', sv_Type x), (''serviceEndpoint'', sv_ServiceEndpoint x)]"

definition opt_list_json :: "string \<Rightarrow> ('a \<Rightarrow> json) \<Rightarrow> 'a list \<Rightarrow> (string \<times> json) list" where
  "opt_list_json k f xs = (if xs = [] then [] else [(k, JArr (map f xs))])"

(* src: pkg/did/document.go:13-24 Document (JSON) *)
definition document_json :: "document \<Rightarrow> json" where
  "document_json d = JObj ([(''@context'', json_slice JStr (doc_Context d)), (''id'', JStr (doc_ID d))] @
     opt ''controller'' (doc_Controller d) @ opt_list_json ''verificationMethod'' method_json (doc_VerificationMethod d) @
     opt_strs ''authentication'' (doc_Authentication d) @ opt_strs ''keyAgreement'' (doc_KeyAgreement d) @
     opt_strs ''assertionMethod'' (doc_AssertionMethod d) @ opt_list_json ''service'' service_json (doc_Service d) @
     opt_time ''created'' (doc_Created d) @ opt_time ''updated'' (doc_Updated d))"

end
