(* ===== verification/Api_User.thy ===== *)
theory Api_User
  imports Api_Server Api_Json
begin

text \<open>
  The handlers for subjects and relying parties, \<^verbatim>\<open>src/api\<close>: consents and receipts, sessions, the profile, second
  factors, the duress passphrase, the privacy budget and guardian recovery.  \<open>now\<close> is the time of the request.  The
  members of a Go map are written in the order of their keys.
\<close>

section \<open>Consents\<close>

(* src: api/consents.go:13-26 Server.handleListGrants *)
definition handleListGrants :: "api_env \<Rightarrow> handler" where
  "handleListGrants E rq s =
     (let subjectDID = query_get rq ''subject'' in
      if subjectDID = [] then text_reply 400 ''subject query parameter required'' s
      else case ListGrants subjectDID s of
        Inl e \<Rightarrow> text_reply 500 (''list grants: '' @ en_store_text E e) s
      | Inr gs \<Rightarrow> json_reply 200 (json_slice grant_json gs) s)"

definition category_message :: string where
  "category_message = ''category grants require explicitlyConfirmed=true '' @ map char_of [0xE2, 0x80, 0x94 :: nat] @
     '' the user must explicitly approve sharing all schemas in this category''"

(* src: api/consents.go:28-53 Server.handleCreateGrant *)
definition handleCreateGrant :: "api_env \<Rightarrow> registry \<Rightarrow> handler" where
  "handleCreateGrant E R rq s =
     (case (case rq_body rq of None \<Rightarrow> None | Some v \<Rightarrow> grant_of (en_parse_time E) v) of
        None \<Rightarrow> text_reply 400 (''bad request: '' @ en_decode_text E rq) s
      | Some g \<Rightarrow>
          if gr_Level g = GrantCategory \<and> \<not> gr_ExplicitlyConfirmed g then text_reply 400 category_message s
          else if gr_Level g = GrantSchema \<and>
                  (case GetSchema R (gr_ScopeID g) of Inl _ \<Rightarrow> False | Inr sc \<Rightarrow> sch_ExtraSensitive sc) \<and>
                  \<not> gr_ExplicitlyConfirmed g
          then text_reply 400 ''this schema is extra-sensitive and requires explicitlyConfirmed=true'' s
          else on_store (SaveGrant g s) (\<lambda>e. text_reply 500 (''save grant: '' @ en_store_text E e) s)
                 (json_reply 201 (grant_json g)))"

(* src: api/consents.go:55-62 Server.handleRevokeGrant *)
definition handleRevokeGrant :: "api_env \<Rightarrow> handler" where
  "handleRevokeGrant E rq s =
     on_store (DeleteGrant (path_value rq ''id'') s) (\<lambda>e. text_reply 500 (''revoke grant: '' @ en_store_text E e) s) no_content"

(* src: pkg/consent/receipt.go:14-21 LegalBasis (decoding) *)
definition legal_basis_of :: "string \<Rightarrow> legal_basis" where
  "legal_basis_of x =
     (if x = ''consent'' then LegalBasisConsent else if x = ''vital-interest'' then LegalBasisVitalInterest
      else if x = ''legal-obligation'' then LegalBasisLegalObligation else if x = ''public-task'' then LegalBasisPublicTask
      else LegalBasisOther x)"

(* src: api/consents.go:67-113 Server.handleSubmitReceipt *)
definition handleSubmitReceipt :: "api_env \<Rightarrow> server \<Rightarrow> instant \<Rightarrow> string \<Rightarrow> handler" where
  "handleSubmitReceipt E sv now uuid rq s =
     (case sv_signingKey sv of
        None \<Rightarrow> text_reply 503 ''platform signing key not configured'' s
      | Some key \<Rightarrow>
          (case (body_strs rq [''subject_did'', ''relying_did'', ''schema_id'', ''legal_basis'', ''purpose''],
                 case rq_body rq of None \<Rightarrow> None | Some v \<Rightarrow> as_time_ptr (en_parse_time E) (member v ''expires_at'')) of
             (Some [subj, rely, sid, basis, purpose], Some expires) \<Rightarrow>
               if subj = [] \<or> rely = [] \<or> sid = [] then text_reply 400 ''subject_did, relying_did, and schema_id are required'' s
               else let receipt = Consent.Issue (en_prims E) uuid now \<lparr>io_SubjectDID = subj, io_RelyingDID = rely, io_SchemaID = sid,
                      io_Purpose = purpose, io_LegalBasis = (if basis = [] then LegalBasisConsent else legal_basis_of basis),
                      io_ExpiresAt = expires, io_SignerKey = key, io_SignerKeyID = sv_signingKeyID sv\<rparr>
                    in on_store (SaveReceipt receipt s) (\<lambda>e. text_reply 500 (''save receipt: '' @ en_store_text E e) s)
                         (json_reply 201 (receipt_json receipt))
           | _ \<Rightarrow> text_reply 400 (''bad request: '' @ en_decode_text E rq) s))"

(* src: api/consents.go:115-138 Server.handleListReceipts *)
definition handleListReceipts :: "api_env \<Rightarrow> handler" where
  "handleListReceipts E rq s =
     (let subjectDID = query_get rq ''subject'' in
      if subjectDID = [] then text_reply 400 ''subject query parameter required'' s
      else case ListReceipts subjectDID s of
        Inl e \<Rightarrow> text_reply 500 (''list receipts: '' @ en_store_text E e) s
      | Inr rs \<Rightarrow> json_reply 200 (json_subslice receipt_json rs (page_slice rq rs)) s)"

(* src: api/consents.go:140-147 Server.handleDeleteSession *)
definition handleDeleteSession :: "api_env \<Rightarrow> handler" where
  "handleDeleteSession E rq s =
     on_store (DeleteSession (path_value rq ''id'') s) (\<lambda>e. text_reply 500 (''delete session: '' @ en_store_text E e) s) no_content"

(* src: api/consents.go:149-163 Server.handleListSchemas *)
definition handleListSchemas :: "registry \<Rightarrow> handler" where
  "handleListSchemas R rq s = json_reply 200 (JArr (map (\<lambda>cat. JObj (category_members cat @
     [(''schemas'', json_slice schema_json (SchemasForCategory R (cat_ID cat)))])) (AllCategories R))) s"

section \<open>Sessions\<close>

(* src: api/sessions.go:26-46 handleListMySessions (sessionView) *)
definition session_view :: "oidc_session \<Rightarrow> json" where
  "session_view x = JObj ([(''id'', JStr (ses_ID x)), (''client_id'', JStr (ses_ClientID x))] @
     opt ''user_agent'' (ses_UserAgent x) @ opt ''ip_address'' (ses_IPAddress x) @
     [(''last_used_at'', case ses_LastUsedAt x of None \<Rightarrow> JNull | Some t \<Rightarrow> json_time t),
      (''created_at'', json_time (ses_CreatedAt x)), (''expires_at'', json_time (ses_ExpiresAt x))])"

(* src: api/sessions.go:11-60 Server.handleListMySessions *)
definition handleListMySessions :: "api_env \<Rightarrow> server \<Rightarrow> instant \<Rightarrow> handler" where
  "handleListMySessions E sv now = with_subject E sv now (\<lambda>subjectDID rq s.
     case ListSessionsBySubject now subjectDID s of
       Inl _ \<Rightarrow> text_reply 500 ''internal error'' s
     | Inr sessions \<Rightarrow> json_reply 200 (JArr (page_slice rq (map session_view sessions))) s)"

(* src: api/sessions.go:64-99 Server.handleRevokeMySession *)
definition handleRevokeMySession :: "api_env \<Rightarrow> server \<Rightarrow> instant \<Rightarrow> handler" where
  "handleRevokeMySession E sv now = with_subject E sv now (\<lambda>subjectDID rq s.
     let sessionID = path_value rq ''id'' in
     if sessionID = [] then text_reply 400 ''session id required'' s
     else case GetSession sessionID s of
       Inl _ \<Rightarrow> text_reply 404 ''session not found'' s
     | Inr sess \<Rightarrow>
         if ses_SubjectDID sess \<noteq> subjectDID then text_reply 403 ''forbidden'' s
         else on_store (DeleteSession sessionID s) (\<lambda>_. text_reply 500 ''internal error'' s)
           (publish_reply sv now ''session.revoked'' (json_str_obj [(''session_id'', sessionID), (''subject_did'', subjectDID)])
              (RespEmpty 204)))"

section \<open>The profile\<close>

definition count_of :: "'e + 'a list \<Rightarrow> json" where
  "count_of r = JNum (case r of Inl _ \<Rightarrow> 0 | Inr xs \<Rightarrow> int (length xs))"

(* src: api/me.go:13-80 Server.handleGetMe *)
definition handleGetMe :: "api_env \<Rightarrow> server \<Rightarrow> instant \<Rightarrow> handler" where
  "handleGetMe E sv now = with_subject_json E sv now (\<lambda>subjectDID rq s.
     case GetIdentity subjectDID s of
       Inl _ \<Rightarrow> writeJSONError 404 ''not_found'' ''identity not found'' s
     | Inr idn \<Rightarrow> json_reply 200 (JObj
        [(''created_at'', json_time (idn_CreatedAt idn)), (''did'', JStr subjectDID), (''method'', JStr (idn_Method idn)),
         (''mfa'', JObj [(''duress'', JBool (\<not> isl (GetDuressHash subjectDID s))),
            (''passkey'', JBool (case ListWebAuthnCredentials subjectDID s of Inl _ \<Rightarrow> False | Inr ks \<Rightarrow> ks \<noteq> [])),
            (''totp'', JBool (\<not> isl (GetTOTPCredential subjectDID s)))]),
         (''role'', JStr (idn_Role idn)),
         (''summary'', JObj [(''active_sessions'', count_of (ListSessionsBySubject now subjectDID s)),
            (''consent_grants'', count_of (ListGrants subjectDID s)),
            (''credentials'', count_of (ListCredentials subjectDID s)),
            (''linked_providers'', count_of (ListExternalLinks subjectDID s))])]) s)"

definition slice_of :: "('a \<Rightarrow> json) \<Rightarrow> 'e + 'a list \<Rightarrow> json" where
  "slice_of f r = (case r of Inl _ \<Rightarrow> JNull | Inr xs \<Rightarrow> json_slice f xs)"

(* src: api/me.go:87-130 Server.handleExportMe *)
definition handleExportMe :: "api_env \<Rightarrow> server \<Rightarrow> instant \<Rightarrow> handler" where
  "handleExportMe E sv now = with_subject_json E sv now (\<lambda>subjectDID rq s.
     case GetIdentity subjectDID s of
       Inl _ \<Rightarrow> writeJSONError 404 ''not_found'' ''identity not found'' s
     | Inr idn \<Rightarrow> json_reply 200 (JObj
        [(''consent_grants'', slice_of grant_json (ListGrants subjectDID s)),
         (''consent_receipts'', slice_of receipt_json (ListReceipts subjectDID s)),
         (''credentials'', slice_of vcredential_json (ListCredentials subjectDID s)),
         (''export_timestamp'', json_time now),
         (''identity'', JObj [(''created_at'', json_time (idn_CreatedAt idn)), (''did'', JStr (idn_DID idn)),
            (''method'', JStr (idn_Method idn)), (''role'', JStr (idn_Role idn))]),
         (''linked_providers'', slice_of link_json (ListExternalLinks subjectDID s)),
         (''privacy_disclosures'', slice_of disclosure_json (ListDisclosures subjectDID [] s)),
         (''sessions'', slice_of session_json (ListSessionsBySubject now subjectDID s)),
         (''subject_did'', JStr subjectDID)]) s)"

section \<open>Second factors and duress\<close>

definition totp_manager_of :: "server \<Rightarrow> totp_manager" where
  "totp_manager_of sv = \<lparr>tm_passphrase = sv_totpPassphrase sv, tm_issuer = sv_issuer sv\<rparr>"

(* src: api/mfa.go:12-39 Server.handleTOTPEnrol *)
definition handleTOTPEnrol :: "api_env \<Rightarrow> server \<Rightarrow> instant \<Rightarrow> random \<Rightarrow> random \<Rightarrow> random \<Rightarrow> handler" where
  "handleTOTPEnrol E sv now rsecret rsalt rnonce = with_subject E sv now (\<lambda>subjectDID rq s.
     let name = (case body_strs rq [''account_name''] of Some [x] \<Rightarrow> x | _ \<Rightarrow> []);
         name = (if name = [] then subjectDID else name)
     in case totp_EnrolCtx (en_authn E) (totp_manager_of sv) now rsecret rsalt rnonce subjectDID name s of
          Inl e \<Rightarrow> text_reply 500 (''enrolment failed: '' @ en_authn_text E e) s
        | Inr (uri, s) \<Rightarrow> json_reply 200 (json_str_obj
            [(''message'', ''Scan the URI with your authenticator app, then verify with POST /api/v1/me/totp/verify''),
             (''otpauth_uri'', uri)]) s)"

text \<open>A nonce of the wrong length in the stored secret makes the cipher panic: the connection is closed without an
  answer, written as status 0.\<close>

(* src: api/mfa.go:43-67 Server.handleTOTPVerify *)
definition handleTOTPVerify :: "api_env \<Rightarrow> server \<Rightarrow> instant \<Rightarrow> handler" where
  "handleTOTPVerify E sv now = with_subject E sv now (\<lambda>subjectDID rq s.
     case body_strs rq [''code''] of
       Some [code] \<Rightarrow>
         if code = [] then text_reply 400 ''code required'' s
         else (case totp_VerifyCtx (en_authn E) (totp_manager_of sv) now subjectDID code s of
             Inl PanicNonce \<Rightarrow> (RespEmpty 0, [], s)
           | Inl _ \<Rightarrow> text_reply 401 ''invalid code'' (ign (RecordFailure now subjectDID) s)
           | Inr _ \<Rightarrow> json_reply 200 (json_str_obj [(''status'', ''verified'')]) (RecordSuccess subjectDID s))
     | _ \<Rightarrow> text_reply 400 ''code required'' s)"

(* src: api/mfa.go:71-85 Server.handleTOTPUnenrol *)
definition handleTOTPUnenrol :: "api_env \<Rightarrow> server \<Rightarrow> instant \<Rightarrow> handler" where
  "handleTOTPUnenrol E sv now = with_subject E sv now (\<lambda>subjectDID rq s.
     on_store (Unenrol subjectDID s) (\<lambda>e. text_reply 500 (''unenrol failed: '' @ en_store_text E e) s) no_content)"

definition duress_message :: string where
  "duress_message = ''Duress passphrase enrolled. Use it instead of your normal password when under coercion '' @
     map char_of [0xE2, 0x80, 0x94 :: nat] @ '' authentication will succeed silently and a security alert will fire.''"

(* src: api/duress.go:12-38 Server.handleDuressEnrol *)
definition handleDuressEnrol :: "api_env \<Rightarrow> server \<Rightarrow> instant \<Rightarrow> random \<Rightarrow> handler" where
  "handleDuressEnrol E sv now rsalt = with_subject E sv now (\<lambda>subjectDID rq s.
     case body_strs rq [''duress_passphrase''] of
       Some [passphrase] \<Rightarrow>
         if passphrase = [] then text_reply 400 ''duress_passphrase required'' s
         else (case duress_Enrol (en_authn E) now rsalt subjectDID passphrase s of
             Inl e \<Rightarrow> text_reply 500 (''enrolment failed: '' @ en_authn_text E e) s
           | Inr s \<Rightarrow> json_reply 200 (json_str_obj [(''message'', duress_message)]) s)
     | _ \<Rightarrow> text_reply 400 ''duress_passphrase required'' s)"

(* src: api/duress.go:42-55 Server.handleDuressRemove *)
definition handleDuressRemove :: "api_env \<Rightarrow> server \<Rightarrow> instant \<Rightarrow> handler" where
  "handleDuressRemove E sv now = with_subject E sv now (\<lambda>subjectDID rq s.
     on_store (duress_Remove subjectDID s) (\<lambda>e. text_reply 500 (''remove failed: '' @ en_store_text E e) s) no_content)"

section \<open>The privacy budget\<close>

(* src: api/privacy.go:29-35 schemaStats *)
record schema_stats =
  ss_TotalShares :: int
  ss_LastSharedAt :: "instant option"
  ss_VerifierCounts :: "(string \<times> int) list"

(* src: api/privacy.go:39-56 handleGetPrivacyBudget (aggregation) *)
definition budget_step :: "privacy_disclosure \<Rightarrow> (string \<times> schema_stats) list \<Rightarrow> (string \<times> schema_stats) list" where
  "budget_step d m =
     (let st = (case map_of m (pd_SchemaID d) of Some st \<Rightarrow> st
                | None \<Rightarrow> \<lparr>ss_TotalShares = 0, ss_LastSharedAt = None, ss_VerifierCounts = []\<rparr>);
          n = (case map_of (ss_VerifierCounts st) (pd_VerifierDID d) of Some n \<Rightarrow> n | None \<Rightarrow> 0);
          t = pd_DisclosedAt d
      in map_put (pd_SchemaID d)
           \<lparr>ss_TotalShares = ss_TotalShares st + 1,
            ss_LastSharedAt = (case ss_LastSharedAt st of None \<Rightarrow> Some t | Some u \<Rightarrow> if t > u then Some t else Some u),
            ss_VerifierCounts = map_put (pd_VerifierDID d) (n + 1) (ss_VerifierCounts st)\<rparr> m)"

text \<open>The set of verifiers of a schema has the keys of its counts.  The entries of \<^verbatim>\<open>schema_budgets\<close> come in the order of
  a Go map, which is not fixed; here it is the order in which the schemas were first seen.\<close>

definition stats_json :: "string \<times> schema_stats \<Rightarrow> json" where
  "stats_json e = (case e of (sid, st) \<Rightarrow> JObj ([(''schema_id'', JStr sid), (''total_shares'', JNum (ss_TotalShares st)),
     (''unique_verifiers'', JNum (int (length (ss_VerifierCounts st))))] @ opt_time ''last_shared_at'' (ss_LastSharedAt st) @
     [(''verifier_counts'', JObj (map (\<lambda>(v, n). (v, JNum n)) (sort_key fst (ss_VerifierCounts st))))]))"

(* src: api/privacy.go:15-70 Server.handleGetPrivacyBudget *)
definition handleGetPrivacyBudget :: "api_env \<Rightarrow> server \<Rightarrow> instant \<Rightarrow> handler" where
  "handleGetPrivacyBudget E sv now = with_subject_json E sv now (\<lambda>subjectDID rq s.
     case ListDisclosures subjectDID [] s of
       Inl e \<Rightarrow> writeJSONError 500 ''internal_error'' (en_store_text E e) s
     | Inr ds \<Rightarrow> json_reply 200 (JObj [(''schema_budgets'', JArr (map stats_json (fold budget_step ds []))),
         (''subject_did'', JStr subjectDID), (''total_shares'', JNum (int (length ds)))]) s)"

(* src: api/privacy.go:125-131 extractBearer *)
definition extractBearer :: "http_request \<Rightarrow> string" where
  "extractBearer rq =
     (let auth = header_get rq ''Authorization'' in
      if length auth > 7 \<and> take 7 auth = ''Bearer '' then drop 7 auth else [])"

(* src: api/privacy.go:76-123 Server.handleRecordDisclosure *)
definition handleRecordDisclosure :: "api_env \<Rightarrow> server \<Rightarrow> instant \<Rightarrow> random \<Rightarrow> handler" where
  "handleRecordDisclosure E sv now rnd rq s =
     (let subject = subject_of E sv now rq;
          subjectDID = (case subject of Inl _ \<Rightarrow> [] | Inr d \<Rightarrow> d)
      in if isl subject \<and> (sv_apiKey sv = [] \<or> extractBearer rq \<noteq> sv_apiKey sv)
         then writeJSONError 401 ''unauthorized'' ''bearer token or api_key required'' s
         else case (body_strs rq [''subject_did'', ''schema_id'', ''verifier_did''],
                    case rq_body rq of None \<Rightarrow> None | Some v \<Rightarrow> as_strings (member v ''field_names'')) of
            (Some [bodySubject, schemaID, verifierDID], Some fieldNames) \<Rightarrow>
              let subjectDID = (if subjectDID = [] then bodySubject else subjectDID) in
              if subjectDID = [] \<or> schemaID = [] \<or> verifierDID = []
              then writeJSONError 400 ''invalid_request'' ''subject_did, schema_id, and verifier_did required'' s
              else let d = \<lparr>pd_ID = (case random_hex 16 rnd of None \<Rightarrow> [] | Some h \<Rightarrow> h), pd_SubjectDID = subjectDID,
                        pd_SchemaID = schemaID, pd_VerifierDID = verifierDID, pd_FieldNames = fieldNames, pd_DisclosedAt = now\<rparr>
                   in on_store (RecordDisclosure d s) (\<lambda>e. writeJSONError 500 ''internal_error'' (en_store_text E e) s)
                        (json_reply 201 (disclosure_json d))
          | _ \<Rightarrow> writeJSONError 400 ''invalid_request'' ''invalid JSON body'' s)"

end
