(* ===== verification/Api_Recovery.thy ===== *)
theory Api_Recovery
  imports Api_Server Api_Json
begin

text \<open>
  Guardian recovery over HTTP, \<^verbatim>\<open>src/api/recovery.go\<close>: enrolment of guardians, the start of a recovery, which splits a
  token among them, and their approvals.
\<close>

section \<open>Handlers\<close>

(* src: api/recovery.go:16-58 Server.handleRecoveryEnrol *)
definition handleRecoveryEnrol :: "api_env \<Rightarrow> server \<Rightarrow> instant \<Rightarrow> handler" where
  "handleRecoveryEnrol E sv now = with_subject E sv now (\<lambda>subjectDID rq s.
     case (case rq_body rq of None \<Rightarrow> None
           | Some v \<Rightarrow> if \<not> as_struct v then None
                       else case (as_strings (member v ''guardian_dids''), as_int64 (member v ''threshold'')) of
                              (Some gs, Some k) \<Rightarrow> Some (gs, k) | _ \<Rightarrow> None) of
       None \<Rightarrow> text_reply 400 ''invalid request'' s
     | Some (guardians, threshold) \<Rightarrow>
         if length guardians < 2 \<or> threshold < 2 \<or> threshold > int (length guardians)
         then text_reply 400 ''threshold must be 2..len(guardian_dids)'' s
         else on_store (SaveRecoveryConfig now \<lparr>rcf_SubjectDID = subjectDID, rcf_Threshold = threshold,
                  rcf_GuardianDIDs = guardians, rcf_CreatedAt = now\<rparr> s)
                (\<lambda>_. text_reply 500 ''internal error'' s)
                (publish_reply sv now ''recovery.enrolled''
                   (JObj [(''guardian_count'', JNum (int (length guardians))), (''subject_did'', JStr subjectDID),
                          (''threshold'', JNum threshold)])
                   (RespJSON 200 (JObj [(''guardian_count'', JNum (int (length guardians))),
                      (''message'', JStr ''Recovery enrolled''), (''threshold'', JNum threshold)]))))"

(* src: api/recovery.go:62-75 Server.handleGetRecoveryConfig *)
definition handleGetRecoveryConfig :: "api_env \<Rightarrow> server \<Rightarrow> instant \<Rightarrow> handler" where
  "handleGetRecoveryConfig E sv now = with_subject E sv now (\<lambda>subjectDID rq s.
     case GetRecoveryConfig subjectDID s of
       Inl _ \<Rightarrow> text_reply 404 ''no recovery config'' s
     | Inr cfg \<Rightarrow> json_reply 200 (recovery_config_json cfg) s)"

(* src: api/recovery.go:212-218 randomRecoveryID *)
definition randomRecoveryID :: "random \<Rightarrow> string option" where
  "randomRecoveryID rnd = map_option (\<lambda>h. ''recov_'' @ h) (random_hex 16 rnd)"

text \<open>The loop that hands the shares to the guardians, one event each.\<close>

(* src: api/recovery.go:122-129 handleRecoveryInitiate (delivery of the shares) *)
definition notify_guardians :: "server \<Rightarrow> instant \<Rightarrow> string \<Rightarrow> string \<Rightarrow> string list \<Rightarrow> share list \<Rightarrow> db \<Rightarrow> deliveries \<times> db" where
  "notify_guardians sv now reqID subjectDID guardians shares s =
     fold (\<lambda>i (ds, s).
        let (ds', s') = publish sv now ''recovery.initiated''
              (json_str_obj [(''guardian_did'', guardians ! i), (''request_id'', reqID), (''share'', share_Hex (shares ! i)),
                 (''subject_did'', subjectDID)]) s
        in (ds @ ds', s'))
       [0..<length guardians] ([], s)"

definition initiated_message :: string where
  "initiated_message = ''Recovery initiated '' @ map char_of [0xE2, 0x80, 0x94 :: nat] @ '' guardians have been notified''"

(* src: api/recovery.go:81-136 Server.handleRecoveryInitiate *)
definition handleRecoveryInitiate :: "api_env \<Rightarrow> server \<Rightarrow> instant \<Rightarrow> random \<Rightarrow> (nat \<Rightarrow> random) \<Rightarrow> random \<Rightarrow> handler" where
  "handleRecoveryInitiate E sv now rtoken rsplit rid rq s =
     (case body_strs rq [''subject_did''] of
        Some [subjectDID] \<Rightarrow>
          if subjectDID = [] then text_reply 400 ''subject_did required'' s
          else (case GetRecoveryConfig subjectDID s of
             Inl _ \<Rightarrow> text_reply 404 ''no recovery config for subject'' s
           | Inr cfg \<Rightarrow>
               (case NewRecoveryToken rtoken of
                  Inl _ \<Rightarrow> text_reply 500 ''internal error'' s
                | Inr token \<Rightarrow>
                    (case Split rsplit token (rcf_Threshold cfg) (int (length (rcf_GuardianDIDs cfg))) of
                       Inl e \<Rightarrow> text_reply 500 (''internal error: '' @ en_recovery_text E e) s
                     | Inr shares \<Rightarrow>
                         let reqID = (case randomRecoveryID rid of None \<Rightarrow> [] | Some x \<Rightarrow> x) in
                         on_store (SaveRecoveryRequest now \<lparr>rr_ID = reqID, rr_SubjectDID = subjectDID, rr_StartedAt = now,
                             rr_SharesCollected = 0, rr_Completed = False\<rparr> s)
                           (\<lambda>_. text_reply 500 ''internal error'' s)
                           (\<lambda>s. (RespJSON 200 (json_str_obj [(''message'', initiated_message), (''request_id'', reqID)]),
                                notify_guardians sv now reqID subjectDID (rcf_GuardianDIDs cfg) shares s)))))
      | _ \<Rightarrow> text_reply 400 ''subject_did required'' s)"

text \<open>The stored digest of a share: 32 zero bytes onto which the share is copied, cut to 16.\<close>

(* src: api/recovery.go:166-170 handleRecoveryApprove (share digest) *)
definition share_digest :: "string \<Rightarrow> string" where
  "share_digest sh = hex_encode (take 16 (take 32 (bytes_of sh @ replicate 32 0)))"

(* src: api/recovery.go:140-197 Server.handleRecoveryApprove *)
definition handleRecoveryApprove :: "api_env \<Rightarrow> server \<Rightarrow> instant \<Rightarrow> handler" where
  "handleRecoveryApprove E sv now = with_subject E sv now (\<lambda>guardianDID rq s.
     let requestID = path_value rq ''id'' in
     case body_strs rq [''share''] of
       Some [sh] \<Rightarrow>
         if sh = [] then text_reply 400 ''share required'' s
         else (case GetRecoveryRequest requestID s of
            Inl _ \<Rightarrow> text_reply 404 ''recovery request not found'' s
          | Inr recovReq \<Rightarrow>
              if rr_Completed recovReq then text_reply 409 ''recovery already completed'' s
              else on_store (SaveRecoveryShare now \<lparr>rsh_RequestID = requestID, rsh_GuardianDID = guardianDID,
                       rsh_ShareHash = share_digest sh, rsh_CollectedAt = now\<rparr> s)
                     (\<lambda>_. text_reply 500 ''internal error'' s)
                     (\<lambda>s. let n = rr_SharesCollected recovReq + 1 in
                        publish_reply sv now ''recovery.approved''
                          (JObj [(''guardian_did'', JStr guardianDID), (''request_id'', JStr requestID),
                                 (''shares_collected'', JNum n)])
                          (RespJSON 200 (JObj [(''message'', JStr ''Share accepted''), (''request_id'', JStr requestID),
                             (''shares_collected'', JNum n)]))
                          (ign (UpdateRecoveryRequest (recovReq\<lparr>rr_SharesCollected := n\<rparr>)) s)))
     | _ \<Rightarrow> text_reply 400 ''share required'' s)"

(* src: api/recovery.go:201-210 Server.handleGetRecovery *)
definition handleGetRecovery :: "handler" where
  "handleGetRecovery rq s =
     (case GetRecoveryRequest (path_value rq ''id'') s of
        Inl _ \<Rightarrow> text_reply 404 ''not found'' s
      | Inr r \<Rightarrow> json_reply 200 (recovery_request_json r) s)"

end
