(* ===== verification/Api_Admin.thy ===== *)
theory Api_Admin
  imports Api_Server Api_Json
begin

text \<open>
  The handlers behind the API key, \<^verbatim>\<open>src/api/admin.go\<close>, \<^verbatim>\<open>auditlog.go\<close> and \<^verbatim>\<open>webhooks.go\<close>: identities, clients,
  lockouts, the audit log and webhook subscriptions.
\<close>

section \<open>Identities and clients\<close>

(* src: api/admin.go:17-37 Server.handleAdminListIdentities *)
definition handleAdminListIdentities :: "api_env \<Rightarrow> handler" where
  "handleAdminListIdentities E rq s =
     (let (limit, offset) = parsePagination rq 100 500; role = query_get rq ''role'' in
      case ListIdentities limit offset s of
        Inl e \<Rightarrow> text_reply 500 (''list identities: '' @ en_store_text E e) s
      | Inr (ids, tot) \<Rightarrow>
          json_reply 200 (json_subslice identity_json ids (if role \<noteq> [] then filter (\<lambda>i. idn_Role i = role) ids else ids)) s)"

(* src: api/admin.go:41-56 Server.handleAdminSuspendIdentity *)
definition handleAdminSuspendIdentity :: "api_env \<Rightarrow> instant \<Rightarrow> handler" where
  "handleAdminSuspendIdentity E now rq s =
     (case GetIdentity (path_value rq ''did'') s of
        Inl e \<Rightarrow> text_reply 404 (''identity not found: '' @ en_store_text E e) s
      | Inr idn \<Rightarrow>
          let idn = idn\<lparr>idn_Role := ''suspended'', idn_UpdatedAt := now\<rparr> in
          on_store (UpdateIdentity idn s) (\<lambda>e. text_reply 500 (''update identity: '' @ en_store_text E e) s)
            (json_reply 200 (identity_json idn)))"

(* src: api/admin.go:60-77 Server.handleAdminUnsuspendIdentity *)
definition handleAdminUnsuspendIdentity :: "api_env \<Rightarrow> instant \<Rightarrow> handler" where
  "handleAdminUnsuspendIdentity E now rq s =
     (case GetIdentity (path_value rq ''did'') s of
        Inl e \<Rightarrow> text_reply 404 (''identity not found: '' @ en_store_text E e) s
      | Inr idn \<Rightarrow>
          let idn = (if idn_Role idn = ''suspended'' then idn\<lparr>idn_Role := ''user''\<rparr> else idn)\<lparr>idn_UpdatedAt := now\<rparr> in
          on_store (UpdateIdentity idn s) (\<lambda>e. text_reply 500 (''update identity: '' @ en_store_text E e) s)
            (json_reply 200 (identity_json idn)))"

(* src: api/admin.go:81-112 Server.handleAdminDeleteIdentity *)
definition handleAdminDeleteIdentity :: "api_env \<Rightarrow> instant \<Rightarrow> handler" where
  "handleAdminDeleteIdentity E now rq s =
     (let did = path_value rq ''did'' in
      case GetIdentity did s of
        Inl e \<Rightarrow> text_reply 404 (''identity not found: '' @ en_store_text E e) s
      | Inr _ \<Rightarrow>
          let s1 = (case ListCredentials did s of Inl _ \<Rightarrow> s
                    | Inr creds \<Rightarrow> fold (\<lambda>c. ign (DeleteCredential (cr_ID (vc_Credential c)))) creds s);
              s2 = (case ListSessionsBySubject now did s1 of Inl _ \<Rightarrow> s1
                    | Inr sessions \<Rightarrow> fold (\<lambda>x. ign (DeleteSession (ses_ID x))) sessions s1)
          in on_store (UpdateIdentity \<lparr>idn_DID = did, idn_Method = [], idn_SigningKeyPath = [], idn_EncKeyPath = [],
                 idn_Role = ''deleted'', idn_TenantID = [], idn_CreatedAt = zero_time, idn_UpdatedAt = now\<rparr> s2)
               (\<lambda>e. text_reply 500 (''update identity: '' @ en_store_text E e) s2) no_content)"

(* src: api/admin.go:116-125 Server.handleAdminListClients *)
definition handleAdminListClients :: "api_env \<Rightarrow> handler" where
  "handleAdminListClients E rq s =
     (case ListClients s of
        Inl e \<Rightarrow> text_reply 500 (''list clients: '' @ en_store_text E e) s
      | Inr clients \<Rightarrow> json_reply 200 (json_slice client_json clients) s)"

(* src: api/admin.go:129-136 Server.handleAdminDeleteClient *)
definition handleAdminDeleteClient :: "api_env \<Rightarrow> handler" where
  "handleAdminDeleteClient E rq s =
     on_store (DeleteClient (path_value rq ''id'') s) (\<lambda>e. text_reply 500 (''delete client: '' @ en_store_text E e) s) no_content"

(* src: api/admin.go:140-147 Server.handleAdminClearLockout *)
definition handleAdminClearLockout :: "api_env \<Rightarrow> handler" where
  "handleAdminClearLockout E rq s =
     on_store (ClearAuthFailures (path_value rq ''subject'') s)
       (\<lambda>e. text_reply 500 (''clear lockout: '' @ en_store_text E e) s) no_content"

(* src: api/admin.go:151-167 Server.handleAdminStats *)
definition handleAdminStats :: "api_env \<Rightarrow> handler" where
  "handleAdminStats E rq s =
     (case ListIdentities 0 0 s of
        Inl e \<Rightarrow> text_reply 500 (''stats: '' @ en_store_text E e) s
      | Inr (_, identityTotal) \<Rightarrow>
          json_reply 200 (JObj [(''client_count'', JNum (case ListClients s of Inl _ \<Rightarrow> 0 | Inr cs \<Rightarrow> int (length cs))),
            (''identity_count'', JNum identityTotal)]) s)"

section \<open>The audit log\<close>

(* src: api/auditlog.go:11-21 Server.handleListAuditLog *)
definition handleListAuditLog :: "handler" where
  "handleListAuditLog rq s =
     (let (limit, offset) = parsePagination rq 100 500 in
      case ListAuditEvents limit offset s of
        Inl _ \<Rightarrow> text_reply 500 ''internal error'' s
      | Inr (evs, tot) \<Rightarrow> json_reply 200 (json_slice audit_event_json evs) s)"

text \<open>The chain \<open>handleAuditProof\<close> returns: the head of the log and the events from a sequence number on.\<close>

(* src: api/auditlog.go:28-54 handleAuditProof (selection) *)
definition audit_proof :: "int \<Rightarrow> db \<Rightarrow> string + audit_event \<times> audit_event list" where
  "audit_proof fromSeq s =
     (case GetAuditHead s of
        Inl _ \<Rightarrow> Inl ''audit log empty''
      | Inr head \<Rightarrow>
          let limit = ae_Seq head - fromSeq + 1 in
          if limit \<le> 0 then Inl ''seq not found''
          else (case ListAuditEvents (if limit > 1000 then 1000 else limit) (fromSeq - 1) s of
                  Inl _ \<Rightarrow> Inl ''internal error''
                | Inr (evs, _) \<Rightarrow> Inr (head, evs)))"

(* src: api/auditlog.go:26-63 Server.handleAuditProof *)
definition handleAuditProof :: "handler" where
  "handleAuditProof rq s =
     (case atoi (path_value rq ''seq'') of
        None \<Rightarrow> text_reply 400 ''invalid seq'' s
      | Some fromSeq \<Rightarrow>
          if fromSeq < 1 then text_reply 400 ''invalid seq'' s
          else (case audit_proof fromSeq s of
             Inl msg \<Rightarrow> text_reply (if msg = ''internal error'' then 500 else 404) msg s
           | Inr (head, evs) \<Rightarrow> json_reply 200 (JObj [(''chain'', json_slice audit_event_json evs), (''from_seq'', JNum fromSeq),
               (''head_hash'', JStr (ae_Hash head)), (''head_seq'', JNum (ae_Seq head))]) s))"

section \<open>Webhook subscriptions\<close>

(* src: api/webhooks.go:139-145 randomWebhookSecret *)
definition randomWebhookSecret :: "random \<Rightarrow> string option" where
  "randomWebhookSecret rnd = map_option (\<lambda>h. ''whsec_'' @ h) (random_hex 32 rnd)"

(* src: api/webhooks.go:147-150 sha256WebhookSecret *)
definition sha256WebhookSecret :: "prims \<Rightarrow> string \<Rightarrow> string" where
  "sha256WebhookSecret P x = hex_encode (sha256 P (bytes_of x))"

(* src: api/webhooks.go:152-156 randomWebhookID *)
definition randomWebhookID :: "random \<Rightarrow> string option" where
  "randomWebhookID rnd = map_option (\<lambda>h. ''wh_'' @ h) (random_hex 8 rnd)"

(* src: api/webhooks.go:184-198 webhookPrivateRanges *)
definition webhookPrivateRanges :: "cidr list" where
  "webhookPrivateRanges =
     [CIDR4 0x0A000000 8, CIDR4 0xAC100000 12, CIDR4 0xC0A80000 16,
      CIDR4 0x7F000000 8, CIDR6 1 128, CIDR6 0xFC000000000000000000000000000000 7,
      CIDR4 0xA9FE0000 16, CIDR6 0xFE800000000000000000000000000000 10,
      CIDR4 0x64400000 10, CIDR4 0xC6120000 15, CIDR4 0 8]"

(* src: api/webhooks.go:200-210 webhookIsPrivateIP *)
definition webhookIsPrivateIP :: "ip \<Rightarrow> bool" where
  "webhookIsPrivateIP a = (if ip_special a then True else list_ex (\<lambda>block. cidr_contains block a) webhookPrivateRanges)"

datatype webhook_url_error = ErrMalformedURL | ErrURLScheme | ErrResolveHost string | ErrPrivateHost

(* src: api/webhooks.go:172-181 validateWebhookURL (addresses) *)
fun webhook_addresses_ok :: "(string \<Rightarrow> ip option) \<Rightarrow> string list \<Rightarrow> bool" where
  "webhook_addresses_ok parse_ip [] = True"
| "webhook_addresses_ok parse_ip (ipStr # ips) =
     (case parse_ip ipStr of
        None \<Rightarrow> webhook_addresses_ok parse_ip ips
      | Some a \<Rightarrow> if webhookIsPrivateIP a then False else webhook_addresses_ok parse_ip ips)"

(* src: api/webhooks.go:159-182 validateWebhookURL *)
definition validateWebhookURL :: "api_env \<Rightarrow> string \<Rightarrow> webhook_url_error option" where
  "validateWebhookURL E rawURL =
     (case en_parse_uri E rawURL of
        None \<Rightarrow> Some ErrMalformedURL
      | Some (scheme, host) \<Rightarrow>
          if scheme \<noteq> ''https'' \<and> scheme \<noteq> ''http'' then Some ErrURLScheme
          else (case en_lookup_host E host of
             Inl e \<Rightarrow> Some (ErrResolveHost e)
           | Inr ips \<Rightarrow> if webhook_addresses_ok (en_parse_ip E) ips then None else Some ErrPrivateHost))"

(* src: api/webhooks.go:162-178 validateWebhookURL (messages) *)
fun webhook_url_text :: "webhook_url_error \<Rightarrow> string" where
  "webhook_url_text ErrMalformedURL = ''malformed URL''"
| "webhook_url_text ErrURLScheme = ''scheme must be http or https''"
| "webhook_url_text (ErrResolveHost e) = ''cannot resolve host: '' @ e"
| "webhook_url_text ErrPrivateHost = ''host resolves to a private/loopback address''"

(* src: api/webhooks.go:33-85 Server.handleRegisterWebhook *)
definition handleRegisterWebhook :: "api_env \<Rightarrow> instant \<Rightarrow> random \<Rightarrow> random \<Rightarrow> handler" where
  "handleRegisterWebhook E now rsecret rid rq s =
     (case (body_strs rq [''url''], case rq_body rq of None \<Rightarrow> None | Some v \<Rightarrow> as_strings (member v ''event_types'')) of
        (Some [u], Some types) \<Rightarrow>
          if u = [] then text_reply 400 ''url required'' s
          else (case validateWebhookURL E u of
             Some e \<Rightarrow> text_reply 400 (''invalid url: '' @ webhook_url_text e) s
           | None \<Rightarrow>
               let types = (if types = [] then [''*''] else types) in
               (case (randomWebhookSecret rsecret, randomWebhookID rid) of
                  (Some rawSecret, Some wid) \<Rightarrow>
                    on_store (SaveWebhookSubscription \<lparr>wh_ID = wid, wh_URL = u, wh_EventTypes = types,
                        wh_SecretHash = sha256WebhookSecret (en_prims E) rawSecret, wh_TenantID = [], wh_CreatedAt = now\<rparr> s)
                      (\<lambda>_. text_reply 500 ''internal error'' s)
                      (json_reply 201 (JObj [(''id'', JStr wid), (''url'', JStr u), (''event_types'', json_strs types),
                         (''signing_secret'', JStr rawSecret), (''created_at'', JStr (rfc3339 now))]))
                | _ \<Rightarrow> text_reply 500 ''internal error'' s))
      | _ \<Rightarrow> text_reply 400 ''invalid request'' s)"

(* src: api/webhooks.go:89-96 Server.handleDeleteWebhook *)
definition handleDeleteWebhook :: "handler" where
  "handleDeleteWebhook rq s =
     on_store (DeleteWebhookSubscription (path_value rq ''id'') s) (\<lambda>_. text_reply 404 ''not found'' s) no_content"

(* src: api/webhooks.go:100-109 Server.handleListWebhooks *)
definition handleListWebhooks :: "handler" where
  "handleListWebhooks rq s =
     (case ListWebhookSubscriptions [] s of
        Inl _ \<Rightarrow> text_reply 500 ''internal error'' s
      | Inr subs \<Rightarrow> json_reply 200 (json_slice webhook_json subs) s)"

(* src: api/webhooks.go:116-137 Server.handleTestWebhook *)
definition handleTestWebhook :: "server \<Rightarrow> instant \<Rightarrow> handler" where
  "handleTestWebhook sv now rq s =
     (let wid = path_value rq ''id'' in
      case GetWebhookSubscription wid s of
        Inl _ \<Rightarrow> writeJSONError 404 ''not_found'' ''webhook subscription not found'' s
      | Inr sub \<Rightarrow> publish_reply sv now ''webhook.ping''
          (JObj [(''message'', JStr ''Test delivery from tpt-identity. If you receive this, your webhook is configured correctly.''),
                 (''sent_at'', json_time now), (''webhook_id'', JStr wid)])
          (RespJSON 200 (json_str_obj
            [(''message'', ''Test event published. Check your webhook endpoint for delivery.''), (''status'', ''ping_sent''),
             (''url'', wh_URL sub), (''webhook_id'', wh_ID sub)])) s)"

end
