(* ===== verification/Api_Credentials.thy ===== *)
theory Api_Credentials
  imports Api_Server Api_Json
begin

text \<open>
  Issuing and serving credentials over HTTP, \<^verbatim>\<open>src/api/credentials.go\<close>, \<^verbatim>\<open>batch.go\<close>, \<^verbatim>\<open>identity.go\<close> and
  \<^verbatim>\<open>status.go\<close>, and the credentials that are issued to a new identity, \<^verbatim>\<open>bootstrapCredentials\<close> of
  \<^verbatim>\<open>api/bridge.go\<close>.  The JSON Schema library is the pair \<open>js_compile\<close>, \<open>js_validate\<close> and \<open>R\<close> the schema registry; the
  cache of compiled schemas does not change what is issued and starts empty in every call.
\<close>

section \<open>Issuing\<close>

(* src: api/credentials.go:14-24 issueCredentialRequest *)
record issue_request =
  ir_IssuerDID :: string
  ir_SubjectDID :: string
  ir_SchemaID :: string
  ir_Claims :: "(string \<times> string) list"
  ir_ValidFor :: string
  ir_StatusListCredential :: string
  ir_StatusListIndex :: int

(* src: api/credentials.go:14-24 issueCredentialRequest (decoding) *)
definition issue_request_of :: "json \<Rightarrow> issue_request option" where
  "issue_request_of v =
     (if \<not> as_struct v then None
      else case (opt_list (map (\<lambda>k. as_string (member v k))
                   [''issuer_did'', ''subject_did'', ''schema_id'', ''valid_for'', ''status_list_credential'']),
                 as_string_map (member v ''claims''), as_int64 (member v ''status_list_index'')) of
        (Some [iss, subj, sid, vf, slc], Some cs, Some idx) \<Rightarrow>
          Some \<lparr>ir_IssuerDID = iss, ir_SubjectDID = subj, ir_SchemaID = sid, ir_Claims = cs, ir_ValidFor = vf,
            ir_StatusListCredential = slc, ir_StatusListIndex = idx\<rparr>
      | _ \<Rightarrow> None)"

(* src: api/credentials.go:38-41 handleIssueCredential (default issuer) *)
definition issuer_for :: "server \<Rightarrow> issue_request \<Rightarrow> string" where
  "issuer_for sv req = (if ir_IssuerDID req = [] then sv_issuer sv else ir_IssuerDID req)"

(* src: api/credentials.go:43-51 handleIssueCredential (validity) *)
definition valid_for :: "api_env \<Rightarrow> issue_request \<Rightarrow> duration option" where
  "valid_for E req = (if ir_ValidFor req = [] then Some 0 else en_parse_duration E (ir_ValidFor req))"

(* src: api/credentials.go:53-63 handleIssueCredential (options) *)
definition issue_opts :: "server \<Rightarrow> byte list \<Rightarrow> duration \<Rightarrow> issue_request \<Rightarrow> vc_issue_options" where
  "issue_opts sv key vf req = \<lparr>vo_IssuerDID = issuer_for sv req, vo_IssuerKey = key,
     vo_VerificationMethodID = sv_signingKeyID sv, vo_SubjectDID = ir_SubjectDID req, vo_SchemaID = ir_SchemaID req,
     vo_Claims = ir_Claims req, vo_ValidFor = vf, vo_StatusListCredential = ir_StatusListCredential req,
     vo_StatusListIndex = ir_StatusListIndex req\<rparr>"

(* src: api/credentials.go:26-85 Server.handleIssueCredential *)
definition handleIssueCredential :: "api_env \<Rightarrow> server \<Rightarrow> (string \<Rightarrow> json \<Rightarrow> 'c option) \<Rightarrow> ('c \<Rightarrow> (string \<times> json) list \<Rightarrow> bool)
    \<Rightarrow> registry \<Rightarrow> string \<Rightarrow> instant \<Rightarrow> handler" where
  "handleIssueCredential E sv js_compile js_validate R uuid now rq s =
     (case sv_signingKey sv of
        None \<Rightarrow> text_reply 503 ''platform signing key not configured'' s
      | Some key \<Rightarrow>
          (case (case rq_body rq of None \<Rightarrow> None | Some v \<Rightarrow> issue_request_of v) of
             None \<Rightarrow> text_reply 400 (''bad request: '' @ en_decode_text E rq) s
           | Some req \<Rightarrow>
               (case valid_for E req of
                  None \<Rightarrow> text_reply 400 (''invalid valid_for duration: '' @ en_duration_text E (ir_ValidFor req)) s
                | Some vf \<Rightarrow>
                    (case fst (vc_Issue (en_prims E) js_compile js_validate R Map.empty uuid now (issue_opts sv key vf req)) of
                       Inl e \<Rightarrow> text_reply 400 (''issue: '' @ en_vc_text E e) s
                     | Inr cred \<Rightarrow>
                         on_store (SaveCredential now cred s) (\<lambda>e. text_reply 500 (''save credential: '' @ en_store_text E e) s)
                           (publish_reply sv now ''credential.issued''
                              (json_str_obj [(''id'', cr_ID (vc_Credential cred)), (''issuer_did'', issuer_for sv req),
                                 (''schema_id'', ir_SchemaID req), (''subject'', sub_ID (cr_CredentialSubject (vc_Credential cred)))])
                              (RespJSON 201 (vcredential_json cred)))))))"

(* src: api/credentials.go:87-102 Server.handleVerifyCredential *)
definition handleVerifyCredential :: "api_env \<Rightarrow> (string \<Rightarrow> did_error + document) \<Rightarrow> instant \<Rightarrow> handler" where
  "handleVerifyCredential E resolve now rq s =
     (case (case rq_body rq of None \<Rightarrow> None | Some v \<Rightarrow> en_decode_vc E v) of
        None \<Rightarrow> text_reply 400 (''bad request: '' @ en_decode_text E rq) s
      | Some cred \<Rightarrow>
          (case vc_Verify (en_prims E) (en_did E) \<lparr>vf_resolve = resolve, vf_statusChecker = None\<rparr> now cred of
             Inl e \<Rightarrow> json_reply 422 (json_str_obj [(''error'', en_vc_text E e), (''valid'', ''false'')]) s
           | Inr _ \<Rightarrow> json_reply 200 (json_str_obj [(''valid'', ''true'')]) s))"

(* src: api/credentials.go:104-127 Server.handleListCredentials *)
definition handleListCredentials :: "api_env \<Rightarrow> handler" where
  "handleListCredentials E rq s =
     (let subjectDID = query_get rq ''subject'' in
      if subjectDID = [] then text_reply 400 ''subject query parameter required'' s
      else case ListCredentials subjectDID s of
        Inl e \<Rightarrow> text_reply 500 (''list: '' @ en_store_text E e) s
      | Inr creds \<Rightarrow> json_reply 200 (json_subslice vcredential_json creds (page_slice rq creds)) s)"

(* src: api/credentials.go:129-136 Server.handleDeleteCredential *)
definition handleDeleteCredential :: "api_env \<Rightarrow> handler" where
  "handleDeleteCredential E rq s =
     on_store (DeleteCredential (path_value rq ''id'') s) (\<lambda>e. text_reply 500 (''delete: '' @ en_store_text E e) s) no_content"

section \<open>Batches\<close>

text \<open>One element of a batch; \<open>uuid\<close> is the identifier drawn for it.\<close>

(* src: api/batch.go:44-81 handleBatchIssueCredentials (loop body) *)
definition batch_one :: "api_env \<Rightarrow> server \<Rightarrow> (string \<Rightarrow> json \<Rightarrow> 'c option) \<Rightarrow> ('c \<Rightarrow> (string \<times> json) list \<Rightarrow> bool) \<Rightarrow> registry
    \<Rightarrow> byte list \<Rightarrow> string \<Rightarrow> instant \<Rightarrow> issue_request \<Rightarrow> db \<Rightarrow> (string + vcredential) \<times> db" where
  "batch_one E sv js_compile js_validate R key uuid now req s =
     (case valid_for E req of
        None \<Rightarrow> (Inl (''invalid valid_for: '' @ en_duration_text E (ir_ValidFor req)), s)
      | Some vf \<Rightarrow>
          (case fst (vc_Issue (en_prims E) js_compile js_validate R Map.empty uuid now (issue_opts sv key vf req)) of
             Inl e \<Rightarrow> (Inl (en_vc_text E e), s)
           | Inr cred \<Rightarrow>
               (case SaveCredential now cred s of
                  Inl e \<Rightarrow> (Inl (''store error: '' @ en_store_text E e), s)
                | Inr s' \<Rightarrow> (Inr cred, s'))))"

fun batch_loop :: "(nat \<Rightarrow> issue_request \<Rightarrow> db \<Rightarrow> (string + vcredential) \<times> db) \<Rightarrow> nat \<Rightarrow> issue_request list \<Rightarrow> db
    \<Rightarrow> (string + vcredential) list \<times> db" where
  "batch_loop one i [] s = ([], s)"
| "batch_loop one i (req # reqs) s =
     (let (r, s) = one i req s; (rs, s) = batch_loop one (Suc i) reqs s in (r # rs, s))"

(* src: api/batch.go:38-41 handleBatchIssueCredentials (result) *)
definition batch_result_json :: "string + vcredential \<Rightarrow> json" where
  "batch_result_json r = JObj (case r of Inl e \<Rightarrow> opt ''error'' e | Inr c \<Rightarrow> [(''credential'', vcredential_json c)])"

(* src: api/batch.go:17-85 Server.handleBatchIssueCredentials *)
definition handleBatchIssueCredentials :: "api_env \<Rightarrow> server \<Rightarrow> (string \<Rightarrow> json \<Rightarrow> 'c option) \<Rightarrow> ('c \<Rightarrow> (string \<times> json) list \<Rightarrow> bool)
    \<Rightarrow> registry \<Rightarrow> (nat \<Rightarrow> string) \<Rightarrow> instant \<Rightarrow> handler" where
  "handleBatchIssueCredentials E sv js_compile js_validate R uuids now rq s =
     (case sv_signingKey sv of
        None \<Rightarrow> writeJSONError 503 ''not_configured'' ''platform signing key not configured'' s
      | Some key \<Rightarrow>
          (case (case rq_body rq of Some (JArr vs) \<Rightarrow> opt_list (map issue_request_of vs) | Some JNull \<Rightarrow> Some [] | _ \<Rightarrow> None) of
             None \<Rightarrow> writeJSONError 400 ''invalid_request'' ''expected JSON array of credential requests'' s
           | Some reqs \<Rightarrow>
               if reqs = [] then writeJSONError 400 ''invalid_request'' ''empty batch'' s
               else if length reqs > 10 then writeJSONError 400 ''invalid_request'' ''batch size exceeds maximum of 10'' s
               else let (rs, s) = batch_loop (\<lambda>i. batch_one E sv js_compile js_validate R key (uuids i) now) 0 reqs s
                    in json_reply 200 (JArr (map batch_result_json rs)) s))"

section \<open>Identities and status lists\<close>

text \<open>\<open>genkeys\<close> is the pair of public keys \<^verbatim>\<open>keystore.Generate\<close> draws.  A \<^verbatim>\<open>did:peer\<close> is recorded in the state of the DID
  methods, which the handler gives back.\<close>

(* src: api/identity.go:19-60 Server.handleCreateIdentity *)
definition handleCreateIdentity :: "api_env \<Rightarrow> instant \<Rightarrow> (string + byte list \<times> byte list) \<Rightarrow> did_state \<Rightarrow> http_request \<Rightarrow> db
    \<Rightarrow> (response \<times> deliveries \<times> db) \<times> did_state" where
  "handleCreateIdentity E now genkeys ds rq s =
     (case body_strs rq [''method'', ''domain'', ''passphrase''] of
        Some [meth, domain, _] \<Rightarrow>
          (case genkeys of
             Inl err \<Rightarrow> (text_reply 500 (''keygen failed: '' @ err) s, ds)
           | Inr (signingPub, encPub) \<Rightarrow>
               (case did_Create (en_did E) now meth \<lparr>co_Domain = domain, co_SigningPub = signingPub, co_EncPub = encPub\<rparr> ds of
                  (Inl e, ds) \<Rightarrow> (text_reply 400 (''create DID: '' @ en_did_text E e) s, ds)
                | (Inr (didStr, doc), ds) \<Rightarrow>
                    (on_store (SaveIdentity \<lparr>idn_DID = didStr, idn_Method = meth, idn_SigningKeyPath = [], idn_EncKeyPath = [],
                         idn_Role = [], idn_TenantID = [], idn_CreatedAt = now, idn_UpdatedAt = now\<rparr> s)
                       (\<lambda>e. text_reply 500 (''save identity: '' @ en_store_text E e) s)
                       (\<lambda>s. on_store (SaveDocument now doc s) (\<lambda>e. text_reply 500 (''save document: '' @ en_store_text E e) s)
                          (json_reply 201 (JObj [(''did'', JStr didStr), (''document'', document_json doc)]))), ds)))
      | _ \<Rightarrow> (text_reply 400 (''bad request: '' @ en_decode_text E rq) s, ds))"

(* src: api/identity.go:62-71 Server.handleGetIdentity *)
definition handleGetIdentity :: "api_env \<Rightarrow> (string \<Rightarrow> did_error + document) \<Rightarrow> handler" where
  "handleGetIdentity E resolve rq s =
     (case resolve (path_value rq ''did'') of
        Inl e \<Rightarrow> text_reply 404 (''resolve: '' @ en_did_text E e) s
      | Inr doc \<Rightarrow> json_reply 200 (document_json doc) s)"

text \<open>\<open>tls\<close> and \<open>host\<close> are \<^verbatim>\<open>r.TLS\<close> and \<^verbatim>\<open>r.Host\<close>.\<close>

(* src: api/status.go:11-35 Server.handleStatusList *)
definition handleStatusList :: "bool \<Rightarrow> string \<Rightarrow> handler" where
  "handleStatusList tls host rq s =
     (let listID = path_value rq ''listId'' in
      if listID = [] then text_reply 400 ''missing listId'' s
      else case GetCredential ((if tls then ''https'' else ''http'') @ ''://'' @ host @ ''/api/v1/status/'' @ listID) s of
        Inl _ \<Rightarrow> text_reply 404 ''status list not found'' s
      | Inr cred \<Rightarrow> json_reply 200 (vcredential_json cred) s)"

section \<open>Credentials for a new identity\<close>

(* src: api/bridge.go:465-502 Server.maybeIssueBootstrapVC *)
definition maybeIssueBootstrapVC :: "api_env \<Rightarrow> server \<Rightarrow> (string \<Rightarrow> json \<Rightarrow> 'c option) \<Rightarrow> ('c \<Rightarrow> (string \<times> json) list \<Rightarrow> bool)
    \<Rightarrow> registry \<Rightarrow> byte list \<Rightarrow> string \<Rightarrow> instant \<Rightarrow> string \<Rightarrow> string \<Rightarrow> (string \<times> string) list option \<Rightarrow> db \<Rightarrow> deliveries \<times> db" where
  "maybeIssueBootstrapVC E sv js_compile js_validate R key uuid now subjectDID schemaID claimsFn s =
     (case claimsFn of
        None \<Rightarrow> ([], s)
      | Some cs \<Rightarrow>
          if (case ListCredentials subjectDID s of Inl _ \<Rightarrow> False
              | Inr existing \<Rightarrow> list_ex (\<lambda>c. case cr_CredentialSchema (vc_Credential c) of None \<Rightarrow> False
                  | Some sc \<Rightarrow> csch_ID sc = schemaID) existing)
          then ([], s)
          else (case fst (vc_Issue (en_prims E) js_compile js_validate R Map.empty uuid now
                   \<lparr>vo_IssuerDID = sv_issuer sv, vo_IssuerKey = key, vo_VerificationMethodID = sv_signingKeyID sv,
                    vo_SubjectDID = subjectDID, vo_SchemaID = schemaID, vo_Claims = cs, vo_ValidFor = 8760 * hour,
                    vo_StatusListCredential = [], vo_StatusListIndex = 0\<rparr>) of
             Inl _ \<Rightarrow> ([], s)
           | Inr cred \<Rightarrow>
               (case SaveCredential now cred s of
                  Inl _ \<Rightarrow> ([], s)
                | Inr s \<Rightarrow> publish sv now ''credential.issued'' (json_str_obj [(''id'', cr_ID (vc_Credential cred)),
                    (''issuer_did'', sv_issuer sv), (''schema_id'', schemaID), (''source'', ''bootstrap''),
                    (''subject'', subjectDID)]) s)))"

text \<open>The goroutine that \<open>FindOrCreate\<close> starts for a new identity, run to its end; \<open>uuid1\<close> and \<open>uuid2\<close> are the
  identifiers it draws.\<close>

(* src: api/bridge.go:435-461 Server.bootstrapCredentials *)
definition bootstrapCredentials :: "api_env \<Rightarrow> server \<Rightarrow> (string \<Rightarrow> json \<Rightarrow> 'c option) \<Rightarrow> ('c \<Rightarrow> (string \<times> json) list \<Rightarrow> bool)
    \<Rightarrow> registry \<Rightarrow> byte list \<Rightarrow> string \<Rightarrow> string \<Rightarrow> instant \<Rightarrow> string \<Rightarrow> external_identity \<Rightarrow> db \<Rightarrow> deliveries \<times> db" where
  "bootstrapCredentials E sv js_compile js_validate R key uuid1 uuid2 now subjectDID ext s =
     (let email = assoc_get (ex_Claims ext) ''email'';
          given = assoc_get (ex_Claims ext) ''given_name'';
          family = assoc_get (ex_Claims ext) ''family_name'';
          (d1, s) = maybeIssueBootstrapVC E sv js_compile js_validate R key uuid1 now subjectDID ''social.verified-contacts''
             (if email = [] then None
              else Some [(''contactType'', ''email''), (''value'', email), (''verifiedDate'', take 10 (rfc3339 now))]) s;
          (d2, s) = maybeIssueBootstrapVC E sv js_compile js_validate R key uuid2 now subjectDID ''identity.legal-name''
             (if given = [] \<or> family = [] then None else Some [(''givenNames'', given), (''familyName'', family)]) s
      in (d1 @ d2, s))"

end
