(* ===== verification/Api_Auth.thy ===== *)
theory Api_Auth
  imports Api_Server Api_Json
begin

text \<open>
  Signing in over HTTP, \<^verbatim>\<open>src/api/bridge.go\<close> and \<^verbatim>\<open>src/api/password.go\<close>: the signed state that travels through an
  external provider, the redirect, SAML, password and magic-link flows, account linking, and the password change and
  reset.  \<open>boot\<close> is the function \<open>FindOrCreate\<close> calls for a new identity.
\<close>

section \<open>The state token\<close>

(* src: api/bridge.go:27-38 bridgeState *)
record bridge_state =
  bs_ClientID :: string
  bs_RedirectURI :: string
  bs_Scope :: string
  bs_Nonce :: string
  bs_OrigState :: string
  bs_CodeChallenge :: string
  bs_CodeChallengeMethod :: string
  bs_LinkFor :: string
  bs_AuthnRequestID :: string
  bs_CreatedAt :: int

definition zero_bridge_state :: bridge_state where
  "zero_bridge_state = \<lparr>bs_ClientID = [], bs_RedirectURI = [], bs_Scope = [], bs_Nonce = [], bs_OrigState = [],
     bs_CodeChallenge = [], bs_CodeChallengeMethod = [], bs_LinkFor = [], bs_AuthnRequestID = [], bs_CreatedAt = 0\<rparr>"

(* src: api/bridge.go:27-38 bridgeState (JSON) *)
definition bridge_state_json :: "bridge_state \<Rightarrow> json" where
  "bridge_state_json st = JObj ([(''client_id'', JStr (bs_ClientID st)), (''redirect_uri'', JStr (bs_RedirectURI st)),
      (''scope'', JStr (bs_Scope st)), (''nonce'', JStr (bs_Nonce st))] @ opt ''orig_state'' (bs_OrigState st) @
     opt ''code_challenge'' (bs_CodeChallenge st) @ opt ''code_challenge_method'' (bs_CodeChallengeMethod st) @
     opt ''link_for'' (bs_LinkFor st) @ opt ''authn_request_id'' (bs_AuthnRequestID st) @
     [(''created_at'', JNum (bs_CreatedAt st))])"

(* src: api/bridge.go:67-70 verifyBridgeState (decoding) *)
definition bridge_state_of :: "json \<Rightarrow> bridge_state option" where
  "bridge_state_of v =
     (if \<not> as_struct v then None
      else case (opt_list (map (\<lambda>k. as_string (member v k))
                   [''client_id'', ''redirect_uri'', ''scope'', ''nonce'', ''orig_state'', ''code_challenge'',
                    ''code_challenge_method'', ''link_for'', ''authn_request_id'']), as_int64 (member v ''created_at'')) of
        (Some [cid, uri, scope, nonce, orig, cc, ccm, link, authn], Some created) \<Rightarrow>
          Some \<lparr>bs_ClientID = cid, bs_RedirectURI = uri, bs_Scope = scope, bs_Nonce = nonce, bs_OrigState = orig,
            bs_CodeChallenge = cc, bs_CodeChallengeMethod = ccm, bs_LinkFor = link, bs_AuthnRequestID = authn,
            bs_CreatedAt = created\<rparr>
      | _ \<Rightarrow> None)"

definition state_mac :: "api_env \<Rightarrow> server \<Rightarrow> string \<Rightarrow> string" where
  "state_mac E sv payload = hex_encode (hmac (sha256 (en_prims E)) (bytes_of (sv_apiKey sv)) (bytes_of payload))"

(* src: api/bridge.go:40-50 Server.signBridgeState *)
definition signBridgeState :: "api_env \<Rightarrow> server \<Rightarrow> bridge_state \<Rightarrow> string" where
  "signBridgeState E sv st =
     (let payload = b64_encode (bytes_of (json_marshal (bridge_state_json st)))
      in payload @ ''.'' @ state_mac E sv payload)"

datatype state_error = ErrStateFormat | ErrStateSignature | ErrStateDecode | ErrStateExpired

text \<open>Subtraction of \<^verbatim>\<open>int64\<close> values, which wraps.\<close>

definition sub64 :: "int \<Rightarrow> int \<Rightarrow> int" where
  "sub64 a b = signed_take_bit 63 (a - b)"

(* src: api/bridge.go:52-75 Server.verifyBridgeState *)
definition verifyBridgeState :: "api_env \<Rightarrow> server \<Rightarrow> instant \<Rightarrow> string \<Rightarrow> state_error + bridge_state" where
  "verifyBridgeState E sv now token =
     (let parts = split_n 2 (CHR ''.'') token in
      if length parts \<noteq> 2 then Inl ErrStateFormat
      else if parts ! 1 \<noteq> state_mac E sv (parts ! 0) then Inl ErrStateSignature
      else case b64_decode (parts ! 0) of
        None \<Rightarrow> Inl ErrStateDecode
      | Some raw \<Rightarrow>
          (case (case en_json E (string_of raw) of None \<Rightarrow> None | Some v \<Rightarrow> bridge_state_of v) of
             None \<Rightarrow> Inl ErrStateDecode
           | Some st \<Rightarrow> if sub64 (unix now) (bs_CreatedAt st) > 600 then Inl ErrStateExpired else Inr st))"

text \<open>The wording of the first three errors; those of the decoders are left to \<open>en_decode_text\<close>.\<close>

definition state_error_text :: "api_env \<Rightarrow> http_request \<Rightarrow> state_error \<Rightarrow> string" where
  "state_error_text E rq e = (case e of ErrStateFormat \<Rightarrow> ''invalid state token''
     | ErrStateSignature \<Rightarrow> ''invalid state token signature'' | ErrStateDecode \<Rightarrow> en_decode_text E rq
     | ErrStateExpired \<Rightarrow> ''state token expired'')"

section \<open>Finishing a sign-in\<close>

text \<open>Besides the request, a sign-in uses the DID methods \<open>ds\<close>, the public key \<open>genkey\<close> drawn for a new identity, and
  the random draws for the code and the session.\<close>

record signin_env =
  si_ds :: did_state
  si_genkey :: "byte list option"
  si_boot :: "(string \<Rightarrow> external_identity \<Rightarrow> db \<Rightarrow> db) option"
  si_rcode :: random
  si_rid :: random

definition find_or_create :: "api_env \<Rightarrow> signin_env \<Rightarrow> instant \<Rightarrow> external_identity \<Rightarrow> db \<Rightarrow> (bridge_error + string \<times> bool) \<times> db" where
  "find_or_create E si now ext s = FindOrCreate (en_did E) (si_ds si) now (si_genkey si) (si_boot si) ext s"

(* src: api/bridge.go:554-571 finishBridgeAuth (answer) *)
definition finish_answer :: "api_env \<Rightarrow> signin_env \<Rightarrow> instant \<Rightarrow> http_request \<Rightarrow> external_identity \<Rightarrow> bridge_state \<Rightarrow> string \<Rightarrow> db
    \<Rightarrow> response \<times> db" where
  "finish_answer E si now rq ext st subjectDID s =
     (if bs_ClientID st \<noteq> [] \<and> bs_RedirectURI st \<noteq> [] then
        (case IssueSessionForDIDCtx now (si_rcode si) (si_rid si) rq subjectDID (bs_ClientID st) (bs_RedirectURI st)
             (bs_Scope st) (bs_Nonce st) (bs_CodeChallenge st) (bs_CodeChallengeMethod st) s of
           (None, s) \<Rightarrow> (RespText 500 (''session error: '' @ en_session_text E), s)
         | (Some code, s) \<Rightarrow> (Redirect (bs_RedirectURI st @ ''?code='' @ code @
             (if bs_OrigState st \<noteq> [] then ''&state='' @ bs_OrigState st else [])), s))
      else (RespJSON 200 (json_str_obj [(''did'', subjectDID), (''provider'', ex_Provider ext)]), s))"

(* src: api/bridge.go:527-572 Server.finishBridgeAuth *)
definition finishBridgeAuth :: "api_env \<Rightarrow> server \<Rightarrow> signin_env \<Rightarrow> instant \<Rightarrow> external_identity \<Rightarrow> bridge_state \<Rightarrow> handler" where
  "finishBridgeAuth E sv si now ext st rq s =
     (if bs_LinkFor st \<noteq> [] then
        (case LinkIdentity now (bs_LinkFor st) ext s of
           Inl e \<Rightarrow> text_reply 409 (''link failed: '' @ en_bridge_text E e) s
         | Inr s \<Rightarrow> json_reply 200 (json_str_obj [(''provider'', ex_Provider ext), (''status'', ''linked'')]) s)
      else case find_or_create E si now ext s of
        (Inl e, s) \<Rightarrow> text_reply 500 (''identity resolution failed: '' @ en_bridge_text E e) s
      | (Inr (subjectDID, _), s) \<Rightarrow>
          let (ds, s) = (if ex_Duress ext
                         then publish sv now ''session.duress''
                                (json_str_obj [(''provider'', ex_Provider ext), (''subject_did'', subjectDID)]) s
                         else ([], s));
              (r, s) = finish_answer E si now rq ext st subjectDID s
          in (r, ds, s))"

section \<open>Redirect and SAML providers\<close>

(* src: api/bridge.go:101-129 Server.startRedirectBridge *)
definition startRedirectBridge :: "api_env \<Rightarrow> server \<Rightarrow> instant \<Rightarrow> (string \<Rightarrow> string + string) \<Rightarrow> handler" where
  "startRedirectBridge E sv now authorizationURL rq s =
     (let q = query_get rq;
          st = \<lparr>bs_ClientID = q ''client_id'', bs_RedirectURI = q ''redirect_uri'', bs_Scope = q ''scope'',
             bs_Nonce = q ''nonce'', bs_OrigState = q ''state'', bs_CodeChallenge = q ''code_challenge'',
             bs_CodeChallengeMethod = q ''code_challenge_method'',
             bs_LinkFor = (case subject_of E sv now rq of Inl _ \<Rightarrow> []
               | Inr subjectDID \<Rightarrow> if q ''link'' = ''true'' then subjectDID else []),
             bs_AuthnRequestID = [], bs_CreatedAt = unix now\<rparr>
      in case authorizationURL (signBridgeState E sv st) of
           Inl e \<Rightarrow> text_reply 502 (''upstream error: '' @ e) s
         | Inr u \<Rightarrow> (Redirect u, [], s))"

(* src: api/bridge.go:133-162 Server.startSAMLBridge *)
definition startSAMLBridge :: "api_env \<Rightarrow> server \<Rightarrow> instant \<Rightarrow> string + string \<times> string \<Rightarrow> handler" where
  "startSAMLBridge E sv now prepareAuth rq s =
     (case prepareAuth of
        Inl e \<Rightarrow> text_reply 502 (''saml error: '' @ e) s
      | Inr (idpURL, requestID) \<Rightarrow>
          let q = query_get rq;
              st = zero_bridge_state\<lparr>bs_ClientID := q ''client_id'', bs_RedirectURI := q ''redirect_uri'',
                 bs_Scope := q ''scope'', bs_Nonce := q ''nonce'', bs_OrigState := q ''state'',
                 bs_AuthnRequestID := requestID, bs_CreatedAt := unix now\<rparr>;
              sep = (if str_contains idpURL ''?'' then ''&'' else ''?'')
          in (Redirect (idpURL @ sep @ ''RelayState='' @ en_query_escape E (signBridgeState E sv st)), [], s))"

(* src: api/bridge.go:82-98 Server.handleBridgeStart *)
definition handleBridgeStart :: "api_env \<Rightarrow> server \<Rightarrow> instant \<Rightarrow> handler" where
  "handleBridgeStart E sv now rq s =
     (case bridge_Get (path_value rq ''provider'') (sv_bridges sv) of
        None \<Rightarrow> text_reply 404 ''unknown provider'' s
      | Some (RedirectBridge authorizationURL _) \<Rightarrow> startRedirectBridge E sv now authorizationURL rq s
      | Some (SAMLBridge prepareAuth _ _) \<Rightarrow> startSAMLBridge E sv now prepareAuth rq s
      | Some _ \<Rightarrow> text_reply 400 ''provider does not support browser-based authentication'' s)"

(* src: api/bridge.go:168-198 Server.handleBridgeCallback *)
definition handleBridgeCallback :: "api_env \<Rightarrow> server \<Rightarrow> signin_env \<Rightarrow> instant \<Rightarrow> handler" where
  "handleBridgeCallback E sv si now rq s =
     (case bridge_Get (path_value rq ''provider'') (sv_bridges sv) of
        None \<Rightarrow> text_reply 404 ''unknown provider'' s
      | Some (RedirectBridge _ exchangeCode) \<Rightarrow>
          let code = query_get rq ''code''; rawState = query_get rq ''state'' in
          if code = [] \<or> rawState = [] then text_reply 400 ''missing code or state'' s
          else (case verifyBridgeState E sv now rawState of
             Inl e \<Rightarrow> text_reply 400 (''invalid state: '' @ state_error_text E rq e) s
           | Inr st \<Rightarrow>
               (case exchangeCode code of
                  Inl e \<Rightarrow> text_reply 401 (''upstream auth failed: '' @ e) s
                | Inr ext \<Rightarrow> finishBridgeAuth E sv si now ext st rq s))
      | Some _ \<Rightarrow> text_reply 400 ''provider does not support callback flow'' s)"

(* src: api/bridge.go:204-217 Server.handleSAMLMetadata *)
definition handleSAMLMetadata :: "server \<Rightarrow> handler" where
  "handleSAMLMetadata sv rq s =
     (case bridge_Get (path_value rq ''provider'') (sv_bridges sv) of
        None \<Rightarrow> text_reply 404 ''unknown provider'' s
      | Some (SAMLBridge _ _ metadata) \<Rightarrow> (metadata, [], s)
      | Some _ \<Rightarrow> text_reply 400 ''provider is not a SAML provider'' s)"

(* src: api/bridge.go:221-261 Server.handleSAMLACS *)
definition handleSAMLACS :: "api_env \<Rightarrow> server \<Rightarrow> signin_env \<Rightarrow> instant \<Rightarrow> handler" where
  "handleSAMLACS E sv si now rq s =
     (case bridge_Get (path_value rq ''provider'') (sv_bridges sv) of
        None \<Rightarrow> text_reply 404 ''unknown provider'' s
      | Some (SAMLBridge _ processACS _) \<Rightarrow>
          if rq_form rq = None then text_reply 400 ''malformed form data'' s
          else let relayState = form_value rq ''RelayState'';
                   st = (if relayState = [] then None
                         else case verifyBridgeState E sv now relayState of Inl _ \<Rightarrow> None | Inr parsed \<Rightarrow> Some parsed);
                   requestIDs = (case st of None \<Rightarrow> []
                     | Some parsed \<Rightarrow> if bs_AuthnRequestID parsed \<noteq> [] then [bs_AuthnRequestID parsed] else []);
                   st = (case st of None \<Rightarrow> zero_bridge_state | Some parsed \<Rightarrow> parsed)
               in (case processACS rq requestIDs of
                     Inl e \<Rightarrow> text_reply 401 (''SAML authentication failed: '' @ e) s
                   | Inr ext \<Rightarrow> finishBridgeAuth E sv si now ext st rq s)
      | Some _ \<Rightarrow> text_reply 400 ''provider is not a SAML provider'' s)"

section \<open>Passwords and magic links\<close>

(* src: api/bridge.go:307-314 handlePasswordAuth (duress check) *)
definition duress_check :: "api_env \<Rightarrow> signin_env \<Rightarrow> instant \<Rightarrow> string \<Rightarrow> external_identity \<Rightarrow> db \<Rightarrow> external_identity \<times> db" where
  "duress_check E si now password ext s =
     (case find_or_create E si now ext s of
        (Inl _, s) \<Rightarrow> (ext, s)
      | (Inr (subjectDID, _), s) \<Rightarrow>
          (if CheckDuress (en_authn E) subjectDID password s then ext\<lparr>ex_Duress := True\<rparr> else ext, s))"

(* src: api/bridge.go:267-327 Server.handlePasswordAuth *)
definition handlePasswordAuth :: "api_env \<Rightarrow> server \<Rightarrow> signin_env \<Rightarrow> instant \<Rightarrow> handler" where
  "handlePasswordAuth E sv si now rq s =
     (case body_strs rq [''identifier'', ''password'', ''client_id'', ''redirect_uri'', ''scope'', ''nonce'', ''state'',
           ''code_challenge'', ''code_challenge_method''] of
        Some [identifier, password, clientID, redirectURI, scope, nonce, state, cc, ccm] \<Rightarrow>
          if identifier = [] \<or> password = [] then text_reply 400 ''identifier and password required'' s
          else (case bridge_Get ''password'' (sv_bridges sv) of
             None \<Rightarrow> text_reply 404 ''password authentication not configured'' s
           | Some PasswordBridge \<Rightarrow>
               (case VerifyCredentials (en_authn E) identifier password s of
                  Inl _ \<Rightarrow> text_reply 401 ''invalid credentials'' (ign (RecordFailure now identifier) s)
                | Inr ext \<Rightarrow>
                    let (ext, s) = duress_check E si now password ext (RecordSuccess identifier s) in
                    finishBridgeAuth E sv si now ext
                      (zero_bridge_state\<lparr>bs_ClientID := clientID, bs_RedirectURI := redirectURI, bs_Scope := scope,
                         bs_Nonce := nonce, bs_OrigState := state, bs_CodeChallenge := cc, bs_CodeChallengeMethod := ccm,
                         bs_CreatedAt := unix now\<rparr>) rq s)
           | Some _ \<Rightarrow> text_reply 500 ''password provider misconfigured'' s)
      | _ \<Rightarrow> text_reply 400 ''invalid request'' s)"

(* src: api/bridge.go:331-381 Server.handleMagicLinkRequest, magicLinkRequest *)
definition handleMagicLinkRequest :: "api_env \<Rightarrow> server \<Rightarrow> instant \<Rightarrow> random \<Rightarrow> handler" where
  "handleMagicLinkRequest E sv now rnd rq s =
     (case body_strs rq [''email'', ''client_id'', ''redirect_uri'', ''scope'', ''nonce''] of
        Some [email, clientID, redirectURI, scope, nonce] \<Rightarrow>
          if email = [] then text_reply 400 ''email required'' s
          else (case GenerateToken (en_prims E) now rnd email s of
             (Inl _, s) \<Rightarrow> text_reply 500 ''internal error'' s
           | (Inr (rawToken, expiresAt), s) \<Rightarrow>
               let verifyURL = sv_issuer sv @ ''/auth/magiclink/verify?token='' @ rawToken @
                     (if clientID \<noteq> [] then ''&state='' @ signBridgeState E sv (zero_bridge_state\<lparr>bs_ClientID := clientID,
                        bs_RedirectURI := redirectURI, bs_Scope := scope, bs_Nonce := nonce, bs_CreatedAt := unix now\<rparr>) else [])
               in json_reply 202 (json_str_obj [(''expires_at'', rfc3339 expiresAt), (''verify_url'', verifyURL)]) s)
      | _ \<Rightarrow> text_reply 400 ''invalid request'' s)"

(* src: api/bridge.go:385-408 Server.handleMagicLinkVerify *)
definition handleMagicLinkVerify :: "api_env \<Rightarrow> server \<Rightarrow> signin_env \<Rightarrow> instant \<Rightarrow> handler" where
  "handleMagicLinkVerify E sv si now rq s =
     (let rawToken = query_get rq ''token''; rawState = query_get rq ''state'' in
      if rawToken = [] then text_reply 400 ''missing token'' s
      else case VerifyToken (en_prims E) now rawToken s of
        (Inl _, s) \<Rightarrow> text_reply 401 ''invalid or expired token'' s
      | (Inr ext, s) \<Rightarrow>
          let st = (if rawState = [] then zero_bridge_state
                    else case verifyBridgeState E sv now rawState of Inl _ \<Rightarrow> zero_bridge_state | Inr st \<Rightarrow> st)
          in finishBridgeAuth E sv si now ext st rq s)"

section \<open>Account linking\<close>

(* src: api/bridge.go:414-427 Server.handleListLinks *)
definition handleListLinks :: "api_env \<Rightarrow> server \<Rightarrow> instant \<Rightarrow> handler" where
  "handleListLinks E sv now = with_subject E sv now (\<lambda>subjectDID rq s.
     case ListExternalLinks subjectDID s of
       Inl _ \<Rightarrow> text_reply 500 ''internal error'' s
     | Inr links \<Rightarrow> json_reply 200 (json_slice link_json links) s)"

(* src: api/bridge.go:506-523 Server.handleUnlink *)
definition handleUnlink :: "api_env \<Rightarrow> server \<Rightarrow> instant \<Rightarrow> handler" where
  "handleUnlink E sv now = with_subject E sv now (\<lambda>subjectDID rq s.
     let externalID = query_get rq ''external_id'' in
     if externalID = [] then text_reply 400 ''external_id query param required'' s
     else case UnlinkIdentity subjectDID (path_value rq ''provider'') externalID s of
       Inl e \<Rightarrow> text_reply 400 (en_bridge_text E e) s
     | Inr s \<Rightarrow> no_content s)"

section \<open>Changing and resetting a password\<close>

text \<open>The assertion \<^verbatim>\<open>raw.(passwordBridge)\<close>.  The interface asks for a \<^verbatim>\<open>VerifyCredentials\<close> that returns \<^verbatim>\<open>(any, error)\<close>, and a
  type implements it only with that very signature.  The providers return \<^verbatim>\<open>(*bridge.ExternalIdentity, error)\<close>
  (\<^verbatim>\<open>providers/password.go:52\<close>, \<^verbatim>\<open>providers/ldap.go:77\<close>) or have no such method, so the assertion fails for each.\<close>

(* src: api/password.go:17-20 passwordBridge *)
fun as_passwordBridge :: "bridge_impl \<Rightarrow> bridge_impl option" where
  "as_passwordBridge PasswordBridge = None"
| "as_passwordBridge (RedirectBridge _ _) = None"
| "as_passwordBridge (SAMLBridge _ _ _) = None"
| "as_passwordBridge PlainBridge = None"

definition password_bridge_reply :: "server \<Rightarrow> db \<Rightarrow> (db \<Rightarrow> response \<times> deliveries \<times> db) \<Rightarrow> response \<times> deliveries \<times> db" where
  "password_bridge_reply sv s h =
     (case bridge_Get ''password'' (sv_bridges sv) of
        None \<Rightarrow> writeJSONError 400 ''not_supported'' ''password bridge not enabled'' s
      | Some b \<Rightarrow>
          (case as_passwordBridge b of
             None \<Rightarrow> writeJSONError 500 ''internal_error'' ''password bridge unavailable'' s
           | Some _ \<Rightarrow> h s))"

(* src: api/password.go:26-70 Server.handlePasswordChange *)
definition handlePasswordChange :: "api_env \<Rightarrow> server \<Rightarrow> instant \<Rightarrow> random \<Rightarrow> handler" where
  "handlePasswordChange E sv now rsalt = with_subject_json E sv now (\<lambda>subjectDID rq s.
     case body_strs rq [''current_password'', ''new_password''] of
       Some [current, new] \<Rightarrow>
         if current = [] \<or> new = [] then writeJSONError 400 ''invalid_request'' ''current_password and new_password required'' s
         else password_bridge_reply sv s (\<lambda>s.
           case VerifyCredentials (en_authn E) subjectDID current s of
             Inl _ \<Rightarrow> writeJSONError 401 ''invalid_credentials'' ''current password is incorrect'' (ign (RecordFailure now subjectDID) s)
           | Inr _ \<Rightarrow>
               let s = RecordSuccess subjectDID s in
               (case SetPassword (en_authn E) now rsalt subjectDID new s of
                  Inl e \<Rightarrow> writeJSONError 400 ''invalid_request'' (en_password_text E e) s
                | Inr s \<Rightarrow> json_reply 200 (json_str_obj [(''status'', ''ok'')]) s))
     | _ \<Rightarrow> writeJSONError 400 ''invalid_request'' ''invalid JSON body'' s)"

(* src: api/password.go:76-119 Server.handlePasswordResetRequest *)
definition handlePasswordResetRequest :: "api_env \<Rightarrow> server \<Rightarrow> instant \<Rightarrow> random \<Rightarrow> handler" where
  "handlePasswordResetRequest E sv now rnd rq s =
     (case body_strs rq [''identifier''] of
        Some [raw] \<Rightarrow>
          if raw = [] then writeJSONError 400 ''invalid_request'' ''identifier required'' s
          else
            let identifier = to_lower (trim_space raw);
                count = (case GetAuthFailures (''reset:'' @ identifier) s of Inl _ \<Rightarrow> 0 | Inr (n, _) \<Rightarrow> n);
                (ds, s) = (if count < 3 then
                   (let (ds, s) = (case randomHex 32 rnd of None \<Rightarrow> ([], s)
                        | Some rawToken \<Rightarrow>
                            (case SavePasswordResetToken \<lparr>pr_Hash = hex_encode (sha256 (en_prims E) (bytes_of rawToken)),
                                 pr_Identifier = identifier, pr_ExpiresAt = now + 15 * minute, pr_CreatedAt = now\<rparr> s of
                               Inl _ \<Rightarrow> ([], s)
                             | Inr s \<Rightarrow> publish sv now ''password.reset_requested''
                                 (json_str_obj [(''expires_at'', rfc3339 (now + 15 * minute)), (''identifier'', identifier),
                                    (''token'', rawToken)]) s))
                    in (ds, ign (RecordAuthFailure now (''reset:'' @ identifier)) s))
                   else ([], s))
            in (RespJSON 200 (json_str_obj [(''message'', ''If this identifier is registered, a reset link has been sent.''),
                  (''status'', ''ok'')]), ds, s)
      | _ \<Rightarrow> writeJSONError 400 ''invalid_request'' ''identifier required'' s)"

(* src: api/password.go:124-174 Server.handlePasswordResetConfirm *)
definition handlePasswordResetConfirm :: "api_env \<Rightarrow> server \<Rightarrow> instant \<Rightarrow> random \<Rightarrow> handler" where
  "handlePasswordResetConfirm E sv now rsalt rq s =
     (case body_strs rq [''token'', ''new_password''] of
        Some [token, new] \<Rightarrow>
          if token = [] \<or> new = [] then writeJSONError 400 ''invalid_request'' ''token and new_password required'' s
          else let hash = hex_encode (sha256 (en_prims E) (bytes_of token)) in
            (case GetPasswordResetToken hash s of
               Inl _ \<Rightarrow> writeJSONError 400 ''invalid_token'' ''token not found or already used'' s
             | Inr tok \<Rightarrow>
                 if now > pr_ExpiresAt tok
                 then writeJSONError 400 ''invalid_token'' ''token expired'' (ign (DeletePasswordResetToken hash) s)
                 else password_bridge_reply sv s (\<lambda>s.
                   case SetPassword (en_authn E) now rsalt (pr_Identifier tok) new s of
                     Inl e \<Rightarrow> writeJSONError 400 ''invalid_request'' (en_password_text E e) s
                   | Inr s \<Rightarrow> json_reply 200 (json_str_obj [(''status'', ''ok'')])
                       (ign (ClearAuthFailures (''reset:'' @ pr_Identifier tok)) (ign (ClearAuthFailures (pr_Identifier tok))
                          (ign (DeletePasswordResetToken hash) s)))))
      | _ \<Rightarrow> writeJSONError 400 ''invalid_request'' ''invalid JSON body'' s)"

end
