(* ===== verification/Api_Routes.thy ===== *)
theory Api_Routes
  imports Api_Server
begin

text \<open>
  The routes of the server, \<^verbatim>\<open>routes\<close> of \<^verbatim>\<open>src/api/server.go\<close>, and how a request is dispatched: the pattern that matches
  its method and cleaned path, the middleware of that route, and the handler.  The handlers are an argument, named as in the
  source; the theorems hold whatever they do.
\<close>

section \<open>The table\<close>

record route =
  ro_wrap :: bool
  ro_limit :: bool
  ro_auth :: bool
  ro_method :: string
  ro_path :: string
  ro_handler :: string

text \<open>\<open>bare\<close> is a handler without middleware, \<open>open_route\<close> is \<^verbatim>\<open>wrap(audit(h))\<close>, \<open>limited\<close> is \<^verbatim>\<open>wrap(rateLimit(audit(h)))\<close>,
  \<open>guarded\<close> is \<^verbatim>\<open>wrap(rateLimit(audit(auth(h))))\<close> and \<open>keyed\<close> is \<^verbatim>\<open>wrap(auth(h))\<close>.\<close>

definition bare :: "string \<Rightarrow> string \<Rightarrow> string \<Rightarrow> route" where
  "bare m p h = \<lparr>ro_wrap = False, ro_limit = False, ro_auth = False, ro_method = m, ro_path = p, ro_handler = h\<rparr>"

definition open_route :: "string \<Rightarrow> string \<Rightarrow> string \<Rightarrow> route" where
  "open_route m p h = \<lparr>ro_wrap = True, ro_limit = False, ro_auth = False, ro_method = m, ro_path = p, ro_handler = h\<rparr>"

definition limited :: "string \<Rightarrow> string \<Rightarrow> string \<Rightarrow> route" where
  "limited m p h = \<lparr>ro_wrap = True, ro_limit = True, ro_auth = False, ro_method = m, ro_path = p, ro_handler = h\<rparr>"

definition guarded :: "string \<Rightarrow> string \<Rightarrow> string \<Rightarrow> route" where
  "guarded m p h = \<lparr>ro_wrap = True, ro_limit = True, ro_auth = True, ro_method = m, ro_path = p, ro_handler = h\<rparr>"

definition keyed :: "string \<Rightarrow> string \<Rightarrow> string \<Rightarrow> route" where
  "keyed m p h = \<lparr>ro_wrap = True, ro_limit = False, ro_auth = True, ro_method = m, ro_path = p, ro_handler = h\<rparr>"

(* src: api/server.go:208-350 Server.routes *)
definition routes :: "route list" where
  "routes =
     [limited ''POST'' ''/didcomm'' ''handleDIDCommReceive'',
      open_route ''GET'' ''/.well-known/openid-configuration'' ''oidc.DiscoveryHandler'',
      open_route ''GET'' ''/.well-known/jwks.json'' ''oidc.JWKSHandler'',
      open_route ''GET'' ''/.well-known/did.json'' ''handleDIDDocument'',
      limited ''GET'' ''/.well-known/webfinger'' ''oidc.WebFingerHandler'',
      open_route ''GET'' ''/.well-known/openid-credential-issuer'' ''oidc.CredentialIssuerMetadataHandler'',
      limited ''GET'' ''/authorize'' ''oidc.AuthorizeHandler'',
      limited ''POST'' ''/token'' ''oidc.TokenHandler'',
      limited ''GET'' ''/userinfo'' ''oidc.UserinfoHandler'',
      limited ''POST'' ''/oidc/register'' ''oidc.RegisterClientHandler'',
      limited ''POST'' ''/oidc/revoke'' ''oidc.RevokeHandler'',
      limited ''POST'' ''/oauth/introspect'' ''oidc.IntrospectHandler'',
      limited ''GET'' ''/oidc/logout'' ''oidc.LogoutHandler'',
      limited ''POST'' ''/oidc/par'' ''oidc.PARHandler'',
      limited ''POST'' ''/oidc/stepup'' ''oidc.StepUpHandler'',
      limited ''POST'' ''/device_authorization'' ''oidc.DeviceAuthorizationHandler'',
      limited ''GET'' ''/device'' ''oidc.DeviceVerifyHandler'',
      limited ''POST'' ''/device/approve'' ''oidc.DeviceApproveHandler'',
      guarded ''POST'' ''/oid4vci/offers'' ''oidc.CreateCredentialOfferHandler'',
      limited ''POST'' ''/oid4vci/credential'' ''oidc.CredentialHandler'',
      guarded ''POST'' ''/oid4vp/requests'' ''oid4vp.CreateRequestHandler'',
      limited ''GET'' ''/oid4vp/requests/{id}'' ''oid4vp.GetRequestHandler'',
      limited ''POST'' ''/oid4vp/responses'' ''oid4vp.PostResponseHandler'',
      limited ''GET'' ''/oid4vp/responses/{id}'' ''oid4vp.GetResponseHandler'',
      bare ''GET'' ''/healthz'' ''handleLiveness'',
      bare ''GET'' ''/readyz'' ''handleReadiness'',
      keyed ''GET'' ''/metrics'' ''MetricsHandler'',
      open_route ''GET'' ''/api/v1/status/{listId}'' ''handleStatusList'',
      limited ''GET'' ''/auth/{provider}'' ''handleBridgeStart'',
      limited ''GET'' ''/auth/{provider}/callback'' ''handleBridgeCallback'',
      open_route ''GET'' ''/auth/{provider}/metadata'' ''handleSAMLMetadata'',
      limited ''POST'' ''/auth/{provider}/acs'' ''handleSAMLACS'',
      limited ''POST'' ''/auth/password'' ''handlePasswordAuth'',
      limited ''POST'' ''/auth/magiclink/request'' ''handleMagicLinkRequest'',
      limited ''GET'' ''/auth/magiclink/verify'' ''handleMagicLinkVerify'',
      limited ''POST'' ''/auth/password/change'' ''handlePasswordChange'',
      limited ''POST'' ''/auth/password/reset/request'' ''handlePasswordResetRequest'',
      limited ''POST'' ''/auth/password/reset/confirm'' ''handlePasswordResetConfirm'',
      guarded ''POST'' ''/api/v1/identities'' ''handleCreateIdentity'',
      guarded ''GET'' ''/api/v1/identities/{did}'' ''handleGetIdentity'',
      guarded ''POST'' ''/api/v1/credentials'' ''handleIssueCredential'',
      guarded ''POST'' ''/api/v1/credentials/verify'' ''handleVerifyCredential'',
      guarded ''GET'' ''/api/v1/credentials'' ''handleListCredentials'',
      guarded ''DELETE'' ''/api/v1/credentials/{id}'' ''handleDeleteCredential'',
      guarded ''POST'' ''/api/v1/credentials/sd-jwt'' ''handleIssueSDJWT'',
      guarded ''POST'' ''/api/v1/credentials/sd-jwt/verify'' ''handleVerifySDJWT'',
      limited ''POST'' ''/api/v1/credentials/sd-jwt/present'' ''handleSDJWTPresentWithWatermark'',
      guarded ''POST'' ''/api/v1/credentials/batch'' ''handleBatchIssueCredentials'',
      limited ''GET'' ''/api/v1/credentials/{id}/fresh'' ''handleCredentialFreshness'',
      guarded ''POST'' ''/api/v1/credentials/zkp/age'' ''handleIssueAgeProof'',
      guarded ''GET'' ''/api/v1/consents/grants'' ''handleListGrants'',
      guarded ''POST'' ''/api/v1/consents/grants'' ''handleCreateGrant'',
      guarded ''DELETE'' ''/api/v1/consents/grants/{id}'' ''handleRevokeGrant'',
      guarded ''GET'' ''/api/v1/consents/receipts'' ''handleListReceipts'',
      guarded ''POST'' ''/api/v1/consents/receipts'' ''handleSubmitReceipt'',
      guarded ''DELETE'' ''/api/v1/sessions/{id}'' ''handleDeleteSession'',
      guarded ''GET'' ''/api/v1/schemas'' ''handleListSchemas'',
      limited ''GET'' ''/api/v1/me'' ''handleGetMe'',
      limited ''GET'' ''/api/v1/me/export'' ''handleExportMe'',
      limited ''GET'' ''/api/v1/me/sessions'' ''handleListMySessions'',
      limited ''DELETE'' ''/api/v1/me/sessions/{id}'' ''handleRevokeMySession'',
      limited ''GET'' ''/api/v1/me/links'' ''handleListLinks'',
      limited ''DELETE'' ''/api/v1/me/links/{provider}'' ''handleUnlink'',
      limited ''POST'' ''/api/v1/me/totp/enrol'' ''handleTOTPEnrol'',
      limited ''POST'' ''/api/v1/me/totp/verify'' ''handleTOTPVerify'',
      limited ''DELETE'' ''/api/v1/me/totp'' ''handleTOTPUnenrol'',
      limited ''POST'' ''/api/v1/me/duress/enrol'' ''handleDuressEnrol'',
      limited ''DELETE'' ''/api/v1/me/duress'' ''handleDuressRemove'',
      limited ''GET'' ''/api/v1/me/privacy-budget'' ''handleGetPrivacyBudget'',
      limited ''POST'' ''/api/v1/me/privacy-budget/record'' ''handleRecordDisclosure'',
      guarded ''POST'' ''/api/v1/webhooks'' ''handleRegisterWebhook'',
      guarded ''GET'' ''/api/v1/webhooks'' ''handleListWebhooks'',
      guarded ''DELETE'' ''/api/v1/webhooks/{id}'' ''handleDeleteWebhook'',
      guarded ''POST'' ''/api/v1/webhooks/{id}/test'' ''handleTestWebhook'',
      guarded ''GET'' ''/api/v1/audit-log'' ''handleListAuditLog'',
      guarded ''GET'' ''/api/v1/audit-log/proof/{seq}'' ''handleAuditProof'',
      limited ''GET'' ''/api/v1/marketplace'' ''handleListMarketplace'',
      limited ''POST'' ''/api/v1/me/recovery/enrol'' ''handleRecoveryEnrol'',
      limited ''GET'' ''/api/v1/me/recovery'' ''handleGetRecoveryConfig'',
      limited ''POST'' ''/api/v1/recovery/{id}/approve'' ''handleRecoveryApprove'',
      limited ''POST'' ''/api/v1/recovery/initiate'' ''handleRecoveryInitiate'',
      limited ''GET'' ''/api/v1/recovery/{id}'' ''handleGetRecovery'',
      guarded ''POST'' ''/api/v1/presentations/request'' ''handleCreatePresentationRequest'',
      guarded ''POST'' ''/api/v1/presentations/submit'' ''handleSubmitPresentation'',
      guarded ''GET'' ''/admin/v1/identities'' ''handleAdminListIdentities'',
      guarded ''POST'' ''/admin/v1/identities/{did}/suspend'' ''handleAdminSuspendIdentity'',
      guarded ''POST'' ''/admin/v1/identities/{did}/unsuspend'' ''handleAdminUnsuspendIdentity'',
      guarded ''DELETE'' ''/admin/v1/identities/{did}'' ''handleAdminDeleteIdentity'',
      guarded ''GET'' ''/admin/v1/clients'' ''handleAdminListClients'',
      guarded ''DELETE'' ''/admin/v1/clients/{id}'' ''handleAdminDeleteClient'',
      guarded ''POST'' ''/admin/v1/lockout/{subject}/clear'' ''handleAdminClearLockout'',
      guarded ''GET'' ''/admin/v1/stats'' ''handleAdminStats'',
      limited ''POST'' ''/api/v1/me/webauthn/register/begin'' ''handleWebAuthnRegisterBegin'',
      limited ''POST'' ''/api/v1/me/webauthn/register/finish'' ''handleWebAuthnRegisterFinish'',
      limited ''POST'' ''/api/v1/webauthn/login/begin'' ''handleWebAuthnLoginBegin'',
      limited ''POST'' ''/api/v1/webauthn/login/finish'' ''handleWebAuthnLoginFinish'',
      limited ''GET'' ''/api/v1/me/webauthn/credentials'' ''handleListWebAuthnCredentials'',
      limited ''DELETE'' ''/api/v1/me/webauthn/credentials/{id}'' ''handleDeleteWebAuthnCredential'']"

section \<open>Dispatch\<close>

text \<open>What \<^verbatim>\<open>http.ServeMux\<close> does with a request, for patterns like those of the table: a method, no host, no trailing
  slash, and \<^verbatim>\<open>{name}\<close> for one segment.  A path is the escaped path of the URL.  First it is cleaned, as \<^verbatim>\<open>path.Clean\<close> does
  for rooted paths: empty segments and \<^verbatim>\<open>.\<close> are dropped, \<^verbatim>\<open>..\<close> takes the segment before it away, and a trailing slash
  stays.\<close>

definition clean_step :: "string \<Rightarrow> string list \<Rightarrow> string list" where
  "clean_step seg out = (if seg = [] \<or> seg = ''.'' then out else if seg = ''..'' then tl out else seg # out)"

definition path_Clean :: "string \<Rightarrow> string" where
  "path_Clean p = ''/'' @ join ''/'' (rev (fold clean_step (split_all (CHR ''/'') p) []))"

definition cleanPath :: "string \<Rightarrow> string" where
  "cleanPath p =
     (if p = [] then ''/''
      else let p = (if hd p \<noteq> CHR ''/'' then ''/'' @ p else p); np = path_Clean p in
        if last p = CHR ''/'' \<and> np \<noteq> ''/'' then np @ ''/'' else np)"

text \<open>Then it is cut into segments, each of them unescaped on its own (and left as it is when the escape is malformed); a
  trailing slash is the segment \<^verbatim>\<open>/\<close>.\<close>

fun unescape :: "string \<Rightarrow> string option" where
  "unescape [] = Some []"
| "unescape (c # s) =
     (if c \<noteq> CHR ''%'' then map_option ((#) c) (unescape s)
      else case s of
        x # y # r \<Rightarrow> (case (from_hex_char x, from_hex_char y) of
            (Some a, Some b) \<Rightarrow> map_option ((#) (char_of (16 * a + b))) (unescape r)
          | _ \<Rightarrow> None)
      | _ \<Rightarrow> None)"

definition pathUnescape :: "string \<Rightarrow> string" where
  "pathUnescape seg = (case unescape seg of Some u \<Rightarrow> u | None \<Rightarrow> seg)"

fun seg_names :: "string list \<Rightarrow> string list" where
  "seg_names [] = []"
| "seg_names [x] = [if x = [] then ''/'' else pathUnescape x]"
| "seg_names (x # y # xs) = pathUnescape x # seg_names (y # xs)"

definition mux_segments :: "string \<Rightarrow> string list" where
  "mux_segments p = seg_names (tl (split_all (CHR ''/'') p))"

definition pat_segments :: "string \<Rightarrow> string list" where
  "pat_segments p = tl (split_all (CHR ''/'') p)"

text \<open>The walk through the routing tree of a method.  A node of the tree is the list of the patterns that pass through it,
  each with what is left of it.  At every segment the patterns with that literal are tried first and those with a
  wildcard only when no literal leads to a match, so that the more specific pattern wins.\<close>

definition is_wild :: "string \<Rightarrow> bool" where
  "is_wild seg = (seg \<noteq> [] \<and> hd seg = CHR ''{'')"

type_synonym node = "(string list \<times> route) list"

definition child :: "(string \<Rightarrow> bool) \<Rightarrow> node \<Rightarrow> node" where
  "child f rs = List.map_filter (\<lambda>(ps, r). case ps of [] \<Rightarrow> None | p # ps' \<Rightarrow> if f p then Some (ps', r) else None) rs"

fun matchPath :: "node \<Rightarrow> string list \<Rightarrow> route option" where
  "matchPath rs [] = map_option snd (find (\<lambda>(ps, r). ps = []) rs)"
| "matchPath rs (seg # segs) =
     (case matchPath (child (\<lambda>p. \<not> is_wild p \<and> p = seg) rs) segs of
        Some r \<Rightarrow> Some r
      | None \<Rightarrow> if seg = ''/'' then None else matchPath (child is_wild rs) segs)"

definition method_tree :: "string \<Rightarrow> node" where
  "method_tree m = map (\<lambda>r. (pat_segments (ro_path r), r)) (filter (\<lambda>r. ro_method r = m) routes)"

text \<open>A pattern for GET also takes HEAD.\<close>

definition dispatch :: "string \<Rightarrow> string \<Rightarrow> route option" where
  "dispatch m p =
     (case matchPath (method_tree m) (mux_segments p) of
        Some r \<Rightarrow> Some r
      | None \<Rightarrow> if m = ''HEAD'' then matchPath (method_tree ''GET'') (mux_segments p) else None)"

definition allowed_methods :: "string \<Rightarrow> string list" where
  "allowed_methods p =
     filter (\<lambda>m. let t = method_tree (if m = ''HEAD'' then ''GET'' else m) in
         matchPath t (mux_segments p) \<noteq> None \<or>
         \<not> has_suffix p ''/'' \<and> matchPath t (mux_segments (p @ ''/'')) \<noteq> None)
       [''DELETE'', ''GET'', ''HEAD'', ''POST'']"

fun bind_segments :: "string list \<Rightarrow> string list \<Rightarrow> (string \<times> string) list" where
  "bind_segments (p # ps) (x # xs) =
     (if is_wild p then [(butlast (tl p), x)] else []) @ bind_segments ps xs"
| "bind_segments _ _ = []"

text \<open>The middleware of a route around its handler.\<close>

(* src: api/server.go:204-206 Server.wrap (composition) *)
definition run_route :: "(string \<Rightarrow> bool) \<Rightarrow> api_env \<Rightarrow> server \<Rightarrow> route \<Rightarrow> handler \<Rightarrow> http_request \<Rightarrow> db
    \<Rightarrow> (string \<times> string) list \<times> response \<times> deliveries \<times> db" where
  "run_route allow E sv r h rq s =
     (let h = (if ro_auth r then auth sv h else h);
          h = (if ro_limit r then rateLimit allow E sv h else h)
      in if ro_wrap r then wrap sv h rq s else ([], h rq s))"

text \<open>A path that is not clean is answered by a redirect to the clean one, except for CONNECT, whose paths are taken as they
  are; \<open>location\<close> writes a path with the query of the request.  A path that matches for other methods only is answered 405 with
  these methods, any other 404.  The request target \<^verbatim>\<open>*\<close> is a bad request.  The page that comes with the redirect is left out.\<close>

(* src: api/server.go:200-202 Server.ServeHTTP *)
definition serve :: "(string \<Rightarrow> bool) \<Rightarrow> api_env \<Rightarrow> server \<Rightarrow> (string \<Rightarrow> string) \<Rightarrow> (string \<Rightarrow> handler) \<Rightarrow> string \<Rightarrow> http_request \<Rightarrow> db
    \<Rightarrow> (string \<times> string) list \<times> response \<times> deliveries \<times> db" where
  "serve allow E sv location handlers path rq s =
     (let clean = (if rq_method rq = ''CONNECT'' then path else cleanPath path) in
      if path = ''*'' then ([], RespEmpty 400, [], s)
      else if clean \<noteq> path then ([(''Location'', location clean)], RespEmpty 301, [], s)
      else case dispatch (rq_method rq) path of
        Some r \<Rightarrow> run_route allow E sv r (handlers (ro_handler r))
                    (rq\<lparr>rq_path := bind_segments (pat_segments (ro_path r)) (mux_segments path)\<rparr>) s
      | None \<Rightarrow>
          if allowed_methods path \<noteq> []
          then ([(''Allow'', join '', '' (allowed_methods path))], text_reply 405 ''Method Not Allowed'' s)
          else ([], text_reply 404 ''404 page not found'' s))"

section \<open>What the table guarantees\<close>

text \<open>The areas of the API that belong to the operator, by the first segments of the path.\<close>

definition key_areas :: "string list list" where
  "key_areas = [[''admin''], [''metrics''], [''oid4vci'', ''offers''],
     [''api'', ''v1'', ''identities''], [''api'', ''v1'', ''consents''], [''api'', ''v1'', ''sessions''],
     [''api'', ''v1'', ''schemas''], [''api'', ''v1'', ''webhooks''], [''api'', ''v1'', ''audit-log''],
     [''api'', ''v1'', ''presentations'']]"

definition in_key_area :: "string \<Rightarrow> bool" where
  "in_key_area p = list_ex (\<lambda>pre. take (length pre) (mux_segments p) = pre) key_areas"

text \<open>Whether a pattern matches, and whether it can match a path with the given first segments.\<close>

fun match_segments :: "string list \<Rightarrow> string list \<Rightarrow> bool" where
  "match_segments [] [] = True"
| "match_segments (p # ps) (x # xs) = ((if is_wild p then x \<noteq> ''/'' else p = x) \<and> match_segments ps xs)"
| "match_segments _ _ = False"

fun compat :: "string list \<Rightarrow> string list \<Rightarrow> bool" where
  "compat ps [] = True"
| "compat [] (x # xs) = False"
| "compat (p # ps) (x # xs) = ((is_wild p \<or> p = x) \<and> compat ps xs)"

lemma match_compat: "match_segments ps xs \<Longrightarrow> take (length pre) xs = pre \<Longrightarrow> compat ps pre"
proof (induction ps xs arbitrary: pre rule: match_segments.induct)
  case (2 p ps x xs)
  then show ?case by (cases pre) (auto split: if_splits)
qed auto

lemma child_set: "(ps, r) \<in> set (child f rs) \<longleftrightarrow> (\<exists>p. f p \<and> (p # ps, r) \<in> set rs)"
  by (force simp: child_def List.map_filter_def split: list.splits if_splits)

text \<open>The walk finds a route exactly when a pattern of the tree matches, and what it finds matches.\<close>

lemma matchPath_sound: "matchPath rs segs = Some r \<Longrightarrow> \<exists>ps. (ps, r) \<in> set rs \<and> match_segments ps segs"
proof (induction rs segs arbitrary: r rule: matchPath.induct)
  case (1 rs)
  then show ?case by (auto simp: find_Some_iff) (metis match_segments.simps(1) nth_mem)
next
  case (2 rs seg segs)
  show ?case
  proof (cases "matchPath (child (\<lambda>p. \<not> is_wild p \<and> p = seg) rs) segs")
    case None
    with 2 have "seg \<noteq> ''/''" "matchPath (child is_wild rs) segs = Some r" by (auto split: if_splits)
    with "2.IH"(2) [OF None] obtain ps where ps: "(ps, r) \<in> set (child is_wild rs)" "match_segments ps segs" by blast
    then obtain p where "is_wild p" "(p # ps, r) \<in> set rs" by (auto simp: child_set)
    with ps(2) \<open>seg \<noteq> ''/''\<close> show ?thesis by (intro exI [of _ "p # ps"]) simp
  next
    case (Some r')
    with 2 obtain ps where ps: "(ps, r) \<in> set (child (\<lambda>p. \<not> is_wild p \<and> p = seg) rs)" "match_segments ps segs" by force
    then have "\<not> is_wild seg" "(seg # ps, r) \<in> set rs" by (auto simp: child_set)
    with ps(2) show ?thesis by (intro exI [of _ "seg # ps"]) simp
  qed
qed

lemma matchPath_complete: "(ps, r) \<in> set rs \<Longrightarrow> match_segments ps segs \<Longrightarrow> matchPath rs segs \<noteq> None"
proof (induction rs segs arbitrary: ps r rule: matchPath.induct)
  case (1 rs)
  then show ?case by (cases ps) (auto simp: find_None_iff)
next
  case (2 rs seg segs)
  obtain p ps' where ps: "ps = p # ps'" using "2.prems"(2) by (cases ps) auto
  show ?case
  proof (cases "is_wild p")
    case True
    with 2 ps have "seg \<noteq> ''/''" "(ps', r) \<in> set (child is_wild rs)" "match_segments ps' segs" by (auto simp: child_set)
    with "2.IH"(2) show ?thesis by (auto split: option.splits)
  next
    case False
    with 2 ps have "(ps', r) \<in> set (child (\<lambda>p. \<not> is_wild p \<and> p = seg) rs)" "match_segments ps' segs" by (auto simp: child_set)
    with "2.IH"(1) show ?thesis by (fastforce split: option.splits)
  qed
qed

lemma dispatch_sound:
  assumes "dispatch m p = Some r"
  shows "r \<in> set routes" "match_segments (pat_segments (ro_path r)) (mux_segments p)" "ro_method r = m \<or> ro_method r = ''GET'' \<and> m = ''HEAD''"
  using assms unfolding dispatch_def
  by (auto simp: method_tree_def dest!: matchPath_sound split: option.splits if_splits)

lemma unkeyed_routes: "list_all (\<lambda>r. ro_auth r \<or> \<not> list_ex (compat (pat_segments (ro_path r))) key_areas) routes"
  by code_simp

lemma dispatch_key_area:
  assumes "dispatch m p = Some r" "in_key_area p"
  shows "ro_auth r"
proof -
  obtain pre where pre: "pre \<in> set key_areas" "take (length pre) (mux_segments p) = pre"
    using assms(2) by (auto simp: in_key_area_def list_ex_iff)
  have "compat (pat_segments (ro_path r)) pre" using match_compat dispatch_sound(2) [OF assms(1)] pre(2) by blast
  then show ?thesis using unkeyed_routes dispatch_sound(1) [OF assms(1)] pre(1) by (fastforce simp: list_all_iff list_ex_iff)
qed

lemma no_options_route: "list_all (\<lambda>r. ro_method r \<in> {''GET'', ''POST'', ''DELETE''}) routes"
  by code_simp

lemma dispatch_method: "dispatch m p = Some r \<Longrightarrow> m \<in> {''GET'', ''HEAD'', ''POST'', ''DELETE''}"
  using no_options_route dispatch_sound(1,3) by (fastforce simp: list_all_iff)

lemma star_unkeyed: "\<not> in_key_area (cleanPath ''*'')"
  by code_simp

lemma run_route_denied:
  assumes "ro_auth r" "sv_apiKey sv \<noteq> []" "trim_prefix (header_get rq ''Authorization'') ''Bearer '' \<noteq> sv_apiKey sv"
    and "rq_method rq \<noteq> ''OPTIONS''"
  shows "\<exists>hs resp. run_route allow E sv r h rq s = (hs, resp, [], s) \<and> resp_status resp \<in> {401, 429}"
  using assms by (auto simp: run_route_def Let_def auth_def rateLimit_def wrap_def cors_def text_reply_def)

text \<open>C19: the operator's part of the API is closed without the key.  When a key is configured and the request does not
  carry it, no path that is, once cleaned, under the administration, identity, consent, session, schema, webhook, audit,
  presentation, credential offer or metrics endpoints reaches a handler: whatever the handlers do, the answer is 401, 404, 405
  or 429, or for a path that was not clean a redirect to the clean one, the store is as before and nothing is delivered.\<close>

theorem operator_api_needs_key:
  assumes "sv_apiKey sv \<noteq> []" "trim_prefix (header_get rq ''Authorization'') ''Bearer '' \<noteq> sv_apiKey sv"
    and "in_key_area (cleanPath path)"
  shows "\<exists>hs resp. serve allow E sv location handlers path rq s = (hs, resp, [], s) \<and>
     (resp_status resp \<in> {401, 404, 405, 429} \<or>
      cleanPath path \<noteq> path \<and> resp = RespEmpty 301 \<and> hs = [(''Location'', location (cleanPath path))])"
proof -
  have star: "path \<noteq> ''*''" using assms(3) star_unkeyed by blast
  show ?thesis
  proof (cases "rq_method rq = ''CONNECT'' \<or> cleanPath path = path")
    case False
    then show ?thesis using star by (auto simp: serve_def Let_def)
  next
    case True
    then have serve: "serve allow E sv location handlers path rq s = (case dispatch (rq_method rq) path of
        Some r \<Rightarrow> run_route allow E sv r (handlers (ro_handler r))
                    (rq\<lparr>rq_path := bind_segments (pat_segments (ro_path r)) (mux_segments path)\<rparr>) s
      | None \<Rightarrow>
          if allowed_methods path \<noteq> []
          then ([(''Allow'', join '', '' (allowed_methods path))], text_reply 405 ''Method Not Allowed'' s)
          else ([], text_reply 404 ''404 page not found'' s))"
      using star by (auto simp: serve_def Let_def)
    show ?thesis
    proof (cases "dispatch (rq_method rq) path")
      case None
      then show ?thesis by (simp add: serve text_reply_def)
    next
      case (Some r)
      have m: "rq_method rq \<noteq> ''OPTIONS''" "rq_method rq \<noteq> ''CONNECT''" using dispatch_method [OF Some] by auto
      with True assms(3) have "ro_auth r" using dispatch_key_area [OF Some] by simp
      from run_route_denied [OF this assms(1), where rq = "rq\<lparr>rq_path := bind_segments (pat_segments (ro_path r)) (mux_segments path)\<rparr>"]
        m assms(2) Some
      show ?thesis by (simp add: serve header_get_def) blast
    qed
  qed
qed

text \<open>The answer to a preflight request of a browser.  No route is registered for OPTIONS, so such a request never
  reaches \<open>cors\<close>: it is answered without any \<^verbatim>\<open>Access-Control\<close> header, whichever origins are allowed.\<close>

theorem preflight_unanswered:
  assumes "rq_method rq = ''OPTIONS''"
  shows "\<exists>hs resp. serve allow E sv location handlers path rq s = (hs, resp, [], s) \<and> resp_status resp \<in> {301, 400, 404, 405} \<and>
    fst ` set hs \<subseteq> {''Location'', ''Allow''}"
proof (cases "dispatch (rq_method rq) path")
  case None
  then show ?thesis by (auto simp: serve_def text_reply_def Let_def)
next
  case (Some r)
  from dispatch_method [OF this] assms show ?thesis by simp
qed

theorem operator_api_needs_key_witness:
  "(\<exists>hs resp. serve (\<lambda>_. True) demo_api demo_server id (\<lambda>_ _ s. no_content (s\<lparr>t_identities := []\<rparr>)) ''/admin/v1/stats'' demo_get OpenSQLite =
     (hs, resp, [], OpenSQLite) \<and> resp_status resp \<in> {401, 404, 405, 429}) \<and>
   serve (\<lambda>_. True) demo_api demo_server id (\<lambda>_ _ s. no_content (s\<lparr>t_identities := []\<rparr>)) ''/admin//v1/./stats'' demo_get OpenSQLite =
     ([(''Location'', ''/admin/v1/stats'')], RespEmpty 301, [], OpenSQLite)"
proof -
  have k: "sv_apiKey demo_server \<noteq> []" "trim_prefix (header_get demo_get ''Authorization'') ''Bearer '' \<noteq> sv_apiKey demo_server"
    by (simp_all add: demo_server_def demo_cfg_def NewServer_def demo_get_def header_get_def assoc_get_def trim_prefix_def has_prefix_def)
  have c: "cleanPath ''/admin/v1/stats'' = ''/admin/v1/stats''" "cleanPath ''/admin//v1/./stats'' = ''/admin/v1/stats''"
    "in_key_area ''/admin/v1/stats''" by code_simp+
  have "rq_method demo_get \<noteq> ''CONNECT''" by (simp add: demo_get_def)
  then show ?thesis
    using operator_api_needs_key [OF k, of "''/admin/v1/stats''" "\<lambda>_. True" demo_api id "\<lambda>_ _ s. no_content (s\<lparr>t_identities := []\<rparr>)" OpenSQLite]
      operator_api_needs_key [OF k, of "''/admin//v1/./stats''" "\<lambda>_. True" demo_api id "\<lambda>_ _ s. no_content (s\<lparr>t_identities := []\<rparr>)" OpenSQLite]
    by (simp add: c) (simp add: serve_def c)
qed

theorem preflight_unanswered_witness:
  "\<exists>hs resp. serve (\<lambda>_. True) demo_api demo_server id (\<lambda>_ _. no_content) ''/token'' (demo_get\<lparr>rq_method := ''OPTIONS''\<rparr>) OpenSQLite =
     (hs, resp, [], OpenSQLite) \<and> resp_status resp \<in> {301, 400, 404, 405} \<and> fst ` set hs \<subseteq> {''Location'', ''Allow''}"
  by (rule preflight_unanswered) simp

end
