(* ===== verification/Api_Signin.thy ===== *)
theory Api_Signin
  imports Api_Auth
begin

text \<open>
  What a sign-in over HTTP does: the password flow ends in an authorization code, the state token survives its round
  trip, and what an empty API key, a lock, or the password endpoints mean for an account.
\<close>

section \<open>Writes on an open store\<close>

lemma SaveExternalLink_value: "db_open s \<Longrightarrow> \<exists>L. SaveExternalLink l s = Inr (s\<lparr>t_links := L\<rparr>)"
  by (cases s) (simp add: SaveExternalLink_def db_defs)

lemma SaveSession_value:
  "db_open s \<Longrightarrow> \<not> tbl_has ses_ID (ses_ID x) (t_sessions s) \<Longrightarrow> SaveSession x s = Inr (s\<lparr>t_sessions := t_sessions s @ [x]\<rparr>)"
  by (cases s) (simp add: SaveSession_def db_defs tbl_upsert_def)

lemma RecordSuccess_value: "db_open s \<Longrightarrow> RecordSuccess who s = s\<lparr>t_failures := tbl_delete af_subject_or_email who (t_failures s)\<rparr>"
  by (cases s) (simp add: RecordSuccess_def ign_def ClearAuthFailures_def db_defs)

section \<open>The state token\<close>

lemma opt_jopt: "opt k v = jopt k v"
  by (simp add: opt_def jopt_def)

lemma bridge_state_of_json:
  assumes "int64 (bs_CreatedAt st)"
  shows "bridge_state_of (bridge_state_json st) = Some st"
proof -
  let ?v = "bridge_state_json st"
  have m: "member ?v ''client_id'' = JStr (bs_ClientID st)" "member ?v ''redirect_uri'' = JStr (bs_RedirectURI st)"
    "member ?v ''scope'' = JStr (bs_Scope st)" "member ?v ''nonce'' = JStr (bs_Nonce st)"
    "member ?v ''created_at'' = JNum (bs_CreatedAt st)"
    "as_string (member ?v ''orig_state'') = Some (bs_OrigState st)"
    "as_string (member ?v ''code_challenge'') = Some (bs_CodeChallenge st)"
    "as_string (member ?v ''code_challenge_method'') = Some (bs_CodeChallengeMethod st)"
    "as_string (member ?v ''link_for'') = Some (bs_LinkFor st)"
    "as_string (member ?v ''authn_request_id'') = Some (bs_AuthnRequestID st)"
    by (simp_all add: bridge_state_json_def member_def opt_jopt rev_jopt find_jopt find_append to_lower_simps)
  have "as_struct ?v" by (simp add: bridge_state_json_def as_struct_def)
  with m assms show ?thesis by (simp add: bridge_state_of_def int64_def)
qed

lemma sub64_exact: "int64 (a - b) \<Longrightarrow> sub64 a b = a - b"
  by (simp add: sub64_def int64_def signed_take_bit_int_eq_self)

lemma verify_sign_state:
  assumes "decodes (en_json E)" "int64 (bs_CreatedAt st)" "sv_apiKey sv' = sv_apiKey sv"
  shows "verifyBridgeState E sv' now (signBridgeState E sv st) =
    (if sub64 (unix now) (bs_CreatedAt st) > 600 then Inl ErrStateExpired else Inr st)"
  using assms
  by (simp add: verifyBridgeState_def signBridgeState_def Let_def split_n_2 bridge_state_of_json decodes_def state_mac_def)

lemma split_n_2D: "length (split_n 2 c s) = 2 \<Longrightarrow> s = split_n 2 c s ! 0 @ c # split_n 2 c s ! 1"
  by (auto simp: numeral_2_eq_2 split: option.splits dest!: str_cut_SomeD)

text \<open>C24: the state that travels through an external provider.  What the server signed it accepts back unchanged for ten
  minutes and not after; and whatever it accepts carries the keyed hash of its own payload, so without the API key a
  state cannot be altered, and is at most ten minutes old.  Ages are differences of 64-bit seconds; the two bounds on the age
  hold as long as the difference of the clock and the recorded time does not overflow.\<close>

theorem bridge_state_roundtrip:
  assumes "decodes (en_json E)" "int64 (bs_CreatedAt st)" "int64 (unix now - bs_CreatedAt st)"
  shows "verifyBridgeState E sv now (signBridgeState E sv st) =
      (if unix now - bs_CreatedAt st > 600 then Inl ErrStateExpired else Inr st) \<and>
    (verifyBridgeState E sv now token = Inr st' \<longrightarrow>
      (\<exists>payload. token = payload @ ''.'' @ state_mac E sv payload) \<and>
      (int64 (unix now - bs_CreatedAt st') \<longrightarrow> unix now - bs_CreatedAt st' \<le> 600))"
proof (intro conjI impI)
  assume "verifyBridgeState E sv now token = Inr st'"
  then have t: "length (split_n 2 (CHR ''.'') token) = 2" "sub64 (unix now) (bs_CreatedAt st') \<le> 600"
      "split_n 2 (CHR ''.'') token ! 1 = state_mac E sv (split_n 2 (CHR ''.'') token ! 0)"
    by (auto simp: verifyBridgeState_def Let_def split: if_splits option.splits)
  with split_n_2D [OF t(1)] show "\<exists>payload. token = payload @ ''.'' @ state_mac E sv payload" by auto
  show "unix now - bs_CreatedAt st' \<le> 600" if "int64 (unix now - bs_CreatedAt st')"
    using t(2) sub64_exact [OF that] by simp
qed (use verify_sign_state [OF assms(1,2)] sub64_exact [OF assms(3)] in simp)

text \<open>When the difference overflows it is negative, and a state dated at the smallest 64-bit second is accepted at any time
  after the epoch.\<close>

lemma state_age_wraps:
  assumes "decodes (en_json E)" "bs_CreatedAt st = - (2 ^ 63)" "0 \<le> unix now" "int64 (unix now)"
  shows "verifyBridgeState E sv now (signBridgeState E sv st) = Inr st"
proof -
  have "sub64 (unix now) (bs_CreatedAt st) = signed_take_bit 63 (unix now - 2 ^ 63 + 2 ^ 64)"
    by (simp add: sub64_def assms(2) add.commute)
  also have "\<dots> = signed_take_bit 63 (unix now - 2 ^ 63)"
    by (simp only: signed_take_bit_eq_iff_take_bit_eq take_bit_eq_mod mod_eq_dvd_iff) simp
  also have "\<dots> = unix now - 2 ^ 63"
    using assms(3,4) by (intro signed_take_bit_int_eq_self) (auto simp: int64_def)
  finally have "sub64 (unix now) (bs_CreatedAt st) = unix now - 2 ^ 63" .
  moreover have "int64 (bs_CreatedAt st)" by (simp add: assms(2) int64_def)
  ultimately show ?thesis using verify_sign_state [OF assms(1), of st sv sv now] assms(4) by (simp add: int64_def)
qed

theorem bridge_state_roundtrip_witness:
  "verifyBridgeState demo_api demo_server (5 * minute) (signBridgeState demo_api demo_server (zero_bridge_state\<lparr>bs_LinkFor := ''did:a''\<rparr>)) =
     Inr (zero_bridge_state\<lparr>bs_LinkFor := ''did:a''\<rparr>) \<and>
   verifyBridgeState demo_api demo_server (11 * minute) (signBridgeState demo_api demo_server (zero_bridge_state\<lparr>bs_LinkFor := ''did:a''\<rparr>)) =
     Inl ErrStateExpired"
  using bridge_state_roundtrip [of demo_api "zero_bridge_state\<lparr>bs_LinkFor := ''did:a''\<rparr>" "5 * minute" demo_server]
    bridge_state_roundtrip [of demo_api "zero_bridge_state\<lparr>bs_LinkFor := ''did:a''\<rparr>" "11 * minute" demo_server]
  by (simp add: demo_api_def decodes_json_read zero_bridge_state_def int64_def unix_def minute_def second_def)

text \<open>Without an API key the state is not authenticated.  Anyone can compute a token of an open server; when it names a
  DID to link, completing a sign-in at the provider with one's own account makes that account a way into the named
  DID.\<close>

theorem keyless_state_links_any_account:
  assumes "sv_apiKey sv = []" "sv_apiKey attacker = []" "decodes (en_json E)" "int64 (unix now)"
    and provider: "bridge_Get (path_value rq ''provider'') (sv_bridges sv) = Some (RedirectBridge url exchange)"
    and code: "query_get rq ''code'' \<noteq> []" "exchange (query_get rq ''code'') = Inr ext"
    and forged: "query_get rq ''state'' =
      signBridgeState E attacker (zero_bridge_state\<lparr>bs_LinkFor := victim, bs_CreatedAt := unix now\<rparr>)"
    and "victim \<noteq> []" "owner (ex_Provider ext) (ex_ExternalID ext) s = None" "db_open s"
  shows "\<exists>r ds s'. handleBridgeCallback E sv si now rq s = (r, ds, s') \<and> resp_status r = 200 \<and>
    owner (ex_Provider ext) (ex_ExternalID ext) s' = Some victim"
proof -
  let ?st = "zero_bridge_state\<lparr>bs_LinkFor := victim, bs_CreatedAt := unix now\<rparr>"
  have v: "verifyBridgeState E sv now (query_get rq ''state'') = Inr ?st"
    using verify_sign_state [of E ?st sv attacker now] assms(1-4) by (simp add: forged sub64_def)
  have ne: "query_get rq ''state'' \<noteq> []" by (simp add: forged signBridgeState_def Let_def)
  have link: "GetExternalLink (ex_Provider ext) (ex_ExternalID ext) s = Inl ErrNoRows"
    using assms(10,11) by (auto simp: owner_def GetExternalLink_def db_defs tbl_find_Inl split: sum.splits)
  obtain L where L: "SaveExternalLink (new_link now victim ext) s = Inr (s\<lparr>t_links := L\<rparr>)"
    using SaveExternalLink_value [OF assms(11)] by blast
  have "owner (ex_Provider ext) (ex_ExternalID ext) (s\<lparr>t_links := L\<rparr>) = Some victim"
    using owner_save [OF L] by (simp add: new_link_def link_key_def)
  moreover have "LinkIdentity now victim ext s = Inr (s\<lparr>t_links := L\<rparr>)"
    using link L by (simp add: LinkIdentity_def isNotFound_def)
  ultimately show ?thesis
    using assms(9) ne by (simp add: handleBridgeCallback_def provider code v finishBridgeAuth_def json_reply_def)
qed

definition demo_open_server :: server where
  "demo_open_server = demo_server\<lparr>sv_apiKey := [], sv_bridges := [(''github'', RedirectBridge Inr (\<lambda>_. Inr demo_ext))]\<rparr>"

definition demo_forged :: http_request where
  "demo_forged = demo_get\<lparr>rq_path := [(''provider'', ''github'')], rq_query := [(''code'', ''c''),
     (''state'', signBridgeState demo_api demo_open_server (zero_bridge_state\<lparr>bs_LinkFor := ''did:a'', bs_CreatedAt := unix 0\<rparr>))]\<rparr>"

theorem keyless_state_links_any_account_witness:
  "\<exists>r ds s'. handleBridgeCallback demo_api demo_open_server \<lparr>si_ds = \<lparr>methods = [], peer_docs = []\<rparr>, si_genkey = None, si_boot = None,
      si_rcode = None, si_rid = None\<rparr> 0 demo_forged OpenSQLite = (r, ds, s') \<and> resp_status r = 200 \<and>
    owner ''github'' ''3'' s' = Some ''did:a''"
  using keyless_state_links_any_account [of demo_open_server demo_open_server demo_api 0 demo_forged Inr "\<lambda>_. Inr demo_ext" demo_ext "''did:a''" OpenSQLite]
  by (simp add: demo_open_server_def demo_forged_def demo_get_def path_value_def query_get_def assoc_get_def bridge_Get_def demo_api_def
      decodes_json_read int64_def unix_def demo_ext_def owner_def GetExternalLink_def db_defs OpenSQLite_def tbl_find_def)

section \<open>Finding the identity of a linked account\<close>

lemma find_or_create_linked:
  assumes "owner (ex_Provider ext) (ex_ExternalID ext) s = Some did" "db_open s"
  shows "\<exists>L. find_or_create E si now ext s = (Inr (did, False), s\<lparr>t_links := L\<rparr>) \<and>
    owner (ex_Provider ext) (ex_ExternalID ext) (s\<lparr>t_links := L\<rparr>) = Some did"
proof -
  obtain l where l: "GetExternalLink (ex_Provider ext) (ex_ExternalID ext) s = Inr l" "ln_SubjectDID l = did"
    using assms(1) by (auto simp: owner_def split: sum.splits)
  let ?l = "l\<lparr>ln_LastUsedAt := now\<rparr>"
  obtain L where L: "SaveExternalLink ?l s = Inr (s\<lparr>t_links := L\<rparr>)"
    using SaveExternalLink_value [OF assms(2)] by blast
  have "link_key ?l = (ex_Provider ext, ex_ExternalID ext)"
    using l(1) tbl_find_Inr by (fastforce simp: GetExternalLink_def db_defs link_key_def split: if_splits)
  then have "owner (ex_Provider ext) (ex_ExternalID ext) (s\<lparr>t_links := L\<rparr>) = Some did"
    using owner_save [OF L, of "ex_Provider ext" "ex_ExternalID ext"] l(2) by simp
  moreover have "find_or_create E si now ext s = (Inr (did, False), s\<lparr>t_links := L\<rparr>)"
    using l L by (simp add: find_or_create_def FindOrCreate_def ign_def)
  ultimately show ?thesis by blast
qed

lemma publish_new_server: "\<exists>ds. publish (NewServer E cfg) now ty pl s = (ds, s)"
  by (simp add: publish_def Publish_def NewServer_def Let_def)

lemma finish_answer_code:
  assumes "db_open s" "si_rcode si = Some f" "\<not> tbl_has ses_ID (randomID (si_rid si)) (t_sessions s)"
    and "bs_ClientID st \<noteq> []" "bs_RedirectURI st \<noteq> []"
  shows "\<exists>sess. finish_answer E si now rq ext st did s =
      (Redirect (bs_RedirectURI st @ ''?code='' @ hex_encode (map f [0..<32]) @
         (if bs_OrigState st \<noteq> [] then ''&state='' @ bs_OrigState st else [])), s\<lparr>t_sessions := t_sessions s @ [sess]\<rparr>) \<and>
    ses_Code sess = hex_encode (map f [0..<32]) \<and> ses_SubjectDID sess = did \<and> ses_ClientID sess = bs_ClientID st \<and>
    ses_CodeChallenge sess = bs_CodeChallenge st"
  using assms
  by (simp add: finish_answer_def IssueSessionForDIDCtx_def randomHex_def random_hex_def SaveSession_value)
    (rule exI, rule conjI, rule refl, simp)

lemma finishBridgeAuth_code:
  assumes "owner (ex_Provider ext) (ex_ExternalID ext) s = Some did" "db_open s" "si_rcode si = Some f"
    and "\<not> tbl_has ses_ID (randomID (si_rid si)) (t_sessions s)"
    and "bs_ClientID st \<noteq> []" "bs_RedirectURI st \<noteq> []" "bs_LinkFor st = []"
  shows "\<exists>ds L sess. finishBridgeAuth E (NewServer E cfg) si now ext st rq s =
      (Redirect (bs_RedirectURI st @ ''?code='' @ hex_encode (map f [0..<32]) @
         (if bs_OrigState st \<noteq> [] then ''&state='' @ bs_OrigState st else [])), ds,
       s\<lparr>t_links := L, t_sessions := t_sessions s @ [sess]\<rparr>) \<and>
    ses_Code sess = hex_encode (map f [0..<32]) \<and> ses_SubjectDID sess = did \<and> ses_ClientID sess = bs_ClientID st \<and>
    ses_CodeChallenge sess = bs_CodeChallenge st"
proof -
  obtain L where L: "find_or_create E si now ext s = (Inr (did, False), s\<lparr>t_links := L\<rparr>)"
    using find_or_create_linked [OF assms(1,2)] by blast
  let ?s = "s\<lparr>t_links := L\<rparr>"
  have "db_open ?s" "\<not> tbl_has ses_ID (randomID (si_rid si)) (t_sessions ?s)"
    using assms(2,4) by (simp_all add: db_open_def)
  from finish_answer_code [OF this(1) assms(3) this(2) assms(5,6), of E now rq ext did]
  obtain sess where fin: "finish_answer E si now rq ext st did ?s =
      (Redirect (bs_RedirectURI st @ ''?code='' @ hex_encode (map f [0..<32]) @
         (if bs_OrigState st \<noteq> [] then ''&state='' @ bs_OrigState st else [])), ?s\<lparr>t_sessions := t_sessions s @ [sess]\<rparr>)"
    and sess: "ses_Code sess = hex_encode (map f [0..<32]) \<and> ses_SubjectDID sess = did \<and> ses_ClientID sess = bs_ClientID st \<and>
    ses_CodeChallenge sess = bs_CodeChallenge st" by auto
  obtain ds where ds: "publish (NewServer E cfg) now ''session.duress''
      (json_str_obj [(''provider'', ex_Provider ext), (''subject_did'', did)]) ?s = (ds, ?s)"
    using publish_new_server by blast
  show ?thesis
    by (rule exI [of _ "if ex_Duress ext then ds else []"], rule exI [of _ L], rule exI [of _ sess])
      (use sess in \<open>simp add: finishBridgeAuth_def assms(7) L fin ds\<close>)
qed


definition demo_hash :: string where
  "demo_hash = encodeArgon2Hash (hashPassword demo_authn ''secret'' []) []"

definition demo_account :: db where
  "demo_account = OpenSQLite\<lparr>t_passwords := [\<lparr>pw_identifier = ''a'', pw_hash = demo_hash, pw_created_at = 0\<rparr>],
     t_links := [\<lparr>ln_SubjectDID = ''did:a'', ln_Provider = ''password'', ln_ExternalID = ''a'', ln_LinkedAt = 0, ln_LastUsedAt = 0\<rparr>],
     t_identities := [\<lparr>idn_DID = ''did:a'', idn_Method = ''key'', idn_SigningKeyPath = [], idn_EncKeyPath = [],
        idn_Role = ''suspended'', idn_TenantID = [], idn_CreatedAt = 0, idn_UpdatedAt = 0\<rparr>],
     t_failures := [\<lparr>af_subject_or_email = ''a'', af_count = 20, af_last_failure_at = 0, af_locked_until = Some (100 * second)\<rparr>]\<rparr>"

definition demo_login :: http_request where
  "demo_login = demo_get\<lparr>rq_method := ''POST'', rq_body := Some (json_str_obj [(''identifier'', ''a''), (''password'', ''secret''),
     (''client_id'', ''c''), (''redirect_uri'', ''https://other''), (''scope'', ''openid''), (''nonce'', ''n''),
     (''state'', ''s''), (''code_challenge'', ''x''), (''code_challenge_method'', ''S256'')])\<rparr>"

definition demo_signin :: signin_env where
  "demo_signin = \<lparr>si_ds = \<lparr>methods = [], peer_docs = []\<rparr>, si_genkey = None, si_boot = None, si_rcode = Some (\<lambda>_. 0), si_rid = Some (\<lambda>_. 0)\<rparr>"


section \<open>Changing and resetting a password\<close>

lemma as_passwordBridge_None [simp]: "as_passwordBridge b = None"
  by (cases b) simp_all

lemma password_bridge_reply_refuses:
  "\<exists>n c m. password_bridge_reply sv s h = writeJSONError n c m s \<and> n \<in> {400, 500}"
  by (auto simp: password_bridge_reply_def split: option.splits)

lemma reset_confirm_cases:
  "\<exists>n c m s'. handlePasswordResetConfirm E sv now rsalt rq s = writeJSONError n c m s' \<and> n \<in> {400, 500} \<and> t_passwords s' = t_passwords s"
proof (cases "body_strs rq [''token'', ''new_password'']")
  case None
  then show ?thesis by (auto simp: handlePasswordResetConfirm_def)
next
  case (Some xs)
  have del: "t_passwords (ign (DeletePasswordResetToken h) s) = t_passwords s" for h
    by (simp add: ign_def DeletePasswordResetToken_def db_defs)
  have "\<exists>n c m. password_bridge_reply sv s h = writeJSONError n c m s \<and> n \<in> {400, 500}" for h
    by (rule password_bridge_reply_refuses)
  with Some del show ?thesis
    by (auto simp: handlePasswordResetConfirm_def Let_def split: list.splits sum.splits) blast+
qed

lemma change_cases:
  "\<exists>n c m. handlePasswordChange E sv now rsalt rq s = writeJSONError n c m s \<and> n \<in> {400, 401, 500}"
proof -
  have "\<exists>n c m. password_bridge_reply sv s h = writeJSONError n c m s \<and> n \<in> {400, 401, 500}" for h
    using password_bridge_reply_refuses [of sv s h] by blast
  then show ?thesis
    by (auto simp: handlePasswordChange_def with_subject_json_def split: list.splits sum.splits option.splits)
qed

text \<open>A password can be neither changed nor reset.  The provider never satisfies the interface the two handlers
  assert, so whatever is sent they answer with an error and leave every password as it was, even for a valid reset
  token or the right current password.\<close>

theorem password_change_unavailable:
  "resp_status (fst (handlePasswordResetConfirm E sv now rsalt rq s)) \<in> {400, 500} \<and>
   t_passwords (snd (snd (handlePasswordResetConfirm E sv now rsalt rq s))) = t_passwords s \<and>
   resp_status (fst (handlePasswordChange E sv now rsalt rq s)) \<in> {400, 401, 500} \<and>
   snd (snd (handlePasswordChange E sv now rsalt rq s)) = s"
  using reset_confirm_cases [of E sv now rsalt rq s] change_cases [of E sv now rsalt rq s]
  by (auto simp: writeJSONError_def)

section \<open>Requests for a reset\<close>

definition tokens_for :: "string \<Rightarrow> db \<Rightarrow> nat" where
  "tokens_for who s = length (filter (\<lambda>r. pr_Identifier r = who) (t_resets s))"

definition failure_count :: "string \<Rightarrow> db \<Rightarrow> int" where
  "failure_count who s = (case GetAuthFailures who s of Inl _ \<Rightarrow> 0 | Inr (n, _) \<Rightarrow> n)"

text \<open>How many more reset tokens an identifier can get, on top of those it has.\<close>

definition reset_budget :: "string \<Rightarrow> db \<Rightarrow> nat" where
  "reset_budget who s = tokens_for who s + nat (3 - failure_count (''reset:'' @ who) s)"

definition reset_step :: "api_env \<Rightarrow> api_config \<Rightarrow> instant \<times> random \<times> http_request \<Rightarrow> db \<Rightarrow> db" where
  "reset_step E cfg x s = (case x of (now, rnd, rq) \<Rightarrow> snd (snd (handlePasswordResetRequest E (NewServer E cfg) now rnd rq s)))"

lemma failures_open: "db_open s \<Longrightarrow> \<exists>n l. GetAuthFailures who s = Inr (n, l)"
  by (cases "tbl_find af_subject_or_email who (t_failures s)") (auto simp: GetAuthFailures_def db_defs tbl_find_Inl tbl_find_none)

lemma save_reset:
  assumes "SavePasswordResetToken tok s = Inr s'"
  shows "t_resets s' = t_resets s @ [tok]" "t_failures s' = t_failures s" "t_closed s' = t_closed s"
  using assms by (auto simp: SavePasswordResetToken_def db_defs tbl_insert_def split: if_splits)

lemma record_reset:
  assumes "db_open s"
  shows "failure_count w (ign (RecordAuthFailure now who) s) = failure_count w s + (if w = who then 1 else 0)"
    "db_open (ign (RecordAuthFailure now who) s)" "t_resets (ign (RecordAuthFailure now who) s) = t_resets s"
proof -
  obtain n l where "GetAuthFailures who s = Inr (n, l)" using failures_open [OF assms] by blast
  from RecordAuthFailure_effect [OF assms this] this assms
  show "failure_count w (ign (RecordAuthFailure now who) s) = failure_count w s + (if w = who then 1 else 0)"
    "db_open (ign (RecordAuthFailure now who) s)" "t_resets (ign (RecordAuthFailure now who) s) = t_resets s"
    by (auto simp: ign_def failure_count_def RecordAuthFailure_def db_defs Let_def split: sum.splits)
qed

lemma reset_step_cases:
  "reset_step E cfg (now, rnd, rq) s = s \<or>
   (\<exists>who s1. reset_step E cfg (now, rnd, rq) s = ign (RecordAuthFailure now (''reset:'' @ who)) s1 \<and>
      failure_count (''reset:'' @ who) s < 3 \<and> (s1 = s \<or> (\<exists>tok. SavePasswordResetToken tok s = Inr s1 \<and> pr_Identifier tok = who)))"
proof (cases "\<exists>raw. body_strs rq [''identifier''] = Some [raw] \<and> raw \<noteq> [] \<and> failure_count (''reset:'' @ to_lower (trim_space raw)) s < 3")
  case False
  then show ?thesis
    by (auto simp: reset_step_def handlePasswordResetRequest_def Let_def failure_count_def writeJSONError_def split: option.splits list.splits)
next
  case True
  then obtain raw where raw: "body_strs rq [''identifier''] = Some [raw]" "raw \<noteq> []"
    "failure_count (''reset:'' @ to_lower (trim_space raw)) s < 3" by blast
  let ?who = "to_lower (trim_space raw)"
  define tok where "tok x = \<lparr>pr_Hash = hex_encode (sha256 (en_prims E) (bytes_of x)), pr_Identifier = ?who,
     pr_ExpiresAt = now + 15 * minute, pr_CreatedAt = now\<rparr>" for x
  have e: "reset_step E cfg (now, rnd, rq) s = ign (RecordAuthFailure now (''reset:'' @ ?who))
     (case randomHex 32 rnd of None \<Rightarrow> s | Some x \<Rightarrow> (case SavePasswordResetToken (tok x) s of Inl _ \<Rightarrow> s | Inr s1 \<Rightarrow> s1))"
    using raw by (simp add: reset_step_def handlePasswordResetRequest_def Let_def failure_count_def tok_def publish_def Publish_def
        NewServer_def split: option.splits sum.splits)
  have "pr_Identifier (tok x) = ?who" for x by (simp add: tok_def)
  then show ?thesis unfolding e using raw(3) by (cases "randomHex 32 rnd") (auto split: sum.splits)
qed

lemma reset_step_budget:
  assumes "db_open s"
  shows "db_open (reset_step E cfg x s) \<and> reset_budget who (reset_step E cfg x s) \<le> reset_budget who s"
proof -
  obtain now rnd rq where x: "x = (now, rnd, rq)" by (cases x)
  consider "reset_step E cfg (now, rnd, rq) s = s"
    | who' s1 where "reset_step E cfg (now, rnd, rq) s = ign (RecordAuthFailure now (''reset:'' @ who')) s1"
        "failure_count (''reset:'' @ who') s < 3"
        "s1 = s \<or> (\<exists>tok. SavePasswordResetToken tok s = Inr s1 \<and> pr_Identifier tok = who')"
    using reset_step_cases [of E cfg now rnd rq s] by blast
  then show ?thesis
  proof cases
    case 1
    then show ?thesis using assms by (simp add: x)
  next
    case (2 who' s1)
    note step = 2(1) and less = 2(2) and s1 = 2(3)
    have open1: "db_open s1" using s1 assms save_reset(3) by (auto simp: db_open_def)
    have fc: "failure_count w s1 = failure_count w s" for w
      using s1 save_reset(2,3) by (auto simp: failure_count_def GetAuthFailures_def db_read_def)
    have "tokens_for who s1 \<le> tokens_for who s + (if who = who' then 1 else 0)"
      using s1 save_reset(1) by (auto simp: tokens_for_def)
    then show ?thesis
      using less record_reset(1) [OF open1, of _ now "''reset:'' @ who'"] record_reset(2,3) [OF open1, of now "''reset:'' @ who'"] unfolding x step
      by (auto simp: reset_budget_def tokens_for_def fc)
  qed
qed

text \<open>C39: requests for a password reset are bounded for good.  However many requests come in and however much time lies
  between them, an identifier gets at most three reset tokens beyond those it has, less the attempts already counted.  The
  count does not start anew with a later lockout window, as the comment in the source says: only clearing the counter
  opens the way again.\<close>

theorem reset_requests_bounded:
  assumes "db_open s"
  shows "tokens_for who (fold (reset_step E cfg) xs s) \<le> tokens_for who s + nat (3 - failure_count (''reset:'' @ who) s)"
proof -
  have "db_open (fold (reset_step E cfg) xs s) \<and> reset_budget who (fold (reset_step E cfg) xs s) \<le> reset_budget who s"
    using assms
  proof (induction xs arbitrary: s)
    case (Cons x xs)
    with reset_step_budget [OF Cons.prems, of E cfg x who] Cons.IH [of "reset_step E cfg x s"] show ?case
      by (metis (no_types, lifting) fold_simps(2) order_trans)
  qed simp
  then show ?thesis by (simp add: reset_budget_def)
qed

theorem reset_requests_bounded_witness:
  "tokens_for ''a'' (fold (reset_step demo_api demo_cfg) (replicate 9 (0, Some (\<lambda>_. 1),
     demo_get\<lparr>rq_body := Some (json_str_obj [(''identifier'', ''a'')])\<rparr>)) OpenSQLite) \<le> 3"
proof -
  have "db_open OpenSQLite" "tokens_for ''a'' OpenSQLite = 0" "failure_count (''reset:'' @ ''a'') OpenSQLite = 0"
    by (simp_all add: tokens_for_def failure_count_def GetAuthFailures_def db_defs OpenSQLite_def tbl_find_def)
  then show ?thesis using reset_requests_bounded [of OpenSQLite "''a''" demo_api demo_cfg] by (metis add_0 diff_zero nat_numeral)
qed

end
