(* ===== verification/Api_Safety.thy ===== *)
theory Api_Safety
  imports Api_User Api_Recovery Api_Admin Api_Signin
begin

text \<open>
  What the handlers of the API keep and give: who can revoke a session, what the privacy budget counts, how approvals of
  a recovery are counted, what the deletion of an identity removes, and what the proof endpoint of the audit log
  returns.
\<close>

section \<open>Sessions\<close>

lemma DeleteSession_value: "db_open s \<Longrightarrow> DeleteSession k s = Inr (s\<lparr>t_sessions := tbl_delete ses_ID k (t_sessions s)\<rparr>)"
  by (cases s) (simp add: DeleteSession_def db_defs)

text \<open>A session is revoked only by its owner.  When the request to revoke a session succeeds, the bearer token belongs
  to the subject of that session, and exactly that session is gone; in every other case the store is as before.\<close>

theorem session_revoked_by_owner:
  assumes "handleRevokeMySession E (NewServer E cfg) now rq s = (r, ds, s')" "db_open s"
  shows "(if resp_status r = 204
    then \<exists>did sess. subject_of E (NewServer E cfg) now rq = Inr did \<and> GetSession (path_value rq ''id'') s = Inr sess \<and>
      ses_SubjectDID sess = did \<and> s' = s\<lparr>t_sessions := tbl_delete ses_ID (path_value rq ''id'') (t_sessions s)\<rparr>
    else s' = s)"
proof (cases "subject_of E (NewServer E cfg) now rq")
  case (Inl e)
  with assms(1) show ?thesis by (auto simp: handleRevokeMySession_def with_subject_def text_reply_def)
next
  case (Inr did)
  note eq = assms(1) [unfolded handleRevokeMySession_def with_subject_def Inr sum.case Let_def]
  show ?thesis
  proof (cases "path_value rq ''id'' = [] \<or> isl (GetSession (path_value rq ''id'') s)")
    case True
    with eq show ?thesis by (auto simp: text_reply_def split: sum.splits if_splits)
  next
    case False
    then obtain sess where sess: "GetSession (path_value rq ''id'') s = Inr sess" "path_value rq ''id'' \<noteq> []"
      by (cases "GetSession (path_value rq ''id'') s") auto
    with eq Inr DeleteSession_value [OF assms(2)] show ?thesis
      by (auto simp: text_reply_def on_store_def publish_reply_def publish_def Publish_def NewServer_def Let_def split: if_splits)
  qed
qed

section \<open>Approvals of a recovery\<close>

definition approve :: "api_env \<Rightarrow> api_config \<Rightarrow> instant \<Rightarrow> http_request \<Rightarrow> db \<Rightarrow> db" where
  "approve E cfg now rq s = snd (snd (handleRecoveryApprove E (NewServer E cfg) now rq s))"

definition share_rows :: "string \<Rightarrow> string \<Rightarrow> db \<Rightarrow> nat" where
  "share_rows k g s = length (filter (\<lambda>sh. share_key sh = (k, g)) (t_shares s))"

lemma approve_step:
  assumes "db_open s" "GetRecoveryRequest k s = Inr r" "\<not> rr_Completed r"
    and "subject_of E (NewServer E cfg) now rq = Inr g" "path_value rq ''id'' = k"
    and "body_strs rq [''share''] = Some [sh]" "sh \<noteq> []"
  shows "db_open (approve E cfg now rq s) \<and>
    GetRecoveryRequest k (approve E cfg now rq s) = Inr (r\<lparr>rr_SharesCollected := rr_SharesCollected r + 1\<rparr>) \<and>
    share_rows k g (approve E cfg now rq s) = max 1 (share_rows k g s)"
proof -
  let ?sh = "\<lparr>rsh_RequestID = k, rsh_GuardianDID = g, rsh_ShareHash = share_digest sh, rsh_CollectedAt = now\<rparr>"
  let ?r = "r\<lparr>rr_SharesCollected := rr_SharesCollected r + 1\<rparr>"
  obtain s1 where s1: "SaveRecoveryShare now ?sh s = Inr s1" "t_requests s1 = t_requests s" "db_open s1"
    using assms(1) by (simp add: SaveRecoveryShare_def db_defs)
  have rows: "share_rows k g s1 = max 1 (share_rows k g s)"
  proof (cases "tbl_has share_key (k, g) (t_shares s)")
    case True
    then have "share_rows k g s > 0" by (auto simp: share_rows_def tbl_has_iff filter_empty_conv)
    moreover have "t_shares s1 = t_shares s" using True s1(1) assms(1) by (auto simp: SaveRecoveryShare_def db_defs share_key_def)
    ultimately show ?thesis by (simp add: share_rows_def max_def Suc_le_eq)
  next
    case False
    then have "filter (\<lambda>sh. share_key sh = (k, g)) (t_shares s) = []" by (force simp: tbl_has_iff filter_empty_conv)
    with False s1(1) assms(1) show ?thesis by (auto simp: SaveRecoveryShare_def db_defs share_key_def share_rows_def)
  qed
  obtain s2 where s2: "UpdateRecoveryRequest ?r s1 = Inr s2" "t_shares s2 = t_shares s1" "db_open s2"
    using s1(3) by (simp add: UpdateRecoveryRequest_def db_defs)
  have k: "rr_ID r = k" using assms(2) tbl_find_Inr by (fastforce simp: GetRecoveryRequest_def db_defs split: if_splits)
  have "GetRecoveryRequest k s2 = Inr ?r"
    using s2(1,3) s1 assms(1-3) k by (auto simp: UpdateRecoveryRequest_def GetRecoveryRequest_def db_defs tbl_find_update)
  moreover have "approve E cfg now rq s = s2"
    using assms s1(1) s2(1)
    by (simp add: approve_def handleRecoveryApprove_def with_subject_def on_store_def Let_def publish_reply_def publish_def
        Publish_def NewServer_def ign_def)
  ultimately show ?thesis using s2 rows by (simp add: share_rows_def)
qed

text \<open>Approvals are counted, not guardians.  Any authenticated subject, guardian or not, can approve a recovery, and
  approving it \<open>n\<close> times raises the number of collected shares by \<open>n\<close> while one share of theirs is recorded; and no number
  of approvals completes the recovery.\<close>

theorem approvals_count_requests:
  assumes "db_open s" "GetRecoveryRequest k s = Inr r" "\<not> rr_Completed r"
    and "\<forall>rq\<in>set rqs. subject_of E (NewServer E cfg) now rq = Inr g \<and> path_value rq ''id'' = k \<and>
      (\<exists>sh. body_strs rq [''share''] = Some [sh] \<and> sh \<noteq> [])"
    and "rqs \<noteq> []"
  shows "\<exists>r'. GetRecoveryRequest k (fold (approve E cfg now) rqs s) = Inr r' \<and>
      rr_SharesCollected r' = rr_SharesCollected r + int (length rqs) \<and> \<not> rr_Completed r' \<and>
      share_rows k g (fold (approve E cfg now) rqs s) = max 1 (share_rows k g s)"
  using assms
proof (induction rqs arbitrary: s r)
  case (Cons rq rqs)
  then obtain sh where sh: "body_strs rq [''share''] = Some [sh]" "sh \<noteq> []"
    and rq: "subject_of E (NewServer E cfg) now rq = Inr g" "path_value rq ''id'' = k" by auto
  note step = approve_step [OF Cons.prems(1-3) rq sh]
  show ?case
  proof (cases "rqs = []")
    case True
    with step Cons.prems(3) show ?thesis by simp
  next
    case False
    from Cons.IH [of "approve E cfg now rq s" "r\<lparr>rr_SharesCollected := rr_SharesCollected r + 1\<rparr>"] False step Cons.prems
    show ?thesis by auto
  qed
qed simp

section \<open>The privacy budget\<close>

definition disclosures_to :: "string \<Rightarrow> string \<Rightarrow> privacy_disclosure list \<Rightarrow> int" where
  "disclosures_to sid v ds = int (length (filter (\<lambda>d. pd_SchemaID d = sid \<and> pd_VerifierDID d = v) ds))"

text \<open>What the statistics of one schema say about a list of disclosures.\<close>

definition stats_ok :: "string \<Rightarrow> privacy_disclosure list \<Rightarrow> schema_stats \<Rightarrow> bool" where
  "stats_ok sid ds st \<longleftrightarrow>
     ss_TotalShares st = int (length (filter (\<lambda>d. pd_SchemaID d = sid) ds)) \<and>
     (\<forall>v. map_of (ss_VerifierCounts st) v = (if disclosures_to sid v ds = 0 then None else Some (disclosures_to sid v ds))) \<and>
     (\<exists>d\<in>set ds. pd_SchemaID d = sid \<and> ss_LastSharedAt st = Some (pd_DisclosedAt d)) \<and>
     (\<forall>d\<in>set ds. pd_SchemaID d = sid \<longrightarrow> (\<exists>t. ss_LastSharedAt st = Some t \<and> pd_DisclosedAt d \<le> t))"

definition budget_ok :: "privacy_disclosure list \<Rightarrow> (string \<times> schema_stats) list \<Rightarrow> bool" where
  "budget_ok ds m \<longleftrightarrow> (\<forall>sid. case map_of m sid of None \<Rightarrow> sid \<notin> pd_SchemaID ` set ds | Some st \<Rightarrow> stats_ok sid ds st)"

lemma disclosures_to_snoc:
  "disclosures_to sid v (ds @ [d]) = disclosures_to sid v ds + (if pd_SchemaID d = sid \<and> pd_VerifierDID d = v then 1 else 0)"
  by (simp add: disclosures_to_def)

lemma disclosures_to_nonneg: "0 \<le> disclosures_to sid v ds"
  by (simp add: disclosures_to_def)

lemma stats_ok_other: "pd_SchemaID d \<noteq> sid \<Longrightarrow> stats_ok sid (ds @ [d]) st \<longleftrightarrow> stats_ok sid ds st"
  by (auto simp: stats_ok_def disclosures_to_snoc)

lemma disclosures_none: "sid \<notin> pd_SchemaID ` set ds \<Longrightarrow> disclosures_to sid v ds = 0 \<and> filter (\<lambda>d. pd_SchemaID d = sid) ds = []"
  by (auto simp: disclosures_to_def filter_empty_conv)

lemma stats_first:
  assumes "pd_SchemaID d \<notin> pd_SchemaID ` set ds"
  shows "stats_ok (pd_SchemaID d) (ds @ [d])
    \<lparr>ss_TotalShares = 1, ss_LastSharedAt = Some (pd_DisclosedAt d), ss_VerifierCounts = [(pd_VerifierDID d, 1)]\<rparr>"
proof -
  have "\<forall>x\<in>set ds. pd_SchemaID x \<noteq> pd_SchemaID d" using assms by (metis imageI)
  with disclosures_none [OF assms] show ?thesis by (auto simp: stats_ok_def disclosures_to_snoc)
qed

lemma stats_more:
  assumes "stats_ok (pd_SchemaID d) ds st" "ss_LastSharedAt st = Some u"
  shows "stats_ok (pd_SchemaID d) (ds @ [d])
    \<lparr>ss_TotalShares = ss_TotalShares st + 1, ss_LastSharedAt = (if pd_DisclosedAt d > u then Some (pd_DisclosedAt d) else Some u),
     ss_VerifierCounts = map_put (pd_VerifierDID d) ((case map_of (ss_VerifierCounts st) (pd_VerifierDID d) of Some n \<Rightarrow> n | None \<Rightarrow> 0) + 1)
       (ss_VerifierCounts st)\<rparr>"
  using assms disclosures_to_nonneg [of "pd_SchemaID d" "pd_VerifierDID d" ds]
  by (auto simp: stats_ok_def disclosures_to_snoc)

lemma budget_step_ok:
  assumes "budget_ok ds m"
  shows "budget_ok (ds @ [d]) (budget_step d m)"
  unfolding budget_ok_def
proof
  fix sid
  show "case map_of (budget_step d m) sid of None \<Rightarrow> sid \<notin> pd_SchemaID ` set (ds @ [d]) | Some st \<Rightarrow> stats_ok sid (ds @ [d]) st"
  proof (cases "sid = pd_SchemaID d")
    case True
    show ?thesis
    proof (cases "map_of m sid")
      case None
      with assms True have "pd_SchemaID d \<notin> pd_SchemaID ` set ds" by (force simp: budget_ok_def split: option.splits)
      from stats_first [OF this] None True show ?thesis by (simp add: budget_step_def Let_def)
    next
      case (Some st)
      with assms True have ok: "stats_ok (pd_SchemaID d) ds st" by (force simp: budget_ok_def split: option.splits)
      then obtain u where u: "ss_LastSharedAt st = Some u" by (auto simp: stats_ok_def)
      from stats_more [OF ok u] Some True u show ?thesis by (simp add: budget_step_def Let_def)
    qed
  next
    case False
    then have "map_of (budget_step d m) sid = map_of m sid" by (simp add: budget_step_def Let_def)
    with assms False stats_ok_other [of d sid] show ?thesis by (force simp: budget_ok_def split: option.splits)
  qed
qed

lemma budget_fold_ok: "budget_ok ds m \<Longrightarrow> budget_ok (ds @ ds') (fold budget_step ds' m)"
proof (induction ds' arbitrary: ds m)
  case (Cons d ds')
  from Cons.IH [OF budget_step_ok [OF Cons.prems, of d]] show ?case by simp
qed simp

text \<open>The privacy budget counts what was disclosed.  For every schema, the total is the number of disclosures of that
  schema, the count of each verifier is the number of disclosures to it, the time is that of the latest one, and a schema
  that was never disclosed has no entry.\<close>

theorem privacy_budget_counts: "budget_ok ds (fold budget_step ds [])"
  using budget_fold_ok [of "[]" "[]" ds] by (simp add: budget_ok_def)

section \<open>Deleting an identity\<close>

lemma delete_credentials:
  assumes "db_open s"
  shows "fold (\<lambda>c. ign (DeleteCredential (cr_ID (vc_Credential c)))) cs s =
    s\<lparr>t_credentials := filter (\<lambda>r. crow_id r \<notin> cr_ID ` vc_Credential ` set cs) (t_credentials s)\<rparr>"
  using assms
proof (induction cs arbitrary: s)
  case (Cons c cs)
  have "ign (DeleteCredential (cr_ID (vc_Credential c))) s =
      s\<lparr>t_credentials := filter (\<lambda>r. crow_id r \<noteq> cr_ID (vc_Credential c)) (t_credentials s)\<rparr>" (is "_ = ?s")
    using Cons.prems by (cases s) (simp add: ign_def DeleteCredential_def db_defs tbl_delete_def)
  moreover have "db_open ?s" using Cons.prems by (simp add: db_open_def)
  ultimately show ?case using Cons.IH [of ?s] by (simp add: conj_commute)
qed simp

lemma delete_sessions:
  assumes "db_open s"
  shows "fold (\<lambda>x. ign (DeleteSession (ses_ID x))) xs s =
    s\<lparr>t_sessions := filter (\<lambda>r. ses_ID r \<notin> ses_ID ` set xs) (t_sessions s)\<rparr>"
  using assms
proof (induction xs arbitrary: s)
  case (Cons x xs)
  have "ign (DeleteSession (ses_ID x)) s = s\<lparr>t_sessions := filter (\<lambda>r. ses_ID r \<noteq> ses_ID x) (t_sessions s)\<rparr>" (is "_ = ?s")
    using Cons.prems by (simp add: ign_def DeleteSession_value tbl_delete_def)
  moreover have "db_open ?s" using Cons.prems by (simp add: db_open_def)
  ultimately show ?case using Cons.IH [of ?s] by (simp add: conj_commute)
qed simp

lemma ListCredentials_cong:
  "t_credentials s = t_credentials s' \<Longrightarrow> t_closed s = t_closed s' \<Longrightarrow> ListCredentials did s = ListCredentials did s'"
  by (simp add: ListCredentials_def db_read_def)

text \<open>The key of a row is the identifier of the credential in it, as \<open>SaveCredential\<close> writes it.\<close>

definition credential_rows_ok :: "db \<Rightarrow> bool" where
  "credential_rows_ok s = list_all (\<lambda>r. crow_id r = cr_ID (vc_Credential (crow_credential r))) (t_credentials s)"

text \<open>Deleting an identity.  The request removes every credential and every live session of the identity and marks it
  as deleted, leaves all other identities alone, and does not touch refresh tokens: those of the deleted identity can
  still be redeemed.\<close>

theorem delete_identity_removes:
  assumes "db_open s" "credential_rows_ok s" "GetIdentity (path_value rq ''did'') s = Inr i" "other \<noteq> path_value rq ''did''"
  shows "\<exists>s' i'. handleAdminDeleteIdentity E now rq s = (RespEmpty 204, [], s') \<and>
    ListCredentials (path_value rq ''did'') s' = Inr [] \<and> ListSessionsBySubject now (path_value rq ''did'') s' = Inr [] \<and>
    GetIdentity (path_value rq ''did'') s' = Inr i' \<and> idn_Role i' = ''deleted'' \<and>
    GetIdentity other s' = GetIdentity other s \<and> t_refresh s' = t_refresh s"
proof -
  let ?did = "path_value rq ''did''"
  obtain cs where cs: "ListCredentials ?did s = Inr cs"
      "cr_ID ` vc_Credential ` set cs = cr_ID ` vc_Credential ` crow_credential ` {r \<in> set (t_credentials s). crow_subject_did r = ?did}"
    using assms(1) by (simp add: ListCredentials_def db_defs scanCredentials_def image_comp)
  let ?s1 = "s\<lparr>t_credentials := filter (\<lambda>r. crow_id r \<notin> cr_ID ` vc_Credential ` set cs) (t_credentials s)\<rparr>"
  have "filter (\<lambda>r. crow_subject_did r = ?did) (t_credentials ?s1) = []"
    using assms(2) cs(2) by (auto simp: filter_empty_conv credential_rows_ok_def list_all_iff)
  then have s1: "db_open ?s1" "ListCredentials ?did ?s1 = Inr []"
    using assms(1) by (simp_all only: ListCredentials_def db_read_def scanCredentials_def order_desc_def db_open_def) simp_all
  obtain xs where xs: "ListSessionsBySubject now ?did ?s1 = Inr xs"
      "set xs = {r \<in> set (t_sessions s). ses_SubjectDID r = ?did \<and> ses_ExpiresAt r > now}"
    using assms(1) by (auto simp: ListSessionsBySubject_def db_defs)
  let ?s2 = "?s1\<lparr>t_sessions := filter (\<lambda>r. ses_ID r \<notin> ses_ID ` set xs) (t_sessions s)\<rparr>"
  let ?i = "\<lparr>idn_DID = ?did, idn_Method = [], idn_SigningKeyPath = [], idn_EncKeyPath = [], idn_Role = ''deleted'',
     idn_TenantID = [], idn_CreatedAt = zero_time, idn_UpdatedAt = now\<rparr>"
  obtain s' where s': "UpdateIdentity ?i ?s2 = Inr s'" "t_credentials s' = t_credentials ?s2" "t_sessions s' = t_sessions ?s2"
      "t_refresh s' = t_refresh s" "t_closed s' = t_closed s"
      "t_identities s' = tbl_update idn_DID ?did (\<lambda>old. old\<lparr>idn_Role := ''deleted'', idn_TenantID := [], idn_UpdatedAt := now\<rparr>) (t_identities s)"
    using assms(1) by (simp add: UpdateIdentity_def db_defs)
  have "handleAdminDeleteIdentity E now rq s = (RespEmpty 204, [], s')"
    using assms(3) cs(1) xs(1) s'(1) delete_credentials [OF assms(1), of cs] delete_sessions [OF s1(1), of xs]
    by (simp add: handleAdminDeleteIdentity_def Let_def on_store_def no_content_def)
  moreover have "ListCredentials ?did s' = Inr []" using s1(2) ListCredentials_cong [of s' ?s1] s'(2,5) by simp
  moreover have "filter (\<lambda>r. ses_SubjectDID r = ?did \<and> ses_ExpiresAt r > now) (t_sessions s') = []"
    using xs(2) s'(3) by (auto simp: filter_empty_conv)
  then have "ListSessionsBySubject now ?did s' = Inr []"
    using assms(1) s'(5) by (simp only: ListSessionsBySubject_def db_read_def order_desc_def db_open_def) simp
  moreover have "\<exists>i'. GetIdentity ?did s' = Inr i' \<and> idn_Role i' = ''deleted''" "GetIdentity other s' = GetIdentity other s"
    using assms(1,3,4) s'(5,6) by (auto simp: GetIdentity_def db_defs tbl_find_update)
  ultimately show ?thesis using s'(4) by blast
qed

section \<open>The proof of the audit log\<close>

text \<open>The proof endpoint returns a verifiable chain.  On a log that is well formed, asking for the events from a
  sequence number on gives the next thousand of them in order, each linked to the one before, and when the log ends
  there the last one is the head that is returned beside them.\<close>

theorem audit_proof_verifies:
  assumes "audit_ok P s" "db_open s" "1 \<le> fromSeq" "fromSeq \<le> int (length (t_audit s))"
  shows "\<exists>head evs. audit_proof fromSeq s = Inr (head, evs) \<and> head = last (t_audit s) \<and>
    evs = take 1000 (drop (nat (fromSeq - 1)) (t_audit s)) \<and>
    chain_from P (chain_head [] (take (nat (fromSeq - 1)) (t_audit s))) evs \<and>
    (int (length (t_audit s)) < fromSeq + 1000 \<longrightarrow> last evs = head)"
proof -
  let ?log = "t_audit s"
  have ne: "?log \<noteq> []" using assms(3,4) by auto
  have seq: "map ae_Seq ?log = map int [1..<Suc (length ?log)]" and chain: "chain_from P [] ?log"
    using assms(1) by (auto simp: audit_ok_def)
  have "sorted (map ae_Seq ?log)" unfolding seq by (simp add: sorted_map del: upt_Suc)
  then have sorted: "sort_key ae_Seq ?log = ?log" by (rule sort_key_id_if_sorted)
  have last: "ae_Seq (last ?log) = int (length ?log)"
    using ne seq by (metis (no_types, lifting) last_map last_upt length_greater_0_conv length_map length_upt map_is_Nil_conv
      diff_Suc_1 less_Suc_eq_le Suc_leI One_nat_def)
  obtain rest where "order_desc ae_Seq ?log = last ?log # rest" using order_desc_head [OF seq ne] by blast
  then have head: "GetAuditHead s = Inr (last ?log)" using assms(2) by (simp add: GetAuditHead_def db_defs)
  let ?evs = "take 1000 (drop (nat (fromSeq - 1)) ?log)"
  have "page (if int (length ?log) - fromSeq + 1 > 1000 then 1000 else int (length ?log) - fromSeq + 1) (fromSeq - 1) ?log = ?evs"
    using assms(3,4) by (auto simp: page_def Let_def)
  then have "audit_proof fromSeq s = Inr (last ?log, ?evs)"
    using assms(2-4) head by (simp add: audit_proof_def last Let_def ListAuditEvents_def db_defs sorted)
  moreover have "chain_from P (chain_head [] (take (nat (fromSeq - 1)) ?log)) ?evs"
    using chain chain_append [of P "[]" "take (nat (fromSeq - 1)) ?log" "drop (nat (fromSeq - 1)) ?log"]
      chain_append [of P _ ?evs "drop 1000 (drop (nat (fromSeq - 1)) ?log)"] by (metis append_take_drop_id)
  moreover have "last ?evs = last ?log" if "int (length ?log) < fromSeq + 1000"
    using that assms(3,4) by (simp add: last_drop)
  ultimately show ?thesis by blast
qed

section \<open>Witnesses\<close>

definition demo_bearer :: http_request where
  "demo_bearer = demo_get\<lparr>rq_headers := [(''Authorization'', ''Bearer '' @
     IssueAccessToken demo_prims 0 ''https://id'' ''did:a'' ''app'' accessTokenTTL [1, 2] ''k'')]\<rparr>"

lemma demo_subject: "subject_of demo_api (NewServer demo_api demo_cfg) 0 (demo_bearer\<lparr>rq_path := p, rq_body := b\<rparr>) = Inr ''did:a''"
proof -
  let ?t = "IssueAccessToken demo_prims 0 ''https://id'' ''did:a'' ''app'' accessTokenTTL [1, 2] ''k''"
  have "jwt_Verify demo_prims json_read 0 ?t (ed_pub demo_prims [1, 2]) = Inr (access_claims 0 ''https://id'' ''did:a'' ''app'' accessTokenTTL)"
    by (simp add: IssueAccessToken_def jwt_Verify_signJWT demo_signatures_ok decodes_json_read claims_of_json access_claims_def
        hour_seconds unix_add_seconds int64_def unix_def)
  moreover have "?t \<noteq> []" by (simp add: IssueAccessToken_def signJWT_def Let_def)
  ultimately show ?thesis
    by (simp add: subject_of_def SubjectFromBearer_def demo_bearer_def demo_get_def header_get_def assoc_get_def demo_api_def
        NewServer_def demo_cfg_def demo_provider_def NewProvider_def trim_prefix_def has_prefix_def access_claims_def)
qed

theorem session_revoked_by_owner_witness:
  "\<exists>r ds s'. handleRevokeMySession demo_api (NewServer demo_api demo_cfg) 0 (demo_bearer\<lparr>rq_path := [(''id'', ''s1'')], rq_body := None\<rparr>) demo_oidc_db =
     (r, ds, s') \<and> resp_status r = 204 \<and> t_sessions s' = []"
proof -
  let ?rq = "demo_bearer\<lparr>rq_path := [(''id'', ''s1'')], rq_body := None\<rparr>"
  obtain r ds s' where h: "handleRevokeMySession demo_api (NewServer demo_api demo_cfg) 0 ?rq demo_oidc_db = (r, ds, s')"
    by (cases "handleRevokeMySession demo_api (NewServer demo_api demo_cfg) 0 ?rq demo_oidc_db")
  have p: "path_value ?rq ''id'' = ''s1''" by (simp add: path_value_def assoc_get_def)
  have g: "GetSession ''s1'' demo_oidc_db = Inr demo_session" "ses_SubjectDID demo_session = ''did:a''" "db_open demo_oidc_db"
    by (simp_all add: GetSession_def demo_oidc_db_def OpenSQLite_def db_defs tbl_find_def demo_session_def)
  have "resp_status r = 204"
    using h g DeleteSession_value [OF g(3)] demo_subject [of None "[(''id'', ''s1'')]"]
    by (auto simp: handleRevokeMySession_def with_subject_def p on_store_def publish_reply_def Let_def)
  with session_revoked_by_owner [OF h g(3)] h show ?thesis
    by (auto simp: p tbl_delete_def demo_oidc_db_def demo_session_def)
qed

definition demo_recovery :: db where
  "demo_recovery = OpenSQLite\<lparr>t_requests := [\<lparr>rr_ID = ''r'', rr_SubjectDID = ''did:v'', rr_StartedAt = 0, rr_SharesCollected = 0, rr_Completed = False\<rparr>]\<rparr>"

theorem approvals_count_requests_witness:
  "\<exists>r'. GetRecoveryRequest ''r'' (fold (approve demo_api demo_cfg 0) (replicate 5 (demo_bearer\<lparr>rq_path := [(''id'', ''r'')],
      rq_body := Some (json_str_obj [(''share'', ''01-ff'')])\<rparr>)) demo_recovery) = Inr r' \<and> rr_SharesCollected r' = 5"
proof -
  let ?rq = "demo_bearer\<lparr>rq_path := [(''id'', ''r'')], rq_body := Some (json_str_obj [(''share'', ''01-ff'')])\<rparr>"
  have "path_value ?rq ''id'' = ''r''" by (simp add: path_value_def assoc_get_def)
  moreover have "body_strs ?rq [''share''] = Some [''01-ff'']"
    by (simp add: body_strs_def json_str_obj_def as_struct_def member_def to_lower_simps)
  moreover have "GetRecoveryRequest ''r'' demo_recovery =
      Inr \<lparr>rr_ID = ''r'', rr_SubjectDID = ''did:v'', rr_StartedAt = 0, rr_SharesCollected = 0, rr_Completed = False\<rparr>" "db_open demo_recovery"
    by (simp_all add: GetRecoveryRequest_def demo_recovery_def OpenSQLite_def db_defs tbl_find_def)
  ultimately show ?thesis
    using approvals_count_requests [of demo_recovery "''r''" _ "replicate 5 ?rq" demo_api demo_cfg 0 "''did:a''"] demo_subject
    by (auto simp: in_set_replicate)
qed

theorem delete_identity_removes_witness:
  "\<exists>s' i'. handleAdminDeleteIdentity demo_api 0 (demo_get\<lparr>rq_path := [(''did'', ''did:a'')]\<rparr>) demo_account = (RespEmpty 204, [], s') \<and>
     GetIdentity ''did:a'' s' = Inr i' \<and> idn_Role i' = ''deleted''"
proof -
  let ?rq = "demo_get\<lparr>rq_path := [(''did'', ''did:a'')]\<rparr>"
  have p: "path_value ?rq ''did'' = ''did:a''" by (simp add: path_value_def assoc_get_def)
  have "db_open demo_account" "credential_rows_ok demo_account" "\<exists>i. GetIdentity (path_value ?rq ''did'') demo_account = Inr i"
    by (simp_all add: p demo_account_def OpenSQLite_def db_defs credential_rows_ok_def GetIdentity_def tbl_find_def)
  then show ?thesis using delete_identity_removes [of demo_account ?rq _ "[]" demo_api 0] unfolding p by blast
qed

theorem audit_proof_verifies_witness:
  "\<exists>head evs. audit_proof 2 (fold (audit_publish demo_prims) [(0, ''a'', JNull), (1, ''b'', JNum 2)] OpenSQLite) = Inr (head, evs) \<and>
     last evs = head"
proof -
  let ?s = "fold (audit_publish demo_prims) [(0, ''a'', JNull), (1, ''b'', JNum 2)] OpenSQLite"
  have "audit_ok demo_prims OpenSQLite" "db_open OpenSQLite" by (simp_all add: audit_ok_def OpenSQLite_def db_open_def)
  note s1 = audit_publish_step [OF this, of 0 "''a''" JNull]
  note s2 = audit_publish_step [OF s1 [THEN conjunct1] s1 [THEN conjunct2, THEN conjunct1], of 1 "''b''" "JNum 2"]
  have "length (t_audit ?s) = 2"
    using arg_cong [OF s1 [THEN conjunct2, THEN conjunct2], of length] arg_cong [OF s2 [THEN conjunct2, THEN conjunct2], of length]
    by (simp add: OpenSQLite_def)
  with s2 audit_proof_verifies [of demo_prims ?s 2] show ?thesis by auto
qed

end
