(* ===== verification/Sdjwt.thy ===== *)
theory Sdjwt
  imports Vc Jwt
begin

text \<open>
  Selective-disclosure JWTs, \<^verbatim>\<open>src/pkg/vc/sdjwt.go\<close>: disclosures, issuing, presenting, parsing and
  verifying.  A Go value of type \<^verbatim>\<open>any\<close> that came from or goes to JSON is a \<^typ>\<open>json\<close> in the form
  \<^const>\<open>json_canonical\<close>, since a \<^verbatim>\<open>map[string]any\<close> has one value per key and is written with its keys
  sorted.  Numbers are integers; the ones the code reads as \<^verbatim>\<open>float64\<close> are exact below two to the 53.  The
  map of selective claims is a list in the order the loop visits it.  The resolver is the function of the DID
  that it computes while the call runs.
\<close>

section \<open>Disclosures\<close>

(* src: pkg/vc/sdjwt.go:33-37 Disclosure *)
record disclosure =
  di_Salt :: string
  di_Key :: string
  di_Value :: json

datatype sdjwt_error =
    SdSalt | SdDecodeDisclosure | SdUnmarshalDisclosure | SdElements | SdSaltType | SdKeyType
  | SdEphemeralIssuer | SdIssuerRequired | SdSubjectRequired | SdSchema schema_error
  | SdEmptyToken | SdNoSeparator | SdMalformed | SdDecodePayload | SdUnmarshalPayload | SdMissingIss
  | SdResolve did_error | SdNoMethod string | SdKey vc_error | SdDecodeSignature | SdInvalidSignature
  | SdExpired | SdNotInHashes string | SdNoHolderKey | SdNonce | SdAudience | SdHashMismatch
  | SdKeyBindingRequired | SdCnfKty string | SdCnfX | SdCnfDecode | SdCnfLength nat

(* src: pkg/vc/sdjwt.go:40-50 NewDisclosure *)
definition NewDisclosure :: "random \<Rightarrow> string \<Rightarrow> json \<Rightarrow> sdjwt_error + disclosure" where
  "NewDisclosure rnd key value =
     (case rnd of
        None \<Rightarrow> Inl SdSalt
      | Some f \<Rightarrow> Inr \<lparr>di_Salt = b64_encode (map f [0..<16]), di_Key = key, di_Value = value\<rparr>)"

(* src: pkg/vc/sdjwt.go:53-60 Disclosure.Encode *)
definition disc_Encode :: "disclosure \<Rightarrow> string" where
  "disc_Encode d =
     (let arr = JArr [JStr (di_Salt d), JStr (di_Key d), di_Value d]
      in b64_encode (bytes_of (json_marshal (json_canonical arr))))"

(* src: pkg/vc/sdjwt.go:63-70 Disclosure.Digest *)
definition disc_Digest :: "prims \<Rightarrow> disclosure \<Rightarrow> string" where
  "disc_Digest P d = b64_encode (sha256 P (bytes_of (disc_Encode d)))"

(* src: pkg/vc/sdjwt.go:79-79 ParseDisclosure (decoding into a slice) *)
fun as_any_slice :: "json \<Rightarrow> json list option" where
  "as_any_slice JNull = Some []"
| "as_any_slice (JArr vs) = Some (map json_canonical vs)"
| "as_any_slice _ = None"

(* src: pkg/vc/sdjwt.go:73-94 ParseDisclosure *)
definition ParseDisclosure :: "json_decoder \<Rightarrow> string \<Rightarrow> sdjwt_error + disclosure" where
  "ParseDisclosure J encoded =
     (case b64_decode encoded of
        None \<Rightarrow> Inl SdDecodeDisclosure
      | Some raw \<Rightarrow>
          (case Option.bind (J (string_of raw)) as_any_slice of
             None \<Rightarrow> Inl SdUnmarshalDisclosure
           | Some arr \<Rightarrow>
               if length arr \<noteq> 3 then Inl SdElements
               else case arr ! 0 of
                 JStr salt \<Rightarrow>
                   (case arr ! 1 of
                      JStr key \<Rightarrow> Inr \<lparr>di_Salt = salt, di_Key = key, di_Value = arr ! 2\<rparr>
                    | _ \<Rightarrow> Inl SdKeyType)
               | _ \<Rightarrow> Inl SdSaltType))"

section \<open>Signed tokens\<close>

(* src: pkg/vc/sdjwt.go:451-465 signSDJWT *)
definition signSDJWT :: "prims \<Rightarrow> json \<Rightarrow> byte list \<Rightarrow> string \<Rightarrow> string \<Rightarrow> string" where
  "signSDJWT P claims key kid typ =
     (let header = b64_encode (bytes_of (json_marshal (json_str_obj
            [(''alg'', ''EdDSA''), (''kid'', kid), (''typ'', typ)])));
          payloadB64 = b64_encode (bytes_of (json_marshal (json_canonical claims)));
          sigInput = header @ ''.'' @ payloadB64;
          sig = ed_sign P key (bytes_of sigInput)
      in sigInput @ ''.'' @ b64_encode sig)"

(* src: pkg/vc/sdjwt.go:468-481 verifySDJWTSig *)
definition verifySDJWTSig :: "prims \<Rightarrow> string \<Rightarrow> byte list \<Rightarrow> sdjwt_error + unit" where
  "verifySDJWTSig P jwt pub =
     (let parts = split_n 3 (CHR ''.'') jwt in
      if length parts \<noteq> 3 then Inl SdMalformed
      else case b64_decode (parts ! 2) of
        None \<Rightarrow> Inl SdDecodeSignature
      | Some sig \<Rightarrow>
          if \<not> ed_verify P pub (bytes_of (parts ! 0 @ ''.'' @ parts ! 1)) sig then Inl SdInvalidSignature
          else Inr ())"

text \<open>Decoding into \<^verbatim>\<open>map[string]any\<close>; \<^verbatim>\<open>null\<close> leaves the nil map.\<close>

fun as_any_map :: "json \<Rightarrow> (string \<times> json) list option" where
  "as_any_map JNull = Some []"
| "as_any_map (JObj kvs) = (case json_canonical (JObj kvs) of JObj m \<Rightarrow> Some m | _ \<Rightarrow> None)"
| "as_any_map _ = None"

(* src: pkg/vc/sdjwt.go:484-495 parseSDJWTPayload *)
definition parseSDJWTPayload :: "json_decoder \<Rightarrow> string \<Rightarrow> sdjwt_error + (string \<times> json) list" where
  "parseSDJWTPayload J jwt =
     (let parts = split_n 3 (CHR ''.'') jwt in
      if length parts \<noteq> 3 then Inl SdMalformed
      else case b64_decode (parts ! 1) of
        None \<Rightarrow> Inl SdDecodePayload
      | Some raw \<Rightarrow>
          (case Option.bind (J (string_of raw)) as_any_map of
             None \<Rightarrow> Inl SdUnmarshalPayload
           | Some claims \<Rightarrow> Inr claims))"

text \<open>The checked conversions \<^verbatim>\<open>claims[k].(string)\<close>, \<^verbatim>\<open>.(float64)\<close> and \<^verbatim>\<open>.(map[string]any)\<close>; a failed conversion
  to a string leaves the empty string.\<close>

(* src: pkg/vc/sdjwt.go:572-577 strOrEmpty *)
definition strOrEmpty :: "json option \<Rightarrow> string" where
  "strOrEmpty v = (case v of Some (JStr s) \<Rightarrow> s | _ \<Rightarrow> [])"

definition any_number :: "json option \<Rightarrow> int option" where
  "any_number v = (case v of Some (JNum n) \<Rightarrow> Some n | _ \<Rightarrow> None)"

definition any_map :: "json option \<Rightarrow> (string \<times> json) list option" where
  "any_map v = (case v of Some (JObj m) \<Rightarrow> Some m | _ \<Rightarrow> None)"

section \<open>Tokens and presentations\<close>

(* src: pkg/vc/sdjwt.go:102-107 SDJWTToken *)
record sdjwt_token =
  st_JWT :: string
  st_Disclosures :: "disclosure list"

(* src: pkg/vc/sdjwt.go:155-163 SDJWTToken.serializeWith *)
definition serializeWith :: "sdjwt_token \<Rightarrow> disclosure list \<Rightarrow> string" where
  "serializeWith t discs = join ''~'' (st_JWT t # map disc_Encode discs) @ ''~''"

(* src: pkg/vc/sdjwt.go:112-114 SDJWTToken.Serialize *)
definition sd_Serialize :: "sdjwt_token \<Rightarrow> string" where
  "sd_Serialize t = serializeWith t (st_Disclosures t)"

(* src: pkg/vc/sdjwt.go:118-130 SDJWTToken.Present *)
definition sd_Present :: "sdjwt_token \<Rightarrow> string list \<Rightarrow> string" where
  "sd_Present t revealKeys =
     serializeWith t (filter (\<lambda>d. di_Key d \<in> set revealKeys) (st_Disclosures t))"

(* src: pkg/vc/sdjwt.go:135-153 SDJWTToken.PresentWithKeyBinding *)
definition PresentWithKeyBinding :: "prims \<Rightarrow> instant \<Rightarrow> sdjwt_token \<Rightarrow> string list \<Rightarrow> byte list \<Rightarrow> string \<Rightarrow> string
    \<Rightarrow> string \<Rightarrow> string" where
  "PresentWithKeyBinding P now t revealKeys holderKey holderKID nonce audience =
     (let base = sd_Present t revealKeys;
          forHash = trim_suffix base ''~'';
          sdHash = b64_encode (sha256 P (bytes_of forHash));
          kbClaims = JObj [(''nonce'', JStr nonce), (''aud'', JStr audience), (''iat'', JNum (unix now)),
            (''sd_hash'', JStr sdHash)]
      in base @ signSDJWT P kbClaims holderKey holderKID ''kb+jwt'')"

section \<open>Issuing\<close>

(* src: pkg/vc/sdjwt.go:170-184 SDJWTIssueOptions *)
record sdjwt_options =
  so_IssuerDID :: string
  so_IssuerKey :: "byte list option"
  so_VerificationMethodID :: string
  so_SubjectDID :: string
  so_SchemaID :: string
  so_SelectiveClaims :: "(string \<times> json) list"
  so_AlwaysVisibleClaims :: "(string \<times> json) list"
  so_ValidFor :: duration

(* src: pkg/vc/sdjwt.go:209-222 IssueSDJWT (disclosures) *)
fun make_disclosures :: "random list \<Rightarrow> (string \<times> json) list \<Rightarrow> sdjwt_error + disclosure list" where
  "make_disclosures rs [] = Inr []"
| "make_disclosures rs ((k, v) # cs) =
     (case NewDisclosure (case rs of [] \<Rightarrow> None | r # _ \<Rightarrow> r) k v of
        Inl e \<Rightarrow> Inl e
      | Inr d \<Rightarrow> (case make_disclosures (tl rs) cs of Inl e \<Rightarrow> Inl e | Inr ds \<Rightarrow> Inr (d # ds)))"

(* src: pkg/vc/sdjwt.go:224-240 IssueSDJWT (payload) *)
definition sdjwt_payload :: "prims \<Rightarrow> instant \<Rightarrow> sdjwt_options \<Rightarrow> duration \<Rightarrow> string \<Rightarrow> disclosure list
    \<Rightarrow> (string \<times> json) list" where
  "sdjwt_payload P now opts validFor vct ds =
     fold (\<lambda>(k, v). map_put k v) (so_AlwaysVisibleClaims opts)
       ([(''iss'', JStr (so_IssuerDID opts)), (''sub'', JStr (so_SubjectDID opts)), (''iat'', JNum (unix now)),
         (''exp'', JNum (unix (now + validFor))), (''_sd_alg'', JStr ''sha-256''),
         (''_sd'', json_strs (map (disc_Digest P) ds))] @
        (if so_SchemaID opts \<noteq> [] then [(''vct'', JStr vct)] else []))"

(* src: pkg/vc/sdjwt.go:189-247 IssueSDJWT *)
definition IssueSDJWT :: "prims \<Rightarrow> registry \<Rightarrow> random list \<Rightarrow> instant \<Rightarrow> sdjwt_options \<Rightarrow> sdjwt_error + sdjwt_token" where
  "IssueSDJWT P reg rs now opts =
     (if has_prefix (so_IssuerDID opts) ''did:key:'' then Inl SdEphemeralIssuer
      else case so_IssuerKey opts of
        None \<Rightarrow> Inl SdIssuerRequired
      | Some key \<Rightarrow>
          if so_IssuerDID opts = [] then Inl SdIssuerRequired
          else if so_SubjectDID opts = [] then Inl SdSubjectRequired
          else
            let validFor = (if so_ValidFor opts \<le> 0 then 24 * hour else so_ValidFor opts) in
            (case (if so_SchemaID opts \<noteq> [] then map_sum id VersionedID (GetSchema reg (so_SchemaID opts)) else Inr []) of
               Inl e \<Rightarrow> Inl (SdSchema e)
             | Inr vct \<Rightarrow>
                 (case make_disclosures rs (so_SelectiveClaims opts) of
                    Inl e \<Rightarrow> Inl e
                  | Inr ds \<Rightarrow>
                      Inr \<lparr>st_JWT = signSDJWT P (JObj (sdjwt_payload P now opts validFor vct ds)) key
                              (so_VerificationMethodID opts) ''vc+sd-jwt'',
                           st_Disclosures = ds\<rparr>)))"

section \<open>Parsing\<close>

(* src: pkg/vc/sdjwt.go:254-261 ParsedSDJWT *)
record parsed_sdjwt =
  ps_JWT :: string
  ps_Disclosures :: "string list"
  ps_KBToken :: string

(* src: pkg/vc/sdjwt.go:273-283 ParseSDJWT (loop) *)
definition parse_part :: "string \<Rightarrow> parsed_sdjwt \<Rightarrow> parsed_sdjwt" where
  "parse_part p r =
     (if p = [] then r
      else if length (filter (\<lambda>c. c = CHR ''.'') p) = 2 then r\<lparr>ps_KBToken := p\<rparr>
      else r\<lparr>ps_Disclosures := ps_Disclosures r @ [p]\<rparr>)"

(* src: pkg/vc/sdjwt.go:264-285 ParseSDJWT *)
definition ParseSDJWT :: "string \<Rightarrow> sdjwt_error + parsed_sdjwt" where
  "ParseSDJWT token =
     (if token = [] then Inl SdEmptyToken
      else
        let parts = split_all (CHR ''~'') token in
        if length parts < 2 then Inl SdNoSeparator
        else Inr (fold parse_part (tl parts) \<lparr>ps_JWT = hd parts, ps_Disclosures = [], ps_KBToken = []\<rparr>))"

section \<open>Verifying\<close>

(* src: pkg/vc/sdjwt.go:292-305 SDJWTVerifyResult *)
record sdjwt_result =
  sr_IssuerDID :: string
  sr_SubjectDID :: string
  sr_SchemaID :: string
  sr_DisclosedClaims :: "(string \<times> json) list"
  sr_AlwaysClaims :: "(string \<times> json) list"
  sr_IssuedAt :: "instant option"
  sr_ExpiresAt :: "instant option"
  sr_KeyBindingVerified :: bool

(* src: pkg/vc/sdjwt.go:433-442 SDJWTVerifier.resolveSigningKey (loop) *)
fun signing_key_loop :: "did_env \<Rightarrow> string \<Rightarrow> verification_method list \<Rightarrow> sdjwt_error + byte list" where
  "signing_key_loop E did [] = Inl (SdNoMethod did)"
| "signing_key_loop E did (vm # vms) =
     (case vm_PublicKeyMultibase vm of
        None \<Rightarrow> signing_key_loop E did vms
      | Some mb \<Rightarrow>
          if vm_Revoked vm then signing_key_loop E did vms
          else if vm_Type vm \<noteq> ''Ed25519VerificationKey2020'' then signing_key_loop E did vms
          else map_sum SdKey id (decodeMultibaseEd25519 E mb))"

(* src: pkg/vc/sdjwt.go:428-443 SDJWTVerifier.resolveSigningKey *)
definition resolveSigningKey :: "did_env \<Rightarrow> (string \<Rightarrow> did_error + document) \<Rightarrow> string \<Rightarrow> sdjwt_error + byte list" where
  "resolveSigningKey E resolve issuerDID =
     (case resolve issuerDID of
        Inl e \<Rightarrow> Inl (SdResolve e)
      | Inr doc \<Rightarrow> signing_key_loop E issuerDID (doc_VerificationMethod doc))"

(* src: pkg/vc/sdjwt.go:535-542 sdHashOf *)
definition sdHashOf :: "prims \<Rightarrow> parsed_sdjwt \<Rightarrow> string" where
  "sdHashOf P parsed =
     b64_encode (sha256 P (bytes_of (join ''~'' (ps_JWT parsed # ps_Disclosures parsed) @ ''~'')))"

text \<open>\<open>Inr None\<close> is the answer \<^verbatim>\<open>nil, nil\<close> for a token without the claim.\<close>

(* src: pkg/vc/sdjwt.go:546-570 extractHolderKey *)
definition extractHolderKey :: "(string \<times> json) list \<Rightarrow> sdjwt_error + byte list option" where
  "extractHolderKey claims =
     (case any_map (map_of claims ''cnf'') of
        None \<Rightarrow> Inr None
      | Some cnf \<Rightarrow>
          (case any_map (map_of cnf ''jwk'') of
             None \<Rightarrow> Inr None
           | Some jwk \<Rightarrow>
               if strOrEmpty (map_of jwk ''kty'') \<noteq> ''OKP'' then Inl (SdCnfKty (strOrEmpty (map_of jwk ''kty'')))
               else case map_of jwk ''x'' of
                 Some (JStr x) \<Rightarrow>
                   (case b64_decode x of
                      None \<Rightarrow> Inl SdCnfDecode
                    | Some raw \<Rightarrow> if length raw \<noteq> 32 then Inl (SdCnfLength (length raw)) else Inr (Some raw))
               | _ \<Rightarrow> Inl SdCnfX))"

(* src: pkg/vc/sdjwt.go:501-531 verifyKBJWT *)
definition verifyKBJWT :: "prims \<Rightarrow> json_decoder \<Rightarrow> parsed_sdjwt \<Rightarrow> byte list option \<Rightarrow> string \<Rightarrow> string
    \<Rightarrow> sdjwt_error + unit" where
  "verifyKBJWT P J parsed holderPub expectedNonce expectedAud =
     (case parseSDJWTPayload J (ps_KBToken parsed) of
        Inl e \<Rightarrow> Inl e
      | Inr kbClaims \<Rightarrow>
          if expectedNonce \<noteq> [] \<and> strOrEmpty (map_of kbClaims ''nonce'') \<noteq> expectedNonce then Inl SdNonce
          else if expectedAud \<noteq> [] \<and> strOrEmpty (map_of kbClaims ''aud'') \<noteq> expectedAud then Inl SdAudience
          else if strOrEmpty (map_of kbClaims ''sd_hash'') \<noteq> sdHashOf P parsed then Inl SdHashMismatch
          else case holderPub of
            None \<Rightarrow> Inr ()
          | Some pub \<Rightarrow> verifySDJWTSig P (ps_KBToken parsed) pub)"

(* src: pkg/vc/sdjwt.go:357-364 SDJWTVerifier.Verify (digests) *)
definition sd_digests :: "(string \<times> json) list \<Rightarrow> string list" where
  "sd_digests claims =
     (case map_of claims ''_sd'' of
        Some (JArr arr) \<Rightarrow> concat (map (\<lambda>d. case d of JStr s \<Rightarrow> [s] | _ \<Rightarrow> []) arr)
      | _ \<Rightarrow> [])"

(* src: pkg/vc/sdjwt.go:367-381 SDJWTVerifier.Verify (disclosures) *)
fun check_disclosures :: "prims \<Rightarrow> json_decoder \<Rightarrow> string list \<Rightarrow> string list \<Rightarrow> (string \<times> json) list
    \<Rightarrow> sdjwt_error + (string \<times> json) list" where
  "check_disclosures P J digests [] acc = Inr acc"
| "check_disclosures P J digests (enc # encs) acc =
     (case ParseDisclosure J enc of
        Inl e \<Rightarrow> Inl e
      | Inr d \<Rightarrow>
          if disc_Digest P d \<notin> set digests then Inl (SdNotInHashes (di_Key d))
          else check_disclosures P J digests encs (map_put (di_Key d) (di_Value d) acc))"

(* src: pkg/vc/sdjwt.go:383-396 SDJWTVerifier.Verify (key binding) *)
definition check_key_binding :: "prims \<Rightarrow> json_decoder \<Rightarrow> parsed_sdjwt \<Rightarrow> (string \<times> json) list \<Rightarrow> string \<Rightarrow> string
    \<Rightarrow> sdjwt_error + bool" where
  "check_key_binding P J parsed rawClaims expectedNonce expectedAudience =
     (if ps_KBToken parsed \<noteq> [] then
        (case extractHolderKey rawClaims of
           Inr (Some holderPub) \<Rightarrow>
             (case verifyKBJWT P J parsed (Some holderPub) expectedNonce expectedAudience of
                Inl e \<Rightarrow> Inl e
              | Inr _ \<Rightarrow> Inr True)
         | _ \<Rightarrow> Inl SdNoHolderKey)
      else if expectedNonce \<noteq> [] \<or> expectedAudience \<noteq> [] then Inl SdKeyBindingRequired
      else Inr False)"

(* src: pkg/vc/sdjwt.go:399-402 SDJWTVerifier.Verify (skip) *)
definition sd_skip :: "string list" where
  "sd_skip = [''iss'', ''sub'', ''iat'', ''exp'', ''_sd'', ''_sd_alg'', ''vct'', ''cnf'']"

(* src: pkg/vc/sdjwt.go:322-425 SDJWTVerifier.Verify *)
definition sd_Verify :: "prims \<Rightarrow> json_decoder \<Rightarrow> did_env \<Rightarrow> (string \<Rightarrow> did_error + document) \<Rightarrow> instant \<Rightarrow> string
    \<Rightarrow> string \<Rightarrow> string \<Rightarrow> sdjwt_error + sdjwt_result" where
  "sd_Verify P J E resolve now token expectedNonce expectedAudience =
     (case ParseSDJWT token of
        Inl e \<Rightarrow> Inl e
      | Inr parsed \<Rightarrow>
     (case parseSDJWTPayload J (ps_JWT parsed) of
        Inl e \<Rightarrow> Inl e
      | Inr rawClaims \<Rightarrow>
     let issuerDID = strOrEmpty (map_of rawClaims ''iss'') in
     if issuerDID = [] then Inl SdMissingIss
     else (case resolveSigningKey E resolve issuerDID of
        Inl e \<Rightarrow> Inl e
      | Inr pub \<Rightarrow>
     (case verifySDJWTSig P (ps_JWT parsed) pub of
        Inl e \<Rightarrow> Inl e
      | Inr _ \<Rightarrow>
     if (case any_number (map_of rawClaims ''exp'') of Some e \<Rightarrow> unix now > e | None \<Rightarrow> False) then Inl SdExpired
     else (case check_disclosures P J (sd_digests rawClaims) (ps_Disclosures parsed) [] of
        Inl e \<Rightarrow> Inl e
      | Inr disclosedClaims \<Rightarrow>
     (case check_key_binding P J parsed rawClaims expectedNonce expectedAudience of
        Inl e \<Rightarrow> Inl e
      | Inr kbVerified \<Rightarrow>
     Inr \<lparr>sr_IssuerDID = issuerDID, sr_SubjectDID = strOrEmpty (map_of rawClaims ''sub''),
          sr_SchemaID = strOrEmpty (map_of rawClaims ''vct''), sr_DisclosedClaims = disclosedClaims,
          sr_AlwaysClaims = filter (\<lambda>(k, v). k \<notin> set sd_skip) rawClaims,
          sr_IssuedAt = map_option from_unix (any_number (map_of rawClaims ''iat'')),
          sr_ExpiresAt = map_option from_unix (any_number (map_of rawClaims ''exp'')),
          sr_KeyBindingVerified = kbVerified\<rparr>))))))"

section \<open>Values of type any\<close>

lemma last_members_keys: "set (map fst (last_members kvs)) \<subseteq> set (map fst kvs)"
  by (induction kvs rule: last_members.induct) auto

lemma last_members_distinct_keys: "distinct (map fst (last_members kvs))"
proof (induction kvs rule: last_members.induct)
  case (2 k v kvs)
  with last_members_keys [of kvs] show ?case by auto
qed simp

lemma last_members_set: "set (last_members kvs) \<subseteq> set kvs"
  by (induction kvs rule: last_members.induct) auto

lemma sort_key_distinct_keys: "distinct (map fst kvs) \<Longrightarrow> distinct (map fst (sort_key fst kvs))"
  by (metis distinct_map distinct_sort set_sort)

lemma json_canonical_idem [simp]: "json_canonical (json_canonical v) = json_canonical v"
proof (induction v rule: json_canonical.induct)
  case (2 kvs)
  let ?c = "map (\<lambda>(k, v). (k, json_canonical v)) kvs"
  let ?s = "sort_key fst (last_members ?c)"
  have "set ?s \<subseteq> set ?c" using last_members_set [of ?c] by simp
  then have "\<forall>(k, v) \<in> set ?s. json_canonical v = v" using 2 by fastforce
  then have m: "map (\<lambda>(k, v). (k, json_canonical v)) ?s = ?s"
    by (intro map_idI) auto
  have "distinct (map fst ?s)" by (intro sort_key_distinct_keys last_members_distinct_keys)
  then have "last_members ?s = ?s" by (rule last_members_distinct)
  moreover have "sort_key fst ?s = ?s" by (rule sort_key_id_if_sorted) simp
  ultimately show ?case by (simp only: json_canonical.simps m)
qed (auto intro: map_idI)

lemma as_any_map_canonical:
  assumes "distinct (map fst kvs)"
  shows "\<exists>m. as_any_map (json_canonical (JObj kvs)) = Some m \<and> (\<forall>k. map_of m k = map_option json_canonical (map_of kvs k))"
proof -
  let ?m = "sort_key fst (last_members (map (\<lambda>(k, v). (k, json_canonical v)) kvs))"
  have c: "json_canonical (JObj kvs) = JObj ?m" by simp
  have "as_any_map (JObj ?m) = Some ?m"
    using json_canonical_idem [of "JObj kvs"] unfolding c by simp
  moreover have "map_of ?m k = map_option json_canonical (map_of kvs k)" for k
  proof -
    have d: "distinct (map fst (map (\<lambda>(k, v). (k, json_canonical v)) kvs))"
      using assms by (simp add: case_prod_beta comp_def)
    show ?thesis unfolding last_members_distinct [OF d] map_of_sort_key [OF d] by (simp add: map_of_map)
  qed
  ultimately show ?thesis using c by auto
qed

section \<open>Round trips\<close>

lemma disc_Encode_free [simp]: "CHR ''~'' \<notin> set (disc_Encode d)" "CHR ''.'' \<notin> set (disc_Encode d)"
  by (simp_all add: disc_Encode_def)

lemma b64_encode_ne: "b64_encode bs = [] \<longleftrightarrow> bs = []"
  by (cases bs rule: b64_encode.cases) simp_all

lemma disc_Encode_ne [simp]: "disc_Encode d \<noteq> []"
  by (simp add: disc_Encode_def b64_encode_ne bytes_of_def)

lemma ParseDisclosure_Encode:
  "decodes J \<Longrightarrow> ParseDisclosure J (disc_Encode d) = Inr (d\<lparr>di_Value := json_canonical (di_Value d)\<rparr>)"
  by (simp add: ParseDisclosure_def disc_Encode_def decodes_def numeral_2_eq_2 del: json_marshal.simps)

lemma disc_Digest_canonical [simp]: "disc_Digest P (d\<lparr>di_Value := json_canonical (di_Value d)\<rparr>) = disc_Digest P d"
  by (simp add: disc_Digest_def disc_Encode_def)

lemma disc_Encode_key: "disc_Encode a = disc_Encode b \<Longrightarrow> di_Key a = di_Key b"
  by (simp add: disc_Encode_def json_marshal_inj del: json_marshal.simps)

lemma signSDJWT_split:
  "split_n 3 (CHR ''.'') (signSDJWT P v key kid typ) =
     (let h = b64_encode (bytes_of (json_marshal (json_str_obj [(''alg'', ''EdDSA''), (''kid'', kid), (''typ'', typ)])));
          p = b64_encode (bytes_of (json_marshal (json_canonical v)))
      in [h, p, b64_encode (ed_sign P key (bytes_of (h @ ''.'' @ p)))])"
  by (simp add: signSDJWT_def Let_def split_n_3)

lemma verifySDJWTSig_sign: "signatures_ok P \<Longrightarrow> verifySDJWTSig P (signSDJWT P v key kid typ) (ed_pub P key) = Inr ()"
  by (simp add: verifySDJWTSig_def signSDJWT_split Let_def signatures_ok_def)

lemma parseSDJWTPayload_sign:
  "decodes J \<Longrightarrow> parseSDJWTPayload J (signSDJWT P v key kid typ) =
     (case as_any_map (json_canonical v) of None \<Rightarrow> Inl SdUnmarshalPayload | Some m \<Rightarrow> Inr m)"
  by (simp add: parseSDJWTPayload_def signSDJWT_split Let_def decodes_def split: option.split)

lemma filter_eq_none: "c \<notin> set s \<Longrightarrow> filter (\<lambda>x. x = c) s = []"
  by (induction s) auto

lemma signSDJWT_dots: "length (filter (\<lambda>c. c = CHR ''.'') (signSDJWT P v key kid typ)) = 2"
  by (simp add: signSDJWT_def Let_def filter_eq_none)

lemma signSDJWT_free: "CHR ''~'' \<notin> set (signSDJWT P v key kid typ)"
  by (simp add: signSDJWT_def Let_def)

lemma split_all_serialize:
  assumes "CHR ''~'' \<notin> set (st_JWT t)" "CHR ''~'' \<notin> set kb"
  shows "split_all (CHR ''~'') (serializeWith t ds @ kb) = st_JWT t # map disc_Encode ds @ [kb]"
proof -
  have "join ''~'' ws @ ''~'' @ kb = join ''~'' (ws @ [kb])" if "ws \<noteq> []" for ws
    using that by (induction "''~''" ws rule: join.induct) auto
  from this [of "st_JWT t # map disc_Encode ds"]
  have "serializeWith t ds @ kb = join ''~'' (st_JWT t # map disc_Encode ds @ [kb])"
    by (simp add: serializeWith_def)
  moreover have "\<forall>w \<in> set (st_JWT t # map disc_Encode ds @ [kb]). CHR ''~'' \<notin> set w"
    using assms by auto
  ultimately show ?thesis using split_all_join by (metis list.distinct(1))
qed

lemma parse_disclosures:
  "fold parse_part (map disc_Encode ds) r = r\<lparr>ps_Disclosures := ps_Disclosures r @ map disc_Encode ds\<rparr>"
proof (induction ds arbitrary: r)
  case (Cons d ds)
  have "filter (\<lambda>c. c = CHR ''.'') (disc_Encode d) = []"
    by (rule filter_eq_none) simp
  with Cons show ?case by (simp add: parse_part_def)
qed simp

lemma ParseSDJWT_serialize:
  assumes "CHR ''~'' \<notin> set (st_JWT t)"
  shows "ParseSDJWT (serializeWith t ds) = Inr \<lparr>ps_JWT = st_JWT t, ps_Disclosures = map disc_Encode ds, ps_KBToken = []\<rparr>"
    and "CHR ''~'' \<notin> set kb \<Longrightarrow> length (filter (\<lambda>c. c = CHR ''.'') kb) = 2 \<Longrightarrow>
      ParseSDJWT (serializeWith t ds @ kb) = Inr \<lparr>ps_JWT = st_JWT t, ps_Disclosures = map disc_Encode ds, ps_KBToken = kb\<rparr>"
proof -
  have ne: "serializeWith t ds @ kb \<noteq> []" for kb by (simp add: serializeWith_def)
  show "ParseSDJWT (serializeWith t ds) = Inr \<lparr>ps_JWT = st_JWT t, ps_Disclosures = map disc_Encode ds, ps_KBToken = []\<rparr>"
    using split_all_serialize [OF assms, of "[]" ds] ne [of "[]"]
    by (simp add: ParseSDJWT_def parse_disclosures) (simp add: parse_part_def)
  show "ParseSDJWT (serializeWith t ds @ kb) = Inr \<lparr>ps_JWT = st_JWT t, ps_Disclosures = map disc_Encode ds, ps_KBToken = kb\<rparr>"
    if "CHR ''~'' \<notin> set kb" "length (filter (\<lambda>c. c = CHR ''.'') kb) = 2"
    using split_all_serialize [OF assms that(1), of ds] ne [of kb] that(2)
    by (auto simp add: ParseSDJWT_def parse_disclosures) (auto simp add: parse_part_def)
qed

section \<open>An issued token verifies\<close>

lemma make_disclosures_claims: "make_disclosures rs cs = Inr ds \<Longrightarrow> map (\<lambda>d. (di_Key d, di_Value d)) ds = cs"
proof (induction rs cs arbitrary: ds rule: make_disclosures.induct)
  case (2 rs k v cs)
  then show ?case by (fastforce simp: NewDisclosure_def split: sum.splits option.splits)
qed simp

lemma check_disclosures_all:
  assumes "decodes J" "\<forall>d\<in>set ds. disc_Digest P d \<in> set digests"
  shows "check_disclosures P J digests (map disc_Encode ds) acc =
    Inr (fold (\<lambda>d. map_put (di_Key d) (json_canonical (di_Value d))) ds acc)"
  using assms(2) by (induction ds arbitrary: acc) (simp_all add: ParseDisclosure_Encode [OF assms(1)])

lemma map_of_fold_put_other: "k \<notin> fst ` set xs \<Longrightarrow> map_of (fold (\<lambda>(k, v). map_put k v) xs m) k = map_of m k"
  by (induction xs arbitrary: m) (auto simp: case_prod_beta)

lemma distinct_fold_put: "distinct (map fst m) \<Longrightarrow> distinct (map fst (fold (\<lambda>(k, v). map_put k v) xs m))"
  by (induction xs arbitrary: m) (auto simp: distinct_map_put case_prod_beta)

lemma map_of_fold_put:
  "distinct (map f ds) \<Longrightarrow> map_of (fold (\<lambda>d. map_put (f d) (g d)) ds m) k =
     (case map_of (map (\<lambda>d. (f d, g d)) ds) k of None \<Rightarrow> map_of m k | Some v \<Rightarrow> Some v)"
proof (induction ds arbitrary: m)
  case (Cons d ds)
  moreover have "map_of (map (\<lambda>d. (f d, g d)) ds) k = None" if "k = f d"
    using that Cons.prems by (force simp: map_of_eq_None_iff)
  ultimately show ?case by (auto split: option.splits)
qed simp

text \<open>The claims that a presentation of the named keys reveals.\<close>

definition revealed :: "string list \<Rightarrow> (string \<times> json) list \<Rightarrow> string \<Rightarrow> json option" where
  "revealed keys cs k = (if k \<in> set keys then map_option json_canonical (map_of cs k) else None)"

lemma revealed_disclosures:
  assumes "map (\<lambda>d. (di_Key d, di_Value d)) ds = cs" "distinct (map fst cs)"
  shows "map_of (fold (\<lambda>d. map_put (di_Key d) (json_canonical (di_Value d)))
      (filter (\<lambda>d. di_Key d \<in> set keys) ds) []) k = revealed keys cs k"
proof -
  let ?f = "filter (\<lambda>d. di_Key d \<in> set keys) ds"
  have "distinct (map di_Key ds)" using assms by (auto simp: comp_def)
  then have "distinct (map di_Key ?f)" by (rule distinct_map_filter)
  then have "map_of (fold (\<lambda>d. map_put (di_Key d) (json_canonical (di_Value d))) ?f []) k =
      map_of (map (\<lambda>d. (di_Key d, json_canonical (di_Value d))) ?f) k"
    by (simp add: map_of_fold_put split: option.split)
  also have "\<dots> = (if k \<in> set keys then map_of (map (\<lambda>d. (di_Key d, json_canonical (di_Value d))) ds) k else None)"
    by (induction ds) auto
  also have "map_of (map (\<lambda>d. (di_Key d, json_canonical (di_Value d))) ds) k = map_option json_canonical (map_of cs k)"
    unfolding assms(1) [symmetric] by (induction ds) auto
  finally show ?thesis by (simp add: revealed_def)
qed

text \<open>What \<^const>\<open>parseSDJWTPayload\<close> reads from an issued token.\<close>

definition lifetime :: "sdjwt_options \<Rightarrow> duration" where
  "lifetime opts = (if so_ValidFor opts \<le> 0 then 24 * hour else so_ValidFor opts)"

lemma IssueSDJWT_token:
  assumes "IssueSDJWT P reg rs t0 opts = Inr tok" "decodes J"
  obtains key vct m where "so_IssuerKey opts = Some key" "so_IssuerDID opts \<noteq> []"
    "st_JWT tok = signSDJWT P (JObj (sdjwt_payload P t0 opts (lifetime opts) vct (st_Disclosures tok))) key
       (so_VerificationMethodID opts) ''vc+sd-jwt''"
    "map (\<lambda>d. (di_Key d, di_Value d)) (st_Disclosures tok) = so_SelectiveClaims opts"
    "parseSDJWTPayload J (st_JWT tok) = Inr m"
    "\<And>k. map_of m k = map_option json_canonical (map_of (sdjwt_payload P t0 opts (lifetime opts) vct (st_Disclosures tok)) k)"
proof -
  from assms(1) obtain key vct ds where k: "so_IssuerKey opts = Some key" "so_IssuerDID opts \<noteq> []"
    and d: "make_disclosures rs (so_SelectiveClaims opts) = Inr ds"
    and t: "tok = \<lparr>st_JWT = signSDJWT P (JObj (sdjwt_payload P t0 opts (lifetime opts) vct ds)) key
       (so_VerificationMethodID opts) ''vc+sd-jwt'', st_Disclosures = ds\<rparr>"
    unfolding IssueSDJWT_def lifetime_def Let_def by (auto split: if_splits option.splits sum.splits)
  let ?p = "sdjwt_payload P t0 opts (lifetime opts) vct ds"
  have "distinct (map fst ?p)" unfolding sdjwt_payload_def by (intro distinct_fold_put) simp
  then obtain m where "as_any_map (json_canonical (JObj ?p)) = Some m"
    "\<forall>k. map_of m k = map_option json_canonical (map_of ?p k)" using as_any_map_canonical by blast
  with that [OF k] t make_disclosures_claims [OF d] parseSDJWTPayload_sign [OF assms(2), of P "JObj ?p" key]
  show thesis by simp
qed

lemma sdjwt_payload_member:
  assumes "k \<notin> fst ` set (so_AlwaysVisibleClaims opts)"
  shows "map_of (sdjwt_payload P t0 opts v vct ds) k = map_of
    ([(''iss'', JStr (so_IssuerDID opts)), (''sub'', JStr (so_SubjectDID opts)), (''iat'', JNum (unix t0)),
      (''exp'', JNum (unix (t0 + v))), (''_sd_alg'', JStr ''sha-256''),
      (''_sd'', json_strs (map (disc_Digest P) ds))] @
      (if so_SchemaID opts \<noteq> [] then [(''vct'', JStr vct)] else [])) k"
  unfolding sdjwt_payload_def using assms by (rule map_of_fold_put_other)

lemma sd_digests_strs: "map_of m ''_sd'' = Some (json_strs ws) \<Longrightarrow> sd_digests m = ws"
proof -
  have "concat (map (\<lambda>d. case d of JStr s \<Rightarrow> [s] | _ \<Rightarrow> []) (map JStr ws)) = ws" by (induction ws) auto
  then show "map_of m ''_sd'' = Some (json_strs ws) \<Longrightarrow> sd_digests m = ws"
    by (simp add: sd_digests_def json_strs_def)
qed

lemma sd_Verify_issued:
  assumes "signatures_ok P" "decodes J"
    and "IssueSDJWT P reg rs t0 opts = Inr tok" "so_IssuerKey opts = Some key"
    and "resolveSigningKey E resolve (so_IssuerDID opts) = Inr (ed_pub P key)"
    and "distinct (map fst (so_SelectiveClaims opts))"
    and "fst ` set (so_AlwaysVisibleClaims opts) \<inter> {''iss'', ''sub'', ''exp'', ''_sd''} = {}"
    and "unix now \<le> unix (t0 + (if so_ValidFor opts \<le> 0 then 24 * hour else so_ValidFor opts))"
  shows "\<exists>r. sd_Verify P J E resolve now (sd_Present tok keys) [] [] = Inr r \<and>
      sr_IssuerDID r = so_IssuerDID opts \<and> sr_SubjectDID r = so_SubjectDID opts \<and> \<not> sr_KeyBindingVerified r \<and>
      (\<forall>k. map_of (sr_DisclosedClaims r) k =
        revealed keys (so_SelectiveClaims opts) k)"
proof -
  obtain key' vct m where k: "so_IssuerKey opts = Some key'" and i: "so_IssuerDID opts \<noteq> []"
    and j: "st_JWT tok = signSDJWT P (JObj (sdjwt_payload P t0 opts (lifetime opts) vct (st_Disclosures tok))) key'
       (so_VerificationMethodID opts) ''vc+sd-jwt''"
    and c: "map (\<lambda>d. (di_Key d, di_Value d)) (st_Disclosures tok) = so_SelectiveClaims opts"
    and p: "parseSDJWTPayload J (st_JWT tok) = Inr m"
    and m: "\<And>k. map_of m k = map_option json_canonical
      (map_of (sdjwt_payload P t0 opts (lifetime opts) vct (st_Disclosures tok)) k)"
    using IssueSDJWT_token [OF assms(3,2)] by blast
  have key: "key' = key" using k assms(4) by simp
  have n: "\<And>k. k \<in> {''iss'', ''sub'', ''exp'', ''_sd''} \<Longrightarrow> k \<notin> fst ` set (so_AlwaysVisibleClaims opts)"
    using assms(7) by blast
  have mem: "map_of m ''iss'' = Some (JStr (so_IssuerDID opts))" "map_of m ''sub'' = Some (JStr (so_SubjectDID opts))"
    "map_of m ''exp'' = Some (JNum (unix (t0 + lifetime opts)))"
    "map_of m ''_sd'' = Some (json_strs (map (disc_Digest P) (st_Disclosures tok)))"
    by (simp_all add: m n sdjwt_payload_member canonical_strs)
  let ?ds = "filter (\<lambda>d. di_Key d \<in> set keys) (st_Disclosures tok)"
  have t: "CHR ''~'' \<notin> set (st_JWT tok)" unfolding j by (rule signSDJWT_free)
  have s: "verifySDJWTSig P (st_JWT tok) (ed_pub P key) = Inr ()" unfolding j key by (rule verifySDJWTSig_sign [OF assms(1)])
  have d: "check_disclosures P J (sd_digests m) (map disc_Encode ?ds) [] =
      Inr (fold (\<lambda>d. map_put (di_Key d) (json_canonical (di_Value d))) ?ds [])"
    by (rule check_disclosures_all [OF assms(2)]) (auto simp: sd_digests_strs [OF mem(4)])
  show ?thesis
    unfolding sd_Verify_def sd_Present_def ParseSDJWT_serialize(1) [OF t] using assms(5,8) i
    by (simp add: p mem strOrEmpty_def any_number_def s d check_key_binding_def lifetime_def
        revealed_disclosures [OF c assms(6)])
qed

lemma IssueSDJWT_no_tilde: "IssueSDJWT P reg rs t0 opts = Inr tok \<Longrightarrow> CHR ''~'' \<notin> set (st_JWT tok)"
  by (erule IssueSDJWT_token [OF _ decodes_json_read]) (simp add: signSDJWT_free)

text \<open>A token issued by \<open>IssueSDJWT\<close> and presented with \<open>Present\<close> is accepted by \<open>Verify\<close> until it expires, whatever
  subset of claims the holder names, and the verifier learns exactly the selective claims that were named, with the
  values the issuer put in.  The always visible claims must leave the registered names alone: the code copies them
  over the payload.\<close>

theorem sdjwt_present_verifies:
  assumes "signatures_ok P" "decodes J"
    and "IssueSDJWT P reg rs t0 opts = Inr tok" "so_IssuerKey opts = Some key"
    and "resolveSigningKey E resolve (so_IssuerDID opts) = Inr (ed_pub P key)"
    and "distinct (map fst (so_SelectiveClaims opts))"
    and "fst ` set (so_AlwaysVisibleClaims opts) \<inter> {''iss'', ''sub'', ''exp'', ''_sd''} = {}"
    and "unix now \<le> unix (t0 + (if so_ValidFor opts \<le> 0 then 24 * hour else so_ValidFor opts))"
  shows "\<exists>r. sd_Verify P J E resolve now (sd_Present tok keys) [] [] = Inr r \<and>
      sr_IssuerDID r = so_IssuerDID opts \<and> sr_SubjectDID r = so_SubjectDID opts \<and> \<not> sr_KeyBindingVerified r \<and>
      (\<forall>k. map_of (sr_DisclosedClaims r) k =
        (if k \<in> set keys then map_option json_canonical (map_of (so_SelectiveClaims opts) k) else None))"
  using sd_Verify_issued [OF assms] unfolding revealed_def .

section \<open>What an accepted presentation reveals\<close>

lemma ParseDisclosure_canonical: "ParseDisclosure J enc = Inr d \<Longrightarrow> json_canonical (di_Value d) = di_Value d"
proof -
  assume "ParseDisclosure J enc = Inr d"
  then obtain v arr where a: "as_any_slice v = Some arr" "length arr = 3" "di_Value d = arr ! 2"
    unfolding ParseDisclosure_def
    by (auto split: option.splits if_splits json.splits simp: bind_eq_Some_conv)
  from a(1) have "\<forall>x\<in>set arr. json_canonical x = x" by (cases v) auto
  with a(2,3) show ?thesis by simp
qed

lemma check_disclosures_sound:
  assumes "check_disclosures P J digests encs acc = Inr out" "(k, v) \<in> set out"
  shows "(k, v) \<in> set acc \<or> (\<exists>salt. json_canonical v = v \<and>
    disc_Digest P \<lparr>di_Salt = salt, di_Key = k, di_Value = v\<rparr> \<in> set digests)"
  using assms
proof (induction P J digests encs acc rule: check_disclosures.induct)
  case (2 P J digests enc encs acc)
  from "2.prems"(1) obtain d where d: "ParseDisclosure J enc = Inr d" "disc_Digest P d \<in> set digests"
    and rest: "check_disclosures P J digests encs (map_put (di_Key d) (di_Value d) acc) = Inr out"
    by (auto split: sum.splits if_splits)
  from "2.IH" [OF d(1) _ rest "2.prems"(2)] d(2)
  consider "(k, v) \<in> set (map_put (di_Key d) (di_Value d) acc)"
    | "\<exists>salt. json_canonical v = v \<and> disc_Digest P \<lparr>di_Salt = salt, di_Key = k, di_Value = v\<rparr> \<in> set digests"
    by auto
  then show ?case
  proof cases
    case 1
    moreover have "disc_Digest P \<lparr>di_Salt = di_Salt d, di_Key = di_Key d, di_Value = di_Value d\<rparr> \<in> set digests"
      using d(2) by (cases d) simp
    ultimately show ?thesis
      using map_put_entries ParseDisclosure_canonical [OF d(1)] by fastforce
  qed blast
qed simp

lemma sd_Verify_Inr:
  assumes "sd_Verify P J E resolve now token nonce aud = Inr r"
  obtains parsed m pub where "ParseSDJWT token = Inr parsed" "parseSDJWTPayload J (ps_JWT parsed) = Inr m"
    "resolveSigningKey E resolve (sr_IssuerDID r) = Inr pub" "verifySDJWTSig P (ps_JWT parsed) pub = Inr ()"
    "\<And>e. map_of m ''exp'' = Some (JNum e) \<Longrightarrow> unix now \<le> e"
    "check_disclosures P J (sd_digests m) (ps_Disclosures parsed) [] = Inr (sr_DisclosedClaims r)"
    "check_key_binding P J parsed m nonce aud = Inr (sr_KeyBindingVerified r)"
proof -
  obtain parsed where 1: "ParseSDJWT token = Inr parsed"
    using assms by (cases "ParseSDJWT token") (simp_all add: sd_Verify_def)
  obtain m where 2: "parseSDJWTPayload J (ps_JWT parsed) = Inr m"
    using assms 1 by (cases "parseSDJWTPayload J (ps_JWT parsed)") (simp_all add: sd_Verify_def)
  let ?iss = "strOrEmpty (map_of m ''iss'')"
  let ?late = "case any_number (map_of m ''exp'') of Some e \<Rightarrow> unix now > e | None \<Rightarrow> False"
  have 3: "?iss \<noteq> []" using assms 1 2 by (auto simp: sd_Verify_def)
  obtain pub where 4: "resolveSigningKey E resolve ?iss = Inr pub"
    using assms 1 2 3 by (cases "resolveSigningKey E resolve ?iss") (simp_all add: sd_Verify_def)
  have 5: "verifySDJWTSig P (ps_JWT parsed) pub = Inr ()"
    using assms 1 2 3 4 by (cases "verifySDJWTSig P (ps_JWT parsed) pub") (simp_all add: sd_Verify_def)
  have 6: "\<not> ?late" using assms 1 2 3 4 5 by (cases ?late) (simp_all add: sd_Verify_def)
  obtain dc where 7: "check_disclosures P J (sd_digests m) (ps_Disclosures parsed) [] = Inr dc"
    using assms 1 2 3 4 5 6
    by (cases "check_disclosures P J (sd_digests m) (ps_Disclosures parsed) []") (simp_all add: sd_Verify_def)
  obtain kb where 8: "check_key_binding P J parsed m nonce aud = Inr kb"
    using assms 1 2 3 4 5 6 7 by (cases "check_key_binding P J parsed m nonce aud") (simp_all add: sd_Verify_def)
  have r: "sr_IssuerDID r = ?iss" "sr_DisclosedClaims r = dc" "sr_KeyBindingVerified r = kb"
    using assms 1 2 3 4 5 6 7 8 by (auto simp: sd_Verify_def)
  have "unix now \<le> e" if "map_of m ''exp'' = Some (JNum e)" for e
    using 6 that by (simp add: any_number_def)
  with that 1 2 4 5 7 8 r show thesis by simp
qed


section \<open>Key binding\<close>

lemma trim_suffix_append: "trim_suffix (s @ t) t = s"
  by (simp add: trim_suffix_def has_suffix_def)

text \<open>C27: A presentation made with \<open>PresentWithKeyBinding\<close> is always refused by \<open>Verify\<close>: the holder hashes the
  presentation without its trailing tilde and the verifier hashes it with the tilde, so the two hashes differ unless
  SHA-256 collides on exactly these two strings.\<close>

theorem key_binding_refused:
  assumes "decodes J" "CHR ''~'' \<notin> set (st_JWT tok)"
    and "sha256 P (bytes_of (trim_suffix (sd_Present tok keys) ''~'')) \<noteq> sha256 P (bytes_of (sd_Present tok keys))"
  shows "\<exists>e. sd_Verify P J E resolve now (PresentWithKeyBinding P t1 tok keys holderKey kid nonce aud) nonce' aud' = Inl e"
proof -
  let ?ds = "filter (\<lambda>d. di_Key d \<in> set keys) (st_Disclosures tok)"
  let ?hash = "b64_encode (sha256 P (bytes_of (trim_suffix (sd_Present tok keys) ''~'')))"
  let ?claims = "[(''nonce'', JStr nonce), (''aud'', JStr aud), (''iat'', JNum (unix t1)), (''sd_hash'', JStr ?hash)]"
  let ?kb = "signSDJWT P (JObj ?claims) holderKey kid ''kb+jwt''"
  let ?parsed = "\<lparr>ps_JWT = st_JWT tok, ps_Disclosures = map disc_Encode ?ds, ps_KBToken = ?kb\<rparr>"
  have t: "PresentWithKeyBinding P t1 tok keys holderKey kid nonce aud = serializeWith tok ?ds @ ?kb"
    by (simp add: PresentWithKeyBinding_def Let_def sd_Present_def)
  have parsed: "ParseSDJWT (serializeWith tok ?ds @ ?kb) = Inr ?parsed"
    by (rule ParseSDJWT_serialize(2) [OF assms(2) signSDJWT_free signSDJWT_dots])
  have "distinct (map fst ?claims)" by simp
  from as_any_map_canonical [OF this] obtain m where m: "as_any_map (json_canonical (JObj ?claims)) = Some m"
    "\<forall>k. map_of m k = map_option json_canonical (map_of ?claims k)" by blast
  have p: "parseSDJWTPayload J ?kb = Inr m" by (simp only: parseSDJWTPayload_sign [OF assms(1)] m option.case)
  have h: "strOrEmpty (map_of m ''sd_hash'') = ?hash" by (simp add: m strOrEmpty_def)
  have "sdHashOf P ?parsed = b64_encode (sha256 P (bytes_of (sd_Present tok keys)))"
    by (simp add: sdHashOf_def sd_Present_def serializeWith_def)
  then have "strOrEmpty (map_of m ''sd_hash'') \<noteq> sdHashOf P ?parsed" using assms(3) unfolding h by simp
  then have v: "verifyKBJWT P J ?parsed (Some pub) nonce' aud' \<noteq> Inr u" for pub u
    by (simp add: verifyKBJWT_def p)
  have "?kb \<noteq> []" by (simp add: signSDJWT_def Let_def)
  with v have kb: "check_key_binding P J ?parsed c nonce' aud' \<noteq> Inr b" for c b
    by (simp add: check_key_binding_def split: sum.split option.split)
  show ?thesis
  proof (rule ccontr)
    assume "\<not> ?thesis"
    then obtain r where "sd_Verify P J E resolve now (serializeWith tok ?ds @ ?kb) nonce' aud' = Inr r"
      unfolding t by (metis sum.exhaust)
    from sd_Verify_Inr [OF this] parsed kb show False by (metis Inr_inject)
  qed
qed

section \<open>Witnesses\<close>

definition demo_sd_opts :: sdjwt_options where
  "demo_sd_opts = \<lparr>so_IssuerDID = ''did:web:a'', so_IssuerKey = Some demo_key, so_VerificationMethodID = ''k1'',
     so_SubjectDID = ''did:web:b'', so_SchemaID = [],
     so_SelectiveClaims = [(''name'', JStr ''x''), (''dob'', JStr ''y'')],
     so_AlwaysVisibleClaims = [(''level'', JNum 2)], so_ValidFor = 0\<rparr>"

definition demo_sd_resolve :: "string \<Rightarrow> did_error + document" where
  "demo_sd_resolve = (\<lambda>_. Inr demo_doc)"

lemma demo_signing_key: "resolveSigningKey demo_vc_env demo_sd_resolve did = Inr (ed_pub demo_prims demo_key)"
proof -
  have "decodeUvarint ([0xed, 0x01] @ demo_key) = (0xed, 2)"
    by (simp add: decodeUvarint_def)
  then show ?thesis
    by (simp add: resolveSigningKey_def demo_sd_resolve_def demo_doc_def ed_method_def decodeMultibaseEd25519_def
        demo_vc_env_def demo_key_def demo_pub)
qed

lemma demo_sd_issue: "\<exists>tok. IssueSDJWT demo_prims reg [Some (\<lambda>i. 1), Some (\<lambda>i. 2)] 0 demo_sd_opts = Inr tok"
  by (simp add: IssueSDJWT_def demo_sd_opts_def has_prefix_def Let_def NewDisclosure_def)

lemma demo_sd_opts_simps:
  "so_IssuerKey demo_sd_opts = Some demo_key" "so_ValidFor demo_sd_opts = 0"
  "so_SelectiveClaims demo_sd_opts = [(''name'', JStr ''x''), (''dob'', JStr ''y'')]"
  "so_AlwaysVisibleClaims demo_sd_opts = [(''level'', JNum 2)]"
  by (simp_all add: demo_sd_opts_def)

theorem sdjwt_present_verifies_witness:
  "\<exists>tok r. IssueSDJWT demo_prims demo_registry [Some (\<lambda>i. 1), Some (\<lambda>i. 2)] 0 demo_sd_opts = Inr tok \<and>
     sd_Verify demo_prims json_read demo_vc_env demo_sd_resolve hour (sd_Present tok [''name'']) [] [] = Inr r \<and>
     map_of (sr_DisclosedClaims r) ''name'' = Some (JStr ''x'') \<and> map_of (sr_DisclosedClaims r) ''dob'' = None"
proof -
  obtain tok where t: "IssueSDJWT demo_prims demo_registry [Some (\<lambda>i. 1), Some (\<lambda>i. 2)] 0 demo_sd_opts = Inr tok"
    using demo_sd_issue by blast
  have "\<exists>r. sd_Verify demo_prims json_read demo_vc_env demo_sd_resolve hour (sd_Present tok [''name'']) [] [] = Inr r \<and>
      sr_IssuerDID r = so_IssuerDID demo_sd_opts \<and> sr_SubjectDID r = so_SubjectDID demo_sd_opts \<and>
      \<not> sr_KeyBindingVerified r \<and> (\<forall>k. map_of (sr_DisclosedClaims r) k = (if k \<in> set [''name'']
        then map_option json_canonical (map_of (so_SelectiveClaims demo_sd_opts) k) else None))"
    by (rule sdjwt_present_verifies [OF demo_signatures_ok decodes_json_read t demo_sd_opts_simps(1) demo_signing_key])
      (simp_all add: demo_sd_opts_simps unix_def hour_def minute_def second_def)
  with t show ?thesis by (auto simp: demo_sd_opts_simps)
qed

lemma demo_sd_present:
  "\<exists>tok r parsed. IssueSDJWT demo_prims demo_registry [Some (\<lambda>i. 1), Some (\<lambda>i. 2)] 0 demo_sd_opts = Inr tok \<and>
     sd_Verify demo_prims json_read demo_vc_env demo_sd_resolve hour (sd_Present tok [''name'']) [] [] = Inr r \<and>
     ParseSDJWT (sd_Present tok [''name'']) = Inr parsed \<and> ps_JWT parsed = st_JWT tok \<and>
     (''name'', JStr ''x'') \<in> set (sr_DisclosedClaims r)"
proof -
  obtain tok where t: "IssueSDJWT demo_prims demo_registry [Some (\<lambda>i. 1), Some (\<lambda>i. 2)] 0 demo_sd_opts = Inr tok"
    using demo_sd_issue by blast
  have "\<exists>r. sd_Verify demo_prims json_read demo_vc_env demo_sd_resolve hour (sd_Present tok [''name'']) [] [] = Inr r \<and>
      sr_IssuerDID r = so_IssuerDID demo_sd_opts \<and> sr_SubjectDID r = so_SubjectDID demo_sd_opts \<and>
      \<not> sr_KeyBindingVerified r \<and>
      (\<forall>k. map_of (sr_DisclosedClaims r) k = revealed [''name''] (so_SelectiveClaims demo_sd_opts) k)"
    by (rule sd_Verify_issued [OF demo_signatures_ok decodes_json_read t demo_sd_opts_simps(1) demo_signing_key])
      (simp_all add: demo_sd_opts_simps unix_def hour_def minute_def second_def)
  then obtain r where r: "sd_Verify demo_prims json_read demo_vc_env demo_sd_resolve hour (sd_Present tok [''name'']) [] [] = Inr r"
    "map_of (sr_DisclosedClaims r) ''name'' = revealed [''name''] (so_SelectiveClaims demo_sd_opts) ''name''" by blast
  from r(2) have "(''name'', JStr ''x'') \<in> set (sr_DisclosedClaims r)"
    by (intro map_of_SomeD) (simp add: revealed_def demo_sd_opts_simps)
  with t r(1) ParseSDJWT_serialize(1) [OF IssueSDJWT_no_tilde [OF t]] show ?thesis
    unfolding sd_Present_def by fastforce
qed


theorem key_binding_refused_witness:
  "\<exists>tok e. IssueSDJWT demo_prims demo_registry [Some (\<lambda>i. 1), Some (\<lambda>i. 2)] 0 demo_sd_opts = Inr tok \<and>
     sd_Verify demo_prims json_read demo_vc_env demo_sd_resolve hour
       (PresentWithKeyBinding demo_prims 0 tok [''name''] demo_key ''h'' ''n'' ''v'') ''n'' ''v'' = Inl e"
proof -
  obtain tok where t: "IssueSDJWT demo_prims demo_registry [Some (\<lambda>i. 1), Some (\<lambda>i. 2)] 0 demo_sd_opts = Inr tok"
    using demo_sd_issue by blast
  have "trim_suffix (sd_Present tok [''name'']) ''~'' \<noteq> sd_Present tok [''name'']"
    by (simp add: sd_Present_def serializeWith_def trim_suffix_append)
  then have "sha256 demo_prims (bytes_of (trim_suffix (sd_Present tok [''name'']) ''~'')) \<noteq>
      sha256 demo_prims (bytes_of (sd_Present tok [''name'']))" by (simp add: demo_prims_def)
  from key_binding_refused [OF decodes_json_read IssueSDJWT_no_tilde [OF t] this] t show ?thesis by blast
qed

end
