(* ===== verification/Watermark.thy ===== *)
theory Watermark
  imports Sdjwt
begin

text \<open>
  Watermarked presentations of SD-JWT tokens, \<^verbatim>\<open>src/pkg/vc/watermark.go\<close>.  The draws of \<^verbatim>\<open>rand.Intn(62)\<close> are the
  argument \<open>draw\<close>, taken modulo 62.  A result \<^const>\<open>None\<close> of \<open>ExtractWatermark\<close> is the panic of slicing an empty
  list.
\<close>

section \<open>Splitting\<close>

(* src: pkg/vc/watermark.go:180-187 indexOf *)
fun indexOf :: "string \<Rightarrow> char \<Rightarrow> nat option" where
  "indexOf [] b = None"
| "indexOf (c # s) b = (if c = b then Some 0 else map_option Suc (indexOf s b))"

lemma indexOf_bound: "indexOf s b = Some i \<Longrightarrow> i < length s"
  by (induction s b arbitrary: i rule: indexOf.induct) (auto split: if_splits)

text \<open>The final test on the first part returns the same list on both branches.\<close>

(* src: pkg/vc/watermark.go:151-178 splitSDJWT *)
function splitSDJWT :: "string \<Rightarrow> string list" where
  "splitSDJWT rest =
     (case indexOf rest (CHR ''~'') of
        None \<Rightarrow> if rest \<noteq> [] then [rest] else []
      | Some idx \<Rightarrow> take idx rest # splitSDJWT (drop (idx + 1) rest))"
  by pat_completeness auto
termination
  by (relation "measure length") (auto dest: indexOf_bound)

declare splitSDJWT.simps [simp del]

(* src: pkg/vc/watermark.go:135-149 ParseSDJWTClaims *)
definition ParseSDJWTClaims :: "json_decoder \<Rightarrow> string \<Rightarrow> (string \<times> json) list option" where
  "ParseSDJWTClaims J jwt =
     (let parts = splitSDJWT jwt in
      if length parts < 2 then None
      else case b64_decode (parts ! 1) of
        None \<Rightarrow> None
      | Some raw \<Rightarrow> Option.bind (J (string_of raw)) as_any_map)"

section \<open>Presenting with a watermark\<close>

(* src: pkg/vc/watermark.go:30-36 WatermarkRecord *)
record watermark_record =
  wr_PresentationID :: string
  wr_VerifierDID :: string
  wr_SubjectDID :: string
  wr_SchemaID :: string
  wr_IssuedAt :: instant

(* src: pkg/vc/watermark.go:233-233 presentationIDChars *)
definition presentationIDChars :: string where
  "presentationIDChars = ''ABCDEFGHIJKLMNOPQRSTUVWXYZabcdefghijklmnopqrstuvwxyz0123456789''"

(* src: pkg/vc/watermark.go:235-241 newPresentationID *)
definition newPresentationID :: "(nat \<Rightarrow> nat) \<Rightarrow> string" where
  "newPresentationID draw = map (\<lambda>i. presentationIDChars ! (draw i mod length presentationIDChars)) [0..<16]"

(* src: pkg/vc/watermark.go:48-63 SDJWTToken.PresentWithWatermark (disclosure) *)
definition watermark_disclosure :: "prims \<Rightarrow> instant \<Rightarrow> string \<Rightarrow> string \<Rightarrow> disclosure" where
  "watermark_disclosure P now presentationID verifierDID =
     \<lparr>di_Salt = b64_encode (take 16 (sha256 P (bytes_of (''watermark:'' @ presentationID)))), di_Key = ''_wm'',
      di_Value = JObj [(''pid'', JStr presentationID), (''vdid'', JStr verifierDID), (''ts'', JNum (unix now))]\<rparr>"

(* src: pkg/vc/watermark.go:45-100 SDJWTToken.PresentWithWatermark *)
definition PresentWithWatermark :: "prims \<Rightarrow> json_decoder \<Rightarrow> (nat \<Rightarrow> nat) \<Rightarrow> instant \<Rightarrow> sdjwt_token \<Rightarrow> string list \<Rightarrow> string
    \<Rightarrow> string \<times> watermark_record" where
  "PresentWithWatermark P J draw now t revealKeys verifierDID =
     (let presentationID = newPresentationID draw;
          wmEncoded = disc_Encode (watermark_disclosure P now presentationID verifierDID);
          base = sd_Present t revealKeys;
          presentation = (if base \<noteq> [] \<and> last base = CHR ''~'' then base @ wmEncoded @ ''~''
            else base @ ''~'' @ wmEncoded @ ''~'');
          schemaID = (case ParseSDJWTClaims J (st_JWT t) of
            Some claims \<Rightarrow> strOrEmpty (map_of claims ''vct'') | None \<Rightarrow> [])
      in (presentation, \<lparr>wr_PresentationID = presentationID, wr_VerifierDID = verifierDID, wr_SubjectDID = [],
            wr_SchemaID = schemaID, wr_IssuedAt = now\<rparr>))"

(* src: pkg/vc/watermark.go:227-231 appendKBJWT *)
definition appendKBJWT :: "string \<Rightarrow> byte list \<Rightarrow> string \<Rightarrow> string \<Rightarrow> string \<Rightarrow> string \<Rightarrow> string" where
  "appendKBJWT presentation holderKey kid nonce aud jwt = presentation"

(* src: pkg/vc/watermark.go:201-223 SDJWTToken.PresentWithWatermarkAndKeyBinding *)
definition PresentWithWatermarkAndKeyBinding :: "prims \<Rightarrow> json_decoder \<Rightarrow> (nat \<Rightarrow> nat) \<Rightarrow> instant \<Rightarrow> sdjwt_token
    \<Rightarrow> string list \<Rightarrow> byte list \<Rightarrow> string \<Rightarrow> string \<Rightarrow> string \<Rightarrow> string \<Rightarrow> string \<times> watermark_record" where
  "PresentWithWatermarkAndKeyBinding P J draw now t revealKeys holderKey kid nonce aud verifierDID =
     (let (presentation, rec) = PresentWithWatermark P J draw now t revealKeys verifierDID
      in (appendKBJWT presentation holderKey kid nonce aud (st_JWT t), rec))"

section \<open>Extracting it\<close>

(* src: pkg/vc/watermark.go:107-128 ExtractWatermark (one part) *)
definition watermark_of_part :: "json_decoder \<Rightarrow> string \<Rightarrow> (string \<times> string) option" where
  "watermark_of_part J part =
     (if part = [] then None
      else case b64_decode part of
        None \<Rightarrow> None
      | Some raw \<Rightarrow>
          (case Option.bind (J (string_of raw)) as_any_slice of
             None \<Rightarrow> None
           | Some arr \<Rightarrow>
               if length arr < 3 then None
               else if arr ! 1 \<noteq> JStr ''_wm'' then None
               else case any_map (Some (arr ! 2)) of
                 None \<Rightarrow> None
               | Some val \<Rightarrow> Some (strOrEmpty (map_of val ''pid''), strOrEmpty (map_of val ''vdid''))))"

(* src: pkg/vc/watermark.go:106-130 ExtractWatermark (loop) *)
fun extract_watermark_loop :: "json_decoder \<Rightarrow> string list \<Rightarrow> string \<times> string \<times> bool" where
  "extract_watermark_loop J [] = ([], [], False)"
| "extract_watermark_loop J (part # parts) =
     (case watermark_of_part J part of
        None \<Rightarrow> extract_watermark_loop J parts
      | Some (pid, vdid) \<Rightarrow> (pid, vdid, True))"

(* src: pkg/vc/watermark.go:104-131 ExtractWatermark *)
definition ExtractWatermark :: "json_decoder \<Rightarrow> string \<Rightarrow> (string \<times> string \<times> bool) option" where
  "ExtractWatermark J presentation =
     (let parts = splitSDJWT presentation
      in if length parts < 1 then None else Some (extract_watermark_loop J (tl parts)))"

section \<open>The watermark can be traced\<close>

lemma indexOf_append: "b \<notin> set a \<Longrightarrow> indexOf (a @ b # s) b = Some (length a)"
  by (induction a) auto

lemma indexOf_None: "b \<notin> set s \<Longrightarrow> indexOf s b = None"
  by (induction s) auto

lemma splitSDJWT_cons: "CHR ''~'' \<notin> set a \<Longrightarrow> splitSDJWT (a @ CHR ''~'' # s) = a # splitSDJWT s"
  by (subst splitSDJWT.simps) (simp add: indexOf_append)

lemma splitSDJWT_end: "CHR ''~'' \<notin> set s \<Longrightarrow> splitSDJWT s = (if s = [] then [] else [s])"
  by (subst splitSDJWT.simps) (simp add: indexOf_None)

lemma splitSDJWT_join:
  "ws \<noteq> [] \<Longrightarrow> \<forall>w\<in>set ws. CHR ''~'' \<notin> set w \<Longrightarrow> splitSDJWT (join ''~'' ws @ ''~'') = ws"
proof (induction "''~''" ws rule: join.induct)
  case (2 w)
  then show ?case by (simp add: splitSDJWT_cons splitSDJWT_end)
next
  case (3 w v vs)
  then show ?case using splitSDJWT_cons [of w] by simp
qed simp

lemma serializeWith_snoc: "serializeWith t ds @ disc_Encode d @ ''~'' = serializeWith t (ds @ [d])"
proof -
  have "join ''~'' ws @ ''~'' @ w = join ''~'' (ws @ [w])" if "ws \<noteq> []" for ws w
    using that by (induction "''~''" ws rule: join.induct) auto
  from this [of "st_JWT t # map disc_Encode ds" "disc_Encode d"] show ?thesis
    by (simp add: serializeWith_def)
qed

lemma PresentWithWatermark_presentation:
  "fst (PresentWithWatermark P J draw now t keys v) = serializeWith t
     (filter (\<lambda>d. di_Key d \<in> set keys) (st_Disclosures t) @ [watermark_disclosure P now (newPresentationID draw) v])"
proof -
  have "serializeWith t ds \<noteq> [] \<and> last (serializeWith t ds) = CHR ''~''" for ds
    by (simp add: serializeWith_def)
  then show ?thesis by (simp add: PresentWithWatermark_def Let_def sd_Present_def serializeWith_snoc)
qed

lemma watermark_of_disclosure:
  assumes "decodes J"
  shows "watermark_of_part J (disc_Encode d) = (if di_Key d \<noteq> ''_wm'' then None
     else map_option (\<lambda>val. (strOrEmpty (map_of val ''pid''), strOrEmpty (map_of val ''vdid'')))
       (any_map (Some (json_canonical (di_Value d)))))"
proof -
  let ?arr = "[JStr (di_Salt d), JStr (di_Key d), json_canonical (di_Value d)]"
  obtain raw where raw: "b64_decode (disc_Encode d) = Some raw" "J (string_of raw) = Some (JArr ?arr)"
    using assms by (simp add: disc_Encode_def decodes_def del: json_marshal.simps)
  show ?thesis by (simp add: watermark_of_part_def raw numeral_2_eq_2 split: option.split)
qed

text \<open>The watermark of a presentation can be read back: whatever claims are revealed, \<open>ExtractWatermark\<close> finds the
  presentation id of the record and the verifier the presentation was made for.\<close>

theorem watermark_traced:
  assumes "decodes J" "CHR ''~'' \<notin> set (st_JWT t)" "''_wm'' \<notin> di_Key ` set (st_Disclosures t)"
    and "PresentWithWatermark P J draw now t keys verifierDID = (presentation, rec)"
  shows "ExtractWatermark J presentation = Some (wr_PresentationID rec, verifierDID, True) \<and>
    wr_VerifierDID rec = verifierDID"
proof -
  let ?wm = "watermark_disclosure P now (newPresentationID draw) verifierDID"
  let ?ds = "filter (\<lambda>d. di_Key d \<in> set keys) (st_Disclosures t)"
  have p: "presentation = serializeWith t (?ds @ [?wm])"
    using PresentWithWatermark_presentation [of P J draw now t keys verifierDID] assms(4) by simp
  have "\<forall>w\<in>set (st_JWT t # map disc_Encode (?ds @ [?wm])). CHR ''~'' \<notin> set w" using assms(2) by auto
  then have s: "splitSDJWT presentation = st_JWT t # map disc_Encode (?ds @ [?wm])"
    unfolding p serializeWith_def by (intro splitSDJWT_join) simp_all
  have "extract_watermark_loop J (map disc_Encode ds @ [disc_Encode ?wm]) = (newPresentationID draw, verifierDID, True)"
    if "''_wm'' \<notin> di_Key ` set ds" for ds
    using that
  proof (induction ds)
    case Nil
    show ?case
      by (simp add: watermark_of_disclosure [OF assms(1)] watermark_disclosure_def any_map_def strOrEmpty_def)
  next
    case (Cons d ds)
    then show ?case by (auto simp: watermark_of_disclosure [OF assms(1)])
  qed
  moreover have "''_wm'' \<notin> di_Key ` set ?ds" using assms(3) by auto
  ultimately have "extract_watermark_loop J (map disc_Encode ?ds @ [disc_Encode ?wm]) =
      (newPresentationID draw, verifierDID, True)" by blast
  then have "ExtractWatermark J presentation = Some (newPresentationID draw, verifierDID, True)"
    by (simp add: ExtractWatermark_def s)
  moreover have "wr_PresentationID rec = newPresentationID draw \<and> wr_VerifierDID rec = verifierDID"
    using assms(4) by (auto simp: PresentWithWatermark_def Let_def)
  ultimately show ?thesis by simp
qed

section \<open>A watermarked presentation does not verify\<close>

lemma check_disclosures_digests:
  assumes "check_disclosures P J digests (xs @ disc_Encode d # ys) acc = Inr out" "decodes J"
  shows "disc_Digest P d \<in> set digests"
  using assms(1)
  by (induction xs arbitrary: acc) (auto simp: ParseDisclosure_Encode [OF assms(2)] split: sum.splits if_splits)

text \<open>The verifier refuses every watermarked presentation of an issued token: the issuer did not hash the watermark
  disclosure into the token, so the check of the digests fails, whatever nonce and audience are expected.  The two
  hypotheses on the hash say that SHA-256 does not collide on the watermark and an issued disclosure.\<close>

theorem watermark_refused:
  assumes "decodes J" "IssueSDJWT P reg rs t0 opts = Inr tok"
    and "''_sd'' \<notin> fst ` set (so_AlwaysVisibleClaims opts)" "''_wm'' \<notin> fst ` set (so_SelectiveClaims opts)"
    and "\<forall>d\<in>set (st_Disclosures tok).
      let e = disc_Encode (watermark_disclosure P t1 (newPresentationID draw) verifierDID) in
      disc_Encode d \<noteq> e \<longrightarrow> sha256 P (bytes_of (disc_Encode d)) \<noteq> sha256 P (bytes_of e)"
  shows "\<exists>e. sd_Verify P J E resolve now (fst (PresentWithWatermark P J draw t1 tok keys verifierDID)) nonce aud = Inl e"
proof (rule ccontr)
  let ?wm = "watermark_disclosure P t1 (newPresentationID draw) verifierDID"
  let ?ds = "filter (\<lambda>d. di_Key d \<in> set keys) (st_Disclosures tok)"
  assume "\<not> ?thesis"
  then obtain r where v: "sd_Verify P J E resolve now (serializeWith tok (?ds @ [?wm])) nonce aud = Inr r"
    unfolding PresentWithWatermark_presentation
    by (cases "sd_Verify P J E resolve now (serializeWith tok (?ds @ [?wm])) nonce aud") blast+
  obtain vct m where c: "map (\<lambda>d. (di_Key d, di_Value d)) (st_Disclosures tok) = so_SelectiveClaims opts"
    and p: "parseSDJWTPayload J (st_JWT tok) = Inr m"
    and m: "\<And>k. map_of m k = map_option json_canonical
      (map_of (sdjwt_payload P t0 opts (lifetime opts) vct (st_Disclosures tok)) k)"
    using IssueSDJWT_token [OF assms(2,1)] by blast
  have "map_of m ''_sd'' = Some (json_strs (map (disc_Digest P) (st_Disclosures tok)))"
    by (simp add: m sdjwt_payload_member [OF assms(3)] canonical_strs)
  then have dg: "sd_digests m = map (disc_Digest P) (st_Disclosures tok)" by (rule sd_digests_strs)
  note parsed = ParseSDJWT_serialize(1) [OF IssueSDJWT_no_tilde [OF assms(2)]]
  have "check_disclosures P J (sd_digests m) (map disc_Encode ?ds @ disc_Encode ?wm # []) [] = Inr (sr_DisclosedClaims r)"
  proof (rule sd_Verify_Inr [OF v])
    fix q m' assume q: "ParseSDJWT (serializeWith tok (?ds @ [?wm])) = Inr q" and m': "parseSDJWTPayload J (ps_JWT q) = Inr m'"
      and c: "check_disclosures P J (sd_digests m') (ps_Disclosures q) [] = Inr (sr_DisclosedClaims r)"
    from q have q: "q = \<lparr>ps_JWT = st_JWT tok, ps_Disclosures = map disc_Encode (?ds @ [?wm]), ps_KBToken = []\<rparr>"
      by (simp only: parsed sum.inject)
    with m' p have "m' = m" by simp
    with c q show ?thesis by simp
  qed
  from check_disclosures_digests [OF this assms(1)] obtain d where d: "d \<in> set (st_Disclosures tok)"
    and h: "disc_Digest P d = disc_Digest P ?wm" unfolding dg by auto
  from h have "disc_Encode d = disc_Encode ?wm" using assms(5) d by (auto simp: disc_Digest_def Let_def)
  from disc_Encode_key [OF this] have "di_Key d = ''_wm''" by (simp add: watermark_disclosure_def)
  moreover have "(di_Key d, di_Value d) \<in> set (so_SelectiveClaims opts)" using d unfolding c [symmetric] by auto
  ultimately show False using assms(4) by force
qed

text \<open>The combined path adds no key binding: \<open>PresentWithWatermarkAndKeyBinding\<close> returns the watermarked presentation
  unchanged, for every key, nonce and audience.\<close>

theorem watermark_key_binding_absent:
  "PresentWithWatermarkAndKeyBinding P J draw now t keys holderKey kid nonce aud verifierDID =
     PresentWithWatermark P J draw now t keys verifierDID"
  by (simp add: PresentWithWatermarkAndKeyBinding_def appendKBJWT_def split: prod.split)

section \<open>Witnesses\<close>

theorem watermark_traced_witness:
  "\<exists>tok p rec. IssueSDJWT demo_prims demo_registry [Some (\<lambda>i. 1), Some (\<lambda>i. 2)] 0 demo_sd_opts = Inr tok \<and>
     PresentWithWatermark demo_prims json_read (\<lambda>i. i) 0 tok [''name''] ''did:web:v'' = (p, rec) \<and>
     ExtractWatermark json_read p = Some (wr_PresentationID rec, ''did:web:v'', True)"
proof -
  obtain tok where t: "IssueSDJWT demo_prims demo_registry [Some (\<lambda>i. 1), Some (\<lambda>i. 2)] 0 demo_sd_opts = Inr tok"
    using demo_sd_issue by blast
  have "map (\<lambda>d. (di_Key d, di_Value d)) (st_Disclosures tok) = so_SelectiveClaims demo_sd_opts"
    using IssueSDJWT_token [OF t decodes_json_read] by blast
  from arg_cong [OF this, of "map fst"] have "map di_Key (st_Disclosures tok) = [''name'', ''dob'']"
    by (simp add: comp_def demo_sd_opts_simps)
  then have "''_wm'' \<notin> set (map di_Key (st_Disclosures tok))" by simp
  then have w: "''_wm'' \<notin> di_Key ` set (st_Disclosures tok)" by simp
  obtain p rec where "PresentWithWatermark demo_prims json_read (\<lambda>i. i) 0 tok [''name''] ''did:web:v'' = (p, rec)"
    by (metis surj_pair)
  with watermark_traced [OF decodes_json_read IssueSDJWT_no_tilde [OF t] w this] t show ?thesis by blast
qed

theorem watermark_refused_witness:
  "\<exists>tok e. IssueSDJWT demo_prims demo_registry [Some (\<lambda>i. 1), Some (\<lambda>i. 2)] 0 demo_sd_opts = Inr tok \<and>
     sd_Verify demo_prims json_read demo_vc_env demo_sd_resolve hour
       (fst (PresentWithWatermark demo_prims json_read (\<lambda>i. i) 0 tok [''name''] ''did:web:v'')) [] [] = Inl e"
proof -
  obtain tok where t: "IssueSDJWT demo_prims demo_registry [Some (\<lambda>i. 1), Some (\<lambda>i. 2)] 0 demo_sd_opts = Inr tok"
    using demo_sd_issue by blast
  have "\<exists>e. sd_Verify demo_prims json_read demo_vc_env demo_sd_resolve hour
       (fst (PresentWithWatermark demo_prims json_read (\<lambda>i. i) 0 tok [''name''] ''did:web:v'')) [] [] = Inl e"
    by (rule watermark_refused [OF decodes_json_read t]) (simp_all add: demo_sd_opts_simps Let_def demo_prims_def)
  with t show ?thesis by blast
qed

end
