(* ===== verification/Trust.thy ===== *)
theory Trust
  imports Jwt Go_Time
begin

text \<open>
  Trust between services, \<^verbatim>\<open>src/pkg/trust\<close>: signed permits (\<^verbatim>\<open>permit.go\<close>), reputation credentials, trust levels and
  the DNS form of a reputation (\<^verbatim>\<open>reputation.go\<close>).  \<^verbatim>\<open>time.Parse\<close> and the DNS lookup are arguments.
\<close>

section \<open>Permits\<close>

(* src: pkg/trust/permit.go:21-36 Permit *)
record permit =
  pt_Issuer :: string
  pt_Subject :: string
  pt_Audience :: string
  pt_Action :: string
  pt_IssuedAt :: int
  pt_ExpiresAt :: int
  pt_JTI :: string

datatype permit_error =
    PermitParts | PermitDecodePayload | PermitUnmarshal | PermitDecodeSignature | PermitMalformed
  | PermitSignature | PermitExpired | PermitAudience string string | PermitAction string string

(* src: pkg/trust/permit.go:21-36 Permit (JSON) *)
definition permit_json :: "permit \<Rightarrow> json" where
  "permit_json p = JObj ([(''iss'', JStr (pt_Issuer p)), (''sub'', JStr (pt_Subject p)), (''aud'', JStr (pt_Audience p)),
     (''action'', JStr (pt_Action p)), (''iat'', JNum (pt_IssuedAt p)), (''exp'', JNum (pt_ExpiresAt p))] @
     jopt ''jti'' (pt_JTI p))"

(* src: pkg/trust/permit.go:109-112 parsePermitToken (decoding) *)
definition permit_of :: "json \<Rightarrow> permit option" where
  "permit_of v =
     (if \<not> as_struct v then None
      else case (as_string (member v ''iss''), as_string (member v ''sub''), as_string (member v ''aud''),
                 as_string (member v ''action'')) of
        (Some iss, Some sub, Some aud, Some action) \<Rightarrow>
          (case (as_int64 (member v ''iat''), as_int64 (member v ''exp''), as_string (member v ''jti'')) of
             (Some iat, Some exp, Some jti) \<Rightarrow>
               Some \<lparr>pt_Issuer = iss, pt_Subject = sub, pt_Audience = aud, pt_Action = action, pt_IssuedAt = iat,
                 pt_ExpiresAt = exp, pt_JTI = jti\<rparr>
           | _ \<Rightarrow> None)
      | _ \<Rightarrow> None)"

text \<open>The header is a literal of the source.\<close>

(* src: pkg/trust/permit.go:88-98 signPermit *)
definition signPermit :: "prims \<Rightarrow> permit \<Rightarrow> byte list \<Rightarrow> string" where
  "signPermit P p key =
     (let header = b64_encode (bytes_of (json_marshal (json_str_obj [(''alg'', ''EdDSA''), (''typ'', ''tpt-permit'')])));
          payloadB64 = b64_encode (bytes_of (json_marshal (permit_json p)));
          sigInput = header @ ''.'' @ payloadB64;
          sig = ed_sign P key (bytes_of sigInput)
      in sigInput @ ''.'' @ b64_encode sig)"

(* src: pkg/trust/permit.go:39-57 IssuePermit *)
definition IssuePermit :: "prims \<Rightarrow> instant \<Rightarrow> string \<Rightarrow> byte list \<Rightarrow> string \<Rightarrow> string \<Rightarrow> string \<Rightarrow> duration \<Rightarrow> string \<Rightarrow> string" where
  "IssuePermit P now issuerDID issuerKey subjectDID audienceDID action ttl jti =
     signPermit P \<lparr>pt_Issuer = issuerDID, pt_Subject = subjectDID, pt_Audience = audienceDID, pt_Action = action,
       pt_IssuedAt = unix now, pt_ExpiresAt = unix (now + ttl), pt_JTI = jti\<rparr> issuerKey"

(* src: pkg/trust/permit.go:100-118 parsePermitToken *)
definition parsePermitToken :: "json_decoder \<Rightarrow> string \<Rightarrow> permit_error + permit \<times> byte list" where
  "parsePermitToken J token =
     (let parts = split_n 3 (CHR ''.'') token in
      if length parts \<noteq> 3 then Inl PermitParts
      else case b64_decode (parts ! 1) of
        None \<Rightarrow> Inl PermitDecodePayload
      | Some payloadBytes \<Rightarrow>
          (case Option.bind (J (string_of payloadBytes)) permit_of of
             None \<Rightarrow> Inl PermitUnmarshal
           | Some p \<Rightarrow>
               (case b64_decode (parts ! 2) of
                  None \<Rightarrow> Inl PermitDecodeSignature
                | Some sig \<Rightarrow> Inr (p, sig))))"

(* src: pkg/trust/permit.go:61-85 VerifyPermit *)
definition VerifyPermit :: "prims \<Rightarrow> json_decoder \<Rightarrow> instant \<Rightarrow> string \<Rightarrow> byte list \<Rightarrow> string \<Rightarrow> string \<Rightarrow> permit_error + permit" where
  "VerifyPermit P J now token issuerPub expectedAudience expectedAction =
     (case parsePermitToken J token of
        Inl e \<Rightarrow> Inl e
      | Inr (p, sig) \<Rightarrow>
          (case last_index token ''.'' of
             None \<Rightarrow> Inl PermitMalformed
           | Some dot \<Rightarrow>
               if \<not> ed_verify P issuerPub (bytes_of (take dot token)) sig then Inl PermitSignature
               else if unix now > pt_ExpiresAt p then Inl PermitExpired
               else if expectedAudience \<noteq> [] \<and> pt_Audience p \<noteq> expectedAudience
                 then Inl (PermitAudience (pt_Audience p) expectedAudience)
               else if expectedAction \<noteq> [] \<and> pt_Action p \<noteq> expectedAction
                 then Inl (PermitAction (pt_Action p) expectedAction)
               else Inr p))"

section \<open>Reputation credentials\<close>

(* src: pkg/trust/reputation.go:22-33 ReputationRecord *)
record reputation_record =
  re_Domain :: string
  re_Score :: int
  re_Tier :: string
  re_Since :: string
  re_Raw :: string

(* src: pkg/trust/reputation.go:38-38 ReputationVCType *)
definition ReputationVCType :: string where
  "ReputationVCType = ''TptReputationCredential''"

(* src: pkg/trust/reputation.go:52-57 reputationSubject *)
record reputation_subject =
  rs_ID :: string
  rs_Score :: int
  rs_Tier :: string
  rs_Since :: string

(* src: pkg/trust/reputation.go:59-66 reputationProof *)
record reputation_proof =
  rp_Type :: string
  rp_Cryptosuite :: string
  rp_Created :: string
  rp_VerificationMethod :: string
  rp_ProofPurpose :: string
  rp_ProofValue :: string

(* src: pkg/trust/reputation.go:41-50 reputationVC *)
record reputation_vc =
  rv_Context :: "string list"
  rv_ID :: string
  rv_Type :: "string list"
  rv_Issuer :: string
  rv_ValidFrom :: string
  rv_ValidUntil :: string
  rv_CredentialSubject :: reputation_subject
  rv_Proof :: "reputation_proof option"

datatype reputation_error =
    RepScore int | RepUnmarshal | RepType | RepNoProof | RepParseUntil | RepExpired | RepDecodeProof | RepSignature
  | RepLookup string

(* src: pkg/trust/reputation.go:52-57 reputationSubject (JSON) *)
definition rep_subject_json :: "reputation_subject \<Rightarrow> json" where
  "rep_subject_json s = JObj [(''id'', JStr (rs_ID s)), (''score'', JNum (rs_Score s)), (''tier'', JStr (rs_Tier s)),
     (''since'', JStr (rs_Since s))]"

(* src: pkg/trust/reputation.go:59-66 reputationProof (JSON) *)
definition rep_proof_json :: "reputation_proof \<Rightarrow> json" where
  "rep_proof_json p = JObj [(''type'', JStr (rp_Type p)), (''cryptosuite'', JStr (rp_Cryptosuite p)),
     (''created'', JStr (rp_Created p)), (''verificationMethod'', JStr (rp_VerificationMethod p)),
     (''proofPurpose'', JStr (rp_ProofPurpose p)), (''proofValue'', JStr (rp_ProofValue p))]"

(* src: pkg/trust/reputation.go:41-50 reputationVC (JSON) *)
definition rep_vc_json :: "reputation_vc \<Rightarrow> json" where
  "rep_vc_json c = JObj ([(''@context'', json_strs (rv_Context c)), (''id'', JStr (rv_ID c)), (''type'', json_strs (rv_Type c)),
     (''issuer'', JStr (rv_Issuer c)), (''validFrom'', JStr (rv_ValidFrom c))] @ jopt ''validUntil'' (rv_ValidUntil c) @
     [(''credentialSubject'', rep_subject_json (rv_CredentialSubject c))] @
     (case rv_Proof c of None \<Rightarrow> [] | Some p \<Rightarrow> [(''proof'', rep_proof_json p)]))"

(* src: pkg/trust/reputation.go:52-57 reputationSubject (decoding) *)
definition rep_subject_of :: "json \<Rightarrow> reputation_subject option" where
  "rep_subject_of v =
     (if \<not> as_struct v then None
      else case (as_string (member v ''id''), as_int64 (member v ''score''), as_string (member v ''tier''),
                 as_string (member v ''since'')) of
        (Some i, Some n, Some t, Some s) \<Rightarrow> Some \<lparr>rs_ID = i, rs_Score = n, rs_Tier = t, rs_Since = s\<rparr>
      | _ \<Rightarrow> None)"

(* src: pkg/trust/reputation.go:59-66 reputationProof (decoding) *)
definition rep_proof_of :: "json \<Rightarrow> reputation_proof option option" where
  "rep_proof_of v =
     (if v = JNull then Some None
      else if \<not> as_struct v then None
      else case (as_string (member v ''type''), as_string (member v ''cryptosuite''), as_string (member v ''created''),
                 as_string (member v ''verificationMethod'')) of
        (Some t, Some c, Some d, Some m) \<Rightarrow>
          (case (as_string (member v ''proofPurpose''), as_string (member v ''proofValue'')) of
             (Some u, Some w) \<Rightarrow>
               Some (Some \<lparr>rp_Type = t, rp_Cryptosuite = c, rp_Created = d, rp_VerificationMethod = m,
                 rp_ProofPurpose = u, rp_ProofValue = w\<rparr>)
           | _ \<Rightarrow> None)
      | _ \<Rightarrow> None)"

(* src: pkg/trust/reputation.go:41-50 reputationVC (decoding) *)
definition rep_vc_of :: "json \<Rightarrow> reputation_vc option" where
  "rep_vc_of v =
     (if \<not> as_struct v then None
      else case (as_strings (member v ''@context''), as_string (member v ''id''), as_strings (member v ''type''),
                 as_string (member v ''issuer'')) of
        (Some ctx, Some i, Some ty, Some iss) \<Rightarrow>
          (case (as_string (member v ''validFrom''), as_string (member v ''validUntil''),
                 rep_subject_of (member v ''credentialSubject''), rep_proof_of (member v ''proof'')) of
             (Some fr, Some un, Some sub, Some pf) \<Rightarrow>
               Some \<lparr>rv_Context = ctx, rv_ID = i, rv_Type = ty, rv_Issuer = iss, rv_ValidFrom = fr, rv_ValidUntil = un,
                 rv_CredentialSubject = sub, rv_Proof = pf\<rparr>
           | _ \<Rightarrow> None)
      | _ \<Rightarrow> None)"

(* src: pkg/trust/reputation.go:181-198 reputationSignInput *)
definition reputationSignInput :: "reputation_proof \<Rightarrow> reputation_vc \<Rightarrow> byte list \<times> byte list" where
  "reputationSignInput p doc =
     (let opts = json_str_obj [(''type'', rp_Type p), (''cryptosuite'', rp_Cryptosuite p), (''created'', rp_Created p),
            (''verificationMethod'', rp_VerificationMethod p), (''proofPurpose'', rp_ProofPurpose p)]
      in (JCS opts, JCS (rep_vc_json doc)))"

(* src: pkg/trust/reputation.go:200-207 sliceContains *)
fun sliceContains :: "string list \<Rightarrow> string \<Rightarrow> bool" where
  "sliceContains [] v = False"
| "sliceContains (item # s) v = (if item = v then True else sliceContains s v)"

(* src: pkg/trust/reputation.go:83-99 IssueReputationVC (credential) *)
definition reputation_credential :: "string \<Rightarrow> instant \<Rightarrow> string \<Rightarrow> string \<Rightarrow> reputation_record \<Rightarrow> duration \<Rightarrow> reputation_vc" where
  "reputation_credential uuid now authorityDID subjectDID rec validFor =
     \<lparr>rv_Context = [''https://www.w3.org/ns/credentials/v2'', ''https://tpt.nz/ns/trust/v1''],
      rv_ID = ''urn:uuid:'' @ uuid, rv_Type = [''VerifiableCredential'', ReputationVCType], rv_Issuer = authorityDID,
      rv_ValidFrom = rfc3339 now, rv_ValidUntil = (if validFor \<noteq> 0 then rfc3339 (now + validFor) else []),
      rv_CredentialSubject = \<lparr>rs_ID = subjectDID, rs_Score = re_Score rec, rs_Tier = re_Tier rec, rs_Since = re_Since rec\<rparr>,
      rv_Proof = None\<rparr>"

(* src: pkg/trust/reputation.go:72-126 IssueReputationVC *)
definition IssueReputationVC :: "prims \<Rightarrow> string \<Rightarrow> instant \<Rightarrow> string \<Rightarrow> byte list \<Rightarrow> string \<Rightarrow> string \<Rightarrow> reputation_record
    \<Rightarrow> duration \<Rightarrow> reputation_error + byte list" where
  "IssueReputationVC P uuid now authorityDID authorityKey vmid subjectDID rec validFor =
     (if re_Score rec < 0 \<or> re_Score rec > 100 then Inl (RepScore (re_Score rec))
      else
        let cred = reputation_credential uuid now authorityDID subjectDID rec validFor;
            pf = \<lparr>rp_Type = ''DataIntegrityProof'', rp_Cryptosuite = ''eddsa-jcs-2022'', rp_Created = rfc3339 now,
              rp_VerificationMethod = vmid, rp_ProofPurpose = ''assertionMethod'', rp_ProofValue = []\<rparr>;
            (proofOptionsBytes, documentBytes) = reputationSignInput pf cred;
            sig = ed_sign P authorityKey (sha256 P proofOptionsBytes @ sha256 P documentBytes)
        in Inr (bytes_of (json_marshal (rep_vc_json (cred\<lparr>rv_Proof := Some (pf\<lparr>rp_ProofValue := b64_encode sig\<rparr>)\<rparr>)))))"

(* src: pkg/trust/reputation.go:131-177 VerifyReputationVC *)
definition VerifyReputationVC :: "prims \<Rightarrow> json_decoder \<Rightarrow> (string \<Rightarrow> instant option) \<Rightarrow> instant \<Rightarrow> byte list \<Rightarrow> byte list
    \<Rightarrow> reputation_error + reputation_record" where
  "VerifyReputationVC P J parse_time now credJSON authorityPub =
     (case Option.bind (J (string_of credJSON)) rep_vc_of of
        None \<Rightarrow> Inl RepUnmarshal
      | Some cred \<Rightarrow>
          if \<not> sliceContains (rv_Type cred) ReputationVCType then Inl RepType
          else case rv_Proof cred of
            None \<Rightarrow> Inl RepNoProof
          | Some pf \<Rightarrow>
              (case (if rv_ValidUntil cred \<noteq> [] then
                       (case parse_time (rv_ValidUntil cred) of
                          None \<Rightarrow> Inl RepParseUntil
                        | Some exp \<Rightarrow> if now > exp then Inl RepExpired else Inr ())
                     else Inr ()) of
                 Inl e \<Rightarrow> Inl e
               | Inr _ \<Rightarrow>
                   let (proofOptionsBytes, documentBytes) = reputationSignInput pf (cred\<lparr>rv_Proof := None\<rparr>) in
                   (case b64_decode (rp_ProofValue pf) of
                      None \<Rightarrow> Inl RepDecodeProof
                    | Some sig \<Rightarrow>
                        if \<not> ed_verify P authorityPub (sha256 P proofOptionsBytes @ sha256 P documentBytes) sig
                          then Inl RepSignature
                        else let s = rv_CredentialSubject cred in
                          Inr \<lparr>re_Domain = rs_ID s, re_Score = rs_Score s, re_Tier = rs_Tier s, re_Since = rs_Since s,
                            re_Raw = []\<rparr>)))"

section \<open>Trust levels\<close>

(* src: pkg/trust/reputation.go:212-220 TrustLevel *)
datatype trust_level = TrustUnknown | TrustRestricted | TrustProvisional | TrustVerified | TrustTrusted

(* src: pkg/trust/reputation.go:222-235 TrustLevel.String *)
fun trust_level_String :: "trust_level \<Rightarrow> string" where
  "trust_level_String TrustRestricted = ''restricted''"
| "trust_level_String TrustProvisional = ''provisional''"
| "trust_level_String TrustVerified = ''verified''"
| "trust_level_String TrustTrusted = ''trusted''"
| "trust_level_String TrustUnknown = ''unknown''"

(* src: pkg/trust/reputation.go:238-252 Level *)
definition Level :: "reputation_record option \<Rightarrow> trust_level" where
  "Level r = (case r of
     None \<Rightarrow> TrustUnknown
   | Some r \<Rightarrow>
       if re_Score r < 0 then TrustUnknown
       else if re_Score r \<ge> 85 then TrustTrusted
       else if re_Score r \<ge> 60 then TrustVerified
       else if re_Score r \<ge> 25 then TrustProvisional
       else TrustRestricted)"

section \<open>DNS records\<close>

(* src: pkg/trust/reputation.go:297-312 parseReputationTXT (one field) *)
definition txt_field :: "string \<Rightarrow> reputation_record \<Rightarrow> reputation_record" where
  "txt_field f rec =
     (case str_cut (CHR ''='') f of
        None \<Rightarrow> rec
      | Some (k, v) \<Rightarrow>
          if k = ''score'' then
            (case atoi v of Some n \<Rightarrow> if 0 \<le> n \<and> n \<le> 100 then rec\<lparr>re_Score := n\<rparr> else rec | None \<Rightarrow> rec)
          else if k = ''tier'' then rec\<lparr>re_Tier := v\<rparr>
          else if k = ''since'' then rec\<lparr>re_Since := v\<rparr>
          else rec)"

(* src: pkg/trust/reputation.go:291-314 parseReputationTXT *)
definition parseReputationTXT :: "string \<Rightarrow> string \<Rightarrow> reputation_record option" where
  "parseReputationTXT domain txt =
     (let fs = Go_Prelude.fields txt in
      if fs = [] \<or> hd fs \<noteq> ''v=tpt1'' then None
      else Some (fold txt_field (tl fs)
        \<lparr>re_Domain = domain, re_Score = -1, re_Tier = [], re_Since = [], re_Raw = txt\<rparr>))"

(* src: pkg/trust/reputation.go:316-324 isDNSNoRecord *)
definition isDNSNoRecord :: "string \<Rightarrow> bool" where
  "isDNSNoRecord msg \<longleftrightarrow> str_contains msg ''no such host'' \<or> str_contains msg ''NXDOMAIN'' \<or> str_contains msg ''no answer''"

(* src: pkg/trust/reputation.go:282-288 LookupReputation (loop) *)
fun first_record :: "string \<Rightarrow> string list \<Rightarrow> reputation_record option" where
  "first_record domain [] = None"
| "first_record domain (r # rs) = (case parseReputationTXT domain r of None \<Rightarrow> first_record domain rs | Some rec \<Rightarrow> Some rec)"

(* src: pkg/trust/reputation.go:266-289 LookupReputation *)
definition LookupReputation :: "(string \<Rightarrow> string + string list) \<Rightarrow> string \<Rightarrow> reputation_error + reputation_record option" where
  "LookupReputation lookup_txt domain =
     (let host = ''_tpt-rep.'' @ trim_suffix domain ''.'' in
      case lookup_txt host of
        Inl msg \<Rightarrow> if isDNSNoRecord msg then Inr None else Inl (RepLookup host)
      | Inr records \<Rightarrow> Inr (first_record domain records))"

section \<open>Permits: lemmas\<close>

lemma permit_of_json:
  assumes "int64 (pt_IssuedAt p)" "int64 (pt_ExpiresAt p)"
  shows "permit_of (permit_json p) = Some p"
proof -
  let ?v = "permit_json p"
  have m: "member ?v ''iss'' = JStr (pt_Issuer p)" "member ?v ''sub'' = JStr (pt_Subject p)"
    "member ?v ''aud'' = JStr (pt_Audience p)" "member ?v ''action'' = JStr (pt_Action p)"
    "member ?v ''iat'' = JNum (pt_IssuedAt p)" "member ?v ''exp'' = JNum (pt_ExpiresAt p)"
    "as_string (member ?v ''jti'') = Some (pt_JTI p)"
    by (simp_all add: permit_json_def member_def rev_jopt find_jopt find_append to_lower_simps)
  have "as_struct ?v" by (simp add: permit_json_def as_struct_def)
  with m assms show ?thesis by (simp add: permit_of_def int64_def)
qed

lemma parsePermitToken_parts:
  assumes "parsePermitToken J token = Inr (p, sig)"
  obtains h pl sg raw v where "token = h @ ''.'' @ pl @ ''.'' @ sg" "CHR ''.'' \<notin> set sg" "b64_decode pl = Some raw"
    "J (string_of raw) = Some v" "permit_of v = Some p" "b64_decode sg = Some sig"
proof -
  let ?parts = "split_n 3 (CHR ''.'') token"
  from assms have l: "length ?parts = 3" by (auto simp: parsePermitToken_def Let_def split: if_splits)
  then obtain h pl sg where s: "?parts = [h, pl, sg]" by (auto simp: numeral_3_eq_3 length_Suc_conv)
  from assms obtain raw v where r: "b64_decode pl = Some raw" "J (string_of raw) = Some v" "permit_of v = Some p"
    and sg: "b64_decode sg = Some sig"
    by (auto simp: parsePermitToken_def Let_def s numeral_2_eq_2 bind_eq_Some_conv split: option.splits)
  have "CHR ''.'' \<notin> set sg"
  proof
    assume "CHR ''.'' \<in> set sg"
    then have "CHR ''.'' \<in> set (filter (\<lambda>c. c \<noteq> CHR 0x0A \<and> c \<noteq> CHR 0x0D) sg)" by simp
    moreover have "b64_val (CHR ''.'') = None" by (simp add: b64_val_def)
    moreover have "opt_list (map b64_val xs) = None" if "c \<in> set xs" "b64_val c = None" for c xs
      using that by (induction xs) (auto split: option.splits)
    ultimately have "b64_decode sg = None" by (simp only: b64_decode_def Option.bind.bind_lzero)
    with sg show False by simp
  qed
  with that r sg split_n_3D [OF s] show thesis by simp
qed

lemma last_index_dot: "CHR ''.'' \<notin> set t \<Longrightarrow> last_index (s @ ''.'' @ t) ''.'' = Some (length s)"
  using last_index_hit [of "CHR ''.''" "[]" t s] by simp

lemma parsePermitToken_sign:
  assumes "decodes J" "int64 (pt_IssuedAt p)" "int64 (pt_ExpiresAt p)"
  shows "parsePermitToken J (signPermit P p key) = Inr (p, ed_sign P key (bytes_of (
    b64_encode (bytes_of (json_marshal (json_str_obj [(''alg'', ''EdDSA''), (''typ'', ''tpt-permit'')]))) @ ''.'' @
    b64_encode (bytes_of (json_marshal (permit_json p))))))"
  using assms by (simp add: parsePermitToken_def signPermit_def Let_def split_n_3 decodes_def permit_of_json numeral_2_eq_2)

text \<open>A permit that \<open>IssuePermit\<close> signed is accepted by \<open>VerifyPermit\<close> under the signer's public key until it expires,
  by the audience and for the action it names, and carries what was signed.  The issuer in it is whatever string the
  signer wrote: nothing compares it with the key.\<close>

theorem permit_roundtrip:
  assumes "signatures_ok P" "decodes J" "int64 (unix t0)" "int64 (unix (t0 + ttl))" "unix now \<le> unix (t0 + ttl)"
    and "expectedAudience \<in> {[], aud}" "expectedAction \<in> {[], action}"
  shows "VerifyPermit P J now (IssuePermit P t0 anyIssuer key sub aud action ttl jti) (ed_pub P key) expectedAudience expectedAction
    = Inr \<lparr>pt_Issuer = anyIssuer, pt_Subject = sub, pt_Audience = aud, pt_Action = action, pt_IssuedAt = unix t0,
        pt_ExpiresAt = unix (t0 + ttl), pt_JTI = jti\<rparr>"
proof -
  let ?p = "\<lparr>pt_Issuer = anyIssuer, pt_Subject = sub, pt_Audience = aud, pt_Action = action, pt_IssuedAt = unix t0,
        pt_ExpiresAt = unix (t0 + ttl), pt_JTI = jti\<rparr>"
  let ?in = "b64_encode (bytes_of (json_marshal (json_str_obj [(''alg'', ''EdDSA''), (''typ'', ''tpt-permit'')]))) @ ''.'' @
    b64_encode (bytes_of (json_marshal (permit_json ?p)))"
  have s: "signPermit P ?p key = ?in @ ''.'' @ b64_encode (ed_sign P key (bytes_of ?in))"
    by (simp add: signPermit_def Let_def)
  have "last_index (signPermit P ?p key) ''.'' = Some (length ?in)"
    unfolding s by (rule last_index_dot) simp
  moreover have "take (length ?in) (signPermit P ?p key) = ?in" unfolding s by simp
  moreover have "parsePermitToken J (signPermit P ?p key) = Inr (?p, ed_sign P key (bytes_of ?in))"
    using assms(3,4) by (intro parsePermitToken_sign [OF assms(2)]) simp_all
  moreover have "ed_verify P (ed_pub P key) (bytes_of ?in) (ed_sign P key (bytes_of ?in))"
    using assms(1) by (simp add: signatures_ok_def)
  ultimately show ?thesis using assms(5,6,7) by (auto simp: VerifyPermit_def IssuePermit_def)
qed

text \<open>C34: A permit is accepted only with a signature, under the given key, over exactly the header and the payload it was read
  from, before its expiry, and for the expected audience and action where they are given.\<close>

theorem permit_sound:
  assumes "VerifyPermit P J now token pub expectedAudience expectedAction = Inr p"
  shows "\<exists>h pl sg raw v sig. token = h @ ''.'' @ pl @ ''.'' @ sg \<and> b64_decode sg = Some sig \<and>
      ed_verify P pub (bytes_of (h @ ''.'' @ pl)) sig \<and>
      b64_decode pl = Some raw \<and> J (string_of raw) = Some v \<and> permit_of v = Some p \<and>
      unix now \<le> pt_ExpiresAt p \<and> expectedAudience \<in> {[], pt_Audience p} \<and> expectedAction \<in> {[], pt_Action p}"
proof -
  from assms obtain sig where q: "parsePermitToken J token = Inr (p, sig)"
    by (auto simp: VerifyPermit_def split: sum.splits option.splits if_splits)
  obtain h pl sg raw v where t: "token = h @ ''.'' @ pl @ ''.'' @ sg" "CHR ''.'' \<notin> set sg" "b64_decode pl = Some raw"
    "J (string_of raw) = Some v" "permit_of v = Some p" "b64_decode sg = Some sig"
    using parsePermitToken_parts [OF q] by blast
  have l: "last_index token ''.'' = Some (length (h @ ''.'' @ pl))"
    using last_index_dot [OF t(2), of "h @ ''.'' @ pl"] t(1) by simp
  have "take (length (h @ ''.'' @ pl)) token = h @ ''.'' @ pl" by (simp add: t(1))
  with assms l q have "ed_verify P pub (bytes_of (h @ ''.'' @ pl)) sig \<and> unix now \<le> pt_ExpiresAt p \<and>
      expectedAudience \<in> {[], pt_Audience p} \<and> expectedAction \<in> {[], pt_Action p}"
    by (auto simp: VerifyPermit_def split: if_splits)
  with t show ?thesis by blast
qed

section \<open>Reputation: lemmas\<close>

lemma rep_subject_of_json: "int64 (rs_Score s) \<Longrightarrow> rep_subject_of (rep_subject_json s) = Some s"
  by (simp add: rep_subject_of_def rep_subject_json_def member_def as_struct_def to_lower_simps int64_def)

lemma rep_proof_of_json: "rep_proof_of (rep_proof_json p) = Some (Some p)"
  by (simp add: rep_proof_of_def rep_proof_json_def member_def as_struct_def to_lower_simps)

lemma rep_vc_of_json:
  assumes "int64 (rs_Score (rv_CredentialSubject c))"
  shows "rep_vc_of (rep_vc_json c) = Some c"
proof -
  let ?v = "rep_vc_json c"
  let ?pf = "case rv_Proof c of None \<Rightarrow> [] | Some p \<Rightarrow> [(''proof'', rep_proof_json p)]"
  have r: "rev ?pf = ?pf" by (simp split: option.split)
  have ne: "rep_proof_json p \<noteq> JNull" "rep_subject_json s \<noteq> JNull" for p s
    by (simp_all add: rep_proof_json_def rep_subject_json_def)
  have f: "find (\<lambda>(k', x). to_lower k' = k \<and> x \<noteq> JNull) ?pf =
      (if k = ''proof'' then map_option (\<lambda>p. (''proof'', rep_proof_json p)) (rv_Proof c) else None)" for k
    by (auto simp: ne to_lower_simps split: option.split)
  have m: "as_strings (member ?v ''@context'') = Some (rv_Context c)" "member ?v ''id'' = JStr (rv_ID c)"
    "as_strings (member ?v ''type'') = Some (rv_Type c)" "member ?v ''issuer'' = JStr (rv_Issuer c)"
    "member ?v ''validFrom'' = JStr (rv_ValidFrom c)" "as_string (member ?v ''validUntil'') = Some (rv_ValidUntil c)"
    "member ?v ''credentialSubject'' = rep_subject_json (rv_CredentialSubject c)"
    "member ?v ''proof'' = (case rv_Proof c of None \<Rightarrow> JNull | Some p \<Rightarrow> rep_proof_json p)"
    by (simp_all add: rep_vc_json_def member_def rev_jopt r f find_jopt find_append to_lower_simps ne json_strs_def comp_def
        split: option.split)
  have pf: "rep_proof_of (case rv_Proof c of None \<Rightarrow> JNull | Some p \<Rightarrow> rep_proof_json p) = Some (rv_Proof c)"
    by (simp add: rep_proof_of_json split: option.split) (simp add: rep_proof_of_def)
  have "as_struct ?v" by (simp add: rep_vc_json_def as_struct_def)
  with m pf assms show ?thesis by (simp add: rep_vc_of_def rep_subject_of_json)
qed

text \<open>A reputation credential that \<open>IssueReputationVC\<close> produced is accepted by \<open>VerifyReputationVC\<close> under the authority's
  key until it expires, and gives back the score, tier and date that were attested for the subject.\<close>

theorem reputation_roundtrip:
  assumes "signatures_ok P" "decodes J"
    and "IssueReputationVC P uuid t0 authority key vmid subject rec validFor = Inr cred"
    and "validFor \<noteq> 0 \<longrightarrow> (\<exists>exp. parse_time (rfc3339 (t0 + validFor)) = Some exp \<and> now \<le> exp)"
  shows "VerifyReputationVC P J parse_time now cred (ed_pub P key) =
    Inr \<lparr>re_Domain = subject, re_Score = re_Score rec, re_Tier = re_Tier rec, re_Since = re_Since rec, re_Raw = []\<rparr>"
proof -
  let ?c = "reputation_credential uuid t0 authority subject rec validFor"
  let ?pf = "\<lparr>rp_Type = ''DataIntegrityProof'', rp_Cryptosuite = ''eddsa-jcs-2022'', rp_Created = rfc3339 t0,
              rp_VerificationMethod = vmid, rp_ProofPurpose = ''assertionMethod'', rp_ProofValue = []\<rparr>"
  define sig where "sig = ed_sign P key (sha256 P (fst (reputationSignInput ?pf ?c)) @ sha256 P (snd (reputationSignInput ?pf ?c)))"
  define signed where "signed = ?c\<lparr>rv_Proof := Some (?pf\<lparr>rp_ProofValue := b64_encode sig\<rparr>)\<rparr>"
  have score: "0 \<le> re_Score rec" "re_Score rec \<le> 100" and cred: "cred = bytes_of (json_marshal (rep_vc_json signed))"
    using assms(3) by (auto simp: IssueReputationVC_def Let_def sig_def signed_def case_prod_beta split: if_splits)
  have d: "Option.bind (J (string_of cred)) rep_vc_of = Some signed"
    using assms(2) score unfolding cred
    by (simp add: decodes_def) (rule rep_vc_of_json, simp add: signed_def reputation_credential_def int64_def)
  have i: "reputationSignInput (?pf\<lparr>rp_ProofValue := b64_encode sig\<rparr>) (signed\<lparr>rv_Proof := None\<rparr>) = reputationSignInput ?pf ?c"
    by (simp add: reputationSignInput_def signed_def reputation_credential_def)
  have u: "rv_ValidUntil signed = (if validFor \<noteq> 0 then rfc3339 (t0 + validFor) else [])"
    by (simp add: signed_def reputation_credential_def)
  have ty: "sliceContains (rv_Type signed) ReputationVCType" by (simp add: signed_def reputation_credential_def)
  have pf: "rv_Proof signed = Some (?pf\<lparr>rp_ProofValue := b64_encode sig\<rparr>)" by (simp add: signed_def)
  have late: "\<not> now > exp" if "validFor \<noteq> 0" "parse_time (rfc3339 (t0 + validFor)) = Some exp" for exp
    using assms(4) that by auto
  have v: "ed_verify P (ed_pub P key) (sha256 P (fst (reputationSignInput ?pf ?c)) @ sha256 P (snd (reputationSignInput ?pf ?c))) sig"
    using assms(1) by (simp add: sig_def signatures_ok_def)
  have sub: "rv_CredentialSubject signed = \<lparr>rs_ID = subject, rs_Score = re_Score rec, rs_Tier = re_Tier rec, rs_Since = re_Since rec\<rparr>"
    by (simp add: signed_def reputation_credential_def)
  show ?thesis
    unfolding VerifyReputationVC_def d option.case ty pf u i case_prod_beta
    using assms(4) v by (auto simp: sub ty dest: late)
qed

section \<open>DNS reputation: lemmas\<close>

lemma txt_field_score:
  "- 1 \<le> re_Score r \<and> re_Score r \<le> 100 \<Longrightarrow> - 1 \<le> re_Score (txt_field f r) \<and> re_Score (txt_field f r) \<le> 100"
  "re_Domain (txt_field f r) = re_Domain r"
  by (auto simp: txt_field_def split: option.split)

lemma parseReputationTXT_score:
  assumes "parseReputationTXT domain txt = Some r"
  shows "- 1 \<le> re_Score r \<and> re_Score r \<le> 100 \<and> re_Domain r = domain"
proof -
  have "- 1 \<le> re_Score (fold txt_field fs r) \<and> re_Score (fold txt_field fs r) \<le> 100 \<and> re_Domain (fold txt_field fs r) = re_Domain r"
    if "- 1 \<le> re_Score r \<and> re_Score r \<le> 100" for fs r
    using that by (induction fs arbitrary: r) (auto simp: txt_field_score)
  from this [of "\<lparr>re_Domain = domain, re_Score = -1, re_Tier = [], re_Since = [], re_Raw = txt\<rparr>"] assms
  show ?thesis by (auto simp: parseReputationTXT_def Let_def split: if_splits)
qed

text \<open>Whatever the DNS answers, a reputation that \<open>LookupReputation\<close> returns is about the domain asked for and has a score of
  at most 100; it is unknown exactly when no record field carried a valid score, and a domain without a record is
  unknown too.\<close>

theorem dns_reputation_bounded:
  assumes "LookupReputation lookup_txt domain = Inr r"
  shows "(\<forall>rec. r = Some rec \<longrightarrow> re_Domain rec = domain \<and> re_Score rec \<le> 100 \<and>
      (Level r = TrustUnknown \<longleftrightarrow> re_Score rec = -1)) \<and> (r = None \<longrightarrow> Level r = TrustUnknown)"
proof -
  have f: "first_record domain rs = Some rec \<Longrightarrow> - 1 \<le> re_Score rec \<and> re_Score rec \<le> 100 \<and> re_Domain rec = domain" for rs rec
    by (induction rs) (auto split: option.splits dest: parseReputationTXT_score)
  have "r = Some rec \<Longrightarrow> - 1 \<le> re_Score rec \<and> re_Score rec \<le> 100 \<and> re_Domain rec = domain" for rec
    using assms f by (auto simp: LookupReputation_def Let_def split: sum.splits if_splits)
  then show ?thesis by (force simp: Level_def)
qed

section \<open>Witnesses\<close>

theorem permit_roundtrip_witness:
  "VerifyPermit demo_prims json_read (2 * second) (IssuePermit demo_prims second ''did:web:other'' [7] ''s'' ''a'' ''read:email'' (5 * second) ''j'')
     (ed_pub demo_prims [7]) ''a'' ''read:email''
   = Inr \<lparr>pt_Issuer = ''did:web:other'', pt_Subject = ''s'', pt_Audience = ''a'', pt_Action = ''read:email'', pt_IssuedAt = unix second,
        pt_ExpiresAt = unix (second + 5 * second), pt_JTI = ''j''\<rparr>"
  by (rule permit_roundtrip [OF demo_signatures_ok decodes_json_read]) (simp_all add: int64_def unix_def second_def)

theorem permit_sound_witness:
  "\<exists>token p h pl sg raw v sig. VerifyPermit demo_prims json_read (2 * second) token [7] ''a'' ''read:email'' = Inr p \<and>
     token = h @ ''.'' @ pl @ ''.'' @ sg \<and> b64_decode sg = Some sig \<and> ed_verify demo_prims [7] (bytes_of (h @ ''.'' @ pl)) sig \<and>
     b64_decode pl = Some raw \<and> json_read (string_of raw) = Some v \<and> permit_of v = Some p"
proof -
  let ?p = "\<lparr>pt_Issuer = ''i'', pt_Subject = ''s'', pt_Audience = ''a'', pt_Action = ''read:email'', pt_IssuedAt = 1,
        pt_ExpiresAt = 6, pt_JTI = ''j''\<rparr>"
  let ?in = "b64_encode (bytes_of (json_marshal (json_str_obj [(''alg'', ''EdDSA''), (''typ'', ''tpt-permit'')]))) @ ''.'' @
    b64_encode (bytes_of (json_marshal (permit_json ?p)))"
  have s: "signPermit demo_prims ?p [7] = ?in @ ''.'' @ b64_encode (ed_sign demo_prims [7] (bytes_of ?in))"
    by (simp add: signPermit_def Let_def)
  have q: "parsePermitToken json_read (signPermit demo_prims ?p [7]) = Inr (?p, ed_sign demo_prims [7] (bytes_of ?in))"
    by (rule parsePermitToken_sign [OF decodes_json_read]) (simp_all add: int64_def)
  have l: "last_index (signPermit demo_prims ?p [7]) ''.'' = Some (length ?in)" unfolding s by (rule last_index_dot) simp
  have t: "take (length ?in) (signPermit demo_prims ?p [7]) = ?in" unfolding s by simp
  have e: "ed_verify demo_prims [7] (bytes_of ?in) (ed_sign demo_prims [7] (bytes_of ?in))" by (simp add: demo_prims_def)
  have "VerifyPermit demo_prims json_read (2 * second) (signPermit demo_prims ?p [7]) [7] ''a'' ''read:email'' = Inr ?p"
    unfolding VerifyPermit_def q sum.case prod.case l option.case t using e by (simp add: unix_def second_def)
  from permit_sound [OF this] this show ?thesis by blast
qed

theorem reputation_roundtrip_witness:
  "\<exists>cred. IssueReputationVC demo_prims ''u'' 0 ''did:web:a'' [7] ''k1'' ''example.org''
       \<lparr>re_Domain = ''x'', re_Score = 90, re_Tier = ''trusted'', re_Since = ''2024-01-01'', re_Raw = []\<rparr> hour = Inr cred \<and>
     VerifyReputationVC demo_prims json_read (\<lambda>s. if s = rfc3339 hour then Some hour else None) minute cred (ed_pub demo_prims [7]) =
       Inr \<lparr>re_Domain = ''example.org'', re_Score = 90, re_Tier = ''trusted'', re_Since = ''2024-01-01'', re_Raw = []\<rparr>"
proof -
  let ?r = "\<lparr>re_Domain = ''x'', re_Score = 90, re_Tier = ''trusted'', re_Since = ''2024-01-01'', re_Raw = []\<rparr>"
  have "\<exists>cred. IssueReputationVC demo_prims ''u'' 0 ''did:web:a'' [7] ''k1'' ''example.org'' ?r hour = Inr cred"
    by (simp add: IssueReputationVC_def Let_def case_prod_beta)
  then obtain cred where c: "IssueReputationVC demo_prims ''u'' 0 ''did:web:a'' [7] ''k1'' ''example.org'' ?r hour = Inr cred" by blast
  have "VerifyReputationVC demo_prims json_read (\<lambda>s. if s = rfc3339 hour then Some hour else None) minute cred (ed_pub demo_prims [7]) =
       Inr \<lparr>re_Domain = ''example.org'', re_Score = re_Score ?r, re_Tier = re_Tier ?r, re_Since = re_Since ?r, re_Raw = []\<rparr>"
    by (rule reputation_roundtrip [OF demo_signatures_ok decodes_json_read c]) (simp add: hour_def minute_def second_def)
  with c show ?thesis by auto
qed

theorem dns_reputation_bounded_witness:
  "\<exists>rec. LookupReputation (\<lambda>h. Inr [''junk'', ''v=tpt1 score=101 tier=gold'']) ''a.nz.'' = Inr (Some rec) \<and>
     re_Domain rec = ''a.nz.'' \<and> re_Score rec \<le> 100 \<and> re_Score rec = -1 \<and> re_Tier rec = ''gold'' \<and> Level (Some rec) = TrustUnknown"
proof -
  let ?l = "\<lambda>h. Inr [''junk'', ''v=tpt1 score=101 tier=gold'']"
  have "LookupReputation ?l ''a.nz.'' = Inr (Some \<lparr>re_Domain = ''a.nz.'', re_Score = -1, re_Tier = ''gold'', re_Since = [],
      re_Raw = ''v=tpt1 score=101 tier=gold''\<rparr>)"
    by code_simp
  from dns_reputation_bounded [OF this] this show ?thesis by auto
qed

end
