(* ===== verification/Pe.thy ===== *)
theory Pe
  imports Vc
begin

text \<open>
  Presentation exchange, \<^verbatim>\<open>src/pkg/pe\<close>: presentation definitions and the evaluation of a submission against one.  A Go
  value of type \<^verbatim>\<open>any\<close> is a \<^typ>\<open>json\<close> in canonical form and \<^verbatim>\<open>nil\<close> is \<^const>\<open>JNull\<close>.  The errors of the result are kept as
  values instead of texts.
\<close>

section \<open>Definitions and submissions\<close>

(* src: pkg/pe/definition.go:60-63 FormatDetail *)
record format_detail =
  fd_Alg :: "string list"
  fd_ProofType :: "string list"

(* src: pkg/pe/definition.go:52-57 Format *)
record pe_format =
  fm_LDPvc :: "format_detail option"
  fm_LDPvp :: "format_detail option"
  fm_JWTVC :: "format_detail option"
  fm_JWTVP :: "format_detail option"

(* src: pkg/pe/definition.go:41-49 Filter *)
record pe_filter =
  fl_Type :: string
  fl_Format :: string
  fl_Pattern :: string
  fl_Const :: json
  fl_Enum :: "json list"
  fl_Minimum :: json
  fl_Maximum :: json

(* src: pkg/pe/definition.go:31-38 Field *)
record pe_field =
  fe_Path :: "string list"
  fe_ID :: string
  fe_Purpose :: string
  fe_Filter :: "pe_filter option"
  fe_Optional :: bool
  fe_Predicate :: string

(* src: pkg/pe/definition.go:24-28 Constraints *)
record constraints =
  co_Fields :: "pe_field list"
  co_LimitDisclosure :: string
  co_SubjectIsIssuer :: string

(* src: pkg/pe/definition.go:15-21 InputDescriptor *)
record input_descriptor =
  ip_ID :: string
  ip_Name :: string
  ip_Purpose :: string
  ip_Constraints :: "constraints option"
  ip_Format :: "pe_format option"

(* src: pkg/pe/definition.go:6-12 PresentationDefinition *)
record presentation_definition =
  pd_ID :: string
  pd_Name :: string
  pd_Purpose :: string
  pd_InputDescriptors :: "input_descriptor list"
  pd_Format :: "pe_format option"

(* src: pkg/pe/submission.go:20-24 Descriptor *)
record descriptor =
  de_ID :: string
  de_Format :: string
  de_Path :: string

(* src: pkg/pe/submission.go:13-17 PresentationSubmission *)
record presentation_submission =
  su_ID :: string
  su_DefinitionID :: string
  su_DescriptorMap :: "descriptor list"

datatype pe_error =
    PeDefinition string string | PeMissing string | PeCredential string string int | PeField string "string list"
  | PeConst | PeEnum | PePatternType | PePattern string

(* src: pkg/pe/submission.go:27-32 EvaluationResult *)
record evaluation_result =
  er_Satisfied :: bool
  er_Errors :: "pe_error list"
  er_Matched :: "(string \<times> vcredential) list"

section \<open>Paths and filters\<close>

text \<open>\<^verbatim>\<open>fmt.Sscanf(s, "%d", &idx)\<close>: leading spaces are skipped, a newline is an error, then an optional sign and at least
  one digit; what follows is left unread.  On an error the variable keeps its value 0.\<close>

definition sscanf_d :: "string \<Rightarrow> int" where
  "sscanf_d s =
     (let t = dropWhile (\<lambda>c. is_space c \<and> c \<noteq> CHR 0x0A) s;
          sign = (if t \<noteq> [] \<and> (hd t = CHR ''-'' \<or> hd t = CHR ''+'') then 1 else 0);
          tok = take sign t @ takeWhile is_digit (drop sign t)
      in case atoi tok of Some i \<Rightarrow> i | None \<Rightarrow> 0)"

(* src: pkg/pe/submission.go:92-102 extractArrayIndex *)
definition extractArrayIndex :: "string \<Rightarrow> int" where
  "extractArrayIndex path =
     (case (last_index path ''['', last_index path '']'') of
        (Some lb, Some rb) \<Rightarrow> if rb \<le> lb then 0 else sscanf_d (take (rb - (lb + 1)) (drop (lb + 1) path))
      | _ \<Rightarrow> 0)"

(* src: pkg/pe/submission.go:83-89 resolveCredential *)
definition resolveCredential :: "string \<Rightarrow> vcredential list \<Rightarrow> string \<Rightarrow> pe_error + vcredential" where
  "resolveCredential did creds path =
     (let idx = extractArrayIndex path in
      if idx < 0 \<or> idx \<ge> int (length creds) then Inl (PeCredential did path idx) else Inr (creds ! nat idx))"

(* src: pkg/pe/submission.go:146-158 resolveJSONPath (loop) *)
fun walk_path :: "json \<Rightarrow> string list \<Rightarrow> json" where
  "walk_path current [] = current"
| "walk_path current (part # parts) =
     (if part = [] then walk_path current parts
      else case current of
        JObj mm \<Rightarrow> walk_path (case map_of mm part of Some v \<Rightarrow> v | None \<Rightarrow> JNull) parts
      | _ \<Rightarrow> JNull)"

(* src: pkg/pe/submission.go:141-159 resolveJSONPath *)
definition resolveJSONPath :: "json \<Rightarrow> string \<Rightarrow> json" where
  "resolveJSONPath m path = walk_path m (split_all (CHR ''.'') (trim_prefix (trim_prefix path ''$.'') ''$''))"

(* src: pkg/pe/submission.go:188-192 jsonEqual *)
definition jsonEqual :: "json \<Rightarrow> json \<Rightarrow> bool" where
  "jsonEqual a b \<longleftrightarrow> json_marshal (json_canonical a) = json_marshal (json_canonical b)"

text \<open>\<^verbatim>\<open>strings.Trim\<close> with a set of characters.\<close>

definition trim_set :: "string \<Rightarrow> string \<Rightarrow> string" where
  "trim_set s cutset = rev (dropWhile (\<lambda>c. c \<in> set cutset) (rev (dropWhile (\<lambda>c. c \<in> set cutset) s)))"

(* src: pkg/pe/submission.go:196-201 matchesPattern *)
definition matchesPattern :: "string \<Rightarrow> string \<Rightarrow> bool" where
  "matchesPattern pattern s =
     (if has_prefix pattern ''^'' \<and> has_suffix pattern ''$'' then s = take (length pattern - 1 - 1) (drop 1 pattern)
      else str_contains s (trim_set pattern ''^$.*''))"

(* src: pkg/pe/submission.go:162-186 applyFilter *)
definition applyFilter :: "pe_filter \<Rightarrow> json \<Rightarrow> pe_error + unit" where
  "applyFilter f val =
     (if fl_Const f \<noteq> JNull \<and> \<not> jsonEqual val (fl_Const f) then Inl PeConst
      else if fl_Enum f \<noteq> [] then (if list_ex (jsonEqual val) (fl_Enum f) then Inr () else Inl PeEnum)
      else if fl_Pattern f \<noteq> [] then
        (case val of
           JStr s \<Rightarrow> if \<not> matchesPattern (fl_Pattern f) s then Inl (PePattern (fl_Pattern f)) else Inr ()
         | _ \<Rightarrow> Inl PePatternType)
      else Inr ())"

section \<open>Evaluation\<close>

(* src: pkg/pe/submission.go:120-132 checkConstraints (one field) *)
definition field_found :: "json \<Rightarrow> pe_field \<Rightarrow> bool" where
  "field_found subjectMap field =
     list_ex (\<lambda>jsonPath.
       let val = resolveJSONPath subjectMap jsonPath in
       val \<noteq> JNull \<and> (case fe_Filter field of None \<Rightarrow> True | Some f \<Rightarrow> applyFilter f val = Inr ())) (fe_Path field)"

(* src: pkg/pe/submission.go:116-137 checkConstraints (loop) *)
fun check_fields :: "string \<Rightarrow> json \<Rightarrow> pe_field list \<Rightarrow> pe_error + unit" where
  "check_fields did subjectMap [] = Inr ()"
| "check_fields did subjectMap (field # fs) =
     (if fe_Optional field then check_fields did subjectMap fs
      else if \<not> field_found subjectMap field then Inl (PeField did (fe_Path field))
      else check_fields did subjectMap fs)"

text \<open>The subject is written with \<^verbatim>\<open>json.Marshal\<close> and read back into a map.\<close>

(* src: pkg/pe/submission.go:105-138 checkConstraints *)
definition checkConstraints :: "string \<Rightarrow> constraints \<Rightarrow> vcredential \<Rightarrow> pe_error + unit" where
  "checkConstraints did c cred =
     check_fields did (json_canonical (subject_json (cr_CredentialSubject (vc_Credential cred)))) (co_Fields c)"

(* src: pkg/pe/submission.go:54-75 Evaluate (one descriptor) *)
definition match_descriptor :: "(string \<times> string) list \<Rightarrow> vcredential list \<Rightarrow> input_descriptor \<Rightarrow> pe_error + vcredential" where
  "match_descriptor descMap creds inputDesc =
     (case map_of descMap (ip_ID inputDesc) of
        None \<Rightarrow> Inl (PeMissing (ip_ID inputDesc))
      | Some path \<Rightarrow>
          (case resolveCredential (ip_ID inputDesc) creds path of
             Inl e \<Rightarrow> Inl e
           | Inr cred \<Rightarrow>
               (case ip_Constraints inputDesc of
                  None \<Rightarrow> Inr cred
                | Some c \<Rightarrow> (case checkConstraints (ip_ID inputDesc) c cred of Inl e \<Rightarrow> Inl e | Inr _ \<Rightarrow> Inr cred))))"

(* src: pkg/pe/submission.go:53-75 Evaluate (loop) *)
fun evaluate_loop :: "(string \<times> string) list \<Rightarrow> vcredential list \<Rightarrow> input_descriptor list \<Rightarrow> pe_error list
    \<Rightarrow> (string \<times> vcredential) list \<Rightarrow> pe_error list \<times> (string \<times> vcredential) list" where
  "evaluate_loop descMap creds [] errs matched = (errs, matched)"
| "evaluate_loop descMap creds (d # ds) errs matched =
     (case match_descriptor descMap creds d of
        Inl e \<Rightarrow> evaluate_loop descMap creds ds (errs @ [e]) matched
      | Inr cred \<Rightarrow> evaluate_loop descMap creds ds errs (map_put (ip_ID d) cred matched))"

(* src: pkg/pe/submission.go:44-48 Evaluate (descriptor map) *)
definition descriptor_map :: "presentation_submission \<Rightarrow> (string \<times> string) list" where
  "descriptor_map submission = fold (\<lambda>d. map_put (de_ID d) (de_Path d)) (su_DescriptorMap submission) []"

(* src: pkg/pe/submission.go:35-79 Evaluate *)
definition Evaluate :: "presentation_definition \<Rightarrow> presentation_submission \<Rightarrow> vpresentation \<Rightarrow> pe_error + evaluation_result" where
  "Evaluate def submission vp =
     (if su_DefinitionID submission \<noteq> pd_ID def then Inl (PeDefinition (su_DefinitionID submission) (pd_ID def))
      else
        let creds = vp_VerifiableCredential (vpp_Presentation vp);
            (errs, matched) = evaluate_loop (descriptor_map submission) creds (pd_InputDescriptors def) [] []
        in Inr \<lparr>er_Satisfied = (errs = [] \<and> length matched = length (pd_InputDescriptors def)),
             er_Errors = errs, er_Matched = matched\<rparr>)"

section \<open>When a submission satisfies a definition\<close>

lemma check_fields_Inr:
  "check_fields did m fs = Inr () \<longleftrightarrow> (\<forall>f\<in>set fs. fe_Optional f \<or> field_found m f)"
  by (induction fs) auto

lemma evaluate_loop_errors:
  "fst (evaluate_loop dm creds ds errs matched) = errs @ concat (map (\<lambda>d. case match_descriptor dm creds d of Inl e \<Rightarrow> [e] | Inr _ \<Rightarrow> []) ds)"
  by (induction ds arbitrary: errs matched) (auto split: sum.split)

lemma evaluate_loop_keys:
  assumes "\<forall>d\<in>set ds. \<exists>c. match_descriptor dm creds d = Inr c" "distinct (map fst matched)"
  shows "distinct (map fst (snd (evaluate_loop dm creds ds errs matched))) \<and>
    fst ` set (snd (evaluate_loop dm creds ds errs matched)) = fst ` set matched \<union> ip_ID ` set ds"
  using assms
proof (induction ds arbitrary: errs matched)
  case (Cons d ds)
  then obtain c where c: "match_descriptor dm creds d = Inr c" by auto
  from Cons.IH [of "map_put (ip_ID d) c matched" errs] Cons.prems
  show ?case by (simp add: c distinct_map_put map_put_keys)
qed simp

lemma evaluate_loop_no_errors:
  "fst (evaluate_loop dm creds ds [] matched) = [] \<longleftrightarrow> (\<forall>d\<in>set ds. \<exists>c. match_descriptor dm creds d = Inr c)"
proof -
  have "(case match_descriptor dm creds d of Inl e \<Rightarrow> [e] | Inr _ \<Rightarrow> []) = [] \<longleftrightarrow> (\<exists>c. match_descriptor dm creds d = Inr c)" for d
    by (auto split: sum.split)
  then show ?thesis by (simp add: evaluate_loop_errors)
qed

lemma match_descriptor_Inr:
  "match_descriptor dm creds d = Inr cred \<longleftrightarrow> (\<exists>path. map_of dm (ip_ID d) = Some path \<and>
     resolveCredential (ip_ID d) creds path = Inr cred \<and>
     (\<forall>c. ip_Constraints d = Some c \<longrightarrow> checkConstraints (ip_ID d) c cred = Inr ()))"
  by (auto simp: match_descriptor_def split: option.splits sum.splits)

lemma Evaluate_iff:
  "(\<exists>r. Evaluate def submission vp = Inr r \<and> er_Satisfied r) \<longleftrightarrow>
     su_DefinitionID submission = pd_ID def \<and> distinct (map ip_ID (pd_InputDescriptors def)) \<and>
     (\<forall>d\<in>set (pd_InputDescriptors def). \<exists>path cred.
        map_of (descriptor_map submission) (ip_ID d) = Some path \<and>
        resolveCredential (ip_ID d) (vp_VerifiableCredential (vpp_Presentation vp)) path = Inr cred \<and>
        (\<forall>c. ip_Constraints d = Some c \<longrightarrow> (\<forall>f\<in>set (co_Fields c). fe_Optional f \<or>
           field_found (json_canonical (subject_json (cr_CredentialSubject (vc_Credential cred)))) f)))"
proof -
  let ?creds = "vp_VerifiableCredential (vpp_Presentation vp)"
  let ?dm = "descriptor_map submission"
  let ?ds = "pd_InputDescriptors def"
  let ?loop = "evaluate_loop ?dm ?creds ?ds [] []"
  have "(\<exists>r. Evaluate def submission vp = Inr r \<and> er_Satisfied r) \<longleftrightarrow>
      su_DefinitionID submission = pd_ID def \<and> fst ?loop = [] \<and> length (snd ?loop) = length ?ds"
    by (simp add: Evaluate_def Let_def case_prod_beta)
  also have "fst ?loop = [] \<and> length (snd ?loop) = length ?ds \<longleftrightarrow>
      (\<forall>d\<in>set ?ds. \<exists>c. match_descriptor ?dm ?creds d = Inr c) \<and> distinct (map ip_ID ?ds)"
  proof (cases "\<forall>d\<in>set ?ds. \<exists>c. match_descriptor ?dm ?creds d = Inr c")
    case True
    with evaluate_loop_keys [OF True, of "[]" "[]"]
    have k: "distinct (map fst (snd ?loop))" "set (map fst (snd ?loop)) = set (map ip_ID ?ds)" by simp_all
    have "length (snd ?loop) = card (set (map fst (snd ?loop)))" using distinct_card [OF k(1)] by simp
    then have "length (snd ?loop) = card (set (map ip_ID ?ds))" by (simp only: k(2))
    then have "length (snd ?loop) = length ?ds \<longleftrightarrow> distinct (map ip_ID ?ds)"
      using card_distinct [of "map ip_ID ?ds"] distinct_card [of "map ip_ID ?ds"] by (metis length_map)
    with True evaluate_loop_no_errors [of ?dm ?creds ?ds "[]"] show ?thesis by simp
  qed (use evaluate_loop_no_errors [of ?dm ?creds ?ds "[]"] in blast)
  finally show ?thesis
    by (auto simp: match_descriptor_Inr checkConstraints_def check_fields_Inr)
qed

text \<open>C35: A submission satisfies a definition exactly when it names the definition, the input descriptors have distinct ids,
  and each of them is mapped to a credential of the presentation in which every field that is not optional has, under
  one of its paths, a value that is present and passes the filter.\<close>

theorem evaluate_satisfied:
  "(\<exists>r. Evaluate def submission vp = Inr r \<and> er_Satisfied r) \<longleftrightarrow>
     su_DefinitionID submission = pd_ID def \<and> distinct (map ip_ID (pd_InputDescriptors def)) \<and>
     (\<forall>d\<in>set (pd_InputDescriptors def). \<exists>path cred.
        map_of (descriptor_map submission) (ip_ID d) = Some path \<and>
        resolveCredential (ip_ID d) (vp_VerifiableCredential (vpp_Presentation vp)) path = Inr cred \<and>
        (\<forall>c. ip_Constraints d = Some c \<longrightarrow> (\<forall>f\<in>set (co_Fields c). fe_Optional f \<or>
           field_found (json_canonical (subject_json (cr_CredentialSubject (vc_Credential cred)))) f)))"
  by (rule Evaluate_iff)

section \<open>Paths that the documentation gives\<close>

lemma walk_path_null: "walk_path JNull parts = JNull"
  by (induction parts) auto

lemma canonical_lookup: "json_canonical (JObj kvs) = JObj m \<Longrightarrow> k \<notin> fst ` set kvs \<Longrightarrow> map_of m k = None"
proof -
  have l: "set (last_members kvs) \<subseteq> set kvs" for kvs :: "(string \<times> json) list"
    by (induction kvs rule: last_members.induct) auto
  assume "json_canonical (JObj kvs) = JObj m" "k \<notin> fst ` set kvs"
  then show "map_of m k = None"
    using l [of "map (\<lambda>(k, v). (k, json_canonical v)) kvs"] by (force simp: map_of_eq_None_iff)
qed

lemma documented_path:
  "resolveJSONPath (json_canonical (subject_json s)) (''$.credentialSubject.'' @ rest) = JNull"
proof -
  obtain m where m: "json_canonical (subject_json s) = JObj m" by (simp add: subject_json_def)
  have "map_of m ''credentialSubject'' = None"
    by (rule canonical_lookup [OF m [unfolded subject_json_def]]) auto
  moreover have "trim_prefix (trim_prefix (''$.credentialSubject.'' @ rest) ''$.'') ''$'' = ''credentialSubject'' @ CHR ''.'' # rest"
    by (simp add: trim_prefix_def has_prefix_def)
  ultimately show ?thesis
    using split_all_append [of "CHR ''.''" "''credentialSubject''" rest] by (simp add: resolveJSONPath_def m walk_path_null)
qed

text \<open>A definition whose required field uses paths of the documented form \<^verbatim>\<open>$.credentialSubject.name\<close> can never be
  satisfied: the evaluation resolves paths inside the subject, which has no member of that name.\<close>

theorem documented_paths_unsatisfiable:
  assumes "d \<in> set (pd_InputDescriptors def)" "ip_Constraints d = Some c" "f \<in> set (co_Fields c)" "\<not> fe_Optional f"
    and "\<forall>p\<in>set (fe_Path f). has_prefix p ''$.credentialSubject.''"
    and "Evaluate def submission vp = Inr r"
  shows "\<not> er_Satisfied r"
proof
  assume "er_Satisfied r"
  with assms(6) have "\<exists>r. Evaluate def submission vp = Inr r \<and> er_Satisfied r" by blast
  with assms(1) obtain cred :: vcredential where "\<forall>c. ip_Constraints d = Some c \<longrightarrow> (\<forall>f\<in>set (co_Fields c). fe_Optional f \<or>
      field_found (json_canonical (subject_json (cr_CredentialSubject (vc_Credential cred)))) f)"
    unfolding Evaluate_iff by blast
  with assms(2,3,4) have
    "field_found (json_canonical (subject_json (cr_CredentialSubject (vc_Credential cred)))) f" by blast
  then obtain p where p: "p \<in> set (fe_Path f)"
    "resolveJSONPath (json_canonical (subject_json (cr_CredentialSubject (vc_Credential cred)))) p \<noteq> JNull"
    by (auto simp: field_found_def list_ex_iff Let_def)
  from assms(5) p(1) obtain rest where "p = ''$.credentialSubject.'' @ rest" by (blast elim: has_prefixE)
  with p(2) documented_path show False by blast
qed

text \<open>Only constants, enumerations and patterns filter: the type, format, minimum and maximum of a filter have no effect
  on \<open>applyFilter\<close>, and a value of an enumeration passes whatever the pattern says.\<close>

theorem filter_bounds_ignored:
  "applyFilter (f\<lparr>fl_Type := t, fl_Format := fm, fl_Minimum := lo, fl_Maximum := hi\<rparr>) v = applyFilter f v \<and>
   (fl_Const f = JNull \<longrightarrow> v \<in> set (fl_Enum f) \<longrightarrow> applyFilter (f\<lparr>fl_Pattern := p\<rparr>) v = Inr ())"
proof -
  have "applyFilter (f\<lparr>fl_Type := t, fl_Format := fm, fl_Minimum := lo, fl_Maximum := hi\<rparr>) v = applyFilter f v"
    by (cases f) (simp add: applyFilter_def split: json.split)
  moreover have "fl_Const f = JNull \<longrightarrow> v \<in> set (fl_Enum f) \<longrightarrow> applyFilter (f\<lparr>fl_Pattern := p\<rparr>) v = Inr ()"
    by (auto simp: applyFilter_def list_ex_iff jsonEqual_def)
  ultimately show ?thesis by blast
qed

section \<open>Witnesses\<close>

definition demo_field :: pe_field where
  "demo_field = \<lparr>fe_Path = [''$.credentialSubject.name''], fe_ID = [], fe_Purpose = [], fe_Filter = None, fe_Optional = False,
     fe_Predicate = []\<rparr>"

definition demo_descriptor :: input_descriptor where
  "demo_descriptor = \<lparr>ip_ID = ''d'', ip_Name = [], ip_Purpose = [],
     ip_Constraints = Some \<lparr>co_Fields = [demo_field], co_LimitDisclosure = [], co_SubjectIsIssuer = []\<rparr>, ip_Format = None\<rparr>"

definition demo_definition :: presentation_definition where
  "demo_definition = \<lparr>pd_ID = ''p'', pd_Name = [], pd_Purpose = [], pd_InputDescriptors = [demo_descriptor], pd_Format = None\<rparr>"

definition demo_submission :: presentation_submission where
  "demo_submission = \<lparr>su_ID = ''s'', su_DefinitionID = ''p'',
     su_DescriptorMap = [\<lparr>de_ID = ''d'', de_Format = ''ldp_vc'', de_Path = ''$.verifiableCredential[0]''\<rparr>]\<rparr>"

definition demo_vp :: vpresentation where
  "demo_vp = \<lparr>vpp_Presentation = \<lparr>vp_Context = [], vp_ID = [], vp_Type = [], vp_Holder = [],
     vp_VerifiableCredential = [\<lparr>vc_Credential = demo_cred, vc_Proof = None\<rparr>], vp_Challenge = [], vp_Domain = []\<rparr>, vpp_Proof = None\<rparr>"

theorem evaluate_satisfied_witness:
  "(\<exists>r. Evaluate (demo_definition\<lparr>pd_InputDescriptors := [demo_descriptor\<lparr>ip_Constraints := None\<rparr>]\<rparr>) demo_submission demo_vp
       = Inr r \<and> er_Satisfied r)"
  unfolding evaluate_satisfied
  by (simp add: demo_definition_def demo_submission_def demo_descriptor_def demo_vp_def descriptor_map_def resolveCredential_def
      extractArrayIndex_def last_index_def has_prefix_def sscanf_d_def Let_def is_space_def is_digit_def atoi_def digit_val_def)

theorem documented_paths_unsatisfiable_witness:
  "\<exists>r. Evaluate demo_definition demo_submission demo_vp = Inr r \<and> \<not> er_Satisfied r"
proof -
  obtain r where r: "Evaluate demo_definition demo_submission demo_vp = Inr r"
    by (auto simp: Evaluate_def demo_definition_def demo_submission_def Let_def case_prod_beta)
  have "\<not> er_Satisfied r"
    by (rule documented_paths_unsatisfiable [OF _ _ _ _ _ r, of demo_descriptor "\<lparr>co_Fields = [demo_field], co_LimitDisclosure = [], co_SubjectIsIssuer = []\<rparr>" demo_field])
      (simp_all add: demo_definition_def demo_descriptor_def demo_field_def has_prefix_def)
  with r show ?thesis by blast
qed

theorem filter_bounds_ignored_witness:
  "applyFilter (\<lparr>fl_Type = ''integer'', fl_Format = [], fl_Pattern = [], fl_Const = JNull, fl_Enum = [JNum 3], fl_Minimum = JNum 9,
     fl_Maximum = JNull\<rparr>\<lparr>fl_Pattern := ''x''\<rparr>) (JNum 3) = Inr ()"
  using filter_bounds_ignored [where f = "\<lparr>fl_Type = ''integer'', fl_Format = [], fl_Pattern = [], fl_Const = JNull, fl_Enum = [JNum 3],
     fl_Minimum = JNum 9, fl_Maximum = JNull\<rparr>" and v = "JNum 3" and p = "''x''"] by simp

end
