(* ===== verification/Age_Proof.thy ===== *)
theory Age_Proof
  imports Vc
begin

text \<open>
  Derived age credentials, \<^verbatim>\<open>src/pkg/vc/zkp.go\<close>.  A date is its year, month and day.  \<open>today\<close> is the date of
  \<^verbatim>\<open>time.Now()\<close> in the zone of the process.
\<close>

section \<open>Dates\<close>

type_synonym date = "int \<times> int \<times> int"

definition is_leap :: "int \<Rightarrow> bool" where
  "is_leap y \<longleftrightarrow> y mod 4 = 0 \<and> (y mod 100 \<noteq> 0 \<or> y mod 400 = 0)"

definition days_in :: "int \<Rightarrow> int \<Rightarrow> int" where
  "days_in m y = (if m = 2 then (if is_leap y then 29 else 28) else if m \<in> {4, 6, 9, 11} then 30 else 31)"

definition date_ok :: "date \<Rightarrow> bool" where
  "date_ok dt = (case dt of (y, m, d) \<Rightarrow> 1 \<le> m \<and> m \<le> 12 \<and> 1 \<le> d \<and> d \<le> days_in m y)"

text \<open>\<^verbatim>\<open>time.Parse\<close> with the layouts \<^verbatim>\<open>2006-01-02\<close> and \<^verbatim>\<open>02/01/2006\<close>: fields of exactly four and two digits, and a day that
  the month has.\<close>

definition digits_at :: "string \<Rightarrow> nat \<Rightarrow> nat \<Rightarrow> int option" where
  "digits_at s i n = (let w = take n (drop i s) in
     if length w = n \<and> list_all is_digit w then Some (int (read_nat 0 w)) else None)"

definition parse_ymd :: "string \<Rightarrow> date option" where
  "parse_ymd s =
     (if length s \<noteq> 10 \<or> s ! 4 \<noteq> CHR ''-'' \<or> s ! 7 \<noteq> CHR ''-'' then None
      else case (digits_at s 0 4, digits_at s 5 2, digits_at s 8 2) of
        (Some y, Some m, Some d) \<Rightarrow> if date_ok (y, m, d) then Some (y, m, d) else None
      | _ \<Rightarrow> None)"

definition parse_dmy :: "string \<Rightarrow> date option" where
  "parse_dmy s =
     (if length s \<noteq> 10 \<or> s ! 2 \<noteq> CHR ''/'' \<or> s ! 5 \<noteq> CHR ''/'' then None
      else case (digits_at s 6 4, digits_at s 3 2, digits_at s 0 2) of
        (Some y, Some m, Some d) \<Rightarrow> if date_ok (y, m, d) then Some (y, m, d) else None
      | _ \<Rightarrow> None)"

(* src: pkg/vc/zkp.go:114-127 parseDOB *)
definition parseDOB :: "string \<Rightarrow> date option" where
  "parseDOB s =
     (case parse_ymd s of
        Some t \<Rightarrow> Some t
      | None \<Rightarrow>
          (case parse_dmy s of
             Some t \<Rightarrow> Some t
           | None \<Rightarrow> if length s = 4 then map_option (\<lambda>year. (year, 1, 1)) (atoi s) else None))"

(* src: pkg/vc/zkp.go:130-141 ageFromDOB *)
definition ageFromDOB :: "date \<Rightarrow> date \<Rightarrow> int" where
  "ageFromDOB today dob =
     (case (today, dob) of ((ty, tm, td), (y, m, d)) \<Rightarrow>
        let years = ty - y;
            years = (if tm < m \<or> (tm = m \<and> td < d) then years - 1 else years)
        in if years < 0 then 0 else years)"

section \<open>The derived credential\<close>

(* src: pkg/vc/zkp.go:27-32 AgeProofRequest *)
record age_proof_request =
  ar_DOBCredentialID :: string
  ar_AgeThreshold :: int
  ar_SubjectDID :: string
  ar_VerifierDID :: string

(* src: pkg/vc/zkp.go:36-40 AgeProofResult *)
record age_proof_result =
  ag_Credential :: vcredential
  ag_AgeOver :: int
  ag_Result :: bool

datatype age_error = AgeNoDOB | AgeParse string | AgeEphemeralIssuer | AgeSign vc_error

(* src: pkg/vc/zkp.go:53-60 IssueAgeProof (date of birth) *)
definition dob_claim :: "(string \<times> string) list \<Rightarrow> string" where
  "dob_claim claims =
     (case find (\<lambda>name. map_of claims name \<noteq> None \<and> map_of claims name \<noteq> Some [])
        [''date_of_birth'', ''dob'', ''dateOfBirth'', ''birthDate''] of
        None \<Rightarrow> [] | Some name \<Rightarrow> the (map_of claims name))"

(* src: pkg/vc/zkp.go:81-89 IssueAgeProof (claims) *)
definition age_claims :: "int \<Rightarrow> bool \<Rightarrow> string \<Rightarrow> (string \<times> string) list" where
  "age_claims threshold result verifierDID =
     [(''age_over'', itoa threshold), (''result'', if result then ''true'' else ''false''), (''proof_type'', ''derived''),
      (''method'', ''issuer-computed'')] @ (if verifierDID \<noteq> [] then [(''verifier'', verifierDID)] else [])"

(* src: pkg/vc/zkp.go:91-99 IssueAgeProof (options) *)
definition age_options :: "string \<Rightarrow> byte list \<Rightarrow> string \<Rightarrow> string \<Rightarrow> (string \<times> string) list \<Rightarrow> vc_issue_options" where
  "age_options issuerDID issuerKey keyID subjectDID derived =
     \<lparr>vo_IssuerDID = issuerDID, vo_IssuerKey = issuerKey, vo_VerificationMethodID = keyID, vo_SubjectDID = subjectDID,
      vo_SchemaID = ''identity.age-over-proof'', vo_Claims = derived, vo_ValidFor = hour, vo_StatusListCredential = [],
      vo_StatusListIndex = 0\<rparr>"

(* src: pkg/vc/zkp.go:44-111 IssueAgeProof *)
definition IssueAgeProof :: "prims \<Rightarrow> (string \<Rightarrow> json \<Rightarrow> 'c option) \<Rightarrow> ('c \<Rightarrow> (string \<times> json) list \<Rightarrow> bool) \<Rightarrow> registry
    \<Rightarrow> (string \<rightharpoonup> 'c) \<Rightarrow> string \<Rightarrow> instant \<Rightarrow> date \<Rightarrow> vcredential \<Rightarrow> int \<Rightarrow> string \<Rightarrow> byte list \<Rightarrow> string \<Rightarrow> string
    \<Rightarrow> (age_error + age_proof_result) \<times> (string \<rightharpoonup> 'c)" where
  "IssueAgeProof P js_compile js_validate reg cache uuid now today dobVC threshold issuerDID issuerKey keyID verifierDID =
     (let subject = cr_CredentialSubject (vc_Credential dobVC); dobStr = dob_claim (sub_Claims subject) in
      if dobStr = [] then (Inl AgeNoDOB, cache)
      else case parseDOB dobStr of
        None \<Rightarrow> (Inl (AgeParse dobStr), cache)
      | Some dob \<Rightarrow>
          let result = (ageFromDOB today dob \<ge> threshold) in
          if has_prefix issuerDID ''did:key:'' then (Inl AgeEphemeralIssuer, cache)
          else case vc_Issue P js_compile js_validate reg cache uuid now
              (age_options issuerDID issuerKey keyID (sub_ID subject) (age_claims threshold result verifierDID)) of
            (Inl e, cache') \<Rightarrow> (Inl (AgeSign e), cache')
          | (Inr cred, cache') \<Rightarrow>
              (Inr \<lparr>ag_Credential = cred, ag_AgeOver = threshold, ag_Result = result\<rparr>, cache'))"

section \<open>The age is right\<close>

text \<open>The \<open>n\<close>-th birthday, as far as dates compare by year, month and day.\<close>

definition reached :: "date \<Rightarrow> int \<Rightarrow> date \<Rightarrow> bool" where
  "reached dob n today = (case (dob, today) of ((y, m, d), (ty, tm, td)) \<Rightarrow>
     y + n < ty \<or> (y + n = ty \<and> (m < tm \<or> (m = tm \<and> d \<le> td))))"

lemma ageFromDOB_reached: "0 < n \<Longrightarrow> n \<le> ageFromDOB today dob \<longleftrightarrow> reached dob n today"
  by (cases today; cases dob) (auto simp: ageFromDOB_def reached_def Let_def)

lemma parseDOB_date_ok: "parseDOB s = Some dob \<Longrightarrow> date_ok dob"
proof -
  assume p: "parseDOB s = Some dob"
  have "parse_ymd s = Some t \<Longrightarrow> date_ok t" for t
    by (auto simp: parse_ymd_def split: if_splits option.splits)
  moreover have "parse_dmy s = Some t \<Longrightarrow> date_ok t" for t
    by (auto simp: parse_dmy_def split: if_splits option.splits)
  moreover have "date_ok (y, 1, 1)" for y by (simp add: date_ok_def days_in_def)
  ultimately show ?thesis using p by (auto simp: parseDOB_def split: option.splits if_splits)
qed

lemma vc_Issue_claims:
  assumes "vc_Issue P js_compile js_validate reg cache uuid now opts = (Inr cred, cache')"
  shows "cr_CredentialSubject (vc_Credential cred) = \<lparr>sub_ID = vo_SubjectDID opts, sub_Claims = vo_Claims opts\<rparr>"
  using assms by (auto simp: vc_Issue_def sign_credential_def issue_credential_def Let_def split: if_splits sum.splits prod.splits)

text \<open>An age proof says the truth about the recorded date of birth and nothing more: its result is whether the
  threshold birthday has been reached today, and the subject of the derived credential carries only the threshold, the
  result, two constants and the verifier.\<close>

theorem age_proof_correct:
  assumes "IssueAgeProof P js_compile js_validate reg cache uuid now today dobVC threshold issuerDID key keyID verifierDID
      = (Inr r, cache')" "0 < threshold"
  shows "\<exists>dob. parseDOB (dob_claim (sub_Claims (cr_CredentialSubject (vc_Credential dobVC)))) = Some dob \<and> date_ok dob \<and>
      ag_Result r = reached dob threshold today \<and>
      cr_CredentialSubject (vc_Credential (ag_Credential r)) =
        \<lparr>sub_ID = sub_ID (cr_CredentialSubject (vc_Credential dobVC)),
         sub_Claims = age_claims threshold (ag_Result r) verifierDID\<rparr>"
proof -
  let ?s = "cr_CredentialSubject (vc_Credential dobVC)"
  from assms(1) obtain dob where d: "parseDOB (dob_claim (sub_Claims ?s)) = Some dob"
    by (auto simp: IssueAgeProof_def Let_def split: if_splits option.splits)
  let ?o = "age_options issuerDID key keyID (sub_ID ?s) (age_claims threshold (ageFromDOB today dob \<ge> threshold) verifierDID)"
  from assms(1) d have i: "vc_Issue P js_compile js_validate reg cache uuid now ?o = (Inr (ag_Credential r), cache')"
    and r: "ag_Result r = (ageFromDOB today dob \<ge> threshold)"
    by (auto simp: IssueAgeProof_def Let_def split: if_splits prod.splits sum.splits)
  from vc_Issue_claims [OF i] r ageFromDOB_reached [OF assms(2)] parseDOB_date_ok [OF d] d show ?thesis
    by (auto simp: age_options_def)
qed

text \<open>The input credential is not verified: the outcome of \<open>IssueAgeProof\<close> depends on the subject of the date-of-birth
  credential only, whoever issued it, whatever its proof says and whether or not it has expired.\<close>

theorem age_proof_input_unverified:
  assumes "cr_CredentialSubject (vc_Credential a) = cr_CredentialSubject (vc_Credential b)"
  shows "IssueAgeProof P js_compile js_validate reg cache uuid now today a threshold issuerDID key keyID verifierDID =
    IssueAgeProof P js_compile js_validate reg cache uuid now today b threshold issuerDID key keyID verifierDID"
  using assms by (simp add: IssueAgeProof_def)

section \<open>Witnesses\<close>

definition demo_dob_vc :: vcredential where
  "demo_dob_vc = \<lparr>vc_Credential = demo_cred\<lparr>cr_CredentialSubject := \<lparr>sub_ID = ''did:web:b'', sub_Claims = [(''dob'', ''2006-05-01'')]\<rparr>\<rparr>,
     vc_Proof = None\<rparr>"

lemma demo_dob: "parseDOB ''2006-05-01'' = Some (2006, 5, 1)"
  by code_simp

definition demo_age_registry :: registry where
  "demo_age_registry = \<lparr>categories = [], schemas = [(''identity.age-over-proof'', demo_schema\<lparr>sch_ID := ''identity.age-over-proof''\<rparr>)]\<rparr>"

lemma demo_age_proof_ok:
  "\<exists>r cache. IssueAgeProof demo_prims (\<lambda>url doc. Some doc) (\<lambda>sch data. True) demo_age_registry Map.empty ''u'' 0 (2024, 4, 30)
     demo_dob_vc 18 ''did:web:a'' demo_key ''k1'' [] = (Inr r, cache)"
  by (simp add: IssueAgeProof_def demo_dob_vc_def dob_claim_def demo_dob has_prefix_def vc_Issue_def age_options_def
      demo_age_registry_def GetSchema_def demo_schema_def Validate_def compiledFor_def compileSchema_def Let_def)

theorem age_proof_correct_witness:
  "\<exists>r cache. IssueAgeProof demo_prims (\<lambda>url doc. Some doc) (\<lambda>sch data. True) demo_age_registry Map.empty ''u'' 0 (2024, 4, 30)
     demo_dob_vc 18 ''did:web:a'' demo_key ''k1'' [] = (Inr r, cache) \<and> \<not> ag_Result r"
proof -
  obtain r cache where r: "IssueAgeProof demo_prims (\<lambda>url doc. Some doc) (\<lambda>sch data. True) demo_age_registry Map.empty ''u'' 0
      (2024, 4, 30) demo_dob_vc 18 ''did:web:a'' demo_key ''k1'' [] = (Inr r, cache)"
    using demo_age_proof_ok by blast
  have "dob_claim (sub_Claims (cr_CredentialSubject (vc_Credential demo_dob_vc))) = ''2006-05-01''"
    by (simp add: demo_dob_vc_def dob_claim_def)
  with age_proof_correct [OF r] have "\<not> ag_Result r" by (auto simp: demo_dob reached_def)
  with r show ?thesis by blast
qed

theorem age_proof_input_unverified_witness:
  "IssueAgeProof demo_prims (\<lambda>url doc. Some doc) (\<lambda>sch data. True) demo_age_registry Map.empty ''u'' 0 (2024, 4, 30)
     (demo_dob_vc\<lparr>vc_Credential := vc_Credential demo_dob_vc\<lparr>cr_Issuer := ''did:web:mallory'', cr_ValidUntil := Some (- hour)\<rparr>\<rparr>) 18
     ''did:web:a'' demo_key ''k1'' [] =
   IssueAgeProof demo_prims (\<lambda>url doc. Some doc) (\<lambda>sch data. True) demo_age_registry Map.empty ''u'' 0 (2024, 4, 30) demo_dob_vc 18
     ''did:web:a'' demo_key ''k1'' []"
  by (rule age_proof_input_unverified) simp

end
