(* ===== verification/Key_Wrap.thy ===== *)
theory Key_Wrap
  imports Crypto
begin

unbundle bit_operations_syntax

text \<open>
  AES key wrap (RFC 3394) as \<^verbatim>\<open>src/pkg/didcomm/didcomm.go\<close> implements it.  The AES block cipher is an argument; what the
  proofs use of it is that decryption undoes encryption on blocks of 16 bytes.  The buffers \<^verbatim>\<open>A\<close> and \<^verbatim>\<open>R\<close> are the pair that
  the loops pass on; \<open>get8\<close> and \<open>put8\<close> are the slices of \<^verbatim>\<open>R\<close> that are read and copied over.
\<close>

section \<open>Big-endian words\<close>

definition put_uint64 :: "64 word \<Rightarrow> byte list" where
  "put_uint64 w = map (\<lambda>i. ucast (drop_bit (56 - 8 * i) w)) [0..<8]"

definition get_uint64 :: "byte list \<Rightarrow> 64 word" where
  "get_uint64 bs = word_rcat (take 8 bs)"

definition put_uint32 :: "32 word \<Rightarrow> byte list" where
  "put_uint32 w = map (\<lambda>i. ucast (drop_bit (24 - 8 * i) w)) [0..<4]"

section \<open>The cipher\<close>

record ciphers =
  aes_encrypt :: "byte list \<Rightarrow> byte list \<Rightarrow> byte list"
  aes_decrypt :: "byte list \<Rightarrow> byte list \<Rightarrow> byte list"
  xc_seal :: "byte list \<Rightarrow> byte list \<Rightarrow> byte list \<Rightarrow> byte list \<Rightarrow> byte list"
  xc_open :: "byte list \<Rightarrow> byte list \<Rightarrow> byte list \<Rightarrow> byte list \<Rightarrow> byte list option"

text \<open>A block decrypts to what was encrypted under the same key, and blocks keep their length.\<close>

definition aes_ok :: "ciphers \<Rightarrow> bool" where
  "aes_ok C \<longleftrightarrow> (\<forall>k b. length b = 16 \<longrightarrow> length (aes_encrypt C k b) = 16 \<and> aes_decrypt C k (aes_encrypt C k b) = b)"

section \<open>Wrapping and unwrapping\<close>

datatype key_wrap_error = KwPlaintext | KwCiphertext | KwCipher | KwIntegrity

(* src: pkg/didcomm/didcomm.go:415-415 aesKWDefaultIV *)
definition aesKWDefaultIV :: "byte list" where
  "aesKWDefaultIV = replicate 8 0xA6"

definition get8 :: "byte list \<Rightarrow> nat \<Rightarrow> byte list" where
  "get8 R i = take 8 (drop (8 * i) R)"

definition put8 :: "byte list \<Rightarrow> nat \<Rightarrow> byte list \<Rightarrow> byte list" where
  "put8 R i b = take (8 * i) R @ b @ drop (8 * i + 8) R"

(* src: pkg/didcomm/didcomm.go:432-437 aesKeyWrap (loop body) *)
definition wrap_step :: "ciphers \<Rightarrow> byte list \<Rightarrow> nat \<Rightarrow> nat \<times> nat \<Rightarrow> byte list \<times> byte list \<Rightarrow> byte list \<times> byte list" where
  "wrap_step C kek n ji AR = (case (ji, AR) of ((j, i), (A, R)) \<Rightarrow>
     let buf = aes_encrypt C kek (A @ get8 R i);
         t = word_of_nat (n * j + i + 1)
     in (put_uint64 (get_uint64 (take 8 buf) XOR t), put8 R i (drop 8 buf)))"

(* src: pkg/didcomm/didcomm.go:462-467 aesKeyUnwrap (loop body) *)
definition unwrap_step :: "ciphers \<Rightarrow> byte list \<Rightarrow> nat \<Rightarrow> nat \<times> nat \<Rightarrow> byte list \<times> byte list \<Rightarrow> byte list \<times> byte list" where
  "unwrap_step C kek n ji AR = (case (ji, AR) of ((j, i), (A, R)) \<Rightarrow>
     let t = word_of_nat (n * j + i + 1);
         buf = aes_decrypt C kek (put_uint64 (get_uint64 A XOR t) @ get8 R i)
     in (take 8 buf, put8 R i (drop 8 buf)))"

text \<open>The index pairs in the order of the two nested loops.\<close>

(* src: pkg/didcomm/didcomm.go:430-431 aesKeyWrap (loop bounds) *)
definition wrap_order :: "nat \<Rightarrow> (nat \<times> nat) list" where
  "wrap_order n = concat (map (\<lambda>j. map (Pair j) [0..<n]) [0..<6])"

(* src: pkg/didcomm/didcomm.go:460-461 aesKeyUnwrap (loop bounds) *)
definition unwrap_order :: "nat \<Rightarrow> (nat \<times> nat) list" where
  "unwrap_order n = concat (map (\<lambda>j. map (Pair j) (rev [0..<n])) (rev [0..<6]))"

(* src: pkg/didcomm/didcomm.go:417-444 aesKeyWrap *)
definition aesKeyWrap :: "ciphers \<Rightarrow> byte list \<Rightarrow> byte list \<Rightarrow> key_wrap_error + byte list" where
  "aesKeyWrap C kek plaintext =
     (if length plaintext < 16 \<or> length plaintext mod 8 \<noteq> 0 then Inl KwPlaintext
      else if length kek \<notin> {16, 24, 32} then Inl KwCipher
      else let n = length plaintext div 8;
               (A, R) = fold (wrap_step C kek n) (wrap_order n) (aesKWDefaultIV, plaintext)
        in Inr (A @ R))"

(* src: pkg/didcomm/didcomm.go:446-474 aesKeyUnwrap *)
definition aesKeyUnwrap :: "ciphers \<Rightarrow> byte list \<Rightarrow> byte list \<Rightarrow> key_wrap_error + byte list" where
  "aesKeyUnwrap C kek ciphertext =
     (if length ciphertext < 24 \<or> length ciphertext mod 8 \<noteq> 0 then Inl KwCiphertext
      else if length kek \<notin> {16, 24, 32} then Inl KwCipher
      else let n = length ciphertext div 8 - 1;
               (A, R) = fold (unwrap_step C kek n) (unwrap_order n) (take 8 ciphertext, drop 8 ciphertext)
        in if A \<noteq> aesKWDefaultIV then Inl KwIntegrity else Inr R)"

section \<open>Big-endian words: lemmas\<close>

lemma length_put_uint64 [simp]: "length (put_uint64 w) = 8"
  by (simp add: put_uint64_def)

lemma put_uint64_nth: "i < 8 \<Longrightarrow> put_uint64 w ! i = ucast (drop_bit (56 - 8 * i) w)"
  using nth_map [of i "[0..<8]"] nth_upt [of 0 i 8] by (simp add: put_uint64_def del: upt_rec_numeral)

lemma bit_get_uint64:
  assumes "length bs = 8"
  shows "bit (get_uint64 bs) n \<longleftrightarrow> n < 64 \<and> bit (bs ! (7 - n div 8)) (n mod 8)"
proof (cases "n < 64")
  case True
  then have d: "n div 8 < 8" by simp
  then have r: "rev bs ! (n div 8) = bs ! (7 - n div 8)" using assms by (simp add: rev_nth)
  have "bit (horner_sum uint 256 (rev bs)) n \<longleftrightarrow> n div 8 < length bs \<and> bit (rev bs ! (n div 8)) (n mod 8)"
    using bit_horner_sum_uint_exp_iff [of "rev bs" n] by simp
  with True assms d r show ?thesis by (simp add: get_uint64_def word_rcat_def bit_simps)
next
  case False
  then show ?thesis by (simp add: impossible_bit)
qed

lemma get_put_uint64 [simp]: "get_uint64 (put_uint64 w) = w"
proof (rule bit_word_eqI)
  fix n assume n: "n < LENGTH(64)"
  then have d: "n div 8 < 8" by simp
  have "56 - 8 * (7 - n div 8) + n mod 8 = n" using d by (simp add: diff_mult_distrib2)
  moreover have "n mod 8 < 8" by simp
  ultimately show "bit (get_uint64 (put_uint64 w)) n = bit w n"
    using n put_uint64_nth [of "7 - n div 8" w] by (simp add: bit_get_uint64 bit_ucast_iff bit_drop_bit_eq del: mod_less_divisor)
qed

lemma put_get_uint64 [simp]: "length bs = 8 \<Longrightarrow> put_uint64 (get_uint64 bs) = bs"
proof (rule nth_equalityI)
  fix i assume l: "length bs = 8" and "i < length (put_uint64 (get_uint64 bs))"
  then have i: "i < 8" by simp
  show "put_uint64 (get_uint64 bs) ! i = bs ! i"
  proof (rule bit_word_eqI)
    fix m assume m: "m < LENGTH(8)"
    have "(56 - 8 * i + m) div 8 = 7 - i" "(56 - 8 * i + m) mod 8 = m" "56 - 8 * i + m < 64"
      using i m by (simp_all add: diff_mult_distrib2 [symmetric, of 8 7 i, simplified])
    moreover have "7 - (7 - i) = i" using i by simp
    ultimately show "bit (put_uint64 (get_uint64 bs) ! i) m = bit (bs ! i) m"
      using i m by (simp add: put_uint64_nth bit_ucast_iff bit_drop_bit_eq bit_get_uint64 [OF l])
  qed
qed simp

section \<open>Unwrapping undoes wrapping\<close>

lemma length_put8: "length b = 8 \<Longrightarrow> 8 * i + 8 \<le> length R \<Longrightarrow> length (put8 R i b) = length R"
  by (simp add: put8_def)

lemma length_get8: "8 * i + 8 \<le> length R \<Longrightarrow> length (get8 R i) = 8"
  by (simp add: get8_def)

lemma get8_put8: "length b = 8 \<Longrightarrow> 8 * i + 8 \<le> length R \<Longrightarrow> get8 (put8 R i b) i = b"
  by (simp add: get8_def put8_def)

lemma put8_put8: "length b = 8 \<Longrightarrow> 8 * i + 8 \<le> length R \<Longrightarrow> put8 (put8 R i b) i c = put8 R i c"
  by (simp add: put8_def)

lemma put8_get8: "8 * i + 8 \<le> length R \<Longrightarrow> put8 R i (get8 R i) = R"
  by (simp add: put8_def get8_def) (metis add.commute append_take_drop_id drop_drop)

definition wrap_state :: "nat \<Rightarrow> byte list \<times> byte list \<Rightarrow> bool" where
  "wrap_state n s \<longleftrightarrow> length (fst s) = 8 \<and> length (snd s) = 8 * n"

lemma wrap_step_inverse:
  assumes "aes_ok C" "wrap_state n s" "snd ji < n"
  shows "wrap_state n (wrap_step C kek n ji s)" "unwrap_step C kek n ji (wrap_step C kek n ji s) = s"
proof -
  obtain j i A R where s: "ji = (j, i)" "s = (A, R)" by (metis surj_pair)
  have l: "length A = 8" "length R = 8 * n" and i: "8 * i + 8 \<le> length R"
    using assms(2,3) s by (simp_all add: wrap_state_def)
  define buf where "buf = aes_encrypt C kek (A @ get8 R i)"
  have b: "length buf = 16" "aes_decrypt C kek buf = A @ get8 R i"
    using assms(1) l length_get8 [OF i] by (auto simp: aes_ok_def buf_def)
  have b8: "length (take 8 buf) = 8" "length (drop 8 buf) = 8" using b by simp_all
  have w: "wrap_step C kek n ji s = (put_uint64 (get_uint64 (take 8 buf) XOR word_of_nat (n * j + i + 1)), put8 R i (drop 8 buf))"
    by (simp add: wrap_step_def s Let_def buf_def)
  show "wrap_state n (wrap_step C kek n ji s)"
    using length_put8 [OF b8(2) i] l by (simp add: w wrap_state_def)
  have "put_uint64 (get_uint64 (put_uint64 (get_uint64 (take 8 buf) XOR t)) XOR t) = take 8 buf" for t
    using b8 by (simp add: xor.assoc)
  then show "unwrap_step C kek n ji (wrap_step C kek n ji s) = s"
    unfolding w
    by (simp add: unwrap_step_def s Let_def get8_put8 [OF b8(2) i] put8_put8 [OF b8(2) i] b l put8_get8 [OF i])
qed

lemma unwrap_wrap_loop:
  assumes "aes_ok C" "wrap_state n s" "\<forall>ji\<in>set order. snd ji < n"
  shows "wrap_state n (fold (wrap_step C kek n) order s) \<and>
    fold (unwrap_step C kek n) (rev order) (fold (wrap_step C kek n) order s) = s"
  using assms(2,3)
proof (induction order arbitrary: s)
  case (Cons ji order)
  have w: "wrap_state n (wrap_step C kek n ji s)" "unwrap_step C kek n ji (wrap_step C kek n ji s) = s"
    using wrap_step_inverse [OF assms(1) Cons.prems(1)] Cons.prems(2) by simp_all
  from Cons.IH [OF w(1)] Cons.prems(2) w(2) show ?case by simp
qed simp

lemma unwrap_order_rev: "unwrap_order n = rev (wrap_order n)"
  by (simp add: unwrap_order_def wrap_order_def rev_concat rev_map comp_def)

lemma wrap_order_bound: "ji \<in> set (wrap_order n) \<Longrightarrow> snd ji < n"
  by (auto simp: wrap_order_def)

lemma aesKeyUnwrap_Wrap:
  assumes "aes_ok C" "16 \<le> length plaintext" "length plaintext mod 8 = 0" "length kek \<in> {16, 24, 32}"
  shows "\<exists>ct. aesKeyWrap C kek plaintext = Inr ct \<and> length ct = length plaintext + 8 \<and> aesKeyUnwrap C kek ct = Inr plaintext"
proof -
  let ?n = "length plaintext div 8"
  have n: "length plaintext = 8 * ?n" using assms(3) by presburger
  have s: "wrap_state ?n (aesKWDefaultIV, plaintext)" using n by (simp add: wrap_state_def aesKWDefaultIV_def)
  obtain A R where AR: "fold (wrap_step C kek ?n) (wrap_order ?n) (aesKWDefaultIV, plaintext) = (A, R)" by (metis surj_pair)
  from unwrap_wrap_loop [OF assms(1) s, of "wrap_order ?n" kek] wrap_order_bound AR
  have l: "length A = 8" "length R = 8 * ?n"
    and u: "fold (unwrap_step C kek ?n) (unwrap_order ?n) (A, R) = (aesKWDefaultIV, plaintext)"
    by (auto simp: wrap_state_def unwrap_order_rev)
  have w: "aesKeyWrap C kek plaintext = Inr (A @ R)" using assms(2,3,4) AR by (auto simp: aesKeyWrap_def Let_def)
  have "length (A @ R) div 8 - 1 = ?n" "\<not> length (A @ R) < 24" "length (A @ R) mod 8 = 0"
    using l n assms(2,3) by simp_all
  then have "aesKeyUnwrap C kek (A @ R) = Inr plaintext"
    using u l assms(4) by (auto simp: aesKeyUnwrap_def Let_def)
  with w l n show ?thesis by simp
qed

text \<open>C15: wrapping a content key and unwrapping the result under the same key-encryption key gives the content key back, for
  every key size of AES and every plaintext of at least two blocks; the wrapped key is eight bytes longer.\<close>

theorem key_wrap_roundtrip:
  assumes "aes_ok C" "16 \<le> length plaintext" "length plaintext mod 8 = 0" "length kek \<in> {16, 24, 32}"
  shows "\<exists>ct. aesKeyWrap C kek plaintext = Inr ct \<and> length ct = length plaintext + 8 \<and> aesKeyUnwrap C kek ct = Inr plaintext"
  using assms by (rule aesKeyUnwrap_Wrap)

section \<open>Witness\<close>

definition demo_ciphers :: ciphers where
  "demo_ciphers = \<lparr>aes_encrypt = (\<lambda>k b. rev b), aes_decrypt = (\<lambda>k b. rev b),
     xc_seal = (\<lambda>k n m aad. m @ replicate 16 0), xc_open = (\<lambda>k n c aad. Some (take (length c - 16) c))\<rparr>"

lemma demo_aes_ok: "aes_ok demo_ciphers"
  by (simp add: aes_ok_def demo_ciphers_def)

theorem key_wrap_roundtrip_witness:
  "\<exists>ct. aesKeyWrap demo_ciphers (replicate 32 5) (replicate 32 9) = Inr ct \<and> length ct = 40 \<and>
     aesKeyUnwrap demo_ciphers (replicate 32 5) ct = Inr (replicate 32 9)"
  using key_wrap_roundtrip [OF demo_aes_ok, of "replicate 32 9" "replicate 32 5"] by simp

end
