(* ===== verification/Didcomm.thy ===== *)
theory Didcomm
  imports Key_Wrap Jwt
begin

text \<open>
  DIDComm v2 envelopes, \<^verbatim>\<open>src/pkg/didcomm/didcomm.go\<close>: packing for several recipients with or without an authenticated
  sender, and unpacking.  X25519, SHA-256, AES and XChaCha20-Poly1305 are arguments; \<open>dc_ok\<close> is what the proofs use of
  them.  Each read of the random source is an argument: the content key, one per ephemeral key, and the nonce.  Opening
  with a nonce of the wrong length panics, which is the error \<open>DcPanic\<close>.
\<close>

section \<open>Data\<close>

(* src: pkg/didcomm/didcomm.go:66-69 Recipient *)
record recipient =
  rc_KID :: string
  rc_PubKey :: "byte list"

(* src: pkg/didcomm/didcomm.go:91-95 jwkOKP *)
record jwk_okp =
  ok_KTY :: string
  ok_CRV :: string
  ok_X :: string

(* src: pkg/didcomm/didcomm.go:80-88 jweRecip, jweRecipHeader *)
record jwe_recip =
  jr_KID :: string
  jr_EPK :: "jwk_okp option"
  jr_EncryptedKey :: string

(* src: pkg/didcomm/didcomm.go:72-78 Envelope *)
record envelope =
  ev_Protected :: string
  ev_Recipients :: "jwe_recip list"
  ev_IV :: string
  ev_Ciphertext :: string
  ev_Tag :: string

(* src: pkg/didcomm/didcomm.go:98-105 protectedHeader *)
record protected_header =
  ph_Typ :: string
  ph_Alg :: string
  ph_Enc :: string
  ph_SKID :: string
  ph_APU :: string
  ph_APV :: string

(* src: pkg/didcomm/didcomm.go:32-32 MediaTypeEncrypted *)
definition MediaTypeEncrypted :: string where
  "MediaTypeEncrypted = ''application/didcomm-encrypted+json''"

(* src: pkg/didcomm/didcomm.go:34-34 algAnoncrypt *)
definition algAnoncrypt :: string where
  "algAnoncrypt = ''ECDH-ES+A256KW''"

(* src: pkg/didcomm/didcomm.go:35-35 algAuthcrypt *)
definition algAuthcrypt :: string where
  "algAuthcrypt = ''ECDH-1PU+A256KW''"

(* src: pkg/didcomm/didcomm.go:36-36 encXC20P *)
definition encXC20P :: string where
  "encXC20P = ''XC20P''"

datatype didcomm_error =
    DcNoRecipient | DcCek | DcEphemeral | DcKek string | DcWrap string | DcIv
  | DcParse | DcDecodeHeader | DcParseHeader | DcNoSenderFn | DcSenderKey string | DcNoKey
  | DcDecodeIv | DcDecodeCiphertext | DcDecodeTag | DcDecrypt | DcPanic

section \<open>JSON\<close>

(* src: pkg/didcomm/didcomm.go:98-105 protectedHeader (JSON) *)
definition header_json :: "protected_header \<Rightarrow> json" where
  "header_json h = JObj ([(''typ'', JStr (ph_Typ h)), (''alg'', JStr (ph_Alg h)), (''enc'', JStr (ph_Enc h))] @
     jopt ''skid'' (ph_SKID h) @ jopt ''apu'' (ph_APU h) @ jopt ''apv'' (ph_APV h))"

(* src: pkg/didcomm/didcomm.go:241-244 Unpack (header) *)
definition header_of :: "json \<Rightarrow> protected_header option" where
  "header_of v =
     (if \<not> as_struct v then None
      else case (as_string (member v ''typ''), as_string (member v ''alg''), as_string (member v ''enc'')) of
        (Some t, Some a, Some e) \<Rightarrow>
          (case (as_string (member v ''skid''), as_string (member v ''apu''), as_string (member v ''apv'')) of
             (Some s, Some u, Some w) \<Rightarrow>
               Some \<lparr>ph_Typ = t, ph_Alg = a, ph_Enc = e, ph_SKID = s, ph_APU = u, ph_APV = w\<rparr>
           | _ \<Rightarrow> None)
      | _ \<Rightarrow> None)"

(* src: pkg/didcomm/didcomm.go:91-95 jwkOKP (JSON) *)
definition okp_json :: "jwk_okp \<Rightarrow> json" where
  "okp_json k = JObj [(''kty'', JStr (ok_KTY k)), (''crv'', JStr (ok_CRV k)), (''x'', JStr (ok_X k))]"

(* src: pkg/didcomm/didcomm.go:80-88 jweRecip (JSON) *)
definition recip_json :: "jwe_recip \<Rightarrow> json" where
  "recip_json r = JObj [(''header'', JObj ([(''kid'', JStr (jr_KID r))] @
      (case jr_EPK r of None \<Rightarrow> [] | Some k \<Rightarrow> [(''epk'', okp_json k)]))), (''encrypted_key'', JStr (jr_EncryptedKey r))]"

(* src: pkg/didcomm/didcomm.go:72-78 Envelope (JSON) *)
definition envelope_json :: "envelope \<Rightarrow> json" where
  "envelope_json e = JObj [(''protected'', JStr (ev_Protected e)), (''recipients'', JArr (map recip_json (ev_Recipients e))),
     (''iv'', JStr (ev_IV e)), (''ciphertext'', JStr (ev_Ciphertext e)), (''tag'', JStr (ev_Tag e))]"

(* src: pkg/didcomm/didcomm.go:91-95 jwkOKP (decoding) *)
definition okp_of :: "json \<Rightarrow> jwk_okp option option" where
  "okp_of v =
     (if v = JNull then Some None
      else if \<not> as_struct v then None
      else case (as_string (member v ''kty''), as_string (member v ''crv''), as_string (member v ''x'')) of
        (Some t, Some c, Some x) \<Rightarrow> Some (Some \<lparr>ok_KTY = t, ok_CRV = c, ok_X = x\<rparr>)
      | _ \<Rightarrow> None)"

(* src: pkg/didcomm/didcomm.go:80-88 jweRecip (decoding) *)
definition recip_of :: "json \<Rightarrow> jwe_recip option" where
  "recip_of v =
     (let h = member v ''header'' in
      if \<not> as_struct v \<or> \<not> as_struct h then None
      else case (as_string (member h ''kid''), okp_of (member h ''epk''), as_string (member v ''encrypted_key'')) of
        (Some k, Some e, Some w) \<Rightarrow> Some \<lparr>jr_KID = k, jr_EPK = e, jr_EncryptedKey = w\<rparr>
      | _ \<Rightarrow> None)"

(* src: pkg/didcomm/didcomm.go:232-235 Unpack (envelope) *)
definition envelope_of :: "json \<Rightarrow> envelope option" where
  "envelope_of v =
     (if \<not> as_struct v then None
      else case (as_string (member v ''protected''),
                 (case member v ''recipients'' of JNull \<Rightarrow> Some [] | JArr vs \<Rightarrow> opt_list (map recip_of vs) | _ \<Rightarrow> None)) of
        (Some p, Some rs) \<Rightarrow>
          (case (as_string (member v ''iv''), as_string (member v ''ciphertext''), as_string (member v ''tag'')) of
             (Some i, Some c, Some t) \<Rightarrow>
               Some \<lparr>ev_Protected = p, ev_Recipients = rs, ev_IV = i, ev_Ciphertext = c, ev_Tag = t\<rparr>
           | _ \<Rightarrow> None)
      | _ \<Rightarrow> None)"

section \<open>Key agreement\<close>

(* src: pkg/didcomm/didcomm.go:381-411 concatKDF *)
definition concatKDF :: "prims \<Rightarrow> byte list \<Rightarrow> string \<Rightarrow> string \<Rightarrow> string \<Rightarrow> byte list option" where
  "concatKDF P z alg apuB64 apvB64 =
     (case (if apuB64 \<noteq> [] then b64_decode apuB64 else Some []) of
        None \<Rightarrow> None
      | Some apu \<Rightarrow>
          (case (if apvB64 \<noteq> [] then b64_decode apvB64 else Some []) of
             None \<Rightarrow> None
           | Some apv \<Rightarrow>
               let algBytes = bytes_of alg;
                   h = put_uint32 1 @ z @ put_uint32 (word_of_nat (length algBytes)) @ algBytes @
                     put_uint32 (word_of_nat (length apu)) @ apu @ put_uint32 (word_of_nat (length apv)) @ apv @ put_uint32 256
               in Some (sha256 P h)))"

(* src: pkg/didcomm/didcomm.go:337-343 ecdhESKEKSender *)
definition ecdhESKEKSender :: "prims \<Rightarrow> byte list \<Rightarrow> byte list \<Rightarrow> string \<Rightarrow> string \<Rightarrow> byte list option" where
  "ecdhESKEKSender P ephPriv recipPub alg apvB64 =
     (case x25519 P ephPriv recipPub of None \<Rightarrow> None | Some z \<Rightarrow> concatKDF P z alg [] apvB64)"

(* src: pkg/didcomm/didcomm.go:345-351 ecdhESKEKRecipient *)
definition ecdhESKEKRecipient :: "prims \<Rightarrow> byte list \<Rightarrow> byte list \<Rightarrow> string \<Rightarrow> string \<Rightarrow> byte list option" where
  "ecdhESKEKRecipient P recipPriv ephPub alg apvB64 =
     (case x25519 P recipPriv ephPub of None \<Rightarrow> None | Some z \<Rightarrow> concatKDF P z alg [] apvB64)"

(* src: pkg/didcomm/didcomm.go:353-363 ecdh1PUKEKSender *)
definition ecdh1PUKEKSender :: "prims \<Rightarrow> byte list \<Rightarrow> byte list \<Rightarrow> byte list \<Rightarrow> string \<Rightarrow> string \<Rightarrow> string \<Rightarrow> byte list option" where
  "ecdh1PUKEKSender P ephPriv senderPriv recipPub alg apuB64 apvB64 =
     (case x25519 P ephPriv recipPub of
        None \<Rightarrow> None
      | Some ze \<Rightarrow>
          (case x25519 P senderPriv recipPub of None \<Rightarrow> None | Some zs \<Rightarrow> concatKDF P (ze @ zs) alg apuB64 apvB64))"

(* src: pkg/didcomm/didcomm.go:365-375 ecdh1PUKEKRecipient *)
definition ecdh1PUKEKRecipient :: "prims \<Rightarrow> byte list \<Rightarrow> byte list \<Rightarrow> byte list \<Rightarrow> string \<Rightarrow> string \<Rightarrow> string \<Rightarrow> byte list option" where
  "ecdh1PUKEKRecipient P ephPub recipPriv senderPub alg apuB64 apvB64 =
     (case x25519 P recipPriv ephPub of
        None \<Rightarrow> None
      | Some ze \<Rightarrow>
          (case x25519 P recipPriv senderPub of None \<Rightarrow> None | Some zs \<Rightarrow> concatKDF P (ze @ zs) alg apuB64 apvB64))"

(* src: pkg/didcomm/didcomm.go:479-489 computeAPV *)
definition computeAPV :: "prims \<Rightarrow> string list \<Rightarrow> byte list" where
  "computeAPV P sortedKIDs = sha256 P (bytes_of (join ''.'' sortedKIDs))"

(* src: pkg/didcomm/didcomm.go:492-508 generateX25519 *)
definition generateX25519 :: "prims \<Rightarrow> random \<Rightarrow> (byte list \<times> byte list) option" where
  "generateX25519 P rnd =
     (case rnd of
        None \<Rightarrow> None
      | Some f \<Rightarrow>
          let priv = clamp (map f [0..<32])
          in map_option (Pair priv) (x25519 P priv basepoint))"

section \<open>Packing\<close>

(* src: pkg/didcomm/didcomm.go:160-193 packEnvelope (recipients) *)
fun wrap_recipients :: "prims \<Rightarrow> ciphers \<Rightarrow> (byte list \<Rightarrow> byte list \<Rightarrow> byte list option) \<Rightarrow> byte list \<Rightarrow> random list \<Rightarrow> recipient list
    \<Rightarrow> didcomm_error + jwe_recip list" where
  "wrap_recipients P C kekFn cek rnds [] = Inr []"
| "wrap_recipients P C kekFn cek rnds (r # rs) =
     (case generateX25519 P (case rnds of [] \<Rightarrow> None | rnd # _ \<Rightarrow> rnd) of
        None \<Rightarrow> Inl DcEphemeral
      | Some (ephPriv, ephPub) \<Rightarrow>
          (case kekFn ephPriv (rc_PubKey r) of
             None \<Rightarrow> Inl (DcKek (rc_KID r))
           | Some kek \<Rightarrow>
               (case aesKeyWrap C kek cek of
                  Inl _ \<Rightarrow> Inl (DcWrap (rc_KID r))
                | Inr wrapped \<Rightarrow>
                    (case wrap_recipients P C kekFn cek (tl rnds) rs of
                       Inl e \<Rightarrow> Inl e
                     | Inr jrs \<Rightarrow>
                         Inr (\<lparr>jr_KID = rc_KID r,
                               jr_EPK = Some \<lparr>ok_KTY = ''OKP'', ok_CRV = ''X25519'', ok_X = b64_encode ephPub\<rparr>,
                               jr_EncryptedKey = b64_encode wrapped\<rparr> # jrs)))))"

(* src: pkg/didcomm/didcomm.go:147-215 packEnvelope (from the header on) *)
definition seal_envelope :: "prims \<Rightarrow> ciphers \<Rightarrow> random \<Rightarrow> random list \<Rightarrow> random \<Rightarrow> byte list \<Rightarrow> recipient list \<Rightarrow> protected_header
    \<Rightarrow> (byte list \<Rightarrow> byte list \<Rightarrow> byte list option) \<Rightarrow> didcomm_error + byte list" where
  "seal_envelope P C cekR ephRs ivR msg recipients hdr kekFn =
     (let protB64 = b64_encode (bytes_of (json_marshal (header_json hdr))) in
      case cekR of
        None \<Rightarrow> Inl DcCek
      | Some f \<Rightarrow>
          let cek = map f [0..<32] in
          (case wrap_recipients P C kekFn cek ephRs recipients of
             Inl e \<Rightarrow> Inl e
           | Inr jrs \<Rightarrow>
               (case ivR of
                  None \<Rightarrow> Inl DcIv
                | Some g \<Rightarrow>
                    let iv = map g [0..<24];
                        sealed = xc_seal C cek iv msg (bytes_of protB64);
                        tagOff = length sealed - 16
                    in Inr (bytes_of (json_marshal (envelope_json
                         \<lparr>ev_Protected = protB64, ev_Recipients = jrs, ev_IV = b64_encode iv,
                          ev_Ciphertext = b64_encode (take tagOff sealed), ev_Tag = b64_encode (drop tagOff sealed)\<rparr>))))))"

(* src: pkg/didcomm/didcomm.go:119-216 packEnvelope *)
definition packEnvelope :: "prims \<Rightarrow> ciphers \<Rightarrow> random \<Rightarrow> random list \<Rightarrow> random \<Rightarrow> byte list \<Rightarrow> recipient list \<Rightarrow> string
    \<Rightarrow> byte list option \<Rightarrow> didcomm_error + byte list" where
  "packEnvelope P C cekR ephRs ivR msg recipients senderKID senderPriv =
     (if recipients = [] then Inl DcNoRecipient
      else
        let apvB64 = b64_encode (computeAPV P (sort (map rc_KID recipients))) in
        case senderPriv of
          None \<Rightarrow>
            seal_envelope P C cekR ephRs ivR msg recipients
              \<lparr>ph_Typ = MediaTypeEncrypted, ph_Alg = algAnoncrypt, ph_Enc = encXC20P, ph_SKID = [], ph_APU = [], ph_APV = apvB64\<rparr>
              (\<lambda>ephPriv pub. ecdhESKEKSender P ephPriv pub algAnoncrypt apvB64)
        | Some priv \<Rightarrow>
            let apu = b64_encode (bytes_of senderKID) in
            seal_envelope P C cekR ephRs ivR msg recipients
              \<lparr>ph_Typ = MediaTypeEncrypted, ph_Alg = algAuthcrypt, ph_Enc = encXC20P, ph_SKID = senderKID, ph_APU = apu, ph_APV = apvB64\<rparr>
              (\<lambda>ephPriv pub. ecdh1PUKEKSender P ephPriv priv pub algAuthcrypt apu apvB64))"

(* src: pkg/didcomm/didcomm.go:109-111 PackAnoncrypt *)
definition PackAnoncrypt :: "prims \<Rightarrow> ciphers \<Rightarrow> random \<Rightarrow> random list \<Rightarrow> random \<Rightarrow> byte list \<Rightarrow> recipient list \<Rightarrow> didcomm_error + byte list" where
  "PackAnoncrypt P C cekR ephRs ivR msg recipients = packEnvelope P C cekR ephRs ivR msg recipients [] None"

(* src: pkg/didcomm/didcomm.go:115-117 PackAuthcrypt *)
definition PackAuthcrypt :: "prims \<Rightarrow> ciphers \<Rightarrow> random \<Rightarrow> random list \<Rightarrow> random \<Rightarrow> byte list \<Rightarrow> recipient list \<Rightarrow> string \<Rightarrow> byte list
    \<Rightarrow> didcomm_error + byte list" where
  "PackAuthcrypt P C cekR ephRs ivR msg recipients senderKID senderPriv =
     packEnvelope P C cekR ephRs ivR msg recipients senderKID (Some senderPriv)"

section \<open>Unpacking\<close>

(* src: pkg/didcomm/didcomm.go:262-302 Unpack (one recipient) *)
definition unwrap_recipient :: "prims \<Rightarrow> ciphers \<Rightarrow> (string \<Rightarrow> byte list option) \<Rightarrow> protected_header \<Rightarrow> byte list \<Rightarrow> jwe_recip
    \<Rightarrow> byte list option" where
  "unwrap_recipient P C recipKeyFn hdr senderPub r =
     (case (recipKeyFn (jr_KID r), jr_EPK r) of
        (Some recipPriv, Some epk) \<Rightarrow>
          (case b64_decode (ok_X epk) of
             None \<Rightarrow> None
           | Some ephPub \<Rightarrow>
               if length ephPub \<noteq> 32 then None
               else case (if ph_Alg hdr = algAnoncrypt then ecdhESKEKRecipient P recipPriv ephPub (ph_Alg hdr) (ph_APV hdr)
                          else if ph_Alg hdr = algAuthcrypt then
                            ecdh1PUKEKRecipient P ephPub recipPriv senderPub (ph_Alg hdr) (ph_APU hdr) (ph_APV hdr)
                          else None) of
                 None \<Rightarrow> None
               | Some kek \<Rightarrow>
                   (case b64_decode (jr_EncryptedKey r) of
                      None \<Rightarrow> None
                    | Some encKey \<Rightarrow>
                        (case aesKeyUnwrap C kek encKey of
                           Inl _ \<Rightarrow> None
                         | Inr cek \<Rightarrow> if length cek \<noteq> 32 then None else Some cek)))
      | _ \<Rightarrow> None)"

(* src: pkg/didcomm/didcomm.go:261-303 Unpack (loop) *)
fun find_cek :: "(jwe_recip \<Rightarrow> byte list option) \<Rightarrow> jwe_recip list \<Rightarrow> byte list option" where
  "find_cek f [] = None"
| "find_cek f (r # rs) = (case f r of None \<Rightarrow> find_cek f rs | Some cek \<Rightarrow> Some cek)"

(* src: pkg/didcomm/didcomm.go:308-332 Unpack (content) *)
definition open_content :: "ciphers \<Rightarrow> byte list \<Rightarrow> envelope \<Rightarrow> string \<Rightarrow> didcomm_error + byte list \<times> string" where
  "open_content C cek env skid =
     (case b64_decode (ev_IV env) of
        None \<Rightarrow> Inl DcDecodeIv
      | Some iv \<Rightarrow>
          (case b64_decode (ev_Ciphertext env) of
             None \<Rightarrow> Inl DcDecodeCiphertext
           | Some ct \<Rightarrow>
               (case b64_decode (ev_Tag env) of
                  None \<Rightarrow> Inl DcDecodeTag
                | Some tag \<Rightarrow>
                    if length iv \<noteq> 24 then Inl DcPanic
                    else case xc_open C cek iv (ct @ tag) (bytes_of (ev_Protected env)) of
                      None \<Rightarrow> Inl DcDecrypt
                    | Some plaintext \<Rightarrow> Inr (plaintext, skid))))"

(* src: pkg/didcomm/didcomm.go:227-333 Unpack *)
definition Unpack :: "prims \<Rightarrow> ciphers \<Rightarrow> json_decoder \<Rightarrow> (string \<Rightarrow> byte list option) \<Rightarrow> (string \<Rightarrow> byte list option) option
    \<Rightarrow> byte list \<Rightarrow> didcomm_error + byte list \<times> string" where
  "Unpack P C J recipKeyFn senderPubFn envelope =
     (case Option.bind (J (string_of envelope)) envelope_of of
        None \<Rightarrow> Inl DcParse
      | Some env \<Rightarrow>
     (case b64_decode (ev_Protected env) of
        None \<Rightarrow> Inl DcDecodeHeader
      | Some protJSON \<Rightarrow>
     (case Option.bind (J (string_of protJSON)) header_of of
        None \<Rightarrow> Inl DcParseHeader
      | Some hdr \<Rightarrow>
     (case (if ph_SKID hdr \<noteq> [] then
              (case senderPubFn of
                 None \<Rightarrow> Inl DcNoSenderFn
               | Some f \<Rightarrow> (case f (ph_SKID hdr) of None \<Rightarrow> Inl (DcSenderKey (ph_SKID hdr)) | Some pub \<Rightarrow> Inr pub))
            else Inr (replicate 32 0)) of
        Inl e \<Rightarrow> Inl e
      | Inr senderPub \<Rightarrow>
     (case find_cek (unwrap_recipient P C recipKeyFn hdr senderPub) (ev_Recipients env) of
        None \<Rightarrow> Inl DcNoKey
      | Some cek \<Rightarrow> open_content C cek env (ph_SKID hdr))))))"

section \<open>JSON: lemmas\<close>

lemma header_of_json: "header_of (header_json h) = Some h"
proof -
  let ?v = "header_json h"
  have m: "member ?v ''typ'' = JStr (ph_Typ h)" "member ?v ''alg'' = JStr (ph_Alg h)" "member ?v ''enc'' = JStr (ph_Enc h)"
    "as_string (member ?v ''skid'') = Some (ph_SKID h)" "as_string (member ?v ''apu'') = Some (ph_APU h)"
    "as_string (member ?v ''apv'') = Some (ph_APV h)"
    by (simp_all add: header_json_def member_def rev_jopt find_jopt find_append to_lower_simps)
  have "as_struct ?v" by (simp add: header_json_def as_struct_def)
  with m show ?thesis by (simp add: header_of_def)
qed

lemma okp_of_json: "okp_of (okp_json k) = Some (Some k)" "okp_json k \<noteq> JNull"
  by (simp_all add: okp_of_def okp_json_def member_def as_struct_def to_lower_simps)

lemma recip_of_json: "recip_of (recip_json r) = Some r"
proof -
  define h where "h = JObj ([(''kid'', JStr (jr_KID r))] @ (case jr_EPK r of None \<Rightarrow> [] | Some k \<Rightarrow> [(''epk'', okp_json k)]))"
  have m: "member (recip_json r) ''header'' = h" "member (recip_json r) ''encrypted_key'' = JStr (jr_EncryptedKey r)"
    "as_struct (recip_json r)" "as_struct h"
    by (simp_all add: recip_json_def member_def to_lower_simps as_struct_def h_def)
  have k: "member h ''kid'' = JStr (jr_KID r)" "okp_of (member h ''epk'') = Some (jr_EPK r)"
    unfolding h_def by (cases "jr_EPK r"; simp add: member_def to_lower_simps okp_of_json; simp add: okp_of_def)+
  show ?thesis by (simp add: recip_of_def Let_def m k)
qed

lemma envelope_of_json: "envelope_of (envelope_json e) = Some e"
proof -
  have "opt_list (map (recip_of \<circ> recip_json) rs) = Some rs" for rs
    by (induction rs) (simp_all add: recip_of_json)
  then show ?thesis
    by (simp add: envelope_of_def envelope_json_def member_def to_lower_simps as_struct_def)
qed

section \<open>What is packed can be unpacked\<close>

text \<open>The laws of the primitives: the Diffie-Hellman law and the key sizes, the size of a SHA-256 digest, and that what was
  encrypted decrypts to the same bytes.\<close>

definition dc_ok :: "prims \<Rightarrow> ciphers \<Rightarrow> bool" where
  "dc_ok P C \<longleftrightarrow> aes_ok C \<and> x25519_ok P \<and> (\<forall>a b c. x25519 P a b = Some c \<longrightarrow> length c = 32) \<and>
     (\<forall>m. length (sha256 P m) = 32) \<and>
     (\<forall>k n m aad. xc_open C k n (xc_seal C k n m aad) aad = Some m \<and> length (xc_seal C k n m aad) = length m + 16)"

lemma concatKDF_length: "dc_ok P C \<Longrightarrow> concatKDF P z alg u v = Some k \<Longrightarrow> length k = 32"
  by (auto simp: concatKDF_def dc_ok_def Let_def split: option.splits if_splits)

text \<open>The header, the sender's key and the key derivation of the two sides fit together.\<close>

definition keks_agree :: "prims \<Rightarrow> protected_header \<Rightarrow> byte list \<Rightarrow> (byte list \<Rightarrow> byte list \<Rightarrow> byte list option) \<Rightarrow> bool" where
  "keks_agree P hdr senderPub kekFn \<longleftrightarrow> (\<forall>ephPriv ephPub priv pub kek.
     x25519 P ephPriv basepoint = Some ephPub \<longrightarrow> x25519 P priv basepoint = Some pub \<longrightarrow> kekFn ephPriv pub = Some kek \<longrightarrow>
     (if ph_Alg hdr = algAnoncrypt then ecdhESKEKRecipient P priv ephPub (ph_Alg hdr) (ph_APV hdr)
      else if ph_Alg hdr = algAuthcrypt then ecdh1PUKEKRecipient P ephPub priv senderPub (ph_Alg hdr) (ph_APU hdr) (ph_APV hdr)
      else None) = Some kek \<and> length kek = 32)"

lemma unwrap_packed_recipient:
  assumes "dc_ok P C" "keks_agree P hdr senderPub kekFn" "length cek = 32"
    and "generateX25519 P rnd = Some (ephPriv, ephPub)" "kekFn ephPriv pub = Some kek" "aesKeyWrap C kek cek = Inr wrapped"
    and "recipKeyFn kid = Some priv" "x25519 P priv basepoint = Some pub"
  shows "unwrap_recipient P C recipKeyFn hdr senderPub
    \<lparr>jr_KID = kid, jr_EPK = Some \<lparr>ok_KTY = ''OKP'', ok_CRV = ''X25519'', ok_X = b64_encode ephPub\<rparr>, jr_EncryptedKey = b64_encode wrapped\<rparr>
    = Some cek"
proof -
  have e: "x25519 P ephPriv basepoint = Some ephPub"
    using assms(4) by (auto simp: generateX25519_def Let_def split: option.splits)
  then have l: "length ephPub = 32" using assms(1) by (auto simp: dc_ok_def)
  from assms(2) e assms(8,5) have k:
    "(if ph_Alg hdr = algAnoncrypt then ecdhESKEKRecipient P priv ephPub (ph_Alg hdr) (ph_APV hdr)
      else if ph_Alg hdr = algAuthcrypt then ecdh1PUKEKRecipient P ephPub priv senderPub (ph_Alg hdr) (ph_APU hdr) (ph_APV hdr)
      else None) = Some kek" and kl: "length kek = 32"
    unfolding keks_agree_def by blast+
  have "\<exists>ct. aesKeyWrap C kek cek = Inr ct \<and> length ct = length cek + 8 \<and> aesKeyUnwrap C kek ct = Inr cek"
    using assms(1,3) kl by (intro aesKeyUnwrap_Wrap) (auto simp: dc_ok_def)
  with assms(6) have "aesKeyUnwrap C kek wrapped = Inr cek" by auto
  with k l assms(3,7) show ?thesis by (simp add: unwrap_recipient_def)
qed

lemma find_cek_packed:
  assumes "dc_ok P C" "keks_agree P hdr senderPub kekFn" "length cek = 32"
    and "wrap_recipients P C kekFn cek rnds recipients = Inr jrs"
    and "\<forall>r\<in>set recipients. \<forall>k. recipKeyFn (rc_KID r) = Some k \<longrightarrow> x25519 P k basepoint = Some (rc_PubKey r)"
    and "\<exists>r\<in>set recipients. recipKeyFn (rc_KID r) \<noteq> None"
  shows "find_cek (unwrap_recipient P C recipKeyFn hdr senderPub) jrs = Some cek"
  using assms(4,5,6)
proof (induction recipients arbitrary: rnds jrs)
  case (Cons r rs)
  let ?rnd = "case rnds of [] \<Rightarrow> None | rnd # _ \<Rightarrow> rnd"
  from Cons.prems(1) obtain ephPriv ephPub kek wrapped jrs' where
    g: "generateX25519 P ?rnd = Some (ephPriv, ephPub)" "kekFn ephPriv (rc_PubKey r) = Some kek" "aesKeyWrap C kek cek = Inr wrapped"
    and w: "wrap_recipients P C kekFn cek (tl rnds) rs = Inr jrs'"
    and j: "jrs = \<lparr>jr_KID = rc_KID r, jr_EPK = Some \<lparr>ok_KTY = ''OKP'', ok_CRV = ''X25519'', ok_X = b64_encode ephPub\<rparr>,
      jr_EncryptedKey = b64_encode wrapped\<rparr> # jrs'"
    by (auto split: option.splits sum.splits)
  show ?case
  proof (cases "recipKeyFn (rc_KID r)")
    case None
    then have "find_cek (unwrap_recipient P C recipKeyFn hdr senderPub) jrs =
        find_cek (unwrap_recipient P C recipKeyFn hdr senderPub) jrs'"
      by (simp add: j unwrap_recipient_def)
    with Cons.IH [OF w] Cons.prems(2,3) None show ?thesis by auto
  next
    case (Some k)
    with Cons.prems(2) have "x25519 P k basepoint = Some (rc_PubKey r)" by simp
    from unwrap_packed_recipient [where recipKeyFn = recipKeyFn, OF assms(1,2,3) g Some this] show ?thesis by (simp add: j)
  qed
qed simp

lemma Unpack_seal:
  assumes "dc_ok P C" "decodes J" "seal_envelope P C cekR ephRs ivR msg recipients hdr kekFn = Inr env"
    and "keks_agree P hdr senderPub kekFn"
    and "if ph_SKID hdr \<noteq> [] then \<exists>f. senderPubFn = Some f \<and> f (ph_SKID hdr) = Some senderPub else senderPub = replicate 32 0"
    and "\<forall>r\<in>set recipients. \<forall>k. recipKeyFn (rc_KID r) = Some k \<longrightarrow> x25519 P k basepoint = Some (rc_PubKey r)"
    and "\<exists>r\<in>set recipients. recipKeyFn (rc_KID r) \<noteq> None"
  shows "Unpack P C J recipKeyFn senderPubFn env = Inr (msg, ph_SKID hdr)"
proof -
  let ?prot = "b64_encode (bytes_of (json_marshal (header_json hdr)))"
  from assms(3) obtain f g jrs where w: "wrap_recipients P C kekFn (map f [0..<32]) ephRs recipients = Inr jrs"
    and e: "env = (let cek = map f [0..<32]; iv = map g [0..<24]; sealed = xc_seal C cek iv msg (bytes_of ?prot);
        tagOff = length sealed - 16 in bytes_of (json_marshal (envelope_json
          \<lparr>ev_Protected = ?prot, ev_Recipients = jrs, ev_IV = b64_encode iv,
           ev_Ciphertext = b64_encode (take tagOff sealed), ev_Tag = b64_encode (drop tagOff sealed)\<rparr>)))"
    by (auto simp: seal_envelope_def Let_def split: option.splits sum.splits)
  define cek where "cek = map f [0..<32]"
  define iv where "iv = map g [0..<24]"
  define sealed where "sealed = xc_seal C cek iv msg (bytes_of ?prot)"
  define E where "E = \<lparr>ev_Protected = ?prot, ev_Recipients = jrs, ev_IV = b64_encode iv,
           ev_Ciphertext = b64_encode (take (length sealed - 16) sealed), ev_Tag = b64_encode (drop (length sealed - 16) sealed)\<rparr>"
  have env: "Option.bind (J (string_of env)) envelope_of = Some E"
    using assms(2) unfolding e by (simp add: decodes_def Let_def envelope_of_json E_def cek_def iv_def sealed_def)
  have hdr: "Option.bind (J (json_marshal (header_json hdr))) header_of = Some hdr"
    using assms(2) by (simp add: decodes_def header_of_json)
  have c: "find_cek (unwrap_recipient P C recipKeyFn hdr senderPub) jrs = Some cek"
    by (rule find_cek_packed [OF assms(1,4) _ w [folded cek_def] assms(6,7)]) (simp add: cek_def)
  have "xc_open C cek iv sealed (bytes_of ?prot) = Some msg" using assms(1) by (simp add: dc_ok_def sealed_def)
  then have o: "open_content C cek E (ph_SKID hdr) = Inr (msg, ph_SKID hdr)"
    by (simp add: open_content_def E_def iv_def)
  have p: "b64_decode (ev_Protected E) = Some (bytes_of (json_marshal (header_json hdr)))" and r: "ev_Recipients E = jrs"
    by (simp_all add: E_def)
  show ?thesis
  proof (cases "ph_SKID hdr = []")
    case True
    with assms(5) c o show ?thesis unfolding Unpack_def env option.case p r by (simp add: hdr)
  next
    case False
    with assms(5) c o show ?thesis unfolding Unpack_def env option.case p r by (auto simp: hdr)
  qed
qed

lemma keks_agree_ES:
  assumes "dc_ok P C" "ph_Alg hdr = algAnoncrypt"
  shows "keks_agree P hdr any (\<lambda>ephPriv pub. ecdhESKEKSender P ephPriv pub algAnoncrypt (ph_APV hdr))"
  unfolding keks_agree_def
proof (intro allI impI)
  fix ephPriv ephPub priv pub kek
  assume "x25519 P ephPriv basepoint = Some ephPub" "x25519 P priv basepoint = Some pub"
  with assms(1) have z: "x25519 P priv ephPub = x25519 P ephPriv pub" unfolding dc_ok_def x25519_ok_def by metis
  assume k: "ecdhESKEKSender P ephPriv pub algAnoncrypt (ph_APV hdr) = Some kek"
  then have "length kek = 32" using concatKDF_length [OF assms(1)] by (auto simp: ecdhESKEKSender_def split: option.splits)
  with k z assms(2) show "(if ph_Alg hdr = algAnoncrypt then ecdhESKEKRecipient P priv ephPub (ph_Alg hdr) (ph_APV hdr)
      else if ph_Alg hdr = algAuthcrypt then ecdh1PUKEKRecipient P ephPub priv any (ph_Alg hdr) (ph_APU hdr) (ph_APV hdr)
      else None) = Some kek \<and> length kek = 32"
    by (simp add: ecdhESKEKSender_def ecdhESKEKRecipient_def)
qed

lemma keks_agree_1PU:
  assumes "dc_ok P C" "ph_Alg hdr = algAuthcrypt" "x25519 P senderPriv basepoint = Some senderPub"
  shows "keks_agree P hdr senderPub (\<lambda>ephPriv pub. ecdh1PUKEKSender P ephPriv senderPriv pub algAuthcrypt (ph_APU hdr) (ph_APV hdr))"
  unfolding keks_agree_def
proof (intro allI impI)
  fix ephPriv ephPub priv pub kek
  assume e: "x25519 P ephPriv basepoint = Some ephPub" and p: "x25519 P priv basepoint = Some pub"
  have z: "x25519 P priv ephPub = x25519 P ephPriv pub" "x25519 P priv senderPub = x25519 P senderPriv pub"
    using assms(1) e p assms(3) unfolding dc_ok_def x25519_ok_def by metis+
  assume k: "ecdh1PUKEKSender P ephPriv senderPriv pub algAuthcrypt (ph_APU hdr) (ph_APV hdr) = Some kek"
  then have "length kek = 32" using concatKDF_length [OF assms(1)] by (auto simp: ecdh1PUKEKSender_def split: option.splits)
  moreover have "algAuthcrypt \<noteq> algAnoncrypt" by (simp add: algAuthcrypt_def algAnoncrypt_def)
  ultimately show "(if ph_Alg hdr = algAnoncrypt then ecdhESKEKRecipient P priv ephPub (ph_Alg hdr) (ph_APV hdr)
      else if ph_Alg hdr = algAuthcrypt then ecdh1PUKEKRecipient P ephPub priv senderPub (ph_Alg hdr) (ph_APU hdr) (ph_APV hdr)
      else None) = Some kek \<and> length kek = 32"
    using k z assms(2) by (simp add: ecdh1PUKEKSender_def ecdh1PUKEKRecipient_def split: option.splits)
qed

text \<open>C14: every recipient of an envelope who holds the private key of one of the listed key ids reads the message that was
  packed and, when the sender was authenticated, the sender's key id: unpacking undoes packing for any number of
  recipients, in both modes.\<close>

theorem didcomm_roundtrip:
  assumes "dc_ok P C" "decodes J" "packEnvelope P C cekR ephRs ivR msg recipients senderKID senderPriv = Inr env"
    and "\<forall>r\<in>set recipients. \<forall>k. recipKeyFn (rc_KID r) = Some k \<longrightarrow> x25519 P k basepoint = Some (rc_PubKey r)"
    and "\<exists>r\<in>set recipients. recipKeyFn (rc_KID r) \<noteq> None"
    and "\<forall>priv. senderPriv = Some priv \<longrightarrow> senderKID \<noteq> [] \<and>
      (\<exists>f pub. senderPubFn = Some f \<and> f senderKID = Some pub \<and> x25519 P priv basepoint = Some pub)"
  shows "Unpack P C J recipKeyFn senderPubFn env = Inr (msg, if senderPriv = None then [] else senderKID)"
proof (cases senderPriv)
  case None
  let ?apv = "b64_encode (computeAPV P (sort (map rc_KID recipients)))"
  let ?hdr = "\<lparr>ph_Typ = MediaTypeEncrypted, ph_Alg = algAnoncrypt, ph_Enc = encXC20P, ph_SKID = [], ph_APU = [], ph_APV = ?apv\<rparr>"
  have "seal_envelope P C cekR ephRs ivR msg recipients ?hdr (\<lambda>ephPriv pub. ecdhESKEKSender P ephPriv pub algAnoncrypt (ph_APV ?hdr)) = Inr env"
    using assms(3) None by (auto simp: packEnvelope_def Let_def split: if_splits)
  from Unpack_seal [OF assms(1,2) this keks_agree_ES [OF assms(1), of ?hdr "replicate 32 0"] _ assms(4,5)] None
  show ?thesis by simp
next
  case (Some priv)
  let ?apv = "b64_encode (computeAPV P (sort (map rc_KID recipients)))"
  let ?hdr = "\<lparr>ph_Typ = MediaTypeEncrypted, ph_Alg = algAuthcrypt, ph_Enc = encXC20P, ph_SKID = senderKID,
     ph_APU = b64_encode (bytes_of senderKID), ph_APV = ?apv\<rparr>"
  from assms(6) Some obtain f pub where f: "senderKID \<noteq> []" "senderPubFn = Some f" "f senderKID = Some pub" "x25519 P priv basepoint = Some pub"
    by blast
  have "seal_envelope P C cekR ephRs ivR msg recipients ?hdr
      (\<lambda>ephPriv p. ecdh1PUKEKSender P ephPriv priv p algAuthcrypt (ph_APU ?hdr) (ph_APV ?hdr)) = Inr env"
    using assms(3) Some by (auto simp: packEnvelope_def Let_def split: if_splits)
  from Unpack_seal [OF assms(1,2) this keks_agree_1PU [OF assms(1) _ f(4), of ?hdr] _ assms(4,5)] f Some
  show ?thesis by simp
qed

section \<open>The sender can be forged\<close>

text \<open>An envelope anyone can make: the anonymous algorithm, with the key id of a third party in the header.\<close>

definition forged_header :: "prims \<Rightarrow> recipient list \<Rightarrow> string \<Rightarrow> protected_header" where
  "forged_header P recipients victim = \<lparr>ph_Typ = MediaTypeEncrypted, ph_Alg = algAnoncrypt, ph_Enc = encXC20P, ph_SKID = victim,
     ph_APU = [], ph_APV = b64_encode (computeAPV P (sort (map rc_KID recipients)))\<rparr>"

text \<open>C16: \<open>Unpack\<close> reports a sender that did not take part: an envelope sealed with the anonymous algorithm, for which no
  sender key is used, but with a third party's key id in its header, unpacks with that key id as the sender as soon
  as the key id resolves.\<close>

theorem didcomm_sender_forgeable:
  assumes "dc_ok P C" "decodes J" "victim \<noteq> []" "senderPubFn = Some f" "f victim = Some victimPub"
    and "seal_envelope P C cekR ephRs ivR msg recipients (forged_header P recipients victim)
      (\<lambda>ephPriv pub. ecdhESKEKSender P ephPriv pub algAnoncrypt (b64_encode (computeAPV P (sort (map rc_KID recipients))))) = Inr env"
    and "\<forall>r\<in>set recipients. \<forall>k. recipKeyFn (rc_KID r) = Some k \<longrightarrow> x25519 P k basepoint = Some (rc_PubKey r)"
    and "\<exists>r\<in>set recipients. recipKeyFn (rc_KID r) \<noteq> None"
  shows "Unpack P C J recipKeyFn senderPubFn env = Inr (msg, victim)"
proof -
  let ?hdr = "forged_header P recipients victim"
  have h: "ph_Alg ?hdr = algAnoncrypt" "ph_SKID ?hdr = victim" "ph_APV ?hdr = b64_encode (computeAPV P (sort (map rc_KID recipients)))"
    by (simp_all add: forged_header_def)
  from keks_agree_ES [OF assms(1) h(1), of victimPub] have k: "keks_agree P ?hdr victimPub
      (\<lambda>ephPriv pub. ecdhESKEKSender P ephPriv pub algAnoncrypt (b64_encode (computeAPV P (sort (map rc_KID recipients)))))"
    by (simp only: h)
  from Unpack_seal [OF assms(1,2,6) k _ assms(7,8)] assms(3,4,5) show ?thesis by (simp add: h)
qed

section \<open>Witnesses\<close>

definition pad32 :: "byte list \<Rightarrow> byte list" where
  "pad32 m = take 32 (m @ replicate 32 0)"

lemma length_pad32 [simp]: "length (pad32 m) = 32"
  by (simp add: pad32_def)

lemma pad32_id [simp]: "length m = 32 \<Longrightarrow> pad32 m = m"
  by (simp add: pad32_def)

definition demo_dc_prims :: prims where
  "demo_dc_prims = demo_prims\<lparr>sha256 := pad32, x25519 := (\<lambda>a b. Some (map2 (XOR) (pad32 a) (pad32 b)))\<rparr>"

lemma demo_dc_x25519: "x25519 demo_dc_prims a b = Some (map2 (XOR) (pad32 a) (pad32 b))"
  by (simp add: demo_dc_prims_def)

lemma demo_dc_sha256: "sha256 demo_dc_prims = pad32"
  by (simp add: demo_dc_prims_def)

lemma demo_dc_ok: "dc_ok demo_dc_prims demo_ciphers"
proof -
  have "x25519_ok demo_dc_prims"
    unfolding x25519_ok_def
  proof (intro allI impI)
    fix a b A B
    assume "x25519 demo_dc_prims a basepoint = Some A" "x25519 demo_dc_prims b basepoint = Some B"
    then have AB: "A = map2 (XOR) (pad32 a) (pad32 basepoint)"
      "B = map2 (XOR) (pad32 b) (pad32 basepoint)"
      by (simp_all only: demo_dc_x25519 option.inject)
    then have l: "length A = 32" "length B = 32" by simp_all
    have "map2 (XOR) (pad32 a) B = map2 (XOR) (pad32 b) A"
      unfolding AB by (rule nth_equalityI) (simp_all add: xor.left_commute)
    with l show "x25519 demo_dc_prims a B = x25519 demo_dc_prims b A" by (simp add: demo_dc_x25519)
  qed
  then show ?thesis using demo_aes_ok by (auto simp add: dc_ok_def demo_dc_x25519 demo_dc_sha256) (simp_all add: demo_ciphers_def)
qed

definition demo_recipients :: "recipient list" where
  "demo_recipients = [\<lparr>rc_KID = ''did:web:x#1'', rc_PubKey = replicate 32 3\<rparr>,
     \<lparr>rc_KID = ''did:web:a#1'', rc_PubKey = map2 (XOR) (replicate 32 5) (pad32 basepoint)\<rparr>]"

definition demo_recip_key :: "string \<Rightarrow> byte list option" where
  "demo_recip_key kid = (if kid = ''did:web:a#1'' then Some (replicate 32 5) else None)"

lemma demo_recipients_ok:
  "\<forall>r\<in>set demo_recipients. \<forall>k. demo_recip_key (rc_KID r) = Some k \<longrightarrow> x25519 demo_dc_prims k basepoint = Some (rc_PubKey r)"
  "\<exists>r\<in>set demo_recipients. demo_recip_key (rc_KID r) \<noteq> None"
  by (simp_all add: demo_recipients_def demo_recip_key_def demo_dc_x25519)

lemma demo_recipients_ne: "demo_recipients \<noteq> []"
  by (simp add: demo_recipients_def)

lemma demo_wrap:
  assumes "\<And>e p. \<exists>k. kekFn e p = Some k \<and> length k = 32"
  shows "\<exists>jrs. wrap_recipients demo_dc_prims demo_ciphers kekFn (map f [0..<32]) [Some g, Some h] demo_recipients = Inr jrs"
proof -
  have g: "\<exists>a b. generateX25519 demo_dc_prims (Some g) = Some (a, b)" for g by (simp add: generateX25519_def Let_def demo_dc_x25519)
  have w: "\<exists>k ct. kekFn e p = Some k \<and> aesKeyWrap demo_ciphers k (map f [0..<32]) = Inr ct" for e p
    using assms [of e p] aesKeyUnwrap_Wrap [OF demo_aes_ok, of "map f [0..<32]"] by fastforce
  obtain a b a' b' where ab: "generateX25519 demo_dc_prims (Some g) = Some (a, b)" "generateX25519 demo_dc_prims (Some h) = Some (a', b')"
    using g by meson
  obtain k c k' c' where "kekFn a (replicate 32 3) = Some k" "aesKeyWrap demo_ciphers k (map f [0..<32]) = Inr c"
    "kekFn a' (map2 (XOR) (replicate 32 5) (pad32 basepoint)) = Some k'"
    "aesKeyWrap demo_ciphers k' (map f [0..<32]) = Inr c'"
    using w by meson
  with ab show ?thesis by (simp add: demo_recipients_def)
qed

lemma demo_kdf: "u = [] \<or> (\<exists>x. b64_decode u = Some x) \<Longrightarrow> v = [] \<or> (\<exists>x. b64_decode v = Some x) \<Longrightarrow>
    \<exists>k. concatKDF demo_dc_prims z alg u v = Some k \<and> length k = 32"
  by (auto simp: concatKDF_def Let_def demo_dc_sha256)

theorem didcomm_roundtrip_witness:
  "\<exists>env. packEnvelope demo_dc_prims demo_ciphers (Some (\<lambda>i. 1)) [Some (\<lambda>i. 2), Some (\<lambda>i. 3)] (Some (\<lambda>i. 4)) [104, 105]
       demo_recipients ''did:web:s#1'' (Some (replicate 32 7)) = Inr env \<and>
     Unpack demo_dc_prims demo_ciphers json_read demo_recip_key
       (Some (\<lambda>k. x25519 demo_dc_prims (replicate 32 7) basepoint)) env = Inr ([104, 105], ''did:web:s#1'')"
proof -
  let ?apv = "b64_encode (computeAPV demo_dc_prims (sort (map rc_KID demo_recipients)))"
  let ?kek = "\<lambda>e p. ecdh1PUKEKSender demo_dc_prims e (replicate 32 7) p algAuthcrypt (b64_encode (bytes_of ''did:web:s#1'')) ?apv"
  have "\<exists>k. ?kek e p = Some k \<and> length k = 32" for e p
    unfolding ecdh1PUKEKSender_def demo_dc_x25519 option.case by (rule demo_kdf) simp_all
  from demo_wrap [of ?kek "\<lambda>i. 1" "\<lambda>i. 2" "\<lambda>i. 3", OF this] have "\<exists>env. packEnvelope demo_dc_prims demo_ciphers (Some (\<lambda>i. 1)) [Some (\<lambda>i. 2), Some (\<lambda>i. 3)]
      (Some (\<lambda>i. 4)) [104, 105] demo_recipients ''did:web:s#1'' (Some (replicate 32 7)) = Inr env"
    unfolding packEnvelope_def seal_envelope_def Let_def by (auto simp: demo_recipients_ne)
  then obtain env where e: "packEnvelope demo_dc_prims demo_ciphers (Some (\<lambda>i. 1)) [Some (\<lambda>i. 2), Some (\<lambda>i. 3)]
      (Some (\<lambda>i. 4)) [104, 105] demo_recipients ''did:web:s#1'' (Some (replicate 32 7)) = Inr env" by blast
  have "Unpack demo_dc_prims demo_ciphers json_read demo_recip_key (Some (\<lambda>k. x25519 demo_dc_prims (replicate 32 7) basepoint)) env
      = Inr ([104, 105], if Some (replicate 32 7 :: byte list) = None then [] else ''did:web:s#1'')"
    by (rule didcomm_roundtrip [OF demo_dc_ok decodes_json_read e demo_recipients_ok]) (simp add: demo_dc_x25519)
  with e show ?thesis by auto
qed

theorem didcomm_sender_forgeable_witness:
  "\<exists>env. Unpack demo_dc_prims demo_ciphers json_read demo_recip_key (Some (\<lambda>k. Some (replicate 32 9))) env
     = Inr ([104, 105], ''did:web:victim#1'')"
proof -
  let ?apv = "b64_encode (computeAPV demo_dc_prims (sort (map rc_KID demo_recipients)))"
  let ?kek = "\<lambda>e p. ecdhESKEKSender demo_dc_prims e p algAnoncrypt ?apv"
  have "\<exists>k. ?kek e p = Some k \<and> length k = 32" for e p
    unfolding ecdhESKEKSender_def demo_dc_x25519 option.case by (rule demo_kdf) simp_all
  from demo_wrap [of ?kek "\<lambda>i. 1" "\<lambda>i. 2" "\<lambda>i. 3", OF this] obtain env where
    e: "seal_envelope demo_dc_prims demo_ciphers (Some (\<lambda>i. 1)) [Some (\<lambda>i. 2), Some (\<lambda>i. 3)] (Some (\<lambda>i. 4)) [104, 105]
      demo_recipients (forged_header demo_dc_prims demo_recipients ''did:web:victim#1'') ?kek = Inr env"
    unfolding seal_envelope_def Let_def by auto
  have "Unpack demo_dc_prims demo_ciphers json_read demo_recip_key (Some (\<lambda>k. Some (replicate 32 9))) env
     = Inr ([104, 105], ''did:web:victim#1'')"
    by (rule didcomm_sender_forgeable [OF demo_dc_ok decodes_json_read _ refl _ e demo_recipients_ok]) simp_all
  then show ?thesis by blast
qed

end
