(* ===== verification/Oidc_Rp.thy ===== *)
theory Oidc_Rp
  imports Bridge Sdjwt
begin

unbundle bit_operations_syntax

text \<open>
  The bridge to an upstream OpenID Connect provider, \<^verbatim>\<open>src/internal/bridge/providers/oidc_rp.go\<close>.  The network is a pair of
  arguments: \<open>post\<close> for \<^verbatim>\<open>http.PostForm\<close> and \<open>get\<close> for a GET request with headers, each giving the status and the body or
  \<open>None\<close> when the request fails.  The signature primitives of \<^verbatim>\<open>crypto/rsa\<close> and \<^verbatim>\<open>crypto/ecdsa\<close> and the hashes are the record
  \<open>rp_crypto\<close>.  The error \<open>RpPanic\<close> stands for the panics of slicing out of range and of \<^verbatim>\<open>ed25519.Verify\<close> on a key of the
  wrong length.
\<close>

section \<open>The network\<close>

type_synonym http_post = "string \<Rightarrow> (string \<times> string) list \<Rightarrow> (int \<times> string) option"
type_synonym http_get = "string \<Rightarrow> (string \<times> string) list \<Rightarrow> (int \<times> string) option"

text \<open>\<^verbatim>\<open>url.Values.Encode\<close>: the pairs sorted by key, escaped, joined with ampersands.\<close>

definition encode_values :: "(string \<Rightarrow> string) \<Rightarrow> (string \<times> string) list \<Rightarrow> string" where
  "encode_values esc kvs = join ''&'' (map (\<lambda>(k, v). esc k @ ''='' @ esc v) (sort_key fst kvs))"

text \<open>\<^verbatim>\<open>strings.TrimRight(s, "/")\<close>.\<close>

definition trim_right_slash :: "string \<Rightarrow> string" where
  "trim_right_slash s = rev (dropWhile (\<lambda>c. c = CHR ''/'') (rev s))"

section \<open>State\<close>

(* src: internal/bridge/providers/oidc_rp.go:27-39 OIDCRPConfig *)
record oidcrp_config =
  oc_Name :: string
  oc_Issuer :: string
  oc_ClientID :: string
  oc_ClientSecret :: string
  oc_Scopes :: "string list"
  oc_RedirectBaseURL :: string

(* src: internal/bridge/providers/oidc_rp.go:49-53 oidcDiscovery *)
record oidc_discovery =
  od_AuthorizationEndpoint :: string
  od_TokenEndpoint :: string
  od_JwksURI :: string

(* src: internal/bridge/providers/oidc_rp.go:42-47 OIDCRPBridge *)
record oidcrp_bridge =
  ob_cfg :: oidcrp_config
  ob_discovered :: "oidc_discovery option"
  ob_discoveredAt :: instant

datatype rp_error =
    RpUseCallback | RpDiscoveryFetch | RpDiscoveryDecode | RpTokenExchange | RpTokenStatus int | RpTokenDecode | RpNoIDToken
  | RpHeader jwt_error | RpJwks | RpNoKey string string | RpMalformed | RpSignatureEncoding | RpSignature | RpAlg string | RpDer
  | RpClaims jwt_error | RpExpired | RpNoSub | RpPanic

(* src: internal/bridge/providers/oidc_rp.go:56-61 NewOIDCRP *)
definition NewOIDCRP :: "oidcrp_config \<Rightarrow> oidcrp_bridge" where
  "NewOIDCRP cfg = \<lparr>ob_cfg = (if oc_Scopes cfg = [] then cfg\<lparr>oc_Scopes := [''openid'', ''email'', ''profile'']\<rparr> else cfg),
     ob_discovered = None, ob_discoveredAt = 0\<rparr>"

(* src: internal/bridge/providers/oidc_rp.go:63-63 OIDCRPBridge.Name *)
definition rp_Name :: "oidcrp_bridge \<Rightarrow> string" where
  "rp_Name b = oc_Name (ob_cfg b)"

(* src: internal/bridge/providers/oidc_rp.go:67-69 OIDCRPBridge.Authenticate *)
definition rp_Authenticate :: "oidcrp_bridge \<Rightarrow> rp_error + external_identity" where
  "rp_Authenticate b = Inl RpUseCallback"

(* src: internal/bridge/providers/oidc_rp.go:192-194 OIDCRPBridge.callbackURL *)
definition rp_callbackURL :: "oidcrp_bridge \<Rightarrow> string" where
  "rp_callbackURL b = trim_right_slash (oc_RedirectBaseURL (ob_cfg b)) @ ''/auth/'' @ oc_Name (ob_cfg b) @ ''/callback''"

(* src: internal/bridge/providers/oidc_rp.go:212-215 OIDCRPBridge.discover (decoding) *)
definition discovery_of :: "json \<Rightarrow> oidc_discovery option" where
  "discovery_of v =
     (if \<not> as_struct v then None
      else case (as_string (member v ''authorization_endpoint''), as_string (member v ''token_endpoint''), as_string (member v ''jwks_uri'')) of
        (Some a, Some t, Some j) \<Rightarrow> Some \<lparr>od_AuthorizationEndpoint = a, od_TokenEndpoint = t, od_JwksURI = j\<rparr>
      | _ \<Rightarrow> None)"

(* src: internal/bridge/providers/oidc_rp.go:196-222 OIDCRPBridge.discover *)
definition discover :: "json_decoder \<Rightarrow> http_get \<Rightarrow> instant \<Rightarrow> oidcrp_bridge \<Rightarrow> (rp_error + oidc_discovery) \<times> oidcrp_bridge" where
  "discover J get now b =
     (if ob_discovered b \<noteq> None \<and> now - ob_discoveredAt b < hour then (Inr (the (ob_discovered b)), b)
      else case get (trim_right_slash (oc_Issuer (ob_cfg b)) @ ''/.well-known/openid-configuration'') [] of
        None \<Rightarrow> (Inl RpDiscoveryFetch, b)
      | Some (_, body) \<Rightarrow>
          (case Option.bind (J body) discovery_of of
             None \<Rightarrow> (Inl RpDiscoveryDecode, b)
           | Some disc \<Rightarrow> (Inr disc, b\<lparr>ob_discovered := Some disc, ob_discoveredAt := now\<rparr>)))"

(* src: internal/bridge/providers/oidc_rp.go:73-86 OIDCRPBridge.AuthorizationURL *)
definition rp_AuthorizationURL :: "json_decoder \<Rightarrow> http_get \<Rightarrow> (string \<Rightarrow> string) \<Rightarrow> instant \<Rightarrow> string \<Rightarrow> oidcrp_bridge
    \<Rightarrow> (rp_error + string) \<times> oidcrp_bridge" where
  "rp_AuthorizationURL J get esc now state b =
     (case discover J get now b of
        (Inl e, b') \<Rightarrow> (Inl e, b')
      | (Inr disc, b') \<Rightarrow>
          (Inr (od_AuthorizationEndpoint disc @ ''?'' @ encode_values esc
             [(''response_type'', ''code''), (''client_id'', oc_ClientID (ob_cfg b)), (''redirect_uri'', rp_callbackURL b),
              (''scope'', join '' '' (oc_Scopes (ob_cfg b))), (''state'', state)]), b'))"

section \<open>Keys\<close>

(* src: internal/bridge/providers/oidc_rp.go:224-236 jwkKey *)
record jwk_key =
  jk_Kty :: string
  jk_Kid :: string
  jk_Alg :: string
  jk_Use :: string
  jk_N :: string
  jk_E :: string
  jk_Crv :: string
  jk_X :: string
  jk_Y :: string

datatype ec_curve = P256 | P384 | P521

datatype public_key = RsaKey nat "64 word" | EcKey ec_curve nat nat | EdKey "byte list"

datatype hash_alg = SHA256 | SHA384 | SHA512

record rp_crypto =
  rc_hash :: "hash_alg \<Rightarrow> byte list \<Rightarrow> byte list"
  rc_pss :: "nat \<Rightarrow> 64 word \<Rightarrow> hash_alg \<Rightarrow> byte list \<Rightarrow> byte list \<Rightarrow> bool"
  rc_pkcs1 :: "nat \<Rightarrow> 64 word \<Rightarrow> hash_alg \<Rightarrow> byte list \<Rightarrow> byte list \<Rightarrow> bool"
  rc_ecdsa :: "ec_curve \<Rightarrow> nat \<Rightarrow> nat \<Rightarrow> byte list \<Rightarrow> nat \<Rightarrow> nat \<Rightarrow> bool"
  rc_ed25519 :: "byte list \<Rightarrow> byte list \<Rightarrow> byte list \<Rightarrow> bool"

text \<open>\<^verbatim>\<open>new(big.Int).SetBytes\<close>: the big-endian value.\<close>

definition set_bytes :: "byte list \<Rightarrow> nat" where
  "set_bytes bs = fold (\<lambda>b n. n * 256 + unat b) bs 0"

(* src: internal/bridge/providers/oidc_rp.go:245-250 OIDCRPBridge.fetchJWKS (one key) *)
definition jwk_of :: "json \<Rightarrow> jwk_key option" where
  "jwk_of v =
     (if \<not> as_struct v then None
      else case (as_string (member v ''kty''), as_string (member v ''kid''), as_string (member v ''alg''), as_string (member v ''use'')) of
        (Some t, Some k, Some a, Some u) \<Rightarrow>
          (case (as_string (member v ''n''), as_string (member v ''e''), as_string (member v ''crv''), as_string (member v ''x''),
                 as_string (member v ''y'')) of
             (Some n, Some e, Some c, Some x, Some y) \<Rightarrow>
               Some \<lparr>jk_Kty = t, jk_Kid = k, jk_Alg = a, jk_Use = u, jk_N = n, jk_E = e, jk_Crv = c, jk_X = x, jk_Y = y\<rparr>
           | _ \<Rightarrow> None)
      | _ \<Rightarrow> None)"

(* src: internal/bridge/providers/oidc_rp.go:238-252 OIDCRPBridge.fetchJWKS *)
definition fetchJWKS :: "json_decoder \<Rightarrow> http_get \<Rightarrow> string \<Rightarrow> jwk_key list option" where
  "fetchJWKS J get uri =
     (case get uri [] of
        None \<Rightarrow> None
      | Some (_, body) \<Rightarrow>
          (case J body of
             None \<Rightarrow> None
           | Some v \<Rightarrow>
               if \<not> as_struct v then None
               else case member v ''keys'' of
                 JNull \<Rightarrow> Some []
               | JArr vs \<Rightarrow> opt_list (map jwk_of vs)
               | _ \<Rightarrow> None))"

(* src: internal/bridge/providers/oidc_rp.go:254-303 jwkToPublicKey *)
definition jwkToPublicKey :: "jwk_key \<Rightarrow> public_key option" where
  "jwkToPublicKey k =
     (if jk_Kty k = ''RSA'' then
        (case (b64_decode (jk_N k), b64_decode (jk_E k)) of
           (Some nb, Some eb) \<Rightarrow> Some (RsaKey (set_bytes nb) (fold (\<lambda>b e. push_bit 8 e OR ucast b) eb 0))
         | _ \<Rightarrow> None)
      else if jk_Kty k = ''EC'' then
        (case (b64_decode (jk_X k), b64_decode (jk_Y k)) of
           (Some xb, Some yb) \<Rightarrow>
             (if jk_Crv k = ''P-256'' then Some (EcKey P256 (set_bytes xb) (set_bytes yb))
              else if jk_Crv k = ''P-384'' then Some (EcKey P384 (set_bytes xb) (set_bytes yb))
              else if jk_Crv k = ''P-521'' then Some (EcKey P521 (set_bytes xb) (set_bytes yb))
              else None)
         | _ \<Rightarrow> None)
      else if jk_Kty k = ''OKP'' then map_option EdKey (b64_decode (jk_X k))
      else None)"

section \<open>Signatures\<close>

(* src: internal/bridge/providers/oidc_rp.go:396-414 parseDERSignature *)
definition parseDERSignature :: "byte list \<Rightarrow> rp_error + nat \<times> nat" where
  "parseDERSignature der =
     (if length der < 2 \<or> der ! 0 \<noteq> 0x30 then Inl RpDer
      else
        let inner = drop 2 der in
        if length inner < 2 \<or> inner ! 0 \<noteq> 0x02 then Inl RpDer
        else
          let rLen = unat (inner ! 1) in
          if length inner < 2 + rLen then Inl RpPanic
          else
            let r = set_bytes (take rLen (drop 2 inner)); inner = drop (2 + rLen) inner in
            if length inner < 2 \<or> inner ! 0 \<noteq> 0x02 then Inl RpDer
            else
              let sLen = unat (inner ! 1) in
              if length inner < 2 + sLen then Inl RpPanic
              else Inr (r, set_bytes (take sLen (drop 2 inner))))"

(* src: internal/bridge/providers/oidc_rp.go:337-357 verifyRSA *)
definition verifyRSA :: "rp_crypto \<Rightarrow> nat \<Rightarrow> 64 word \<Rightarrow> string \<Rightarrow> byte list \<Rightarrow> byte list \<Rightarrow> rp_error + unit" where
  "verifyRSA R n e alg msg sig =
     (case (if alg = ''RS256'' \<or> alg = ''PS256'' then Some SHA256
            else if alg = ''RS384'' \<or> alg = ''PS384'' then Some SHA384
            else if alg = ''RS512'' \<or> alg = ''PS512'' then Some SHA512 else None) of
        None \<Rightarrow> Inl (RpAlg alg)
      | Some h \<Rightarrow>
          if has_prefix alg ''PS'' then (if rc_pss R n e h (rc_hash R h msg) sig then Inr () else Inl RpSignature)
          else (if rc_pkcs1 R n e h (rc_hash R h msg) sig then Inr () else Inl RpSignature))"

fun curve_size :: "ec_curve \<Rightarrow> nat" where
  "curve_size P256 = 32"
| "curve_size P384 = 48"
| "curve_size P521 = 66"

(* src: internal/bridge/providers/oidc_rp.go:359-394 verifyECDSA *)
definition verifyECDSA :: "rp_crypto \<Rightarrow> ec_curve \<Rightarrow> nat \<Rightarrow> nat \<Rightarrow> string \<Rightarrow> byte list \<Rightarrow> byte list \<Rightarrow> rp_error + unit" where
  "verifyECDSA R c x y alg msg sig =
     (case (if alg = ''ES256'' then Some SHA256 else if alg = ''ES384'' then Some SHA384
            else if alg = ''ES512'' then Some SHA512 else None) of
        None \<Rightarrow> Inl (RpAlg alg)
      | Some h \<Rightarrow>
          let digest = rc_hash R h msg; keySize = curve_size c in
          if length sig = 2 * keySize then
            (if rc_ecdsa R c x y digest (set_bytes (take keySize sig)) (set_bytes (drop keySize sig)) then Inr () else Inl RpSignature)
          else case parseDERSignature sig of
            Inl e \<Rightarrow> Inl e
          | Inr (r, s) \<Rightarrow> if rc_ecdsa R c x y digest r s then Inr () else Inl RpSignature)"

text \<open>The header is read leniently: an undecodable header has no algorithm, and a member that is not a string is empty.\<close>

(* src: internal/bridge/providers/oidc_rp.go:316-320 verifyJWTSignature (algorithm) *)
definition header_alg :: "json_decoder \<Rightarrow> string \<Rightarrow> string" where
  "header_alg J part =
     (case b64_decode part of
        None \<Rightarrow> []
      | Some raw \<Rightarrow>
          (case J (string_of raw) of
             Some (JObj kvs) \<Rightarrow> (case map_of (rev kvs) ''alg'' of Some (JStr s) \<Rightarrow> s | _ \<Rightarrow> [])
           | _ \<Rightarrow> []))"

(* src: internal/bridge/providers/oidc_rp.go:305-335 verifyJWTSignature *)
definition verifyJWTSignature :: "rp_crypto \<Rightarrow> json_decoder \<Rightarrow> string \<Rightarrow> public_key \<Rightarrow> rp_error + unit" where
  "verifyJWTSignature R J token pub =
     (let parts = split_n 3 (CHR ''.'') token in
      if length parts \<noteq> 3 then Inl RpMalformed
      else
        let sigInput = bytes_of (parts ! 0 @ ''.'' @ parts ! 1) in
        case b64_decode (parts ! 2) of
          None \<Rightarrow> Inl RpSignatureEncoding
        | Some sig \<Rightarrow>
            let alg = header_alg J (parts ! 0) in
            (case pub of
               RsaKey n e \<Rightarrow> verifyRSA R n e alg sigInput sig
             | EcKey c x y \<Rightarrow> verifyECDSA R c x y alg sigInput sig
             | EdKey pk \<Rightarrow>
                 if length pk \<noteq> 32 then Inl RpPanic
                 else if \<not> rc_ed25519 R pk sigInput sig then Inl RpSignature else Inr ()))"

section \<open>The identity\<close>

(* src: internal/bridge/providers/oidc_rp.go:416-426 parseRawClaims *)
definition parseRawClaims :: "json_decoder \<Rightarrow> string \<Rightarrow> (string \<times> json) list option" where
  "parseRawClaims J token =
     (let parts = split_n 3 (CHR ''.'') token in
      if length parts \<noteq> 3 then None
      else case b64_decode (parts ! 1) of
        None \<Rightarrow> None
      | Some raw \<Rightarrow> Option.bind (J (string_of raw)) as_any_map)"

(* src: internal/bridge/providers/oidc_rp.go:142-153 OIDCRPBridge.verifyIDToken (key) *)
fun find_key :: "string \<Rightarrow> jwk_key list \<Rightarrow> public_key option" where
  "find_key kid [] = None"
| "find_key kid (k # ks) =
     (if kid = [] \<or> jk_Kid k = kid then
        (case jwkToPublicKey k of None \<Rightarrow> find_key kid ks | Some pk \<Rightarrow> Some pk)
      else find_key kid ks)"

(* src: internal/bridge/providers/oidc_rp.go:175-188 OIDCRPBridge.verifyIDToken (identity) *)
definition rp_identity :: "json_decoder \<Rightarrow> string \<Rightarrow> claims \<Rightarrow> string \<Rightarrow> external_identity" where
  "rp_identity J name c idToken =
     (let raw = (case parseRawClaims J idToken of Some m \<Rightarrow> m | None \<Rightarrow> []);
          extra = concat (map (\<lambda>field. case map_of raw field of Some (JStr v) \<Rightarrow> [(field, v)] | _ \<Rightarrow> [])
            [''email'', ''given_name'', ''family_name'', ''name'', ''picture''])
      in \<lparr>ex_Provider = name, ex_ExternalID = cl_Subject c, ex_Claims = (''iss'', cl_Issuer c) # extra, ex_Duress = False\<rparr>)"

(* src: internal/bridge/providers/oidc_rp.go:127-190 OIDCRPBridge.verifyIDToken *)
definition verifyIDToken :: "rp_crypto \<Rightarrow> json_decoder \<Rightarrow> http_get \<Rightarrow> instant \<Rightarrow> oidcrp_bridge \<Rightarrow> oidc_discovery \<Rightarrow> string
    \<Rightarrow> rp_error + external_identity" where
  "verifyIDToken R J get now b disc idToken =
     (case ParseHeader J idToken of
        Inl e \<Rightarrow> Inl (RpHeader e)
      | Inr header \<Rightarrow>
     (case fetchJWKS J get (od_JwksURI disc) of
        None \<Rightarrow> Inl RpJwks
      | Some keys \<Rightarrow>
     (case find_key (assoc_get header ''kid'') keys of
        None \<Rightarrow> Inl (RpNoKey (assoc_get header ''kid'') (assoc_get header ''alg''))
      | Some pubKey \<Rightarrow>
     (case verifyJWTSignature R J idToken pubKey of
        Inl e \<Rightarrow> Inl e
      | Inr _ \<Rightarrow>
     (case ParseUnverified J idToken of
        Inl e \<Rightarrow> Inl (RpClaims e)
      | Inr c \<Rightarrow>
     if cl_ExpiresAt c < unix now then Inl RpExpired
     else if cl_Subject c = [] then Inl RpNoSub
     else Inr (rp_identity J (oc_Name (ob_cfg b)) c idToken))))))"

(* src: internal/bridge/providers/oidc_rp.go:90-125 OIDCRPBridge.ExchangeCode *)
definition rp_ExchangeCode :: "rp_crypto \<Rightarrow> json_decoder \<Rightarrow> http_get \<Rightarrow> http_post \<Rightarrow> instant \<Rightarrow> string \<Rightarrow> oidcrp_bridge
    \<Rightarrow> (rp_error + external_identity) \<times> oidcrp_bridge" where
  "rp_ExchangeCode R J get post now code b =
     (case discover J get now b of
        (Inl e, b') \<Rightarrow> (Inl e, b')
      | (Inr disc, b') \<Rightarrow>
          ((case post (od_TokenEndpoint disc)
                [(''grant_type'', ''authorization_code''), (''code'', code), (''redirect_uri'', rp_callbackURL b),
                 (''client_id'', oc_ClientID (ob_cfg b)), (''client_secret'', oc_ClientSecret (ob_cfg b))] of
              None \<Rightarrow> Inl RpTokenExchange
            | Some (status, body) \<Rightarrow>
                if status \<noteq> 200 then Inl (RpTokenStatus status)
                else case Option.bind (J body) (\<lambda>v. if as_struct v then as_string (member v ''id_token'') else None) of
                  None \<Rightarrow> Inl RpTokenDecode
                | Some idToken \<Rightarrow>
                    if idToken = [] then Inl RpNoIDToken else verifyIDToken R J get now b disc idToken), b'))"

section \<open>What an accepted ID token is\<close>

lemma find_key_sound:
  assumes "find_key kid ks = Some pk"
  shows "\<exists>pre k post. ks = pre @ k # post \<and> (kid = [] \<or> jk_Kid k = kid) \<and> jwkToPublicKey k = Some pk \<and>
     (\<forall>k'\<in>set pre. kid = [] \<or> jk_Kid k' = kid \<longrightarrow> jwkToPublicKey k' = None)"
  using assms
proof (induction ks)
  case (Cons k ks)
  show ?case
  proof (cases "(kid = [] \<or> jk_Kid k = kid) \<and> jwkToPublicKey k \<noteq> None")
    case True
    then show ?thesis using Cons.prems by (intro exI [of _ "[]"] exI [of _ k] exI [of _ ks]) auto
  next
    case False
    then have "find_key kid ks = Some pk" using Cons.prems by (auto split: if_splits option.splits)
    from Cons.IH [OF this] obtain pre k1 post where "ks = pre @ k1 # post" "kid = [] \<or> jk_Kid k1 = kid" "jwkToPublicKey k1 = Some pk"
      "\<forall>k'\<in>set pre. kid = [] \<or> jk_Kid k' = kid \<longrightarrow> jwkToPublicKey k' = None" by blast
    with False show ?thesis by (intro exI [of _ "k # pre"] exI [of _ k1] exI [of _ post]) auto
  qed
qed simp

lemma verifyIDToken_Inr:
  assumes "verifyIDToken R J get now b disc idToken = Inr ext"
  obtains header keys pk c where "ParseHeader J idToken = Inr header" "fetchJWKS J get (od_JwksURI disc) = Some keys"
    "find_key (assoc_get header ''kid'') keys = Some pk" "verifyJWTSignature R J idToken pk = Inr ()"
    "ParseUnverified J idToken = Inr c" "unix now \<le> cl_ExpiresAt c" "cl_Subject c \<noteq> []"
    "ext = rp_identity J (oc_Name (ob_cfg b)) c idToken"
  using assms unfolding verifyIDToken_def by (auto split: sum.splits option.splits if_splits)

text \<open>C23: an identity that \<open>ExchangeCode\<close> returns comes from an ID token that had not expired, had a subject, and whose
  signature verified under one key of the provider's key set: the first usable key with the token's key id, or, when the
  token names no key id, the first usable key of the set.  The external id is the token's subject and the provider name is
  the configured one.\<close>

theorem upstream_identity_sound:
  assumes "fst (rp_ExchangeCode R J get post now code b) = Inr ext"
  shows "\<exists>disc idToken header pre k rest pk c. fst (discover J get now b) = Inr disc \<and>
      ParseHeader J idToken = Inr header \<and> fetchJWKS J get (od_JwksURI disc) = Some (pre @ k # rest) \<and>
      (assoc_get header ''kid'' = [] \<or> jk_Kid k = assoc_get header ''kid'') \<and>
      (\<forall>k'\<in>set pre. assoc_get header ''kid'' = [] \<or> jk_Kid k' = assoc_get header ''kid'' \<longrightarrow> jwkToPublicKey k' = None) \<and>
      jwkToPublicKey k = Some pk \<and> verifyJWTSignature R J idToken pk = Inr () \<and>
      ParseUnverified J idToken = Inr c \<and> unix now \<le> cl_ExpiresAt c \<and>
      ex_ExternalID ext = cl_Subject c \<and> cl_Subject c \<noteq> [] \<and> ex_Provider ext = oc_Name (ob_cfg b)"
proof -
  from assms obtain disc idToken where d: "fst (discover J get now b) = Inr disc"
    and v: "verifyIDToken R J get now b disc idToken = Inr ext"
    unfolding rp_ExchangeCode_def by (auto split: prod.splits sum.splits option.splits if_splits)
  obtain header keys pk c where h: "ParseHeader J idToken = Inr header" "fetchJWKS J get (od_JwksURI disc) = Some keys"
    "find_key (assoc_get header ''kid'') keys = Some pk" "verifyJWTSignature R J idToken pk = Inr ()"
    "ParseUnverified J idToken = Inr c" "unix now \<le> cl_ExpiresAt c" "cl_Subject c \<noteq> []"
    "ext = rp_identity J (oc_Name (ob_cfg b)) c idToken"
    using verifyIDToken_Inr [OF v] by blast
  from find_key_sound [OF h(3)] obtain pre k rest where "keys = pre @ k # rest" "jwkToPublicKey k = Some pk"
    "assoc_get header ''kid'' = [] \<or> jk_Kid k = assoc_get header ''kid''"
    "\<forall>k'\<in>set pre. assoc_get header ''kid'' = [] \<or> jk_Kid k' = assoc_get header ''kid'' \<longrightarrow> jwkToPublicKey k' = None" by blast
  moreover have "ex_ExternalID ext = cl_Subject c" "ex_Provider ext = oc_Name (ob_cfg b)"
    unfolding h(8) rp_identity_def Let_def by simp_all
  ultimately show ?thesis using d h by blast
qed

text \<open>The audience and the issuer of the upstream token are not checked: a token that the provider issued to another
  client, or a key holder for another issuer, is accepted, since the outcome does not depend on this platform's
  client id or on the configured issuer.\<close>

theorem upstream_audience_unchecked:
  "verifyIDToken R J get now (b\<lparr>ob_cfg := ob_cfg b\<lparr>oc_ClientID := anyClient, oc_Issuer := anyIssuer\<rparr>\<rparr>) disc idToken =
     verifyIDToken R J get now b disc idToken"
proof -
  have "oc_Name (ob_cfg (b\<lparr>ob_cfg := ob_cfg b\<lparr>oc_ClientID := anyClient, oc_Issuer := anyIssuer\<rparr>\<rparr>)) = oc_Name (ob_cfg b)" by simp
  then show ?thesis by (simp only: verifyIDToken_def)
qed

text \<open>The DER parser reads what an encoder of short signatures writes, and it does not check lengths: a signature whose
  first integer claims more bytes than there are makes the slice expression panic.\<close>

theorem der_signature:
  "(length rb < 256 \<longrightarrow> length sb < 256 \<longrightarrow>
      parseDERSignature ([0x30, n, 0x02, of_nat (length rb)] @ rb @ [0x02, of_nat (length sb)] @ sb) = Inr (set_bytes rb, set_bytes sb)) \<and>
   (length rest < unat m \<longrightarrow> parseDERSignature ([0x30, n, 0x02, m] @ rest) = Inl RpPanic)"
proof -
  have u: "unat (of_nat k :: byte) = k" if "k < 256" for k using that by (simp add: unat_of_nat)
  have "parseDERSignature ([0x30, n, 0x02, of_nat (length rb)] @ rb @ [0x02, of_nat (length sb)] @ sb) = Inr (set_bytes rb, set_bytes sb)"
    if "length rb < 256" "length sb < 256"
    using that by (simp add: parseDERSignature_def Let_def u)
  moreover have "parseDERSignature ([0x30, n, 0x02, m] @ rest) = Inl RpPanic" if "length rest < unat m"
    using that by (simp add: parseDERSignature_def Let_def)
  ultimately show ?thesis by blast
qed

section \<open>Witnesses\<close>

definition demo_rp_crypto :: rp_crypto where
  "demo_rp_crypto = \<lparr>rc_hash = (\<lambda>h m. m), rc_pss = (\<lambda>n e h d s. False), rc_pkcs1 = (\<lambda>n e h d s. False),
     rc_ecdsa = (\<lambda>c x y d r s. False), rc_ed25519 = ed_verify demo_prims\<rparr>"

definition demo_rp :: oidcrp_bridge where
  "demo_rp = NewOIDCRP \<lparr>oc_Name = ''google'', oc_Issuer = ''i'', oc_ClientID = ''c'', oc_ClientSecret = ''s'', oc_Scopes = [],
     oc_RedirectBaseURL = ''b''\<rparr>"

definition demo_id_claims :: claims where
  "demo_id_claims = \<lparr>cl_Issuer = ''i'', cl_Subject = ''u1'', cl_Audience = ''another-client'', cl_IssuedAt = 0, cl_ExpiresAt = 60,
     cl_Nonce = [], cl_DID = [], cl_AMR = [], cl_ACR = [], cl_TokenType = [], cl_Scope = []\<rparr>"

definition demo_id_token :: string where
  "demo_id_token = signJWT demo_prims (claims_json demo_id_claims) demo_key ''k1''"

definition demo_rp_get :: http_get where
  "demo_rp_get u h = Some (200, json_marshal (if u = ''j''
     then JObj [(''keys'', JArr [JObj [(''kty'', JStr ''OKP''), (''kid'', JStr ''k1''), (''x'', JStr (b64_encode demo_key))]])]
     else JObj [(''token_endpoint'', JStr ''t''), (''jwks_uri'', JStr ''j'')]))"

definition demo_rp_post :: http_post where
  "demo_rp_post u f = Some (200, json_marshal (JObj [(''id_token'', JStr demo_id_token)]))"

definition demo_disc :: oidc_discovery where
  "demo_disc = \<lparr>od_AuthorizationEndpoint = [], od_TokenEndpoint = ''t'', od_JwksURI = ''j''\<rparr>"

definition demo_jwk :: jwk_key where
  "demo_jwk = \<lparr>jk_Kty = ''OKP'', jk_Kid = ''k1'', jk_Alg = [], jk_Use = [], jk_N = [], jk_E = [], jk_Crv = [],
     jk_X = b64_encode demo_key, jk_Y = []\<rparr>"

lemma demo_discover: "discover json_read demo_rp_get 0 demo_rp = (Inr demo_disc, demo_rp\<lparr>ob_discovered := Some demo_disc, ob_discoveredAt := 0\<rparr>)"
  by (simp add: discover_def demo_rp_def NewOIDCRP_def demo_rp_get_def json_read_marshal trim_right_slash_def discovery_of_def
      as_struct_def member_def to_lower_simps demo_disc_def del: json_marshal.simps)

lemma demo_jwks: "fetchJWKS json_read demo_rp_get ''j'' = Some [demo_jwk]"
  by (simp add: fetchJWKS_def demo_rp_get_def json_read_marshal as_struct_def member_def to_lower_simps jwk_of_def demo_jwk_def
      del: json_marshal.simps)

lemma demo_id_header: "ParseHeader json_read demo_id_token = Inr [(''typ'', ''JWT''), (''kid'', ''k1''), (''alg'', ''EdDSA'')]"
  by (simp add: ParseHeader_def demo_id_token_def signJWT_split Let_def json_read_marshal del: json_marshal.simps)

lemma demo_id_signature: "verifyJWTSignature demo_rp_crypto json_read demo_id_token (EdKey demo_key) = Inr ()"
  using demo_signatures_ok
  by (simp add: verifyJWTSignature_def demo_id_token_def signJWT_split Let_def demo_rp_crypto_def signatures_ok_def demo_pub
      demo_key_def del: json_marshal.simps)

lemma demo_id_parsed: "ParseUnverified json_read demo_id_token = Inr demo_id_claims"
  unfolding demo_id_token_def
  by (simp add: ParseUnverified_signJWT [OF decodes_json_read] claims_of_json demo_id_claims_def int64_def)

theorem upstream_identity_sound_witness:
  "\<exists>ext. fst (rp_ExchangeCode demo_rp_crypto json_read demo_rp_get demo_rp_post 0 ''code'' demo_rp) = Inr ext \<and>
     ex_ExternalID ext \<noteq> [] \<and> ex_Provider ext = ''google''"
proof -
  have "\<exists>ext. verifyIDToken demo_rp_crypto json_read demo_rp_get 0 demo_rp demo_disc demo_id_token = Inr ext"
    using demo_jwks by (simp add: verifyIDToken_def demo_id_header demo_disc_def assoc_get_def demo_jwk_def jwkToPublicKey_def
        demo_id_signature demo_id_parsed) (simp add: demo_id_claims_def unix_def second_def)
  moreover have "demo_id_token \<noteq> []" by (simp add: demo_id_token_def signJWT_def Let_def)
  ultimately obtain ext where e: "fst (rp_ExchangeCode demo_rp_crypto json_read demo_rp_get demo_rp_post 0 ''code'' demo_rp) = Inr ext"
    by (auto simp: rp_ExchangeCode_def demo_discover demo_rp_post_def json_read_marshal as_struct_def member_def to_lower_simps
        simp del: json_marshal.simps)
  from upstream_identity_sound [OF e] have "ex_ExternalID ext \<noteq> [] \<and> ex_Provider ext = oc_Name (ob_cfg demo_rp)" by auto
  with e show ?thesis by (auto simp: demo_rp_def NewOIDCRP_def)
qed

theorem der_signature_witness:
  "parseDERSignature ([0x30, 6, 0x02, 1, 5, 0x02, 1, 7]) = Inr (set_bytes [5], set_bytes [7]) \<and>
   parseDERSignature [0x30, 6, 0x02, 200, 5] = Inl RpPanic"
  using der_signature [of "[5]" "[7]" 6 "[5]" 200] by simp

end
