(* ===== verification/Providers.thy ===== *)
theory Providers
  imports Oidc_Rp
begin

text \<open>
  The other external providers, \<^verbatim>\<open>src/internal/bridge/providers\<close>: ACC (\<^verbatim>\<open>acc.go\<close>), Te Whatu Ora (\<^verbatim>\<open>te_whatu_ora.go\<close>), SAML
  (\<^verbatim>\<open>saml.go\<close>), RealMe (\<^verbatim>\<open>realme.go\<close>) and LDAP (\<^verbatim>\<open>ldap.go\<close>).  The SAML library's validated assertion and the LDAP server are
  arguments; reading key files and the identity provider's metadata is not modelled.
\<close>

section \<open>ACC\<close>

(* src: internal/bridge/providers/acc.go:23-42 ACCConfig *)
record acc_config =
  ac_AuthEndpoint :: string
  ac_TokenEndpoint :: string
  ac_UserInfoEndpoint :: string
  ac_ClientID :: string
  ac_ClientSecret :: string
  ac_RedirectBaseURL :: string
  ac_Scopes :: "string list"

datatype provider_error =
    PvConfig string | PvUse string | PvTokenExchange | PvStatus int | PvDecode | PvNoAccessToken | PvUserInfo | PvClaims | PvExpired
  | PvNoSub | PvNoContext | PvFhir | PvResponse | PvMissingNameID | PvEmptyNameID | PvLoa string | PvDial | PvBind | PvSearch | PvCredentials | PvAmbiguous

(* src: internal/bridge/providers/acc.go:51-59 NewACC *)
definition NewACC :: "acc_config \<Rightarrow> provider_error + acc_config" where
  "NewACC cfg =
     (if ac_AuthEndpoint cfg = [] \<or> ac_TokenEndpoint cfg = [] then Inl (PvConfig ''acc'')
      else Inr (if ac_Scopes cfg = [] then cfg\<lparr>ac_Scopes := [''openid'', ''profile'']\<rparr> else cfg))"

(* src: internal/bridge/providers/acc.go:63-65 ACCBridge.Authenticate *)
definition acc_Authenticate :: "acc_config \<Rightarrow> provider_error + external_identity" where
  "acc_Authenticate cfg = Inl (PvUse ''acc'')"

(* src: internal/bridge/providers/acc.go:185-187 ACCBridge.callbackURL *)
definition acc_callbackURL :: "acc_config \<Rightarrow> string" where
  "acc_callbackURL cfg = trim_right_slash (ac_RedirectBaseURL cfg) @ ''/auth/acc/callback''"

(* src: internal/bridge/providers/acc.go:68-77 ACCBridge.AuthorizationURL *)
definition acc_AuthorizationURL :: "(string \<Rightarrow> string) \<Rightarrow> string \<Rightarrow> acc_config \<Rightarrow> string" where
  "acc_AuthorizationURL esc state cfg = ac_AuthEndpoint cfg @ ''?'' @ encode_values esc
     [(''response_type'', ''code''), (''client_id'', ac_ClientID cfg), (''redirect_uri'', acc_callbackURL cfg),
      (''scope'', join '' '' (ac_Scopes cfg)), (''state'', state)]"

(* src: internal/bridge/providers/acc.go:163-176 ACCBridge.mapClaims (claims) *)
definition acc_claims :: "(string \<times> json) list \<Rightarrow> (string \<times> string) list" where
  "acc_claims raw =
     (let str = (\<lambda>f. case map_of raw f of Some (JStr v) \<Rightarrow> if v \<noteq> [] then Some v else None | _ \<Rightarrow> None);
          base = concat (map (\<lambda>f. case str f of Some v \<Rightarrow> [(f, v)] | None \<Rightarrow> []) [''email'', ''given_name'', ''family_name'', ''name'']);
          claims = (case str ''acc_client_number'' of Some v \<Rightarrow> map_put ''acc_client_number'' v base | None \<Rightarrow> base)
      in case str ''clientNumber'' of
           Some v \<Rightarrow> if assoc_get claims ''acc_client_number'' = [] then map_put ''acc_client_number'' v claims else claims
         | None \<Rightarrow> claims)"

(* src: internal/bridge/providers/acc.go:157-183 ACCBridge.mapClaims *)
definition acc_mapClaims :: "(string \<times> json) list \<Rightarrow> provider_error + external_identity" where
  "acc_mapClaims raw =
     (let sub = strOrEmpty (map_of raw ''sub'') in
      if sub = [] then Inl PvNoSub
      else Inr \<lparr>ex_Provider = ''acc'', ex_ExternalID = sub, ex_Claims = acc_claims raw, ex_Duress = False\<rparr>)"

(* src: internal/bridge/providers/acc.go:145-155 ACCBridge.parseTokenClaims *)
definition acc_parseTokenClaims :: "json_decoder \<Rightarrow> instant \<Rightarrow> string \<Rightarrow> provider_error + external_identity" where
  "acc_parseTokenClaims J now token =
     (case parseRawClaims J token of
        None \<Rightarrow> Inl PvClaims
      | Some raw \<Rightarrow>
          if (case any_number (map_of raw ''exp'') of Some e \<Rightarrow> unix now > e | None \<Rightarrow> False) then Inl PvExpired
          else acc_mapClaims raw)"

(* src: internal/bridge/providers/acc.go:122-143 ACCBridge.fetchUserInfo *)
definition acc_fetchUserInfo :: "json_decoder \<Rightarrow> http_get \<Rightarrow> acc_config \<Rightarrow> string \<Rightarrow> provider_error + external_identity" where
  "acc_fetchUserInfo J get cfg accessToken =
     (case get (ac_UserInfoEndpoint cfg) [(''Authorization'', ''Bearer '' @ accessToken)] of
        None \<Rightarrow> Inl PvUserInfo
      | Some (status, body) \<Rightarrow>
          if status \<noteq> 200 then Inl (PvStatus status)
          else case Option.bind (J body) as_any_map of None \<Rightarrow> Inl PvDecode | Some info \<Rightarrow> acc_mapClaims info)"

(* src: internal/bridge/providers/acc.go:81-120 ACCBridge.ExchangeCode *)
definition acc_ExchangeCode :: "json_decoder \<Rightarrow> http_get \<Rightarrow> http_post \<Rightarrow> instant \<Rightarrow> string \<Rightarrow> acc_config
    \<Rightarrow> provider_error + external_identity" where
  "acc_ExchangeCode J get post now code cfg =
     (case post (ac_TokenEndpoint cfg)
         [(''grant_type'', ''authorization_code''), (''code'', code), (''redirect_uri'', acc_callbackURL cfg),
          (''client_id'', ac_ClientID cfg), (''client_secret'', ac_ClientSecret cfg)] of
        None \<Rightarrow> Inl PvTokenExchange
      | Some (status, body) \<Rightarrow>
          if status \<noteq> 200 then Inl (PvStatus status)
          else case J body of
            None \<Rightarrow> Inl PvDecode
          | Some v \<Rightarrow>
              (case (as_struct v, as_string (member v ''access_token''), as_string (member v ''id_token''), as_int64 (member v ''expires_in'')) of
                 (True, Some access, Some idt, Some _) \<Rightarrow>
                   if access = [] then Inl PvNoAccessToken
                   else if ac_UserInfoEndpoint cfg \<noteq> [] then acc_fetchUserInfo J get cfg access
                   else acc_parseTokenClaims J now (if idt = [] then access else idt)
               | _ \<Rightarrow> Inl PvDecode))"

section \<open>Te Whatu Ora\<close>

(* src: internal/bridge/providers/te_whatu_ora.go:32-51 TeWhatuOraConfig *)
record two_config =
  tw_AuthEndpoint :: string
  tw_TokenEndpoint :: string
  tw_FHIRBase :: string
  tw_ClientID :: string
  tw_ClientSecret :: string
  tw_RedirectBaseURL :: string
  tw_ResourceType :: string

(* src: internal/bridge/providers/te_whatu_ora.go:62-76 NewTeWhatuOra *)
definition NewTeWhatuOra :: "two_config \<Rightarrow> provider_error + two_config" where
  "NewTeWhatuOra cfg =
     (if tw_AuthEndpoint cfg = [] \<or> tw_TokenEndpoint cfg = [] then Inl (PvConfig ''endpoints'')
      else if tw_FHIRBase cfg = [] then Inl (PvConfig ''FHIRBase'')
      else let cfg = (if tw_ResourceType cfg = [] then cfg\<lparr>tw_ResourceType := ''Patient''\<rparr> else cfg) in
        if tw_ResourceType cfg \<noteq> ''Patient'' \<and> tw_ResourceType cfg \<noteq> ''Practitioner'' then Inl (PvConfig ''ResourceType'')
        else Inr cfg)"

(* src: internal/bridge/providers/te_whatu_ora.go:80-82 TeWhatuOraBridge.Authenticate *)
definition two_Authenticate :: "two_config \<Rightarrow> provider_error + external_identity" where
  "two_Authenticate cfg = Inl (PvUse ''te-whatu-ora'')"

(* src: internal/bridge/providers/te_whatu_ora.go:231-233 TeWhatuOraBridge.callbackURL *)
definition two_callbackURL :: "two_config \<Rightarrow> string" where
  "two_callbackURL cfg = trim_right_slash (tw_RedirectBaseURL cfg) @ ''/auth/te-whatu-ora/callback''"

(* src: internal/bridge/providers/te_whatu_ora.go:235-242 TeWhatuOraBridge.smartScopes *)
definition smartScopes :: "two_config \<Rightarrow> string" where
  "smartScopes cfg = (if tw_ResourceType cfg = ''Patient'' then ''openid fhirUser launch/patient patient/*.read''
     else ''openid fhirUser user/Practitioner.read'')"

(* src: internal/bridge/providers/te_whatu_ora.go:86-98 TeWhatuOraBridge.AuthorizationURL *)
definition two_AuthorizationURL :: "(string \<Rightarrow> string) \<Rightarrow> string \<Rightarrow> two_config \<Rightarrow> string" where
  "two_AuthorizationURL esc state cfg = tw_AuthEndpoint cfg @ ''?'' @ encode_values esc
     [(''response_type'', ''code''), (''client_id'', tw_ClientID cfg), (''redirect_uri'', two_callbackURL cfg),
      (''scope'', smartScopes cfg), (''state'', state), (''aud'', tw_FHIRBase cfg)]"

(* src: internal/bridge/providers/te_whatu_ora.go:254-257 fhirIdentifierEnt *)
record fhir_identifier =
  fi_System :: string
  fi_Value :: string

(* src: internal/bridge/providers/te_whatu_ora.go:259-262 fhirHumanNameEnt *)
record fhir_name =
  fn_Family :: string
  fn_Given :: "string list"

(* src: internal/bridge/providers/te_whatu_ora.go:246-252 fhirPatientResource *)
record fhir_resource =
  fr_ResourceType :: string
  fr_ID :: string
  fr_Identifier :: "fhir_identifier list"
  fr_Name :: "fhir_name list"
  fr_BirthDate :: string

(* src: internal/bridge/providers/te_whatu_ora.go:24-24 nhiSystemURI *)
definition nhiSystemURI :: string where
  "nhiSystemURI = ''https://standards.digital.health.nz/ns/nhi-id''"

(* src: internal/bridge/providers/te_whatu_ora.go:26-26 hpiPersonSystemURI *)
definition hpiPersonSystemURI :: string where
  "hpiPersonSystemURI = ''https://standards.digital.health.nz/ns/hpi-person-id''"

(* src: internal/bridge/providers/te_whatu_ora.go:28-28 hpiCPNSystemURI *)
definition hpiCPNSystemURI :: string where
  "hpiCPNSystemURI = ''https://standards.digital.health.nz/ns/hpi-person-cpn''"

(* src: internal/bridge/providers/te_whatu_ora.go:176-185 TeWhatuOraBridge.fetchFHIRIdentity (identifiers) *)
fun fhir_numbers :: "fhir_identifier list \<Rightarrow> string \<Rightarrow> string \<Rightarrow> string \<times> string" where
  "fhir_numbers [] nhi hpi = (nhi, hpi)"
| "fhir_numbers (i # is) nhi hpi =
     (if fi_System i = nhiSystemURI then fhir_numbers is (fi_Value i) hpi
      else if fi_System i = hpiPersonSystemURI \<or> fi_System i = hpiCPNSystemURI then
        fhir_numbers is nhi (if hpi = [] then fi_Value i else hpi)
      else fhir_numbers is nhi hpi)"

(* src: internal/bridge/providers/te_whatu_ora.go:187-228 TeWhatuOraBridge.fetchFHIRIdentity (identity) *)
definition fhir_identity :: "two_config \<Rightarrow> string \<Rightarrow> fhir_resource \<Rightarrow> external_identity" where
  "fhir_identity cfg resourceID resource =
     (let (nhi, hpi) = fhir_numbers (fr_Identifier resource) [] [];
          (externalID, idType) = (if nhi \<noteq> [] then (nhi, ''nhi'') else if hpi \<noteq> [] then (hpi, ''hpi'') else (resourceID, ''fhir-id''));
          claims = [(''fhir_resource_id'', resourceID), (''fhir_resource_type'', tw_ResourceType cfg), (''id_type'', idType)] @
            (if nhi \<noteq> [] then [(''nhi_number'', nhi)] else []) @ (if hpi \<noteq> [] then [(''hpi_number'', hpi)] else []) @
            (case fr_Name resource of
               [] \<Rightarrow> []
             | n # _ \<Rightarrow> (if fn_Family n \<noteq> [] then [(''family_name'', fn_Family n)] else []) @
                 (case filter (\<lambda>g. g \<noteq> []) (fn_Given n) of [] \<Rightarrow> [] | g # _ \<Rightarrow> [(''given_name'', g)])) @
            (if fr_BirthDate resource \<noteq> [] then [(''dob'', fr_BirthDate resource)] else [])
      in \<lparr>ex_Provider = ''te-whatu-ora'', ex_ExternalID = externalID, ex_Claims = claims, ex_Duress = False\<rparr>)"

(* src: internal/bridge/providers/te_whatu_ora.go:169-172 TeWhatuOraBridge.fetchFHIRIdentity (decoding) *)
definition fhir_of :: "json \<Rightarrow> fhir_resource option" where
  "fhir_of v =
     (let items = (\<lambda>f w. case w of JNull \<Rightarrow> Some [] | JArr vs \<Rightarrow> opt_list (map f vs) | _ \<Rightarrow> None);
          idt = (\<lambda>w. if \<not> as_struct w then None else case (as_string (member w ''system''), as_string (member w ''value'')) of
            (Some s, Some x) \<Rightarrow> Some \<lparr>fi_System = s, fi_Value = x\<rparr> | _ \<Rightarrow> None)
      in if \<not> as_struct v then None
         else case (as_string (member v ''resourceType''), as_string (member v ''id''), items idt (member v ''identifier'')) of
           (Some t, Some i, Some ids) \<Rightarrow>
             (let nm = (\<lambda>w. if \<not> as_struct w then None else case (as_string (member w ''family''), as_strings (member w ''given'')) of
                (Some f, Some g) \<Rightarrow> Some \<lparr>fn_Family = f, fn_Given = g\<rparr> | _ \<Rightarrow> None);
                  names = (case member v ''name'' of JNull \<Rightarrow> Some [] | JArr vs \<Rightarrow> opt_list (map nm vs) | _ \<Rightarrow> None)
              in case (names, as_string (member v ''birthDate'')) of
                (Some ns, Some bd) \<Rightarrow>
                  Some \<lparr>fr_ResourceType = t, fr_ID = i, fr_Identifier = ids, fr_Name = ns, fr_BirthDate = bd\<rparr>
              | _ \<Rightarrow> None)
         | _ \<Rightarrow> None)"

(* src: internal/bridge/providers/te_whatu_ora.go:150-229 TeWhatuOraBridge.fetchFHIRIdentity *)
definition fetchFHIRIdentity :: "json_decoder \<Rightarrow> http_get \<Rightarrow> two_config \<Rightarrow> string \<Rightarrow> string \<Rightarrow> provider_error + external_identity" where
  "fetchFHIRIdentity J get cfg accessToken resourceID =
     (let fhirURL = trim_right_slash (tw_FHIRBase cfg) @ ''/'' @ tw_ResourceType cfg @ ''/'' @ resourceID in
      case get fhirURL [(''Authorization'', ''Bearer '' @ accessToken), (''Accept'', ''application/fhir+json'')] of
        None \<Rightarrow> Inl PvFhir
      | Some (status, body) \<Rightarrow>
          if status \<noteq> 200 then Inl (PvStatus status)
          else case Option.bind (J body) fhir_of of
            None \<Rightarrow> Inl PvDecode
          | Some resource \<Rightarrow> Inr (fhir_identity cfg resourceID resource))"

(* src: internal/bridge/providers/te_whatu_ora.go:134-142 TeWhatuOraBridge.ExchangeCode (resource id) *)
definition fhir_resource_id :: "string \<Rightarrow> string \<Rightarrow> string" where
  "fhir_resource_id patient fhirUser =
     (if patient = [] \<and> fhirUser \<noteq> [] then
        (let parts = split_n 2 (CHR ''/'') fhirUser in if length parts = 2 then parts ! 1 else fhirUser)
      else patient)"

(* src: internal/bridge/providers/te_whatu_ora.go:102-148 TeWhatuOraBridge.ExchangeCode *)
definition two_ExchangeCode :: "json_decoder \<Rightarrow> http_get \<Rightarrow> http_post \<Rightarrow> string \<Rightarrow> two_config \<Rightarrow> provider_error + external_identity" where
  "two_ExchangeCode J get post code cfg =
     (case post (tw_TokenEndpoint cfg)
         [(''grant_type'', ''authorization_code''), (''code'', code), (''redirect_uri'', two_callbackURL cfg),
          (''client_id'', tw_ClientID cfg), (''client_secret'', tw_ClientSecret cfg)] of
        None \<Rightarrow> Inl PvTokenExchange
      | Some (status, body) \<Rightarrow>
          if status \<noteq> 200 then Inl (PvStatus status)
          else case J body of
            None \<Rightarrow> Inl PvDecode
          | Some v \<Rightarrow>
              (case (as_struct v, as_string (member v ''access_token''), as_string (member v ''patient''), as_string (member v ''fhirUser'')) of
                 (True, Some access, Some patient, Some user) \<Rightarrow>
                   if access = [] then Inl PvNoAccessToken
                   else let resourceID = fhir_resource_id patient user in
                     if resourceID = [] then Inl PvNoContext else fetchFHIRIdentity J get cfg access resourceID
               | _ \<Rightarrow> Inl PvDecode))"

section \<open>SAML and RealMe\<close>

text \<open>What the bridges read of a validated assertion: the name id, and the attributes of all statements with their values.\<close>

record assertion =
  as_NameID :: "string option"
  as_Attributes :: "(string \<times> string list) list"

text \<open>\<^verbatim>\<open>strings.Replace(s, old, new, 1)\<close> for a nonempty \<open>old\<close>: the first occurrence replaced.\<close>

fun replace_first :: "string \<Rightarrow> string \<Rightarrow> string \<Rightarrow> string" where
  "replace_first old new [] = []"
| "replace_first old new (c # s) =
     (if has_prefix (c # s) old then new @ drop (length old) (c # s) else c # replace_first old new s)"

(* src: internal/bridge/providers/saml.go:86-92 SAMLBridge.init (metadata path) *)
definition saml_metadata_path :: "string \<Rightarrow> string \<Rightarrow> string" where
  "saml_metadata_path metadataPath acsPath =
     (if metadataPath = [] then
        (let p = replace_first ''/acs'' ''/metadata'' acsPath in if p = acsPath then acsPath @ ''/metadata'' else p)
      else metadataPath)"

(* src: internal/bridge/providers/saml.go:133-135 SAMLBridge.Authenticate *)
definition saml_Authenticate :: "string \<Rightarrow> provider_error + external_identity" where
  "saml_Authenticate name = Inl (PvUse ''saml'')"

(* src: internal/bridge/providers/saml.go:201-213 SAMLBridge.extractIdentity (friendly names) *)
definition saml_friendly :: "(string \<times> string) list \<Rightarrow> (string \<times> string) list" where
  "saml_friendly claims = fold (\<lambda>(urn, name) m. case map_of m urn of Some v \<Rightarrow> map_put name v m | None \<Rightarrow> m)
     [(''http://schemas.xmlsoap.org/ws/2005/05/identity/claims/emailaddress'', ''email''),
      (''http://schemas.xmlsoap.org/ws/2005/05/identity/claims/givenname'', ''given_name''),
      (''http://schemas.xmlsoap.org/ws/2005/05/identity/claims/surname'', ''family_name''),
      (''http://schemas.microsoft.com/ws/2008/06/identity/claims/groups'', ''groups'')] claims"

(* src: internal/bridge/providers/saml.go:184-220 SAMLBridge.extractIdentity *)
definition saml_extractIdentity :: "string \<Rightarrow> assertion \<Rightarrow> provider_error + external_identity" where
  "saml_extractIdentity name a =
     (case as_NameID a of
        None \<Rightarrow> Inl PvMissingNameID
      | Some nameID \<Rightarrow>
          if nameID = [] then Inl PvEmptyNameID
          else
            let claims = fold (\<lambda>(k, vs) m. case vs of [] \<Rightarrow> m | v # _ \<Rightarrow> map_put k v m) (as_Attributes a) []
            in Inr \<lparr>ex_Provider = name, ex_ExternalID = nameID, ex_Claims = saml_friendly claims, ex_Duress = False\<rparr>)"

(* src: internal/bridge/providers/saml.go:174-180 SAMLBridge.ProcessACS *)
definition saml_ProcessACS :: "(http_request \<Rightarrow> string list \<Rightarrow> assertion option) \<Rightarrow> string \<Rightarrow> http_request \<Rightarrow> string list
    \<Rightarrow> provider_error + external_identity" where
  "saml_ProcessACS parse_response name rq requestIDs =
     (case parse_response rq requestIDs of None \<Rightarrow> Inl PvResponse | Some a \<Rightarrow> saml_extractIdentity name a)"

type_synonym realme_tier = string

(* src: internal/bridge/providers/realme.go:28-28 RealMeLogin *)
definition RealMeLogin :: realme_tier where
  "RealMeLogin = ''login''"

(* src: internal/bridge/providers/realme.go:30-30 RealMeVerified *)
definition RealMeVerified :: realme_tier where
  "RealMeVerified = ''verified''"

(* src: internal/bridge/providers/realme.go:74-76 NewRealMe (default tier) *)
definition realme_tier_of :: "realme_tier \<Rightarrow> realme_tier" where
  "realme_tier_of tier = (if tier = [] then RealMeLogin else tier)"

(* src: internal/bridge/providers/realme.go:94-96 RealMeBridge.Authenticate *)
definition realme_Authenticate :: "realme_tier \<Rightarrow> provider_error + external_identity" where
  "realme_Authenticate tier = Inl (PvUse ''realme'')"

(* src: internal/bridge/providers/realme.go:34-34 realmeAttrPrefix *)
definition realmeAttrPrefix :: string where
  "realmeAttrPrefix = ''urn:nz:govt:dia:realme:identity:attribute:''"

(* src: internal/bridge/providers/realme.go:38-38 realmeLOA1 *)
definition realmeLOA1 :: string where
  "realmeLOA1 = ''urn:nzl:govt:ict:stds:auth:as:1.0:idassurance:loa1''"

(* src: internal/bridge/providers/realme.go:39-39 realmeLOA2 *)
definition realmeLOA2 :: string where
  "realmeLOA2 = ''urn:nzl:govt:ict:stds:auth:as:1.0:idassurance:loa2''"

(* src: internal/bridge/providers/realme.go:40-40 realmeLOA3 *)
definition realmeLOA3 :: string where
  "realmeLOA3 = ''urn:nzl:govt:ict:stds:auth:as:1.0:idassurance:loa3''"

(* src: internal/bridge/providers/realme.go:181-192 loaLevel *)
definition loaLevel :: "string \<Rightarrow> string" where
  "loaLevel urn = (if urn = realmeLOA1 then ''1'' else if urn = realmeLOA2 then ''2'' else if urn = realmeLOA3 then ''3'' else ''unknown'')"

(* src: internal/bridge/providers/realme.go:140-162 RealMeBridge.mapRealMeIdentity (attribute names) *)
definition realme_names :: "(string \<times> string) list" where
  "realme_names = [(''familyName'', ''family_name''), (''givenNames'', ''given_name''), (''dateOfBirth'', ''dob''),
     (''residenceAddressLine1'', ''address_line1''), (''residenceAddressLine2'', ''address_line2''), (''residenceCity'', ''address_city''),
     (''residencePostCode'', ''address_postcode''), (''residenceCountry'', ''address_country''), (''verifiedOn'', ''verified_on'')]"

(* src: internal/bridge/providers/realme.go:134-162 RealMeBridge.mapRealMeIdentity (one attribute) *)
definition realme_attribute :: "string \<times> string list \<Rightarrow> (string \<times> string) list \<Rightarrow> (string \<times> string) list" where
  "realme_attribute attr claims = (case attr of
     (name, []) \<Rightarrow> claims
   | (name, v # _) \<Rightarrow>
       let key = trim_prefix name realmeAttrPrefix in
       if key = ''loaAchieved'' then map_put ''loa_level'' (loaLevel v) (map_put ''loa'' v claims)
       else case map_of realme_names key of Some c \<Rightarrow> map_put c v claims | None \<Rightarrow> claims)"

(* src: internal/bridge/providers/realme.go:118-178 RealMeBridge.mapRealMeIdentity *)
definition mapRealMeIdentity :: "realme_tier \<Rightarrow> assertion \<Rightarrow> provider_error + external_identity" where
  "mapRealMeIdentity tier a =
     (case as_NameID a of
        None \<Rightarrow> Inl PvMissingNameID
      | Some flt \<Rightarrow>
          if flt = [] then Inl PvEmptyNameID
          else
            let claims = fold realme_attribute (as_Attributes a) [(''flt'', flt)] in
            if tier = RealMeVerified \<and>
               (case map_of claims ''loa'' of None \<Rightarrow> True | Some loa \<Rightarrow> loa \<noteq> realmeLOA2 \<and> loa \<noteq> realmeLOA3)
            then Inl (PvLoa (assoc_get claims ''loa''))
            else Inr \<lparr>ex_Provider = ''realme'', ex_ExternalID = flt, ex_Claims = claims, ex_Duress = False\<rparr>)"

(* src: internal/bridge/providers/realme.go:110-116 RealMeBridge.ProcessACS *)
definition realme_ProcessACS :: "(http_request \<Rightarrow> string list \<Rightarrow> assertion option) \<Rightarrow> realme_tier \<Rightarrow> http_request \<Rightarrow> string list
    \<Rightarrow> provider_error + external_identity" where
  "realme_ProcessACS parse_response tier rq requestIDs =
     (case parse_response rq requestIDs of None \<Rightarrow> Inl PvResponse | Some a \<Rightarrow> mapRealMeIdentity tier a)"

section \<open>LDAP\<close>

(* src: internal/bridge/providers/ldap.go:18-34 LDAPConfig *)
record ldap_config =
  ld_URL :: string
  ld_BindDN :: string
  ld_BindPassword :: string
  ld_UserBaseDN :: string
  ld_UserFilter :: string
  ld_AttributeMap :: "(string \<times> string) list option"

(* src: internal/bridge/providers/ldap.go:58-66 NewLDAP (default attributes) *)
definition ldap_default_attributes :: "(string \<times> string) list" where
  "ldap_default_attributes = [(''mail'', ''email''), (''givenName'', ''given_name''), (''sn'', ''family_name''), (''displayName'', ''name''),
     (''memberOf'', ''groups'')]"

(* src: internal/bridge/providers/ldap.go:43-68 NewLDAP *)
definition NewLDAP :: "ldap_config \<Rightarrow> provider_error + ldap_config" where
  "NewLDAP cfg =
     (if length (ld_URL cfg) < 7 then Inl (PvConfig ''URL too short'')
      else
        let scheme = take 7 (ld_URL cfg) in
        if scheme \<noteq> ''ldaps://'' \<and> take 5 (ld_URL cfg) \<noteq> ''ldap:'' then Inl (PvConfig ''URL must start with ldaps:// or ldap://'')
        else if scheme = ''ldap://'' then Inl (PvConfig ''plaintext ldap:// is not permitted'')
        else
          let cfg = (if ld_UserFilter cfg = [] then cfg\<lparr>ld_UserFilter := ''(sAMAccountName=%s)''\<rparr> else cfg)
          in Inr (if ld_AttributeMap cfg = None then cfg\<lparr>ld_AttributeMap := Some ldap_default_attributes\<rparr> else cfg))"

(* src: internal/bridge/providers/ldap.go:72-74 LDAPBridge.Authenticate *)
definition ldap_Authenticate :: "ldap_config \<Rightarrow> provider_error + external_identity" where
  "ldap_Authenticate cfg = Inl (PvUse ''ldap'')"

text \<open>
  \<^verbatim>\<open>fmt.Sprintf\<close> with one string argument, for formats whose verbs are \<^verbatim>\<open>%s\<close>, \<^verbatim>\<open>%v\<close> and \<^verbatim>\<open>%%\<close>: the first verb takes the argument, a
  further one reports it missing, and an argument no verb took is reported as extra.  Other verbs, flags and widths have no
  use in a search filter and are copied.
\<close>

fun sprintf_s :: "string \<Rightarrow> string option \<Rightarrow> string" where
  "sprintf_s [] a = (case a of None \<Rightarrow> [] | Some v \<Rightarrow> ''%!(EXTRA string='' @ v @ '')'')"
| "sprintf_s [c] a = (if c = CHR ''%'' then ''%!(NOVERB)'' else [c]) @ sprintf_s [] a"
| "sprintf_s (c # d # s) a =
     (if c \<noteq> CHR ''%'' then c # sprintf_s (d # s) a
      else if d = CHR ''%'' then CHR ''%'' # sprintf_s s a
      else if d = CHR ''s'' \<or> d = CHR ''v'' then
        (case a of Some v \<Rightarrow> v | None \<Rightarrow> ''%!'' @ [d] @ ''(MISSING)'') @ sprintf_s s None
      else c # d # sprintf_s s a)"

text \<open>
  An LDAP server: whether the dial and a bind succeed, and the entries that a search of a base DN with a filter finds, each a
  DN with those of the requested attributes it has.  The attribute map is iterated in the order of its list; Go leaves the
  order open, which only matters when two attributes name the same claim.
\<close>

record ldap_server =
  ls_dial :: "string \<Rightarrow> bool"
  ls_bind :: "string \<Rightarrow> string \<Rightarrow> bool"
  ls_search :: "string \<Rightarrow> string \<Rightarrow> string list \<Rightarrow> (string \<times> (string \<times> string list) list) list option"

(* src: internal/bridge/providers/ldap.go:119-125 LDAPBridge.VerifyCredentials (claims) *)
definition ldap_claims :: "(string \<times> string) list \<Rightarrow> (string \<times> string list) list \<Rightarrow> (string \<times> string) list" where
  "ldap_claims amap attrs = fold (\<lambda>(a, c) m. case map_of attrs a of Some (v # _) \<Rightarrow> map_put c v m | _ \<Rightarrow> m) amap []"

(* src: internal/bridge/providers/ldap.go:77-132 LDAPBridge.VerifyCredentials *)
definition ldap_VerifyCredentials :: "ldap_server \<Rightarrow> (string \<Rightarrow> string) \<Rightarrow> ldap_config \<Rightarrow> string \<Rightarrow> string
    \<Rightarrow> provider_error + external_identity" where
  "ldap_VerifyCredentials L escape_filter cfg identifier password =
     (if \<not> ls_dial L (ld_URL cfg) then Inl PvDial
      else if \<not> ls_bind L (ld_BindDN cfg) (ld_BindPassword cfg) then Inl PvBind
      else
        let amap = (case ld_AttributeMap cfg of Some m \<Rightarrow> m | None \<Rightarrow> []);
            flt = sprintf_s (ld_UserFilter cfg) (Some (escape_filter identifier))
        in case ls_search L (ld_UserBaseDN cfg) flt (''dn'' # map fst amap) of
             None \<Rightarrow> Inl PvSearch
           | Some [] \<Rightarrow> Inl PvCredentials
           | Some (_ # _ # _) \<Rightarrow> Inl PvAmbiguous
           | Some [(userDN, attrs)] \<Rightarrow>
               if \<not> ls_bind L userDN password then Inl PvCredentials
               else Inr \<lparr>ex_Provider = ''ldap'', ex_ExternalID = userDN, ex_Claims = ldap_claims amap attrs, ex_Duress = False\<rparr>)"

section \<open>Properties\<close>

lemma realme_attribute_loa:
  "map_of (realme_attribute attr claims) ''loa'' =
     (case attr of (n, v # _) \<Rightarrow> if trim_prefix n realmeAttrPrefix = ''loaAchieved'' then Some v else map_of claims ''loa''
      | _ \<Rightarrow> map_of claims ''loa'')"
  by (auto simp: realme_attribute_def realme_names_def Let_def split: prod.splits list.splits option.splits if_splits)

text \<open>The level of assurance in the claims is that of an attribute of the assertion.\<close>

lemma realme_fold_loa:
  "map_of (fold realme_attribute attrs claims) ''loa'' = Some l \<Longrightarrow>
   map_of claims ''loa'' = Some l \<or>
   (\<exists>n vs. (n, l # vs) \<in> set attrs \<and> trim_prefix n realmeAttrPrefix = ''loaAchieved'')"
proof (induction attrs arbitrary: claims)
  case (Cons a attrs)
  then have "map_of (realme_attribute a claims) ''loa'' = Some l \<or>
      (\<exists>n vs. (n, l # vs) \<in> set attrs \<and> trim_prefix n realmeAttrPrefix = ''loaAchieved'')" by simp
  then show ?case
    by (auto simp: realme_attribute_loa split: prod.splits list.splits if_splits)
qed simp

text \<open>A bridge of the verified RealMe tier only returns an identity whose assertion carries a level of assurance of 2 or 3, and
  the identity is the assertion's nonempty name id.\<close>

theorem realme_verified_assurance:
  assumes "mapRealMeIdentity RealMeVerified a = Inr i"
  shows "as_NameID a = Some (ex_ExternalID i) \<and> ex_ExternalID i \<noteq> [] \<and>
     (\<exists>n loa vs. (n, loa # vs) \<in> set (as_Attributes a) \<and> trim_prefix n realmeAttrPrefix = ''loaAchieved'' \<and>
        loa \<in> {realmeLOA2, realmeLOA3} \<and> map_of (ex_Claims i) ''loa'' = Some loa)"
proof -
  obtain flt where f: "as_NameID a = Some flt" "flt \<noteq> []"
    using assms by (cases "as_NameID a") (auto simp: mapRealMeIdentity_def split: if_splits)
  let ?c = "fold realme_attribute (as_Attributes a) [(''flt'', flt)]"
  obtain loa where l: "map_of ?c ''loa'' = Some loa" "loa \<in> {realmeLOA2, realmeLOA3}"
    and i: "ex_ExternalID i = flt" "ex_Claims i = ?c"
    using assms f by (cases "map_of ?c ''loa''") (auto simp: mapRealMeIdentity_def Let_def split: if_splits)
  from realme_fold_loa [OF l(1)] show ?thesis using f l i by auto
qed

definition demo_assertion :: assertion where
  "demo_assertion = \<lparr>as_NameID = Some ''flt1'', as_Attributes = [(realmeAttrPrefix @ ''loaAchieved'', [realmeLOA2])]\<rparr>"

theorem realme_verified_assurance_witness:
  "\<exists>i. mapRealMeIdentity RealMeVerified demo_assertion = Inr i \<and> as_NameID demo_assertion = Some (ex_ExternalID i)"
proof -
  obtain i where i: "mapRealMeIdentity RealMeVerified demo_assertion = Inr i"
    by (simp add: mapRealMeIdentity_def demo_assertion_def realme_attribute_def realmeAttrPrefix_def realmeLOA2_def trim_prefix_def
        has_prefix_def loaLevel_def realmeLOA1_def Let_def)
  from realme_verified_assurance [OF i] i show ?thesis by blast
qed

text \<open>The LDAP bridge can be built for neither documented scheme: the constructor compares seven characters of the URL with the
  eight of \<^verbatim>\<open>ldaps://\<close>, so that it refuses every \<^verbatim>\<open>ldaps://\<close> and every \<^verbatim>\<open>ldap://\<close> URL.\<close>

theorem ldap_urls_refused:
  "(\<exists>e. NewLDAP (cfg\<lparr>ld_URL := ''ldaps://'' @ host\<rparr>) = Inl e) \<and> (\<exists>e. NewLDAP (cfg\<lparr>ld_URL := ''ldap://'' @ host\<rparr>) = Inl e)"
  by (simp add: NewLDAP_def)

text \<open>A practitioner whose resource has both numbers is identified by the patient's NHI number, not by the HPI number.\<close>

theorem practitioner_identified_by_nhi:
  assumes "fst (fhir_numbers (fr_Identifier r) [] []) \<noteq> []"
  shows "ex_ExternalID (fhir_identity (cfg\<lparr>tw_ResourceType := ''Practitioner''\<rparr>) rid r) = fst (fhir_numbers (fr_Identifier r) [] [])"
  using assms by (cases "fhir_numbers (fr_Identifier r) [] []") (simp add: fhir_identity_def)

theorem practitioner_identified_by_nhi_witness:
  "ex_ExternalID (fhir_identity \<lparr>tw_AuthEndpoint = ''a'', tw_TokenEndpoint = ''t'', tw_FHIRBase = ''f'', tw_ClientID = ''c'',
      tw_ClientSecret = ''s'', tw_RedirectBaseURL = ''r'', tw_ResourceType = ''Practitioner''\<rparr> ''p1''
     \<lparr>fr_ResourceType = ''Practitioner'', fr_ID = ''p1'', fr_Identifier = [\<lparr>fi_System = hpiPersonSystemURI, fi_Value = ''H''\<rparr>,
        \<lparr>fi_System = nhiSystemURI, fi_Value = ''N''\<rparr>], fr_Name = [], fr_BirthDate = []\<rparr>) = ''N''"
  using practitioner_identified_by_nhi [of "\<lparr>fr_ResourceType = ''Practitioner'', fr_ID = ''p1'',
      fr_Identifier = [\<lparr>fi_System = hpiPersonSystemURI, fi_Value = ''H''\<rparr>, \<lparr>fi_System = nhiSystemURI, fi_Value = ''N''\<rparr>],
      fr_Name = [], fr_BirthDate = []\<rparr>" "\<lparr>tw_AuthEndpoint = ''a'', tw_TokenEndpoint = ''t'', tw_FHIRBase = ''f'', tw_ClientID = ''c'',
      tw_ClientSecret = ''s'', tw_RedirectBaseURL = ''r'', tw_ResourceType = ''Practitioner''\<rparr>" "''p1''"]
  by (simp add: nhiSystemURI_def hpiPersonSystemURI_def)

end
