(* ===== verification/Migrations.thy ===== *)
theory Migrations
  imports Store
begin

text \<open>
  The migration runner, \<^verbatim>\<open>src/internal/store/migrations/migrate.go\<close>.  The database is an abstract schema of type \<open>'d\<close> with the
  rows of \<^verbatim>\<open>schema_migrations\<close>; the effect of a script on the schema is the argument \<open>exec\<close>, \<open>None\<close> when it fails.  The embedded
  files are a list of names and contents in the order of \<^verbatim>\<open>fs.ReadDir\<close>.  Begin, commit, and the queries on the version table
  do not fail.
\<close>

(* src: internal/store/migrations/migrate.go:22-26 Migration *)
record migration =
  mg_Version :: int
  mg_Name :: string
  mg_SQL :: string

text \<open>\<open>md_table\<close> is \<open>None\<close> before the version table exists; its rows are versions with the instants they were applied at.\<close>

record 'd migration_db =
  md_schema :: 'd
  md_table :: "(int \<times> instant) list option"

datatype migration_error = MgFilename string | MgVersion string | MgExec int string | MgRecord int string | MgNothing

(* src: internal/store/migrations/migrate.go:163-174 parseName *)
definition parseName :: "string \<Rightarrow> migration_error + int \<times> string" where
  "parseName filename =
     (case str_cut (CHR ''_'') (trim_suffix filename ''.sql'') of
        None \<Rightarrow> Inl (MgFilename filename)
      | Some (pre, rest) \<Rightarrow>
          (case atoi pre of None \<Rightarrow> Inl (MgVersion filename) | Some v \<Rightarrow> Inr (v, rest)))"

(* src: internal/store/migrations/migrate.go:36-53 Load (loop) *)
fun load_loop :: "(string \<times> string) list \<Rightarrow> migration_error + migration list" where
  "load_loop [] = Inr []"
| "load_loop ((fname, content) # fs) =
     (if \<not> has_suffix fname ''.sql'' then load_loop fs
      else case parseName fname of
        Inl e \<Rightarrow> Inl e
      | Inr (version, name) \<Rightarrow>
          (case load_loop fs of
             Inl e \<Rightarrow> Inl e
           | Inr ms \<Rightarrow> Inr (\<lparr>mg_Version = version, mg_Name = name, mg_SQL = content\<rparr> # ms)))"

text \<open>\<^verbatim>\<open>sort.Slice\<close> need not keep the order of equal versions; the sort here does.\<close>

(* src: internal/store/migrations/migrate.go:29-58 Load *)
definition Load :: "(string \<times> string) list \<Rightarrow> migration_error + migration list" where
  "Load files = (case load_loop files of Inl e \<Rightarrow> Inl e | Inr ms \<Rightarrow> Inr (sort_key mg_Version ms))"

(* src: internal/store/migrations/migrate.go:117-124 ensureTable *)
definition ensureTable :: "'d migration_db \<Rightarrow> 'd migration_db" where
  "ensureTable d = (case md_table d of None \<Rightarrow> d\<lparr>md_table := Some []\<rparr> | Some _ \<Rightarrow> d)"

definition version_rows :: "'d migration_db \<Rightarrow> (int \<times> instant) list" where
  "version_rows d = (case md_table d of None \<Rightarrow> [] | Some rows \<Rightarrow> rows)"

(* src: internal/store/migrations/migrate.go:126-141 appliedVersions *)
definition appliedVersions :: "'d migration_db \<Rightarrow> int list" where
  "appliedVersions d = map fst (version_rows d)"

text \<open>One transaction: when the script or the insertion into the primary key column fails, both are rolled back.\<close>

(* src: internal/store/migrations/migrate.go:143-159 apply *)
definition apply_migration :: "(string \<Rightarrow> 'd \<Rightarrow> 'd option) \<Rightarrow> instant \<Rightarrow> migration \<Rightarrow> 'd migration_db \<Rightarrow> migration_error + 'd migration_db" where
  "apply_migration exec now m d =
     (case exec (mg_SQL m) (md_schema d) of
        None \<Rightarrow> Inl (MgExec (mg_Version m) (mg_Name m))
      | Some schema \<Rightarrow>
          if mg_Version m \<in> set (appliedVersions d) then Inl (MgRecord (mg_Version m) (mg_Name m))
          else Inr (d\<lparr>md_schema := schema, md_table := Some (version_rows d @ [(mg_Version m, now)])\<rparr>))"

text \<open>The loop tests the versions that were applied before it started.  The result carries the database also when a script fails.\<close>

(* src: internal/store/migrations/migrate.go:73-80 Up (loop) *)
fun up_loop :: "(string \<Rightarrow> 'd \<Rightarrow> 'd option) \<Rightarrow> instant \<Rightarrow> int list \<Rightarrow> migration list \<Rightarrow> 'd migration_db
    \<Rightarrow> migration_error option \<times> 'd migration_db" where
  "up_loop exec now applied [] d = (None, d)"
| "up_loop exec now applied (m # ms) d =
     (if mg_Version m \<in> set applied then up_loop exec now applied ms d
      else case apply_migration exec now m d of
        Inl e \<Rightarrow> (Some e, d)
      | Inr d' \<Rightarrow> up_loop exec now applied ms d')"

(* src: internal/store/migrations/migrate.go:61-82 Up *)
definition Up :: "(string \<times> string) list \<Rightarrow> (string \<Rightarrow> 'd \<Rightarrow> 'd option) \<Rightarrow> instant \<Rightarrow> 'd migration_db
    \<Rightarrow> migration_error option \<times> 'd migration_db" where
  "Up files exec now d =
     (let d = ensureTable d; applied = appliedVersions d in
      case Load files of
        Inl e \<Rightarrow> (Some e, d)
      | Inr ms \<Rightarrow> up_loop exec now applied ms d)"

(* src: internal/store/migrations/migrate.go:88-105 Down *)
definition Down :: "'d migration_db \<Rightarrow> migration_error option \<times> 'd migration_db" where
  "Down d =
     (let d = ensureTable d in
      if version_rows d = [] then (Some MgNothing, d)
      else let v = Max (set (appliedVersions d)) in
        (None, d\<lparr>md_table := Some (filter (\<lambda>r. fst r \<noteq> v) (version_rows d))\<rparr>))"

text \<open>\<^verbatim>\<open>return v, row.Scan(&v)\<close> leaves open whether \<open>v\<close> is read before the scan; here it is read after it.\<close>

(* src: internal/store/migrations/migrate.go:108-115 Version *)
definition Version :: "'d migration_db \<Rightarrow> int \<times> 'd migration_db" where
  "Version d = (let d = ensureTable d in (if version_rows d = [] then 0 else Max (set (appliedVersions d)), d))"

section \<open>Properties\<close>

lemma ensureTable_simps [simp]:
  "version_rows (ensureTable d) = version_rows d" "appliedVersions (ensureTable d) = appliedVersions d"
  "md_schema (ensureTable d) = md_schema d" "md_table (ensureTable d) = Some (version_rows d)"
  by (auto simp: ensureTable_def version_rows_def appliedVersions_def split: option.splits)

lemma apply_migration_Inr:
  "apply_migration exec now m d = Inr d' \<Longrightarrow> appliedVersions d' = appliedVersions d @ [mg_Version m] \<and>
     mg_Version m \<notin> set (appliedVersions d) \<and> exec (mg_SQL m) (md_schema d) = Some (md_schema d') \<and> md_table d' \<noteq> None"
  by (auto simp: apply_migration_def appliedVersions_def version_rows_def split: option.splits if_splits)

lemma up_loop_skip: "set (map mg_Version ms) \<subseteq> set applied \<Longrightarrow> up_loop exec now applied ms d = (None, d)"
  by (induction ms) auto

lemma up_loop_ok:
  "up_loop exec now applied ms d = (None, d') \<Longrightarrow>
     appliedVersions d' = appliedVersions d @ filter (\<lambda>v. v \<notin> set applied) (map mg_Version ms)"
proof (induction ms arbitrary: d)
  case (Cons m ms)
  then show ?case
    by (cases "apply_migration exec now m d") (auto dest: apply_migration_Inr split: if_splits)
qed simp

lemma up_loop_distinct:
  "distinct (appliedVersions d) \<Longrightarrow> distinct (appliedVersions (snd (up_loop exec now applied ms d)))"
proof (induction ms arbitrary: d)
  case (Cons m ms)
  then show ?case by (cases "apply_migration exec now m d") (auto dest: apply_migration_Inr)
qed simp

text \<open>C38: running the migrations is idempotent: a successful \<open>Up\<close> leaves the schema untouched and applies nothing when it is run again,
  and it records exactly the versions that were missing, in ascending order, after those already there.\<close>

theorem migrations_idempotent:
  assumes "Up files exec now d = (None, d')"
  shows "Up files exec later d' = (None, d') \<and>
     (\<exists>ms. Load files = Inr ms \<and> sorted (map mg_Version ms) \<and>
        appliedVersions d' = appliedVersions d @ filter (\<lambda>v. v \<notin> set (appliedVersions d)) (map mg_Version ms))"
proof -
  from assms obtain ms where ms: "Load files = Inr ms"
    and u: "up_loop exec now (appliedVersions d) ms (ensureTable d) = (None, d')"
    by (cases "Load files") (auto simp: Up_def Let_def)
  from up_loop_ok [OF u] have v: "appliedVersions d' = appliedVersions d @ filter (\<lambda>v. v \<notin> set (appliedVersions d)) (map mg_Version ms)"
    by simp
  have keeps: "md_table e \<noteq> None \<Longrightarrow> md_table (snd (up_loop exec now a xs e)) \<noteq> None" for a xs e
  proof (induction xs arbitrary: e)
    case (Cons m xs)
    then show ?case by (cases "apply_migration exec now m e") (auto dest: apply_migration_Inr)
  qed simp
  from keeps [of "ensureTable d"] u have "md_table d' \<noteq> None" by (metis ensureTable_simps(4) option.distinct(1) snd_conv)
  then have e: "ensureTable d' = d'" by (auto simp: ensureTable_def)
  from v have "set (map mg_Version ms) \<subseteq> set (appliedVersions d')" by auto
  with e ms have "Up files exec later d' = (None, d')" by (simp add: Up_def up_loop_skip)
  moreover have "sorted (map mg_Version ms)" using ms by (auto simp: Load_def split: sum.splits)
  ultimately show ?thesis using ms v by blast
qed

text \<open>A rollback only forgets a version: \<open>Down\<close> leaves the schema as it is, so that the next \<open>Up\<close> runs the script of the version it
  forgot again on a schema that already has it.\<close>

theorem rollback_replays_script:
  assumes "Load files = Inr [m]" "version_rows d = [(mg_Version m, t)]" "Down d = (None, d')"
  shows "md_schema d' = md_schema d \<and>
     (exec (mg_SQL m) (md_schema d) = None \<longrightarrow> fst (Up files exec now d') = Some (MgExec (mg_Version m) (mg_Name m)))"
proof -
  from assms(2,3) have d: "md_schema d' = md_schema d" "version_rows d' = []"
    by (auto simp: Down_def Let_def appliedVersions_def version_rows_def ensureTable_def split: option.splits)
  then have "appliedVersions d' = []" by (simp add: appliedVersions_def)
  with d assms(1) show ?thesis by (simp add: Up_def Let_def apply_migration_def)
qed

definition demo_files :: "(string \<times> string) list" where
  "demo_files = [(''001_initial.sql'', ''create'')]"

text \<open>A schema is the list of scripts it has seen; running one twice fails, as creating a table twice does.\<close>

definition demo_exec :: "string \<Rightarrow> string list \<Rightarrow> string list option" where
  "demo_exec sql seen = (if sql \<in> set seen then None else Some (sql # seen))"

definition demo_mdb :: "string list migration_db" where
  "demo_mdb = \<lparr>md_schema = [], md_table = None\<rparr>"

lemma demo_load: "Load demo_files = Inr [\<lparr>mg_Version = 1, mg_Name = ''initial'', mg_SQL = ''create''\<rparr>]"
  by code_simp

theorem migrations_idempotent_witness:
  "\<exists>d'. Up demo_files demo_exec 0 demo_mdb = (None, d') \<and> Up demo_files demo_exec 5 d' = (None, d') \<and> appliedVersions d' = [1]"
proof -
  obtain d' where d': "Up demo_files demo_exec 0 demo_mdb = (None, d')" "appliedVersions d' = [1]"
    by (simp add: Up_def demo_load demo_mdb_def ensureTable_def appliedVersions_def version_rows_def apply_migration_def demo_exec_def)
  with migrations_idempotent [OF d'(1)] show ?thesis by blast
qed

theorem rollback_replays_script_witness:
  "\<exists>d'. Down \<lparr>md_schema = [''create''], md_table = Some [(1, 0)]\<rparr> = (None, d') \<and>
     fst (Up demo_files demo_exec 9 d') = Some (MgExec 1 ''initial'')"
proof -
  let ?d = "\<lparr>md_schema = [''create''], md_table = Some [(1, 0)]\<rparr>"
  obtain d' where d': "Down ?d = (None, d')"
    by (simp add: Down_def Let_def ensureTable_def version_rows_def appliedVersions_def)
  from rollback_replays_script [OF demo_load _ d', of 0 demo_exec 9] d' show ?thesis
    by (simp add: version_rows_def demo_exec_def)
qed

end
