(* ===== verification/Marketplace.thy ===== *)
theory Marketplace
  imports Go_Json
begin

text \<open>
  The registry of issuers and the schemas they offer, \<^verbatim>\<open>src/pkg/marketplace/registry.go\<close>.  The counters are 64-bit integers and
  wrap.  Each operation holds the registry's lock for its whole body and is one step.
\<close>

(* src: pkg/marketplace/registry.go:10-15 Entry *)
record market_entry =
  me_IssuerDID :: string
  me_SchemaID :: string
  me_SchemaName :: string
  me_IssuedCount :: "64 word"

(* src: pkg/marketplace/registry.go:18-21 Registry *)
type_synonym market = "(string \<times> market_entry) list"

(* src: pkg/marketplace/registry.go:24-26 New *)
definition market_New :: market where
  "market_New = []"

(* src: pkg/marketplace/registry.go:30-30 Registry.Register (key) *)
definition market_key :: "string \<Rightarrow> string \<Rightarrow> string" where
  "market_key issuerDID schemaID = issuerDID @ '':'' @ schemaID"

(* src: pkg/marketplace/registry.go:29-40 Registry.Register *)
definition market_Register :: "string \<Rightarrow> string \<Rightarrow> string \<Rightarrow> market \<Rightarrow> market" where
  "market_Register issuerDID schemaID schemaName r =
     (let key = market_key issuerDID schemaID in
      if map_of r key = None then
        map_put key \<lparr>me_IssuerDID = issuerDID, me_SchemaID = schemaID, me_SchemaName = schemaName, me_IssuedCount = 0\<rparr> r
      else r)"

(* src: pkg/marketplace/registry.go:44-54 Registry.RecordIssuance *)
definition RecordIssuance :: "string \<Rightarrow> string \<Rightarrow> market \<Rightarrow> market" where
  "RecordIssuance issuerDID schemaID r =
     (let key = market_key issuerDID schemaID;
          e = (case map_of r key of
                 Some e \<Rightarrow> e
               | None \<Rightarrow> \<lparr>me_IssuerDID = issuerDID, me_SchemaID = schemaID, me_SchemaName = [], me_IssuedCount = 0\<rparr>)
      in map_put key (e\<lparr>me_IssuedCount := me_IssuedCount e + 1\<rparr>) r)"

text \<open>The order of the entries is that of Go's map iteration, which is open; here it is the order of insertion.\<close>

(* src: pkg/marketplace/registry.go:57-66 Registry.List *)
definition market_List :: "market \<Rightarrow> market_entry list" where
  "market_List r = map snd r"

section \<open>Properties\<close>

datatype market_op = Reg string string string | Iss string string

fun market_step :: "market_op \<Rightarrow> market \<Rightarrow> market" where
  "market_step (Reg i s n) r = market_Register i s n r"
| "market_step (Iss i s) r = RecordIssuance i s r"

fun issues :: "string \<Rightarrow> market_op \<Rightarrow> bool" where
  "issues k (Reg i s n) = False"
| "issues k (Iss i s) = (market_key i s = k)"

definition count_at :: "market \<Rightarrow> string \<Rightarrow> 64 word" where
  "count_at r k = (case map_of r k of None \<Rightarrow> 0 | Some e \<Rightarrow> me_IssuedCount e)"

lemma count_at_step: "count_at (market_step o1 r) k = count_at r k + (if issues k o1 then 1 else 0)"
  by (cases o1) (auto simp: count_at_def market_Register_def RecordIssuance_def Let_def split: option.splits)

lemma market_step_distinct: "distinct (map fst r) \<Longrightarrow> distinct (map fst (market_step o1 r))"
  by (cases o1) (auto simp: market_Register_def RecordIssuance_def Let_def distinct_map_put)

text \<open>After any sequence of registrations and issuances, the counter under a key is the number of issuances that used the key, modulo
  two to the 64, whatever was registered in between, and no key has two entries.\<close>

theorem market_counts:
  "count_at (fold market_step ops market_New) k = of_nat (length (filter (issues k) ops)) \<and>
   distinct (map fst (fold market_step ops market_New))"
proof -
  have "count_at (fold market_step ops r) k = count_at r k + of_nat (length (filter (issues k) ops))" for r
    by (induction ops arbitrary: r) (auto simp: count_at_step)
  moreover have "distinct (map fst r) \<Longrightarrow> distinct (map fst (fold market_step ops r))" for r
    by (induction ops arbitrary: r) (auto simp: market_step_distinct)
  ultimately show ?thesis by (simp add: market_New_def count_at_def)
qed

text \<open>The key does not separate issuer from schema: issuances of two different pairs whose texts join to the same string are counted in
  one entry, under the pair that came first.\<close>

theorem market_pairs_conflated:
  assumes "market_key i s = market_key i' s'" "(i, s) \<noteq> (i', s')"
  shows "market_List (RecordIssuance i' s' (RecordIssuance i s market_New)) =
     [\<lparr>me_IssuerDID = i, me_SchemaID = s, me_SchemaName = [], me_IssuedCount = 2\<rparr>]"
  using assms by (simp add: RecordIssuance_def market_List_def market_New_def Let_def)

theorem market_pairs_conflated_witness:
  "market_List (RecordIssuance ''did:web'' ''a:s'' (RecordIssuance ''did:web:a'' ''s'' market_New)) =
     [\<lparr>me_IssuerDID = ''did:web:a'', me_SchemaID = ''s'', me_SchemaName = [], me_IssuedCount = 2\<rparr>]"
  by (rule market_pairs_conflated) (simp_all add: market_key_def)

end
