(* ===== verification/Keystore.thy ===== *)
theory Keystore
  imports Crypto Go_Http
begin

text \<open>
  Key files, \<^verbatim>\<open>src/pkg/keystore/keystore.go\<close>.  A file is represented by the PEM block that \<^verbatim>\<open>pem.Decode\<close> finds in it, \<open>None\<close> when
  there is none; writing a block with \<^verbatim>\<open>pem.Encode\<close> puts it there.  Argon2id and the primitives of \<^verbatim>\<open>crypto/aes\<close>, \<^verbatim>\<open>crypto/cipher\<close> and
  \<^verbatim>\<open>crypto/ed25519\<close> are the record \<open>key_ciphers\<close>, with \<open>key_ciphers_ok\<close> what their documentation promises.  \<open>KsPanic\<close> stands for
  the panic of AES-GCM on a nonce that has not 12 bytes.
\<close>

section \<open>Primitives and files\<close>

record key_ciphers =
  kc_argon2 :: "byte list \<Rightarrow> byte list \<Rightarrow> nat \<Rightarrow> nat \<Rightarrow> nat \<Rightarrow> nat \<Rightarrow> byte list"
  kc_gcm_seal :: "byte list \<Rightarrow> byte list \<Rightarrow> byte list \<Rightarrow> byte list"
  kc_gcm_open :: "byte list \<Rightarrow> byte list \<Rightarrow> byte list \<Rightarrow> byte list option"
  kc_ed_public :: "byte list \<Rightarrow> byte list"

definition key_ciphers_ok :: "key_ciphers \<Rightarrow> bool" where
  "key_ciphers_ok K \<longleftrightarrow> (\<forall>k n m. kc_gcm_open K k n (kc_gcm_seal K k n m) = Some m) \<and>
     (\<forall>p s t m c n. length (kc_argon2 K p s t m c n) = n) \<and> (\<forall>seed. length (kc_ed_public K seed) = 32)"

record pem_block =
  pb_Type :: string
  pb_Headers :: "(string \<times> string) list"
  pb_Bytes :: "byte list"

type_synonym key_files = "(string \<times> pem_block option) list"

datatype keystore_error =
    KsSigningKey | KsEncryptionKey crypto_error | KsRandom | KsCipher | KsOpen string | KsRead string | KsNoBlock | KsNoPassphrase
  | KsSalt | KsNonce | KsDecrypt | KsSigningLength | KsEncryptionLength | KsDerive | KsPanic

(* src: pkg/keystore/keystore.go:30-36 Keystore *)
record keystore =
  ks_SigningPub :: "byte list"
  ks_SigningPriv :: "byte list"
  ks_EncPub :: "byte list"
  ks_EncPriv :: "byte list"
  ks_HasEnc :: bool

(* src: pkg/keystore/keystore.go:22-22 argon2Memory *)
definition argon2Memory :: nat where
  "argon2Memory = 64 * 1024"

section \<open>Generating\<close>

text \<open>The private key of \<^verbatim>\<open>ed25519.GenerateKey\<close> is the seed followed by the public key.\<close>

(* src: pkg/crypto/sign.go:13-15 GenerateSigningKey *)
definition GenerateSigningKey :: "key_ciphers \<Rightarrow> random \<Rightarrow> (byte list \<times> byte list) option" where
  "GenerateSigningKey K rnd =
     (case rnd of None \<Rightarrow> None | Some f \<Rightarrow> let seed = map f [0..<32]; pub = kc_ed_public K seed in Some (pub, seed @ pub))"

(* src: pkg/keystore/keystore.go:39-55 Generate *)
definition ks_Generate :: "prims \<Rightarrow> key_ciphers \<Rightarrow> random \<Rightarrow> random \<Rightarrow> keystore_error + keystore" where
  "ks_Generate P K r1 r2 =
     (case GenerateSigningKey K r1 of
        None \<Rightarrow> Inl KsSigningKey
      | Some (pub, priv) \<Rightarrow>
          (case GenerateEncryptionKey P r2 of
             Inl e \<Rightarrow> Inl (KsEncryptionKey e)
           | Inr (encPub, encPriv) \<Rightarrow>
               Inr \<lparr>ks_SigningPub = pub, ks_SigningPriv = priv, ks_EncPub = encPub, ks_EncPriv = encPriv, ks_HasEnc = True\<rparr>))"

section \<open>Encryption under a passphrase\<close>

(* src: pkg/keystore/keystore.go:174-174 encryptKey (derived key) *)
definition derived_key :: "key_ciphers \<Rightarrow> string \<Rightarrow> byte list \<Rightarrow> byte list" where
  "derived_key K passphrase salt = kc_argon2 K (bytes_of passphrase) salt 3 argon2Memory 4 32"

(* src: pkg/keystore/keystore.go:169-191 encryptKey *)
definition encryptKey :: "key_ciphers \<Rightarrow> random \<Rightarrow> random \<Rightarrow> byte list \<Rightarrow> string \<Rightarrow> keystore_error + byte list \<times> byte list \<times> byte list" where
  "encryptKey K saltR nonceR key passphrase =
     (case saltR of
        None \<Rightarrow> Inl KsRandom
      | Some f \<Rightarrow>
          let salt = map f [0..<32]; dk = derived_key K passphrase salt in
          if length dk \<notin> {16, 24, 32} then Inl KsCipher
          else case nonceR of
            None \<Rightarrow> Inl KsRandom
          | Some g \<Rightarrow> let nonce = map g [0..<12] in Inr (kc_gcm_seal K dk nonce key, salt, nonce))"

(* src: pkg/keystore/keystore.go:193-208 decryptKey *)
definition decryptKey :: "key_ciphers \<Rightarrow> byte list \<Rightarrow> byte list \<Rightarrow> byte list \<Rightarrow> string \<Rightarrow> keystore_error + byte list" where
  "decryptKey K ciphertext salt nonce passphrase =
     (let dk = derived_key K passphrase salt in
      if length dk \<notin> {16, 24, 32} then Inl KsCipher
      else if length nonce \<noteq> 12 then Inl KsPanic
      else case kc_gcm_open K dk nonce ciphertext of None \<Rightarrow> Inl KsDecrypt | Some plain \<Rightarrow> Inr plain)"

section \<open>Key files\<close>

text \<open>\<open>writable\<close> tells whether a path can be opened for writing.\<close>

(* src: pkg/keystore/keystore.go:116-141 savePEM *)
definition savePEM :: "key_ciphers \<Rightarrow> (string \<Rightarrow> bool) \<Rightarrow> random \<Rightarrow> random \<Rightarrow> byte list \<Rightarrow> string \<Rightarrow> string \<Rightarrow> string \<Rightarrow> key_files
    \<Rightarrow> keystore_error + key_files" where
  "savePEM K writable saltR nonceR key keyType path passphrase fs =
     (case (if passphrase = [] then Inr \<lparr>pb_Type = keyType, pb_Headers = [], pb_Bytes = key\<rparr>
            else case encryptKey K saltR nonceR key passphrase of
              Inl e \<Rightarrow> Inl e
            | Inr (ct, salt, nonce) \<Rightarrow>
                Inr \<lparr>pb_Type = keyType,
                     pb_Headers = [(''Proc-Type'', ''4,ENCRYPTED''), (''Salt'', hex_encode salt), (''Nonce'', hex_encode nonce)],
                     pb_Bytes = ct\<rparr>) of
        Inl e \<Rightarrow> Inl e
      | Inr block \<Rightarrow> if \<not> writable path then Inl (KsOpen path) else Inr (map_put path (Some block) fs))"

(* src: pkg/keystore/keystore.go:143-167 loadPEM *)
definition loadPEM :: "key_ciphers \<Rightarrow> string \<Rightarrow> string \<Rightarrow> key_files \<Rightarrow> keystore_error + byte list" where
  "loadPEM K path passphrase fs =
     (case map_of fs path of
        None \<Rightarrow> Inl (KsRead path)
      | Some None \<Rightarrow> Inl KsNoBlock
      | Some (Some block) \<Rightarrow>
          if assoc_get (pb_Headers block) ''Proc-Type'' \<noteq> ''4,ENCRYPTED'' then Inr (pb_Bytes block)
          else if passphrase = [] then Inl KsNoPassphrase
          else case hex_decode (assoc_get (pb_Headers block) ''Salt'') of
            None \<Rightarrow> Inl KsSalt
          | Some salt \<Rightarrow>
              (case hex_decode (assoc_get (pb_Headers block) ''Nonce'') of
                 None \<Rightarrow> Inl KsNonce
               | Some nonce \<Rightarrow> decryptKey K (pb_Bytes block) salt nonce passphrase))"

(* src: pkg/keystore/keystore.go:59-61 SaveSigning *)
definition SaveSigning :: "key_ciphers \<Rightarrow> (string \<Rightarrow> bool) \<Rightarrow> random \<Rightarrow> random \<Rightarrow> keystore \<Rightarrow> string \<Rightarrow> string \<Rightarrow> key_files
    \<Rightarrow> keystore_error + key_files" where
  "SaveSigning K writable saltR nonceR ks path passphrase fs =
     savePEM K writable saltR nonceR (ks_SigningPriv ks) ''ED25519 PRIVATE KEY'' path passphrase fs"

(* src: pkg/keystore/keystore.go:64-66 SaveEncryption *)
definition SaveEncryption :: "key_ciphers \<Rightarrow> (string \<Rightarrow> bool) \<Rightarrow> random \<Rightarrow> random \<Rightarrow> keystore \<Rightarrow> string \<Rightarrow> string \<Rightarrow> key_files
    \<Rightarrow> keystore_error + key_files" where
  "SaveEncryption K writable saltR nonceR ks path passphrase fs =
     savePEM K writable saltR nonceR (ks_EncPriv ks) ''X25519 PRIVATE KEY'' path passphrase fs"

text \<open>\<^verbatim>\<open>priv.Public()\<close> is the second half of the private key; the arrays of a new keystore are zero.\<close>

(* src: pkg/keystore/keystore.go:69-82 LoadSigning *)
definition LoadSigning :: "key_ciphers \<Rightarrow> string \<Rightarrow> string \<Rightarrow> key_files \<Rightarrow> keystore_error + keystore" where
  "LoadSigning K path passphrase fs =
     (case loadPEM K path passphrase fs of
        Inl e \<Rightarrow> Inl e
      | Inr raw \<Rightarrow>
          if length raw \<noteq> 64 then Inl KsSigningLength
          else Inr \<lparr>ks_SigningPub = drop 32 raw, ks_SigningPriv = raw, ks_EncPub = replicate 32 0, ks_EncPriv = replicate 32 0,
            ks_HasEnc = False\<rparr>)"

(* src: pkg/keystore/keystore.go:104-114 x25519PublicFromPrivate *)
definition x25519PublicFromPrivate :: "prims \<Rightarrow> byte list \<Rightarrow> byte list option" where
  "x25519PublicFromPrivate P priv = x25519 P priv basepoint"

text \<open>When the public key cannot be derived, the keystore already has the private key.\<close>

(* src: pkg/keystore/keystore.go:85-101 LoadEncryption *)
definition LoadEncryption :: "prims \<Rightarrow> key_ciphers \<Rightarrow> keystore \<Rightarrow> string \<Rightarrow> string \<Rightarrow> key_files \<Rightarrow> keystore_error option \<times> keystore" where
  "LoadEncryption P K ks path passphrase fs =
     (case loadPEM K path passphrase fs of
        Inl e \<Rightarrow> (Some e, ks)
      | Inr raw \<Rightarrow>
          if length raw \<noteq> 32 then (Some KsEncryptionLength, ks)
          else let ks = ks\<lparr>ks_EncPriv := raw\<rparr> in
            case x25519PublicFromPrivate P raw of
              None \<Rightarrow> (Some KsDerive, ks)
            | Some pub \<Rightarrow> (None, ks\<lparr>ks_EncPub := pub, ks_HasEnc := True\<rparr>))"

section \<open>Properties\<close>

lemma loadPEM_savePEM:
  assumes "key_ciphers_ok K" "savePEM K writable saltR nonceR key typ path pw fs = Inr fs'"
  shows "loadPEM K path pw fs' = Inr key"
proof (cases "pw = []")
  case True
  with assms(2) have "fs' = map_put path (Some \<lparr>pb_Type = typ, pb_Headers = [], pb_Bytes = key\<rparr>) fs"
    by (auto simp: savePEM_def split: if_splits)
  then show ?thesis by (simp add: loadPEM_def assoc_get_def)
next
  case False
  from assms(1) have l: "length (derived_key K pw s) = 32" for s by (simp add: key_ciphers_ok_def derived_key_def)
  from False assms(2) obtain f g where fs': "fs' = map_put path (Some \<lparr>pb_Type = typ,
      pb_Headers = [(''Proc-Type'', ''4,ENCRYPTED''), (''Salt'', hex_encode (map f [0..<32])), (''Nonce'', hex_encode (map g [0..<12]))],
      pb_Bytes = kc_gcm_seal K (derived_key K pw (map f [0..<32])) (map g [0..<12]) key\<rparr>) fs"
    by (auto simp: savePEM_def encryptKey_def Let_def l simp del: upt_rec_numeral split: if_splits option.splits)
  show ?thesis using False assms(1) l
    by (simp add: fs' loadPEM_def assoc_get_def decryptKey_def Let_def key_ciphers_ok_def del: upt_rec_numeral)
qed

lemma ks_Generate_Inr:
  assumes "key_ciphers_ok K" "ks_Generate P K r1 r2 = Inr ks"
  shows "length (ks_SigningPriv ks) = 64" "ks_SigningPub ks = drop 32 (ks_SigningPriv ks)" "length (ks_EncPriv ks) = 32"
    "x25519 P (ks_EncPriv ks) basepoint = Some (ks_EncPub ks)" "ks_HasEnc ks"
  using assms
  by (auto simp: ks_Generate_def GenerateSigningKey_def GenerateEncryptionKey_def Let_def key_ciphers_ok_def clamp_bits(1)
      simp del: upt_rec_numeral split: option.splits sum.splits)

text \<open>C37: A generated keystore survives its files: saving both keys, each under its own path and under any passphrase, the empty one
  included, and loading them gives the keystore back.\<close>

theorem keystore_roundtrip:
  assumes "key_ciphers_ok K" "ks_Generate P K r1 r2 = Inr ks" "p1 \<noteq> p2"
    and "SaveSigning K w s1 n1 ks p1 pw fs = Inr fs1" "SaveEncryption K w s2 n2 ks p2 pw fs1 = Inr fs2"
  shows "\<exists>ks1. LoadSigning K p1 pw fs2 = Inr ks1 \<and> LoadEncryption P K ks1 p2 pw fs2 = (None, ks)"
proof -
  note g = ks_Generate_Inr [OF assms(1,2)]
  from assms(4) have 1: "loadPEM K p1 pw fs1 = Inr (ks_SigningPriv ks)"
    unfolding SaveSigning_def by (rule loadPEM_savePEM [OF assms(1)])
  from assms(5) have 2: "loadPEM K p2 pw fs2 = Inr (ks_EncPriv ks)"
    unfolding SaveEncryption_def by (rule loadPEM_savePEM [OF assms(1)])
  from assms(5) obtain b where "fs2 = map_put p2 b fs1"
    by (auto simp: SaveEncryption_def savePEM_def split: sum.splits if_splits)
  with assms(3) have "loadPEM K p1 pw fs2 = loadPEM K p1 pw fs1" by (simp add: loadPEM_def)
  with 1 2 g show ?thesis
    by (simp add: LoadSigning_def LoadEncryption_def x25519PublicFromPrivate_def)
qed

text \<open>A key saved under a passphrase cannot be loaded without one, and a file whose nonce header has not 12 bytes makes loading
  panic, whatever the passphrase.\<close>

theorem keystore_refused:
  assumes "key_ciphers_ok K" "pw \<noteq> []"
  shows "(savePEM K w s n key typ path pw fs = Inr fs' \<longrightarrow> loadPEM K path [] fs' = Inl KsNoPassphrase) \<and>
     (map_of fs path = Some (Some \<lparr>pb_Type = typ, pb_Headers = [(''Proc-Type'', ''4,ENCRYPTED''), (''Salt'', hex_encode salt),
         (''Nonce'', hex_encode nonce)], pb_Bytes = ct\<rparr>) \<and> length nonce \<noteq> 12 \<longrightarrow> loadPEM K path pw fs = Inl KsPanic)"
  using assms
  by (auto simp: savePEM_def loadPEM_def assoc_get_def decryptKey_def derived_key_def key_ciphers_ok_def Let_def
      split: if_splits sum.splits)

definition demo_kc :: key_ciphers where
  "demo_kc = \<lparr>kc_argon2 = (\<lambda>p s t m c n. replicate n 0), kc_gcm_seal = (\<lambda>k n m. m), kc_gcm_open = (\<lambda>k n c. Some c),
     kc_ed_public = (\<lambda>seed. replicate 32 1)\<rparr>"

lemma demo_kc_ok: "key_ciphers_ok demo_kc"
  by (simp add: key_ciphers_ok_def demo_kc_def)

lemma demo_save: "\<exists>fs'. savePEM demo_kc (\<lambda>_. True) (Some f) (Some g) key typ path ''pw'' fs = Inr fs'"
  by (simp add: savePEM_def encryptKey_def derived_key_def demo_kc_def Let_def)

theorem keystore_roundtrip_witness:
  "\<exists>ks fs1 fs2 ks1. ks_Generate demo_prims demo_kc (Some (\<lambda>i. 1)) (Some (\<lambda>i. 2)) = Inr ks \<and>
     SaveSigning demo_kc (\<lambda>_. True) (Some (\<lambda>i. 3)) (Some (\<lambda>i. 4)) ks ''a'' ''pw'' [] = Inr fs1 \<and>
     SaveEncryption demo_kc (\<lambda>_. True) (Some (\<lambda>i. 5)) (Some (\<lambda>i. 6)) ks ''b'' ''pw'' fs1 = Inr fs2 \<and>
     LoadSigning demo_kc ''a'' ''pw'' fs2 = Inr ks1 \<and> LoadEncryption demo_prims demo_kc ks1 ''b'' ''pw'' fs2 = (None, ks)"
proof -
  obtain ks where ks: "ks_Generate demo_prims demo_kc (Some (\<lambda>i. 1)) (Some (\<lambda>i. 2)) = Inr ks"
    by (simp add: ks_Generate_def GenerateSigningKey_def GenerateEncryptionKey_def demo_prims_def Let_def)
  obtain fs1 where 1: "SaveSigning demo_kc (\<lambda>_. True) (Some (\<lambda>i. 3)) (Some (\<lambda>i. 4)) ks ''a'' ''pw'' [] = Inr fs1"
    using demo_save unfolding SaveSigning_def by blast
  obtain fs2 where 2: "SaveEncryption demo_kc (\<lambda>_. True) (Some (\<lambda>i. 5)) (Some (\<lambda>i. 6)) ks ''b'' ''pw'' fs1 = Inr fs2"
    using demo_save unfolding SaveEncryption_def by blast
  have "''a'' \<noteq> ''b''" by simp
  from keystore_roundtrip [OF demo_kc_ok ks this 1 2] ks 1 2 show ?thesis by blast
qed

theorem keystore_refused_witness:
  "\<exists>fs'. savePEM demo_kc (\<lambda>_. True) (Some (\<lambda>i. 1)) (Some (\<lambda>i. 2)) [7] ''T'' ''a'' ''pw'' [] = Inr fs' \<and>
     loadPEM demo_kc ''a'' [] fs' = Inl KsNoPassphrase"
proof -
  obtain fs' where fs': "savePEM demo_kc (\<lambda>_. True) (Some (\<lambda>i. 1)) (Some (\<lambda>i. 2)) [7] ''T'' ''a'' ''pw'' [] = Inr fs'"
    using demo_save by blast
  have "''pw'' \<noteq> []" by simp
  from keystore_refused [OF demo_kc_ok this, of "\<lambda>_. True" "Some (\<lambda>i. 1)" "Some (\<lambda>i. 2)" "[7]" "''T''" "''a''" "[]" fs'] fs'
  show ?thesis by blast
qed

end
