(* ===== verification/Api_Vc.thy ===== *)
theory Api_Vc
  imports Api_Credentials Watermark Age_Proof Pe Didcomm Marketplace "HOL-Library.Monad_Syntax"
begin

text \<open>
  The handlers for selective disclosure, derived age proofs, presentation exchange, DIDComm, the marketplace and readiness:
  \<^verbatim>\<open>src/api/sdjwt.go\<close>, \<^verbatim>\<open>zkp.go\<close>, \<^verbatim>\<open>presentations.go\<close>, \<^verbatim>\<open>didcomm.go\<close>, \<^verbatim>\<open>marketplace.go\<close> and \<^verbatim>\<open>health.go\<close>.  The wording of
  the errors passed on in a message and the decoder of a verifiable presentation are arguments.  Counting issued credentials
  in a metric and logging have no effect on the response.
\<close>

section \<open>SD-JWT credentials\<close>

(* src: api/sdjwt.go:17-35 issueSDJWTRequest *)
record issue_sdjwt_request =
  is_IssuerDID :: string
  is_SubjectDID :: string
  is_SchemaID :: string
  is_SelectiveClaims :: "(string \<times> json) list"
  is_AlwaysVisibleClaims :: "(string \<times> json) list"
  is_ValidFor :: string
  is_ReturnFormat :: string

(* src: api/sdjwt.go:57-61 Server.handleIssueSDJWT (decoding) *)
definition issue_sdjwt_request_of :: "json \<Rightarrow> issue_sdjwt_request option" where
  "issue_sdjwt_request_of v =
     (if \<not> as_struct v then None
      else do {
        iss \<leftarrow> as_string (member v ''issuer_did'');
        sub \<leftarrow> as_string (member v ''subject_did'');
        sid \<leftarrow> as_string (member v ''schema_id'');
        sel \<leftarrow> as_any_map (member v ''selective_claims'');
        alw \<leftarrow> as_any_map (member v ''always_visible_claims'');
        vf \<leftarrow> as_string (member v ''valid_for'');
        fmt \<leftarrow> as_string (member v ''return_format'');
        Some \<lparr>is_IssuerDID = iss, is_SubjectDID = sub, is_SchemaID = sid, is_SelectiveClaims = sel, is_AlwaysVisibleClaims = alw,
          is_ValidFor = vf, is_ReturnFormat = fmt\<rparr>
      })"

(* src: api/sdjwt.go:67-94 Server.handleIssueSDJWT (options) *)
definition sdjwt_opts :: "server \<Rightarrow> byte list \<Rightarrow> duration \<Rightarrow> issue_sdjwt_request \<Rightarrow> sdjwt_options" where
  "sdjwt_opts sv key vf req =
     \<lparr>so_IssuerDID = (if is_IssuerDID req = [] then sv_issuer sv else is_IssuerDID req), so_IssuerKey = Some key,
      so_VerificationMethodID = sv_signingKeyID sv, so_SubjectDID = is_SubjectDID req, so_SchemaID = is_SchemaID req,
      so_SelectiveClaims = is_SelectiveClaims req, so_AlwaysVisibleClaims = is_AlwaysVisibleClaims req,
      so_ValidFor = (if vf \<le> 0 then 24 * hour else vf)\<rparr>"

(* src: api/sdjwt.go:100-113 Server.handleIssueSDJWT (response) *)
definition issue_sdjwt_response :: "issue_sdjwt_request \<Rightarrow> sdjwt_token \<Rightarrow> json" where
  "issue_sdjwt_response req token =
     JObj ([(''jwt'', JStr (st_JWT token)),
            (''disclosures'', JArr (map (\<lambda>d. json_str_obj [(''key'', di_Key d), (''encoded'', disc_Encode d)]) (st_Disclosures token)))] @
       (if is_ReturnFormat req = ''serialized'' then opt ''serialized'' (sd_Serialize token) else []))"

(* src: api/sdjwt.go:51-120 Server.handleIssueSDJWT *)
definition handleIssueSDJWT :: "api_env \<Rightarrow> (sdjwt_error \<Rightarrow> string) \<Rightarrow> server \<Rightarrow> registry \<Rightarrow> random list \<Rightarrow> instant \<Rightarrow> handler" where
  "handleIssueSDJWT E sd_text sv R rs now rq s =
     (case sv_signingKey sv of
        None \<Rightarrow> text_reply 503 ''platform signing key not configured'' s
      | Some key \<Rightarrow>
          (case Option.bind (rq_body rq) issue_sdjwt_request_of of
             None \<Rightarrow> text_reply 400 (''bad request: '' @ en_decode_text E rq) s
           | Some req \<Rightarrow>
               if is_SubjectDID req = [] then text_reply 400 ''subject_did required'' s
               else case (if is_ValidFor req = [] then Some 0 else en_parse_duration E (is_ValidFor req)) of
                 None \<Rightarrow> text_reply 400 (''invalid valid_for duration: '' @ en_duration_text E (is_ValidFor req)) s
               | Some vf \<Rightarrow>
                   (case IssueSDJWT (en_prims E) R rs now (sdjwt_opts sv key vf req) of
                      Inl e \<Rightarrow> text_reply 400 (''issue sd-jwt: '' @ sd_text e) s
                    | Inr token \<Rightarrow> json_reply 201 (issue_sdjwt_response req token) s)))"

text \<open>The times are left out when they are the zero \<^verbatim>\<open>time.Time\<close>.\<close>

definition nonzero_time :: "instant option \<Rightarrow> instant option" where
  "nonzero_time t = (if t = Some zero_time then None else t)"

definition opt_map :: "string \<Rightarrow> (string \<times> json) list \<Rightarrow> (string \<times> json) list" where
  "opt_map k m = (if m = [] then [] else [(k, json_canonical (JObj m))])"

(* src: api/sdjwt.go:172-187 Server.handleVerifySDJWT (response) *)
definition verify_sdjwt_response :: "sdjwt_result \<Rightarrow> json" where
  "verify_sdjwt_response r =
     JObj ([(''valid'', JBool True)] @ opt ''issuer_did'' (sr_IssuerDID r) @ opt ''subject_did'' (sr_SubjectDID r) @
       opt ''schema_id'' (sr_SchemaID r) @ opt_map ''disclosed_claims'' (sr_DisclosedClaims r) @
       opt_map ''always_claims'' (sr_AlwaysClaims r) @ opt_time ''issued_at'' (nonzero_time (sr_IssuedAt r)) @
       opt_time ''expires_at'' (nonzero_time (sr_ExpiresAt r)) @ [(''key_binding_verified'', JBool (sr_KeyBindingVerified r))])"

(* src: api/sdjwt.go:152-190 Server.handleVerifySDJWT *)
definition handleVerifySDJWT :: "api_env \<Rightarrow> (sdjwt_error \<Rightarrow> string) \<Rightarrow> (string \<Rightarrow> did_error + document) \<Rightarrow> instant \<Rightarrow> handler" where
  "handleVerifySDJWT E sd_text resolve now rq s =
     (case body_strs rq [''token'', ''expected_nonce'', ''expected_audience''] of
        Some [token, nonce, aud] \<Rightarrow>
          if token = [] then text_reply 400 ''token required'' s
          else (case sd_Verify (en_prims E) (en_json E) (en_did E) resolve now token nonce aud of
            Inl e \<Rightarrow> json_reply 422 (JObj ([(''valid'', JBool False), (''key_binding_verified'', JBool False)] @ opt ''error'' (sd_text e))) s
          | Inr result \<Rightarrow> json_reply 200 (verify_sdjwt_response result) s)
      | _ \<Rightarrow> text_reply 400 (''bad request: '' @ en_decode_text E rq) s)"

(* src: api/zkp.go:109-117 Server.handleSDJWTPresentWithWatermark (disclosures) *)
fun parse_disclosures_loop :: "json_decoder \<Rightarrow> string list \<Rightarrow> sdjwt_error + disclosure list" where
  "parse_disclosures_loop J [] = Inr []"
| "parse_disclosures_loop J (enc # encs) =
     (case ParseDisclosure J enc of
        Inl e \<Rightarrow> Inl e
      | Inr d \<Rightarrow> (case parse_disclosures_loop J encs of Inl e \<Rightarrow> Inl e | Inr ds \<Rightarrow> Inr (d # ds)))"

(* src: api/zkp.go:88-133 Server.handleSDJWTPresentWithWatermark *)
definition handleSDJWTPresentWithWatermark :: "api_env \<Rightarrow> (sdjwt_error \<Rightarrow> string) \<Rightarrow> (nat \<Rightarrow> nat) \<Rightarrow> instant \<Rightarrow> handler" where
  "handleSDJWTPresentWithWatermark E sd_text draw now rq s =
     (case (body_strs rq [''sd_jwt'', ''verifier_did''], Option.bind (rq_body rq) (\<lambda>v. as_strings (member v ''reveal_keys''))) of
        (Some [sdjwt, verifierDID], Some revealKeys) \<Rightarrow>
          if sdjwt = [] then writeJSONError 400 ''invalid_request'' ''sd_jwt required'' s
          else (case ParseSDJWT sdjwt of
            Inl e \<Rightarrow> writeJSONError 400 ''invalid_request'' (''could not parse sd_jwt: '' @ sd_text e) s
          | Inr parsed \<Rightarrow>
              (case parse_disclosures_loop (en_json E) (ps_Disclosures parsed) of
                 Inl e \<Rightarrow> writeJSONError 400 ''invalid_request'' (''bad disclosure: '' @ sd_text e) s
               | Inr discs \<Rightarrow>
                   let (presentation, record) = PresentWithWatermark (en_prims E) (en_json E) draw now
                         \<lparr>st_JWT = ps_JWT parsed, st_Disclosures = discs\<rparr> revealKeys verifierDID
                   in json_reply 200 (JObj [(''disclosed_at'', json_time (wr_IssuedAt record)), (''presentation'', JStr presentation),
                        (''presentation_id'', JStr (wr_PresentationID record)), (''verifier_did'', JStr (wr_VerifierDID record))]) s))
      | _ \<Rightarrow> writeJSONError 400 ''invalid_request'' ''invalid JSON body'' s)"

section \<open>Age proofs\<close>

(* src: api/zkp.go:31-35 Server.handleIssueAgeProof (decoding) *)
definition age_request_of :: "json \<Rightarrow> age_proof_request option" where
  "age_request_of v =
     (if \<not> as_struct v then None
      else do {
        c \<leftarrow> as_string (member v ''dob_credential_id'');
        n \<leftarrow> as_int64 (member v ''age_threshold'');
        sub \<leftarrow> as_string (member v ''subject_did'');
        ver \<leftarrow> as_string (member v ''verifier_did'');
        Some \<lparr>ar_DOBCredentialID = c, ar_AgeThreshold = n, ar_SubjectDID = sub, ar_VerifierDID = ver\<rparr>
      })"

(* src: pkg/vc/zkp.go:36-40 AgeProofResult (JSON) *)
definition age_result_json :: "age_proof_result \<Rightarrow> json" where
  "age_result_json r = JObj [(''credential'', vcredential_json (ag_Credential r)), (''age_over'', JNum (ag_AgeOver r)),
     (''result'', JBool (ag_Result r))]"

text \<open>The dash in the message about the threshold is the three bytes of U+2013.\<close>

(* src: api/zkp.go:25-74 Server.handleIssueAgeProof *)
definition handleIssueAgeProof :: "api_env \<Rightarrow> (age_error \<Rightarrow> string) \<Rightarrow> server \<Rightarrow> (string \<Rightarrow> json \<Rightarrow> 'c option)
    \<Rightarrow> ('c \<Rightarrow> (string \<times> json) list \<Rightarrow> bool) \<Rightarrow> registry \<Rightarrow> string \<Rightarrow> instant \<Rightarrow> date \<Rightarrow> handler" where
  "handleIssueAgeProof E age_text sv js_compile js_validate R uuid now today rq s =
     (case sv_signingKey sv of
        None \<Rightarrow> writeJSONError 503 ''not_configured'' ''platform signing key not configured'' s
      | Some key \<Rightarrow>
          (case Option.bind (rq_body rq) age_request_of of
             None \<Rightarrow> writeJSONError 400 ''invalid_request'' ''invalid JSON body'' s
           | Some req \<Rightarrow>
               if ar_DOBCredentialID req = [] then writeJSONError 400 ''invalid_request'' ''dob_credential_id required'' s
               else if ar_AgeThreshold req \<le> 0 \<or> ar_AgeThreshold req > 150 then
                 writeJSONError 400 ''invalid_request'' (''age_threshold must be 1'' @ [CHR 0xE2, CHR 0x80, CHR 0x93] @ ''150'') s
               else (case GetCredential (ar_DOBCredentialID req) s of
                 Inl _ \<Rightarrow> writeJSONError 404 ''not_found'' ''DOB credential not found'' s
               | Inr dobVC \<Rightarrow>
                   if ar_SubjectDID req \<noteq> [] \<and> sub_ID (cr_CredentialSubject (vc_Credential dobVC)) \<noteq> ar_SubjectDID req
                   then writeJSONError 403 ''forbidden'' ''credential does not belong to subject_did'' s
                   else (case fst (IssueAgeProof (en_prims E) js_compile js_validate R Map.empty uuid now today dobVC
                          (ar_AgeThreshold req) (sv_issuer sv) key (sv_signingKeyID sv) (ar_VerifierDID req)) of
                     Inl e \<Rightarrow> writeJSONError 422 ''proof_failed'' (age_text e) s
                   | Inr result \<Rightarrow> json_reply 201 (age_result_json result) s))))"

section \<open>Presentation exchange\<close>

text \<open>Decoding a pointer and a slice.\<close>

definition ptr_of :: "(json \<Rightarrow> 'a option) \<Rightarrow> json \<Rightarrow> 'a option option" where
  "ptr_of f v = (if v = JNull then Some None else map_option Some (f v))"

definition slice_of :: "(json \<Rightarrow> 'a option) \<Rightarrow> json \<Rightarrow> 'a list option" where
  "slice_of f v = (case v of JNull \<Rightarrow> Some [] | JArr vs \<Rightarrow> opt_list (map f vs) | _ \<Rightarrow> None)"

(* src: pkg/pe/definition.go:60-63 FormatDetail (decoding) *)
definition format_detail_of :: "json \<Rightarrow> format_detail option" where
  "format_detail_of v = (if \<not> as_struct v then None else do {
     a \<leftarrow> as_strings (member v ''alg'');
     p \<leftarrow> as_strings (member v ''proof_type'');
     Some \<lparr>fd_Alg = a, fd_ProofType = p\<rparr> })"

(* src: pkg/pe/definition.go:52-57 Format (decoding) *)
definition format_of :: "json \<Rightarrow> pe_format option" where
  "format_of v = (if \<not> as_struct v then None else do {
     a \<leftarrow> ptr_of format_detail_of (member v ''ldp_vc'');
     b \<leftarrow> ptr_of format_detail_of (member v ''ldp_vp'');
     c \<leftarrow> ptr_of format_detail_of (member v ''jwt_vc'');
     d \<leftarrow> ptr_of format_detail_of (member v ''jwt_vp'');
     Some \<lparr>fm_LDPvc = a, fm_LDPvp = b, fm_JWTVC = c, fm_JWTVP = d\<rparr> })"

(* src: pkg/pe/definition.go:41-49 Filter (decoding) *)
definition filter_of :: "json \<Rightarrow> pe_filter option" where
  "filter_of v = (if \<not> as_struct v then None else do {
     t \<leftarrow> as_string (member v ''type'');
     f \<leftarrow> as_string (member v ''format'');
     p \<leftarrow> as_string (member v ''pattern'');
     e \<leftarrow> as_any_slice (member v ''enum'');
     Some \<lparr>fl_Type = t, fl_Format = f, fl_Pattern = p, fl_Const = json_canonical (member v ''const''), fl_Enum = e,
       fl_Minimum = json_canonical (member v ''minimum''), fl_Maximum = json_canonical (member v ''maximum'')\<rparr> })"

(* src: pkg/pe/definition.go:31-38 Field (decoding) *)
definition field_of :: "json \<Rightarrow> pe_field option" where
  "field_of v = (if \<not> as_struct v then None else do {
     p \<leftarrow> as_strings (member v ''path'');
     i \<leftarrow> as_string (member v ''id'');
     u \<leftarrow> as_string (member v ''purpose'');
     f \<leftarrow> ptr_of filter_of (member v ''filter'');
     b \<leftarrow> as_bool (member v ''optional'');
     r \<leftarrow> as_string (member v ''predicate'');
     Some \<lparr>fe_Path = p, fe_ID = i, fe_Purpose = u, fe_Filter = f, fe_Optional = b, fe_Predicate = r\<rparr> })"

(* src: pkg/pe/definition.go:24-28 Constraints (decoding) *)
definition constraints_of :: "json \<Rightarrow> constraints option" where
  "constraints_of v = (if \<not> as_struct v then None else do {
     f \<leftarrow> slice_of field_of (member v ''fields'');
     l \<leftarrow> as_string (member v ''limit_disclosure'');
     i \<leftarrow> as_string (member v ''subject_is_issuer'');
     Some \<lparr>co_Fields = f, co_LimitDisclosure = l, co_SubjectIsIssuer = i\<rparr> })"

(* src: pkg/pe/definition.go:15-21 InputDescriptor (decoding) *)
definition input_descriptor_of :: "json \<Rightarrow> input_descriptor option" where
  "input_descriptor_of v = (if \<not> as_struct v then None else do {
     i \<leftarrow> as_string (member v ''id'');
     n \<leftarrow> as_string (member v ''name'');
     u \<leftarrow> as_string (member v ''purpose'');
     c \<leftarrow> ptr_of constraints_of (member v ''constraints'');
     f \<leftarrow> ptr_of format_of (member v ''format'');
     Some \<lparr>ip_ID = i, ip_Name = n, ip_Purpose = u, ip_Constraints = c, ip_Format = f\<rparr> })"

(* src: pkg/pe/definition.go:6-12 PresentationDefinition (decoding) *)
definition definition_of :: "json \<Rightarrow> presentation_definition option" where
  "definition_of v = (if \<not> as_struct v then None else do {
     i \<leftarrow> as_string (member v ''id'');
     n \<leftarrow> as_string (member v ''name'');
     u \<leftarrow> as_string (member v ''purpose'');
     d \<leftarrow> slice_of input_descriptor_of (member v ''input_descriptors'');
     f \<leftarrow> ptr_of format_of (member v ''format'');
     Some \<lparr>presentation_definition.pd_ID = i, pd_Name = n, pd_Purpose = u, pd_InputDescriptors = d, pd_Format = f\<rparr> })"

(* src: pkg/pe/submission.go:13-24 PresentationSubmission, Descriptor (decoding) *)
definition submission_of :: "json \<Rightarrow> presentation_submission option" where
  "submission_of v = (if \<not> as_struct v then None else do {
     i \<leftarrow> as_string (member v ''id'');
     d \<leftarrow> as_string (member v ''definition_id'');
     m \<leftarrow> slice_of (\<lambda>w. if \<not> as_struct w then None else do {
            a \<leftarrow> as_string (member w ''id'');
            b \<leftarrow> as_string (member w ''format'');
            c \<leftarrow> as_string (member w ''path'');
            Some \<lparr>de_ID = a, de_Format = b, de_Path = c\<rparr> }) (member v ''descriptor_map'');
     Some \<lparr>su_ID = i, su_DefinitionID = d, su_DescriptorMap = m\<rparr> })"

definition opt_ptr :: "string \<Rightarrow> ('a \<Rightarrow> json) \<Rightarrow> 'a option \<Rightarrow> (string \<times> json) list" where
  "opt_ptr k f x = (case x of None \<Rightarrow> [] | Some y \<Rightarrow> [(k, f y)])"

definition opt_any :: "string \<Rightarrow> json \<Rightarrow> (string \<times> json) list" where
  "opt_any k v = (if v = JNull then [] else [(k, v)])"

(* src: pkg/pe/definition.go:52-63 Format, FormatDetail (JSON) *)
definition format_json :: "pe_format \<Rightarrow> json" where
  "format_json f =
     (let d = (\<lambda>x. JObj (opt_strs ''alg'' (fd_Alg x) @ opt_strs ''proof_type'' (fd_ProofType x)))
      in JObj (opt_ptr ''ldp_vc'' d (fm_LDPvc f) @ opt_ptr ''ldp_vp'' d (fm_LDPvp f) @ opt_ptr ''jwt_vc'' d (fm_JWTVC f) @
           opt_ptr ''jwt_vp'' d (fm_JWTVP f)))"

(* src: pkg/pe/definition.go:41-49 Filter (JSON) *)
definition filter_json :: "pe_filter \<Rightarrow> json" where
  "filter_json f = JObj (opt ''type'' (fl_Type f) @ opt ''format'' (fl_Format f) @ opt ''pattern'' (fl_Pattern f) @
     opt_any ''const'' (fl_Const f) @ (if fl_Enum f = [] then [] else [(''enum'', JArr (fl_Enum f))]) @
     opt_any ''minimum'' (fl_Minimum f) @ opt_any ''maximum'' (fl_Maximum f))"

text \<open>The model does not tell an absent list of paths from an empty one and writes both \<^verbatim>\<open>null\<close>.\<close>

(* src: pkg/pe/definition.go:31-38 Field (JSON) *)
definition field_json :: "pe_field \<Rightarrow> json" where
  "field_json f = JObj ([(''path'', json_slice JStr (fe_Path f))] @ opt ''id'' (fe_ID f) @ opt ''purpose'' (fe_Purpose f) @
     opt_ptr ''filter'' filter_json (fe_Filter f) @ (if fe_Optional f then [(''optional'', JBool True)] else []) @
     opt ''predicate'' (fe_Predicate f))"

(* src: pkg/pe/definition.go:15-28 InputDescriptor, Constraints (JSON) *)
definition input_descriptor_json :: "input_descriptor \<Rightarrow> json" where
  "input_descriptor_json d =
     JObj ([(''id'', JStr (ip_ID d))] @ opt ''name'' (ip_Name d) @ opt ''purpose'' (ip_Purpose d) @
       opt_ptr ''constraints'' (\<lambda>c. JObj ((if co_Fields c = [] then [] else [(''fields'', JArr (map field_json (co_Fields c)))]) @
         opt ''limit_disclosure'' (co_LimitDisclosure c) @ opt ''subject_is_issuer'' (co_SubjectIsIssuer c))) (ip_Constraints d) @
       opt_ptr ''format'' format_json (ip_Format d))"

(* src: pkg/pe/definition.go:6-12 PresentationDefinition (JSON) *)
definition definition_json :: "presentation_definition \<Rightarrow> json" where
  "definition_json d =
     JObj ([(''id'', JStr (presentation_definition.pd_ID d))] @ opt ''name'' (pd_Name d) @ opt ''purpose'' (pd_Purpose d) @
       [(''input_descriptors'', json_slice input_descriptor_json (pd_InputDescriptors d))] @ opt_ptr ''format'' format_json (pd_Format d))"

(* src: api/presentations.go:103-109 randomNonce *)
definition randomNonce :: "nat \<Rightarrow> random \<Rightarrow> string option" where
  "randomNonce n rnd = random_hex n rnd"

(* src: api/presentations.go:28-60 Server.handleCreatePresentationRequest *)
definition handleCreatePresentationRequest :: "random \<Rightarrow> instant \<Rightarrow> handler" where
  "handleCreatePresentationRequest rnd now rq s =
     (case (body_strs rq [''domain''], Option.bind (rq_body rq) (\<lambda>v. definition_of (member v ''presentation_definition''))) of
        (Some _, Some def) \<Rightarrow>
          if presentation_definition.pd_ID def = [] \<or> pd_InputDescriptors def = []
          then text_reply 400 ''presentation_definition with at least one input_descriptor required'' s
          else (case randomNonce 16 rnd of
            None \<Rightarrow> text_reply 500 ''internal error'' s
          | Some nonce \<Rightarrow>
              json_reply 201 (JObj [(''request_id'', JStr (''preq_'' @ take 16 nonce)), (''nonce'', JStr nonce),
                (''presentation_definition'', definition_json def), (''expires_at'', JStr (rfc3339 (now + 10 * minute)))]) s)
      | _ \<Rightarrow> text_reply 400 ''invalid request'' s)"

(* src: api/presentations.go:72-101 Server.handleSubmitPresentation *)
definition handleSubmitPresentation :: "(json \<Rightarrow> vpresentation option) \<Rightarrow> (pe_error \<Rightarrow> string) \<Rightarrow> handler" where
  "handleSubmitPresentation decode_vp pe_text rq s =
     (case (case rq_body rq of None \<Rightarrow> None | Some v \<Rightarrow> if \<not> as_struct v then None else do {
              def \<leftarrow> definition_of (member v ''presentation_definition'');
              vp \<leftarrow> decode_vp (member v ''presentation'');
              sub \<leftarrow> submission_of (member v ''submission'');
              Some (def, vp, sub) }) of
        None \<Rightarrow> text_reply 400 ''invalid request'' s
      | Some (def, vp, sub) \<Rightarrow>
          if presentation_definition.pd_ID def = [] then text_reply 400 ''presentation_definition required'' s
          else (case Evaluate def sub vp of
            Inl e \<Rightarrow> text_reply 400 (''evaluation error: '' @ pe_text e) s
          | Inr result \<Rightarrow>
              json_reply (if er_Satisfied result then 200 else 422)
                (JObj [(''errors'', json_slice (\<lambda>e. JStr (pe_text e)) (er_Errors result)),
                   (''matched_credentials'', JNum (int (length (er_Matched result)))), (''satisfied'', JBool (er_Satisfied result))]) s))"

section \<open>DIDComm\<close>

(* src: pkg/didcomm/didcomm.go:40-63 Message, Attachment, AttachmentData *)
record didcomm_message =
  dm_ID :: string
  dm_Type :: string
  dm_From :: string
  dm_To :: "string list"
  dm_CreatedTime :: int
  dm_ExpiresTime :: int
  dm_Body :: "(string \<times> json) list"
  dm_Attachments :: "((string \<times> string \<times> string) \<times> string \<times> json) list"

(* src: api/didcomm.go:72-76 Server.handleDIDCommReceive (message) *)
definition message_of :: "json \<Rightarrow> didcomm_message option" where
  "message_of v = (if \<not> as_struct v then None else do {
     i \<leftarrow> as_string (member v ''id'');
     t \<leftarrow> as_string (member v ''type'');
     f \<leftarrow> as_string (member v ''from'');
     r \<leftarrow> as_strings (member v ''to'');
     c \<leftarrow> as_int64 (member v ''created_time'');
     x \<leftarrow> as_int64 (member v ''expires_time'');
     b \<leftarrow> as_any_map (member v ''body'');
     a \<leftarrow> slice_of (\<lambda>w. let d = member w ''data'' in if \<not> as_struct w \<or> \<not> as_struct d then None else do {
            ai \<leftarrow> as_string (member w ''id'');
            ad \<leftarrow> as_string (member w ''description'');
            am \<leftarrow> as_string (member w ''mime_type'');
            ab \<leftarrow> as_string (member d ''base64'');
            Some ((ai, ad, am), ab, json_canonical (member d ''json'')) }) (member v ''attachments'');
     Some \<lparr>dm_ID = i, dm_Type = t, dm_From = f, dm_To = r, dm_CreatedTime = c, dm_ExpiresTime = x, dm_Body = b, dm_Attachments = a\<rparr> })"

(* src: api/didcomm.go:115-135 decodeX25519Multibase *)
definition decodeX25519Multibase :: "did_env \<Rightarrow> string \<Rightarrow> byte list option" where
  "decodeX25519Multibase E mb =
     (if length mb < 2 then None
      else case (case mb_decode E mb of Some raw \<Rightarrow> Some raw | None \<Rightarrow> b64_decode (drop 1 mb)) of
        None \<Rightarrow> None
      | Some raw \<Rightarrow>
          if length raw < 34 \<or> raw ! 0 \<noteq> 0xEC \<or> raw ! 1 \<noteq> 0x01 then None else Some (take 32 (drop 2 raw)))"

(* src: api/didcomm.go:96-110 extractX25519KeyFromDoc *)
definition extractX25519KeyFromDoc :: "did_env \<Rightarrow> document \<Rightarrow> string \<Rightarrow> byte list option" where
  "extractX25519KeyFromDoc E doc kid =
     (case find (\<lambda>vm. vm_ID vm = kid) (doc_VerificationMethod doc) of
        None \<Rightarrow> None
      | Some vm \<Rightarrow>
          if vm_Type vm \<noteq> ''X25519KeyAgreementKey2020'' then None
          else (case vm_PublicKeyMultibase vm of None \<Rightarrow> None | Some mb \<Rightarrow> decodeX25519Multibase E mb))"

(* src: api/didcomm.go:48-60 Server.handleDIDCommReceive (sender key) *)
definition sender_pub :: "did_env \<Rightarrow> (string \<Rightarrow> did_error + document) \<Rightarrow> string \<Rightarrow> byte list option" where
  "sender_pub E resolve skid =
     (case last_index skid ''#'' of
        None \<Rightarrow> None
      | Some hashIdx \<Rightarrow>
          (case resolve (take hashIdx skid) of Inl _ \<Rightarrow> None | Inr doc \<Rightarrow> extractX25519KeyFromDoc E doc skid))"

text \<open>\<open>raw\<close> is what can be read of the body, \<open>None\<close> when reading fails; the encryption key of the server and its id are
  arguments.  The answer is \<open>None\<close> when unpacking panics and the connection is dropped.\<close>

(* src: api/didcomm.go:21-92 Server.handleDIDCommReceive *)
definition handleDIDCommReceive :: "api_env \<Rightarrow> ciphers \<Rightarrow> (string \<Rightarrow> did_error + document) \<Rightarrow> string \<Rightarrow> byte list \<Rightarrow> byte list option
    \<Rightarrow> http_request \<Rightarrow> db \<Rightarrow> (response \<times> deliveries \<times> db) option" where
  "handleDIDCommReceive E C resolve encKeyID encKey raw rq s =
     (let ct = header_get rq ''Content-Type'' in
      if ct \<noteq> MediaTypeEncrypted \<and> \<not> has_prefix ct (MediaTypeEncrypted @ '';'')
      then Some (writeJSONError 415 ''invalid_media_type'' (''Content-Type must be '' @ MediaTypeEncrypted) s)
      else case raw of
        None \<Rightarrow> Some (writeJSONError 400 ''read_error'' ''failed to read request body'' s)
      | Some bytes \<Rightarrow>
          if encKeyID = [] then
            Some (writeJSONError 503 ''not_configured'' ''DIDComm encryption key not configured; set identity.enc_key in config'' s)
          else (case Unpack (en_prims E) C (en_json E) (\<lambda>kid. if kid = encKeyID then Some encKey else None)
                  (Some (sender_pub (en_did E) resolve)) (take (2 ^ 20) bytes) of
            Inl e \<Rightarrow> if e = DcPanic then None else Some (writeJSONError 400 ''decryption_failed'' ''failed to decrypt envelope'' s)
          | Inr (plaintext, senderKID) \<Rightarrow>
              (case Option.bind (en_json E (string_of plaintext)) message_of of
                 None \<Rightarrow> Some (writeJSONError 400 ''invalid_message'' ''decrypted content is not a valid DIDComm message'' s)
               | Some msg \<Rightarrow> Some (json_reply 202 (json_str_obj [(''message_id'', dm_ID msg), (''type'', dm_Type msg)]) s))))"

section \<open>Marketplace and readiness\<close>

(* src: pkg/marketplace/registry.go:10-15 Entry (JSON) *)
definition market_entry_json :: "market_entry \<Rightarrow> json" where
  "market_entry_json e = JObj ([(''issuer_did'', JStr (me_IssuerDID e)), (''schema_id'', JStr (me_SchemaID e))] @
     opt ''schema_name'' (me_SchemaName e) @ [(''issued_count'', JNum (sint (me_IssuedCount e)))])"

(* src: api/marketplace.go:10-19 Server.handleListMarketplace *)
definition handleListMarketplace :: "market option \<Rightarrow> handler" where
  "handleListMarketplace mk rq s =
     (case mk of None \<Rightarrow> json_reply 200 (JArr []) s | Some r \<Rightarrow> json_reply 200 (JArr (map market_entry_json (market_List r))) s)"

(* src: api/health.go:48-59 Server.pingStore *)
definition pingStore :: "api_env \<Rightarrow> db \<Rightarrow> bool \<times> string" where
  "pingStore E s =
     (case GetIdentity ''did:web:healthcheck.internal'' s of
        Inr _ \<Rightarrow> (True, [])
      | Inl e \<Rightarrow>
          let msg = en_store_text E e in
          if str_contains msg ''not found'' \<or> str_contains msg ''no rows'' then (True, []) else (False, msg))"

(* src: api/health.go:13-44 Server.handleReadiness *)
definition handleReadiness :: "api_env \<Rightarrow> handler" where
  "handleReadiness E rq s =
     (let (dbOK, dbErr) = pingStore E s in
      if dbOK then json_reply 200 (JObj [(''status'', JStr ''ok''), (''checks'', JObj [(''database'', JObj [(''ok'', JBool True)])])]) s
      else json_reply 503 (JObj [(''status'', JStr ''degraded''),
             (''checks'', JObj [(''database'', JObj ([(''ok'', JBool False)] @ opt ''error'' dbErr))])]) s)"

section \<open>Properties\<close>

text \<open>A submitted presentation is judged by the subjects of its credentials alone: removing its proof and changing its holder, its
  challenge and its domain does not change the answer, so that the nonce handed out with the request binds nothing.\<close>

theorem presentation_proof_unchecked:
  "handleSubmitPresentation (\<lambda>v. map_option (\<lambda>vp. vp\<lparr>vpp_Proof := None,
       vpp_Presentation := vpp_Presentation vp\<lparr>vp_Holder := h, vp_Challenge := c, vp_Domain := d\<rparr>\<rparr>) (decode_vp v)) pe_text rq s
   = handleSubmitPresentation decode_vp pe_text rq s"
proof -
  have "Evaluate def sub (vp\<lparr>vpp_Proof := None, vpp_Presentation := vpp_Presentation vp\<lparr>vp_Holder := h, vp_Challenge := c, vp_Domain := d\<rparr>\<rparr>)
      = Evaluate def sub vp" for def sub and vp :: vpresentation
    by (simp add: Evaluate_def)
  then show ?thesis
    by (cases "rq_body rq") (auto simp: handleSubmitPresentation_def split: Option.bind_split)
qed

lemma IssueAgeProof_api:
  assumes "handleIssueAgeProof E age_text sv js_compile js_validate R uuid now today rq s = (RespJSON 201 body, out)"
  obtains key req dobVC r where "sv_signingKey sv = Some key" "Option.bind (rq_body rq) age_request_of = Some req"
    "1 \<le> ar_AgeThreshold req" "ar_AgeThreshold req \<le> 150" "GetCredential (ar_DOBCredentialID req) s = Inr dobVC"
    "ar_SubjectDID req = [] \<or> sub_ID (cr_CredentialSubject (vc_Credential dobVC)) = ar_SubjectDID req"
    "fst (IssueAgeProof (en_prims E) js_compile js_validate R Map.empty uuid now today dobVC
       (ar_AgeThreshold req) (sv_issuer sv) key (sv_signingKeyID sv) (ar_VerifierDID req)) = Inr r" "body = age_result_json r"
  using assms
  by (auto simp: handleIssueAgeProof_def writeJSONError_def json_reply_def split: option.splits if_splits sum.splits)

text \<open>C36: an age proof is only issued for a stored credential of the requested subject and a threshold between 1 and 150; the answer says
  whether that birthday has been reached by the recorded date of birth, and its claims are the threshold, the result, two constants and
  the verifier.\<close>

theorem age_proof_served:
  assumes "handleIssueAgeProof E age_text sv js_compile js_validate R uuid now today rq s = (RespJSON 201 body, out)"
  shows "\<exists>req dobVC r dob. Option.bind (rq_body rq) age_request_of = Some req \<and> 1 \<le> ar_AgeThreshold req \<and> ar_AgeThreshold req \<le> 150 \<and>
     GetCredential (ar_DOBCredentialID req) s = Inr dobVC \<and>
     (ar_SubjectDID req = [] \<or> sub_ID (cr_CredentialSubject (vc_Credential dobVC)) = ar_SubjectDID req) \<and>
     parseDOB (dob_claim (sub_Claims (cr_CredentialSubject (vc_Credential dobVC)))) = Some dob \<and>
     body = age_result_json r \<and> ag_Result r = reached dob (ar_AgeThreshold req) today \<and>
     sub_Claims (cr_CredentialSubject (vc_Credential (ag_Credential r))) = age_claims (ar_AgeThreshold req) (ag_Result r) (ar_VerifierDID req)"
proof (rule IssueAgeProof_api [OF assms])
  fix key req dobVC r
  assume a: "Option.bind (rq_body rq) age_request_of = Some req" "1 \<le> ar_AgeThreshold req" "ar_AgeThreshold req \<le> 150"
      "GetCredential (ar_DOBCredentialID req) s = Inr dobVC"
      "ar_SubjectDID req = [] \<or> sub_ID (cr_CredentialSubject (vc_Credential dobVC)) = ar_SubjectDID req" "body = age_result_json r"
    and i: "fst (IssueAgeProof (en_prims E) js_compile js_validate R Map.empty uuid now today dobVC
       (ar_AgeThreshold req) (sv_issuer sv) key (sv_signingKeyID sv) (ar_VerifierDID req)) = Inr r"
  obtain cache where "IssueAgeProof (en_prims E) js_compile js_validate R Map.empty uuid now today dobVC
       (ar_AgeThreshold req) (sv_issuer sv) key (sv_signingKeyID sv) (ar_VerifierDID req) = (Inr r, cache)"
    using i by (metis prod.collapse)
  from age_proof_correct [OF this] a show ?thesis by fastforce
qed

text \<open>The readiness probe answers 200 exactly when the store is open, if the store reports a missing row as such and other errors not.\<close>

theorem readiness_tracks_store:
  assumes "str_contains (en_store_text E ErrNoRows) ''no rows''"
    and "\<not> str_contains (en_store_text E ErrClosed) ''not found''" "\<not> str_contains (en_store_text E ErrClosed) ''no rows''"
  shows "resp_status (fst (handleReadiness E rq s)) = (if t_closed s then 503 else 200) \<and> snd (snd (handleReadiness E rq s)) = s"
  using assms
  by (auto simp: handleReadiness_def pingStore_def GetIdentity_def db_read_def tbl_find_def json_reply_def split: option.splits)

lemma as_any_map_distinct: "as_any_map v = Some m \<Longrightarrow> distinct (map fst m) \<and> (\<forall>k. map_option json_canonical (map_of m k) = map_of m k)"
proof (cases v)
  case (JObj kvs)
  assume "as_any_map v = Some m"
  with JObj have c: "json_canonical (JObj kvs) = JObj m" by simp
  then have m: "m = sort_key fst (last_members (map (\<lambda>(k, v). (k, json_canonical v)) kvs))" by simp
  have "set m \<subseteq> set (map (\<lambda>(k, v). (k, json_canonical v)) kvs)"
    unfolding m using last_members_set [of "map (\<lambda>(k, v). (k, json_canonical v)) kvs"] by simp
  then have v: "(k, x) \<in> set m \<Longrightarrow> json_canonical x = x" for k x by auto
  have "map_option json_canonical (map_of m k) = map_of m k" for k
    by (cases "map_of m k") (auto dest: map_of_SomeD intro: v)
  moreover have "distinct (map fst m)" unfolding m by (intro sort_key_distinct_keys last_members_distinct_keys)
  ultimately show ?thesis by blast
qed auto

lemma sd_Serialize_Present: "sd_Serialize t = sd_Present t (map di_Key (st_Disclosures t))"
  by (simp add: sd_Serialize_def sd_Present_def)

lemma IssueSDJWT_keys:
  assumes "IssueSDJWT P R rs t0 opts = Inr tok"
  shows "map di_Key (st_Disclosures tok) = map fst (so_SelectiveClaims opts)"
proof (rule IssueSDJWT_token [OF assms decodes_json_read])
  assume "map (\<lambda>d. (di_Key d, di_Value d)) (st_Disclosures tok) = so_SelectiveClaims opts"
  then have "map fst (map (\<lambda>d. (di_Key d, di_Value d)) (st_Disclosures tok)) = map fst (so_SelectiveClaims opts)" by simp
  then show ?thesis by (simp add: comp_def)
qed

lemma revealed_all: "revealed (map fst cs) cs k = map_option json_canonical (map_of cs k)"
  by (auto simp: revealed_def map_of_eq_None_iff)

lemma issue_sdjwt_request_claims:
  assumes "Option.bind (rq_body rq) issue_sdjwt_request_of = Some req"
  shows "distinct (map fst (is_SelectiveClaims req))"
    "map_option json_canonical (map_of (is_SelectiveClaims req) k) = map_of (is_SelectiveClaims req) k"
  using assms as_any_map_distinct
  by (auto simp: issue_sdjwt_request_of_def split: Option.bind_splits if_splits)

text \<open>C8: issuing and verifying over HTTP fit together, for requests whose issuer DID, the platform's own when none is given,
  resolves to the key of the server, and that do not put a claim named iss, sub, exp or _sd among the always visible ones.
  The serialized token that \<open>handleIssueSDJWT\<close> then answers with is accepted by \<open>handleVerifySDJWT\<close> until the requested
  lifetime, 24 hours when none is given, is over, with the issuer and the subject of the request and all of its selective
  claims.\<close>

theorem sdjwt_http_roundtrip:
  assumes "signatures_ok (en_prims E)" "decodes (en_json E)" "sv_signingKey sv = Some key"
    and "Option.bind (rq_body rq) issue_sdjwt_request_of = Some req" "is_ReturnFormat req = ''serialized''"
    and "(if is_ValidFor req = [] then Some 0 else en_parse_duration E (is_ValidFor req)) = Some vf"
    and "resolveSigningKey (en_did E) resolve (if is_IssuerDID req = [] then sv_issuer sv else is_IssuerDID req) = Inr (ed_pub (en_prims E) key)"
    and "fst ` set (is_AlwaysVisibleClaims req) \<inter> {''iss'', ''sub'', ''exp'', ''_sd''} = {}"
    and "handleIssueSDJWT E sd_text sv R rs t0 rq s = (RespJSON 201 body, out)"
    and "unix now \<le> unix (t0 + (if vf \<le> 0 then 24 * hour else vf))"
    and "rq_body rq' = Some (JObj [(''token'', member body ''serialized'')])"
  shows "\<exists>r. handleVerifySDJWT E sd_text resolve now rq' s = (RespJSON 200 (verify_sdjwt_response r), [], s) \<and>
     sr_IssuerDID r = (if is_IssuerDID req = [] then sv_issuer sv else is_IssuerDID req) \<and> sr_SubjectDID r = is_SubjectDID req \<and>
     (\<forall>k. map_of (sr_DisclosedClaims r) k = map_of (is_SelectiveClaims req) k)"
proof -
  let ?o = "sdjwt_opts sv key vf req"
  have pos: "0 < hour" by (simp add: hour_def minute_def second_def)
  from assms(3,4,6,9) obtain tok where tok: "IssueSDJWT (en_prims E) R rs t0 ?o = Inr tok"
    and body: "body = issue_sdjwt_response req tok"
    by (auto simp: handleIssueSDJWT_def text_reply_def json_reply_def split: if_splits sum.splits)
  have keys: "map di_Key (st_Disclosures tok) = map fst (is_SelectiveClaims req)"
    using IssueSDJWT_keys [OF tok] by (simp add: sdjwt_opts_def)
  have "\<exists>r. sd_Verify (en_prims E) (en_json E) (en_did E) resolve now (sd_Present tok (map di_Key (st_Disclosures tok))) [] [] = Inr r \<and>
      sr_IssuerDID r = so_IssuerDID ?o \<and> sr_SubjectDID r = so_SubjectDID ?o \<and> \<not> sr_KeyBindingVerified r \<and>
      (\<forall>k. map_of (sr_DisclosedClaims r) k = revealed (map di_Key (st_Disclosures tok)) (so_SelectiveClaims ?o) k)"
    using assms(7,8,10) issue_sdjwt_request_claims(1) [OF assms(4)] pos
    by (intro sd_Verify_issued [OF assms(1,2) tok]) (auto simp: sdjwt_opts_def)
  then obtain r where r: "sd_Verify (en_prims E) (en_json E) (en_did E) resolve now (sd_Serialize tok) [] [] = Inr r"
      "sr_IssuerDID r = so_IssuerDID ?o" "sr_SubjectDID r = so_SubjectDID ?o"
      "\<And>k. map_of (sr_DisclosedClaims r) k = revealed (map fst (is_SelectiveClaims req)) (is_SelectiveClaims req) k"
    unfolding sd_Serialize_Present keys by (auto simp: sdjwt_opts_def)
  have ne: "sd_Serialize tok \<noteq> []" by (simp add: sd_Serialize_def serializeWith_def)
  have "member body ''serialized'' = JStr (sd_Serialize tok)"
    using assms(5) ne by (simp add: body issue_sdjwt_response_def member_def opt_def to_lower_simps)
  with assms(11) have b: "body_strs rq' [''token'', ''expected_nonce'', ''expected_audience''] = Some [sd_Serialize tok, [], []]"
    by (simp add: body_strs_def as_struct_def member_def to_lower_simps)
  from r ne have "handleVerifySDJWT E sd_text resolve now rq' s = (RespJSON 200 (verify_sdjwt_response r), [], s)"
    by (simp add: handleVerifySDJWT_def b json_reply_def)
  with r revealed_all issue_sdjwt_request_claims(2) [OF assms(4)] show ?thesis by (auto simp: sdjwt_opts_def)
qed

section \<open>Witnesses\<close>

definition demo_vc_server :: server where
  "demo_vc_server = demo_server\<lparr>sv_signingKey := Some demo_key, sv_issuer := ''did:web:a'', sv_signingKeyID := ''k1''\<rparr>"

definition demo_vc_api :: api_env where
  "demo_vc_api = demo_api\<lparr>en_did := demo_vc_env, en_store_text := (\<lambda>e. if e = ErrNoRows then ''no rows'' else ''closed'')\<rparr>"

definition demo_post :: "json \<Rightarrow> http_request" where
  "demo_post v = demo_get\<lparr>rq_method := ''POST'', rq_body := Some v\<rparr>"

theorem readiness_tracks_store_witness:
  "resp_status (fst (handleReadiness demo_vc_api demo_get (OpenSQLite\<lparr>t_closed := True\<rparr>))) = 503"
  using readiness_tracks_store [of demo_vc_api demo_get "OpenSQLite\<lparr>t_closed := True\<rparr>"]
  by (simp add: demo_vc_api_def has_prefix_def)

definition demo_age_db :: db where
  "demo_age_db = OpenSQLite\<lparr>t_credentials := [\<lparr>crow_id = ''c1'', crow_subject_did = ''did:web:b'', crow_issuer_did = ''did:web:a'',
     crow_schema_id = [], crow_valid_from = 0, crow_valid_until = None, crow_credential = demo_dob_vc, crow_created_at = 0\<rparr>]\<rparr>"

definition demo_age_post :: http_request where
  "demo_age_post = demo_post (JObj [(''dob_credential_id'', JStr ''c1''), (''age_threshold'', JNum 18)])"

lemma demo_age_answer:
  "\<exists>body out. handleIssueAgeProof demo_vc_api (\<lambda>_. []) demo_vc_server (\<lambda>url doc. Some doc) (\<lambda>sch data. True) demo_age_registry ''u'' 0
     (2024, 4, 30) demo_age_post demo_age_db = (RespJSON 201 body, out)"
proof -
  obtain r cache where r: "IssueAgeProof demo_prims (\<lambda>url doc. Some doc) (\<lambda>sch data. True) demo_age_registry Map.empty ''u'' 0 (2024, 4, 30)
     demo_dob_vc 18 ''did:web:a'' demo_key ''k1'' [] = (Inr r, cache)" using demo_age_proof_ok by blast
  have "Option.bind (rq_body demo_age_post) age_request_of =
      Some \<lparr>ar_DOBCredentialID = ''c1'', ar_AgeThreshold = 18, ar_SubjectDID = [], ar_VerifierDID = []\<rparr>"
    by (simp add: demo_age_post_def demo_post_def age_request_of_def as_struct_def member_def to_lower_simps)
  then show ?thesis
    by (simp add: handleIssueAgeProof_def demo_vc_server_def demo_age_db_def OpenSQLite_def GetCredential_def db_read_def tbl_find_def
        demo_vc_api_def demo_api_def r json_reply_def)
qed

theorem age_proof_served_witness:
  "\<exists>body out dob r. handleIssueAgeProof demo_vc_api (\<lambda>_. []) demo_vc_server (\<lambda>url doc. Some doc) (\<lambda>sch data. True) demo_age_registry
     ''u'' 0 (2024, 4, 30) demo_age_post demo_age_db = (RespJSON 201 body, out) \<and> body = age_result_json r \<and> ag_Result r = reached dob 18 (2024, 4, 30)"
proof -
  obtain body out where a: "handleIssueAgeProof demo_vc_api (\<lambda>_. []) demo_vc_server (\<lambda>url doc. Some doc) (\<lambda>sch data. True)
      demo_age_registry ''u'' 0 (2024, 4, 30) demo_age_post demo_age_db = (RespJSON 201 body, out)"
    using demo_age_answer by blast
  have "Option.bind (rq_body demo_age_post) age_request_of = Some req \<Longrightarrow> ar_AgeThreshold req = 18" for req
    by (auto simp: demo_age_post_def demo_post_def age_request_of_def as_struct_def member_def to_lower_simps)
  with a age_proof_served [OF a] show ?thesis by metis
qed

definition demo_sd_post :: http_request where
  "demo_sd_post = demo_post (JObj [(''subject_did'', JStr ''did:web:b''), (''selective_claims'', JObj [(''name'', JStr ''x'')]),
     (''return_format'', JStr ''serialized'')])"

definition demo_sd_request :: issue_sdjwt_request where
  "demo_sd_request = \<lparr>is_IssuerDID = [], is_SubjectDID = ''did:web:b'', is_SchemaID = [], is_SelectiveClaims = [(''name'', JStr ''x'')],
     is_AlwaysVisibleClaims = [], is_ValidFor = [], is_ReturnFormat = ''serialized''\<rparr>"

lemma demo_sd_decoded: "Option.bind (rq_body demo_sd_post) issue_sdjwt_request_of = Some demo_sd_request"
  by (simp add: demo_sd_post_def demo_post_def issue_sdjwt_request_of_def demo_sd_request_def as_struct_def member_def to_lower_simps)

lemma demo_sd_answer:
  "\<exists>body out. handleIssueSDJWT demo_vc_api (\<lambda>_. []) demo_vc_server demo_registry [Some (\<lambda>i. 1)] 0 demo_sd_post OpenSQLite = (RespJSON 201 body, out)"
  by (simp add: handleIssueSDJWT_def demo_sd_decoded demo_sd_request_def demo_vc_server_def sdjwt_opts_def IssueSDJWT_def
      has_prefix_def Let_def NewDisclosure_def json_reply_def)

theorem sdjwt_http_roundtrip_witness:
  "\<exists>body out r. handleIssueSDJWT demo_vc_api (\<lambda>_. []) demo_vc_server demo_registry [Some (\<lambda>i. 1)] 0 demo_sd_post OpenSQLite = (RespJSON 201 body, out) \<and>
     handleVerifySDJWT demo_vc_api (\<lambda>_. []) demo_sd_resolve hour (demo_post (JObj [(''token'', member body ''serialized'')])) OpenSQLite =
       (RespJSON 200 (verify_sdjwt_response r), [], OpenSQLite) \<and> map_of (sr_DisclosedClaims r) ''name'' = Some (JStr ''x'')"
proof -
  obtain body out where a: "handleIssueSDJWT demo_vc_api (\<lambda>_. []) demo_vc_server demo_registry [Some (\<lambda>i. 1)] 0 demo_sd_post OpenSQLite =
      (RespJSON 201 body, out)" using demo_sd_answer by blast
  have e: "en_prims demo_vc_api = demo_prims" "en_json demo_vc_api = json_read" "en_did demo_vc_api = demo_vc_env"
    "sv_signingKey demo_vc_server = Some demo_key"
    by (simp_all add: demo_vc_api_def demo_api_def demo_vc_server_def)
  have "\<exists>r. handleVerifySDJWT demo_vc_api (\<lambda>_. []) demo_sd_resolve hour (demo_post (JObj [(''token'', member body ''serialized'')])) OpenSQLite =
       (RespJSON 200 (verify_sdjwt_response r), [], OpenSQLite) \<and>
     sr_IssuerDID r = (if is_IssuerDID demo_sd_request = [] then sv_issuer demo_vc_server else is_IssuerDID demo_sd_request) \<and>
     sr_SubjectDID r = is_SubjectDID demo_sd_request \<and>
     (\<forall>k. map_of (sr_DisclosedClaims r) k = map_of (is_SelectiveClaims demo_sd_request) k)"
    by (rule sdjwt_http_roundtrip [where vf = 0, OF _ _ e(4) demo_sd_decoded _ _ _ _ a])
      (simp_all add: e demo_signatures_ok decodes_json_read demo_signing_key demo_sd_request_def demo_post_def unix_def hour_def
        minute_def second_def)
  with a show ?thesis by (auto simp: demo_sd_request_def)
qed

end
