(* ===== verification/Webauthn.thy ===== *)
theory Webauthn
  imports Api_Credentials Api_Safety
begin

text \<open>
  Passkeys, \<^verbatim>\<open>src/api/webauthn.go\<close>: the registration and login ceremonies, the list and deletion of passkeys, and the anchoring
  of their keys in the DID document.  The WebAuthn library is the record \<open>webauthn_lib\<close>, over an abstract type \<open>'ses\<close> of its
  session data; \<open>passkey_ok\<close> is what its documentation promises about a login.  The two session tables of the server are the
  record \<open>wa_sessions\<close>, which the ceremonies give back with the answer and the cookie they set.  \<open>cookie\<close> looks up a cookie of
  the request.
\<close>

section \<open>Users and the library\<close>

(* src: api/webauthn.go:27-30 waUser *)
record wa_user =
  wu_subjectDID :: string
  wu_creds :: "webauthn_credential list"

record wa_credential =
  wc_ID :: "byte list"
  wc_PublicKey :: "byte list"
  wc_AttestationType :: string
  wc_AAGUID :: "byte list"
  wc_SignCount :: "32 word"
  wc_Transport :: "string list"

text \<open>Of a credential ID that is not base64url, \<^verbatim>\<open>DecodeString\<close> returns the bytes before the error; \<open>b64_prefix\<close> is that result.\<close>

(* src: api/webauthn.go:37-55 waUser.WebAuthnCredentials *)
definition WebAuthnCredentials :: "(string \<Rightarrow> byte list) \<Rightarrow> wa_user \<Rightarrow> wa_credential list" where
  "WebAuthnCredentials b64_prefix u = map (\<lambda>c.
     \<lparr>wc_ID = (case b64_decode (wa_CredentialID c) of Some b \<Rightarrow> b | None \<Rightarrow> b64_prefix (wa_CredentialID c)),
      wc_PublicKey = wa_PublicKeyCBOR c, wc_AttestationType = [], wc_AAGUID = [], wc_SignCount = wa_SignCount c,
      wc_Transport = wa_Transports c\<rparr>) (wu_creds u)"

record 'ses webauthn_lib =
  wl_BeginRegistration :: "wa_user \<Rightarrow> string + json \<times> 'ses"
  wl_FinishRegistration :: "wa_user \<Rightarrow> 'ses \<Rightarrow> http_request \<Rightarrow> string + wa_credential"
  wl_BeginDiscoverableLogin :: "string + json \<times> 'ses"
  wl_FinishPasskeyLogin :: "(byte list \<Rightarrow> byte list \<Rightarrow> store_error + wa_user) \<Rightarrow> 'ses \<Rightarrow> http_request \<Rightarrow> string + wa_user \<times> wa_credential"

text \<open>A login only succeeds for a user that the callback returned, with a credential that has the ID of one of the user's.\<close>

definition passkey_ok :: "(string \<Rightarrow> byte list) \<Rightarrow> 'ses webauthn_lib \<Rightarrow> bool" where
  "passkey_ok b64_prefix W \<longleftrightarrow> (\<forall>h ses rq u c. wl_FinishPasskeyLogin W h ses rq = Inr (u, c) \<longrightarrow>
     (\<exists>rawID userHandle. h rawID userHandle = Inr u) \<and> wc_ID c \<in> wc_ID ` set (WebAuthnCredentials b64_prefix u))"

section \<open>Sessions\<close>

(* src: api/webauthn.go:21-24 waSessionEntry *)
record 'ses wa_entry =
  we_session :: 'ses
  we_expiresAt :: instant

record 'ses wa_sessions =
  ws_reg :: "(string \<times> 'ses wa_entry) list"
  ws_auth :: "(string \<times> 'ses wa_entry) list"

(* src: api/webauthn.go:369-373 waRandomID *)
definition waRandomID :: "random \<Rightarrow> string" where
  "waRandomID rnd = hex_encode (case rnd of None \<Rightarrow> replicate 16 0 | Some f \<Rightarrow> map f [0..<16])"

(* src: api/webauthn.go:376-386 waCookie *)
record wa_cookie =
  ck_Name :: string
  ck_Value :: string
  ck_HttpOnly :: bool
  ck_Secure :: bool
  ck_SameSiteStrict :: bool
  ck_MaxAge :: int
  ck_Path :: string

(* src: api/webauthn.go:376-386 waCookie *)
definition waCookie :: "string \<Rightarrow> string \<Rightarrow> int \<Rightarrow> wa_cookie" where
  "waCookie name value maxAge = \<lparr>ck_Name = name, ck_Value = value, ck_HttpOnly = True, ck_Secure = True, ck_SameSiteStrict = True,
     ck_MaxAge = maxAge, ck_Path = ''/''\<rparr>"

text \<open>The eviction that runs every five minutes.\<close>

(* src: api/server.go:165-183 NewServer (eviction) *)
definition wa_evict :: "instant \<Rightarrow> 'ses wa_sessions \<Rightarrow> 'ses wa_sessions" where
  "wa_evict now ws = \<lparr>ws_reg = filter (\<lambda>(k, e). \<not> we_expiresAt e < now) (ws_reg ws),
     ws_auth = filter (\<lambda>(k, e). \<not> we_expiresAt e < now) (ws_auth ws)\<rparr>"

type_synonym 'ses wa_result = "(response \<times> deliveries \<times> db) \<times> wa_cookie list \<times> 'ses wa_sessions"

section \<open>Anchoring\<close>

(* src: api/webauthn.go:332-366 anchorWebAuthnKey *)
definition anchorWebAuthnKey :: "instant \<Rightarrow> string \<Rightarrow> string \<Rightarrow> byte list \<Rightarrow> db \<Rightarrow> db" where
  "anchorWebAuthnKey now subjectDID credID pubKey s =
     (let doc = (case GetDocument subjectDID s of Inr d \<Rightarrow> d
                 | Inl _ \<Rightarrow> zero_document\<lparr>doc_Context := did_DefaultContext, doc_ID := subjectDID\<rparr>);
          vmID = subjectDID @ ''#webauthn-'' @ take 8 credID
      in if vmID \<in> vm_ID ` set (doc_VerificationMethod doc) then s
         else case SaveDocument now (doc\<lparr>doc_VerificationMethod := doc_VerificationMethod doc @
                  [\<lparr>vm_ID = vmID, vm_Type = ''WebAuthnPublicKey2023'', vm_Controller = subjectDID,
                    vm_PublicKeyMultibase = Some (''u'' @ b64_encode pubKey), vm_Revoked = False, vm_NotBefore = None\<rparr>],
                doc_Authentication := doc_Authentication doc @ [vmID]\<rparr>) s of
           Inl _ \<Rightarrow> s
         | Inr s' \<Rightarrow> s')"

section \<open>Registration\<close>

(* src: api/webauthn.go:62-95 Server.handleWebAuthnRegisterBegin *)
definition handleWebAuthnRegisterBegin :: "api_env \<Rightarrow> server \<Rightarrow> 'ses webauthn_lib option \<Rightarrow> random \<Rightarrow> instant \<Rightarrow> 'ses wa_sessions
    \<Rightarrow> http_request \<Rightarrow> db \<Rightarrow> 'ses wa_result" where
  "handleWebAuthnRegisterBegin E sv wa rnd now ws rq s =
     (case wa of
        None \<Rightarrow> (text_reply 501 ''webauthn not configured'' s, [], ws)
      | Some W \<Rightarrow>
     (case subject_of E sv now rq of
        Inl _ \<Rightarrow> (text_reply 401 ''unauthorized'' s, [], ws)
      | Inr subjectDID \<Rightarrow>
     (case ListWebAuthnCredentials subjectDID s of
        Inl _ \<Rightarrow> (text_reply 500 ''internal error'' s, [], ws)
      | Inr creds \<Rightarrow>
     (case wl_BeginRegistration W \<lparr>wu_subjectDID = subjectDID, wu_creds = creds\<rparr> of
        Inl e \<Rightarrow> (text_reply 500 (''begin registration failed: '' @ e) s, [], ws)
      | Inr (creation, session) \<Rightarrow>
          let sessionID = waRandomID rnd in
          (json_reply 200 creation s, [waCookie ''wa_reg_session'' sessionID 300],
           ws\<lparr>ws_reg := map_put sessionID \<lparr>we_session = session, we_expiresAt = now + 5 * minute\<rparr> (ws_reg ws)\<rparr>)))))"

text \<open>\<open>uuid_text\<close> is the text of a \<^verbatim>\<open>uuid.UUID\<close>.  The dash in the message is U+2014.\<close>

(* src: api/webauthn.go:136-155 Server.handleWebAuthnRegisterFinish (credential) *)
definition wa_stored :: "(byte list \<Rightarrow> string) \<Rightarrow> instant \<Rightarrow> string \<Rightarrow> wa_credential \<Rightarrow> webauthn_credential" where
  "wa_stored uuid_text now subjectDID credential =
     \<lparr>wa_CredentialID = b64_encode (wc_ID credential), wa_SubjectDID = subjectDID, wa_PublicKeyCBOR = wc_PublicKey credential,
      wa_AttestationType = wc_AttestationType credential,
      wa_AAGUID = (if length (wc_AAGUID credential) = 16 then uuid_text (wc_AAGUID credential) else []),
      wa_SignCount = wc_SignCount credential, wa_Name = [], wa_Transports = wc_Transport credential, wa_CreatedAt = now,
      wa_LastUsedAt = None\<rparr>"

(* src: api/webauthn.go:100-171 Server.handleWebAuthnRegisterFinish *)
definition handleWebAuthnRegisterFinish :: "api_env \<Rightarrow> server \<Rightarrow> 'ses webauthn_lib option \<Rightarrow> (byte list \<Rightarrow> string) \<Rightarrow> (string \<Rightarrow> string option)
    \<Rightarrow> instant \<Rightarrow> 'ses wa_sessions \<Rightarrow> http_request \<Rightarrow> db \<Rightarrow> 'ses wa_result" where
  "handleWebAuthnRegisterFinish E sv wa uuid_text cookie now ws rq s =
     (case wa of
        None \<Rightarrow> (text_reply 501 ''webauthn not configured'' s, [], ws)
      | Some W \<Rightarrow>
     (case subject_of E sv now rq of
        Inl _ \<Rightarrow> (text_reply 401 ''unauthorized'' s, [], ws)
      | Inr subjectDID \<Rightarrow>
     (case cookie ''wa_reg_session'' of
        None \<Rightarrow> (text_reply 400 (''registration session not found '' @ [CHR 0xE2, CHR 0x80, CHR 0x94] @ '' call begin first'') s, [], ws)
      | Some sid \<Rightarrow>
          let found = map_of (ws_reg ws) sid; ws = ws\<lparr>ws_reg := map_del sid (ws_reg ws)\<rparr> in
     (case found of
        None \<Rightarrow> (text_reply 400 ''registration session expired'' s, [], ws)
      | Some entry \<Rightarrow>
     if now > we_expiresAt entry then (text_reply 400 ''registration session expired'' s, [], ws)
     else (case ListWebAuthnCredentials subjectDID s of
        Inl _ \<Rightarrow> (text_reply 500 ''internal error'' s, [], ws)
      | Inr creds \<Rightarrow>
     (case wl_FinishRegistration W \<lparr>wu_subjectDID = subjectDID, wu_creds = creds\<rparr> (we_session entry) rq of
        Inl e \<Rightarrow> (text_reply 400 (''registration failed: '' @ e) s, [], ws)
      | Inr credential \<Rightarrow>
          let stored = wa_stored uuid_text now subjectDID credential in
          (on_store (SaveWebAuthnCredential stored s) (\<lambda>e. text_reply 500 (''save credential: '' @ en_store_text E e) s)
             (\<lambda>s. json_reply 201 (json_str_obj [(''credential_id'', wa_CredentialID stored), (''status'', ''registered''),
                (''subject_did'', subjectDID)]) (anchorWebAuthnKey now subjectDID (wa_CredentialID stored) (wc_PublicKey credential) s)),
           [], ws)))))))"

section \<open>Login\<close>

(* src: api/webauthn.go:178-199 Server.handleWebAuthnLoginBegin *)
definition handleWebAuthnLoginBegin :: "'ses webauthn_lib option \<Rightarrow> random \<Rightarrow> instant \<Rightarrow> 'ses wa_sessions \<Rightarrow> http_request \<Rightarrow> db \<Rightarrow> 'ses wa_result" where
  "handleWebAuthnLoginBegin wa rnd now ws rq s =
     (case wa of
        None \<Rightarrow> (text_reply 501 ''webauthn not configured'' s, [], ws)
      | Some W \<Rightarrow>
     (case wl_BeginDiscoverableLogin W of
        Inl e \<Rightarrow> (text_reply 500 (''begin login failed: '' @ e) s, [], ws)
      | Inr (assertion, session) \<Rightarrow>
          let sessionID = waRandomID rnd in
          (json_reply 200 assertion s, [waCookie ''wa_auth_session'' sessionID 300],
           ws\<lparr>ws_auth := map_put sessionID \<lparr>we_session = session, we_expiresAt = now + 5 * minute\<rparr> (ws_auth ws)\<rparr>)))"

(* src: api/webauthn.go:222-229 Server.handleWebAuthnLoginFinish (user lookup) *)
definition wa_lookup :: "db \<Rightarrow> byte list \<Rightarrow> byte list \<Rightarrow> store_error + wa_user" where
  "wa_lookup s rawID userHandle =
     (let subjectDID = string_of userHandle in
      case ListWebAuthnCredentials subjectDID s of
        Inl e \<Rightarrow> Inl e
      | Inr creds \<Rightarrow> Inr \<lparr>wu_subjectDID = subjectDID, wu_creds = creds\<rparr>)"

(* src: api/webauthn.go:237-244 Server.handleWebAuthnLoginFinish (sign count) *)
definition wa_touch :: "instant \<Rightarrow> wa_credential \<Rightarrow> db \<Rightarrow> db" where
  "wa_touch now credential s =
     (case GetWebAuthnCredential (b64_encode (wc_ID credential)) s of
        Inl _ \<Rightarrow> s
      | Inr existing \<Rightarrow>
          (case UpdateWebAuthnCredential (existing\<lparr>wa_SignCount := wc_SignCount credential, wa_LastUsedAt := Some now\<rparr>) s of
             Inl _ \<Rightarrow> s | Inr s' \<Rightarrow> s'))"

(* src: api/webauthn.go:204-257 Server.handleWebAuthnLoginFinish *)
definition handleWebAuthnLoginFinish :: "server \<Rightarrow> 'ses webauthn_lib option \<Rightarrow> (string \<Rightarrow> string option) \<Rightarrow> instant \<Rightarrow> 'ses wa_sessions
    \<Rightarrow> http_request \<Rightarrow> db \<Rightarrow> 'ses wa_result" where
  "handleWebAuthnLoginFinish sv wa cookie now ws rq s =
     (case wa of
        None \<Rightarrow> (text_reply 501 ''webauthn not configured'' s, [], ws)
      | Some W \<Rightarrow>
     (case cookie ''wa_auth_session'' of
        None \<Rightarrow> (text_reply 400 (''login session not found '' @ [CHR 0xE2, CHR 0x80, CHR 0x94] @ '' call begin first'') s, [], ws)
      | Some sid \<Rightarrow>
          let found = map_of (ws_auth ws) sid; ws = ws\<lparr>ws_auth := map_del sid (ws_auth ws)\<rparr> in
     (case found of
        None \<Rightarrow> (text_reply 401 ''login session expired'' s, [], ws)
      | Some entry \<Rightarrow>
     if now > we_expiresAt entry then (text_reply 401 ''login session expired'' s, [], ws)
     else (case wl_FinishPasskeyLogin W (wa_lookup s) (we_session entry) rq of
        Inl e \<Rightarrow> (text_reply 401 (''login failed: '' @ e) s, [], ws)
      | Inr (user, credential) \<Rightarrow>
          (publish_reply sv now ''session.created'' (json_str_obj [(''method'', ''webauthn''), (''subject_did'', wu_subjectDID user)])
             (RespJSON 200 (json_str_obj [(''status'', ''authenticated''), (''subject_did'', wu_subjectDID user)])) (wa_touch now credential s),
           [], ws)))))"

section \<open>Management\<close>

(* src: api/webauthn.go:275-293 Server.handleListWebAuthnCredentials (view) *)
definition wa_view :: "webauthn_credential \<Rightarrow> json" where
  "wa_view c = JObj ([(''credential_id'', JStr (wa_CredentialID c))] @ opt ''name'' (wa_Name c) @ opt_strs ''transports'' (wa_Transports c) @
     opt ''attestation_type'' (wa_AttestationType c) @ [(''created_at'', json_time (wa_CreatedAt c))] @
     opt_time ''last_used_at'' (wa_LastUsedAt c))"

(* src: api/webauthn.go:263-296 Server.handleListWebAuthnCredentials *)
definition handleListWebAuthnCredentials :: "api_env \<Rightarrow> server \<Rightarrow> instant \<Rightarrow> handler" where
  "handleListWebAuthnCredentials E sv now = with_subject E sv now (\<lambda>subjectDID rq s.
     case ListWebAuthnCredentials subjectDID s of
       Inl _ \<Rightarrow> text_reply 500 ''internal error'' s
     | Inr creds \<Rightarrow> json_reply 200 (JArr (map wa_view creds)) s)"

(* src: api/webauthn.go:300-325 Server.handleDeleteWebAuthnCredential *)
definition handleDeleteWebAuthnCredential :: "api_env \<Rightarrow> server \<Rightarrow> instant \<Rightarrow> handler" where
  "handleDeleteWebAuthnCredential E sv now = with_subject E sv now (\<lambda>subjectDID rq s.
     let credID = path_value rq ''id'' in
     if credID = [] then text_reply 400 ''credential id required'' s
     else case GetWebAuthnCredential credID s of
       Inl _ \<Rightarrow> text_reply 404 ''credential not found'' s
     | Inr existing \<Rightarrow>
         if wa_SubjectDID existing \<noteq> subjectDID then text_reply 403 ''forbidden'' s
         else on_store (DeleteWebAuthnCredential credID s) (\<lambda>_. text_reply 500 ''internal error'' s) no_content)"

section \<open>Properties\<close>

lemma login_finish_session:
  "ws_auth (snd (snd (handleWebAuthnLoginFinish sv (Some W) cookie now ws rq s))) =
     (case cookie ''wa_auth_session'' of None \<Rightarrow> ws_auth ws | Some sid \<Rightarrow> map_del sid (ws_auth ws))"
  by (auto simp: handleWebAuthnLoginFinish_def Let_def split: option.splits sum.splits)

text \<open>C22: A login session serves once: whatever the outcome of finishing a login, finishing again with the same cookie is refused and leaves
  the store as it is, whatever the second request carries.\<close>

theorem passkey_session_once:
  assumes "cookie ''wa_auth_session'' = Some sid" "cookie' ''wa_auth_session'' = Some sid"
    and "handleWebAuthnLoginFinish sv (Some W) cookie now ws rq s = (answer, cookies, ws1)"
  shows "fst (handleWebAuthnLoginFinish sv (Some W) cookie' later ws1 rq' s') = text_reply 401 ''login session expired'' s'"
proof -
  have "map_of (ws_auth ws1) sid = None"
    using login_finish_session [of sv W cookie now ws rq s] assms(1,3) by simp
  with assms(2) show ?thesis by (simp add: handleWebAuthnLoginFinish_def)
qed

lemma login_finish_success:
  assumes "handleWebAuthnLoginFinish sv (Some W) cookie now ws rq s = ((RespJSON 200 body, out), rest)"
  obtains sid entry u c where "cookie ''wa_auth_session'' = Some sid" "map_of (ws_auth ws) sid = Some entry" "now \<le> we_expiresAt entry"
    "wl_FinishPasskeyLogin W (wa_lookup s) (we_session entry) rq = Inr (u, c)"
    "body = json_str_obj [(''status'', ''authenticated''), (''subject_did'', wu_subjectDID u)]"
  using assms
  by (auto simp: handleWebAuthnLoginFinish_def Let_def text_reply_def publish_reply_def not_less
      split: option.splits if_splits sum.splits)

text \<open>C21: A passkey login answers with a subject only on an unexpired session that the server holds, and only when a passkey of that very
  subject is stored under the ID of the credential that was used.\<close>

theorem passkey_login_sound:
  assumes "passkey_ok b64_prefix W"
    and "handleWebAuthnLoginFinish sv (Some W) cookie now ws rq s = ((RespJSON 200 body, out), rest)"
  shows "\<exists>sid entry u c row. cookie ''wa_auth_session'' = Some sid \<and> map_of (ws_auth ws) sid = Some entry \<and> now \<le> we_expiresAt entry \<and>
     body = json_str_obj [(''status'', ''authenticated''), (''subject_did'', wu_subjectDID u)] \<and>
     row \<in> set (t_webauthn s) \<and> wa_SubjectDID row = wu_subjectDID u \<and>
     wc_ID c = (case b64_decode (wa_CredentialID row) of Some b \<Rightarrow> b | None \<Rightarrow> b64_prefix (wa_CredentialID row)) \<and>
     wl_FinishPasskeyLogin W (wa_lookup s) (we_session entry) rq = Inr (u, c)"
proof (rule login_finish_success [OF assms(2)])
  fix sid entry u c
  assume l: "cookie ''wa_auth_session'' = Some sid" "map_of (ws_auth ws) sid = Some entry" "now \<le> we_expiresAt entry"
    "wl_FinishPasskeyLogin W (wa_lookup s) (we_session entry) rq = Inr (u, c)"
    "body = json_str_obj [(''status'', ''authenticated''), (''subject_did'', wu_subjectDID u)]"
  from assms(1) l(4) obtain rawID uh where h: "wa_lookup s rawID uh = Inr u"
    and i: "wc_ID c \<in> wc_ID ` set (WebAuthnCredentials b64_prefix u)" unfolding passkey_ok_def by blast
  from h have creds: "\<forall>r\<in>set (wu_creds u). r \<in> set (t_webauthn s) \<and> wa_SubjectDID r = wu_subjectDID u"
    by (auto simp: wa_lookup_def Let_def ListWebAuthnCredentials_def db_read_def order_desc_def split: if_splits)
  from i obtain row where "row \<in> set (wu_creds u)"
    "wc_ID c = (case b64_decode (wa_CredentialID row) of Some b \<Rightarrow> b | None \<Rightarrow> b64_prefix (wa_CredentialID row))"
    by (auto simp: WebAuthnCredentials_def)
  with creds l show ?thesis by blast
qed

text \<open>Deleting a passkey does not withdraw its key: only the owner can delete it, its row is gone, and every DID document, with the
  verification methods that were anchored at registration, stays as it was.\<close>

theorem deleted_passkey_stays_anchored:
  assumes "handleDeleteWebAuthnCredential E sv now rq s = (RespEmpty 204, ds, s')"
  shows "(\<exists>c. GetWebAuthnCredential (path_value rq ''id'') s = Inr c \<and> subject_of E sv now rq = Inr (wa_SubjectDID c)) \<and>
     GetWebAuthnCredential (path_value rq ''id'') s' = Inl ErrNoRows \<and> (\<forall>did. GetDocument did s' = GetDocument did s)"
proof -
  from assms obtain c where c: "GetWebAuthnCredential (path_value rq ''id'') s = Inr c" "subject_of E sv now rq = Inr (wa_SubjectDID c)"
    and d: "DeleteWebAuthnCredential (path_value rq ''id'') s = Inr s'"
    by (auto simp: handleDeleteWebAuthnCredential_def with_subject_def Let_def text_reply_def on_store_def no_content_def
        split: sum.splits if_splits)
  from d have o: "db_open s" and s': "s' = t_webauthn_update (tbl_delete wa_CredentialID (path_value rq ''id'')) s"
    by (auto simp: DeleteWebAuthnCredential_def db_defs split: if_splits)
  have "GetWebAuthnCredential (path_value rq ''id'') s' = Inl ErrNoRows" using passkey.get_del [OF o d] by simp
  moreover have "GetDocument did s' = GetDocument did s" for did by (simp add: s' GetDocument_def db_read_def)
  ultimately show ?thesis using c by blast
qed

section \<open>Witnesses\<close>

definition demo_cid :: string where
  "demo_cid = b64_encode [1, 2, 3]"

definition demo_passkey :: webauthn_credential where
  "demo_passkey = \<lparr>wa_CredentialID = demo_cid, wa_SubjectDID = ''did:a'', wa_PublicKeyCBOR = [9], wa_AttestationType = [],
     wa_AAGUID = [], wa_SignCount = 0, wa_Name = [], wa_Transports = [], wa_CreatedAt = 0, wa_LastUsedAt = None\<rparr>"

definition demo_passkey_db :: db where
  "demo_passkey_db = OpenSQLite\<lparr>t_webauthn := [demo_passkey]\<rparr>"

text \<open>A library that logs in the user named by the session data, with the first of the user's passkeys.\<close>

definition demo_lib :: "string webauthn_lib" where
  "demo_lib = \<lparr>wl_BeginRegistration = (\<lambda>u. Inl []), wl_FinishRegistration = (\<lambda>u ses rq. Inl []), wl_BeginDiscoverableLogin = Inl [],
     wl_FinishPasskeyLogin = (\<lambda>h ses rq. case h [] (bytes_of ses) of Inl _ \<Rightarrow> Inl []
       | Inr u \<Rightarrow> (case WebAuthnCredentials (\<lambda>_. []) u of [] \<Rightarrow> Inl [] | c # _ \<Rightarrow> Inr (u, c)))\<rparr>"

lemma demo_passkey_ok: "passkey_ok (\<lambda>_. []) demo_lib"
  by (auto simp: passkey_ok_def demo_lib_def split: sum.splits list.splits)

definition demo_sessions :: "string wa_sessions" where
  "demo_sessions = \<lparr>ws_reg = [], ws_auth = [(''c'', \<lparr>we_session = ''did:a'', we_expiresAt = 5\<rparr>)]\<rparr>"

lemma demo_passkey_login:
  "\<exists>out rest. handleWebAuthnLoginFinish demo_server (Some demo_lib) (\<lambda>_. Some ''c'') 0 demo_sessions demo_get demo_passkey_db =
     ((RespJSON 200 (json_str_obj [(''status'', ''authenticated''), (''subject_did'', ''did:a'')]), out), rest)"
  by (simp add: handleWebAuthnLoginFinish_def demo_sessions_def demo_lib_def wa_lookup_def ListWebAuthnCredentials_def demo_passkey_db_def
      OpenSQLite_def db_read_def order_desc_def demo_passkey_def WebAuthnCredentials_def publish_reply_def Let_def)

theorem passkey_session_once_witness:
  "\<exists>answer cookies ws1. handleWebAuthnLoginFinish demo_server (Some demo_lib) (\<lambda>_. Some ''c'') 0 demo_sessions demo_get demo_passkey_db =
     (answer, cookies, ws1) \<and>
     fst (handleWebAuthnLoginFinish demo_server (Some demo_lib) (\<lambda>_. Some ''c'') 1 ws1 demo_get demo_passkey_db) =
       text_reply 401 ''login session expired'' demo_passkey_db"
proof -
  obtain answer cookies ws1 where h: "handleWebAuthnLoginFinish demo_server (Some demo_lib) (\<lambda>_. Some ''c'') 0 demo_sessions demo_get
      demo_passkey_db = (answer, cookies, ws1)"
    by (cases "handleWebAuthnLoginFinish demo_server (Some demo_lib) (\<lambda>_. Some ''c'') 0 demo_sessions demo_get demo_passkey_db")
  from passkey_session_once [OF _ _ h, of "''c''" "\<lambda>_. Some ''c''" 1 demo_get demo_passkey_db] h show ?thesis
    by (intro exI conjI) simp_all
qed

theorem passkey_login_sound_witness:
  "\<exists>body out rest row. handleWebAuthnLoginFinish demo_server (Some demo_lib) (\<lambda>_. Some ''c'') 0 demo_sessions demo_get demo_passkey_db =
     ((RespJSON 200 body, out), rest) \<and> row \<in> set (t_webauthn demo_passkey_db)"
proof -
  obtain body out rest where h: "handleWebAuthnLoginFinish demo_server (Some demo_lib) (\<lambda>_. Some ''c'') 0 demo_sessions demo_get demo_passkey_db =
     ((RespJSON 200 body, out), rest)" using demo_passkey_login by blast
  from passkey_login_sound [OF demo_passkey_ok h] h show ?thesis by blast
qed

theorem deleted_passkey_stays_anchored_witness:
  "\<exists>ds s'. handleDeleteWebAuthnCredential demo_api (NewServer demo_api demo_cfg) 0
       (demo_bearer\<lparr>rq_path := [(''id'', demo_cid)], rq_body := None\<rparr>) demo_passkey_db = (RespEmpty 204, ds, s') \<and>
     GetWebAuthnCredential demo_cid s' = Inl ErrNoRows"
proof -
  let ?rq = "demo_bearer\<lparr>rq_path := [(''id'', demo_cid)], rq_body := None\<rparr>"
  have p: "path_value ?rq ''id'' = demo_cid" by (simp add: path_value_def assoc_get_def)
  have ne: "demo_cid \<noteq> []" by code_simp
  have g: "GetWebAuthnCredential demo_cid demo_passkey_db = Inr demo_passkey"
    by (simp add: GetWebAuthnCredential_def demo_passkey_db_def OpenSQLite_def db_read_def tbl_find_def demo_passkey_def)
  obtain s' where d: "DeleteWebAuthnCredential demo_cid demo_passkey_db = Inr s'"
    by (simp add: DeleteWebAuthnCredential_def demo_passkey_db_def OpenSQLite_def db_write_def)
  have o: "wa_SubjectDID demo_passkey = ''did:a''" by (simp add: demo_passkey_def)
  have h: "handleDeleteWebAuthnCredential demo_api (NewServer demo_api demo_cfg) 0 ?rq demo_passkey_db = (RespEmpty 204, [], s')"
    unfolding handleDeleteWebAuthnCredential_def with_subject_def demo_subject
    by (simp add: p ne g d o on_store_def no_content_def Let_def)
  from deleted_passkey_stays_anchored [OF h] h show ?thesis unfolding p by blast
qed

end
