(* ===== verification/Spec2Isabelle.thy ===== *)
theory Spec2Isabelle
  imports Go_Prelude Go_Encoding Go_Json Go_Time GF256 Interpolation Recovery Schema Schema_Core Crypto
    Consent Did Vc Vc_Status Db Store Sqlite Sqlite_Inv Json_Decode Go_Http Jwt Oidc Oidc_Flow Oidc_Ext Delivery
    Events Authn Bridge Api_Server Api_Json Api_User Api_Recovery Api_Admin Api_Credentials Api_Auth Api_Routes Api_Signin Api_Safety
    Sdjwt Watermark Trust Pe Age_Proof Key_Wrap Didcomm Oidc_Rp Providers
    Migrations Marketplace Keystore Api_Vc Webauthn
begin

text \<open>
  A verification development of the identity service under \<^verbatim>\<open>src/\<close>: a server that keeps decentralised identities, issues and
  verifies credentials about them, acts as an OpenID Connect provider, and lets people sign in with passwords, passkeys,
  magic links and external providers.

  \<^bold>\<open>Parts of the program.\<close>  The packages under \<^verbatim>\<open>src/pkg\<close> are libraries without a store: schemas, cryptography, consent, DIDs,
  credentials, secret sharing, trust, presentation exchange, DIDComm, key files and the marketplace.  \<^verbatim>\<open>src/internal\<close> has the
  SQLite store, the event bus, the audit log, the authentication factors, the DID resolver and the bridge to external
  providers.  \<^verbatim>\<open>src/oidc\<close> is the authorization server and \<^verbatim>\<open>src/api\<close> the HTTP server, whose handlers call all of them.

  \<^bold>\<open>How the model reads.\<close>  A struct is a record, an operation is a function of the same name (with a prefix such as \<^verbatim>\<open>vc_\<close> or
  \<^verbatim>\<open>sl_\<close> where two packages share a name), and an error is a constructor of the component's error type in \<^verbatim>\<open>Inl\<close>; a Go panic
  that the code can reach is an error value too.  The comment above a definition names the file, lines and function it
  translates.  The store is the record \<^verbatim>\<open>db\<close> of tables; a handler maps a request and a store to an answer, the webhook
  deliveries it starts and the new store.  The clock, random bytes, HTTP and DNS answers and the code of libraries are
  arguments; what is relied on of a library is a named predicate such as \<^verbatim>\<open>signatures_ok\<close>, \<^verbatim>\<open>decodes\<close>, \<^verbatim>\<open>aes_ok\<close> or
  \<^verbatim>\<open>key_ciphers_ok\<close>, and every property that uses one has a witness with a concrete instance.

  \<^bold>\<open>Theories.\<close>
  \<^item> Go's library: \<^verbatim>\<open>Go_Prelude\<close> (bytes, strings, numbers, instants), \<^verbatim>\<open>Go_Encoding\<close> (hex, base64url), \<^verbatim>\<open>Go_Json\<close> and
    \<^verbatim>\<open>Json_Decode\<close> (encoder and decoder), \<^verbatim>\<open>Go_Time\<close> (RFC 3339), \<^verbatim>\<open>Go_Http\<close> (requests and answers).
  \<^item> \<^verbatim>\<open>src/pkg/recovery\<close>: \<^verbatim>\<open>GF256\<close>, \<^verbatim>\<open>Interpolation\<close>, \<^verbatim>\<open>Recovery\<close>.  The byte field is an instance of the class of fields; enough
    shares give the secret, fewer are compatible with every secret.
  \<^item> \<^verbatim>\<open>src/pkg/schema\<close>: \<^verbatim>\<open>Schema\<close>, \<^verbatim>\<open>Schema_Core\<close>.  The registry, validation whose cache cannot be observed, and the built-in
    schemas, which register without a conflict.
  \<^item> \<^verbatim>\<open>src/pkg/crypto\<close>, \<^verbatim>\<open>src/pkg/keystore\<close>: \<^verbatim>\<open>Crypto\<close>, \<^verbatim>\<open>Keystore\<close>.  Saved keys load again.
  \<^item> \<^verbatim>\<open>src/pkg/consent\<close>: \<^verbatim>\<open>Consent\<close>.  Access needs a live grant, an explicit one for extra-sensitive schemas.
  \<^item> \<^verbatim>\<open>src/pkg/did\<close>, \<^verbatim>\<open>src/internal/resolver\<close>: \<^verbatim>\<open>Did\<close>.  Methods, the address filter of web requests, the cache.
  \<^item> \<^verbatim>\<open>src/pkg/vc\<close>: \<^verbatim>\<open>Vc\<close> (issue, verify), \<^verbatim>\<open>Vc_Status\<close> (the status list refines a set of indices), \<^verbatim>\<open>Sdjwt\<close>, \<^verbatim>\<open>Watermark\<close>,
    \<^verbatim>\<open>Age_Proof\<close>.  Issued credentials verify, and what verifies was signed by a key of the issuer.
  \<^item> \<^verbatim>\<open>src/pkg/trust\<close>, \<^verbatim>\<open>src/pkg/pe\<close>, \<^verbatim>\<open>src/pkg/didcomm\<close>, \<^verbatim>\<open>src/pkg/marketplace\<close>: \<^verbatim>\<open>Trust\<close>, \<^verbatim>\<open>Pe\<close>, \<^verbatim>\<open>Key_Wrap\<close> and \<^verbatim>\<open>Didcomm\<close>,
    \<^verbatim>\<open>Marketplace\<close>.
  \<^item> \<^verbatim>\<open>src/internal/store\<close>: \<^verbatim>\<open>Db\<close> (tables and the contract of keyed tables), \<^verbatim>\<open>Store\<close> (entities), \<^verbatim>\<open>Sqlite\<close> (operations),
    \<^verbatim>\<open>Sqlite_Inv\<close> (the invariant), \<^verbatim>\<open>Migrations\<close>.
  \<^item> \<^verbatim>\<open>src/internal/events\<close>, \<^verbatim>\<open>auditlog\<close>: \<^verbatim>\<open>Delivery\<close> (the contract of bounded retries), \<^verbatim>\<open>Events\<close>.  The audit log is a hash chain.
  \<^item> \<^verbatim>\<open>src/internal/authn\<close>: \<^verbatim>\<open>Authn\<close>.  \<^verbatim>\<open>src/internal/bridge\<close>: \<^verbatim>\<open>Bridge\<close>, \<^verbatim>\<open>Oidc_Rp\<close>, \<^verbatim>\<open>Providers\<close>.
  \<^item> \<^verbatim>\<open>src/oidc\<close>: \<^verbatim>\<open>Jwt\<close>, \<^verbatim>\<open>Oidc\<close> (codes, refresh, device and exchange grants), \<^verbatim>\<open>Oidc_Flow\<close> (their properties), \<^verbatim>\<open>Oidc_Ext\<close> (the
    other endpoints).
  \<^item> \<^verbatim>\<open>src/api\<close>: \<^verbatim>\<open>Api_Server\<close> and \<^verbatim>\<open>Api_Routes\<close> (middleware, route table, dispatch), \<^verbatim>\<open>Api_Json\<close>, \<^verbatim>\<open>Api_User\<close>, \<^verbatim>\<open>Api_Recovery\<close>,
    \<^verbatim>\<open>Api_Admin\<close>, \<^verbatim>\<open>Api_Credentials\<close>, \<^verbatim>\<open>Api_Auth\<close>, \<^verbatim>\<open>Api_Vc\<close>, \<^verbatim>\<open>Webauthn\<close> (the handlers), \<^verbatim>\<open>Api_Signin\<close> and \<^verbatim>\<open>Api_Safety\<close> (their
    properties).  The dispatch follows \<^verbatim>\<open>http.ServeMux\<close>: paths are cleaned or redirected, segments unescaped, and literals
    preferred to wildcards.

  \<^bold>\<open>Interfaces.\<close>  \<^verbatim>\<open>keyed_store\<close> is what a client of a table relies on after a deletion and is interpreted on twelve tables of
  the store; \<^verbatim>\<open>retry_loop\<close> bounds the attempts of a loop and is interpreted on webhook and back-channel delivery;
  \<^verbatim>\<open>revocation_register\<close> is interpreted on the status list.

  \<^bold>\<open>What the properties show.\<close>  Flows that must work do: the code flow ends in a usable token, and credentials, SD-JWTs,
  DIDComm messages, wrapped keys, key files and sign-in states survive their round trips.  What must be refused is: codes,
  refresh tokens, device codes, magic links and passkey sessions work once; exchanged tokens do not gain scope; forged
  disclosures, altered credentials and altered audit entries are detected, up to a collision of SHA-256 on the very texts
  compared; operator routes need the key; the dialer of did:web refuses a name whose lookup gives an address in one of the listed internal ranges.  Some theorems
  record where the code falls short of its comments, for example that key-bound SD-JWT presentations are always refused and
  that the sender named by a DIDComm message can be forged.

  \<^bold>\<open>Bounds.\<close>  All definitions are total and no fuel is used: loops recurse on a list or on the number of attempts left, or have a
  termination proof (the inverse in the byte field, varints, the JSON reader), and a delivery makes at most the attempts the
  source fixes.  Bytes are 8-bit words, the marketplace counters and the age of a
  sign-in state wrap at 64 bits; instants are integers in nanoseconds and do not overflow.  The law \<^verbatim>\<open>decodes\<close> is stated for
  all strings; Go replaces bytes that are not valid UTF-8, so for strings with such bytes the round trips that rest on it say
  nothing about the program.

  \<^bold>\<open>Not modelled.\<close>
  \<^item> \<^verbatim>\<open>src/cmd\<close> and \<^verbatim>\<open>src/api/metrics.go\<close>: command-line wiring, process signals and Prometheus counters, all input and output.
  \<^item> The refill of the rate limiter, which is floating-point arithmetic on the wall clock; whether it admits a request is an
    argument.  Logging, and the two handlers \<^verbatim>\<open>handleLiveness\<close> and \<^verbatim>\<open>handleDIDDocument\<close> with constant answers.
  \<^item> \<^verbatim>\<open>CredentialHandler\<close> of \<^verbatim>\<open>src/oidc/oid4vci.go\<close> and \<^verbatim>\<open>handleCredentialFreshness\<close> of \<^verbatim>\<open>src/api/batch.go\<close>: they use a struct as a
    map and do not type-check, so they have no meaning to model.
  \<^item> The part of the SAML provider that drives its library: reading key files, fetching metadata, building requests.
  \<^item> Interleaving inside an operation: a handler is one step, as are operations that hold a lock.
  \<^item> The SQL engine: a statement is its effect on a list of rows.
  \<^item> The network: a dial is an argument.  The dialer of did:web checks the addresses of its own lookup, and the dial that
    follows resolves the name again.
\<close>

end
